(* ===== verification/Prelude.thy ===== *)
theory Prelude
  imports Complex_Main "HOL-Library.AList" "HOL-Library.Char_ord" "HOL-Library.List_Lexorder"
    "HOL-Library.Product_Lexorder"
begin

text \<open>
  Shared vocabulary of the development: identifiers and instants, the JSON values the services keep
  in JSONB columns, the Python string operations the code uses, and the relational operations of
  the ORM session (select, first row by an ordering, update of one row) over tables kept as lists.

  Identifiers are UUIDs in their canonical text form, so that \<^verbatim>\<open>str(x)\<close> is the identity and the order
  of identifiers is the order of their text. Instants are integers (microseconds since the epoch).
  Strings are lists of characters with code points below 256. Python floats are real numbers.
\<close>

section \<open>Types\<close>

type_synonym uuid = string
type_synonym timestamp = int

datatype json =
    JNull
  | JBool bool
  | JInt int
  | JReal real
  | JStr string
  | JList "json list"
  | JObj "(string \<times> json) list"

type_synonym jdict = "(string \<times> json) list"

text \<open>Python's truth value of a JSON value.\<close>

fun truthy :: "json \<Rightarrow> bool" where
  "truthy JNull = False"
| "truthy (JBool b) = b"
| "truthy (JInt i) = (i \<noteq> 0)"
| "truthy (JReal r) = (r \<noteq> 0)"
| "truthy (JStr s) = (s \<noteq> [])"
| "truthy (JList xs) = (xs \<noteq> [])"
| "truthy (JObj d) = (d \<noteq> [])"

text \<open>The exceptions a handler can end with; an HTTP error carries its status and its code, a
service's own error its class and code.\<close>

datatype error =
    ValueError string
  | MultipleResultsFound
  | HTTPError int string "uuid option"
  | NotSelfError
  | WindowExpiredError
  | TypeError
  | IntegrityError
  | SelfApprovalError "uuid option"
  | PublishLintError "(string \<times> nat) list"
  | ServiceError string string
  | ReviewedDraftChanged uuid int

named_theorems row_simps \<open>reading rows back after an update of one row\<close>
named_theorems gate_defs \<open>definitions of the operations on one gate row\<close>

section \<open>Python strings\<close>

definition is_py_space :: "char \<Rightarrow> bool" where
  "is_py_space c \<longleftrightarrow> (let n = (of_char c :: nat) in
     (9 \<le> n \<and> n \<le> 13) \<or> (28 \<le> n \<and> n \<le> 32) \<or> n = 133 \<or> n = 160)"

definition py_strip :: "string \<Rightarrow> string" where
  "py_strip s = rev (dropWhile is_py_space (rev (dropWhile is_py_space s)))"

text \<open>\<^verbatim>\<open>not (s or "").strip()\<close>: the text is missing or holds white space only.\<close>

fun is_blank :: "string option \<Rightarrow> bool" where
  "is_blank None = True"
| "is_blank (Some s) = (py_strip s = [])"

definition py_lower_char :: "char \<Rightarrow> char" where
  "py_lower_char c = (let n = (of_char c :: nat) in
     if (65 \<le> n \<and> n \<le> 90) \<or> (192 \<le> n \<and> n \<le> 222 \<and> n \<noteq> 215) then char_of (n + 32) else c)"

definition py_lower :: "string \<Rightarrow> string" where
  "py_lower s = map py_lower_char s"

fun split_on :: "char \<Rightarrow> string \<Rightarrow> string list" where
  "split_on d [] = [[]]"
| "split_on d (c # cs) =
     (if c = d then [] # split_on d cs
      else (case split_on d cs of [] \<Rightarrow> [[c]] | w # ws \<Rightarrow> (c # w) # ws))"

definition starts_with :: "string \<Rightarrow> string \<Rightarrow> bool" where
  "starts_with p s \<longleftrightarrow> take (length p) s = p"

text \<open>
  \<^verbatim>\<open>uuid.UUID(text)\<close>: the prefixes and hyphens are dropped, thirty-two hexadecimal digits remain, and
  the canonical form groups them 8-4-4-4-12 in lower case; anything else is a \<^verbatim>\<open>ValueError\<close>.
\<close>

function remove_sub :: "string \<Rightarrow> string \<Rightarrow> string" where
  "remove_sub p [] = []"
| "remove_sub p (c # s) =
     (if p \<noteq> [] \<and> starts_with p (c # s) then remove_sub p (drop (length p) (c # s))
      else c # remove_sub p s)"
  by pat_completeness auto
termination
  by (relation "measure (\<lambda>(p, s). length s)") (auto simp: neq_Nil_conv)

definition strip_chars :: "char list \<Rightarrow> string \<Rightarrow> string" where
  "strip_chars cs s =
     rev (dropWhile (\<lambda>c. c \<in> set cs) (rev (dropWhile (\<lambda>c. c \<in> set cs) s)))"

definition is_hex_digit :: "char \<Rightarrow> bool" where
  "is_hex_digit c \<longleftrightarrow> (let n = (of_char c :: nat) in
     (48 \<le> n \<and> n \<le> 57) \<or> (65 \<le> n \<and> n \<le> 70) \<or> (97 \<le> n \<and> n \<le> 102))"

definition uuid_digits :: "string \<Rightarrow> string" where
  "uuid_digits s = remove_sub ''-'' (strip_chars ''{}'' (remove_sub ''uuid:'' (remove_sub ''urn:'' s)))"

definition py_uuid :: "string \<Rightarrow> uuid option" where
  "py_uuid s = (let h = py_lower (uuid_digits s) in
     if length h = 32 \<and> list_all is_hex_digit h
     then Some (take 8 h @ ''-'' @ take 4 (drop 8 h) @ ''-'' @ take 4 (drop 12 h) @ ''-''
                @ take 4 (drop 16 h) @ ''-'' @ drop 20 h)
     else None)"

lemma all_space_strip: "list_all is_py_space s \<Longrightarrow> py_strip s = []"
  by (induction s) (auto simp: py_strip_def list_all_iff dropWhile_eq_Nil_conv)

lemma py_strip_Nil_iff: "py_strip s = [] \<longleftrightarrow> list_all is_py_space s"
proof
  assume "py_strip s = []"
  then have a: "\<forall>c \<in> set (dropWhile is_py_space s). is_py_space c"
    by (simp add: py_strip_def dropWhile_eq_Nil_conv)
  have "dropWhile is_py_space s = []"
  proof (rule ccontr)
    assume ne: "dropWhile is_py_space s \<noteq> []"
    then have "\<not> is_py_space (hd (dropWhile is_py_space s))" by (rule hd_dropWhile)
    with a ne show False by simp
  qed
  then show "list_all is_py_space s" by (simp add: dropWhile_eq_Nil_conv list_all_iff)
qed (rule all_space_strip)

lemma py_lower_char_space: "is_py_space (py_lower_char c) = is_py_space c"
proof -
  define n where "n = (of_char c :: nat)"
  have n: "n < 256" by (simp add: n_def)
  have c: "c = char_of n" by (simp add: n_def)
  have "of_char (py_lower_char c) = (if (65 \<le> n \<and> n \<le> 90) \<or> (192 \<le> n \<and> n \<le> 222 \<and> n \<noteq> 215) then n + 32 else n)"
    using n by (simp add: py_lower_char_def Let_def n_def [symmetric])
  then show ?thesis by (auto simp: is_py_space_def Let_def n_def [symmetric])
qed

lemma py_lower_char_idem: "py_lower_char (py_lower_char c) = py_lower_char c"
proof -
  define n where "n = (of_char c :: nat)"
  have n: "n < 256" by (simp add: n_def)
  have "of_char (py_lower_char c) = (if (65 \<le> n \<and> n \<le> 90) \<or> (192 \<le> n \<and> n \<le> 222 \<and> n \<noteq> 215) then n + 32 else n)"
    using n by (simp add: py_lower_char_def Let_def n_def [symmetric])
  then have "\<not> ((65 \<le> (of_char (py_lower_char c) :: nat) \<and> (of_char (py_lower_char c) :: nat) \<le> 90)
     \<or> (192 \<le> (of_char (py_lower_char c) :: nat) \<and> (of_char (py_lower_char c) :: nat) \<le> 222
        \<and> (of_char (py_lower_char c) :: nat) \<noteq> 215))"
    by (simp split: if_splits)
  then show ?thesis unfolding py_lower_char_def [of "py_lower_char c"] Let_def by (rule if_not_P)
qed

lemma py_lower_idem: "py_lower (py_lower s) = py_lower s"
  by (simp add: py_lower_def py_lower_char_idem)

lemma dropWhile_lower: "dropWhile is_py_space (py_lower s) = py_lower (dropWhile is_py_space s)"
  by (induction s) (auto simp: py_lower_def py_lower_char_space)

lemma py_strip_lower_comm: "py_strip (py_lower s) = py_lower (py_strip s)"
  using dropWhile_lower by (simp add: py_strip_def py_lower_def rev_map)

lemma dropWhile_rev_fixed:
  "dropWhile P s = s \<Longrightarrow> dropWhile P (rev (dropWhile P (rev s))) = rev (dropWhile P (rev s))"
proof (cases "rev (dropWhile P (rev s))")
  case (Cons c t)
  assume s: "dropWhile P s = s"
  have "s = rev (dropWhile P (rev s)) @ rev (takeWhile P (rev s))"
    by (metis rev_append rev_rev_ident takeWhile_dropWhile_id)
  with Cons have "s = c # t @ rev (takeWhile P (rev s))" by simp
  then have "\<not> P c" using s by (metis dropWhile_eq_self_iff list.distinct(1) list.sel(1))
  with Cons show ?thesis by simp
qed (metis dropWhile.simps(1))

lemma py_strip_idem: "py_strip (py_strip s) = py_strip s"
  using dropWhile_rev_fixed [of is_py_space "dropWhile is_py_space s"]
  by (simp add: py_strip_def dropWhile_idem)

lemma py_strip_lower: "py_strip (py_lower (py_strip s)) = py_lower (py_strip s)"
  by (simp add: py_strip_lower_comm py_strip_idem)

lemma split_on_not_Nil [simp]: "split_on d s \<noteq> []"
  by (cases s) (auto split: list.splits)

section \<open>Rows\<close>

text \<open>
  \<^verbatim>\<open>scalar_one_or_none()\<close> raises when the query has several rows; \<^verbatim>\<open>limit(1)\<close> takes the first of
  the query's order. An \<^verbatim>\<open>ORDER BY k ASC/DESC ... LIMIT 1\<close> is the least or greatest row by its key.
\<close>

fun scalar_one_or_none :: "'r list \<Rightarrow> error + 'r option" where
  "scalar_one_or_none [] = Inr None"
| "scalar_one_or_none [r] = Inr (Some r)"
| "scalar_one_or_none (r # r' # rs) = Inl MultipleResultsFound"

definition first_row :: "'r list \<Rightarrow> 'r option" where
  "first_row rs = (case rs of [] \<Rightarrow> None | r # _ \<Rightarrow> Some r)"

fun max_row :: "('r \<Rightarrow> 'k::linorder) \<Rightarrow> 'r list \<Rightarrow> 'r option" where
  "max_row k [] = None"
| "max_row k (r # rs) =
     (case max_row k rs of None \<Rightarrow> Some r | Some m \<Rightarrow> if k m \<le> k r then Some r else Some m)"

fun min_row :: "('r \<Rightarrow> 'k::linorder) \<Rightarrow> 'r list \<Rightarrow> 'r option" where
  "min_row k [] = None"
| "min_row k (r # rs) =
     (case min_row k rs of None \<Rightarrow> Some r | Some m \<Rightarrow> if k r \<le> k m then Some r else Some m)"

definition upd_row :: "('r \<Rightarrow> uuid) \<Rightarrow> uuid \<Rightarrow> ('r \<Rightarrow> 'r) \<Rightarrow> 'r list \<Rightarrow> 'r list" where
  "upd_row key i f rs = map (\<lambda>r. if key r = i then f r else r) rs"

definition find_row :: "('r \<Rightarrow> uuid) \<Rightarrow> uuid \<Rightarrow> 'r list \<Rightarrow> 'r option" where
  "find_row key i rs = List.find (\<lambda>r. key r = i) rs"

lemma max_row_None [simp]: "max_row k rs = None \<longleftrightarrow> rs = []"
  by (cases rs) (auto split: option.splits)

lemma min_row_None [simp]: "min_row k rs = None \<longleftrightarrow> rs = []"
  by (cases rs) (auto split: option.splits)

lemma max_row_in: "max_row k rs = Some m \<Longrightarrow> m \<in> set rs"
  by (induction rs arbitrary: m) (auto split: option.splits if_splits)

lemma min_row_in: "min_row k rs = Some m \<Longrightarrow> m \<in> set rs"
  by (induction rs arbitrary: m) (auto split: option.splits if_splits)

lemma max_row_ge: "max_row k rs = Some m \<Longrightarrow> r \<in> set rs \<Longrightarrow> k r \<le> k m"
  by (induction rs arbitrary: m) (auto split: option.splits if_splits)

lemma min_row_le: "min_row k rs = Some m \<Longrightarrow> r \<in> set rs \<Longrightarrow> k m \<le> k r"
  by (induction rs arbitrary: m) (auto split: option.splits if_splits)

lemma scalar_one_or_none_Some: "scalar_one_or_none rs = Inr (Some r) \<longleftrightarrow> rs = [r]"
  by (cases rs rule: scalar_one_or_none.cases) auto

lemma scalar_one_or_none_None: "scalar_one_or_none rs = Inr None \<longleftrightarrow> rs = []"
  by (cases rs rule: scalar_one_or_none.cases) auto

lemma scalar_one_or_none_le1: "length rs \<le> 1 \<Longrightarrow> scalar_one_or_none rs = Inr (first_row rs)"
  by (cases rs rule: scalar_one_or_none.cases) (auto simp: first_row_def)

lemma length_upd_row [simp]: "length (upd_row key i f rs) = length rs"
  by (simp add: upd_row_def)

lemma upd_row_map_key:
  "(\<And>r. key (f r) = key r) \<Longrightarrow> map key (upd_row key i f rs) = map key rs"
  by (induction rs) (auto simp: upd_row_def)

lemma find_row_Some: "find_row key i rs = Some r \<Longrightarrow> r \<in> set rs \<and> key r = i"
  by (induction rs) (auto simp: find_row_def split: if_splits)

lemma find_row_None: "find_row key i rs = None \<longleftrightarrow> (\<forall>r \<in> set rs. key r \<noteq> i)"
  by (induction rs) (auto simp: find_row_def)

lemma find_row_member: "distinct (map key xs) \<Longrightarrow> r \<in> set xs \<Longrightarrow> find_row key (key r) xs = Some r"
  by (induction xs) (auto simp: find_row_def)

lemma find_SomeD: "List.find P xs = Some x \<Longrightarrow> x \<in> set xs \<and> P x"
  by (induction xs) (auto split: if_splits)

lemma find_append: "List.find P (xs @ ys) = (case List.find P xs of None \<Rightarrow> List.find P ys | Some x \<Rightarrow> Some x)"
  by (induction xs) auto

lemma filter_key_le1:
  "distinct (map f xs) \<Longrightarrow> filter (\<lambda>x. f x = k) xs
     = (case List.find (\<lambda>x. f x = k) xs of None \<Rightarrow> [] | Some x \<Rightarrow> [x])"
proof (induction xs)
  case (Cons a xs)
  show ?case
  proof (cases "f a = k")
    case True
    then have "filter (\<lambda>x. f x = k) xs = []" using Cons.prems by (auto simp: filter_empty_conv) (metis image_eqI)
    with True show ?thesis by simp
  next
    case False
    with Cons show ?thesis by simp
  qed
qed simp

lemma upd_row_list_update:
  assumes "distinct (map key xs)" "j < length xs" "key (xs ! j) = i"
  shows "upd_row key i f xs = xs[j := f (xs ! j)]"
proof (rule nth_equalityI)
  fix m assume "m < length (upd_row key i f xs)"
  then have m: "m < length xs" by simp
  have "key (xs ! m) = i \<longleftrightarrow> m = j"
    using assms m nth_eq_iff_index_eq [OF assms(1), of m j] by auto
  then show "upd_row key i f xs ! m = xs[j := f (xs ! j)] ! m"
    using m assms(2) by (auto simp: upd_row_def nth_list_update)
qed simp

lemma distinct_upd_row:
  assumes ids: "distinct (map key xs)" and ks: "distinct (map k xs)"
    and r: "r \<in> set xs" and new: "k (f r) \<notin> k ` set xs \<or> k (f r) = k r"
  shows "distinct (map k (upd_row key (key r) f xs))"
proof -
  obtain j where j: "j < length xs" "xs ! j = r" using r by (auto simp: in_set_conv_nth)
  have "k (f r) \<notin> set (map k xs) - {map k xs ! j}" using new j by auto
  then have "distinct ((map k xs)[j := k (f r)])" by (rule distinct_list_update [OF ks])
  then show ?thesis
    using upd_row_list_update [OF ids, of j "key r" f] j by (simp add: map_update)
qed

lemma list_all2_upd_row:
  assumes "distinct (map key xs)" "r \<in> set xs" "R r (f r)" "\<And>x. R x x"
  shows "list_all2 R xs (upd_row key (key r) f xs)"
proof -
  obtain j where j: "j < length xs" "xs ! j = r" using assms(2) by (auto simp: in_set_conv_nth)
  then have "upd_row key (key r) f xs = xs[j := f r]"
    using upd_row_list_update [OF assms(1), of j "key r" f] by simp
  then show ?thesis using j assms(3,4) by (auto simp: list_all2_conv_all_nth nth_list_update)
qed

lemma list_all2_origin:
  assumes "list_all2 R xs ys" "y \<in> set ys"
  obtains x where "x \<in> set xs" "R x y"
  using assms by (metis in_set_conv_nth list_all2_conv_all_nth)

lemma list_all2_image:
  assumes "list_all2 R xs ys" "x \<in> set xs"
  obtains y where "y \<in> set ys" "R x y"
  using assms by (metis in_set_conv_nth list_all2_conv_all_nth)

section \<open>The contract of a table with a primary key\<close>

text \<open>
  A table is read by its primary key and written one row at a time; what a client of the session
  relies on is that the row it wrote is the row it reads back, and that other rows are untouched.
  The locale is interpreted for every table of the model whose rows are updated in place.
\<close>

locale row_table =
  fixes key :: "'r \<Rightarrow> uuid"
    and get :: "uuid \<Rightarrow> 'r list \<Rightarrow> 'r option"
    and upd :: "uuid \<Rightarrow> ('r \<Rightarrow> 'r) \<Rightarrow> 'r list \<Rightarrow> 'r list"
  assumes get_key: "get i rs = Some r \<Longrightarrow> key r = i \<and> r \<in> set rs"
    and get_upd: "(\<And>r. key (f r) = key r) \<Longrightarrow>
          get j (upd i f rs) = (if j = i then map_option f (get j rs) else get j rs)"
    and keys_upd: "(\<And>r. key (f r) = key r) \<Longrightarrow> map key (upd i f rs) = map key rs"
begin

lemma get_upd_same: "(\<And>r. key (f r) = key r) \<Longrightarrow> get i (upd i f rs) = map_option f (get i rs)"
  by (simp add: get_upd)

lemma get_upd_other: "(\<And>r. key (f r) = key r) \<Longrightarrow> j \<noteq> i \<Longrightarrow> get j (upd i f rs) = get j rs"
  by (simp add: get_upd)

lemma distinct_upd: "(\<And>r. key (f r) = key r) \<Longrightarrow>
    distinct (map key (upd i f rs)) = distinct (map key rs)"
  by (simp add: keys_upd)

end

lemma row_table_rows: "row_table key (find_row key) (upd_row key)"
proof
  show "find_row key i rs = Some r \<Longrightarrow> key r = i \<and> r \<in> set rs" for i rs r
    using find_row_Some by metis
  show "(\<And>r. key (f r) = key r) \<Longrightarrow>
      find_row key j (upd_row key i f rs)
        = (if j = i then map_option f (find_row key j rs) else find_row key j rs)" for f i j rs
    by (induction rs) (auto simp: find_row_def upd_row_def)
  show "(\<And>r. key (f r) = key r) \<Longrightarrow> map key (upd_row key i f rs) = map key rs" for f i rs
    by (rule upd_row_map_key)
qed

section \<open>Transition systems\<close>

text \<open>
  The contract of a component whose operations are the steps of a relation: an invariant that the
  initial states have and every step keeps, and a relation between states that every step respects.
  What follows for every run is proved here once.
\<close>

locale transition_system =
  fixes init :: "'s \<Rightarrow> bool" and step :: "'s \<Rightarrow> 's \<Rightarrow> bool" and inv :: "'s \<Rightarrow> bool"
  assumes init_inv: "init s \<Longrightarrow> inv s"
    and step_inv: "inv s \<Longrightarrow> step s s' \<Longrightarrow> inv s'"
begin

lemma run_inv: "step\<^sup>*\<^sup>* s s' \<Longrightarrow> inv s \<Longrightarrow> inv s'"
  by (induction rule: rtranclp_induct) (auto intro: step_inv)

lemma reachable_inv: "init s \<Longrightarrow> step\<^sup>*\<^sup>* s s' \<Longrightarrow> inv s'"
  by (blast intro: run_inv init_inv)

lemma run_keeps:
  assumes "step\<^sup>*\<^sup>* s s'" "inv s" "P s" and keep: "\<And>a b. inv a \<Longrightarrow> step a b \<Longrightarrow> P a \<Longrightarrow> P b"
  shows "P s'"
proof -
  have "inv s' \<and> P s'" using assms(1,2,3)
    by (induction rule: rtranclp_induct) (auto intro: step_inv keep)
  then show ?thesis ..
qed

end

section \<open>JSON objects\<close>

text \<open>\<^verbatim>\<open>{**a, **b}\<close> and \<^verbatim>\<open>a.update(b)\<close>: the keys of the second win, new keys come last.\<close>

definition dict_update :: "(string \<times> 'v) list \<Rightarrow> (string \<times> 'v) list \<Rightarrow> (string \<times> 'v) list" where
  "dict_update a b = foldl (\<lambda>m kv. AList.update (fst kv) (snd kv) m) a b"

fun json_list :: "json option \<Rightarrow> json list" where
  \<comment> \<open>\<^verbatim>\<open>list(x or [])\<close> where the column holds a list or nothing\<close>
  "json_list (Some (JList xs)) = xs"
| "json_list _ = []"

definition jopt_str :: "string option \<Rightarrow> json" where
  "jopt_str s = (case s of None \<Rightarrow> JNull | Some t \<Rightarrow> JStr t)"

definition jopt_time :: "timestamp option \<Rightarrow> json" where
  "jopt_time t = (case t of None \<Rightarrow> JNull | Some i \<Rightarrow> JInt i)"

lemma map_of_alist_update [simp]:
  "map_of (AList.update k v al) = (map_of al)(k \<mapsto> v)"
  by (simp add: update_conv')

lemma map_of_dict_update:
  "map_of (dict_update a b) k = (case map_of (rev b) k of Some v \<Rightarrow> Some v | None \<Rightarrow> map_of a k)"
proof (induction b arbitrary: a)
  case Nil
  then show ?case by (simp add: dict_update_def)
next
  case (Cons kv b)
  have "map_of (dict_update a (kv # b)) k
      = map_of (dict_update (AList.update (fst kv) (snd kv) a) b) k"
    by (simp add: dict_update_def)
  also have "\<dots> = (case map_of (rev (kv # b)) k of Some v \<Rightarrow> Some v | None \<Rightarrow> map_of a k)"
    using Cons.IH by (cases kv) (auto simp: map_add_def split: option.splits)
  finally show ?case .
qed

end
