(* ===== verification/Hitl_Levels.thy ===== *)
theory Hitl_Levels
  imports Prelude
begin

text \<open>
  The HITL gate levels (\<^verbatim>\<open>services/gate_config.py\<close>, \<^verbatim>\<open>services/gate_enforce.py\<close>): an organisation
  configures, per kind of work and kind of actor, whether a transition runs (auto), waits for a
  person (ask) or is refused (block); a project may override the organisation's level. The
  enforcement resolves the level, clamps it to a safety floor and passes, refuses, resumes or parks
  a request. The tables are \<^verbatim>\<open>hitl_gate_config\<close>, \<^verbatim>\<open>agent_hitl_requests\<close>, \<^verbatim>\<open>hitl_gate_audit\<close>.

  A handler that raises is rolled back, except for what it committed before raising: the model
  returns the outcome together with the tables that survive it.
\<close>

section \<open>Tables\<close>

record hitl_config =
  hc_org :: uuid
  hc_project :: "uuid option"
  hc_work_type :: string
  hc_actor_type :: string
  hc_level :: string
  hc_created_by :: "uuid option"
  hc_updated_at :: timestamp

record hitl_request =
  hr_id :: uuid
  hr_org :: uuid
  hr_project :: uuid
  hr_agent_id :: uuid
  hr_request_type :: string
  hr_requested_for :: uuid
  hr_status :: string
  hr_responded_by :: "uuid option"
  hr_metadata :: jdict
  hr_created_at :: timestamp
  hr_deleted_at :: "timestamp option"

record hitl_audit =
  ha_org :: uuid
  ha_project :: "uuid option"
  ha_work_type :: string
  ha_actor_type :: "string option"
  ha_resolved_level :: string
  ha_outcome :: string
  ha_work_item_id :: uuid
  ha_actor_id :: "uuid option"

record hitl_db =
  hd_configs :: "hitl_config list"
  hd_requests :: "hitl_request list"
  hd_audits :: "hitl_audit list"

section \<open>Configuration: resolve, set, delete\<close>

definition WORK_TYPES :: "string list" where
  "WORK_TYPES = [''done'', ''merge'']"

definition ACTOR_TYPES :: "string list" where
  "ACTOR_TYPES = [''agent'', ''human'']"

definition LEVELS :: "string list" where
  "LEVELS = [''auto'', ''ask'', ''block'']"

definition DEFAULT_LEVEL :: string where
  "DEFAULT_LEVEL = ''ask''"

definition config_matches :: "uuid \<Rightarrow> uuid option \<Rightarrow> string \<Rightarrow> string \<Rightarrow> hitl_config \<Rightarrow> bool" where
  "config_matches org project work_type actor_type c \<longleftrightarrow>
     hc_org c = org \<and> hc_project c = project \<and> hc_work_type c = work_type
     \<and> hc_actor_type c = actor_type"

definition select_level :: "hitl_config list \<Rightarrow> uuid \<Rightarrow> uuid option \<Rightarrow> string \<Rightarrow> string
    \<Rightarrow> error + string option" where
  "select_level cs org project work_type actor_type =
     scalar_one_or_none (map hc_level (filter (config_matches org project work_type actor_type) cs))"

definition resolve_gate_level_with_source :: "hitl_config list \<Rightarrow> uuid \<Rightarrow> uuid option \<Rightarrow> string \<Rightarrow> string
    \<Rightarrow> error + (string \<times> string)" where
  "resolve_gate_level_with_source cs org project work_type actor_type =
     (let org_default =
        (case select_level cs org None work_type actor_type of
           Inl e \<Rightarrow> Inl e
         | Inr lvl \<Rightarrow> Inr ((case lvl of Some l \<Rightarrow> l | None \<Rightarrow> DEFAULT_LEVEL), ''org_default''))
      in case project of
           None \<Rightarrow> org_default
         | Some p \<Rightarrow>
             (case select_level cs org (Some p) work_type actor_type of
                Inl e \<Rightarrow> Inl e
              | Inr (Some lvl) \<Rightarrow> Inr (lvl, ''override'')
              | Inr None \<Rightarrow> org_default))"

definition resolve_gate_level :: "hitl_config list \<Rightarrow> uuid \<Rightarrow> uuid option \<Rightarrow> string \<Rightarrow> string
    \<Rightarrow> error + string" where
  "resolve_gate_level cs org project work_type actor_type =
     (case resolve_gate_level_with_source cs org project work_type actor_type of
        Inl e \<Rightarrow> Inl e | Inr (level, _) \<Rightarrow> Inr level)"

text \<open>
  The upsert: PostgreSQL's \<^verbatim>\<open>INSERT ... ON CONFLICT DO UPDATE\<close> on the partial unique index of the
  scope (organisation default or project override).
\<close>

definition upsert_config :: "hitl_config \<Rightarrow> hitl_config list \<Rightarrow> hitl_config list" where
  "upsert_config new cs =
     (let hit = config_matches (hc_org new) (hc_project new) (hc_work_type new) (hc_actor_type new)
      in if list_ex hit cs
         then map (\<lambda>c. if hit c then c\<lparr>hc_level := hc_level new, hc_updated_at := hc_updated_at new\<rparr>
                       else c) cs
         else cs @ [new])"

definition set_gate_level :: "hitl_config list \<Rightarrow> uuid \<Rightarrow> uuid option \<Rightarrow> string \<Rightarrow> string \<Rightarrow> string
    \<Rightarrow> uuid option \<Rightarrow> timestamp \<Rightarrow> error + (hitl_config option \<times> hitl_config list)" where
  "set_gate_level cs org project work_type actor_type level created_by now =
     (if work_type \<notin> set WORK_TYPES then Inl (ValueError ''work_type'')
      else if actor_type \<notin> set ACTOR_TYPES then Inl (ValueError ''actor_type'')
      else if level \<notin> set LEVELS then Inl (ValueError ''level'')
      else
        (let cs' = upsert_config \<lparr>hc_org = org, hc_project = project, hc_work_type = work_type,
                      hc_actor_type = actor_type, hc_level = level, hc_created_by = created_by,
                      hc_updated_at = now\<rparr> cs
         in Inr (first_row (filter (config_matches org project work_type actor_type) cs'), cs')))"

definition delete_gate_override :: "hitl_config list \<Rightarrow> uuid \<Rightarrow> uuid \<Rightarrow> string \<Rightarrow> string
    \<Rightarrow> error + (bool \<times> hitl_config list)" where
  "delete_gate_override cs org project work_type actor_type =
     (if work_type \<notin> set WORK_TYPES then Inl (ValueError ''work_type'')
      else if actor_type \<notin> set ACTOR_TYPES then Inl (ValueError ''actor_type'')
      else
        (let hit = config_matches org (Some project) work_type actor_type
         in Inr (filter hit cs \<noteq> [], filter (\<lambda>c. \<not> hit c) cs)))"

section \<open>Enforcement\<close>

record enforce_settings =
  es_enabled :: bool
  es_org_allowlist :: string

definition enforce_allowlist :: "enforce_settings \<Rightarrow> uuid list" where
  "enforce_allowlist st =
     List.map_filter (\<lambda>tok. let t = py_strip tok in if t = [] then None else py_uuid t)
       (split_on (CHR '','') (es_org_allowlist st))"

definition restrict_rank :: "string \<Rightarrow> nat" where
  "restrict_rank lv = (if lv = ''auto'' then 0 else if lv = ''ask'' then 1
     else if lv = ''block'' then 2 else 1)"

definition resolve_level_failclosed :: "hitl_config list \<Rightarrow> uuid \<Rightarrow> uuid option \<Rightarrow> string
    \<Rightarrow> string option \<Rightarrow> error + string" where
  "resolve_level_failclosed cs org project work_type actor_type =
     (if actor_type \<in> Some ` set ACTOR_TYPES
      then resolve_gate_level cs org project work_type (the actor_type)
      else
        (case resolve_gate_level cs org project work_type ''agent'' of
           Inl e \<Rightarrow> Inl e
         | Inr a \<Rightarrow>
             (case resolve_gate_level cs org project work_type ''human'' of
                Inl e \<Rightarrow> Inl e
              | Inr h \<Rightarrow> Inr (the (max_row restrict_rank [a, h])))))"

definition safety_floor :: "string \<Rightarrow> string option" where
  "safety_floor work_type = (if work_type = ''merge'' then Some ''ask'' else None)"

definition clamp_to_floor :: "string \<Rightarrow> string \<Rightarrow> string" where
  "clamp_to_floor level work_type =
     (case safety_floor work_type of
        None \<Rightarrow> level
      | Some fl \<Rightarrow> the (max_row restrict_rank [level, fl]))"

definition gate_config_enforce_active :: "enforce_settings \<Rightarrow> uuid \<Rightarrow> bool" where
  "gate_config_enforce_active st org \<longleftrightarrow>
     es_enabled st \<and> (enforce_allowlist st = [] \<or> org \<in> set (enforce_allowlist st))"

record enforce_call =
  ec_org :: uuid
  ec_project :: "uuid option"
  ec_work_type :: string
  ec_actor_type :: "string option"
  ec_actor_id :: "uuid option"
  ec_work_item_id :: uuid

datatype enforce_outcome = Passed | Raised error

definition record_audit :: "enforce_call \<Rightarrow> string \<Rightarrow> string \<Rightarrow> hitl_db \<Rightarrow> hitl_db" where
  "record_audit c level outcome db =
     db\<lparr>hd_audits := hd_audits db @ [\<lparr>ha_org = ec_org c, ha_project = ec_project c,
        ha_work_type = ec_work_type c, ha_actor_type = ec_actor_type c, ha_resolved_level = level,
        ha_outcome = outcome, ha_work_item_id = ec_work_item_id c, ha_actor_id = ec_actor_id c\<rparr>]\<rparr>"

definition is_gate_request :: "enforce_call \<Rightarrow> hitl_request \<Rightarrow> bool" where
  "is_gate_request c r \<longleftrightarrow>
     hr_org r = ec_org c \<and> hr_request_type r = ''gate_approval'' \<and> hr_deleted_at r = None
     \<and> map_of (hr_metadata r) ''work_item_id'' = Some (JStr (ec_work_item_id c))
     \<and> map_of (hr_metadata r) ''work_type'' = Some (JStr (ec_work_type c))"

definition latest_gate_request :: "enforce_call \<Rightarrow> hitl_db \<Rightarrow> hitl_request option" where
  "latest_gate_request c db =
     max_row (\<lambda>r. (hr_created_at r, hr_id r)) (filter (is_gate_request c) (hd_requests db))"

text \<open>The approver is the member who triggered the work: both known and equal.\<close>

definition is_self_approval :: "hitl_request \<Rightarrow> bool" where
  "is_self_approval r \<longleftrightarrow>
     (case hr_responded_by r of
        None \<Rightarrow> False
      | Some m \<Rightarrow> map_of (hr_metadata r) ''actor_id'' = Some (JStr m))"

definition gate_error :: "string \<Rightarrow> uuid option \<Rightarrow> error" where
  "gate_error code req = HTTPError 409 code req"

definition park_request :: "enforce_call \<Rightarrow> uuid \<Rightarrow> uuid \<Rightarrow> uuid \<Rightarrow> timestamp \<Rightarrow> hitl_request" where
  "park_request c req_id project actor now =
     \<lparr>hr_id = req_id, hr_org = ec_org c, hr_project = project, hr_agent_id = actor,
      hr_request_type = ''gate_approval'', hr_requested_for = actor, hr_status = ''pending'',
      hr_responded_by = None,
      hr_metadata = [(''work_item_id'', JStr (ec_work_item_id c)), (''work_type'', JStr (ec_work_type c)),
        (''actor_id'', JStr actor), (''actor_type'', jopt_str (ec_actor_type c))],
      hr_created_at = now, hr_deleted_at = None\<rparr>"

definition enforce_ask :: "enforce_call \<Rightarrow> string \<Rightarrow> uuid \<Rightarrow> timestamp \<Rightarrow> hitl_db \<Rightarrow> enforce_outcome \<times> hitl_db" where
  "enforce_ask c level req_id now db =
     (case latest_gate_request c db of
        Some r \<Rightarrow>
          (if hr_status r = ''approved'' then
             (if is_self_approval r
              then (Raised (gate_error ''GATE_SELF_APPROVAL'' (Some (hr_id r))),
                    record_audit c level ''self_blocked'' db)
              else (Passed, record_audit c level ''resumed'' db))
           else if hr_status r = ''rejected'' then
             (Raised (gate_error ''GATE_REJECTED'' (Some (hr_id r))),
              record_audit c level ''rejected_blocked'' db)
           else (Raised (gate_error ''GATE_ASK'' (Some (hr_id r))),
                 record_audit c level ''ask_queued'' db))
      | None \<Rightarrow>
          (case ec_project c of
             None \<Rightarrow> (Raised (ValueError ''gate park project_id is required''), db)
           | Some project \<Rightarrow>
               (case ec_actor_id c of
                  None \<Rightarrow> (Raised (HTTPError 403 ''GATE_ACTOR_UNRESOLVED'' None), db)
                | Some actor \<Rightarrow>
                    (Raised (gate_error ''GATE_ASK'' (Some req_id)),
                     record_audit c level ''ask_queued''
                       (db\<lparr>hd_requests := hd_requests db @ [park_request c req_id project actor now]\<rparr>)))))"

definition enforce_gate :: "enforce_settings \<Rightarrow> enforce_call \<Rightarrow> uuid \<Rightarrow> timestamp \<Rightarrow> hitl_db
    \<Rightarrow> enforce_outcome \<times> hitl_db" where
  "enforce_gate st c req_id now db =
     (if \<not> gate_config_enforce_active st (ec_org c) then (Passed, db)
      else
        (case resolve_level_failclosed (hd_configs db) (ec_org c) (ec_project c) (ec_work_type c)
                (ec_actor_type c) of
           Inl e \<Rightarrow> (Raised e, db)
         | Inr resolved \<Rightarrow>
             (let level = clamp_to_floor resolved (ec_work_type c)
              in if level = ''auto'' then (Passed, record_audit c level ''auto'' db)
                 else if level = ''block'' then
                   (Raised (gate_error ''GATE_BLOCKED'' None), record_audit c level ''blocked'' db)
                 else enforce_ask c level req_id now db)))"

section \<open>A layered configuration store\<close>

text \<open>
  What the resolver relies on: a store of values under keys, where writing a key is read back,
  deleting it makes it absent, and other keys are left alone. The client looks an override up first
  and falls back to the default of its scope.
\<close>

locale level_store =
  fixes wf :: "'s \<Rightarrow> bool"
    and lookup :: "'s \<Rightarrow> 'k \<Rightarrow> 'v option"
    and put :: "'k \<Rightarrow> 'v \<Rightarrow> 's \<Rightarrow> 's"
    and del :: "'k \<Rightarrow> 's \<Rightarrow> 's"
  assumes wf_put: "wf s \<Longrightarrow> wf (put k v s)"
    and wf_del: "wf s \<Longrightarrow> wf (del k s)"
    and lookup_put: "wf s \<Longrightarrow> lookup (put k v s) j = (if j = k then Some v else lookup s j)"
    and lookup_del: "wf s \<Longrightarrow> lookup (del k s) j = (if j = k then None else lookup s j)"
begin

lemma put_then_del_falls_back:
  "wf s \<Longrightarrow> j \<noteq> k \<Longrightarrow> lookup (del k (put k v s)) k = None \<and> lookup (del k (put k v s)) j = lookup s j"
  by (simp add: wf_put lookup_put lookup_del)

lemma put_override_wins:
  "wf s \<Longrightarrow> k \<noteq> d \<Longrightarrow> lookup (put d w (put k v s)) k = Some v"
  by (simp add: wf_put lookup_put)

end

type_synonym config_key = "uuid \<times> uuid option \<times> string \<times> string"

definition config_key :: "hitl_config \<Rightarrow> config_key" where
  "config_key c = (hc_org c, hc_project c, hc_work_type c, hc_actor_type c)"

text \<open>The partial unique indexes of \<^verbatim>\<open>hitl_gate_config\<close>: one row per scope and axis.\<close>

definition configs_wf :: "hitl_config list \<Rightarrow> bool" where
  "configs_wf cs \<longleftrightarrow> distinct (map config_key cs)"

definition config_lookup :: "hitl_config list \<Rightarrow> config_key \<Rightarrow> string option" where
  "config_lookup cs k = map_option hc_level (List.find (\<lambda>c. config_key c = k) cs)"

definition config_put :: "config_key \<Rightarrow> string \<Rightarrow> hitl_config list \<Rightarrow> hitl_config list" where
  "config_put k v cs = (case k of (org, project, wt, ak) \<Rightarrow>
     upsert_config \<lparr>hc_org = org, hc_project = project, hc_work_type = wt, hc_actor_type = ak,
       hc_level = v, hc_created_by = None, hc_updated_at = 0\<rparr> cs)"

definition config_del :: "config_key \<Rightarrow> hitl_config list \<Rightarrow> hitl_config list" where
  "config_del k cs = filter (\<lambda>c. config_key c \<noteq> k) cs"

lemma config_matches_key: "config_matches o' p w a = (\<lambda>c. config_key c = (o', p, w, a))"
  by (auto simp: config_matches_def config_key_def)

lemma config_key_level [simp]: "config_key (c\<lparr>hc_level := l, hc_updated_at := t\<rparr>) = config_key c"
  by (simp add: config_key_def)

lemma config_key_new [simp]:
  "config_key \<lparr>hc_org = o', hc_project = p, hc_work_type = w, hc_actor_type = a, hc_level = l,
     hc_created_by = b, hc_updated_at = t\<rparr> = (o', p, w, a)"
  by (simp add: config_key_def)

lemma select_level_lookup:
  "configs_wf cs \<Longrightarrow> select_level cs o' p w a = Inr (config_lookup cs (o', p, w, a))"
  by (simp add: select_level_def config_matches_key configs_wf_def filter_key_le1 config_lookup_def
      split: option.splits)

lemma upsert_config_alt:
  "upsert_config new cs =
     (if list_ex (\<lambda>c. config_key c = config_key new) cs
      then map (\<lambda>c. if config_key c = config_key new
                    then c\<lparr>hc_level := hc_level new, hc_updated_at := hc_updated_at new\<rparr> else c) cs
      else cs @ [new])"
  by (simp add: upsert_config_def Let_def config_matches_key) (simp add: config_key_def)

lemma upsert_config_keys:
  "map config_key (upsert_config new cs)
     = (if config_key new \<in> set (map config_key cs) then map config_key cs
        else map config_key cs @ [config_key new])"
  by (auto simp: upsert_config_alt list_ex_iff) (metis image_eqI)

lemma config_lookup_upsert:
  "config_lookup (upsert_config new cs) j
     = (if j = config_key new then Some (hc_level new) else config_lookup cs j)"
proof (cases "j = config_key new")
  case True
  then show ?thesis unfolding upsert_config_alt config_lookup_def by (induction cs) auto
next
  case False
  then have "List.find (\<lambda>c. config_key c = j) (map (\<lambda>c. if config_key c = config_key new
      then c\<lparr>hc_level := hc_level new, hc_updated_at := hc_updated_at new\<rparr> else c) cs)
    = List.find (\<lambda>c. config_key c = j) cs"
    by (induction cs) auto
  moreover have "List.find (\<lambda>c. config_key c = j) (cs @ [new]) = List.find (\<lambda>c. config_key c = j) cs"
    using False by (induction cs) auto
  ultimately show ?thesis using False by (simp add: upsert_config_alt config_lookup_def)
qed

lemma configs_wf_upsert: "configs_wf cs \<Longrightarrow> configs_wf (upsert_config new cs)"
  unfolding configs_wf_def upsert_config_keys by auto

interpretation levels: level_store configs_wf config_lookup config_put config_del
proof
  fix s k v j
  assume wf: "configs_wf s"
  show "configs_wf (config_put k v s)"
    using wf by (cases k) (simp add: config_put_def configs_wf_upsert)
  show "configs_wf (config_del k s)"
    using wf by (simp add: configs_wf_def config_del_def distinct_map_filter)
  show "config_lookup (config_put k v s) j = (if j = k then Some v else config_lookup s j)"
    by (cases k) (simp add: config_put_def config_lookup_upsert)
  show "config_lookup (config_del k s) j = (if j = k then None else config_lookup s j)"
    by (induction s) (auto simp: config_lookup_def config_del_def)
qed

lemma resolve_gate_level_lookup:
  "configs_wf cs \<Longrightarrow> resolve_gate_level cs org project wt ak =
     Inr (case project of
            None \<Rightarrow> (case config_lookup cs (org, None, wt, ak) of Some l \<Rightarrow> l | None \<Rightarrow> DEFAULT_LEVEL)
          | Some p \<Rightarrow> (case config_lookup cs (org, Some p, wt, ak) of Some l \<Rightarrow> l
              | None \<Rightarrow> (case config_lookup cs (org, None, wt, ak) of Some l \<Rightarrow> l | None \<Rightarrow> DEFAULT_LEVEL)))"
  by (simp add: resolve_gate_level_def resolve_gate_level_with_source_def select_level_lookup Let_def
      split: option.splits)

lemma set_gate_level_Inr:
  "set_gate_level cs org project wt ak lv by' now = Inr (r, cs') \<Longrightarrow>
     lv \<in> set LEVELS \<and> config_lookup cs' k
       = (if k = (org, project, wt, ak) then Some lv else config_lookup cs k)
     \<and> (configs_wf cs \<longrightarrow> configs_wf cs')"
  by (auto simp: set_gate_level_def Let_def config_lookup_upsert configs_wf_upsert split: if_splits)

lemma delete_gate_override_Inr:
  "delete_gate_override cs org p wt ak = Inr (b, cs') \<Longrightarrow> configs_wf cs \<Longrightarrow>
     configs_wf cs' \<and> config_lookup cs' k
       = (if k = (org, Some p, wt, ak) then None else config_lookup cs k)"
  using levels.lookup_del [of cs "(org, Some p, wt, ak)" k] levels.wf_del [of cs "(org, Some p, wt, ak)"]
  by (auto simp: delete_gate_override_def Let_def config_matches_key config_del_def split: if_splits)

section \<open>Sample data for the witnesses\<close>

definition sample_settings :: enforce_settings where
  "sample_settings = \<lparr>es_enabled = True, es_org_allowlist = []\<rparr>"

definition sample_call :: enforce_call where
  "sample_call = \<lparr>ec_org = ''o'', ec_project = Some ''p'', ec_work_type = ''merge'',
     ec_actor_type = Some ''agent'', ec_actor_id = Some ''a'', ec_work_item_id = ''s''\<rparr>"

definition sample_configs :: "hitl_config list" where
  "sample_configs = [\<lparr>hc_org = ''o'', hc_project = None, hc_work_type = ''merge'', hc_actor_type = ''agent'',
     hc_level = ''auto'', hc_created_by = None, hc_updated_at = 0\<rparr>]"

definition sample_hitl_db :: hitl_db where
  "sample_hitl_db = \<lparr>hd_configs = sample_configs, hd_requests = [], hd_audits = []\<rparr>"

definition sample_approved :: hitl_db where
  "sample_approved = sample_hitl_db\<lparr>hd_requests :=
     [(park_request sample_call ''r'' ''p'' ''a'' 5)\<lparr>hr_status := ''approved'', hr_responded_by := Some ''h''\<rparr>]\<rparr>"

lemmas sample_defs = sample_settings_def sample_call_def sample_configs_def sample_hitl_db_def
  sample_approved_def park_request_def

section \<open>Properties of the enforcement\<close>

lemma clamp_merge: "clamp_to_floor l ''merge'' = ''block'' \<or> clamp_to_floor l ''merge'' = ''ask''
    \<or> restrict_rank (clamp_to_floor l ''merge'') = 1 \<and> clamp_to_floor l ''merge'' \<noteq> ''auto''"
  by (auto simp: clamp_to_floor_def safety_floor_def restrict_rank_def)

lemma clamp_merge_not_auto: "clamp_to_floor l ''merge'' \<noteq> ''auto''"
  by (auto simp: clamp_to_floor_def safety_floor_def restrict_rank_def)

lemma enforce_ask_Passed:
  "fst (enforce_ask c lv i now db) = Passed \<longleftrightarrow>
     (\<exists>r. latest_gate_request c db = Some r \<and> hr_status r = ''approved'' \<and> \<not> is_self_approval r)"
  by (auto simp: enforce_ask_def gate_error_def split: option.splits)

lemma latest_gate_request_props:
  "latest_gate_request c db = Some r \<Longrightarrow> r \<in> set (hd_requests db) \<and> is_gate_request c r"
  unfolding latest_gate_request_def by (drule max_row_in) auto

lemma park_request_is_gate_request [simp]: "is_gate_request c (park_request c i p a now)"
  by (simp add: is_gate_request_def park_request_def)

lemma requests_record_audit [simp]: "hd_requests (record_audit c l out db) = hd_requests db"
  and configs_record_audit [simp]: "hd_configs (record_audit c l out db) = hd_configs db"
  and audits_record_audit [simp]: "length (hd_audits (record_audit c l out db)) = Suc (length (hd_audits db))"
  by (simp_all add: record_audit_def)

lemma latest_after_park:
  "latest_gate_request c db = None \<Longrightarrow>
   latest_gate_request c (record_audit c l out
       (db\<lparr>hd_requests := hd_requests db @ [park_request c i p a now]\<rparr>))
     = Some (park_request c i p a now)"
  by (simp add: latest_gate_request_def)

lemma enforce_gate_ask_level:
  assumes "gate_config_enforce_active st (ec_org c)"
    and "resolve_level_failclosed (hd_configs db) (ec_org c) (ec_project c) (ec_work_type c)
           (ec_actor_type c) = Inr l"
    and "clamp_to_floor l (ec_work_type c) \<notin> {''auto'', ''block''}"
  shows "enforce_gate st c i now db = enforce_ask c (clamp_to_floor l (ec_work_type c)) i now db"
  using assms by (simp add: enforce_gate_def Let_def)



text \<open>
  Asking is idempotent: once a transition has been parked, retrying it reports the same pending
  request and parks no second one, whatever fresh identifier and time the retry would use.
\<close>

lemma ask_parks_once:
  assumes "latest_gate_request c db = None"
    and "enforce_ask c lv i now db = (Raised (gate_error ''GATE_ASK'' (Some i)), db')"
  shows "\<exists>r. latest_gate_request c db' = Some r \<and> hr_id r = i \<and> hr_status r = ''pending'' \<and>
     enforce_ask c lv j now' db'
       = (Raised (gate_error ''GATE_ASK'' (Some i)), record_audit c lv ''ask_queued'' db') \<and>
     hd_requests (snd (enforce_ask c lv j now' db')) = hd_requests db'"
proof -
  obtain p a where "ec_project c = Some p" and "ec_actor_id c = Some a"
    and db': "db' = record_audit c lv ''ask_queued''
        (db\<lparr>hd_requests := hd_requests db @ [park_request c i p a now]\<rparr>)"
    using assms by (auto simp: enforce_ask_def gate_error_def split: option.splits)
  then have "latest_gate_request c db' = Some (park_request c i p a now)"
    using latest_after_park [OF assms(1)] by simp
  then show ?thesis
    by (simp add: enforce_ask_def park_request_def)
qed

lemma ask_parks_once_witness:
  "\<exists>r. latest_gate_request sample_call (snd (enforce_ask sample_call ''ask'' ''n'' 9 sample_hitl_db)) = Some r
     \<and> hr_id r = ''n'' \<and> hr_status r = ''pending''"
proof -
  have a: "latest_gate_request sample_call sample_hitl_db = None"
    by (simp add: latest_gate_request_def sample_defs)
  have b: "enforce_ask sample_call ''ask'' ''n'' 9 sample_hitl_db
      = (Raised (gate_error ''GATE_ASK'' (Some ''n'')), snd (enforce_ask sample_call ''ask'' ''n'' 9 sample_hitl_db))"
    by (simp add: enforce_ask_def a, simp add: sample_call_def)
  show ?thesis using ask_parks_once [OF a b] by blast
qed

text \<open>
  An actor whose kind is not known gets a level at least as restrictive as the level of both
  known kinds: leaving the kind out is no way around a block.
\<close>

lemma unknown_actor_fails_closed:
  assumes "configs_wf cs" and "ak \<notin> Some ` set ACTOR_TYPES"
  shows "\<exists>l. resolve_level_failclosed cs org project wt ak = Inr l \<and>
     (\<forall>k \<in> set ACTOR_TYPES. \<exists>lk. resolve_gate_level cs org project wt k = Inr lk
         \<and> restrict_rank lk \<le> restrict_rank l)"
proof -
  obtain a h where a: "resolve_gate_level cs org project wt ''agent'' = Inr a"
    and h: "resolve_gate_level cs org project wt ''human'' = Inr h"
    using resolve_gate_level_lookup [OF assms(1)] by blast
  have "resolve_level_failclosed cs org project wt ak = Inr (the (max_row restrict_rank [a, h]))"
    using assms(2) a h by (simp add: resolve_level_failclosed_def)
  then show ?thesis using a h by (auto simp: ACTOR_TYPES_def)
qed

lemma unknown_actor_fails_closed_witness:
  "\<exists>l. resolve_level_failclosed sample_configs ''o'' (Some ''p'') ''merge'' None = Inr l \<and>
     (\<forall>k \<in> set ACTOR_TYPES. \<exists>lk. resolve_gate_level sample_configs ''o'' (Some ''p'') ''merge'' k = Inr lk
         \<and> restrict_rank lk \<le> restrict_rank l)"
proof -
  have "configs_wf sample_configs" by (simp add: configs_wf_def sample_defs)
  moreover have "None \<notin> Some ` set ACTOR_TYPES" by auto
  ultimately show ?thesis by (rule unknown_actor_fails_closed)
qed

text \<open>
  A project override set over the organisation's level is what the project resolves to, other
  projects and the organisation keep theirs, and deleting the override gives the level back that the
  project had inherited.
\<close>

lemma override_roundtrip:
  assumes "configs_wf cs"
    and "config_lookup cs (org, Some p, wt, ak) = None"
    and "set_gate_level cs org (Some p) wt ak lv by' now = Inr (r, cs')"
    and "delete_gate_override cs' org p wt ak = Inr (b, cs'')"
  shows "resolve_gate_level cs' org (Some p) wt ak = Inr lv
     \<and> (\<forall>q. q \<noteq> Some p \<longrightarrow> resolve_gate_level cs' org q wt ak = resolve_gate_level cs org q wt ak)
     \<and> resolve_gate_level cs'' org (Some p) wt ak = resolve_gate_level cs org (Some p) wt ak"
proof -
  have set: "config_lookup cs' k = (if k = (org, Some p, wt, ak) then Some lv else config_lookup cs k)" for k
    using set_gate_level_Inr [OF assms(3)] by blast
  have wf': "configs_wf cs'" using set_gate_level_Inr [OF assms(3)] assms(1) by blast
  have del: "config_lookup cs'' k = (if k = (org, Some p, wt, ak) then None else config_lookup cs' k)" for k
    using delete_gate_override_Inr [OF assms(4) wf'] by blast
  have wf'': "configs_wf cs''" using delete_gate_override_Inr [OF assms(4) wf'] by blast
  show ?thesis
    using assms(2) by (auto simp: resolve_gate_level_lookup [OF assms(1)] resolve_gate_level_lookup [OF wf']
        resolve_gate_level_lookup [OF wf''] set del split: option.splits)
qed

lemma override_roundtrip_witness:
  "resolve_gate_level (snd (projr (set_gate_level sample_configs ''o'' (Some ''p'') ''merge'' ''agent''
     ''block'' None 7))) ''o'' (Some ''p'') ''merge'' ''agent'' = Inr ''block''"
proof -
  have wf: "configs_wf sample_configs" by (simp add: configs_wf_def sample_defs)
  have n: "config_lookup sample_configs (''o'', Some ''p'', ''merge'', ''agent'') = None"
    by (simp add: config_lookup_def sample_defs)
  let ?s = "set_gate_level sample_configs ''o'' (Some ''p'') ''merge'' ''agent'' ''block'' None 7"
  have s: "?s = Inr (fst (projr ?s), snd (projr ?s))" by code_simp
  let ?d = "delete_gate_override (snd (projr ?s)) ''o'' ''p'' ''merge'' ''agent''"
  have d: "?d = Inr (fst (projr ?d), snd (projr ?d))" by code_simp
  show ?thesis using override_roundtrip [OF wf n s d] by blast
qed

end
