(* ===== verification/Gate_Schema.thy ===== *)
theory Gate_Schema
  imports Prelude
begin

text \<open>
  The tables of the decision gates: the gate row and its state machine (\<^verbatim>\<open>models/gate.py\<close>), the gate
  policy rows (\<^verbatim>\<open>models/hitl_config.py\<close>), and the rows of the neighbouring tables that gate operations
  read or write: workflow step runs, docs, participations, verdicts, the activity log, the
  notification outbox and the ledger of GitHub check events. The state of the session is one record
  of tables; an operation takes it and returns it changed.
\<close>

section \<open>The gate row\<close>

datatype gate_status = Pending | Approved | Rejected | Auto_passed | Voided | Held

text \<open>The columns that seal what an approval was given for; null outside their own gate type.\<close>

record gate_seals =
  sealed_content_version :: "int option"
  sealed_content_sha256 :: "string option"
  sealed_content_body :: "string option"
  sealed_scheduled_at :: "timestamp option"
  sealed_media_sha256 :: "string option"
  sealed_destination_connection_id :: "uuid option"
  sealed_estimated_cost_minor :: "int option"
  sealed_doc_id :: "uuid option"
  sealed_doc_body_sha256 :: "string option"
  sealed_ads_budget_minor :: "int option"
  sealed_ads_currency :: "string option"
  sealed_ads_starts_at :: "timestamp option"
  sealed_ads_ends_at :: "timestamp option"
  sealed_ads_objective :: "string option"
  sealed_ads_connection_id :: "uuid option"
  sealed_ads_boost_version_id :: "uuid option"
  sealed_newsletter_segment_name :: "string option"
  sealed_newsletter_scheduled_at :: "timestamp option"
  sealed_newsletter_version_id :: "uuid option"

record gate =
  g_id :: uuid
  g_org_id :: uuid
  g_work_item_id :: uuid
  g_work_item_type :: string
  g_gate_type :: string
  g_pr_number :: "int option"
  g_repo_full_name :: "string option"
  g_scope_key :: string
  g_status :: gate_status
  g_resolver_id :: "uuid option"
  g_resolved_at :: "timestamp option"
  g_resolution_note :: "string option"
  g_designated_approver_id :: "uuid option"
  g_requested_by_member_id :: "uuid option"
  g_held_until :: "timestamp option"
  g_neutral_facts :: "jdict option"
  g_requires_human :: bool
  g_evidence_status :: "string option"
  g_decision_basis :: "string option"
  g_auto_decision_reason :: "string option"
  g_status_entered_at :: "timestamp option"
  g_evidence_status_entered_at :: "timestamp option"
  g_github_check_run_id :: "int option"
  g_github_check_run_sha :: "string option"
  g_approved_head_sha :: "string option"
  g_pr_head_observed_at :: "timestamp option"
  g_seals :: gate_seals
  g_reapproval_required :: bool
  g_publish_outcome :: "string option"
  g_created_at :: timestamp

definition no_seals :: gate_seals where
  "no_seals = \<lparr>sealed_content_version = None, sealed_content_sha256 = None, sealed_content_body = None,
     sealed_scheduled_at = None, sealed_media_sha256 = None, sealed_destination_connection_id = None,
     sealed_estimated_cost_minor = None, sealed_doc_id = None, sealed_doc_body_sha256 = None,
     sealed_ads_budget_minor = None, sealed_ads_currency = None, sealed_ads_starts_at = None,
     sealed_ads_ends_at = None, sealed_ads_objective = None, sealed_ads_connection_id = None,
     sealed_ads_boost_version_id = None, sealed_newsletter_segment_name = None,
     sealed_newsletter_scheduled_at = None, sealed_newsletter_version_id = None\<rparr>"

section \<open>The state machine of a resolver's actions\<close>

fun is_valid_transition :: "gate_status \<Rightarrow> gate_status \<Rightarrow> bool" where
  "is_valid_transition Pending Approved = True"
| "is_valid_transition Pending Rejected = True"
| "is_valid_transition Pending Voided = True"
| "is_valid_transition Pending Held = True"
| "is_valid_transition Held Pending = True"
| "is_valid_transition _ _ = False"

definition set_gate_status :: "gate_status \<Rightarrow> timestamp \<Rightarrow> gate \<Rightarrow> gate" where
  "set_gate_status s now g =
     (if g_status g = s then g else g\<lparr>g_status := s, g_status_entered_at := Some now\<rparr>)"

definition set_gate_evidence_status :: "string option \<Rightarrow> timestamp \<Rightarrow> gate \<Rightarrow> gate" where
  "set_gate_evidence_status e now g =
     (if g_evidence_status g = e then g
      else g\<lparr>g_evidence_status := e, g_evidence_status_entered_at := Some now\<rparr>)"

section \<open>The other rows\<close>

record org_gate_policy =
  gp_org :: uuid
  gp_posture :: string
  gp_merge_default_approver :: "uuid option"

record org_gate_override =
  go_org :: uuid
  go_role :: uuid
  go_gate_type :: string
  go_disposition :: string

record member_gate_override =
  mo_org :: uuid
  mo_member :: uuid
  mo_gate_type :: string
  mo_disposition :: string

record step_run =
  sr_id :: uuid
  sr_org :: uuid
  sr_gate_id :: "uuid option"
  sr_h1_gate_id :: "uuid option"
  sr_status :: string
  sr_held_until :: "timestamp option"
  sr_routing_reason :: "string option"
  sr_sla_due_at :: "timestamp option"
  sr_started_at :: timestamp
  sr_resolved_at :: "timestamp option"
  sr_project_id :: uuid
  sr_line_definition_id :: "uuid option"
  sr_entity_type :: string
  sr_entity_id :: uuid
  sr_from_status :: "string option"
  sr_to_status :: string
  sr_mode :: string
  sr_effective_step_type :: json
  sr_effective_gate_type :: "string option"
  sr_routing_decision :: "string option"
  sr_routing_context :: jdict
  sr_trust_snapshot :: jdict
  sr_failure_class :: "string option"
  sr_failure_message :: "string option"
  sr_degraded_to_plain :: bool
  sr_transition_id :: string
  sr_attempt :: nat
  sr_risk_snapshot :: jdict
  sr_resolved_member_id :: "uuid option"
  sr_event_id :: "uuid option"
  sr_recipient_seq :: "int option"
  sr_delivery_status :: string
  sr_delivery_error :: "string option"
  sr_approval_group_id :: "uuid option"
  sr_quorum_policy :: jdict
  sr_next_reminder_at :: "timestamp option"
  sr_reminder_count :: nat
  sr_escalated_to :: "uuid option"
  sr_withdrawn_by :: "uuid option"
  sr_withdrawn_at :: "timestamp option"
  sr_withdraw_reason :: "string option"
  sr_correlation_id :: uuid

record doc =
  d_id :: uuid
  d_org :: uuid
  d_status :: string
  d_deleted_at :: "timestamp option"
  d_created_by :: "uuid option"
  d_title :: string
  d_project :: uuid
  d_content :: "string option"

record org_member =
  om_id :: uuid
  om_org :: uuid
  om_role :: string
  om_deleted_at :: "timestamp option"
  om_created_at :: timestamp

record participation_role =
  pr_id :: uuid
  pr_org :: uuid
  pr_key :: string
  pr_label :: string
  pr_is_default :: bool
  pr_created_at :: timestamp

record participation =
  pa_id :: uuid
  pa_org :: uuid
  pa_story :: uuid
  pa_member :: uuid
  pa_role :: uuid
  pa_created_at :: timestamp

record story =
  st_id :: uuid
  st_org :: uuid
  st_project :: uuid
  st_points :: "int option"
  st_excluded :: bool
  st_deleted_at :: "timestamp option"
  st_status :: string
  st_priority :: string
  st_epic_id :: "uuid option"
  st_success_hypothesis :: "string option"
  st_metric_definition :: "json option"
  st_measure_after :: "timestamp option"
  st_outcome_status :: string
  st_outcome_result :: "json option"
  st_sprint_id :: "uuid option"

record goal =
  gl_id :: uuid
  gl_org :: uuid
  gl_project :: uuid
  gl_status :: string
  gl_title :: string
  gl_assignee_id :: "uuid option"
  gl_outcome_status :: string
  gl_outcome_result :: "jdict option"

record sprint =
  sp_id :: uuid
  sp_org :: uuid
  sp_project :: uuid
  sp_status :: string
  sp_velocity :: "int option"
  sp_metric_definition :: "json option"
  sp_outcome_status :: string
  sp_outcome_result :: "json option"

record hypothesis =
  hy_id :: uuid
  hy_org :: uuid
  hy_project :: uuid
  hy_status :: string
  hy_owner :: uuid
  hy_confirmed_by :: "uuid option"
  hy_outcome_result :: "jdict option"
  hy_statement :: string
  hy_metric_definition :: json
  hy_measure_after :: timestamp
  hy_created_by :: uuid
  hy_drafted_by :: "uuid option"
  hy_archived_at :: "timestamp option"

record hypothesis_sprint_link =
  hs_hypothesis :: uuid
  hs_sprint :: uuid

record evidence =
  ei_org :: uuid
  ei_work_item_id :: uuid
  ei_work_item_type :: string
  ei_type :: string
  ei_ref :: string
  ei_source :: string
  ei_note :: "string option"
  ei_created_by :: uuid

datatype version_status = V_draft | V_pending_review | V_published | V_retired | V_rejected

record line_definition =
  ld_id :: uuid
  ld_org :: uuid
  ld_project :: "uuid option"
  ld_entity_type :: string
  ld_name :: json
  ld_version :: nat
  ld_is_active :: bool
  ld_source :: string
  ld_created_by :: "uuid option"
  ld_published_at :: "timestamp option"
  ld_retired_at :: "timestamp option"
  ld_config_hash :: "string option"

record line_version =
  lv_id :: uuid
  lv_line_definition_id :: "uuid option"
  lv_org :: uuid
  lv_project :: "uuid option"
  lv_entity_type :: string
  lv_version :: nat
  lv_status :: version_status
  lv_config :: json
  lv_config_hash :: string
  lv_lint_passed :: bool
  lv_lint_errors :: "(string \<times> nat) list"
  lv_created_by :: uuid
  lv_reviewed_by :: "uuid option"
  lv_review_gate_id :: "uuid option"
  lv_published_at :: "timestamp option"

record step_approval =
  ap_id :: uuid
  ap_org :: uuid
  ap_project :: uuid
  ap_step_run :: uuid
  ap_gate :: "uuid option"
  ap_group :: uuid
  ap_approver :: uuid
  ap_approver_type :: string
  ap_original_approver :: "uuid option"
  ap_requested_by :: "uuid option"
  ap_implementation :: "uuid option"
  ap_role_key :: "string option"
  ap_kind :: string
  ap_blocking :: bool
  ap_status :: string
  ap_decision_note :: "string option"
  ap_resolved_at :: "timestamp option"
  ap_reassigned_from :: "uuid option"
  ap_created_at :: timestamp

record run_event =
  re_org :: uuid
  re_step_run :: uuid
  re_event_type :: string
  re_actor :: "uuid option"
  re_target :: "uuid option"
  re_payload :: jdict

record role_assignment =
  ra_id :: uuid
  ra_org :: uuid
  ra_project :: "uuid option"
  ra_role_key :: string
  ra_member :: uuid
  ra_member_type :: string
  ra_priority :: int
  ra_is_active :: bool
  ra_deputy :: "uuid option"
  ra_deputy_type :: "string option"
  ra_availability :: string
  ra_effective_from :: "timestamp option"
  ra_effective_to :: "timestamp option"
  ra_delegation_policy :: json

record team_member =
  tm_id :: uuid
  tm_org :: uuid
  tm_role :: string
  tm_is_active :: bool
  tm_type :: string

record verdict =
  v_id :: uuid
  v_org :: uuid
  v_participation :: uuid
  v_source :: string
  v_result :: "string option"
  v_rounds :: "int option"
  v_recorded_at :: timestamp

record activity =
  ac_org :: uuid
  ac_action :: string
  ac_actor_id :: "uuid option"
  ac_actor_type :: string
  ac_entity_type :: string
  ac_entity_id :: uuid
  ac_context :: jdict

record notification =
  n_org :: uuid
  n_event_type :: string
  n_targets :: "uuid list"
  n_reference_id :: uuid
  n_payload :: jdict
  n_source_project_id :: "uuid option"

record check_event =
  ce_org :: uuid
  ce_gate :: uuid
  ce_story :: uuid
  ce_repo :: string
  ce_pr_number :: int
  ce_head_sha :: string
  ce_event_type :: string
  ce_prior_sha :: "string option"

record hypothesis_story_link =
  hl_hypothesis :: uuid
  hl_story :: uuid

record loop_run =
  lo_id :: uuid
  lo_org :: uuid
  lo_project :: uuid
  lo_hypothesis :: "uuid option"
  lo_status :: string
  lo_outcome_snapshot :: "jdict option"
  lo_attributed_at :: "timestamp option"
  lo_decision_gate :: "uuid option"
  lo_chosen_artifact :: "uuid option"
  lo_title :: string
  lo_created_by :: uuid

record loop_artifact =
  lx_id :: uuid
  lx_org :: uuid
  lx_loop :: uuid
  lx_variant_group :: string
  lx_decision :: string
  lx_choose_reason :: "string option"
  lx_rejection_reason :: "string option"

record doc_revision =
  dv_doc :: uuid
  dv_project :: uuid
  dv_org :: uuid
  dv_content :: "string option"
  dv_created_by :: uuid

record project =
  pj_id :: uuid
  pj_org :: uuid

record project_access =
  xa_project :: uuid
  xa_member :: "uuid option"
  xa_org_member :: "uuid option"
  xa_permission :: string
  xa_role :: string
  xa_created_at :: timestamp

record visual_artifact =
  va_id :: uuid
  va_org :: uuid
  va_project :: uuid
  va_title :: string
  va_created_by :: "uuid option"
  va_anchor_version :: "int option"
  va_deleted_at :: "timestamp option"

record artifact_comment =
  vc_artifact :: uuid
  vc_org :: uuid
  vc_project :: uuid
  vc_content :: string
  vc_created_by :: uuid

record a2a_task =
  tk_id :: uuid
  tk_linked_gate :: "uuid option"
  tk_state :: string

record gate_db =
  t_gates :: "gate list"
  t_policies :: "org_gate_policy list"
  t_org_overrides :: "org_gate_override list"
  t_member_overrides :: "member_gate_override list"
  t_step_runs :: "step_run list"
  t_docs :: "doc list"
  t_org_members :: "org_member list"
  t_roles :: "participation_role list"
  t_participations :: "participation list"
  t_stories :: "story list"
  t_verdicts :: "verdict list"
  t_activities :: "activity list"
  t_notifications :: "notification list"
  t_check_events :: "check_event list"
  t_goals :: "goal list"
  t_line_definitions :: "line_definition list"
  t_line_versions :: "line_version list"
  t_approvals :: "step_approval list"
  t_run_events :: "run_event list"
  t_role_assignments :: "role_assignment list"
  t_team_members :: "team_member list"
  t_sprints :: "sprint list"
  t_hypotheses :: "hypothesis list"
  t_sprint_links :: "hypothesis_sprint_link list"
  t_evidence :: "evidence list"
  t_story_links :: "hypothesis_story_link list"
  t_loops :: "loop_run list"
  t_loop_artifacts :: "loop_artifact list"
  t_doc_revisions :: "doc_revision list"
  t_projects :: "project list"
  t_accesses :: "project_access list"
  t_visual_artifacts :: "visual_artifact list"
  t_artifact_comments :: "artifact_comment list"
  t_tasks :: "a2a_task list"

section \<open>Reading and writing rows\<close>

definition get_gate :: "uuid \<Rightarrow> gate_db \<Rightarrow> gate option" where
  "get_gate i db = find_row g_id i (t_gates db)"

text \<open>\<^verbatim>\<open>select(Gate).where(Gate.id == gate_id, Gate.org_id == org_id)\<close>\<close>

definition find_org_gate :: "uuid \<Rightarrow> uuid \<Rightarrow> gate_db \<Rightarrow> gate option" where
  "find_org_gate org i db =
     (case get_gate i db of None \<Rightarrow> None | Some g \<Rightarrow> if g_org_id g = org then Some g else None)"

definition upd_gate :: "uuid \<Rightarrow> (gate \<Rightarrow> gate) \<Rightarrow> gate_db \<Rightarrow> gate_db" where
  "upd_gate i f db = db\<lparr>t_gates := upd_row g_id i f (t_gates db)\<rparr>"

definition upd_step_run :: "uuid \<Rightarrow> (step_run \<Rightarrow> step_run) \<Rightarrow> gate_db \<Rightarrow> gate_db" where
  "upd_step_run i f db = db\<lparr>t_step_runs := upd_row sr_id i f (t_step_runs db)\<rparr>"

definition upd_doc :: "uuid \<Rightarrow> (doc \<Rightarrow> doc) \<Rightarrow> gate_db \<Rightarrow> gate_db" where
  "upd_doc i f db = db\<lparr>t_docs := upd_row d_id i f (t_docs db)\<rparr>"

definition log_activity :: "activity \<Rightarrow> gate_db \<Rightarrow> gate_db" where
  "log_activity a db = db\<lparr>t_activities := t_activities db @ [a]\<rparr>"

section \<open>Lemmas on the rows\<close>

interpretation gate_rows: row_table g_id "find_row g_id" "upd_row g_id"
  by (rule row_table_rows)

interpretation step_run_rows: row_table sr_id "find_row sr_id" "upd_row sr_id"
  by (rule row_table_rows)

interpretation doc_rows: row_table d_id "find_row d_id" "upd_row d_id"
  by (rule row_table_rows)

lemma set_gate_status_fields [simp]:
  "g_id (set_gate_status s now g) = g_id g"
  "g_org_id (set_gate_status s now g) = g_org_id g"
  "g_work_item_id (set_gate_status s now g) = g_work_item_id g"
  "g_work_item_type (set_gate_status s now g) = g_work_item_type g"
  "g_gate_type (set_gate_status s now g) = g_gate_type g"
  "g_pr_number (set_gate_status s now g) = g_pr_number g"
  "g_repo_full_name (set_gate_status s now g) = g_repo_full_name g"
  "g_scope_key (set_gate_status s now g) = g_scope_key g"
  "g_status (set_gate_status s now g) = s"
  "g_resolver_id (set_gate_status s now g) = g_resolver_id g"
  "g_resolved_at (set_gate_status s now g) = g_resolved_at g"
  "g_resolution_note (set_gate_status s now g) = g_resolution_note g"
  "g_neutral_facts (set_gate_status s now g) = g_neutral_facts g"
  "g_approved_head_sha (set_gate_status s now g) = g_approved_head_sha g"
  "g_pr_head_observed_at (set_gate_status s now g) = g_pr_head_observed_at g"
  "g_held_until (set_gate_status s now g) = g_held_until g"
  "g_requires_human (set_gate_status s now g) = g_requires_human g"
  by (simp_all add: set_gate_status_def)

lemma set_gate_evidence_status_fields [simp]:
  "g_id (set_gate_evidence_status e now g) = g_id g"
  "g_org_id (set_gate_evidence_status e now g) = g_org_id g"
  "g_work_item_id (set_gate_evidence_status e now g) = g_work_item_id g"
  "g_work_item_type (set_gate_evidence_status e now g) = g_work_item_type g"
  "g_gate_type (set_gate_evidence_status e now g) = g_gate_type g"
  "g_pr_number (set_gate_evidence_status e now g) = g_pr_number g"
  "g_repo_full_name (set_gate_evidence_status e now g) = g_repo_full_name g"
  "g_scope_key (set_gate_evidence_status e now g) = g_scope_key g"
  "g_status (set_gate_evidence_status e now g) = g_status g"
  "g_approved_head_sha (set_gate_evidence_status e now g) = g_approved_head_sha g"
  "g_resolved_at (set_gate_evidence_status e now g) = g_resolved_at g"
  "g_resolver_id (set_gate_evidence_status e now g) = g_resolver_id g"
  "g_requires_human (set_gate_evidence_status e now g) = g_requires_human g"
  "g_evidence_status (set_gate_evidence_status e now g) = e"
  by (simp_all add: set_gate_evidence_status_def)

lemma get_upd_gate [row_simps]:
  "(\<And>g. g_id (f g) = g_id g) \<Longrightarrow>
     get_gate j (upd_gate i f db) = (if j = i then map_option f (get_gate j db) else get_gate j db)"
  by (simp add: get_gate_def upd_gate_def gate_rows.get_upd)

lemma get_gate_log [row_simps]: "get_gate i (log_activity a db) = get_gate i db"
  and get_gate_step_run [row_simps]: "get_gate i (upd_step_run j f' db) = get_gate i db"
  and get_gate_doc [row_simps]: "get_gate i (upd_doc j f'' db) = get_gate i db"
  by (simp_all add: get_gate_def log_activity_def upd_step_run_def upd_doc_def)

lemma t_gates_log [simp]: "t_gates (log_activity a db) = t_gates db"
  and t_gates_step_run [simp]: "t_gates (upd_step_run j f' db) = t_gates db"
  and t_gates_doc [simp]: "t_gates (upd_doc j f'' db) = t_gates db"
  by (simp_all add: log_activity_def upd_step_run_def upd_doc_def)

lemma find_org_gate_Some:
  "find_org_gate org i db = Some g \<longleftrightarrow> get_gate i db = Some g \<and> g_org_id g = org"
  by (auto simp: find_org_gate_def split: option.splits if_splits)

lemma get_gate_id: "get_gate i db = Some g \<Longrightarrow> g_id g = i \<and> g \<in> set (t_gates db)"
  unfolding get_gate_def by (rule gate_rows.get_key)

end
