(* ===== verification/Gate_Service.thy ===== *)
theory Gate_Service
  imports Gate_Schema
begin

text \<open>
  Gate policy and gate life cycle (\<^verbatim>\<open>services/gate_resolver.py\<close>, \<^verbatim>\<open>services/gate_service.py\<close>,
  \<^verbatim>\<open>services/gate_self_reclamation.py\<close>, \<^verbatim>\<open>services/gate_github_check.py\<close>): which disposition a new gate
  gets, which row a work item's gate lives in, creation and resubmission, and the actions on an
  existing gate (hold, resume, void, undo, discuss, resolve from a verdict, reopen on a new commit).

  An operation reads the clock once: \<^verbatim>\<open>now\<close> is a parameter and stands for every
  \<^verbatim>\<open>datetime.now()\<close> of the call. A raised exception rolls the session back, so the error case
  carries no state. Notifications that the code sends best effort are the rows of the outbox.
\<close>

section \<open>Disposition and risk grade\<close>

definition posture_to_disposition :: "string \<Rightarrow> string" where
  "posture_to_disposition posture =
     (if posture = ''conservative'' then ''ask'' else if posture = ''balanced'' then ''ask''
      else if posture = ''permissive'' then ''allow_auto'' else ''ask'')"

definition resolve_disposition :: "gate_db \<Rightarrow> uuid \<Rightarrow> uuid \<Rightarrow> uuid \<Rightarrow> string \<Rightarrow> string \<times> string" where
  "resolve_disposition db org member role gate_type =
     (case first_row (filter (\<lambda>o'. mo_org o' = org \<and> mo_member o' = member \<and> mo_gate_type o' = gate_type)
             (t_member_overrides db)) of
        Some mo \<Rightarrow> (mo_disposition mo, ''member_override'')
      | None \<Rightarrow>
          (case first_row (filter (\<lambda>o'. go_org o' = org \<and> go_role o' = role \<and> go_gate_type o' = gate_type)
                  (t_org_overrides db)) of
             Some ro \<Rightarrow> (go_disposition ro, ''org_override'')
           | None \<Rightarrow>
               (case first_row (filter (\<lambda>p. gp_org p = org) (t_policies db)) of
                  Some p \<Rightarrow> (posture_to_disposition (gp_posture p), ''org_policy'')
                | None \<Rightarrow> (''ask'', ''system_default''))))"

definition get_org_posture :: "gate_db \<Rightarrow> uuid \<Rightarrow> string option" where
  "get_org_posture db org = map_option gp_posture (first_row (filter (\<lambda>p. gp_org p = org) (t_policies db)))"

definition HIGH_RISK_GATE_TYPES :: "string list" where
  "HIGH_RISK_GATE_TYPES = [''merge'', ''deploy'', ''workflow_config_publish'', ''doc_approval'',
     ''external_publish'', ''concept_approval'']"

definition LOW_RISK_GATE_TYPES :: "string list" where
  "LOW_RISK_GATE_TYPES = [''pr_review'', ''qa'', ''agent_decision_request'']"

definition derive_risk_grade :: "string option \<Rightarrow> string \<Rightarrow> string" where
  "derive_risk_grade posture gate_type =
     (if posture = Some ''conservative'' then ''high''
      else if posture = Some ''permissive'' then ''low''
      else if gate_type \<in> set HIGH_RISK_GATE_TYPES then ''high''
      else if gate_type \<in> set LOW_RISK_GATE_TYPES then ''low''
      else ''high'')"

section \<open>The row of a work item's gate\<close>

definition normalize_repo :: "string option \<Rightarrow> string" where
  "normalize_repo repo = py_lower (py_strip (case repo of None \<Rightarrow> [] | Some r \<Rightarrow> r))"

definition norm_repo_opt :: "string option \<Rightarrow> string option" where
  \<comment> \<open>\<^verbatim>\<open>normalize_repo(repo) or None\<close> where a repo is given\<close>
  "norm_repo_opt repo = (case repo of None \<Rightarrow> None
     | Some r \<Rightarrow> (let n = normalize_repo (Some r) in if n = [] then None else Some n))"

record slot =
  sl_org :: uuid
  sl_work_item_id :: uuid
  sl_work_item_type :: string
  sl_gate_type :: string
  sl_scope_key :: string

definition gate_slot :: "gate \<Rightarrow> slot" where
  "gate_slot g = \<lparr>sl_org = g_org_id g, sl_work_item_id = g_work_item_id g,
     sl_work_item_type = g_work_item_type g, sl_gate_type = g_gate_type g, sl_scope_key = g_scope_key g\<rparr>"

definition find_gate_slot_with_pr_fallback :: "slot \<Rightarrow> int option \<Rightarrow> string option \<Rightarrow> gate_db
    \<Rightarrow> error + (gate option \<times> gate_db)" where
  "find_gate_slot_with_pr_fallback sl pr repo0 db =
     (let repo = norm_repo_opt repo0;
          null_slot = scalar_one_or_none (filter (\<lambda>g. gate_slot g = sl \<and> g_pr_number g = None) (t_gates db))
      in case pr of
        None \<Rightarrow> (case null_slot of Inl e \<Rightarrow> Inl e | Inr r \<Rightarrow> Inr (r, db))
      | Some n \<Rightarrow>
          (case scalar_one_or_none (filter (\<lambda>g. gate_slot g = sl \<and> g_pr_number g = Some n
                    \<and> g_repo_full_name g = repo) (t_gates db)) of
             Inl e \<Rightarrow> Inl e
           | Inr (Some g) \<Rightarrow> Inr (Some g, db)
           | Inr None \<Rightarrow>
               (case (if repo = None then Inr None
                      else scalar_one_or_none (filter (\<lambda>g. gate_slot g = sl \<and> g_pr_number g = Some n
                             \<and> g_repo_full_name g = None) (t_gates db))) of
                  Inl e \<Rightarrow> Inl e
                | Inr (Some g) \<Rightarrow>
                    (let f = (\<lambda>x. x\<lparr>g_repo_full_name := repo\<rparr>)
                     in Inr (Some (f g), upd_gate (g_id g) f db))
                | Inr None \<Rightarrow>
                    (case null_slot of
                       Inl e \<Rightarrow> Inl e
                     | Inr None \<Rightarrow> Inr (None, db)
                     | Inr (Some g) \<Rightarrow>
                         (let f = (\<lambda>x. x\<lparr>g_pr_number := Some n, g_repo_full_name := repo\<rparr>)
                          in Inr (Some (f g), upd_gate (g_id g) f db))))))"

definition find_unapproved_gate_of_type :: "uuid \<Rightarrow> uuid \<Rightarrow> string \<Rightarrow> string \<Rightarrow> gate_db
    \<Rightarrow> error + gate option" where
  "find_unapproved_gate_of_type org wi wit gate_type db =
     (case find_gate_slot_with_pr_fallback \<lparr>sl_org = org, sl_work_item_id = wi, sl_work_item_type = wit,
              sl_gate_type = gate_type, sl_scope_key = []\<rparr> None None db of
        Inl e \<Rightarrow> Inl e
      | Inr (None, _) \<Rightarrow> Inr None
      | Inr (Some g, _) \<Rightarrow> Inr (if g_status g = Approved then None else Some g))"

definition find_pending_merge_gates_by_head_sha :: "uuid \<Rightarrow> string \<Rightarrow> gate_db \<Rightarrow> gate list" where
  "find_pending_merge_gates_by_head_sha org head_sha db =
     filter (\<lambda>g. g_org_id g = org \<and> g_gate_type g = ''merge'' \<and> g_github_check_run_sha g = Some head_sha
        \<and> g_status g \<in> {Pending, Auto_passed}) (t_gates db)"

section \<open>Creation and resubmission\<close>

definition ALWAYS_MANUAL_GATE_TYPES :: "string list" where
  "ALWAYS_MANUAL_GATE_TYPES = [''doc_approval'', ''loop_decision'', ''artifact_canonicalize'',
     ''agent_decision_request'', ''hypothesis_outcome_confirm'', ''support_escalation_review'',
     ''external_publish'', ''concept_approval'', ''ads_boost'']"

definition disposition_to_status :: "string \<Rightarrow> gate_status" where
  "disposition_to_status d =
     (if d = ''allow_auto'' then Auto_passed else if d = ''ask'' then Pending
      else if d = ''deny'' then Rejected else Pending)"

definition initial_status :: "gate_db \<Rightarrow> uuid \<Rightarrow> uuid \<Rightarrow> uuid \<Rightarrow> string \<Rightarrow> gate_status" where
  "initial_status db org member role gate_type =
     (let d = fst (resolve_disposition db org member role gate_type)
      in if gate_type \<in> set ALWAYS_MANUAL_GATE_TYPES then Pending else disposition_to_status d)"

definition gate_name_payload :: "gate \<Rightarrow> jdict" where
  "gate_name_payload g =
     (if g_gate_type g \<noteq> ''agent_decision_request'' then []
      else (case g_neutral_facts g of
              None \<Rightarrow> []
            | Some facts \<Rightarrow>
                (case map_of facts ''question'' of
                   Some (JStr q) \<Rightarrow> if py_strip q = [] then []
                                    else [(''gate_name'', JStr (take 120 (py_strip q)))]
                 | _ \<Rightarrow> [])))"

definition gate_notification_targets :: "gate_db \<Rightarrow> uuid \<Rightarrow> uuid list" where
  "gate_notification_targets db org =
     map om_id (filter (\<lambda>m. om_org m = org \<and> om_deleted_at m = None
        \<and> om_role m \<in> {''owner'', ''admin''}) (t_org_members db))"

definition notify_pending_approval :: "gate \<Rightarrow> uuid option \<Rightarrow> gate_db \<Rightarrow> gate_db" where
  "notify_pending_approval g project db =
     (let targets = gate_notification_targets db (g_org_id g)
      in if targets = [] then db
         else db\<lparr>t_notifications := t_notifications db @ [\<lparr>n_org = g_org_id g,
                n_event_type = ''gate.pending_approval'', n_targets = targets, n_reference_id = g_id g,
                n_payload = (''gate_type'', JStr (g_gate_type g)) # gate_name_payload g,
                n_source_project_id = project\<rparr>]\<rparr>)"

record create_args =
  ca_slot :: slot
  ca_member :: uuid
  ca_role :: uuid
  ca_facts :: "jdict option"
  ca_project :: "uuid option"
  ca_notify :: bool
  ca_gate_id :: "uuid option"
  ca_pr_number :: "int option"
  ca_repo :: "string option"
  ca_designated :: "uuid option"

definition facts_of :: "gate \<Rightarrow> jdict" where
  \<comment> \<open>\<^verbatim>\<open>gate.neutral_facts or {}\<close>\<close>
  "facts_of g = (case g_neutral_facts g of None \<Rightarrow> [] | Some f \<Rightarrow> f)"

definition decision_history :: "gate \<Rightarrow> json list" where
  "decision_history g = json_list (map_of (facts_of g) ''decision_history'')"

fun status_text :: "gate_status \<Rightarrow> string" where
  "status_text Pending = ''pending''"
| "status_text Approved = ''approved''"
| "status_text Rejected = ''rejected''"
| "status_text Auto_passed = ''auto_passed''"
| "status_text Voided = ''voided''"
| "status_text Held = ''held''"

definition reopened_gate :: "gate_status \<Rightarrow> create_args \<Rightarrow> timestamp \<Rightarrow> gate \<Rightarrow> gate" where
  "reopened_gate new_status a now g =
     (let entry = JObj [(''status'', JStr (status_text (g_status g))),
                        (''resolver_id'', jopt_str (g_resolver_id g)),
                        (''resolved_at'', jopt_time (g_resolved_at g)),
                        (''resolution_note'', jopt_str (g_resolution_note g)),
                        (''neutral_facts'', (case g_neutral_facts g of None \<Rightarrow> JNull | Some f \<Rightarrow> JObj f))];
          history = decision_history g @ [entry];
          facts = (case ca_facts a of None \<Rightarrow> [] | Some f \<Rightarrow> f)
      in (set_gate_status new_status now g)\<lparr>
           g_requires_human := (new_status = Pending),
           g_resolver_id := None,
           g_resolution_note := None,
           g_resolved_at := (if new_status \<noteq> Pending then Some now else None),
           g_designated_approver_id := ca_designated a,
           g_neutral_facts := Some (AList.update ''decision_history'' (JList history) facts)\<rparr>)"

definition reopen_rejected_gate :: "gate \<Rightarrow> create_args \<Rightarrow> timestamp \<Rightarrow> gate_db \<Rightarrow> gate \<times> gate_db" where
  "reopen_rejected_gate g a now db =
     (let new_status = initial_status db (sl_org (ca_slot a)) (ca_member a) (ca_role a)
                         (sl_gate_type (ca_slot a));
          f = reopened_gate new_status a now;
          db1 = upd_gate (g_id g) f db;
          db2 = (if new_status = Pending \<and> ca_notify a
                 then notify_pending_approval (f g) (ca_project a) db1 else db1)
      in (f g, db2))"

definition new_gate :: "create_args \<Rightarrow> uuid \<Rightarrow> gate_status \<Rightarrow> timestamp \<Rightarrow> gate" where
  "new_gate a fresh status now =
     \<lparr>g_id = (case ca_gate_id a of Some i \<Rightarrow> i | None \<Rightarrow> fresh), g_org_id = sl_org (ca_slot a),
      g_work_item_id = sl_work_item_id (ca_slot a), g_work_item_type = sl_work_item_type (ca_slot a),
      g_gate_type = sl_gate_type (ca_slot a), g_pr_number = ca_pr_number a,
      g_repo_full_name = norm_repo_opt (ca_repo a), g_scope_key = sl_scope_key (ca_slot a),
      g_status = status, g_resolver_id = None,
      g_resolved_at = (if status \<noteq> Pending then Some now else None), g_resolution_note = None,
      g_designated_approver_id = ca_designated a, g_requested_by_member_id = None,
      g_held_until = None, g_neutral_facts = ca_facts a, g_requires_human = (status = Pending),
      g_evidence_status = None, g_decision_basis = None, g_auto_decision_reason = None,
      g_status_entered_at = Some now, g_evidence_status_entered_at = None,
      g_github_check_run_id = None, g_github_check_run_sha = None, g_approved_head_sha = None,
      g_pr_head_observed_at = None, g_seals = no_seals, g_reapproval_required = False,
      g_publish_outcome = None, g_created_at = now\<rparr>"

definition create_gate :: "create_args \<Rightarrow> uuid \<Rightarrow> timestamp \<Rightarrow> gate_db \<Rightarrow> error + (gate \<times> gate_db)" where
  "create_gate a fresh now db =
     (case find_gate_slot_with_pr_fallback (ca_slot a) (ca_pr_number a) (norm_repo_opt (ca_repo a)) db of
        Inl e \<Rightarrow> Inl e
      | Inr (Some g, db1) \<Rightarrow>
          (if g_status g \<noteq> Rejected then Inr (g, db1)
           else Inr (reopen_rejected_gate g a now db1))
      | Inr (None, db1) \<Rightarrow>
          (let status = initial_status db1 (sl_org (ca_slot a)) (ca_member a) (ca_role a)
                          (sl_gate_type (ca_slot a));
               g = new_gate a fresh status now;
               db2 = db1\<lparr>t_gates := t_gates db1 @ [g]\<rparr>;
               db3 = (if status = Pending \<and> ca_notify a
                      then notify_pending_approval g (ca_project a) db2 else db2)
           in Inr (g, db3)))"

section \<open>One row per slot\<close>

text \<open>
  The key under which the database keeps gates unique (the partial unique indexes of the gate
  table): the slot, the pull request and, once a pull request is known, its repository.
\<close>

definition gate_key :: "gate \<Rightarrow> slot \<times> int option \<times> string option" where
  "gate_key g = (gate_slot g, g_pr_number g, if g_pr_number g = None then None else g_repo_full_name g)"

definition unique_slots :: "gate_db \<Rightarrow> bool" where
  "unique_slots db \<longleftrightarrow> distinct (map g_id (t_gates db)) \<and> distinct (map gate_key (t_gates db))"

definition key_row :: "slot \<times> int option \<times> string option \<Rightarrow> gate_db \<Rightarrow> gate option" where
  "key_row k db = List.find (\<lambda>g. gate_key g = k) (t_gates db)"

text \<open>What a lookup may change in a gate: an unknown pull request or repository becomes known.\<close>

definition promotes :: "gate \<Rightarrow> gate \<Rightarrow> bool" where
  "promotes g g' \<longleftrightarrow>
     g' = g\<lparr>g_pr_number := g_pr_number g', g_repo_full_name := g_repo_full_name g'\<rparr>
     \<and> (g_pr_number g \<noteq> None \<longrightarrow> g_pr_number g' = g_pr_number g)
     \<and> (g_pr_number g \<noteq> None \<and> g_repo_full_name g \<noteq> None \<longrightarrow> g_repo_full_name g' = g_repo_full_name g)"

lemma null_slot_filter:
  "filter (\<lambda>g. gate_slot g = sl \<and> g_pr_number g = None) gs = filter (\<lambda>g. gate_key g = (sl, None, None)) gs"
  by (rule filter_cong) (auto simp: gate_key_def)

lemma pr_slot_filter:
  "filter (\<lambda>g. gate_slot g = sl \<and> g_pr_number g = Some n \<and> g_repo_full_name g = r) gs
     = filter (\<lambda>g. gate_key g = (sl, Some n, r)) gs"
  by (rule filter_cong) (auto simp: gate_key_def)

lemma unique_key_row:
  "unique_slots db \<Longrightarrow> scalar_one_or_none (filter (\<lambda>g. gate_key g = k) (t_gates db)) = Inr (key_row k db)"
  by (simp add: unique_slots_def filter_key_le1 key_row_def split: option.splits)

lemma key_row_Some: "key_row k db = Some g \<Longrightarrow> g \<in> set (t_gates db) \<and> gate_key g = k"
  unfolding key_row_def by (rule find_SomeD)

lemma key_row_None: "key_row k db = None \<longleftrightarrow> k \<notin> gate_key ` set (t_gates db)"
  unfolding key_row_def by (auto simp: find_None_iff)

lemma key_row_iff:
  "unique_slots db \<Longrightarrow> key_row k db = Some g \<longleftrightarrow> g \<in> set (t_gates db) \<and> gate_key g = k"
proof
  assume u: "unique_slots db" and g: "g \<in> set (t_gates db) \<and> gate_key g = k"
  then have "key_row k db \<noteq> None" using key_row_None by blast
  then obtain g' where g': "key_row k db = Some g'" by auto
  then have "g' \<in> set (t_gates db) \<and> gate_key g' = gate_key g" using key_row_Some g by metis
  then have "g' = g" using u g by (auto simp: unique_slots_def distinct_map inj_on_def)
  with g' show "key_row k db = Some g" by simp
qed (rule key_row_Some)

text \<open>Under the indexes the lookup is this choice between at most three rows.\<close>

lemma find_gate_slot_unique:
  assumes "unique_slots db"
  shows "find_gate_slot_with_pr_fallback sl pr repo0 db = Inr (
     let repo = norm_repo_opt repo0 in
     case pr of
       None \<Rightarrow> (key_row (sl, None, None) db, db)
     | Some n \<Rightarrow>
         (case key_row (sl, Some n, repo) db of
            Some g \<Rightarrow> (Some g, db)
          | None \<Rightarrow>
              (case (if repo = None then None else key_row (sl, Some n, None) db) of
                 Some g \<Rightarrow> (let f = (\<lambda>x. x\<lparr>g_repo_full_name := repo\<rparr>)
                            in (Some (f g), upd_gate (g_id g) f db))
               | None \<Rightarrow>
                   (case key_row (sl, None, None) db of
                      None \<Rightarrow> (None, db)
                    | Some g \<Rightarrow> (let f = (\<lambda>x. x\<lparr>g_pr_number := Some n, g_repo_full_name := repo\<rparr>)
                                in (Some (f g), upd_gate (g_id g) f db))))))"
  unfolding find_gate_slot_with_pr_fallback_def null_slot_filter pr_slot_filter
  using assms by (simp add: unique_key_row Let_def split: option.splits)

lemma unique_slots_upd:
  assumes u: "unique_slots db" and g: "g \<in> set (t_gates db)"
    and id: "\<And>x. g_id (f x) = g_id x" and key: "key_row (gate_key (f g)) db = None \<or> gate_key (f g) = gate_key g"
  shows "unique_slots (upd_gate (g_id g) f db)"
  using u gate_rows.distinct_upd [of f "g_id g" "t_gates db"] id key
    distinct_upd_row [of g_id "t_gates db" gate_key g f] g
  by (auto simp: unique_slots_def upd_gate_def key_row_None)

lemma upd_gate_member:
  assumes "unique_slots db" "g \<in> set (t_gates db)"
  shows "f g \<in> set (t_gates (upd_gate (g_id g) f db))"
  using assms by (auto simp: upd_gate_def upd_row_def)

lemma gate_slot_update [simp]:
  "gate_slot (g\<lparr>g_pr_number := p\<rparr>) = gate_slot g"
  "gate_slot (g\<lparr>g_repo_full_name := r\<rparr>) = gate_slot g"
  by (simp_all add: gate_slot_def)

definition target_key :: "slot \<Rightarrow> int option \<Rightarrow> string option \<Rightarrow> slot \<times> int option \<times> string option" where
  "target_key sl pr repo = (sl, pr, if pr = None then None else norm_repo_opt repo)"

lemma promotes_refl [simp]: "promotes g g"
  by (simp add: promotes_def)

lemma list_all2_promotes_refl: "list_all2 promotes gs gs"
  by (simp add: list.rel_refl)

lemma promotion_step:
  assumes u: "unique_slots db" and g: "g \<in> set (t_gates db)" and id: "\<And>x. g_id (f x) = g_id x"
    and none: "key_row (gate_key (f g)) db = None" and p: "promotes g (f g)"
  shows "unique_slots (upd_gate (g_id g) f db)
    \<and> list_all2 promotes (t_gates db) (t_gates (upd_gate (g_id g) f db))
    \<and> key_row (gate_key (f g)) (upd_gate (g_id g) f db) = Some (f g)"
proof -
  have u': "unique_slots (upd_gate (g_id g) f db)"
    using unique_slots_upd [OF u g id] none by blast
  have "list_all2 promotes (t_gates db) (t_gates (upd_gate (g_id g) f db))"
    using list_all2_upd_row [of g_id "t_gates db" g promotes f] u g p by (simp add: unique_slots_def upd_gate_def)
  then show ?thesis using u' upd_gate_member [OF u g] key_row_iff [OF u'] by blast
qed

lemma find_gate_slot_result:
  assumes u: "unique_slots db" and f: "find_gate_slot_with_pr_fallback sl pr repo db = Inr (r, db')"
  shows "unique_slots db' \<and> list_all2 promotes (t_gates db) (t_gates db')
    \<and> key_row (target_key sl pr repo) db' = r \<and> (r = None \<longrightarrow> db' = db)"
proof (cases pr)
  case None
  then show ?thesis using f u
    by (auto simp: find_gate_slot_unique [OF u] target_key_def list_all2_promotes_refl)
next
  case (Some n)
  let ?repo = "norm_repo_opt repo"
  show ?thesis
  proof (cases "key_row (sl, Some n, ?repo) db")
    case (Some g)
    with \<open>pr = Some n\<close> show ?thesis using f u
      by (auto simp: find_gate_slot_unique [OF u] target_key_def list_all2_promotes_refl)
  next
    case none: None
    show ?thesis
    proof (cases "if ?repo = None then None else key_row (sl, Some n, None) db")
      case (Some g)
      let ?f = "\<lambda>x. x\<lparr>g_repo_full_name := ?repo\<rparr>"
      have g: "g \<in> set (t_gates db)" "gate_key g = (sl, Some n, None)"
        using Some key_row_Some [of "(sl, Some n, None)" db g] by (auto split: if_splits)
      then have "gate_key (?f g) = (sl, Some n, ?repo)" "promotes g (?f g)"
        by (auto simp: gate_key_def promotes_def split: if_splits)
      with promotion_step [OF u g(1), of ?f] none Some f \<open>pr = Some n\<close> show ?thesis
        by (auto simp: find_gate_slot_unique [OF u] target_key_def Let_def)
    next
      case none2: None
      show ?thesis
      proof (cases "key_row (sl, None, None) db")
        case None
        with none none2 f \<open>pr = Some n\<close> show ?thesis using u
          by (auto simp: find_gate_slot_unique [OF u] target_key_def list_all2_promotes_refl)
      next
        case (Some g)
        let ?f = "\<lambda>x. x\<lparr>g_pr_number := Some n, g_repo_full_name := ?repo\<rparr>"
        have g: "g \<in> set (t_gates db)" "gate_key g = (sl, None, None)"
          using Some key_row_Some [of "(sl, None, None)" db g] by auto
        then have "gate_key (?f g) = (sl, Some n, ?repo)" "promotes g (?f g)"
          by (auto simp: gate_key_def promotes_def split: if_splits)
        with promotion_step [OF u g(1), of ?f] none none2 Some f \<open>pr = Some n\<close> show ?thesis
          by (auto simp: find_gate_slot_unique [OF u] target_key_def Let_def)
      qed
    qed
  qed
qed

lemma find_gate_slot_total:
  "unique_slots db \<Longrightarrow> \<exists>r db'. find_gate_slot_with_pr_fallback sl pr repo db = Inr (r, db')"
proof -
  assume u: "unique_slots db"
  obtain p where "find_gate_slot_with_pr_fallback sl pr repo db = Inr p"
    using find_gate_slot_unique [OF u] by blast
  then show ?thesis by (cases p) auto
qed

lemma find_gate_slot_exact:
  assumes "unique_slots db" "key_row (target_key sl pr repo) db = Some g"
  shows "find_gate_slot_with_pr_fallback sl pr repo db = Inr (Some g, db)"
  using assms by (cases pr) (auto simp: find_gate_slot_unique target_key_def)

section \<open>Find or create\<close>

text \<open>
  Several services look a row up and add it when it is missing. The contract of such a pair: the
  lookup always answers in a state of the invariant, a row once found is found again unchanged, and
  a row added under a free key is the row the next lookup answers. A client then gets the same row
  from every later call with the same key, which is the idempotence the callers rely on.
\<close>

locale find_or_add =
  fixes inv :: "'s \<Rightarrow> bool"
    and look :: "'k \<Rightarrow> 's \<Rightarrow> error + ('r option \<times> 's)"
    and add :: "'a \<Rightarrow> 's \<Rightarrow> 'r \<times> 's"
    and admissible :: "'a \<Rightarrow> 's \<Rightarrow> bool"
    and key_of :: "'a \<Rightarrow> 'k"
  assumes look_total: "inv s \<Longrightarrow> \<exists>r s'. look k s = Inr (r, s') \<and> inv s'"
    and look_again: "inv s \<Longrightarrow> look k s = Inr (Some r, s') \<Longrightarrow> look k s' = Inr (Some r, s')"
    and add_found: "inv s \<Longrightarrow> look (key_of a) s = Inr (None, s') \<Longrightarrow> admissible a s' \<Longrightarrow> add a s' = (r, s'')
          \<Longrightarrow> inv s'' \<and> look (key_of a) s'' = Inr (Some r, s'')"
begin

lemma found_or_added:
  assumes "inv s" and adm: "\<And>s'. look (key_of a) s = Inr (None, s') \<Longrightarrow> admissible a s'"
  obtains r s' where "inv s'" "look (key_of a) s' = Inr (Some r, s')"
    and "look (key_of a) s = Inr (Some r, s')
         \<or> (\<exists>s0. look (key_of a) s = Inr (None, s0) \<and> add a s0 = (r, s'))"
proof -
  obtain q s0 where q: "look (key_of a) s = Inr (q, s0)" "inv s0" using look_total [OF assms(1)] by blast
  show thesis
  proof (cases q)
    case None
    obtain r s' where a: "add a s0 = (r, s')" by fastforce
    with add_found [OF assms(1)] adm q None show thesis by (intro that [of s' r]) auto
  next
    case (Some r)
    then have "look (key_of a) s0 = Inr (Some r, s0)" using look_again [OF assms(1)] q by blast
    with q Some show thesis using that [of s0 r] by blast
  qed
qed

end

definition insert_gate :: "create_args \<times> uuid \<times> timestamp \<Rightarrow> gate_db \<Rightarrow> gate \<times> gate_db" where
  "insert_gate = (\<lambda>(a, fresh, now) db.
     let status = initial_status db (sl_org (ca_slot a)) (ca_member a) (ca_role a) (sl_gate_type (ca_slot a));
         g = new_gate a fresh status now;
         db2 = db\<lparr>t_gates := t_gates db @ [g]\<rparr>
     in (g, if status = Pending \<and> ca_notify a then notify_pending_approval g (ca_project a) db2 else db2))"

definition fresh_gate_id :: "create_args \<times> uuid \<times> timestamp \<Rightarrow> gate_db \<Rightarrow> bool" where
  "fresh_gate_id = (\<lambda>(a, fresh, now) db.
     (case ca_gate_id a of Some i \<Rightarrow> i | None \<Rightarrow> fresh) \<notin> g_id ` set (t_gates db))"

definition create_key :: "create_args \<times> uuid \<times> timestamp \<Rightarrow> slot \<times> int option \<times> string option" where
  "create_key = (\<lambda>(a, fresh, now). (ca_slot a, ca_pr_number a, norm_repo_opt (ca_repo a)))"

lemma t_gates_notify [simp]: "t_gates (notify_pending_approval g p db) = t_gates db"
  by (simp add: notify_pending_approval_def Let_def)

lemma unique_slots_cong: "t_gates db = t_gates db' \<Longrightarrow> unique_slots db = unique_slots db'"
  by (simp add: unique_slots_def)

lemma key_row_cong: "t_gates db = t_gates db' \<Longrightarrow> key_row k db = key_row k db'"
  by (simp add: key_row_def)

lemma insert_gate_gates:
  "insert_gate (a, fresh, now) db = (g, db') \<Longrightarrow>
     g = new_gate a fresh (initial_status db (sl_org (ca_slot a)) (ca_member a) (ca_role a)
           (sl_gate_type (ca_slot a))) now \<and> t_gates db' = t_gates db @ [g]"
  by (auto simp: insert_gate_def Let_def split: if_splits)

lemma norm_repo_opt_idem [simp]: "norm_repo_opt (norm_repo_opt r) = norm_repo_opt r"
proof (cases r)
  case (Some s)
  have "normalize_repo (Some (normalize_repo (Some s))) = normalize_repo (Some s)"
    by (simp add: normalize_repo_def py_strip_lower py_lower_idem)
  with Some show ?thesis by (simp add: norm_repo_opt_def Let_def)
qed (simp add: norm_repo_opt_def)

lemma gate_key_new [simp]:
  "gate_key (new_gate a fresh st now) = target_key (ca_slot a) (ca_pr_number a) (norm_repo_opt (ca_repo a))"
  by (simp add: gate_key_def new_gate_def target_key_def gate_slot_def)

lemma insert_gate_unique:
  assumes u: "unique_slots db" and free: "key_row (target_key (ca_slot a) (ca_pr_number a) (ca_repo a)) db = None"
    and fresh: "fresh_gate_id (a, fresh, now) db" and ins: "insert_gate (a, fresh, now) db = (g, db')"
  shows "unique_slots db' \<and> key_row (target_key (ca_slot a) (ca_pr_number a) (ca_repo a)) db' = Some g"
proof -
  have g: "g = new_gate a fresh (initial_status db (sl_org (ca_slot a)) (ca_member a) (ca_role a)
           (sl_gate_type (ca_slot a))) now" and gs: "t_gates db' = t_gates db @ [g]"
    using insert_gate_gates [OF ins] by auto
  have "g_id g \<notin> g_id ` set (t_gates db)" using fresh by (simp add: g fresh_gate_id_def new_gate_def)
  moreover have k: "gate_key g = target_key (ca_slot a) (ca_pr_number a) (ca_repo a)"
    by (simp add: g target_key_def)
  ultimately have u': "unique_slots db'" using u free gs by (simp add: unique_slots_def key_row_None)
  then show ?thesis using key_row_iff [OF u'] gs k by simp
qed

lemma target_key_norm: "target_key sl pr (norm_repo_opt r) = target_key sl pr r"
  by (simp add: target_key_def)

interpretation gate_slots: find_or_add unique_slots
  "\<lambda>(sl, pr, repo). find_gate_slot_with_pr_fallback sl pr repo" insert_gate fresh_gate_id create_key
proof
  fix s :: gate_db and k :: "slot \<times> int option \<times> string option"
  assume u: "unique_slots s"
  obtain sl pr repo where k: "k = (sl, pr, repo)" by (cases k)
  show "\<exists>r s'. (case k of (sl, pr, repo) \<Rightarrow> find_gate_slot_with_pr_fallback sl pr repo) s = Inr (r, s') \<and> unique_slots s'"
    using find_gate_slot_total [OF u] find_gate_slot_result [OF u] by (fastforce simp: k)
  show "(case k of (sl, pr, repo) \<Rightarrow> find_gate_slot_with_pr_fallback sl pr repo) s' = Inr (Some r, s')"
    if "(case k of (sl, pr, repo) \<Rightarrow> find_gate_slot_with_pr_fallback sl pr repo) s = Inr (Some r, s')" for r s'
    using that find_gate_slot_result [OF u] find_gate_slot_exact by (auto simp: k)
next
  fix s s' s'' :: gate_db and a :: "create_args \<times> uuid \<times> timestamp" and r
  assume u: "unique_slots s" and adm: "fresh_gate_id a s'" and ins: "insert_gate a s' = (r, s'')"
    and "(case create_key a of (sl, pr, repo) \<Rightarrow> find_gate_slot_with_pr_fallback sl pr repo) s = Inr (None, s')"
  moreover obtain args fresh now where a: "a = (args, fresh, now)" by (cases a)
  ultimately have f: "find_gate_slot_with_pr_fallback (ca_slot args) (ca_pr_number args)
      (norm_repo_opt (ca_repo args)) s = Inr (None, s')" by (simp add: create_key_def)
  from find_gate_slot_result [OF u f]
  have "unique_slots s'" "key_row (target_key (ca_slot args) (ca_pr_number args) (ca_repo args)) s' = None"
    by (auto simp: target_key_norm)
  then have n: "unique_slots s''" "key_row (target_key (ca_slot args) (ca_pr_number args) (ca_repo args)) s'' = Some r"
    using insert_gate_unique [of s' args fresh now r s''] adm ins a by simp_all
  then have "find_gate_slot_with_pr_fallback (ca_slot args) (ca_pr_number args)
      (norm_repo_opt (ca_repo args)) s'' = Inr (Some r, s'')"
    using find_gate_slot_exact target_key_norm by metis
  with n(1) show "unique_slots s'' \<and> (case create_key a of (sl, pr, repo) \<Rightarrow> find_gate_slot_with_pr_fallback sl pr repo) s''
      = Inr (Some r, s'')"
    by (simp add: create_key_def a)
qed

lemma create_gate_cases:
  assumes "unique_slots db" "create_gate a fresh now db = Inr (g, db')"
  obtains (found) "find_gate_slot_with_pr_fallback (ca_slot a) (ca_pr_number a) (norm_repo_opt (ca_repo a)) db
              = Inr (Some g, db')" "g_status g \<noteq> Rejected"
  | (reopened) g0 db1 where
       "find_gate_slot_with_pr_fallback (ca_slot a) (ca_pr_number a) (norm_repo_opt (ca_repo a)) db
              = Inr (Some g0, db1)" "g_status g0 = Rejected" "reopen_rejected_gate g0 a now db1 = (g, db')"
  | (created) "find_gate_slot_with_pr_fallback (ca_slot a) (ca_pr_number a) (norm_repo_opt (ca_repo a)) db
              = Inr (None, db)" "insert_gate (a, fresh, now) db = (g, db')"
proof -
  obtain r db1 where f: "find_gate_slot_with_pr_fallback (ca_slot a) (ca_pr_number a)
      (norm_repo_opt (ca_repo a)) db = Inr (r, db1)" using find_gate_slot_total [OF assms(1)] by blast
  show thesis
  proof (cases r)
    case None
    then have "db1 = db" using find_gate_slot_result [OF assms(1) f] by simp
    with None f assms(2) show thesis by (intro created) (auto simp: create_gate_def insert_gate_def Let_def)
  next
    case (Some g0)
    with f assms(2) found reopened show thesis by (auto simp: create_gate_def split: if_splits)
  qed
qed

lemma reopened_gate_fields [simp]:
  "g_id (reopened_gate st a now g) = g_id g"
  "gate_key (reopened_gate st a now g) = gate_key g"
  "g_status (reopened_gate st a now g) = st"
  "g_requires_human (reopened_gate st a now g) = (st = Pending)"
  "g_resolved_at (reopened_gate st a now g) = (if st \<noteq> Pending then Some now else None)"
  "g_gate_type (reopened_gate st a now g) = g_gate_type g"
  "g_org_id (reopened_gate st a now g) = g_org_id g"
  by (simp_all add: reopened_gate_def Let_def gate_key_def gate_slot_def)

lemma reopen_rejected_gate_result:
  assumes "unique_slots db" "g0 \<in> set (t_gates db)" "reopen_rejected_gate g0 a now db = (g, db')"
  shows "unique_slots db' \<and> key_row (gate_key g0) db' = Some g
    \<and> g = reopened_gate (initial_status db (sl_org (ca_slot a)) (ca_member a) (ca_role a)
            (sl_gate_type (ca_slot a))) a now g0
    \<and> t_gates db' = t_gates (upd_gate (g_id g0) (reopened_gate (initial_status db (sl_org (ca_slot a))
            (ca_member a) (ca_role a) (sl_gate_type (ca_slot a))) a now) db)"
proof -
  let ?f = "reopened_gate (initial_status db (sl_org (ca_slot a)) (ca_member a) (ca_role a)
            (sl_gate_type (ca_slot a))) a now"
  have g: "g = ?f g0" and gs: "t_gates db' = t_gates (upd_gate (g_id g0) ?f db)"
    using assms(3) by (auto simp: reopen_rejected_gate_def Let_def split: if_splits)
  have u: "unique_slots db'"
    using unique_slots_cong [OF gs] unique_slots_upd [OF assms(1,2), of ?f] by simp
  then have "key_row (gate_key g0) db' = Some g"
    using key_row_iff [OF u] upd_gate_member [OF assms(1,2), of ?f] gs g by simp
  with u g gs show ?thesis by blast
qed

lemma find_gate_slot_norm:
  assumes "unique_slots db" and "find_gate_slot_with_pr_fallback sl pr (norm_repo_opt repo) db = Inr (r, db')"
  shows "unique_slots db' \<and> list_all2 promotes (t_gates db) (t_gates db')
    \<and> key_row (target_key sl pr repo) db' = r"
  using find_gate_slot_result [OF assms] by (simp add: target_key_norm)

lemma create_gate_result:
  assumes u: "unique_slots db" and c: "create_gate a fresh now db = Inr (g, db')"
    and fr: "fresh_gate_id (a, fresh, now) db"
  shows "unique_slots db' \<and> key_row (target_key (ca_slot a) (ca_pr_number a) (ca_repo a)) db' = Some g"
  using u c
proof (cases rule: create_gate_cases)
  case found
  then show ?thesis using find_gate_slot_norm [OF u] by blast
next
  case (reopened g0 db1)
  then have r: "unique_slots db1" "key_row (target_key (ca_slot a) (ca_pr_number a) (ca_repo a)) db1 = Some g0"
    using find_gate_slot_norm [OF u reopened(1)] by auto
  then show ?thesis using reopen_rejected_gate_result [OF r(1) _ reopened(3)] key_row_Some by metis
next
  case created
  then have "key_row (target_key (ca_slot a) (ca_pr_number a) (ca_repo a)) db = None"
    using find_gate_slot_norm [OF u created(1)] by auto
  then show ?thesis using insert_gate_unique [OF u _ fr created(2)] by blast
qed

lemma create_gate_total:
  "unique_slots db \<Longrightarrow> \<exists>g db'. create_gate a fresh now db = Inr (g, db')"
  using find_gate_slot_total [of db "ca_slot a" "ca_pr_number a" "norm_repo_opt (ca_repo a)"]
  by (auto simp: create_gate_def Let_def split: option.splits prod.splits)

lemma promotes_same_status: "promotes g g' \<Longrightarrow> g_status g' = g_status g \<and> g_id g' = g_id g"
proof -
  assume "promotes g g'"
  then have "g' = g\<lparr>g_pr_number := g_pr_number g', g_repo_full_name := g_repo_full_name g'\<rparr>"
    by (simp add: promotes_def)
  then have "g_status g' = g_status (g\<lparr>g_pr_number := g_pr_number g', g_repo_full_name := g_repo_full_name g'\<rparr>)"
    "g_id g' = g_id (g\<lparr>g_pr_number := g_pr_number g', g_repo_full_name := g_repo_full_name g'\<rparr>)"
    by metis+
  then show ?thesis by simp
qed

section \<open>Properties of the slot lookup and of creation\<close>

definition sample_slot :: slot where
  "sample_slot = \<lparr>sl_org = ''o1'', sl_work_item_id = ''s1'', sl_work_item_type = ''story'',
     sl_gate_type = ''merge'', sl_scope_key = []\<rparr>"

definition sample_args :: create_args where
  "sample_args = \<lparr>ca_slot = sample_slot, ca_member = ''m1'', ca_role = ''r1'', ca_facts = None,
     ca_project = None, ca_notify = True, ca_gate_id = None, ca_pr_number = Some 7,
     ca_repo = Some ''Acme/Repo'', ca_designated = None\<rparr>"

definition empty_db :: gate_db where
  "empty_db = \<lparr>t_gates = [], t_policies = [], t_org_overrides = [], t_member_overrides = [],
     t_step_runs = [], t_docs = [], t_org_members = [], t_roles = [], t_participations = [],
     t_stories = [], t_verdicts = [], t_activities = [], t_notifications = [], t_check_events = [],
     t_goals = [], t_line_definitions = [], t_line_versions = [], t_approvals = [], t_run_events = [],
     t_role_assignments = [], t_team_members = [], t_sprints = [], t_hypotheses = [], t_sprint_links = [], t_evidence = [],
     t_story_links = [], t_loops = [], t_loop_artifacts = [], t_doc_revisions = [], t_projects = [],
     t_accesses = [], t_visual_artifacts = [], t_artifact_comments = [], t_tasks = []\<rparr>"

definition sample_gate :: gate where
  "sample_gate = new_gate (sample_args\<lparr>ca_pr_number := None, ca_repo := None\<rparr>) ''g1'' Pending 100"

definition sample_db :: gate_db where
  "sample_db = empty_db\<lparr>t_gates := [sample_gate, sample_gate\<lparr>g_id := ''g2'', g_pr_number := Some 5,
      g_repo_full_name := Some ''acme/repo'', g_status := Approved, g_resolved_at := Some 120\<rparr>]\<rparr>"

text \<open>
  C13: Where the unique indexes hold, the slot lookup never ends in \<^verbatim>\<open>MultipleResultsFound\<close>; it keeps the
  indexes, changes rows only by filling in a pull request or repository that was unknown (a row that
  belongs to one pull request never passes to another), and a second lookup answers the same row
  without a further change.
\<close>

theorem slot_lookup_unambiguous:
  assumes "unique_slots db"
  shows "\<exists>r db'. find_gate_slot_with_pr_fallback sl pr repo db = Inr (r, db') \<and> unique_slots db'
     \<and> list_all2 promotes (t_gates db) (t_gates db')
     \<and> find_gate_slot_with_pr_fallback sl pr repo db' = Inr (r, db')"
proof -
  obtain r db' where f: "find_gate_slot_with_pr_fallback sl pr repo db = Inr (r, db')"
    using find_gate_slot_total [OF assms] by blast
  then have "find_gate_slot_with_pr_fallback sl pr repo db' = Inr (r, db')"
    using find_gate_slot_result [OF assms f] gate_slots.look_again [of db "(sl, pr, repo)"] assms
    by (cases r) auto
  with f find_gate_slot_result [OF assms f] show ?thesis by blast
qed

theorem slot_lookup_unambiguous_witness:
  "\<exists>r db'. find_gate_slot_with_pr_fallback sample_slot (Some 7) (Some ''Acme/Repo'') sample_db = Inr (r, db')
     \<and> unique_slots db' \<and> list_all2 promotes (t_gates sample_db) (t_gates db')
     \<and> find_gate_slot_with_pr_fallback sample_slot (Some 7) (Some ''Acme/Repo'') db' = Inr (r, db')"
proof (rule slot_lookup_unambiguous)
  show "unique_slots sample_db" by code_simp
qed



text \<open>
  Whatever the policy, creating or resubmitting a gate of a type that always needs a person never
  passes it: when the call answers an approved or auto-passed gate of such a type, that gate was
  already in that status before the call.
\<close>

lemma always_manual_never_auto:
  assumes "unique_slots db" and "create_gate a fresh now db = Inr (g, db')"
    and "sl_gate_type (ca_slot a) \<in> set ALWAYS_MANUAL_GATE_TYPES" and "g_status g \<in> {Approved, Auto_passed}"
  shows "\<exists>g0 \<in> set (t_gates db). g_id g0 = g_id g \<and> g_status g0 = g_status g"
  using assms(1,2)
proof (cases rule: create_gate_cases)
  case found
  then have "list_all2 promotes (t_gates db) (t_gates db')" "g \<in> set (t_gates db')"
    using find_gate_slot_result [OF assms(1)] key_row_Some by fastforce+
  then show ?thesis using list_all2_origin promotes_same_status by metis
next
  case (reopened g0 db1)
  then have "g_status g = Pending"
    using assms(3) by (auto simp: reopen_rejected_gate_def initial_status_def Let_def)
  with assms(4) show ?thesis by simp
next
  case created
  then have "g_status g = Pending" using assms(3) insert_gate_gates [OF created(2)]
    by (auto simp: new_gate_def initial_status_def Let_def)
  with assms(4) show ?thesis by simp
qed

lemma always_manual_never_auto_witness:
  "let a = sample_args\<lparr>ca_slot := sample_slot\<lparr>sl_gate_type := ''external_publish''\<rparr>\<rparr>;
       g0 = sample_gate\<lparr>g_gate_type := ''external_publish'', g_pr_number := Some 7,
              g_repo_full_name := Some ''acme/repo'', g_status := Approved\<rparr>;
       db = sample_db\<lparr>t_gates := [g0]\<rparr>
   in \<exists>x \<in> set (t_gates db). g_id x = g_id g0 \<and> g_status x = g_status g0"
  unfolding Let_def
proof (rule always_manual_never_auto)
  let ?g0 = "sample_gate\<lparr>g_gate_type := ''external_publish'', g_pr_number := Some 7,
              g_repo_full_name := Some ''acme/repo'', g_status := Approved\<rparr>"
  show "unique_slots (sample_db\<lparr>t_gates := [?g0]\<rparr>)" by code_simp
  show "create_gate (sample_args\<lparr>ca_slot := sample_slot\<lparr>sl_gate_type := ''external_publish''\<rparr>\<rparr>) ''g9'' 500
      (sample_db\<lparr>t_gates := [?g0]\<rparr>) = Inr (?g0, sample_db\<lparr>t_gates := [?g0]\<rparr>)" by code_simp
  show "sl_gate_type (ca_slot (sample_args\<lparr>ca_slot := sample_slot\<lparr>sl_gate_type := ''external_publish''\<rparr>\<rparr>))
      \<in> set ALWAYS_MANUAL_GATE_TYPES" by code_simp
  show "g_status ?g0 \<in> {Approved, Auto_passed}" by simp
qed

end
