(* ===== verification/Gate_Actions.thy ===== *)
theory Gate_Actions
  imports Gate_Service
begin

text \<open>
  The actions on an existing gate (\<^verbatim>\<open>services/gate_service.py\<close>): hold and resume, void, the cascade of
  a doc's deletion, undo of a resolution, the request for a discussion, the effect of a decision on
  a doc, and the system paths that change a gate without a person: the verdict capture, the boost
  cancel, the reclamation of a finished story's gates (\<^verbatim>\<open>gate_self_reclamation.py\<close>) and the
  reopening on a new commit (\<^verbatim>\<open>gate_github_check.py\<close>). The inbox order of the gates is here too.
\<close>

section \<open>Workflow step runs bound to a gate\<close>

definition OPEN_STEP_RUN_STATUSES :: "string list" where
  "OPEN_STEP_RUN_STATUSES = [''pending'', ''routing_resolved'', ''dispatched'', ''waiting_gate'',
     ''waiting_parallel'', ''gate_pending'', ''reminded'', ''escalated'', ''held'']"

definition is_active_step_run :: "uuid \<Rightarrow> uuid \<Rightarrow> step_run \<Rightarrow> bool" where
  "is_active_step_run org gate_id s \<longleftrightarrow>
     sr_org s = org \<and> (sr_gate_id s = Some gate_id \<or> sr_h1_gate_id s = Some gate_id)
     \<and> sr_status s \<in> set OPEN_STEP_RUN_STATUSES"

definition find_active_step_run_for_gate :: "gate_db \<Rightarrow> uuid \<Rightarrow> uuid \<Rightarrow> uuid option" where
  "find_active_step_run_for_gate db org gate_id =
     map_option sr_id (max_row (\<lambda>s. (sr_started_at s, sr_id s))
       (filter (is_active_step_run org gate_id) (t_step_runs db)))"

definition set_linked_step_run :: "uuid \<Rightarrow> uuid \<Rightarrow> string \<Rightarrow> timestamp option \<Rightarrow> string option
    \<Rightarrow> gate_db \<Rightarrow> gate_db" where
  "set_linked_step_run org gate_id status held_until reason db =
     (case find_active_step_run_for_gate db org gate_id of
        None \<Rightarrow> db
      | Some i \<Rightarrow> upd_step_run i (\<lambda>s. (s\<lparr>sr_status := status, sr_held_until := held_until\<rparr>)\<lparr>
            sr_routing_reason := (case reason of None \<Rightarrow> sr_routing_reason s | Some r \<Rightarrow> Some (take 500 r))\<rparr>) db)"

definition skip_linked_step_run :: "uuid \<Rightarrow> uuid \<Rightarrow> string \<Rightarrow> timestamp \<Rightarrow> gate_db \<Rightarrow> gate_db" where
  "skip_linked_step_run org gate_id reason now db =
     (case find_active_step_run_for_gate db org gate_id of
        None \<Rightarrow> db
      | Some i \<Rightarrow> upd_step_run i (\<lambda>s. s\<lparr>sr_status := ''skipped'', sr_routing_reason := Some (take 500 reason),
            sr_resolved_at := Some now\<rparr>) db)"

section \<open>Hold, resume, void\<close>

definition gate_not_found :: error where
  "gate_not_found = ValueError ''gate not found''"

definition illegal_transition :: error where
  "illegal_transition = ValueError ''illegal transition''"

definition hold_gate :: "uuid \<Rightarrow> uuid \<Rightarrow> uuid \<Rightarrow> string option \<Rightarrow> timestamp option \<Rightarrow> timestamp \<Rightarrow> gate_db
    \<Rightarrow> error + gate_db" where
  "hold_gate org i holder reason held_until now db =
     (case find_org_gate org i db of
        None \<Rightarrow> Inl gate_not_found
      | Some g \<Rightarrow>
          (if \<not> is_valid_transition (g_status g) Held then Inl illegal_transition
           else Inr (set_linked_step_run org i ''held'' held_until
                       (Some (''gate held by admin'' @ (case reason of None \<Rightarrow> [] | Some r \<Rightarrow>
                          if r = [] then [] else '': '' @ r)))
                  (upd_gate i (\<lambda>x. (set_gate_status Held now x)\<lparr>g_resolver_id := Some holder,
                      g_resolution_note := reason, g_held_until := held_until\<rparr>) db))))"

definition unhold_gate :: "uuid \<Rightarrow> uuid \<Rightarrow> uuid \<Rightarrow> timestamp \<Rightarrow> gate_db \<Rightarrow> error + gate_db" where
  "unhold_gate org i actor now db =
     (case find_org_gate org i db of
        None \<Rightarrow> Inl gate_not_found
      | Some g \<Rightarrow>
          (if \<not> is_valid_transition (g_status g) Pending then Inl illegal_transition
           else Inr (set_linked_step_run org i ''gate_pending'' None
                       (Some ''gate unheld by admin (resumed)'')
                  (upd_gate i (\<lambda>x. (set_gate_status Pending now x)\<lparr>g_resolver_id := None,
                      g_resolution_note := None, g_held_until := None\<rparr>) db))))"

definition record_activity :: "uuid \<Rightarrow> string \<Rightarrow> uuid option \<Rightarrow> string \<Rightarrow> uuid \<Rightarrow> jdict \<Rightarrow> gate_db
    \<Rightarrow> error + gate_db" where
  "record_activity org action actor actor_type entity ctx db =
     (if actor_type \<notin> {''agent'', ''human'', ''platform''} then Inl (ValueError ''actor_type'')
      else Inr (log_activity \<lparr>ac_org = org, ac_action = action, ac_actor_id = actor,
                  ac_actor_type = actor_type, ac_entity_type = ''gate'', ac_entity_id = entity,
                  ac_context = ctx\<rparr> db))"

definition gate_context :: "gate \<Rightarrow> jdict" where
  "gate_context g = [(''gate_type'', JStr (g_gate_type g)), (''work_item_type'', JStr (g_work_item_type g)),
     (''work_item_id'', JStr (g_work_item_id g))]"

definition void_gate :: "uuid \<Rightarrow> uuid \<Rightarrow> uuid \<Rightarrow> string \<Rightarrow> string \<Rightarrow> string \<Rightarrow> timestamp \<Rightarrow> gate_db
    \<Rightarrow> error + gate_db" where
  "void_gate org i voider reason actor_type label now db =
     (case find_org_gate org i db of
        None \<Rightarrow> Inl gate_not_found
      | Some g \<Rightarrow>
          (if \<not> is_valid_transition (g_status g) Voided then Inl illegal_transition
           else if is_blank (Some reason) then Inl (ValueError ''void reason is required'')
           else record_activity org ''gate_voided'' (Some voider) actor_type i
                  (gate_context g @ [(''reason'', JStr reason), (''head_sha'', jopt_str (g_github_check_run_sha g))])
                  (skip_linked_step_run org i (''gate voided by '' @ label @ '': '' @ reason) now
                    (upd_gate i (\<lambda>x. (set_gate_status Voided now x)\<lparr>g_resolver_id := Some voider,
                        g_resolution_note := Some reason, g_resolved_at := Some now\<rparr>) db))))"

definition is_doc_gate :: "gate \<Rightarrow> bool" where
  "is_doc_gate g \<longleftrightarrow> g_work_item_type g = ''doc'' \<and> g_gate_type g = ''doc_approval''"

definition void_pending_doc_gate :: "uuid \<Rightarrow> uuid \<Rightarrow> uuid \<Rightarrow> timestamp \<Rightarrow> gate_db
    \<Rightarrow> error + (bool \<times> gate_db)" where
  "void_pending_doc_gate org doc_id voider now db =
     (case scalar_one_or_none (filter (\<lambda>g. g_org_id g = org \<and> g_work_item_id g = doc_id \<and> is_doc_gate g
              \<and> g_status g = Pending) (t_gates db)) of
        Inl e \<Rightarrow> Inl e
      | Inr None \<Rightarrow> Inr (False, db)
      | Inr (Some g) \<Rightarrow>
          (case void_gate org (g_id g) voider ''doc deleted: pending approval gate voided'' ''human'' ''admin'' now db of
             Inl _ \<Rightarrow> Inr (False, db)
           | Inr db' \<Rightarrow> Inr (True, db')))"

definition ads_cancelled :: "uuid \<Rightarrow> string option \<Rightarrow> timestamp \<Rightarrow> gate \<Rightarrow> gate" where
  "ads_cancelled actor reason now g =
     (let text = py_strip (case reason of None \<Rightarrow> [] | Some r \<Rightarrow> r);
          note = take 500 (''ads_boost cancelled'' @ (if text = [] then [] else '': '' @ text));
          entry = JObj [(''action'', JStr ''ads_boost_cancelled''),
                        (''from_status'', JStr (status_text (g_status g))),
                        (''by_member_id'', JStr actor), (''at'', JInt now),
                        (''reason'', if text = [] then JNull else JStr (take 500 text))]
      in (set_gate_status Voided now g)\<lparr>g_resolver_id := Some actor, g_resolution_note := Some note,
           g_resolved_at := Some now, g_requires_human := False,
           g_neutral_facts := Some (AList.update ''decision_history''
              (JList (decision_history g @ [entry])) (facts_of g))\<rparr>)"

definition void_ads_boost_gate_for_cancel :: "uuid \<Rightarrow> string option \<Rightarrow> timestamp \<Rightarrow> gate \<Rightarrow> error + gate" where
  "void_ads_boost_gate_for_cancel actor reason now g =
     (if g_gate_type g \<noteq> ''ads_boost'' then Inl (ValueError ''only an ads_boost gate is voided by a boost cancel'')
      else if g_status g \<notin> {Approved, Pending, Held, Rejected} then Inl (ValueError ''not cancelled'')
      else Inr (ads_cancelled actor reason now g))"

section \<open>Undo and discussion\<close>

definition GATE_UNDO_WINDOW :: int where
  \<comment> \<open>five minutes, in microseconds\<close>
  "GATE_UNDO_WINDOW = 5 * 60 * 1000000"

definition undo_doc_status :: "uuid \<Rightarrow> gate \<Rightarrow> gate_db \<Rightarrow> gate_db" where
  "undo_doc_status org g db =
     (if is_doc_gate g
      then (let expected = (if g_status g = Approved then ''confirmed'' else ''denied'')
            in case find_row d_id (g_work_item_id g) (t_docs db) of
                 None \<Rightarrow> db
               | Some d \<Rightarrow> if d_org d = org \<and> d_deleted_at d = None \<and> d_status d = expected
                           then upd_doc (d_id d) (\<lambda>x. x\<lparr>d_status := ''pending''\<rparr>) db else db)
      else db)"

definition undo_gate_resolution :: "uuid \<Rightarrow> uuid \<Rightarrow> uuid \<Rightarrow> timestamp \<Rightarrow> gate_db \<Rightarrow> error + gate_db" where
  "undo_gate_resolution org i actor now db =
     (case find_org_gate org i db of
        None \<Rightarrow> Inl gate_not_found
      | Some g \<Rightarrow>
          (if g_status g \<notin> {Approved, Rejected} then Inl (ValueError ''only a resolved gate is undone'')
           else if g_resolver_id g \<noteq> Some actor then Inl NotSelfError
           else if (case g_resolved_at g of None \<Rightarrow> True | Some t \<Rightarrow> now - t > GATE_UNDO_WINDOW)
             then Inl WindowExpiredError
           else record_activity org ''gate_resolution_undone'' (Some actor) ''human'' i
                  (gate_context g @ [(''previous_status'', JStr (status_text (g_status g))),
                     (''previous_resolver_id'', jopt_str (g_resolver_id g)),
                     (''previous_resolved_at'', jopt_time (g_resolved_at g)),
                     (''previous_note'', jopt_str (g_resolution_note g)),
                     (''previous_approved_head_sha'', jopt_str (g_approved_head_sha g))])
                  (upd_gate i (\<lambda>x. (set_gate_status Pending now x)\<lparr>g_resolver_id := None,
                      g_resolved_at := None, g_resolution_note := None\<rparr>)
                    (undo_doc_status org g db))))"

definition notify_gate_discussion_requester :: "gate \<Rightarrow> uuid \<Rightarrow> string \<Rightarrow> gate_db \<Rightarrow> bool \<times> gate_db" where
  "notify_gate_discussion_requester g actor reason db =
     (if \<not> is_doc_gate g then (False, db)
      else (case map_of (facts_of g) ''requested_by_member_id'' of
              Some (JStr raw) \<Rightarrow>
                (case (py_uuid raw, find_row d_id (g_work_item_id g) (t_docs db)) of
                   (Some requester, Some d) \<Rightarrow>
                     if d_org d = g_org_id g
                     then (True, db\<lparr>t_notifications := t_notifications db @ [\<lparr>n_org = g_org_id g,
                             n_event_type = ''approval_discussion_reply'', n_targets = [requester],
                             n_reference_id = g_id g,
                             n_payload = [(''resolver_id'', JStr actor), (''reason'', JStr reason)],
                             n_source_project_id = None\<rparr>]\<rparr>)
                     else (False, db)
                 | _ \<Rightarrow> (False, db))
            | _ \<Rightarrow> (False, db)))"

definition request_gate_discussion :: "uuid \<Rightarrow> uuid \<Rightarrow> uuid \<Rightarrow> string option \<Rightarrow> timestamp \<Rightarrow> gate_db
    \<Rightarrow> error + gate_db" where
  "request_gate_discussion org i actor reason0 now db =
     (if is_blank reason0 then Inl (ValueError ''discussion reason is required'')
      else (case find_org_gate org i db of
              None \<Rightarrow> Inl gate_not_found
            | Some g \<Rightarrow>
                (if g_status g \<noteq> Pending then Inl (ValueError ''only a pending gate is discussed'')
                 else
                   (let reason = the reason0;
                        f = (\<lambda>x. x\<lparr>g_neutral_facts := Some (AList.update ''discussion_requested''
                               (JObj [(''reason'', JStr reason), (''requested_by_member_id'', JStr actor),
                                      (''requested_at'', JInt now)]) (facts_of x))\<rparr>);
                        db1 = upd_gate i f db;
                        (notified, db2) = notify_gate_discussion_requester (f g) actor reason db1
                    in record_activity org ''gate_discussion_requested'' (Some actor) ''human'' i
                         (gate_context g @ [(''reason'', JStr reason), (''requester_notified'', JBool notified)])
                         db2))))"

section \<open>System paths\<close>

definition resolve_doc_gate :: "gate \<Rightarrow> gate_status \<Rightarrow> gate_db \<Rightarrow> gate_db" where
  "resolve_doc_gate g new_status db =
     (if \<not> is_doc_gate g then db
      else if new_status \<notin> {Approved, Rejected} then db
      else (case find_row d_id (g_work_item_id g) (t_docs db) of
              None \<Rightarrow> db
            | Some d \<Rightarrow>
                if d_org d = g_org_id g \<and> d_deleted_at d = None \<and> d_status d = ''pending''
                then upd_doc (d_id d) (\<lambda>x. x\<lparr>d_status := (if new_status = Approved then ''confirmed'' else ''denied'')\<rparr>) db
                else db))"

definition source_to_gate_type :: "string \<Rightarrow> string option" where
  "source_to_gate_type src =
     (if src = ''pr'' then Some ''pr_review'' else if src = ''ci'' then Some ''pr_review''
      else if src = ''qa'' then Some ''qa'' else if src = ''design'' then Some ''deploy'' else None)"

definition resolve_gate_from_verdict :: "uuid \<Rightarrow> uuid \<Rightarrow> string \<Rightarrow> string \<Rightarrow> string option \<Rightarrow> uuid option
    \<Rightarrow> timestamp \<Rightarrow> gate_db \<Rightarrow> gate_db" where
  "resolve_gate_from_verdict org wi wit source result resolver now db =
     (case source_to_gate_type source of
        None \<Rightarrow> db
      | Some gate_type \<Rightarrow>
          (case result of
             None \<Rightarrow> db
           | Some r \<Rightarrow>
               (case max_row (\<lambda>g. (g_created_at g, g_id g))
                       (filter (\<lambda>g. g_org_id g = org \<and> g_work_item_id g = wi \<and> g_work_item_type g = wit
                          \<and> g_gate_type g = gate_type \<and> g_status g = Pending) (t_gates db)) of
                  None \<Rightarrow> db
                | Some g \<Rightarrow>
                    upd_gate (g_id g) (\<lambda>x. (set_gate_status (if r = ''pass'' then Approved else Rejected) now x)\<lparr>
                        g_resolver_id := resolver, g_resolved_at := Some now\<rparr>) db)))"

definition RECLAIM_RESOLUTION_NOTE :: string where
  "RECLAIM_RESOLUTION_NOTE =
     ''system_auto_reclaim: target story already done, merge gate never resolved (story #f2b66f32)''"

definition reclaim_gate :: "uuid \<Rightarrow> timestamp \<Rightarrow> gate_db \<Rightarrow> gate \<Rightarrow> gate_db" where
  "reclaim_gate org now db g =
     (if \<not> is_valid_transition (g_status g) Voided then db
      else skip_linked_step_run org (g_id g) (''gate auto-voided: '' @ RECLAIM_RESOLUTION_NOTE) now
             (upd_gate (g_id g) (\<lambda>x. (set_gate_status Voided now x)\<lparr>g_resolver_id := None,
                 g_resolution_note := Some RECLAIM_RESOLUTION_NOTE, g_resolved_at := Some now\<rparr>) db))"

definition is_stale_merge_gate :: "uuid \<Rightarrow> uuid \<Rightarrow> gate \<Rightarrow> bool" where
  "is_stale_merge_gate org story_id g \<longleftrightarrow>
     g_org_id g = org \<and> g_work_item_id g = story_id \<and> g_work_item_type g = ''story''
     \<and> g_gate_type g = ''merge'' \<and> g_status g = Pending"

definition reclaim_stale_merge_gates_for_story :: "uuid \<Rightarrow> uuid \<Rightarrow> timestamp \<Rightarrow> gate_db
    \<Rightarrow> uuid list \<times> gate_db" where
  "reclaim_stale_merge_gates_for_story org story_id now db =
     (let gates = filter (is_stale_merge_gate org story_id) (t_gates db)
      in (map g_id gates, foldl (reclaim_gate org now) db gates))"

definition greatest :: "timestamp option \<Rightarrow> timestamp \<Rightarrow> timestamp" where
  \<comment> \<open>PostgreSQL's \<^verbatim>\<open>GREATEST\<close> leaves a null argument out\<close>
  "greatest old new = (case old of None \<Rightarrow> new | Some t \<Rightarrow> max t new)"

definition reopen_gate_if_new_sha :: "uuid \<Rightarrow> uuid \<Rightarrow> string \<Rightarrow> string \<Rightarrow> int \<Rightarrow> timestamp option
    \<Rightarrow> timestamp \<Rightarrow> gate_db \<Rightarrow> bool \<times> gate_db" where
  "reopen_gate_if_new_sha org i new_head_sha repo pr_number pr_updated_at now db =
     (case get_gate i db of
        None \<Rightarrow> (False, db)
      | Some g \<Rightarrow>
          (if g_gate_type g \<noteq> ''merge'' then (False, db)
           else
             (let db1 = (case pr_updated_at of None \<Rightarrow> db
                         | Some t \<Rightarrow> upd_gate i (\<lambda>x. x\<lparr>g_pr_head_observed_at :=
                                       Some (greatest (g_pr_head_observed_at x) t)\<rparr>) db);
                  is_stale = (case pr_updated_at of None \<Rightarrow> False
                              | Some t \<Rightarrow> greatest (g_pr_head_observed_at g) t \<noteq> t)
              in if g_status g \<notin> {Approved, Auto_passed} then (False, db1)
                 else if is_stale then (False, db1)
                 else if g_approved_head_sha g = Some new_head_sha then (False, db1)
                 else (True, (upd_gate i (\<lambda>x. (set_gate_status Pending now x)\<lparr>g_resolver_id := None,
                           g_resolved_at := None, g_resolution_note := None, g_approved_head_sha := None,
                           g_github_check_run_id := None, g_github_check_run_sha := None\<rparr>) db1)\<lparr>
                         t_check_events := t_check_events db1 @ [\<lparr>ce_org = org, ce_gate = i,
                           ce_story = g_work_item_id g, ce_repo = repo, ce_pr_number = pr_number,
                           ce_head_sha = new_head_sha, ce_event_type = ''re_pending'',
                           ce_prior_sha = g_approved_head_sha g\<rparr>]\<rparr>))))"

section \<open>The holder of a publishing slot\<close>

record site_post_row =
  wp_id :: uuid
  wp_gate :: uuid
  wp_created_at :: timestamp
  wp_unpublished_at :: "timestamp option"

record channel_publication_row =
  cp_id :: uuid
  cp_gate :: uuid
  cp_created_at :: timestamp
  cp_status :: string

definition gate_publication_is_live :: "site_post_row list \<Rightarrow> channel_publication_row list \<Rightarrow> uuid \<Rightarrow> bool" where
  "gate_publication_is_live posts pubs gate_id =
     (case max_row (\<lambda>p. (wp_created_at p, wp_id p)) (filter (\<lambda>p. wp_gate p = gate_id) posts) of
        Some p \<Rightarrow> wp_unpublished_at p = None
      | None \<Rightarrow>
          (case max_row (\<lambda>p. (cp_created_at p, cp_id p)) (filter (\<lambda>p. cp_gate p = gate_id) pubs) of
             None \<Rightarrow> True
           | Some p \<Rightarrow> cp_status p = ''published''))"

definition resolve_gate_holder_draft_id :: "site_post_row list \<Rightarrow> channel_publication_row list
    \<Rightarrow> gate option \<Rightarrow> uuid \<Rightarrow> uuid option" where
  "resolve_gate_holder_draft_id posts pubs existing this_draft_id =
     (case existing of
        None \<Rightarrow> None
      | Some g \<Rightarrow>
          (if g_status g \<notin> {Pending, Approved} then None
           else (case map_of (facts_of g) ''draft_id'' of
                   Some (JStr raw) \<Rightarrow>
                     (case py_uuid raw of
                        None \<Rightarrow> None
                      | Some holding \<Rightarrow>
                          if holding = this_draft_id then None
                          else if \<not> gate_publication_is_live posts pubs (g_id g) then None
                          else Some holding)
                 | _ \<Rightarrow> None)))"

section \<open>The order of the inbox\<close>

definition is_overdue :: "gate_db \<Rightarrow> timestamp \<Rightarrow> gate \<Rightarrow> bool" where
  "is_overdue db now g \<longleftrightarrow>
     list_ex (\<lambda>s. (sr_gate_id s = Some (g_id g) \<or> sr_h1_gate_id s = Some (g_id g))
        \<and> sr_org s = g_org_id g \<and> sr_status s \<in> set OPEN_STEP_RUN_STATUSES
        \<and> (case sr_sla_due_at s of None \<Rightarrow> False | Some t \<Rightarrow> t < now)) (t_step_runs db)"

definition is_on_hold :: "timestamp \<Rightarrow> gate \<Rightarrow> bool" where
  "is_on_hold now g \<longleftrightarrow> (case g_held_until g of None \<Rightarrow> False | Some t \<Rightarrow> t > now)"

definition urgency_key :: "gate_db \<Rightarrow> timestamp \<Rightarrow> gate \<Rightarrow> nat \<times> nat \<times> timestamp \<times> uuid" where
  "urgency_key db now g =
     ((if is_on_hold now g then 1 else 0), (if is_overdue db now g then 0 else 1), g_created_at g, g_id g)"

definition apply_gate_urgency_sort :: "gate_db \<Rightarrow> timestamp \<Rightarrow> gate list \<Rightarrow> gate list" where
  "apply_gate_urgency_sort db now gs = sort_key (urgency_key db now) gs"

end
