(* ===== verification/Gate_Machine.thy ===== *)
theory Gate_Machine
  imports Gate_Actions
begin

text \<open>
  The gate life cycle as a state machine. A step is one committed call of an operation of the gate
  services; the invariant says what the resolution columns of a gate mean in each status, and holds
  in every reachable state. The graph of the statuses that the services really realise (a person's
  actions and the system paths together) is stated and shown to bound every run.
\<close>

section \<open>What one step may do to a gate\<close>

text \<open>The resolution columns agree with the status.\<close>

definition gate_ok :: "gate \<Rightarrow> bool" where
  "gate_ok g \<longleftrightarrow>
     (g_status g = Pending \<longrightarrow> g_resolver_id g = None \<and> g_resolution_note g = None)
     \<and> (g_resolved_at g = None \<longleftrightarrow> g_status g \<in> {Pending, Held})"

fun status_edge :: "gate_status \<Rightarrow> gate_status \<Rightarrow> bool" where
  "status_edge Pending s = (s \<noteq> Auto_passed)"
| "status_edge Held s = (s \<in> {Held, Pending, Voided})"
| "status_edge Approved s = (s \<in> {Approved, Pending, Voided})"
| "status_edge Rejected s = (s \<in> {Rejected, Pending, Auto_passed, Voided})"
| "status_edge Auto_passed s = (s \<in> {Auto_passed, Pending})"
| "status_edge Voided s = (s = Voided)"

definition row_edge :: "gate \<Rightarrow> gate \<Rightarrow> bool" where
  "row_edge g g' \<longleftrightarrow> g_id g' = g_id g \<and> gate_slot g' = gate_slot g
     \<and> (g_pr_number g \<noteq> None \<longrightarrow> g_pr_number g' = g_pr_number g)
     \<and> (g_pr_number g \<noteq> None \<and> g_repo_full_name g \<noteq> None \<longrightarrow> g_repo_full_name g' = g_repo_full_name g)
     \<and> status_edge (g_status g) (g_status g')
     \<and> (gate_ok g \<longrightarrow> gate_ok g')"

lemma status_edge_refl [simp]: "status_edge s s"
  by (cases s) simp_all

lemma row_edge_refl [simp]: "row_edge g g"
  by (simp add: row_edge_def)

lemma valid_transition_to:
  "is_valid_transition s Held \<longleftrightarrow> s = Pending"
  "is_valid_transition s Voided \<longleftrightarrow> s = Pending"
  "is_valid_transition s Pending \<longleftrightarrow> s = Held"
  "is_valid_transition s Approved \<longleftrightarrow> s = Pending"
  "is_valid_transition s Rejected \<longleftrightarrow> s = Pending"
  "is_valid_transition s Auto_passed \<longleftrightarrow> False"
  by (cases s; simp)+

text \<open>
  The gates of a state after an operation: every old row in its place, changed at most along an
  edge, the identity of every row and the uniqueness of the slots kept.
\<close>

definition gates_evolve :: "gate_db \<Rightarrow> gate_db \<Rightarrow> bool" where
  "gates_evolve db db' \<longleftrightarrow> unique_slots db'
     \<and> (\<exists>gs new. t_gates db' = gs @ new \<and> list_all2 row_edge (t_gates db) gs \<and> list_all gate_ok new)"

lemma gates_evolveI:
  "unique_slots db' \<Longrightarrow> list_all2 row_edge (t_gates db) (t_gates db') \<Longrightarrow> gates_evolve db db'"
  unfolding gates_evolve_def by (metis append_Nil2 list.pred_inject(1))

lemma gates_evolve_same: "unique_slots db \<Longrightarrow> t_gates db' = t_gates db \<Longrightarrow> gates_evolve db db'"
  using unique_slots_cong [of db db'] by (auto intro!: gates_evolveI simp: list.rel_refl)

lemma gates_evolve_upd:
  assumes u: "unique_slots db" and g: "get_gate i db = Some g" and e: "row_edge g (f g)"
    and id: "\<And>x. g_id (f x) = g_id x" and k: "gate_key (f g) = gate_key g"
    and t: "t_gates db' = upd_row g_id i f (t_gates db)"
  shows "gates_evolve db db'"
proof (rule gates_evolveI)
  have gi: "g_id g = i" "g \<in> set (t_gates db)" using get_gate_id [OF g] by auto
  show "list_all2 row_edge (t_gates db) (t_gates db')"
    using list_all2_upd_row [of g_id "t_gates db" g row_edge f] u e gi t by (simp add: unique_slots_def)
  have "unique_slots (upd_gate (g_id g) f db)" using unique_slots_upd [OF u gi(2) id] k by blast
  then show "unique_slots db'" using unique_slots_cong [of db' "upd_gate (g_id g) f db"] t gi
    by (simp add: upd_gate_def)
qed

lemma get_gate_in:
  "unique_slots db \<Longrightarrow> g \<in> set (t_gates db) \<Longrightarrow> get_gate (g_id g) db = Some g"
  by (simp add: get_gate_def unique_slots_def find_row_member)

section \<open>Every operation is a step of the machine\<close>

lemma linked_step_run_gates [simp]:
  "t_gates (set_linked_step_run org i st h r db) = t_gates db"
  "t_gates (skip_linked_step_run org i r' now db) = t_gates db"
  by (simp_all add: set_linked_step_run_def skip_linked_step_run_def split: option.splits)

lemma record_activity_gates:
  "record_activity org act actor aty i ctx db = Inr db' \<Longrightarrow> t_gates db' = t_gates db"
  by (auto simp: record_activity_def split: if_splits)

lemma undo_doc_status_gates [simp]: "t_gates (undo_doc_status org g db) = t_gates db"
  by (simp add: undo_doc_status_def Let_def split: option.splits)

lemma notify_discussion_gates [simp]:
  "t_gates (snd (notify_gate_discussion_requester g actor r db)) = t_gates db"
  by (simp add: notify_gate_discussion_requester_def split: option.splits json.splits prod.splits)

lemma t_gates_upd_gate [simp]: "t_gates (upd_gate i f db) = upd_row g_id i f (t_gates db)"
  by (simp add: upd_gate_def)

lemmas edge_defs = row_edge_def gate_ok_def gate_slot_def gate_key_def

lemma hold_gate_evolves:
  assumes "unique_slots db" "hold_gate org i holder reason until now db = Inr db'"
  shows "gates_evolve db db'"
proof -
  obtain g where g: "get_gate i db = Some g" "g_status g = Pending"
    using assms(2) by (auto simp: hold_gate_def find_org_gate_def valid_transition_to split: option.splits if_splits)
  show ?thesis
    by (rule gates_evolve_upd [OF assms(1) g(1), where f = "\<lambda>x. (set_gate_status Held now x)\<lparr>g_resolver_id := Some holder,
                      g_resolution_note := reason, g_held_until := until\<rparr>"])
      (use assms(2) g in \<open>auto simp: hold_gate_def edge_defs split: option.splits if_splits\<close>)
qed

lemma unhold_gate_evolves:
  assumes "unique_slots db" "unhold_gate org i actor now db = Inr db'"
  shows "gates_evolve db db'"
proof -
  obtain g where g: "get_gate i db = Some g" "g_status g = Held"
    using assms(2) by (auto simp: unhold_gate_def find_org_gate_def valid_transition_to split: option.splits if_splits)
  show ?thesis
    by (rule gates_evolve_upd [OF assms(1) g(1), where f = "\<lambda>x. (set_gate_status Pending now x)\<lparr>g_resolver_id := None,
                      g_resolution_note := None, g_held_until := None\<rparr>"])
      (use assms(2) g in \<open>auto simp: unhold_gate_def edge_defs split: option.splits if_splits\<close>)
qed

lemma void_gate_evolves:
  assumes "unique_slots db" "void_gate org i voider reason aty label now db = Inr db'"
  shows "gates_evolve db db'"
proof -
  obtain g where g: "get_gate i db = Some g" "g_status g = Pending"
    using assms(2) by (auto simp: void_gate_def find_org_gate_def valid_transition_to split: option.splits if_splits)
  show ?thesis
    by (rule gates_evolve_upd [OF assms(1) g(1), where f = "\<lambda>x. (set_gate_status Voided now x)\<lparr>g_resolver_id := Some voider,
                        g_resolution_note := Some reason, g_resolved_at := Some now\<rparr>"])
      (use assms(2) g in \<open>auto simp: void_gate_def edge_defs dest!: record_activity_gates split: option.splits if_splits\<close>)
qed

lemma void_pending_doc_gate_evolves:
  assumes "unique_slots db" "void_pending_doc_gate org d voider now db = Inr (b, db')"
  shows "gates_evolve db db'"
  using assms void_gate_evolves gates_evolve_same
  by (auto simp: void_pending_doc_gate_def split: sum.splits option.splits)

lemma undo_gate_evolves:
  assumes "unique_slots db" "undo_gate_resolution org i actor now db = Inr db'"
  shows "gates_evolve db db'"
proof -
  obtain g where g: "get_gate i db = Some g" "g_status g \<in> {Approved, Rejected}"
    using assms(2) by (auto simp: undo_gate_resolution_def find_org_gate_def split: option.splits if_splits)
  show ?thesis
    by (rule gates_evolve_upd [OF assms(1) g(1), where f = "\<lambda>x. (set_gate_status Pending now x)\<lparr>g_resolver_id := None,
                      g_resolved_at := None, g_resolution_note := None\<rparr>"])
      (use assms(2) g in \<open>auto simp: undo_gate_resolution_def edge_defs dest!: record_activity_gates split: option.splits if_splits\<close>)
qed

lemma request_discussion_evolves:
  assumes "unique_slots db" "request_gate_discussion org i actor reason now db = Inr db'"
  shows "gates_evolve db db'"
proof -
  obtain g where g: "get_gate i db = Some g"
    using assms(2) by (auto simp: request_gate_discussion_def find_org_gate_def split: option.splits if_splits)
  let ?f = "\<lambda>x. x\<lparr>g_neutral_facts := Some (AList.update ''discussion_requested''
       (JObj [(''reason'', JStr (the reason)), (''requested_by_member_id'', JStr actor),
              (''requested_at'', JInt now)]) (facts_of x))\<rparr>"
  have "t_gates db' = upd_row g_id i ?f (t_gates db)"
    using assms(2) notify_discussion_gates [of "?f g" actor "the reason" "upd_gate i ?f db"] g
    by (auto simp: request_gate_discussion_def find_org_gate_def Let_def split_beta
        dest!: record_activity_gates split: option.splits if_splits)
  then show ?thesis by (intro gates_evolve_upd [OF assms(1) g, of ?f]) (auto simp: edge_defs)
qed

text \<open>A captured verdict changes nothing, or the newest pending gate of the type it stands for.\<close>

lemma resolve_from_verdict_cases:
  obtains (same) "resolve_gate_from_verdict org wi wit src res resolver now db = db"
  | (one) r g gt where "res = Some r" "source_to_gate_type src = Some gt" "g \<in> set (t_gates db)"
      "g_org_id g = org" "g_work_item_id g = wi" "g_work_item_type g = wit" "g_gate_type g = gt" "g_status g = Pending"
      "\<And>x. x \<in> set (t_gates db) \<Longrightarrow> g_org_id x = org \<Longrightarrow> g_work_item_id x = wi \<Longrightarrow> g_work_item_type x = wit \<Longrightarrow>
          g_gate_type x = gt \<Longrightarrow> g_status x = Pending \<Longrightarrow> g_created_at x \<le> g_created_at g"
      "resolve_gate_from_verdict org wi wit src res resolver now db = upd_gate (g_id g) (\<lambda>x.
          (set_gate_status (if r = ''pass'' then Approved else Rejected) now x)\<lparr>
                        g_resolver_id := resolver, g_resolved_at := Some now\<rparr>) db"
proof (cases "resolve_gate_from_verdict org wi wit src res resolver now db = db")
  case False
  let ?P = "\<lambda>gt g. g_org_id g = org \<and> g_work_item_id g = wi \<and> g_work_item_type g = wit
                          \<and> g_gate_type g = gt \<and> g_status g = Pending"
  from False obtain r g gt where g: "res = Some r" "source_to_gate_type src = Some gt"
     "max_row (\<lambda>g. (g_created_at g, g_id g)) (filter (?P gt) (t_gates db)) = Some g"
    by (auto simp: resolve_gate_from_verdict_def split: option.splits)
  have m: "g \<in> set (t_gates db)" "?P gt g" using max_row_in [OF g(3)] by auto
  have new: "g_created_at x \<le> g_created_at g" if "x \<in> set (t_gates db)" "?P gt x" for x
    using max_row_ge [OF g(3), of x] that by (auto simp: less_eq_prod_def)
  show thesis using g m new by (intro one) (auto simp: resolve_gate_from_verdict_def)
qed (rule same)

lemma resolve_from_verdict_evolves:
  assumes "unique_slots db"
  shows "gates_evolve db (resolve_gate_from_verdict org wi wit src res resolver now db)"
proof (cases rule: resolve_from_verdict_cases [of org wi wit src res resolver now db])
  case same
  then show ?thesis using gates_evolve_same [OF assms] by simp
next
  case (one r g gt)
  show ?thesis
    by (rule gates_evolve_upd [OF assms get_gate_in [OF assms one(3)], where f = "\<lambda>x.
          (set_gate_status (if r = ''pass'' then Approved else Rejected) now x)\<lparr>
                        g_resolver_id := resolver, g_resolved_at := Some now\<rparr>"])
      (use one in \<open>auto simp: edge_defs\<close>)
qed

lemma reopen_new_sha_evolves:
  assumes "unique_slots db" "reopen_gate_if_new_sha org i sha repo pr upd now db = (b, db')"
  shows "gates_evolve db db'"
proof (cases "get_gate i db")
  case None
  then show ?thesis using assms gates_evolve_same by (simp add: reopen_gate_if_new_sha_def)
next
  case (Some g)
  let ?w = "\<lambda>x. case upd of None \<Rightarrow> x | Some t \<Rightarrow>
      x\<lparr>g_pr_head_observed_at := Some (greatest (g_pr_head_observed_at x) t)\<rparr>"
  let ?r = "\<lambda>x. (set_gate_status Pending now x)\<lparr>g_resolver_id := None,
      g_resolved_at := None, g_resolution_note := None, g_approved_head_sha := None,
      g_github_check_run_id := None, g_github_check_run_sha := None\<rparr>"
  have id: "upd_row g_id i (\<lambda>x. x) gs = gs" for gs by (simp add: upd_row_def)
  have comp: "upd_row g_id i ?r (upd_row g_id i (\<lambda>x. x\<lparr>g_pr_head_observed_at := h x\<rparr>) gs)
      = upd_row g_id i (\<lambda>x. ?r (x\<lparr>g_pr_head_observed_at := h x\<rparr>)) gs" for gs h by (simp add: upd_row_def)
  consider "t_gates db' = t_gates db" | "t_gates db' = upd_row g_id i ?w (t_gates db)"
    | "t_gates db' = upd_row g_id i (\<lambda>x. ?r (?w x)) (t_gates db)" "g_status g \<in> {Approved, Auto_passed}"
    using assms(2) Some
    by (cases upd) (auto simp: reopen_gate_if_new_sha_def Let_def id comp split: if_splits)
  then show ?thesis
  proof cases
    case 1
    then show ?thesis by (rule gates_evolve_same [OF assms(1)])
  next
    case 2
    then show ?thesis
      by (intro gates_evolve_upd [OF assms(1) Some, of ?w]) (auto simp: edge_defs split: option.splits)
  next
    case 3
    then show ?thesis
      by (intro gates_evolve_upd [OF assms(1) Some, of "\<lambda>x. ?r (?w x)"])
         (auto simp: edge_defs split: option.splits)
  qed
qed

text \<open>The caller of the boost cancel writes the voided row back into the session it came from.\<close>

lemma ads_cancel_evolves:
  assumes "unique_slots db" "get_gate i db = Some g" "void_ads_boost_gate_for_cancel actor reason now g = Inr g'"
    "t_gates db' = upd_row g_id i (\<lambda>_. g') (t_gates db)"
  shows "gates_evolve db db'"
proof -
  have gi: "g_id g = i" "g \<in> set (t_gates db)" using get_gate_id [OF assms(2)] by auto
  have g': "g' = ads_cancelled actor reason now g" and st: "g_status g \<in> {Approved, Pending, Held, Rejected}"
    using assms(3) by (auto simp: void_ads_boost_gate_for_cancel_def split: if_split_asm)
  have "g_id g' = g_id g" "gate_slot g' = gate_slot g" "g_pr_number g' = g_pr_number g"
    "g_repo_full_name g' = g_repo_full_name g" "g_status g' = Voided" "g_resolved_at g' = Some now"
    by (simp_all add: g' ads_cancelled_def Let_def gate_slot_def)
  then have e: "row_edge g g'" "gate_key g' = gate_key g" "g_id g' = g_id g"
    using st by (auto simp: row_edge_def gate_ok_def gate_key_def)
  let ?f = "\<lambda>x. if g_id x = i then g' else x"
  have "upd_row g_id i (\<lambda>_. g') (t_gates db) = upd_row g_id i ?f (t_gates db)" by (simp add: upd_row_def)
  then show ?thesis using e gi assms(4) by (intro gates_evolve_upd [OF assms(1,2), of ?f]) auto
qed

text \<open>The loop over a story's stale gates voids exactly those rows.\<close>

definition reclaimed :: "timestamp \<Rightarrow> gate \<Rightarrow> gate" where
  "reclaimed now g = (set_gate_status Voided now g)\<lparr>g_resolver_id := None,
     g_resolution_note := Some RECLAIM_RESOLUTION_NOTE, g_resolved_at := Some now\<rparr>"

lemma reclaimed_id [simp]: "g_id (reclaimed now g) = g_id g"
  by (simp add: reclaimed_def)

lemma reclaimed_idem: "reclaimed now (reclaimed now g) = reclaimed now g"
  by (simp add: reclaimed_def set_gate_status_def)

lemma reclaim_fold_gates:
  "\<forall>g \<in> set gs. g_status g = Pending \<Longrightarrow>
     t_gates (foldl (reclaim_gate org now) db gs)
       = map (\<lambda>x. if g_id x \<in> g_id ` set gs then reclaimed now x else x) (t_gates db)"
proof (induction gs arbitrary: db)
  case (Cons g gs)
  have "t_gates (reclaim_gate org now db g) = upd_row g_id (g_id g) (reclaimed now) (t_gates db)"
    using Cons.prems by (simp add: reclaim_gate_def reclaimed_def [abs_def])
  with Cons show ?case by (auto simp: upd_row_def reclaimed_idem)
qed simp

lemma reclaim_gates:
  assumes "unique_slots db"
  shows "t_gates (snd (reclaim_stale_merge_gates_for_story org st now db))
     = map (\<lambda>x. if is_stale_merge_gate org st x then reclaimed now x else x) (t_gates db)"
proof -
  have "g_id x \<in> g_id ` set (filter (is_stale_merge_gate org st) (t_gates db)) \<longleftrightarrow> is_stale_merge_gate org st x"
    if "x \<in> set (t_gates db)" for x
    using assms that by (auto simp: unique_slots_def distinct_map inj_on_def)
  then show ?thesis
    by (auto simp: reclaim_stale_merge_gates_for_story_def Let_def reclaim_fold_gates is_stale_merge_gate_def)
qed

lemma reclaim_evolves:
  assumes u: "unique_slots db" and r: "reclaim_stale_merge_gates_for_story org st now db = (ids, db')"
  shows "gates_evolve db db'"
proof (rule gates_evolveI)
  let ?f = "\<lambda>x. if is_stale_merge_gate org st x then reclaimed now x else x"
  have t: "t_gates db' = map ?f (t_gates db)" using reclaim_gates [OF u, of org st now] r by simp
  have "gate_key (?f x) = gate_key x" "g_id (?f x) = g_id x" for x
    by (simp_all add: reclaimed_def gate_key_def gate_slot_def)
  then show "unique_slots db'" using u by (simp add: unique_slots_def t comp_def)
  have "row_edge x (?f x)" for x
    by (auto simp: edge_defs reclaimed_def is_stale_merge_gate_def)
  then show "list_all2 row_edge (t_gates db) (t_gates db')" by (simp add: t list_all2_conv_all_nth)
qed

lemma gates_evolve_append:
  "unique_slots db' \<Longrightarrow> t_gates db' = t_gates db @ new \<Longrightarrow> list_all gate_ok new \<Longrightarrow> gates_evolve db db'"
  unfolding gates_evolve_def
  by (intro conjI exI [of _ "t_gates db"] exI [of _ new]) (simp_all add: list.rel_refl)

lemma promotes_row_edge: "promotes x y \<Longrightarrow> row_edge x y"
proof -
  assume p: "promotes x y"
  then obtain p r where "y = x\<lparr>g_pr_number := p, g_repo_full_name := r\<rparr>" by (auto simp: promotes_def)
  then show ?thesis using p by (auto simp: promotes_def row_edge_def gate_slot_def gate_ok_def)
qed

lemma promotes_row_edge_trans: "promotes x y \<Longrightarrow> row_edge y z \<Longrightarrow> row_edge x z"
  using promotes_row_edge [of x y] promotes_same_status [of x y] by (auto simp: row_edge_def promotes_def)

lemma create_gate_evolves:
  assumes u: "unique_slots db" and c: "create_gate a fresh now db = Inr (g, db')"
    and fr: "fresh_gate_id (a, fresh, now) db"
  shows "gates_evolve db db'"
proof -
  have u': "unique_slots db'" using create_gate_result [OF u c fr] by blast
  from u c show ?thesis
  proof (cases rule: create_gate_cases)
    case found
    then show ?thesis using find_gate_slot_norm [OF u] promotes_row_edge u' by (blast intro: gates_evolveI list_all2_mono)
  next
    case (reopened g0 db1)
    note f = find_gate_slot_norm [OF u reopened(1)]
    then have g0: "g0 \<in> set (t_gates db1)" using key_row_Some by blast
    define st where "st = initial_status db1 (sl_org (ca_slot a)) (ca_member a) (ca_role a) (sl_gate_type (ca_slot a))"
    have "t_gates db' = upd_row g_id (g_id g0) (reopened_gate st a now) (t_gates db1)"
      using reopen_rejected_gate_result [OF _ g0 reopened(3)] f by (simp add: st_def)
    moreover have "st \<in> {Pending, Auto_passed, Rejected}"
      by (auto simp: st_def initial_status_def disposition_to_status_def Let_def)
    then have "row_edge g0 (reopened_gate st a now g0)"
      using reopened(2) by (auto simp: row_edge_def gate_ok_def reopened_gate_def Let_def gate_slot_def)
    ultimately have "list_all2 row_edge (t_gates db1) (t_gates db')"
      using list_all2_upd_row [of g_id "t_gates db1" g0 row_edge "reopened_gate st a now"] f g0
      by (simp add: unique_slots_def)
    then have "list_all2 row_edge (t_gates db) (t_gates db')"
      using f list_all2_trans [of promotes row_edge row_edge] promotes_row_edge_trans by blast
    then show ?thesis using u' by (rule gates_evolveI [rotated])
  next
    case created
    have "gate_ok g" using insert_gate_gates [OF created(2)] by (auto simp: new_gate_def gate_ok_def
      initial_status_def disposition_to_status_def Let_def)
    then show ?thesis using u' insert_gate_gates [OF created(2)] by (intro gates_evolve_append) auto
  qed
qed

section \<open>The machine\<close>

inductive gate_step :: "gate_db \<Rightarrow> gate_db \<Rightarrow> bool" where
  create: "create_gate a fresh now db = Inr (g, db') \<Longrightarrow> fresh_gate_id (a, fresh, now) db \<Longrightarrow> gate_step db db'"
| hold: "hold_gate org i holder reason until now db = Inr db' \<Longrightarrow> gate_step db db'"
| unhold: "unhold_gate org i actor now db = Inr db' \<Longrightarrow> gate_step db db'"
| void: "void_gate org i voider why aty label now db = Inr db' \<Longrightarrow> gate_step db db'"
| void_doc: "void_pending_doc_gate org d voider now db = Inr (b, db') \<Longrightarrow> gate_step db db'"
| undo: "undo_gate_resolution org i actor now db = Inr db' \<Longrightarrow> gate_step db db'"
| discuss: "request_gate_discussion org i actor reason now db = Inr db' \<Longrightarrow> gate_step db db'"
| from_verdict: "gate_step db (resolve_gate_from_verdict org wi wit src res resolver now db)"
| reclaim: "reclaim_stale_merge_gates_for_story org st now db = (ids, db') \<Longrightarrow> gate_step db db'"
| new_sha: "reopen_gate_if_new_sha org i sha repo pr upd now db = (b, db') \<Longrightarrow> gate_step db db'"
| ads_cancel: "get_gate i db = Some g \<Longrightarrow> void_ads_boost_gate_for_cancel actor reason now g = Inr g' \<Longrightarrow>
    gate_step db (upd_gate i (\<lambda>_. g') db)"

definition machine_ok :: "gate_db \<Rightarrow> bool" where
  "machine_ok db \<longleftrightarrow> unique_slots db \<and> list_all gate_ok (t_gates db)"

lemma gate_step_evolves:
  assumes "gate_step db db'" "unique_slots db"
  shows "gates_evolve db db'"
  using assms
proof (induction rule: gate_step.induct)
  case create
  then show ?case by (intro create_gate_evolves)
next
  case hold
  then show ?case by (rule hold_gate_evolves [rotated])
next
  case unhold
  then show ?case by (rule unhold_gate_evolves [rotated])
next
  case void
  then show ?case by (rule void_gate_evolves [rotated])
next
  case void_doc
  then show ?case by (rule void_pending_doc_gate_evolves [rotated])
next
  case undo
  then show ?case by (rule undo_gate_evolves [rotated])
next
  case discuss
  then show ?case by (rule request_discussion_evolves [rotated])
next
  case from_verdict
  then show ?case by (rule resolve_from_verdict_evolves)
next
  case reclaim
  then show ?case by (rule reclaim_evolves [rotated])
next
  case new_sha
  then show ?case by (rule reopen_new_sha_evolves [rotated])
next
  case ads_cancel
  then show ?case by (intro ads_cancel_evolves) (auto simp: upd_gate_def)
qed

lemma evolve_gate_ok:
  assumes "gates_evolve db db'" "list_all gate_ok (t_gates db)"
  shows "list_all gate_ok (t_gates db')"
proof -
  obtain gs new where g: "t_gates db' = gs @ new" "list_all2 row_edge (t_gates db) gs" "list_all gate_ok new"
    using assms(1) by (auto simp: gates_evolve_def)
  have "gate_ok y" if y: "y \<in> set gs" for y
  proof -
    obtain x where "x \<in> set (t_gates db)" "row_edge x y" using list_all2_origin [OF g(2) y] by blast
    then show ?thesis using assms(2) by (simp add: row_edge_def list_all_iff)
  qed
  with g show ?thesis by (auto simp: list_all_iff)
qed

lemma gate_step_ok: "machine_ok db \<Longrightarrow> gate_step db db' \<Longrightarrow> machine_ok db'"
  using gate_step_evolves [of db db'] evolve_gate_ok [of db db']
  unfolding machine_ok_def gates_evolve_def by blast

interpretation gate_machine: transition_system "\<lambda>db. t_gates db = []" gate_step machine_ok
proof
  show "t_gates s = [] \<Longrightarrow> machine_ok s" for s by (simp add: machine_ok_def unique_slots_def)
  show "machine_ok s \<Longrightarrow> gate_step s s' \<Longrightarrow> machine_ok s'" for s s' by (rule gate_step_ok)
qed

lemma evolve_get_gate:
  assumes e: "gates_evolve db db'" and g: "get_gate i db = Some g"
  shows "\<exists>g'. get_gate i db' = Some g' \<and> row_edge g g'"
proof -
  obtain gs new where gs: "t_gates db' = gs @ new" "list_all2 row_edge (t_gates db) gs" "unique_slots db'"
    using e by (auto simp: gates_evolve_def)
  obtain g' where g': "g' \<in> set gs" "row_edge g g'"
    using list_all2_image [OF gs(2)] get_gate_id [OF g] by metis
  then have "get_gate (g_id g') db' = Some g'" using gs get_gate_in [of db' g'] by simp
  then show ?thesis using g' get_gate_id [OF g] by (auto simp: row_edge_def)
qed

lemma gate_step_get:
  "machine_ok db \<Longrightarrow> gate_step db db' \<Longrightarrow> get_gate i db = Some g \<Longrightarrow>
     \<exists>g'. get_gate i db' = Some g' \<and> row_edge g g'"
  using gate_step_evolves evolve_get_gate unfolding machine_ok_def by blast

section \<open>Properties of the machine\<close>

definition sample_run_db :: gate_db where
  "sample_run_db = snd (projr (create_gate sample_args ''g1'' 100 empty_db))"

definition sample_held_db :: gate_db where
  "sample_held_db = projr (hold_gate ''o1'' ''g1'' ''admin'' (Some ''later'') None 200 sample_run_db)"

lemma sample_run: "gate_step empty_db sample_run_db" "gate_step sample_run_db sample_held_db"
proof -
  have "create_gate sample_args ''g1'' 100 empty_db
      = Inr (fst (projr (create_gate sample_args ''g1'' 100 empty_db)), sample_run_db)" by code_simp
  moreover have "fresh_gate_id (sample_args, ''g1'', 100) empty_db" by code_simp
  ultimately show "gate_step empty_db sample_run_db" by (rule gate_step.create)
  have "hold_gate ''o1'' ''g1'' ''admin'' (Some ''later'') None 200 sample_run_db = Inr sample_held_db" by code_simp
  then show "gate_step sample_run_db sample_held_db" by (rule gate_step.hold)
qed



text \<open>
  A gate's row is never lost and never changes hands: through any run of the gate services its
  identifier and its slot (organisation, work item, gate type, scope) stay, and a pull request and
  repository, once known, stay too. A voided gate stays voided.
\<close>

lemma gate_identity_stable:
  assumes "machine_ok db" and "gate_step\<^sup>*\<^sup>* db db'" and "get_gate i db = Some g"
  shows "\<exists>g'. get_gate i db' = Some g' \<and> gate_slot g' = gate_slot g
     \<and> (g_pr_number g \<noteq> None \<longrightarrow> g_pr_number g' = g_pr_number g)
     \<and> (g_pr_number g \<noteq> None \<and> g_repo_full_name g \<noteq> None \<longrightarrow> g_repo_full_name g' = g_repo_full_name g)
     \<and> (g_status g = Voided \<longrightarrow> g_status g' = Voided)"
  using assms(2,1)
proof (rule gate_machine.run_keeps)
  fix a b assume "machine_ok a" "gate_step a b" and "\<exists>g'. get_gate i a = Some g' \<and> gate_slot g' = gate_slot g
     \<and> (g_pr_number g \<noteq> None \<longrightarrow> g_pr_number g' = g_pr_number g)
     \<and> (g_pr_number g \<noteq> None \<and> g_repo_full_name g \<noteq> None \<longrightarrow> g_repo_full_name g' = g_repo_full_name g)
     \<and> (g_status g = Voided \<longrightarrow> g_status g' = Voided)"
  then obtain x y where "get_gate i a = Some x" "get_gate i b = Some y" "row_edge x y" "gate_slot x = gate_slot g"
     "g_pr_number g \<noteq> None \<longrightarrow> g_pr_number x = g_pr_number g"
     "g_pr_number g \<noteq> None \<and> g_repo_full_name g \<noteq> None \<longrightarrow> g_repo_full_name x = g_repo_full_name g"
     "g_status g = Voided \<longrightarrow> g_status x = Voided"
    using gate_step_get by blast
  then show "\<exists>g'. get_gate i b = Some g' \<and> gate_slot g' = gate_slot g
     \<and> (g_pr_number g \<noteq> None \<longrightarrow> g_pr_number g' = g_pr_number g)
     \<and> (g_pr_number g \<noteq> None \<and> g_repo_full_name g \<noteq> None \<longrightarrow> g_repo_full_name g' = g_repo_full_name g)
     \<and> (g_status g = Voided \<longrightarrow> g_status g' = Voided)"
    by (auto simp: row_edge_def)
qed (use assms(3) in auto)

lemma gate_identity_stable_witness:
  "let g = the (get_gate ''g1'' sample_run_db)
   in \<exists>g'. get_gate ''g1'' sample_held_db = Some g' \<and> gate_slot g' = gate_slot g
     \<and> (g_pr_number g \<noteq> None \<longrightarrow> g_pr_number g' = g_pr_number g)
     \<and> (g_pr_number g \<noteq> None \<and> g_repo_full_name g \<noteq> None \<longrightarrow> g_repo_full_name g' = g_repo_full_name g)
     \<and> (g_status g = Voided \<longrightarrow> g_status g' = Voided)"
  unfolding Let_def
proof (rule gate_identity_stable)
  show "machine_ok sample_run_db" by code_simp
  show "gate_step\<^sup>*\<^sup>* sample_run_db sample_held_db" using sample_run by blast
  show "get_gate ''g1'' sample_run_db = Some (the (get_gate ''g1'' sample_run_db))" by code_simp
qed

end
