(* ===== verification/Gate_Properties.thy ===== *)
theory Gate_Properties
  imports Gate_Machine "HOL-Library.Multiset"
begin

text \<open>
  What the single actions on a gate do, on every branch: hold and resume, undo, the reopening of an
  approved merge gate by webhook deliveries in any order, the reclamation of a finished story's
  gates, the resolution by a verdict, and the order of the inbox.
\<close>

section \<open>Hold and resume\<close>

lemma get_gate_linked [row_simps]:
  "get_gate j (set_linked_step_run org i st h r db) = get_gate j db"
  "get_gate j (skip_linked_step_run org i r' now db) = get_gate j db"
  by (simp_all add: get_gate_def)

lemma get_gate_record [row_simps]:
  "record_activity org act actor aty i ctx db = Inr db' \<Longrightarrow> get_gate j db' = get_gate j db"
  by (auto simp: get_gate_def dest: record_activity_gates)

lemma get_gate_undo_doc [row_simps]: "get_gate j (undo_doc_status org g db) = get_gate j db"
  by (simp add: get_gate_def)

lemma hold_gate_get:
  assumes "hold_gate org i holder reason until now db = Inr db'"
  obtains g where "get_gate i db = Some g" "g_org_id g = org" "g_status g = Pending"
    "get_gate i db' = Some ((set_gate_status Held now g)\<lparr>g_resolver_id := Some holder,
        g_resolution_note := reason, g_held_until := until\<rparr>)"
  using assms
  by (auto simp: hold_gate_def find_org_gate_def valid_transition_to get_gate_linked get_upd_gate
      split: option.splits if_splits)

text \<open>
  While a gate is on hold nobody can decide or discard it: voiding, undoing, discussing and
  holding it again are all refused, and the only action left, resuming, succeeds and gives back the
  pending gate as it was, but for the time it entered its status and the cleared hold date.
\<close>

lemma held_gate_frozen_until_resumed:
  assumes "machine_ok db" and "hold_gate org i holder reason until now db = Inr db'"
  shows "void_gate org i voider why aty label now' db' = Inl illegal_transition
     \<and> hold_gate org i holder' reason' until' now' db' = Inl illegal_transition
     \<and> (\<exists>e. undo_gate_resolution org i actor now' db' = Inl e)
     \<and> (\<exists>e. request_gate_discussion org i actor why' now' db' = Inl e)
     \<and> (\<exists>g db''. get_gate i db = Some g \<and> unhold_gate org i actor now' db' = Inr db''
          \<and> get_gate i db'' = Some (g\<lparr>g_status_entered_at := Some now', g_held_until := None\<rparr>))"
proof -
  obtain g where g: "get_gate i db = Some g" "g_org_id g = org" "g_status g = Pending"
    and g': "get_gate i db' = Some ((set_gate_status Held now g)\<lparr>g_resolver_id := Some holder,
        g_resolution_note := reason, g_held_until := until\<rparr>)"
    using hold_gate_get [OF assms(2)] by metis
  have ok: "g_resolver_id g = None" "g_resolution_note g = None"
    using assms(1) g get_gate_id [OF g(1)] by (auto simp: machine_ok_def list_all_iff gate_ok_def)
  have f: "find_org_gate org i db' = Some ((set_gate_status Held now g)\<lparr>g_resolver_id := Some holder,
        g_resolution_note := reason, g_held_until := until\<rparr>)"
    using g g' by (simp add: find_org_gate_Some)
  have r: "\<exists>db''. unhold_gate org i actor now' db' = Inr db''
      \<and> get_gate i db'' = Some (g\<lparr>g_status_entered_at := Some now', g_held_until := None\<rparr>)"
    using f g' g ok
    by (simp add: unhold_gate_def get_gate_linked get_upd_gate set_gate_status_def)
  show ?thesis
    using f g r by (simp add: void_gate_def hold_gate_def undo_gate_resolution_def request_gate_discussion_def)
qed

lemma held_gate_frozen_until_resumed_witness:
  "void_gate ''o1'' ''g1'' ''v'' ''why'' ''human'' ''admin'' 300 sample_held_db = Inl illegal_transition
     \<and> hold_gate ''o1'' ''g1'' ''h'' None None 300 sample_held_db = Inl illegal_transition
     \<and> (\<exists>e. undo_gate_resolution ''o1'' ''g1'' ''a'' 300 sample_held_db = Inl e)
     \<and> (\<exists>e. request_gate_discussion ''o1'' ''g1'' ''a'' (Some ''w'') 300 sample_held_db = Inl e)
     \<and> (\<exists>g db''. get_gate ''g1'' sample_run_db = Some g \<and> unhold_gate ''o1'' ''g1'' ''a'' 300 sample_held_db = Inr db''
          \<and> get_gate ''g1'' db'' = Some (g\<lparr>g_status_entered_at := Some 300, g_held_until := None\<rparr>))"
proof (rule held_gate_frozen_until_resumed)
  show "machine_ok sample_run_db" by code_simp
  show "hold_gate ''o1'' ''g1'' ''admin'' (Some ''later'') None 200 sample_run_db = Inr sample_held_db" by code_simp
qed

section \<open>Undo\<close>

text \<open>
  A resolution is undone exactly by the member who made it, on an approved or rejected gate of
  the organisation, within five minutes of the resolution; in every other case the call is refused.
\<close>

lemma undo_only_by_resolver_in_window:
  "(\<exists>db'. undo_gate_resolution org i actor now db = Inr db') \<longleftrightarrow>
     (\<exists>g t. find_org_gate org i db = Some g \<and> g_status g \<in> {Approved, Rejected}
        \<and> g_resolver_id g = Some actor \<and> g_resolved_at g = Some t \<and> now - t \<le> GATE_UNDO_WINDOW)"
  by (auto simp: undo_gate_resolution_def record_activity_def split: option.splits if_splits)

lemma docs_upd_gate [simp]: "t_docs (upd_gate i f db) = t_docs db"
  by (simp add: upd_gate_def)

lemma docs_record: "record_activity org act actor aty i ctx db = Inr db' \<Longrightarrow> t_docs db' = t_docs db"
  by (auto simp: record_activity_def log_activity_def split: if_splits)

lemma undo_docs:
  "undo_gate_resolution org i actor now db = Inr db' \<Longrightarrow> find_org_gate org i db = Some g \<Longrightarrow>
     t_docs db' = t_docs (undo_doc_status org g db)"
  by (auto simp: undo_gate_resolution_def dest!: docs_record split: option.splits if_splits)

lemma find_org_gate_resolve_doc [simp]:
  "find_org_gate org i (resolve_doc_gate g st db) = find_org_gate org i db"
proof -
  have "t_gates (resolve_doc_gate g st db) = t_gates db"
    by (simp add: resolve_doc_gate_def split: option.splits)
  then show ?thesis by (simp add: find_org_gate_def get_gate_def)
qed

text \<open>
  Deciding a document's gate and undoing the decision in time leaves the documents as they were:
  the document goes to confirmed or denied and back to pending, and no other document changes.
\<close>

lemma doc_decision_undo_roundtrip:
  assumes "distinct (map d_id (t_docs db))"
    and "find_org_gate org i db = Some g" and "g_status g \<in> {Approved, Rejected}"
    and "\<forall>d \<in> set (t_docs db). d_id d = g_work_item_id g \<longrightarrow> d_status d = ''pending''"
    and "undo_gate_resolution org i actor now (resolve_doc_gate g (g_status g) db) = Inr db'"
  shows "t_docs db' = t_docs db"
proof -
  have t: "t_docs db' = t_docs (undo_doc_status org g (resolve_doc_gate g (g_status g) db))"
    using undo_docs [OF assms(5)] assms(2) by simp
  have org: "g_org_id g = org" using assms(2) by (simp add: find_org_gate_Some)
  show ?thesis
  proof (cases "find_row d_id (g_work_item_id g) (t_docs db)")
    case None
    then show ?thesis by (simp add: t undo_doc_status_def resolve_doc_gate_def Let_def)
  next
    case (Some d)
    have d: "d \<in> set (t_docs db)" "d_id d = g_work_item_id g" "d_status d = ''pending''"
      using doc_rows.get_key [OF Some] assms(4) by auto
    have again: "upd_row d_id (d_id d) (\<lambda>x. x\<lparr>d_status := ''pending''\<rparr>)
        (upd_row d_id (d_id d) (\<lambda>x. x\<lparr>d_status := s\<rparr>) (t_docs db)) = t_docs db" for s
      using assms(4) d(2) by (auto simp: upd_row_def intro!: map_idI)
    have found: "find_row d_id (g_work_item_id g) (upd_row d_id (d_id d) (\<lambda>x. x\<lparr>d_status := s\<rparr>) (t_docs db))
        = Some (d\<lparr>d_status := s\<rparr>)" for s
      using doc_rows.get_upd_same [of "\<lambda>x. x\<lparr>d_status := s\<rparr>" "d_id d" "t_docs db"] Some d by simp
    show ?thesis using Some d assms(3) org found again
      by (auto simp: t undo_doc_status_def resolve_doc_gate_def upd_doc_def Let_def)
  qed
qed

definition sample_doc_gate :: gate where
  "sample_doc_gate = sample_gate\<lparr>g_work_item_id := ''d1'', g_work_item_type := ''doc'', g_gate_type := ''doc_approval'',
     g_status := Approved, g_resolver_id := Some ''u1'', g_resolved_at := Some 1000\<rparr>"

definition sample_doc_db :: gate_db where
  "sample_doc_db = empty_db\<lparr>t_gates := [sample_doc_gate],
     t_docs := [\<lparr>d_id = ''d1'', d_org = ''o1'', d_status = ''pending'', d_deleted_at = None,
       d_created_by = None, d_title = ''t'', d_project = ''j1'', d_content = None\<rparr>]\<rparr>"

lemma doc_decision_undo_roundtrip_witness:
  "t_docs (projr (undo_gate_resolution ''o1'' ''g1'' ''u1'' 2000 (resolve_doc_gate sample_doc_gate Approved sample_doc_db)))
     = t_docs sample_doc_db"
proof -
  have st: "g_status sample_doc_gate = Approved" by code_simp
  show ?thesis
  proof (rule doc_decision_undo_roundtrip [where org = "''o1''" and i = "''g1''" and actor = "''u1''" and now = 2000
        and g = sample_doc_gate])
    show "distinct (map d_id (t_docs sample_doc_db))" by code_simp
    show "find_org_gate ''o1'' ''g1'' sample_doc_db = Some sample_doc_gate" by code_simp
    show "g_status sample_doc_gate \<in> {Approved, Rejected}" by code_simp
    show "\<forall>d \<in> set (t_docs sample_doc_db). d_id d = g_work_item_id sample_doc_gate \<longrightarrow> d_status d = ''pending''"
      by code_simp
    show "undo_gate_resolution ''o1'' ''g1'' ''u1'' 2000 (resolve_doc_gate sample_doc_gate (g_status sample_doc_gate) sample_doc_db)
      = Inr (projr (undo_gate_resolution ''o1'' ''g1'' ''u1'' 2000 (resolve_doc_gate sample_doc_gate Approved sample_doc_db)))"
      by code_simp
  qed
qed

section \<open>New commits on an approved pull request\<close>

text \<open>
  A webhook delivery carries the head commit it saw and the pull request's update time. Deliveries
  arrive late and out of order; each one is a call of \<^verbatim>\<open>reopen_gate_if_new_sha\<close>.
\<close>

definition deliver :: "uuid \<Rightarrow> uuid \<Rightarrow> string \<Rightarrow> int \<Rightarrow> timestamp \<Rightarrow> gate_db \<Rightarrow> string \<times> timestamp \<Rightarrow> gate_db" where
  "deliver org i repo pr now db = (\<lambda>(sha, t). snd (reopen_gate_if_new_sha org i sha repo pr (Some t) now db))"

definition observe :: "timestamp \<Rightarrow> gate \<Rightarrow> gate" where
  "observe t g = g\<lparr>g_pr_head_observed_at := Some (greatest (g_pr_head_observed_at g) t)\<rparr>"

definition re_pended :: "timestamp \<Rightarrow> gate \<Rightarrow> gate" where
  "re_pended now g = (set_gate_status Pending now g)\<lparr>g_resolver_id := None,
     g_resolved_at := None, g_resolution_note := None, g_approved_head_sha := None,
     g_github_check_run_id := None, g_github_check_run_sha := None\<rparr>"

lemma get_gate_check_events [simp]: "get_gate i (db\<lparr>t_check_events := e\<rparr>) = get_gate i db"
  by (simp add: get_gate_def)

definition must_reopen :: "string \<Rightarrow> timestamp \<Rightarrow> gate \<Rightarrow> bool" where
  "must_reopen sha t g \<longleftrightarrow> g_status g \<in> {Approved, Auto_passed}
     \<and> (case g_pr_head_observed_at g of None \<Rightarrow> True | Some w \<Rightarrow> w \<le> t)
     \<and> g_approved_head_sha g \<noteq> Some sha"

lemma get_gate_deliver:
  assumes "get_gate i db = Some g" "g_gate_type g = ''merge''"
  shows "get_gate i (deliver org i repo pr now db (sha, t))
     = Some (if must_reopen sha t g then re_pended now (observe t g) else observe t g)"
proof -
  have stale: "greatest (g_pr_head_observed_at g) t \<noteq> t \<longleftrightarrow>
      \<not> (case g_pr_head_observed_at g of None \<Rightarrow> True | Some w \<Rightarrow> w \<le> t)"
    by (auto simp: greatest_def split: option.splits)
  show ?thesis unfolding deliver_def reopen_gate_if_new_sha_def prod.case assms(1) option.case Let_def stale
    using assms by (simp add: must_reopen_def re_pended_def observe_def get_upd_gate)
qed

lemma deliver_pending:
  assumes "get_gate i db = Some g" "g_gate_type g = ''merge''" "g_status g = Pending"
  shows "\<exists>g'. get_gate i (foldl (deliver org i repo pr now) db ds) = Some g' \<and> g_gate_type g' = ''merge'' \<and> g_status g' = Pending"
  using assms
proof (induction ds arbitrary: db g)
  case (Cons d ds)
  obtain sha t where d: "d = (sha, t)" by fastforce
  have "get_gate i (deliver org i repo pr now db d) = Some (observe t g)"
    using get_gate_deliver [OF Cons.prems(1,2)] Cons.prems(3) by (simp add: d must_reopen_def)
  then show ?case using Cons.IH [of "deliver org i repo pr now db d" "observe t g"] Cons.prems
    by (simp add: observe_def)
qed simp

text \<open>
  C16: An approval does not outlive a new commit, whatever the order in which the webhook deliveries
  arrive. If an approved (or auto-passed) merge gate was approved for one head, and among the deliveries processed
  one carries another head with an update time no other delivery and no earlier observation
  exceeds, then the gate is pending once all of them are processed.
\<close>

theorem new_head_revokes_approval:
  assumes "get_gate i db = Some g" and "g_gate_type g = ''merge''" and "g_status g \<in> {Approved, Auto_passed}"
    and "g_approved_head_sha g \<noteq> Some sha" and "(sha, t) \<in> set ds" and "\<forall>(s, t') \<in> set ds. t' \<le> t"
    and "\<forall>w. g_pr_head_observed_at g = Some w \<longrightarrow> w \<le> t"
  shows "\<exists>g'. get_gate i (foldl (deliver org i repo pr now) db ds) = Some g' \<and> g_status g' = Pending"
  using assms
proof (induction ds arbitrary: db g)
  case (Cons d ds)
  obtain s t' where d: "d = (s, t')" by fastforce
  have g': "get_gate i (deliver org i repo pr now db d)
      = Some (if must_reopen s t' g then re_pended now (observe t' g) else observe t' g)"
    using get_gate_deliver [OF Cons.prems(1,2)] by (simp add: d)
  show ?case
  proof (cases "must_reopen s t' g")
    case True
    then show ?thesis using g' Cons.prems(2) deliver_pending [of i "deliver org i repo pr now db d"]
      by (fastforce simp: re_pended_def observe_def)
  next
    case False
    then have "d \<noteq> (sha, t)" using Cons.prems(3,4,7) by (auto simp: d must_reopen_def split: option.splits)
    then have "(sha, t) \<in> set ds" using Cons.prems(5) by auto
    moreover have "t' \<le> t" using Cons.prems(6) d by simp
    ultimately show ?thesis using Cons.IH [of "deliver org i repo pr now db d" "observe t' g"] g' False Cons.prems
      by (auto simp: observe_def greatest_def split: option.splits)
  qed
qed simp

definition sample_merged_db :: gate_db where
  "sample_merged_db = empty_db\<lparr>t_gates := [sample_gate\<lparr>g_pr_number := Some 7, g_repo_full_name := Some ''acme/repo'',
      g_status := Approved, g_resolver_id := Some ''u1'', g_resolved_at := Some 120, g_approved_head_sha := Some ''aaa''\<rparr>]\<rparr>"

theorem new_head_revokes_approval_witness:
  "\<exists>g'. get_gate ''g1'' (foldl (deliver ''o1'' ''g1'' ''acme/repo'' 7 900) sample_merged_db
       [(''aaa'', 500), (''bbb'', 700), (''aaa'', 600)]) = Some g' \<and> g_status g' = Pending"
proof (rule new_head_revokes_approval [where sha = "''bbb''" and t = 700])
  show "get_gate ''g1'' sample_merged_db = Some (the (get_gate ''g1'' sample_merged_db))" by code_simp
  show "g_gate_type (the (get_gate ''g1'' sample_merged_db)) = ''merge''" by code_simp
  show "g_status (the (get_gate ''g1'' sample_merged_db)) \<in> {Approved, Auto_passed}" by code_simp
  show "g_approved_head_sha (the (get_gate ''g1'' sample_merged_db)) \<noteq> Some ''bbb''" by code_simp
  have "g_pr_head_observed_at (the (get_gate ''g1'' sample_merged_db)) = None" by code_simp
  then show "\<forall>w. g_pr_head_observed_at (the (get_gate ''g1'' sample_merged_db)) = Some w \<longrightarrow> w \<le> 700" by simp
qed auto

text \<open>
  A late delivery changes nothing that was decided: when the pull request's update time it carries
  is older than the newest one already seen, the gate row stays exactly as it is and no event is added.
\<close>

lemma stale_delivery_ignored:
  assumes "get_gate i db = Some g" and "g_pr_head_observed_at g = Some w" and "t < w"
  shows "\<exists>db'. reopen_gate_if_new_sha org i sha repo pr (Some t) now db = (False, db')
     \<and> get_gate i db' = Some g \<and> t_check_events db' = t_check_events db"
proof -
  have "get_gate i (upd_gate i (\<lambda>x. x\<lparr>g_pr_head_observed_at := Some (greatest (g_pr_head_observed_at x) t)\<rparr>) db) = Some g"
    using assms by (simp add: get_upd_gate greatest_def)
  moreover have "greatest (g_pr_head_observed_at g) t \<noteq> t" using assms by (simp add: greatest_def)
  ultimately show ?thesis using assms(1) by (simp add: reopen_gate_if_new_sha_def Let_def upd_gate_def)
qed

lemma stale_delivery_ignored_witness:
  "let db = upd_gate ''g1'' (\<lambda>x. x\<lparr>g_pr_head_observed_at := Some 800\<rparr>) sample_merged_db
   in \<exists>db'. reopen_gate_if_new_sha ''o1'' ''g1'' ''bbb'' ''acme/repo'' 7 (Some 700) 900 db = (False, db')
     \<and> get_gate ''g1'' db' = Some (the (get_gate ''g1'' db)) \<and> t_check_events db' = t_check_events db"
  unfolding Let_def
proof (rule stale_delivery_ignored [where w = 800])
  let ?db = "upd_gate ''g1'' (\<lambda>x. x\<lparr>g_pr_head_observed_at := Some 800\<rparr>) sample_merged_db"
  show "get_gate ''g1'' ?db = Some (the (get_gate ''g1'' ?db))" by code_simp
  show "g_pr_head_observed_at (the (get_gate ''g1'' ?db)) = Some 800" by code_simp
qed simp

section \<open>Reclamation and verdicts\<close>

text \<open>
  The reclamation of a finished story voids exactly the story's pending merge gates, reports their
  identifiers, and leaves every other gate as it is; none of the story's merge gates is pending afterwards
  and no gate becomes approved.
\<close>

lemma reclaim_voids_exactly_stale:
  assumes "unique_slots db" and "reclaim_stale_merge_gates_for_story org st now db = (ids, db')"
  shows "ids = map g_id (filter (is_stale_merge_gate org st) (t_gates db))
     \<and> t_gates db' = map (\<lambda>x. if is_stale_merge_gate org st x
            then x\<lparr>g_status := Voided, g_status_entered_at := Some now, g_resolver_id := None,
                   g_resolution_note := Some RECLAIM_RESOLUTION_NOTE, g_resolved_at := Some now\<rparr>
            else x) (t_gates db)
     \<and> filter (is_stale_merge_gate org st) (t_gates db') = []"
proof -
  have t: "t_gates db' = map (\<lambda>x. if is_stale_merge_gate org st x then reclaimed now x else x) (t_gates db)"
    using reclaim_gates [OF assms(1), of org st now] assms(2) by simp
  have "is_stale_merge_gate org st x \<Longrightarrow> reclaimed now x = x\<lparr>g_status := Voided, g_status_entered_at := Some now,
      g_resolver_id := None, g_resolution_note := Some RECLAIM_RESOLUTION_NOTE, g_resolved_at := Some now\<rparr>" for x
    by (simp add: is_stale_merge_gate_def reclaimed_def set_gate_status_def)
  moreover have "\<not> is_stale_merge_gate org st (x\<lparr>g_status := Voided, g_status_entered_at := Some now,
      g_resolver_id := None, g_resolution_note := Some RECLAIM_RESOLUTION_NOTE, g_resolved_at := Some now\<rparr>)" for x
    by (simp add: is_stale_merge_gate_def)
  ultimately show ?thesis using assms(2) t
    by (auto simp: reclaim_stale_merge_gates_for_story_def Let_def filter_empty_conv)
qed

lemma reclaim_voids_exactly_stale_witness:
  "let db' = snd (reclaim_stale_merge_gates_for_story ''o1'' ''s1'' 900 sample_db)
   in [''g1''] = map g_id (filter (is_stale_merge_gate ''o1'' ''s1'') (t_gates sample_db))
     \<and> t_gates db' = map (\<lambda>x. if is_stale_merge_gate ''o1'' ''s1'' x
            then x\<lparr>g_status := Voided, g_status_entered_at := Some 900, g_resolver_id := None,
                   g_resolution_note := Some RECLAIM_RESOLUTION_NOTE, g_resolved_at := Some 900\<rparr>
            else x) (t_gates sample_db)
     \<and> filter (is_stale_merge_gate ''o1'' ''s1'') (t_gates db') = []"
  unfolding Let_def
proof (rule reclaim_voids_exactly_stale)
  show "unique_slots sample_db" by code_simp
  show "reclaim_stale_merge_gates_for_story ''o1'' ''s1'' 900 sample_db
      = ([''g1''], snd (reclaim_stale_merge_gates_for_story ''o1'' ''s1'' 900 sample_db))" by code_simp
qed

text \<open>
  A captured verdict resolves at most the newest pending gate of the type its source stands for, to
  approved exactly on a pass; a verdict that was not measured, or whose source stands for no gate,
  changes nothing, and gates that are not pending are never touched.
\<close>

lemma verdict_resolves_only_pending:
  assumes "unique_slots db" and "get_gate i db = Some g"
  shows "get_gate i (resolve_gate_from_verdict org wi wit src res resolver now db) = Some g
     \<or> (\<exists>r gt. res = Some r \<and> source_to_gate_type src = Some gt \<and> g_status g = Pending
          \<and> g_org_id g = org \<and> g_work_item_id g = wi \<and> g_gate_type g = gt
          \<and> (\<forall>x \<in> set (t_gates db). g_org_id x = org \<and> g_work_item_id x = wi \<and> g_work_item_type x = wit
               \<and> g_gate_type x = gt \<and> g_status x = Pending \<longrightarrow> g_created_at x \<le> g_created_at g)
          \<and> (\<exists>g'. get_gate i (resolve_gate_from_verdict org wi wit src res resolver now db) = Some g'
               \<and> g_status g' = (if r = ''pass'' then Approved else Rejected)
               \<and> g_resolver_id g' = resolver \<and> g_resolved_at g' = Some now))"
proof (cases rule: resolve_from_verdict_cases [of org wi wit src res resolver now db])
  case same
  then show ?thesis using assms(2) by simp
next
  case (one r h gt)
  show ?thesis
  proof (cases "i = g_id h")
    case True
    then have "g = h" using get_gate_in [OF assms(1) one(3)] assms(2) by simp
    then show ?thesis using one True assms(2) by (auto simp: get_upd_gate)
  qed (use one assms(2) in \<open>simp add: get_upd_gate\<close>)
qed

lemma verdict_resolves_only_pending_witness:
  "let db = upd_gate ''g1'' (\<lambda>x. x\<lparr>g_gate_type := ''qa''\<rparr>) sample_db;
       g = the (get_gate ''g1'' db)
   in get_gate ''g1'' (resolve_gate_from_verdict ''o1'' ''s1'' ''story'' ''qa'' (Some ''pass'') None 900 db) = Some g
     \<or> (\<exists>r gt. Some ''pass'' = Some r \<and> source_to_gate_type ''qa'' = Some gt \<and> g_status g = Pending
          \<and> g_org_id g = ''o1'' \<and> g_work_item_id g = ''s1'' \<and> g_gate_type g = gt
          \<and> (\<forall>x \<in> set (t_gates db). g_org_id x = ''o1'' \<and> g_work_item_id x = ''s1'' \<and> g_work_item_type x = ''story''
               \<and> g_gate_type x = gt \<and> g_status x = Pending \<longrightarrow> g_created_at x \<le> g_created_at g)
          \<and> (\<exists>g'. get_gate ''g1'' (resolve_gate_from_verdict ''o1'' ''s1'' ''story'' ''qa'' (Some ''pass'') None 900 db) = Some g'
               \<and> g_status g' = (if r = ''pass'' then Approved else Rejected)
               \<and> g_resolver_id g' = None \<and> g_resolved_at g' = Some 900))"
  unfolding Let_def
proof (rule verdict_resolves_only_pending)
  show "unique_slots (upd_gate ''g1'' (\<lambda>x. x\<lparr>g_gate_type := ''qa''\<rparr>) sample_db)" by code_simp
  show "get_gate ''g1'' (upd_gate ''g1'' (\<lambda>x. x\<lparr>g_gate_type := ''qa''\<rparr>) sample_db)
     = Some (the (get_gate ''g1'' (upd_gate ''g1'' (\<lambda>x. x\<lparr>g_gate_type := ''qa''\<rparr>) sample_db)))" by code_simp
qed

section \<open>The inbox\<close>

lemma sort_key_before:
  assumes "sorted (map k xs)" "i < j" "j < length xs"
  shows "k (xs ! i) \<le> k (xs ! j)"
  using sorted_nth_mono [OF assms(1), of i j] assms by simp

text \<open>
  The inbox order loses and duplicates no gate, shows every gate that is not on hold before every
  gate on hold, among gates alike in that the overdue ones first, and then the oldest first.
\<close>

lemma inbox_order:
  "let xs = apply_gate_urgency_sort db now gs
   in mset xs = mset gs
     \<and> (\<forall>i j. i < j \<and> j < length xs \<longrightarrow>
          (is_on_hold now (xs ! i) \<longrightarrow> is_on_hold now (xs ! j))
          \<and> (is_on_hold now (xs ! i) = is_on_hold now (xs ! j) \<longrightarrow>
               (is_overdue db now (xs ! j) \<longrightarrow> is_overdue db now (xs ! i))
               \<and> (is_overdue db now (xs ! i) = is_overdue db now (xs ! j) \<longrightarrow>
                    g_created_at (xs ! i) \<le> g_created_at (xs ! j))))"
proof -
  define xs where "xs = apply_gate_urgency_sort db now gs"
  have "sorted (map (urgency_key db now) xs)" by (simp add: xs_def apply_gate_urgency_sort_def)
  then have k: "urgency_key db now (xs ! i) \<le> urgency_key db now (xs ! j)" if "i < j" "j < length xs" for i j
    using that by (rule sort_key_before)
  have "(is_on_hold now x \<longrightarrow> is_on_hold now y) \<and> (is_on_hold now x = is_on_hold now y \<longrightarrow>
        (is_overdue db now y \<longrightarrow> is_overdue db now x)
        \<and> (is_overdue db now x = is_overdue db now y \<longrightarrow> g_created_at x \<le> g_created_at y))"
    if "urgency_key db now x \<le> urgency_key db now y" for x y
    using that by (auto simp: urgency_key_def less_eq_prod_def split: if_splits)
  with k have "\<forall>i j. i < j \<and> j < length xs \<longrightarrow>
          (is_on_hold now (xs ! i) \<longrightarrow> is_on_hold now (xs ! j))
          \<and> (is_on_hold now (xs ! i) = is_on_hold now (xs ! j) \<longrightarrow>
               (is_overdue db now (xs ! j) \<longrightarrow> is_overdue db now (xs ! i))
               \<and> (is_overdue db now (xs ! i) = is_overdue db now (xs ! j) \<longrightarrow>
                    g_created_at (xs ! i) \<le> g_created_at (xs ! j)))" by blast
  moreover have "mset xs = mset gs" by (simp add: xs_def apply_gate_urgency_sort_def)
  ultimately show ?thesis unfolding Let_def xs_def by blast
qed

lemma inbox_order_witness:
  "let xs = apply_gate_urgency_sort sample_db 900 (t_gates sample_db)
   in mset xs = mset (t_gates sample_db) \<and> length xs = length (t_gates sample_db)"
proof -
  have "mset (apply_gate_urgency_sort sample_db 900 (t_gates sample_db)) = mset (t_gates sample_db)"
    using inbox_order [of sample_db 900 "t_gates sample_db"] by (simp add: Let_def)
  then show ?thesis using mset_eq_length by (auto simp: Let_def)
qed

text \<open>
  A publishing slot is reported as held by another draft only when its gate is pending or approved,
  names that draft, the draft is not the asking one, and the newest publication under the gate is live.
\<close>

lemma holder_is_other_live_draft:
  "resolve_gate_holder_draft_id posts pubs existing this_draft = Some h \<longleftrightarrow>
     (\<exists>g raw. existing = Some g \<and> g_status g \<in> {Pending, Approved}
        \<and> map_of (facts_of g) ''draft_id'' = Some (JStr raw) \<and> py_uuid raw = Some h
        \<and> h \<noteq> this_draft \<and> gate_publication_is_live posts pubs (g_id g))"
  by (auto simp: resolve_gate_holder_draft_id_def split: option.splits json.splits if_splits)

end
