(* ===== verification/Verdicts.thy ===== *)
theory Verdicts
  imports Gate_Actions
begin

text \<open>
  Capture of verdicts (\<^verbatim>\<open>services/verdict_capture.py\<close>, \<^verbatim>\<open>services/verdict_recorder.py\<close>): who answers for
  a story, the upsert of one verdict per participation and source, what the REST answers of GitHub are
  read as, and the capture of a pull request's, a CI run's or a reviewer's result. An HTTP call is its
  answer: the status and the decoded body, or \<^verbatim>\<open>None\<close> when the call raised.
\<close>

section \<open>Reading GitHub's answers\<close>

type_synonym http_answer = "(int \<times> json) option"

definition jget :: "string \<Rightarrow> json \<Rightarrow> json" where
  \<comment> \<open>\<^verbatim>\<open>d.get(k)\<close> of a dictionary\<close>
  "jget k j = (case j of JObj d \<Rightarrow> (case map_of d k of None \<Rightarrow> JNull | Some v \<Rightarrow> v) | _ \<Rightarrow> JNull)"

fun is_obj :: "json \<Rightarrow> bool" where
  "is_obj (JObj _) = True"
| "is_obj _ = False"

definition GATE_CHECK_NAME :: string where
  "GATE_CHECK_NAME = ''sprintable/gate''"

definition FAILURE_CONCLUSIONS :: "string list" where
  "FAILURE_CONCLUSIONS = [''failure'', ''timed_out'', ''cancelled'', ''action_required'', ''stale'']"

definition fetch_status_check_rollup :: "string \<Rightarrow> string \<Rightarrow> string \<Rightarrow> http_answer \<Rightarrow> string option \<times> string" where
  "fetch_status_check_rollup repo head_sha token answer =
     (if token = [] then (None, ''no_token'')
      else if repo = [] \<or> CHR ''/'' \<notin> set repo \<or> head_sha = [] then (None, ''bad_input'')
      else (case answer of
              None \<Rightarrow> (None, ''api_error'')
            | Some (code, data) \<Rightarrow>
                (if code \<noteq> 200 then (None, ''api_error'')
                 else (case jget ''check_runs'' data of
                         JList runs \<Rightarrow>
                           (let relevant = filter (\<lambda>r. is_obj r \<and> jget ''name'' r \<noteq> JStr GATE_CHECK_NAME) runs
                            in if relevant = [] then (None, ''not_found'')
                               else if list_ex (\<lambda>r. jget ''status'' r \<noteq> JStr ''completed'') relevant then (None, ''pending'')
                               else if list_ex (\<lambda>r. jget ''conclusion'' r \<in> JStr ` set FAILURE_CONCLUSIONS) relevant
                                 then (Some ''failure'', ''resolved'')
                               else (Some ''success'', ''resolved''))
                       | _ \<Rightarrow> (None, ''not_found'')))))"

definition PR_FILES_PAGE_SIZE :: nat where "PR_FILES_PAGE_SIZE = 100"
definition PR_FILES_MAX_PAGES :: nat where "PR_FILES_MAX_PAGES = 3"

text \<open>The pages are asked for in turn until a short one; a failed or odd page gives the whole up.\<close>

fun fetch_pages :: "nat \<Rightarrow> nat \<Rightarrow> (nat \<Rightarrow> http_answer) \<Rightarrow> string list \<Rightarrow> string list option" where
  "fetch_pages 0 page answer files = None"
| "fetch_pages (Suc k) page answer files =
     (case answer page of
        None \<Rightarrow> None
      | Some (code, batch) \<Rightarrow>
          (if code \<noteq> 200 then None
           else (case batch of
                   JList items \<Rightarrow>
                     (let files' = files @ List.map_filter (\<lambda>f. case jget ''filename'' f of
                                      JStr n \<Rightarrow> if n \<noteq> [] then Some n else None | _ \<Rightarrow> None) items
                      in if length items < PR_FILES_PAGE_SIZE then Some files'
                         else fetch_pages k (page + 1) answer files')
                 | _ \<Rightarrow> None)))"

definition fetch_pr_changed_files :: "string \<Rightarrow> int \<Rightarrow> string \<Rightarrow> (nat \<Rightarrow> http_answer) \<Rightarrow> string list option" where
  "fetch_pr_changed_files repo pr_number token answer =
     (if token = [] then None
      else if repo = [] \<or> CHR ''/'' \<notin> set repo \<or> pr_number = 0 then None
      else fetch_pages PR_FILES_MAX_PAGES 1 answer [])"

definition fetch_pr_review_rounds :: "string \<Rightarrow> http_answer \<Rightarrow> int" where
  "fetch_pr_review_rounds token answer =
     (if token = [] then 0
      else (case answer of
              None \<Rightarrow> 0
            | Some (code, data) \<Rightarrow>
                (if code \<noteq> 200 then 0
                 else (case data of
                         JList reviews \<Rightarrow>
                           (if list_all is_obj reviews
                            then int (length (filter (\<lambda>r. jget ''state'' r = JStr ''CHANGES_REQUESTED'') reviews))
                            else 0)
                       | _ \<Rightarrow> 0))))"

section \<open>Participation and the upsert of a verdict\<close>

definition resolve_implementation_participation :: "gate_db \<Rightarrow> uuid \<Rightarrow> uuid \<Rightarrow> participation option" where
  "resolve_implementation_participation db org story_id =
     (case min_row (\<lambda>r. (pr_created_at r, pr_id r)) (filter (\<lambda>r. pr_org r = org \<and> pr_is_default r) (t_roles db)) of
        None \<Rightarrow> None
      | Some role \<Rightarrow>
          min_row (\<lambda>p. (pa_created_at p, pa_id p))
            (filter (\<lambda>p. pa_org p = org \<and> pa_story p = story_id \<and> pa_role p = pr_id role) (t_participations db)))"

definition record_verdict :: "uuid \<Rightarrow> uuid \<Rightarrow> string \<Rightarrow> string option \<Rightarrow> int option \<Rightarrow> uuid \<Rightarrow> timestamp \<Rightarrow> gate_db
    \<Rightarrow> error + gate_db" where
  "record_verdict org participation_id source result rounds fresh now db =
     (case scalar_one_or_none (filter (\<lambda>v. v_org v = org \<and> v_participation v = participation_id
              \<and> v_source v = source) (t_verdicts db)) of
        Inl e \<Rightarrow> Inl e
      | Inr (Some v) \<Rightarrow>
          Inr (db\<lparr>t_verdicts := upd_row v_id (v_id v)
                 (\<lambda>x. x\<lparr>v_result := result, v_rounds := rounds, v_recorded_at := now\<rparr>) (t_verdicts db)\<rparr>)
      | Inr None \<Rightarrow>
          Inr (db\<lparr>t_verdicts := t_verdicts db @ [\<lparr>v_id = fresh, v_org = org, v_participation = participation_id,
                 v_source = source, v_result = result, v_rounds = rounds, v_recorded_at = now\<rparr>]\<rparr>))"

definition get_verdicts_by_participation :: "gate_db \<Rightarrow> uuid \<Rightarrow> uuid \<Rightarrow> verdict list" where
  "get_verdicts_by_participation db org participation_id =
     filter (\<lambda>v. v_org v = org \<and> v_participation v = participation_id) (t_verdicts db)"

section \<open>Capture\<close>

record capture_result =
  cr_recorded :: "string list"
  cr_skipped :: "string option"

definition capture_ci :: "uuid \<Rightarrow> uuid \<Rightarrow> uuid \<Rightarrow> string option \<Rightarrow> uuid \<Rightarrow> timestamp \<Rightarrow> string list \<times> gate_db
    \<Rightarrow> error + (string list \<times> gate_db)" where
  "capture_ci org story_id participation_id ci_result fresh now = (\<lambda>(recorded, db).
     case ci_result of
       None \<Rightarrow> Inr (recorded, db)
     | Some ci \<Rightarrow>
         (if py_lower ci = ''cancelled'' then Inr (recorded, db)
          else
            (let normalized = (if py_lower ci \<in> {''pass'', ''success''} then ''pass'' else ''fail'')
             in case record_verdict org participation_id ''ci'' (Some normalized) None fresh now db of
                  Inl e \<Rightarrow> Inl e
                | Inr db1 \<Rightarrow> Inr (recorded @ [''ci''],
                    resolve_gate_from_verdict org story_id ''story'' ''ci'' (Some normalized) None now db1))))"

definition capture_pr_ci_verdict :: "uuid \<Rightarrow> uuid \<Rightarrow> int \<Rightarrow> bool \<Rightarrow> string option \<Rightarrow> uuid \<Rightarrow> uuid \<Rightarrow> timestamp \<Rightarrow> gate_db
    \<Rightarrow> error + (capture_result \<times> gate_db)" where
  "capture_pr_ci_verdict org story_id rounds merged ci_result fresh1 fresh2 now db =
     (case resolve_implementation_participation db org story_id of
        None \<Rightarrow> Inr (\<lparr>cr_recorded = [], cr_skipped = Some ''no_implementation_participation''\<rparr>, db)
      | Some p \<Rightarrow>
          (case (if merged
                 then (case record_verdict org (pa_id p) ''pr'' (Some ''pass'')
                              (if rounds > 0 then Some rounds else None) fresh1 now db of
                         Inl e \<Rightarrow> Inl e
                       | Inr db1 \<Rightarrow> Inr ([''pr''],
                           resolve_gate_from_verdict org story_id ''story'' ''pr'' (Some ''pass'') None now db1))
                 else Inr ([], db)) of
             Inl e \<Rightarrow> Inl e
           | Inr x \<Rightarrow>
               (case capture_ci org story_id (pa_id p) ci_result fresh2 now x of
                  Inl e \<Rightarrow> Inl e
                | Inr (recorded, db2) \<Rightarrow> Inr (\<lparr>cr_recorded = recorded, cr_skipped = None\<rparr>, db2))))"

definition ensure_review_participation :: "uuid \<Rightarrow> uuid \<Rightarrow> uuid \<Rightarrow> string \<Rightarrow> uuid \<Rightarrow> timestamp \<Rightarrow> gate_db
    \<Rightarrow> error + (participation option \<times> gate_db)" where
  "ensure_review_participation org story_id member_id role_key fresh now db =
     (case first_row (filter (\<lambda>r. pr_org r = org \<and> pr_key r = role_key) (t_roles db)) of
        None \<Rightarrow> Inr (None, db)
      | Some role \<Rightarrow>
          (let mine = filter (\<lambda>p. pa_org p = org \<and> pa_story p = story_id \<and> pa_member p = member_id
                        \<and> pa_role p = pr_id role) (t_participations db)
           in case scalar_one_or_none mine of
                Inl e \<Rightarrow> Inl e
              | Inr None \<Rightarrow>
                  (let p = \<lparr>pa_id = fresh, pa_org = org, pa_story = story_id, pa_member = member_id,
                            pa_role = pr_id role, pa_created_at = now\<rparr>
                   in Inr (Some p, db\<lparr>t_participations := t_participations db @ [p]\<rparr>))
              | Inr (Some p) \<Rightarrow> Inr (first_row mine, db)))"

definition capture_review_verdict :: "uuid \<Rightarrow> uuid \<Rightarrow> string \<Rightarrow> uuid \<Rightarrow> string option \<Rightarrow> int option \<Rightarrow> string option
    \<Rightarrow> uuid \<Rightarrow> uuid \<Rightarrow> timestamp \<Rightarrow> gate_db \<Rightarrow> error + (bool \<times> gate_db)" where
  "capture_review_verdict org story_id role_key member_id result rounds source fresh1 fresh2 now db =
     (case ensure_review_participation org story_id member_id role_key fresh1 now db of
        Inl e \<Rightarrow> Inl e
      | Inr (None, db1) \<Rightarrow> Inr (False, db1)
      | Inr (Some p, db1) \<Rightarrow>
          (let src = (case source of None \<Rightarrow> role_key | Some s \<Rightarrow> if s = [] then role_key else s)
           in case record_verdict org (pa_id p) src result rounds fresh2 now db1 of
                Inl e \<Rightarrow> Inl e
              | Inr db2 \<Rightarrow> Inr (True, resolve_gate_from_verdict org story_id ''story'' role_key result None now db2)))"

section \<open>One verdict per participation and source\<close>

definition verdict_key :: "verdict \<Rightarrow> uuid \<times> uuid \<times> string" where
  "verdict_key v = (v_org v, v_participation v, v_source v)"

definition unique_verdicts :: "gate_db \<Rightarrow> bool" where
  "unique_verdicts db \<longleftrightarrow> distinct (map v_id (t_verdicts db)) \<and> distinct (map verdict_key (t_verdicts db))"

lemma verdict_filter:
  "filter (\<lambda>v. v_org v = org \<and> v_participation v = p \<and> v_source v = src) vs
     = filter (\<lambda>v. verdict_key v = (org, p, src)) vs"
  by (rule filter_cong) (auto simp: verdict_key_def)

definition verdict_row :: "uuid \<Rightarrow> uuid \<Rightarrow> uuid \<Rightarrow> string \<Rightarrow> string option \<Rightarrow> int option \<Rightarrow> timestamp \<Rightarrow> verdict" where
  "verdict_row i org p src res rounds now = \<lparr>v_id = i, v_org = org, v_participation = p, v_source = src,
     v_result = res, v_rounds = rounds, v_recorded_at = now\<rparr>"

lemma record_verdict_eq:
  assumes "unique_verdicts db"
  shows "record_verdict org p src res rounds fresh now db = Inr (db\<lparr>t_verdicts :=
     (case List.find (\<lambda>v. verdict_key v = (org, p, src)) (t_verdicts db) of
        None \<Rightarrow> t_verdicts db @ [verdict_row fresh org p src res rounds now]
      | Some v \<Rightarrow> upd_row v_id (v_id v) (\<lambda>x. x\<lparr>v_result := res, v_rounds := rounds, v_recorded_at := now\<rparr>) (t_verdicts db))\<rparr>)"
  using assms unfolding record_verdict_def verdict_filter unique_verdicts_def verdict_row_def
  by (simp add: filter_key_le1 split: option.split)

lemma verdict_key_simps [simp]:
  "verdict_key (verdict_row i org p src res rounds now) = (org, p, src)"
  "verdict_key (v\<lparr>v_result := res, v_rounds := rounds, v_recorded_at := now\<rparr>) = verdict_key v"
  "v_id (verdict_row i org p src res rounds now) = i"
  by (simp_all add: verdict_row_def verdict_key_def)

lemma verdict_row_eqI:
  "verdict_key v = (org, p, src) \<Longrightarrow>
     v\<lparr>v_result := res, v_rounds := rounds, v_recorded_at := now\<rparr> = verdict_row (v_id v) org p src res rounds now"
  by (simp add: verdict_key_def verdict_row_def)

lemma record_verdict_unique:
  assumes u: "unique_verdicts db" and fresh: "fresh \<notin> v_id ` set (t_verdicts db)"
    and r: "record_verdict org p src res rounds fresh now db = Inr db'"
  shows "unique_verdicts db'"
proof (cases "List.find (\<lambda>v. verdict_key v = (org, p, src)) (t_verdicts db)")
  case None
  then have "(org, p, src) \<notin> verdict_key ` set (t_verdicts db)" by (auto simp: find_None_iff)
  with None show ?thesis using u fresh r by (auto simp: record_verdict_eq [OF u] unique_verdicts_def)
next
  case (Some v)
  let ?f = "\<lambda>x. x\<lparr>v_result := res, v_rounds := rounds, v_recorded_at := now\<rparr>"
  have "v \<in> set (t_verdicts db)" using find_SomeD [OF Some] by simp
  then have "distinct (map verdict_key (upd_row v_id (v_id v) ?f (t_verdicts db)))"
    using u distinct_upd_row [of v_id "t_verdicts db" verdict_key v ?f] by (simp add: unique_verdicts_def)
  moreover have "map v_id (upd_row v_id (v_id v) ?f (t_verdicts db)) = map v_id (t_verdicts db)"
    by (rule upd_row_map_key) simp
  moreover have "t_verdicts db' = upd_row v_id (v_id v) ?f (t_verdicts db)"
    using r Some by (auto simp: record_verdict_eq [OF u])
  ultimately show ?thesis using u by (simp add: unique_verdicts_def)
qed

lemma record_verdict_rows:
  assumes u: "unique_verdicts db" and r: "record_verdict org p src res rounds fresh now db = Inr db'"
  shows "\<exists>i. filter (\<lambda>v. verdict_key v = (org, p, src)) (t_verdicts db') = [verdict_row i org p src res rounds now]
     \<and> filter (\<lambda>v. verdict_key v \<noteq> (org, p, src)) (t_verdicts db')
       = filter (\<lambda>v. verdict_key v \<noteq> (org, p, src)) (t_verdicts db)"
proof (cases "List.find (\<lambda>v. verdict_key v = (org, p, src)) (t_verdicts db)")
  case None
  then have "filter (\<lambda>v. verdict_key v = (org, p, src)) (t_verdicts db) = []"
    by (auto simp: find_None_iff filter_empty_conv)
  moreover have "t_verdicts db' = t_verdicts db @ [verdict_row fresh org p src res rounds now]"
    using None r by (auto simp: record_verdict_eq [OF u])
  ultimately show ?thesis by (intro exI [of _ fresh]) simp
next
  case (Some v)
  let ?f = "\<lambda>x. x\<lparr>v_result := res, v_rounds := rounds, v_recorded_at := now\<rparr>"
  have v: "v \<in> set (t_verdicts db)" "verdict_key v = (org, p, src)" using find_SomeD [OF Some] by auto
  have t: "t_verdicts db' = upd_row v_id (v_id v) ?f (t_verdicts db)"
    using r Some by (auto simp: record_verdict_eq [OF u])
  have k: "(v_id x = v_id v) = (verdict_key x = (org, p, src))" if "x \<in> set (t_verdicts db)" for x
    using u v that by (metis (mono_tags, lifting) distinct_map inj_on_def unique_verdicts_def)
  have "filter (\<lambda>v. verdict_key v = (org, p, src)) (t_verdicts db')
      = map ?f (filter (\<lambda>v. verdict_key v = (org, p, src)) (t_verdicts db))"
    unfolding t upd_row_def filter_map comp_def using k by (intro map_cong filter_cong) auto
  also have "\<dots> = [?f v]" using u Some by (simp add: unique_verdicts_def filter_key_le1)
  finally have a: "filter (\<lambda>v. verdict_key v = (org, p, src)) (t_verdicts db') = [?f v]" .
  have "filter (\<lambda>v. verdict_key v \<noteq> (org, p, src)) (t_verdicts db')
      = map (\<lambda>x. x) (filter (\<lambda>v. verdict_key v \<noteq> (org, p, src)) (t_verdicts db))"
    unfolding t upd_row_def filter_map comp_def using k by (intro map_cong filter_cong) auto
  then show ?thesis using a verdict_row_eqI [OF v(2)] by (intro exI [of _ "v_id v"]) simp
qed

text \<open>
  Recording a verdict is an upsert. Where verdicts are unique per organisation, participation and
  source, the call ends normally; afterwards exactly one verdict stands for the triple and carries
  the recorded result, rounds and time, no other verdict has changed, and uniqueness is kept.
\<close>

lemma verdict_upsert:
  assumes "unique_verdicts db" and "fresh \<notin> v_id ` set (t_verdicts db)"
  shows "\<exists>db' i. record_verdict org p src res rounds fresh now db = Inr db' \<and> unique_verdicts db'
     \<and> filter (\<lambda>v. v_source v = src) (get_verdicts_by_participation db' org p)
       = [\<lparr>v_id = i, v_org = org, v_participation = p, v_source = src, v_result = res, v_rounds = rounds,
           v_recorded_at = now\<rparr>]
     \<and> filter (\<lambda>v. verdict_key v \<noteq> (org, p, src)) (t_verdicts db')
       = filter (\<lambda>v. verdict_key v \<noteq> (org, p, src)) (t_verdicts db)"
proof -
  obtain db' where r: "record_verdict org p src res rounds fresh now db = Inr db'"
    using record_verdict_eq [OF assms(1)] by blast
  have "filter (\<lambda>v. v_source v = src) (get_verdicts_by_participation db' org p)
      = filter (\<lambda>v. verdict_key v = (org, p, src)) (t_verdicts db')"
    by (auto simp: get_verdicts_by_participation_def verdict_key_def intro!: filter_cong)
  then show ?thesis
    using r record_verdict_rows [OF assms(1) r] record_verdict_unique [OF assms r] unfolding verdict_row_def by auto
qed

definition sample_verdict_db :: gate_db where
  "sample_verdict_db = empty_db\<lparr>t_verdicts := [
     \<lparr>v_id = ''v1'', v_org = ''o1'', v_participation = ''p1'', v_source = ''ci'', v_result = Some ''fail'',
      v_rounds = None, v_recorded_at = 10\<rparr>]\<rparr>"

lemma verdict_upsert_witness:
  "\<exists>db' i. record_verdict ''o1'' ''p1'' ''ci'' (Some ''pass'') None ''v2'' 20 sample_verdict_db = Inr db' \<and> unique_verdicts db'
     \<and> filter (\<lambda>v. v_source v = ''ci'') (get_verdicts_by_participation db' ''o1'' ''p1'')
       = [\<lparr>v_id = i, v_org = ''o1'', v_participation = ''p1'', v_source = ''ci'', v_result = Some ''pass'', v_rounds = None,
           v_recorded_at = 20\<rparr>]
     \<and> filter (\<lambda>v. verdict_key v \<noteq> (''o1'', ''p1'', ''ci'')) (t_verdicts db')
       = filter (\<lambda>v. verdict_key v \<noteq> (''o1'', ''p1'', ''ci'')) (t_verdicts sample_verdict_db)"
proof (rule verdict_upsert)
  show "unique_verdicts sample_verdict_db" by code_simp
  show "''v2'' \<notin> v_id ` set (t_verdicts sample_verdict_db)" by code_simp
qed

section \<open>Reading the check runs\<close>

text \<open>
  The roll-up of a commit's checks does not depend on the gate's own check run: adding or removing
  check runs of that name anywhere in GitHub's answer gives the same result, so the gate's pending
  check cannot keep itself from passing. A success means that there is another check run, that
  all of them are completed and that none has a failing conclusion.
\<close>

lemma rollup_ignores_own_check:
  "fetch_status_check_rollup repo sha token (Some (code, JObj [(''check_runs'', JList runs)]))
     = fetch_status_check_rollup repo sha token (Some (code, JObj [(''check_runs'',
         JList (filter (\<lambda>r. jget ''name'' r \<noteq> JStr GATE_CHECK_NAME) runs))]))
   \<and> (fst (fetch_status_check_rollup repo sha token (Some (code, JObj [(''check_runs'', JList runs)]))) = Some ''success''
        \<longleftrightarrow> token \<noteq> [] \<and> repo \<noteq> [] \<and> CHR ''/'' \<in> set repo \<and> sha \<noteq> [] \<and> code = 200
          \<and> (\<exists>r \<in> set runs. is_obj r \<and> jget ''name'' r \<noteq> JStr GATE_CHECK_NAME)
          \<and> (\<forall>r \<in> set runs. is_obj r \<and> jget ''name'' r \<noteq> JStr GATE_CHECK_NAME \<longrightarrow>
                jget ''status'' r = JStr ''completed'' \<and> (\<forall>c \<in> set FAILURE_CONCLUSIONS. jget ''conclusion'' r \<noteq> JStr c)))"
proof -
  let ?R = "filter (\<lambda>r. is_obj r \<and> jget ''name'' r \<noteq> JStr GATE_CHECK_NAME) runs"
  have g: "jget ''check_runs'' (JObj [(''check_runs'', JList xs)]) = JList xs" for xs by (simp add: jget_def)
  have f: "filter (\<lambda>r. is_obj r \<and> jget ''name'' r \<noteq> JStr GATE_CHECK_NAME)
      (filter (\<lambda>r. jget ''name'' r \<noteq> JStr GATE_CHECK_NAME) runs) = ?R" by (induction runs) auto
  have "fetch_status_check_rollup repo sha token (Some (code, JObj [(''check_runs'', JList runs)]))
      = fetch_status_check_rollup repo sha token (Some (code, JObj [(''check_runs'',
          JList (filter (\<lambda>r. jget ''name'' r \<noteq> JStr GATE_CHECK_NAME) runs))]))"
    unfolding fetch_status_check_rollup_def by (simp only: option.case prod.case g json.case Let_def f)
  moreover have "fst (fetch_status_check_rollup repo sha token (Some (code, JObj [(''check_runs'', JList runs)]))) = Some ''success''
      \<longleftrightarrow> token \<noteq> [] \<and> repo \<noteq> [] \<and> CHR ''/'' \<in> set repo \<and> sha \<noteq> [] \<and> code = 200
        \<and> ?R \<noteq> [] \<and> \<not> list_ex (\<lambda>r. jget ''status'' r \<noteq> JStr ''completed'') ?R
        \<and> \<not> list_ex (\<lambda>r. jget ''conclusion'' r \<in> JStr ` set FAILURE_CONCLUSIONS) ?R"
    by (simp add: fetch_status_check_rollup_def g Let_def)
  ultimately show ?thesis by (auto simp: list_ex_iff filter_empty_conv)
qed

definition sample_runs :: "json list" where
  "sample_runs = [JObj [(''name'', JStr ''tests''), (''status'', JStr ''completed''), (''conclusion'', JStr ''success'')],
                  JObj [(''name'', JStr GATE_CHECK_NAME), (''status'', JStr ''in_progress''), (''conclusion'', JNull)]]"

lemma rollup_ignores_own_check_witness:
  "fst (fetch_status_check_rollup ''o/r'' ''abc'' ''t'' (Some (200, JObj [(''check_runs'', JList sample_runs)]))) = Some ''success''"
proof -
  have "\<exists>r \<in> set sample_runs. is_obj r \<and> jget ''name'' r \<noteq> JStr GATE_CHECK_NAME" by code_simp
  moreover have "\<forall>r \<in> set sample_runs. is_obj r \<and> jget ''name'' r \<noteq> JStr GATE_CHECK_NAME \<longrightarrow>
      jget ''status'' r = JStr ''completed'' \<and> (\<forall>c \<in> set FAILURE_CONCLUSIONS. jget ''conclusion'' r \<noteq> JStr c)" by code_simp
  ultimately show ?thesis
    using rollup_ignores_own_check [of "''o/r''" "''abc''" "''t''" 200 sample_runs, THEN conjunct2] by simp
qed

text \<open>What one page contributes to the list of changed files.\<close>

definition page_files :: "json \<Rightarrow> string list" where
  "page_files batch = (case batch of JList items \<Rightarrow> List.map_filter (\<lambda>f. case jget ''filename'' f of
      JStr n \<Rightarrow> if n \<noteq> [] then Some n else None | _ \<Rightarrow> None) items | _ \<Rightarrow> [])"

definition is_page :: "http_answer \<Rightarrow> (json list \<Rightarrow> bool) \<Rightarrow> bool" where
  "is_page a P \<longleftrightarrow> (\<exists>items. a = Some (200, JList items) \<and> P items)"

lemma fetch_pages_complete:
  assumes "fetch_pages k page answer files = Some fs"
  shows "\<exists>n < k. fs = files @ concat (map (\<lambda>i. page_files (snd (the (answer i)))) [page..<page + n + 1])
     \<and> (\<forall>i \<in> {page..<page + n}. is_page (answer i) (\<lambda>items. length items \<ge> PR_FILES_PAGE_SIZE))
     \<and> is_page (answer (page + n)) (\<lambda>items. length items < PR_FILES_PAGE_SIZE)"
  using assms
proof (induction k arbitrary: page files)
  case (Suc k)
  then obtain items where items: "answer page = Some (200, JList items)"
    by (auto split: option.splits if_splits json.splits prod.splits)
  define new where "new = page_files (JList items)"
  show ?case
  proof (cases "length items < PR_FILES_PAGE_SIZE")
    case True
    then have "fs = files @ new" using Suc.prems items by (simp add: new_def page_files_def)
    then show ?thesis using True items by (intro exI [of _ 0]) (auto simp: is_page_def new_def)
  next
    case False
    then have "fetch_pages k (page + 1) answer (files @ new) = Some fs"
      using Suc.prems items by (simp add: new_def page_files_def)
    from Suc.IH [OF this] obtain n where n: "n < k"
      "fs = (files @ new) @ concat (map (\<lambda>i. page_files (snd (the (answer i)))) [page + 1..<page + 1 + n + 1])"
      "\<forall>i \<in> {page + 1..<page + 1 + n}. is_page (answer i) (\<lambda>items. length items \<ge> PR_FILES_PAGE_SIZE)"
      "is_page (answer (page + 1 + n)) (\<lambda>items. length items < PR_FILES_PAGE_SIZE)" by auto
    have "is_page (answer i) (\<lambda>items. length items \<ge> PR_FILES_PAGE_SIZE)" if "i \<in> {page..<page + Suc n}" for i
      using that n(3) items False by (cases "i = page") (auto simp: is_page_def)
    moreover have "[page..<page + Suc n + 1] = page # [page + 1..<page + 1 + n + 1]"
      by (simp add: upt_conv_Cons)
    ultimately show ?thesis using n items by (intro exI [of _ "Suc n"]) (auto simp: new_def)
  qed
qed simp

text \<open>
  The list of a pull request's changed files is complete or absent, never partial: when it is there,
  it is the concatenation of at most three pages that GitHub answered with success, all of them full
  but the last, which is short.
\<close>

lemma changed_files_never_partial:
  assumes "fetch_pr_changed_files repo pr token answer = Some fs"
  shows "\<exists>n < 3. fs = concat (map (\<lambda>i. page_files (snd (the (answer i)))) [1..<n + 2])
     \<and> (\<forall>i \<in> {1..n}. is_page (answer i) (\<lambda>items. length items \<ge> PR_FILES_PAGE_SIZE))
     \<and> is_page (answer (n + 1)) (\<lambda>items. length items < PR_FILES_PAGE_SIZE)"
proof -
  have "fetch_pages PR_FILES_MAX_PAGES 1 answer [] = Some fs"
    using assms by (auto simp: fetch_pr_changed_files_def split: if_splits)
  from fetch_pages_complete [OF this] show ?thesis
    by (auto simp: PR_FILES_MAX_PAGES_def atLeastLessThanSuc_atLeastAtMost)
qed

definition sample_pages :: "nat \<Rightarrow> http_answer" where
  "sample_pages i = Some (200, if i = 1 then JList [JObj [(''filename'', JStr ''a.py'')]] else JList [])"

lemma changed_files_never_partial_witness:
  "\<exists>n < 3. [''a.py''] = concat (map (\<lambda>i. page_files (snd (the (sample_pages i)))) [1..<n + 2])
     \<and> (\<forall>i \<in> {1..n}. is_page (sample_pages i) (\<lambda>items. length items \<ge> PR_FILES_PAGE_SIZE))
     \<and> is_page (sample_pages (n + 1)) (\<lambda>items. length items < PR_FILES_PAGE_SIZE)"
proof (rule changed_files_never_partial)
  show "fetch_pr_changed_files ''acme/repo'' 7 ''t'' sample_pages = Some [''a.py'']" by code_simp
qed

section \<open>Participations\<close>

definition participation_key :: "participation \<Rightarrow> uuid \<times> uuid \<times> uuid \<times> uuid" where
  "participation_key p = (pa_org p, pa_story p, pa_member p, pa_role p)"

definition find_participation :: "uuid \<times> uuid \<times> uuid \<times> uuid \<Rightarrow> gate_db \<Rightarrow> error + (participation option \<times> gate_db)" where
  "find_participation k db = map_sum id (\<lambda>r. (r, db))
     (scalar_one_or_none (filter (\<lambda>p. participation_key p = k) (t_participations db)))"

definition add_participation :: "participation \<Rightarrow> gate_db \<Rightarrow> participation \<times> gate_db" where
  "add_participation p db = (p, db\<lparr>t_participations := t_participations db @ [p]\<rparr>)"

definition unique_participations :: "gate_db \<Rightarrow> bool" where
  "unique_participations db \<longleftrightarrow> distinct (map participation_key (t_participations db))"

lemma find_participation_eq:
  "unique_participations db \<Longrightarrow> find_participation k db
     = Inr (List.find (\<lambda>p. participation_key p = k) (t_participations db), db)"
  by (simp add: find_participation_def unique_participations_def filter_key_le1 split: option.split)

interpretation participations: find_or_add unique_participations find_participation add_participation
  "\<lambda>_ _. True" participation_key
proof
  show "unique_participations s \<Longrightarrow> \<exists>r s'. find_participation k s = Inr (r, s') \<and> unique_participations s'" for s k
    by (auto simp: find_participation_eq)
  show "unique_participations s \<Longrightarrow> find_participation k s = Inr (Some r, s') \<Longrightarrow>
      find_participation k s' = Inr (Some r, s')" for s k r s'
    by (auto simp: find_participation_eq)
next
  fix s s' s'' a r
  assume u: "unique_participations s" and n: "find_participation (participation_key a) s = Inr (None, s')"
    and a: "add_participation a s' = (r, s'')"
  have none: "List.find (\<lambda>p. participation_key p = participation_key a) (t_participations s) = None" and "s' = s"
    using n by (auto simp: find_participation_eq [OF u])
  moreover from none have "participation_key a \<notin> participation_key ` set (t_participations s)"
    by (auto simp: find_None_iff)
  ultimately have "unique_participations s''" using u a by (auto simp: add_participation_def unique_participations_def)
  moreover have "List.find (\<lambda>p. participation_key p = participation_key a) (t_participations s'') = Some r"
    using none a \<open>s' = s\<close> by (auto simp: add_participation_def find_append)
  ultimately show "unique_participations s'' \<and> find_participation (participation_key a) s'' = Inr (Some r, s'')"
    by (simp add: find_participation_eq)
qed

lemma ensure_eq:
  assumes "first_row (filter (\<lambda>r. pr_org r = org \<and> pr_key r = rk) (t_roles db)) = Some role"
  shows "ensure_review_participation org st m rk fresh now db =
    (case find_participation (org, st, m, pr_id role) db of
       Inl e \<Rightarrow> Inl e
     | Inr (Some p, _) \<Rightarrow> Inr (Some p, db)
     | Inr (None, _) \<Rightarrow> Inr (map_prod Some id (add_participation \<lparr>pa_id = fresh, pa_org = org, pa_story = st,
          pa_member = m, pa_role = pr_id role, pa_created_at = now\<rparr> db)))"
proof -
  have f: "filter (\<lambda>p. pa_org p = org \<and> pa_story p = st \<and> pa_member p = m \<and> pa_role p = pr_id role) (t_participations db)
      = filter (\<lambda>p. participation_key p = (org, st, m, pr_id role)) (t_participations db)"
    by (rule filter_cong) (auto simp: participation_key_def)
  show ?thesis
    unfolding ensure_review_participation_def assms option.case Let_def f find_participation_def
    by (cases "filter (\<lambda>p. participation_key p = (org, st, m, pr_id role)) (t_participations db)"
        rule: scalar_one_or_none.cases) (auto simp: add_participation_def first_row_def)
qed

text \<open>
  Ensuring a reviewer's participation is idempotent: where participations are unique and the
  organisation has the role, the call answers a participation of that member in that story and role,
  and a second call answers the same one and changes nothing.
\<close>

lemma review_participation_idempotent:
  assumes "unique_participations db"
    and "first_row (filter (\<lambda>r. pr_org r = org \<and> pr_key r = rk) (t_roles db)) = Some role"
  shows "\<exists>p db'. ensure_review_participation org st m rk fresh now db = Inr (Some p, db')
     \<and> participation_key p = (org, st, m, pr_id role) \<and> unique_participations db'
     \<and> (\<forall>fresh' now'. ensure_review_participation org st m rk fresh' now' db' = Inr (Some p, db'))"
proof -
  let ?a = "\<lparr>pa_id = fresh, pa_org = org, pa_story = st, pa_member = m, pa_role = pr_id role, pa_created_at = now\<rparr>"
  have k: "participation_key ?a = (org, st, m, pr_id role)" by (simp add: participation_key_def)
  obtain p db' where p: "unique_participations db'" "find_participation (participation_key ?a) db' = Inr (Some p, db')"
    "find_participation (participation_key ?a) db = Inr (Some p, db')
      \<or> (\<exists>s0. find_participation (participation_key ?a) db = Inr (None, s0) \<and> add_participation ?a s0 = (p, db'))"
    using participations.found_or_added [OF assms(1), of ?a] by metis
  then have "t_roles db' = t_roles db"
    by (auto simp: find_participation_eq [OF assms(1)] add_participation_def)
  then have "\<forall>fresh' now'. ensure_review_participation org st m rk fresh' now' db' = Inr (Some p, db')"
    using ensure_eq [of org rk db' role] assms(2) p(2) k by simp
  moreover have "ensure_review_participation org st m rk fresh now db = Inr (Some p, db')"
    using ensure_eq [OF assms(2)] p(3) k by (auto simp: find_participation_eq [OF assms(1)])
  moreover have "participation_key p = (org, st, m, pr_id role)"
    using p(2) k find_SomeD [of "\<lambda>p. participation_key p = (org, st, m, pr_id role)"]
    by (auto simp: find_participation_eq [OF p(1)])
  ultimately show ?thesis using p(1) by blast
qed

definition sample_role :: participation_role where
  "sample_role = \<lparr>pr_id = ''r1'', pr_org = ''o1'', pr_key = ''qa'', pr_label = ''QA'', pr_is_default = True, pr_created_at = 1\<rparr>"

lemma review_participation_idempotent_witness:
  "\<exists>p db'. ensure_review_participation ''o1'' ''s1'' ''m1'' ''qa'' ''p9'' 50 (empty_db\<lparr>t_roles := [sample_role]\<rparr>) = Inr (Some p, db')
     \<and> participation_key p = (''o1'', ''s1'', ''m1'', pr_id sample_role) \<and> unique_participations db'
     \<and> (\<forall>fresh' now'. ensure_review_participation ''o1'' ''s1'' ''m1'' ''qa'' fresh' now' db' = Inr (Some p, db'))"
proof (rule review_participation_idempotent)
  show "unique_participations (empty_db\<lparr>t_roles := [sample_role]\<rparr>)" by code_simp
  show "first_row (filter (\<lambda>r. pr_org r = ''o1'' \<and> pr_key r = ''qa'') (t_roles (empty_db\<lparr>t_roles := [sample_role]\<rparr>))) = Some sample_role"
    by code_simp
qed

end
