(* ===== verification/Trust.thy ===== *)
theory Trust
  imports Verdicts
begin

text \<open>
  Trust scores (\<^verbatim>\<open>services/trust_score.py\<close>): per role of a member, how often the hypotheses behind the
  member's work turned out right, with the counts that the merge gate reads, and the snapshot taken
  at most once a day. A score is a record; a rate is rounded to four digits as Python's \<^verbatim>\<open>round\<close> does.
\<close>

definition OUTCOME_SOURCES :: "string list" where
  "OUTCOME_SOURCES = [''hypothesis_outcome_bet'', ''hypothesis_outcome_execution'']"

definition DAY :: int where
  \<comment> \<open>microseconds of a day\<close>
  "DAY = 24 * 60 * 60 * 1000000"

definition SNAPSHOT_DEDUP :: int where
  "SNAPSHOT_DEDUP = 24 * 60 * 60 * 1000000"

definition round4 :: "real \<Rightarrow> real" where
  \<comment> \<open>to the nearest multiple of 0.0001, a tie to the even digit\<close>
  "round4 x = (let y = x * 10000; f = \<lfloor>y\<rfloor>; d = y - of_int f
     in of_int (if d < 1/2 then f else if d > 1/2 then f + 1 else if even f then f else f + 1) / 10000)"

definition is_clean_pass :: "string option \<Rightarrow> int option \<Rightarrow> bool" where
  "is_clean_pass result rounds \<longleftrightarrow> result = Some ''pass'' \<and> (rounds = None \<or> rounds = Some 0)"

record bucket =
  b_label :: string
  b_clean :: nat
  b_total :: nat
  b_clean_sp :: int
  b_total_sp :: int
  b_hit :: nat
  b_resolved :: nat
  b_pending :: nat

definition empty_bucket :: "string \<Rightarrow> bucket" where
  "empty_bucket label = \<lparr>b_label = label, b_clean = 0, b_total = 0, b_clean_sp = 0, b_total_sp = 0,
     b_hit = 0, b_resolved = 0, b_pending = 0\<rparr>"

record p_meta =
  pm_story_points :: int
  pm_role_key :: string
  pm_role_label :: string

definition participation_rows :: "gate_db \<Rightarrow> uuid \<Rightarrow> uuid \<Rightarrow> string option
    \<Rightarrow> (participation \<times> story \<times> participation_role) list" where
  "participation_rows db org member role_key =
     [(p, s, r). p \<leftarrow> t_participations db, pa_org p = org \<and> pa_member p = member,
                 s \<leftarrow> t_stories db, st_id s = pa_story p \<and> \<not> st_excluded s \<and> st_deleted_at s = None,
                 r \<leftarrow> t_roles db, pr_id r = pa_role p \<and> (case role_key of None \<Rightarrow> True | Some k \<Rightarrow> pr_key r = k)]"

definition p_map_of :: "(participation \<times> story \<times> participation_role) list \<Rightarrow> (uuid \<times> p_meta) list" where
  "p_map_of rows = foldl (\<lambda>m (p, s, r). AList.update (pa_id p)
      \<lparr>pm_story_points = (case st_points s of None \<Rightarrow> 1 | Some n \<Rightarrow> if n = 0 then 1 else n),
       pm_role_key = pr_key r, pm_role_label = pr_label r\<rparr> m) [] rows"

definition role_buckets_of :: "(uuid \<times> p_meta) list \<Rightarrow> (string \<times> bucket) list" where
  "role_buckets_of pm = foldl (\<lambda>bs (_, meta).
      if map_of bs (pm_role_key meta) = None
      then bs @ [(pm_role_key meta, empty_bucket (pm_role_label meta))] else bs) [] pm"

definition count_verdict :: "int \<Rightarrow> verdict \<Rightarrow> bucket \<Rightarrow> bucket" where
  "count_verdict sp v b =
     (let b1 = b\<lparr>b_total := b_total b + 1, b_total_sp := b_total_sp b + sp\<rparr>;
          b2 = (if is_clean_pass (v_result v) (v_rounds v)
                then b1\<lparr>b_clean := b_clean b1 + 1, b_clean_sp := b_clean_sp b1 + sp\<rparr> else b1)
      in if v_source v \<in> set OUTCOME_SOURCES
         then (if v_result v \<in> {Some ''pass'', Some ''fail''}
               then (b2\<lparr>b_resolved := b_resolved b2 + 1\<rparr>)\<lparr>b_hit := b_hit b2 + (if v_result v = Some ''pass'' then 1 else 0)\<rparr>
               else b2\<lparr>b_pending := b_pending b2 + 1\<rparr>)
         else b2)"

definition add_verdict :: "bool \<Rightarrow> (uuid \<times> p_meta) list \<Rightarrow> (string \<times> bucket) list \<Rightarrow> verdict \<Rightarrow> (string \<times> bucket) list" where
  "add_verdict include_legacy pm bs v =
     (case map_of pm (v_participation v) of
        None \<Rightarrow> bs
      | Some meta \<Rightarrow>
          (if v_source v \<notin> set OUTCOME_SOURCES \<and> \<not> include_legacy then bs
           else (case map_of bs (pm_role_key meta) of
                   None \<Rightarrow> bs
                 | Some b \<Rightarrow> AList.update (pm_role_key meta) (count_verdict (pm_story_points meta) v b) bs)))"

record score =
  sc_role_key :: string
  sc_role_label :: string
  sc_clean :: nat
  sc_total :: nat
  sc_clean_rate :: "real option"
  sc_total_sp :: int
  sc_clean_sp :: int
  sc_weighted :: "real option"
  sc_hit :: nat
  sc_resolved :: nat
  sc_pending :: nat
  sc_hit_rate :: "real option"

definition rate :: "real \<Rightarrow> real \<Rightarrow> real option" where
  "rate a n = (if n > 0 then Some (round4 (a / n)) else None)"

definition score_of :: "string \<times> bucket \<Rightarrow> score" where
  "score_of = (\<lambda>(rk, b). \<lparr>sc_role_key = rk, sc_role_label = b_label b, sc_clean = b_clean b, sc_total = b_total b,
     sc_clean_rate = rate (of_nat (b_clean b)) (of_nat (b_total b)),
     sc_total_sp = b_total_sp b, sc_clean_sp = b_clean_sp b,
     sc_weighted = rate (of_int (b_clean_sp b)) (of_int (b_total_sp b)),
     sc_hit = b_hit b, sc_resolved = b_resolved b, sc_pending = b_pending b,
     sc_hit_rate = rate (of_nat (b_hit b)) (of_nat (b_resolved b))\<rparr>)"

record trust_result =
  tr_member :: uuid
  tr_scores :: "score list"
  tr_window_days :: int
  tr_primary_source :: string
  tr_hit_rate :: "real option"
  tr_resolved :: nat
  tr_hit :: nat
  tr_pending :: nat
  tr_breakdown :: "(string \<times> nat) list"

definition window_verdicts :: "gate_db \<Rightarrow> uuid \<Rightarrow> (uuid \<times> p_meta) list \<Rightarrow> int \<Rightarrow> timestamp \<Rightarrow> verdict list" where
  "window_verdicts db org pm window_days now =
     filter (\<lambda>v. v_org v = org \<and> v_participation v \<in> fst ` set pm \<and> v_recorded_at v \<ge> now - window_days * DAY)
       (t_verdicts db)"

definition source_breakdown :: "verdict list \<Rightarrow> (string \<times> nat) list" where
  "source_breakdown vs = foldl (\<lambda>m v. AList.update (v_source v)
      ((case map_of m (v_source v) of None \<Rightarrow> 0 | Some n \<Rightarrow> n) + 1) m) [] vs"

definition compute_member_trust_scores :: "gate_db \<Rightarrow> uuid \<Rightarrow> uuid \<Rightarrow> string option \<Rightarrow> int \<Rightarrow> bool \<Rightarrow> timestamp
    \<Rightarrow> trust_result" where
  "compute_member_trust_scores db org member role_key window_days include_legacy now =
     (let rows = participation_rows db org member role_key
      in if rows = []
         then \<lparr>tr_member = member, tr_scores = [], tr_window_days = window_days,
               tr_primary_source = ''hypothesis_outcome'', tr_hit_rate = None, tr_resolved = 0, tr_hit = 0,
               tr_pending = 0, tr_breakdown = []\<rparr>
         else
           (let pm = p_map_of rows;
                vs = window_verdicts db org pm window_days now;
                bs = foldl (add_verdict include_legacy pm) (role_buckets_of pm) vs;
                hit = sum_list (map (b_hit \<circ> snd) bs);
                resolved = sum_list (map (b_resolved \<circ> snd) bs);
                pending = sum_list (map (b_pending \<circ> snd) bs)
            in \<lparr>tr_member = member, tr_scores = map score_of bs, tr_window_days = window_days,
                tr_primary_source = (if include_legacy then ''legacy_all'' else ''hypothesis_outcome''),
                tr_hit_rate = rate (of_nat hit) (of_nat resolved), tr_resolved = resolved, tr_hit = hit,
                tr_pending = pending, tr_breakdown = source_breakdown vs\<rparr>))"

record trust_snapshot =
  ts_org :: uuid
  ts_member :: uuid
  ts_role_key :: string
  ts_window_days :: int
  ts_metrics :: score
  ts_computed_at :: timestamp

definition snapshot_score :: "uuid \<Rightarrow> uuid \<Rightarrow> int \<Rightarrow> timestamp \<Rightarrow> trust_snapshot list \<Rightarrow> score \<Rightarrow> trust_snapshot list" where
  "snapshot_score org member window_days now snaps sc =
     (if list_ex (\<lambda>t. ts_org t = org \<and> ts_member t = member \<and> ts_role_key t = sc_role_key sc
            \<and> ts_computed_at t \<ge> now - SNAPSHOT_DEDUP) snaps
      then snaps
      else snaps @ [\<lparr>ts_org = org, ts_member = member, ts_role_key = sc_role_key sc,
              ts_window_days = window_days, ts_metrics = sc, ts_computed_at = now\<rparr>])"

definition compute_and_snapshot :: "gate_db \<Rightarrow> trust_snapshot list \<Rightarrow> uuid \<Rightarrow> uuid \<Rightarrow> string option \<Rightarrow> int \<Rightarrow> bool \<Rightarrow> timestamp
    \<Rightarrow> trust_result \<times> trust_snapshot list" where
  "compute_and_snapshot db snaps org member role_key window_days include_legacy now =
     (let result = compute_member_trust_scores db org member role_key window_days include_legacy now
      in (result, foldl (snapshot_score org member window_days now) snaps (tr_scores result)))"

section \<open>What the counters count\<close>

text \<open>The specification of a role's counters: the verdicts of the member's participations in the role.\<close>

definition role_verdicts :: "bool \<Rightarrow> (uuid \<times> p_meta) list \<Rightarrow> string \<Rightarrow> verdict list \<Rightarrow> verdict list" where
  "role_verdicts include_legacy pm rk vs = filter (\<lambda>v.
     (case map_of pm (v_participation v) of None \<Rightarrow> False | Some meta \<Rightarrow> pm_role_key meta = rk)
     \<and> (v_source v \<in> set OUTCOME_SOURCES \<or> include_legacy)) vs"

definition is_outcome :: "verdict \<Rightarrow> bool" where
  "is_outcome v \<longleftrightarrow> v_source v \<in> set OUTCOME_SOURCES"

definition counts :: "verdict list \<Rightarrow> bucket \<Rightarrow> bool" where
  "counts vs b \<longleftrightarrow> b_total b = length vs
     \<and> b_clean b = length (filter (\<lambda>v. is_clean_pass (v_result v) (v_rounds v)) vs)
     \<and> b_hit b = length (filter (\<lambda>v. is_outcome v \<and> v_result v = Some ''pass'') vs)
     \<and> b_resolved b = length (filter (\<lambda>v. is_outcome v \<and> v_result v \<in> {Some ''pass'', Some ''fail''}) vs)
     \<and> b_pending b = length (filter (\<lambda>v. is_outcome v \<and> v_result v \<notin> {Some ''pass'', Some ''fail''}) vs)"

lemma counts_empty: "counts [] (empty_bucket l)"
  by (simp add: counts_def empty_bucket_def)

lemma counts_step: "counts vs b \<Longrightarrow> counts (vs @ [v]) (count_verdict sp v b)"
  by (simp add: counts_def count_verdict_def Let_def is_outcome_def)

lemma role_buckets_map_of:
  "map_of (role_buckets_of pm) rk = Some b \<Longrightarrow> \<exists>l. b = empty_bucket l"
proof -
  have "map_of (foldl (\<lambda>bs (_, meta). if map_of bs (pm_role_key meta) = None
      then bs @ [(pm_role_key meta, empty_bucket (pm_role_label meta))] else bs) bs pm) rk = Some b \<Longrightarrow>
     (\<forall>k c. map_of bs k = Some c \<longrightarrow> (\<exists>l. c = empty_bucket l)) \<Longrightarrow> \<exists>l. b = empty_bucket l" for bs
  proof (induction pm arbitrary: bs)
    case (Cons x pm)
    obtain i meta where x: "x = (i, meta)" by fastforce
    let ?bs = "if map_of bs (pm_role_key meta) = None
      then bs @ [(pm_role_key meta, empty_bucket (pm_role_label meta))] else bs"
    have "\<forall>k c. map_of ?bs k = Some c \<longrightarrow> (\<exists>l. c = empty_bucket l)"
      using Cons.prems(2) by (auto simp: map_add_def split: option.splits if_splits)
    then show ?case using Cons.IH [of ?bs] Cons.prems(1) by (simp add: x)
  qed simp
  then show "map_of (role_buckets_of pm) rk = Some b \<Longrightarrow> \<exists>l. b = empty_bucket l"
    unfolding role_buckets_of_def by force
qed

lemma counts_fold:
  assumes "\<And>rk b. map_of bs rk = Some b \<Longrightarrow> counts (role_verdicts leg pm rk us) b"
    and "map_of (foldl (add_verdict leg pm) bs vs) rk = Some b"
  shows "counts (role_verdicts leg pm rk (us @ vs)) b"
  using assms
proof (induction vs arbitrary: bs us)
  case (Cons v vs)
  have step: "counts (role_verdicts leg pm k (us @ [v])) c" if m: "map_of (add_verdict leg pm bs v) k = Some c" for k c
  proof -
    have old: "\<And>c. map_of bs k = Some c \<Longrightarrow> counts (role_verdicts leg pm k us) c" using Cons.prems(1) .
    show ?thesis using m old
      by (auto simp: add_verdict_def role_verdicts_def counts_step split: option.splits if_splits)
  qed
  from Cons.IH [OF step, of "add_verdict leg pm bs v"] Cons.prems(2) show ?case by simp
qed simp

lemma update_keys_present: "map_of bs k = Some b \<Longrightarrow> map fst (AList.update k c bs) = map fst bs"
  by (induction bs) (auto split: if_splits)

lemma add_verdict_keys: "map fst (foldl (add_verdict leg pm) bs vs) = map fst bs"
proof (induction vs arbitrary: bs)
  case (Cons v vs)
  have "map fst (add_verdict leg pm bs v) = map fst bs"
    by (auto simp: add_verdict_def update_keys_present split: option.splits)
  with Cons show ?case by simp
qed simp

lemma role_buckets_distinct: "distinct (map fst (role_buckets_of pm))"
proof -
  have "distinct (map fst bs) \<Longrightarrow> distinct (map fst (foldl (\<lambda>bs (_, meta). if map_of bs (pm_role_key meta) = None
      then bs @ [(pm_role_key meta, empty_bucket (pm_role_label meta))] else bs) bs pm))" for bs
    by (induction pm arbitrary: bs) (auto simp: map_of_eq_None_iff split: prod.splits)
  then show ?thesis by (simp add: role_buckets_of_def)
qed

definition member_p_map :: "gate_db \<Rightarrow> uuid \<Rightarrow> uuid \<Rightarrow> string option \<Rightarrow> (uuid \<times> p_meta) list" where
  "member_p_map db org member role_key = p_map_of (participation_rows db org member role_key)"

definition final_buckets :: "gate_db \<Rightarrow> uuid \<Rightarrow> uuid \<Rightarrow> string option \<Rightarrow> int \<Rightarrow> bool \<Rightarrow> timestamp \<Rightarrow> (string \<times> bucket) list" where
  "final_buckets db org member role_key days leg now =
     (let pm = member_p_map db org member role_key
      in foldl (add_verdict leg pm) (role_buckets_of pm) (window_verdicts db org pm days now))"

lemma compute_scores:
  "tr_scores (compute_member_trust_scores db org member role_key days leg now)
     = map score_of (final_buckets db org member role_key days leg now)"
  by (simp add: compute_member_trust_scores_def final_buckets_def member_p_map_def Let_def
      p_map_of_def role_buckets_of_def window_verdicts_def)

lemma final_bucket_counts:
  assumes "(rk, b) \<in> set (final_buckets db org member role_key days leg now)"
  shows "counts (role_verdicts leg (member_p_map db org member role_key) rk
     (window_verdicts db org (member_p_map db org member role_key) days now)) b"
proof -
  let ?pm = "member_p_map db org member role_key"
  have "distinct (map fst (final_buckets db org member role_key days leg now))"
    by (simp add: final_buckets_def Let_def add_verdict_keys role_buckets_distinct)
  then have m: "map_of (foldl (add_verdict leg ?pm) (role_buckets_of ?pm) (window_verdicts db org ?pm days now)) rk = Some b"
    using assms by (simp add: final_buckets_def Let_def)
  have "counts (role_verdicts leg ?pm k []) c" if "map_of (role_buckets_of ?pm) k = Some c" for k c
    using role_buckets_map_of [OF that] counts_empty by (auto simp: role_verdicts_def)
  from counts_fold [OF this m] show ?thesis by simp
qed

lemma round4_bounds: "0 \<le> x \<Longrightarrow> x \<le> 1 \<Longrightarrow> 0 \<le> round4 x \<and> round4 x \<le> 1"
proof -
  assume x: "0 \<le> x" "x \<le> 1"
  define f where "f = \<lfloor>x * 10000\<rfloor>"
  have f0: "0 \<le> f" using x by (simp add: f_def)
  have fl: "of_int f \<le> x * 10000" by (simp add: f_def)
  have f1: "f \<le> 10000" using x fl by (simp add: f_def floor_le_iff)
  have "x * 10000 - of_int f = 0" if "f = 10000" using that fl x by simp
  then have "0 \<le> (if x * 10000 - of_int f < 1/2 then f else if x * 10000 - of_int f > 1/2 then f + 1
      else if even f then f else f + 1)"
    "(if x * 10000 - of_int f < 1/2 then f else if x * 10000 - of_int f > 1/2 then f + 1
      else if even f then f else f + 1) \<le> 10000"
    using f0 f1 by (auto simp: le_less)
  then show ?thesis unfolding round4_def Let_def f_def [symmetric] by simp
qed

section \<open>Properties\<close>

text \<open>
  A role's trust score counts exactly the member's outcome verdicts in the window: the hits are the
  passed ones, the resolved ones those passed or failed, the pending ones the rest; hits never
  exceed the resolved ones, the hit rate is missing exactly when nothing is resolved (a cold start is not
  a rate of zero), and a rate lies between zero and one.
\<close>

lemma trust_score_counts:
  assumes "sc \<in> set (tr_scores (compute_member_trust_scores db org member role_key days leg now))"
  defines "pm \<equiv> member_p_map db org member role_key"
  defines "vs \<equiv> filter is_outcome (role_verdicts leg pm (sc_role_key sc) (window_verdicts db org pm days now))"
  shows "sc_hit sc = length (filter (\<lambda>v. v_result v = Some ''pass'') vs)
     \<and> sc_resolved sc = length (filter (\<lambda>v. v_result v \<in> {Some ''pass'', Some ''fail''}) vs)
     \<and> sc_resolved sc + sc_pending sc = length vs
     \<and> sc_hit sc \<le> sc_resolved sc
     \<and> (sc_hit_rate sc = None \<longleftrightarrow> sc_resolved sc = 0)
     \<and> (\<forall>r. sc_hit_rate sc = Some r \<longrightarrow> 0 \<le> r \<and> r \<le> 1)"
proof -
  obtain rk b where b: "(rk, b) \<in> set (final_buckets db org member role_key days leg now)" "sc = score_of (rk, b)"
    using assms(1) by (auto simp: compute_scores)
  have c: "counts (role_verdicts leg pm rk (window_verdicts db org pm days now)) b"
    unfolding pm_def by (rule final_bucket_counts [OF b(1)])
  have rk: "sc_role_key sc = rk" by (simp add: b(2) score_of_def)
  have hit: "sc_hit sc = length (filter (\<lambda>v. v_result v = Some ''pass'') vs)"
    and res: "sc_resolved sc = length (filter (\<lambda>v. v_result v \<in> {Some ''pass'', Some ''fail''}) vs)"
    and pend: "sc_pending sc = length (filter (\<lambda>v. \<not> v_result v \<in> {Some ''pass'', Some ''fail''}) vs)"
    using c by (simp_all add: b(2) score_of_def counts_def vs_def rk [unfolded b(2)] conj_commute)
  have le: "sc_hit sc \<le> sc_resolved sc"
    unfolding hit res by (induction vs) auto
  have "sc_hit_rate sc = rate (of_nat (sc_hit sc)) (of_nat (sc_resolved sc))" by (simp add: b(2) score_of_def)
  then have "sc_hit_rate sc = None \<longleftrightarrow> sc_resolved sc = 0"
    "\<forall>r. sc_hit_rate sc = Some r \<longrightarrow> 0 \<le> r \<and> r \<le> 1"
    using le round4_bounds [of "real (sc_hit sc) / real (sc_resolved sc)"] by (auto simp: rate_def split: if_splits)
  moreover have "sc_resolved sc + sc_pending sc = length vs"
    unfolding res pend by (rule sum_length_filter_compl)
  ultimately show ?thesis using hit res le by blast
qed

definition sample_story :: "uuid \<Rightarrow> int option \<Rightarrow> story" where
  "sample_story i points = \<lparr>st_id = i, st_org = ''o1'', st_project = ''j1'', st_points = points, st_excluded = False,
     st_deleted_at = None, st_status = ''in-review'', st_priority = ''medium'', st_epic_id = None,
     st_success_hypothesis = None, st_metric_definition = None, st_measure_after = None, st_outcome_status = ''n_a'',
     st_outcome_result = None, st_sprint_id = None\<rparr>"

definition sample_trust_db :: gate_db where
  "sample_trust_db = empty_db\<lparr>
     t_roles := [\<lparr>pr_id = ''r1'', pr_org = ''o1'', pr_key = ''impl'', pr_label = ''Impl'', pr_is_default = True, pr_created_at = 1\<rparr>],
     t_stories := [sample_story ''s1'' (Some 3)],
     t_participations := [\<lparr>pa_id = ''p1'', pa_org = ''o1'', pa_story = ''s1'', pa_member = ''m1'', pa_role = ''r1'', pa_created_at = 5\<rparr>],
     t_verdicts := [verdict_row ''v1'' ''o1'' ''p1'' ''hypothesis_outcome_bet'' (Some ''pass'') None 100,
                    verdict_row ''v2'' ''o1'' ''p1'' ''ci'' (Some ''fail'') None 110]\<rparr>"

lemma sample_trust_hd:
  "hd (tr_scores (compute_member_trust_scores sample_trust_db ''o1'' ''m1'' None 90 False 200))
     \<in> set (tr_scores (compute_member_trust_scores sample_trust_db ''o1'' ''m1'' None 90 False 200))"
proof (rule hd_in_set)
  have "length (tr_scores (compute_member_trust_scores sample_trust_db ''o1'' ''m1'' None 90 False 200)) = 1" by code_simp
  then show "tr_scores (compute_member_trust_scores sample_trust_db ''o1'' ''m1'' None 90 False 200) \<noteq> []" by auto
qed

lemma trust_score_counts_witness:
  "let sc = hd (tr_scores (compute_member_trust_scores sample_trust_db ''o1'' ''m1'' None 90 False 200));
       pm = member_p_map sample_trust_db ''o1'' ''m1'' None;
       vs = filter is_outcome (role_verdicts False pm (sc_role_key sc) (window_verdicts sample_trust_db ''o1'' pm 90 200))
   in sc_hit sc = length (filter (\<lambda>v. v_result v = Some ''pass'') vs)
     \<and> sc_resolved sc = length (filter (\<lambda>v. v_result v \<in> {Some ''pass'', Some ''fail''}) vs)
     \<and> sc_resolved sc + sc_pending sc = length vs
     \<and> sc_hit sc \<le> sc_resolved sc
     \<and> (sc_hit_rate sc = None \<longleftrightarrow> sc_resolved sc = 0)
     \<and> (\<forall>r. sc_hit_rate sc = Some r \<longrightarrow> 0 \<le> r \<and> r \<le> 1)"
  unfolding Let_def by (rule trust_score_counts [OF sample_trust_hd])

lemma member_p_map_verdicts [simp]:
  "member_p_map (db\<lparr>t_verdicts := vs\<rparr>) org member role_key = member_p_map db org member role_key"
  by (simp add: member_p_map_def participation_rows_def cong: if_cong)

lemma add_verdict_skip: "\<not> is_outcome v \<Longrightarrow> add_verdict False pm bs v = bs"
  by (simp add: add_verdict_def is_outcome_def split: option.split)

lemma fold_outcomes_only:
  "foldl (add_verdict False pm) bs vs = foldl (add_verdict False pm) bs (filter is_outcome vs)"
  by (induction vs arbitrary: bs) (auto simp: add_verdict_skip)

text \<open>
  Only outcomes make trust. With the default sources the scores do not depend on CI, pull request,
  QA or design verdicts: taking all of them out of the database leaves every score as it is.
\<close>

lemma trust_from_outcomes_only:
  "tr_scores (compute_member_trust_scores db org member role_key days False now)
     = tr_scores (compute_member_trust_scores (db\<lparr>t_verdicts := filter is_outcome (t_verdicts db)\<rparr>)
         org member role_key days False now)"
proof -
  have "window_verdicts (db\<lparr>t_verdicts := filter is_outcome (t_verdicts db)\<rparr>) org pm days now
      = filter is_outcome (window_verdicts db org pm days now)" for pm
    by (simp add: window_verdicts_def conj_commute)
  then show ?thesis unfolding compute_scores
    by (simp add: final_buckets_def Let_def fold_outcomes_only [of _ _ "window_verdicts db _ _ _ _"])
qed

section \<open>Snapshots\<close>

definition has_recent :: "uuid \<Rightarrow> uuid \<Rightarrow> timestamp \<Rightarrow> trust_snapshot list \<Rightarrow> string \<Rightarrow> bool" where
  "has_recent org member now snaps rk \<longleftrightarrow> (\<exists>t \<in> set snaps. ts_org t = org \<and> ts_member t = member
     \<and> ts_role_key t = rk \<and> ts_computed_at t \<ge> now - SNAPSHOT_DEDUP)"

lemma snapshot_score_eq:
  "snapshot_score org member days now snaps sc =
     (if has_recent org member now snaps (sc_role_key sc) then snaps
      else snaps @ [\<lparr>ts_org = org, ts_member = member, ts_role_key = sc_role_key sc,
              ts_window_days = days, ts_metrics = sc, ts_computed_at = now\<rparr>])"
  by (simp add: snapshot_score_def has_recent_def list_ex_iff)

lemma has_recent_mono:
  "set snaps \<subseteq> set snaps' \<Longrightarrow> has_recent org member now snaps rk \<Longrightarrow> has_recent org member now snaps' rk"
  by (auto simp: has_recent_def)

lemma snapshot_fold_grows: "set snaps \<subseteq> set (foldl (snapshot_score org member days now) snaps scs)"
proof (induction scs arbitrary: snaps)
  case (Cons sc scs)
  have "set snaps \<subseteq> set (snapshot_score org member days now snaps sc)" by (auto simp: snapshot_score_def)
  with Cons show ?case by fastforce
qed simp

lemma snapshot_fold_recent:
  "sc \<in> set scs \<Longrightarrow> has_recent org member now (foldl (snapshot_score org member days now) snaps scs) (sc_role_key sc)"
proof (induction scs arbitrary: snaps)
  case (Cons x scs)
  have "has_recent org member now (snapshot_score org member days now snaps x) (sc_role_key x)"
    by (simp add: snapshot_score_eq) (simp add: has_recent_def SNAPSHOT_DEDUP_def)
  then show ?case
    using Cons snapshot_fold_grows [of "snapshot_score org member days now snaps x"] has_recent_mono by auto metis
qed simp

lemma snapshot_fold_none:
  "(\<And>sc. sc \<in> set scs \<Longrightarrow> has_recent org member now snaps (sc_role_key sc)) \<Longrightarrow>
     foldl (snapshot_score org member days now) snaps scs = snaps"
  by (induction scs) (auto simp: snapshot_score_eq)

lemma score_role_keys:
  "map sc_role_key (tr_scores (compute_member_trust_scores db org member role_key days leg now))
     = map fst (role_buckets_of (member_p_map db org member role_key))"
  by (simp add: compute_scores final_buckets_def Let_def add_verdict_keys comp_def score_of_def split_beta)

text \<open>
  A member's trust is recorded at most once a day per role: when none of the member's snapshots is
  recent and the trust has been computed and recorded, computing it again within the next twenty-four
  hours, whatever verdicts came in meanwhile, adds no snapshot.
\<close>

lemma snapshot_once_a_day:
  assumes "\<forall>t \<in> set snaps. ts_org t = org \<and> ts_member t = member \<longrightarrow> ts_computed_at t < now - SNAPSHOT_DEDUP"
    and "snd (compute_and_snapshot db snaps org member role_key days leg now) = snaps'"
    and "now' \<le> now + SNAPSHOT_DEDUP"
  shows "snd (compute_and_snapshot (db\<lparr>t_verdicts := vs\<rparr>) snaps' org member role_key days' leg' now') = snaps'
     \<and> map ts_role_key (drop (length snaps) snaps')
         = map fst (role_buckets_of (member_p_map db org member role_key))"
proof -
  let ?sc = "tr_scores (compute_member_trust_scores db org member role_key days leg now)"
  have s': "snaps' = foldl (snapshot_score org member days now) snaps ?sc"
    using assms(2) by (simp add: compute_and_snapshot_def Let_def)
  have fresh: "foldl (snapshot_score org member days now) (snaps @ map (\<lambda>sc. \<lparr>ts_org = org, ts_member = member,
        ts_role_key = sc_role_key sc, ts_window_days = days, ts_metrics = sc, ts_computed_at = now\<rparr>) ds) scs
      = snaps @ map (\<lambda>sc. \<lparr>ts_org = org, ts_member = member, ts_role_key = sc_role_key sc,
              ts_window_days = days, ts_metrics = sc, ts_computed_at = now\<rparr>) (ds @ scs)"
    if "distinct (map sc_role_key (ds @ scs))" for ds scs
    using that
  proof (induction scs arbitrary: ds)
    case (Cons x scs)
    have "\<not> has_recent org member now (snaps @ map (\<lambda>sc. \<lparr>ts_org = org, ts_member = member,
        ts_role_key = sc_role_key sc, ts_window_days = days, ts_metrics = sc, ts_computed_at = now\<rparr>) ds) (sc_role_key x)"
    proof -
      have "\<not> (ts_org t = org \<and> ts_member t = member \<and> ts_computed_at t \<ge> now - SNAPSHOT_DEDUP)"
        if "t \<in> set snaps" for t using assms(1) that by fastforce
      moreover have "sc_role_key sc \<noteq> sc_role_key x" if "sc \<in> set ds" for sc
        using Cons.prems that by auto (metis image_eqI)
      ultimately show ?thesis by (simp add: has_recent_def bex_Un)
    qed
    with Cons.IH [of "ds @ [x]"] Cons.prems show ?case by (simp add: snapshot_score_eq)
  qed simp
  have e: "snaps' = snaps @ map (\<lambda>sc. \<lparr>ts_org = org, ts_member = member, ts_role_key = sc_role_key sc,
              ts_window_days = days, ts_metrics = sc, ts_computed_at = now\<rparr>) ?sc"
    using fresh [of "[]" ?sc] by (simp add: s' score_role_keys role_buckets_distinct)
  have k: "map sc_role_key (tr_scores (compute_member_trust_scores (db\<lparr>t_verdicts := vs\<rparr>) org member role_key days' leg' now'))
      = map sc_role_key ?sc"
    by (simp add: score_role_keys)
  have "has_recent org member now' snaps' rk" if "rk \<in> set (map sc_role_key ?sc)" for rk
    using that assms(3) by (auto simp: has_recent_def e bex_Un)
  then have "snd (compute_and_snapshot (db\<lparr>t_verdicts := vs\<rparr>) snaps' org member role_key days' leg' now') = snaps'"
    unfolding compute_and_snapshot_def Let_def snd_conv using k
    by (intro snapshot_fold_none) (metis image_eqI list.set_map)
  moreover have "map ts_role_key (drop (length snaps) snaps') = map sc_role_key ?sc"
    by (simp add: e comp_def)
  ultimately show ?thesis by (simp add: score_role_keys)
qed

lemma snapshot_once_a_day_witness:
  "let snaps' = snd (compute_and_snapshot sample_trust_db [] ''o1'' ''m1'' None 90 False 200)
   in snd (compute_and_snapshot (sample_trust_db\<lparr>t_verdicts := []\<rparr>) snaps' ''o1'' ''m1'' None 90 False 300) = snaps'
     \<and> map ts_role_key (drop (length ([] :: trust_snapshot list)) snaps')
         = map fst (role_buckets_of (member_p_map sample_trust_db ''o1'' ''m1'' None))"
  unfolding Let_def
  by (rule snapshot_once_a_day [where now = 200 and days = 90 and leg = False]) (simp_all add: SNAPSHOT_DEDUP_def)

end
