(* ===== verification/Merge_Gate.thy ===== *)
theory Merge_Gate
  imports Trust Gate_Machine
begin

text \<open>
  The merge gate (\<^verbatim>\<open>services/merge_verdict_gate.py\<close>): policy, evidence and the record of a member's
  hypotheses are put together into one decision for a story's pull request, written on the gate row.
  What GitHub answers about a pull request is the parameter \<^verbatim>\<open>github\<close>; the delivery of the approval
  card is reported in the result, its service is not modelled. Reasons are the code's texts
  without the numbers interpolated into them.
\<close>

section \<open>Trust as a lower bound\<close>

definition DEFAULT_TRUST_THRESHOLD :: real where "DEFAULT_TRUST_THRESHOLD = 8 / 10"
definition MIN_OUTCOME_SAMPLE :: nat where "MIN_OUTCOME_SAMPLE = 3"
definition TRUST_BASIS :: string where "TRUST_BASIS = ''hypothesis_outcome''"
definition MERGE_GATE_TYPE :: string where "MERGE_GATE_TYPE = ''merge''"

definition wilson_z :: real where "wilson_z = 196 / 100"

definition wilson_lower_bound :: "nat \<Rightarrow> nat \<Rightarrow> real \<Rightarrow> real" where
  "wilson_lower_bound hits n z =
     (if n = 0 then 0
      else
        (let phat = real hits / real n;
             denom = 1 + z * z / real n;
             centre = phat + z * z / (2 * real n);
             margin = z * sqrt ((phat * (1 - phat) + z * z / (4 * real n)) / real n)
         in max 0 ((centre - margin) / denom)))"

text \<open>
  For evaluation on concrete inputs: the root of a rational that is the square of one.
\<close>

fun isqrt_between :: "nat \<Rightarrow> int \<Rightarrow> int \<Rightarrow> int \<Rightarrow> int" where
  "isqrt_between 0 n lo hi = lo"
| "isqrt_between (Suc k) n lo hi =
     (if hi - lo \<le> 1 then lo
      else (let m = (lo + hi) div 2
            in if m * m \<le> n then isqrt_between k n m hi else isqrt_between k n lo m))"

definition sqrt_guess :: "rat \<Rightarrow> rat" where
  "sqrt_guess q = (let (a, b) = quotient_of q
     in of_int (isqrt_between 64 a 0 (a + 1)) / of_int (isqrt_between 64 b 0 (b + 1)))"

lemma sqrt_code [code]:
  "sqrt (Ratreal q) = (let r = Ratreal (sqrt_guess q)
     in if 0 \<le> r \<and> r * r = Ratreal q then r else Code.abort (STR ''irrational root'') (\<lambda>_. sqrt (Ratreal q)))"
  by (auto simp: Let_def intro: real_sqrt_unique simp: power2_eq_square)

record outcome_stats =
  os_hit :: nat
  os_resolved :: nat
  os_pending :: nat
  os_hit_rate :: "real option"
  os_lower_bound :: real
  os_regret :: "real option"

definition no_outcome :: outcome_stats where
  "no_outcome = \<lparr>os_hit = 0, os_resolved = 0, os_pending = 0, os_hit_rate = None, os_lower_bound = 0, os_regret = None\<rparr>"

definition stats_of_score :: "score \<Rightarrow> outcome_stats" where
  "stats_of_score s = \<lparr>os_hit = sc_hit s, os_resolved = sc_resolved s, os_pending = sc_pending s,
     os_hit_rate = sc_hit_rate s, os_lower_bound = wilson_lower_bound (sc_hit s) (sc_resolved s) wilson_z,
     os_regret = (if sc_resolved s > 0 then Some (round4 ((real (sc_resolved s) - real (sc_hit s)) / real (sc_resolved s)))
                  else None)\<rparr>"

definition outcome_stats_of :: "trust_result \<Rightarrow> string option \<Rightarrow> outcome_stats" where
  "outcome_stats_of tr role_key =
     (case List.find (\<lambda>s. role_key = None \<or> Some (sc_role_key s) = role_key) (tr_scores tr) of
        Some s \<Rightarrow> stats_of_score s
      | None \<Rightarrow> no_outcome)"

section \<open>The decision\<close>

datatype decision = Auto_merge | Ask_human | Block

fun decision_text :: "decision \<Rightarrow> string" where
  "decision_text Auto_merge = ''auto_merge''"
| "decision_text Ask_human = ''ask_human''"
| "decision_text Block = ''block''"

fun evidence_status :: "decision \<Rightarrow> string" where
  "evidence_status Auto_merge = ''sufficient''"
| "evidence_status Block = ''blocked''"
| "evidence_status Ask_human = ''insufficient''"

definition normalize_result :: "string option \<Rightarrow> string option" where
  "normalize_result r = (case r of None \<Rightarrow> None
     | Some s \<Rightarrow> Some (if py_lower (py_strip s) \<in> {''pass'', ''success''} then ''pass'' else ''fail''))"

fun join :: "string \<Rightarrow> string list \<Rightarrow> string" where
  "join sep [] = []"
| "join sep [x] = x"
| "join sep (x # y # xs) = x @ sep @ join sep (y # xs)"

definition unmet_conditions :: "string option \<Rightarrow> string option \<Rightarrow> gate_status \<Rightarrow> outcome_stats \<Rightarrow> real \<Rightarrow> string list" where
  "unmet_conditions ci pr gate_status outcome threshold =
     (if gate_status \<noteq> Auto_passed then [''policy disposition!=allow_auto''] else [])
     @ (if ci \<noteq> Some ''pass'' then [''CI!=pass''] else [])
     @ (if pr \<noteq> Some ''pass'' then [''PR!=pass''] else [])
     @ (if os_lower_bound outcome < threshold then [''outcome lower_bound<threshold''] else [])"

definition decide :: "string option \<Rightarrow> string option \<Rightarrow> gate_status \<Rightarrow> outcome_stats \<Rightarrow> real \<Rightarrow> nat \<Rightarrow> bool
    \<Rightarrow> decision \<times> string" where
  "decide ci pr gate_status outcome threshold min_sample self_report_only =
     (if ci = Some ''fail'' then (Block, ''CI fail'')
      else if ci = None then (Ask_human, if self_report_only then ''CI unknown (self-report only)'' else ''CI unknown'')
      else if gate_status = Rejected then (Block, ''policy disposition=deny'')
      else if os_resolved outcome < min_sample then (Ask_human, ''outcome sample insufficient'')
      else if gate_status = Auto_passed \<and> ci = Some ''pass'' \<and> pr = Some ''pass'' \<and> os_lower_bound outcome \<ge> threshold
        then (Auto_merge, ''allow_auto + CI pass + PR pass + outcome lower_bound>=threshold'')
      else if gate_status = Pending then (Ask_human, ''policy disposition=ask'')
      else (Ask_human, ''auto-merge conditions unmet ('' @ join '', '' (unmet_conditions ci pr gate_status outcome threshold) @ '')''))"

section \<open>Activation and explicit policy\<close>

record merge_settings =
  ms_enabled :: bool
  ms_allowlist :: string
  ms_advisory :: bool

definition gate_org_allowlist :: "merge_settings \<Rightarrow> uuid list" where
  "gate_org_allowlist st = List.map_filter (\<lambda>x. if py_strip x = [] then None else py_uuid (py_strip x))
     (split_on (CHR '','') (ms_allowlist st))"

definition merge_gate_active :: "merge_settings \<Rightarrow> uuid \<Rightarrow> bool" where
  "merge_gate_active st org =
     (if \<not> ms_enabled st then False
      else (let allow = gate_org_allowlist st in allow = [] \<or> org \<in> set allow))"

definition merge_gate_advisory :: "merge_settings \<Rightarrow> bool" where
  "merge_gate_advisory st = ms_advisory st"

definition is_meaningfully_explicit_ask :: "gate_db \<Rightarrow> uuid \<Rightarrow> string \<Rightarrow> bool" where
  "is_meaningfully_explicit_ask db org source =
     (if source \<in> {''member_override'', ''org_override''} then True
      else if source = ''org_policy'' then get_org_posture db org = Some ''conservative''
      else False)"

section \<open>Observed facts of a pull request\<close>

record github =
  gh_review_rounds :: "string \<Rightarrow> int \<Rightarrow> int"
  gh_changed_files :: "string \<Rightarrow> int \<Rightarrow> string list option"
  gh_reviewer_logins :: "string \<Rightarrow> int \<Rightarrow> string list option"

definition observe_pr_diff_facts :: "github \<Rightarrow> string \<Rightarrow> int \<Rightarrow> jdict" where
  "observe_pr_diff_facts gh repo pr =
     (case gh_changed_files gh repo pr of
        None \<Rightarrow> []
      | Some files \<Rightarrow> [(''diff_size'', JInt (int (length files))),
                       (''touches_migration'', JBool (list_ex (starts_with ''backend/alembic/versions/'') files))])"

definition observe_pr_reviewer_facts :: "github \<Rightarrow> string \<Rightarrow> int \<Rightarrow> jdict" where
  "observe_pr_reviewer_facts gh repo pr =
     (case gh_reviewer_logins gh repo pr of
        None \<Rightarrow> []
      | Some raw \<Rightarrow>
          (let logins = sort (remdups (filter (\<lambda>l. l \<noteq> []) raw))
           in [(''reviewer_count'', JInt (int (length logins))), (''reviewer_logins'', JList (map JStr logins))]))"

section \<open>Evaluation\<close>

record eval_args =
  ev_org :: uuid
  ev_story :: uuid
  ev_pr_number :: int
  ev_repo :: string
  ev_ci :: "string option"
  ev_pr :: "string option"
  ev_threshold :: real
  ev_head_sha :: "string option"

record fresh_ids =
  fi_gate :: uuid
  fi_pr_verdict :: uuid
  fi_ci_verdict :: uuid

record merge_decision =
  md_decision :: decision
  md_reason :: string
  md_gate_id :: "uuid option"
  md_gate_status :: "gate_status option"
  md_disposition :: "string option"
  md_trust :: "real option"
  md_ci :: "string option"
  md_resolved :: nat
  md_hit_rate :: "real option"
  md_pending :: nat
  md_lower_bound :: real
  md_regret :: "real option"
  md_card :: bool

definition early_decision :: "decision \<Rightarrow> string \<Rightarrow> string option \<Rightarrow> string option \<Rightarrow> merge_decision" where
  \<comment> \<open>a decision without a gate row, with the dataclass's defaults\<close>
  "early_decision d reason disposition ci = \<lparr>md_decision = d, md_reason = reason, md_gate_id = None,
     md_gate_status = None, md_disposition = disposition, md_trust = None, md_ci = ci, md_resolved = 0,
     md_hit_rate = None, md_pending = 0, md_lower_bound = 0, md_regret = None, md_card = False\<rparr>"

definition jopt_real :: "real option \<Rightarrow> json" where
  "jopt_real r = (case r of None \<Rightarrow> JNull | Some x \<Rightarrow> JReal x)"

definition status_to_disposition :: "gate_status \<Rightarrow> string option" where
  "status_to_disposition s = (case s of Auto_passed \<Rightarrow> Some ''allow_auto'' | Pending \<Rightarrow> Some ''ask''
     | Rejected \<Rightarrow> Some ''deny'' | _ \<Rightarrow> None)"

definition role_key_of :: "gate_db \<Rightarrow> uuid \<Rightarrow> string option" where
  "role_key_of db role_id = map_option pr_key (find_row pr_id role_id (t_roles db))"

definition story_project_id :: "gate_db \<Rightarrow> uuid \<Rightarrow> uuid \<Rightarrow> error + uuid option" where
  "story_project_id db org story_id =
     map_sum id (map_option st_project) (scalar_one_or_none (filter (\<lambda>s. st_id s = story_id \<and> st_org s = org) (t_stories db)))"

definition merge_slot :: "uuid \<Rightarrow> uuid \<Rightarrow> slot" where
  "merge_slot org story_id = \<lparr>sl_org = org, sl_work_item_id = story_id, sl_work_item_type = ''story'',
     sl_gate_type = MERGE_GATE_TYPE, sl_scope_key = []\<rparr>"

definition db_pr_number :: "eval_args \<Rightarrow> int option" where
  "db_pr_number a = (if ev_pr_number a > 0 then Some (ev_pr_number a) else None)"

definition db_repo :: "eval_args \<Rightarrow> string option" where
  "db_repo a = (if ev_repo a = [] then None else Some (ev_repo a))"

definition eval_facts :: "github \<Rightarrow> eval_args \<Rightarrow> uuid \<Rightarrow> outcome_stats \<Rightarrow> bool \<Rightarrow> jdict" where
  "eval_facts gh a member outcome self_report_only =
     (let facts = [(''requested_by_member_id'', JStr member),
            (''ci_result'', jopt_str (normalize_result (ev_ci a))),
            (''pr_result'', jopt_str (normalize_result (ev_pr a))),
            (''trust_basis'', JStr TRUST_BASIS),
            (''trust'', jopt_real (os_hit_rate outcome)),
            (''outcome_hit_rate'', jopt_real (os_hit_rate outcome)),
            (''outcome_lower_bound'', JReal (round4 (os_lower_bound outcome))),
            (''outcome_resolved'', JInt (int (os_resolved outcome))),
            (''outcome_hit'', JInt (int (os_hit outcome))),
            (''outcome_pending'', JInt (int (os_pending outcome))),
            (''outcome_regret'', jopt_real (os_regret outcome)),
            (''trust_threshold'', JReal (ev_threshold a)),
            (''min_outcome_sample'', JInt (int MIN_OUTCOME_SAMPLE)),
            (''pr_number'', JInt (ev_pr_number a)),
            (''repo'', JStr (ev_repo a)),
            (''self_report_only'', JBool self_report_only)]
      in case (db_pr_number a, db_repo a) of
           (Some n, Some r) \<Rightarrow> dict_update (dict_update facts (observe_pr_diff_facts gh r n))
                                 (observe_pr_reviewer_facts gh r n)
         | _ \<Rightarrow> facts)"

text \<open>A rejected or voided gate starts a new cycle; an open one takes the new evidence over.\<close>

definition resubmitted :: "jdict \<Rightarrow> bool \<Rightarrow> timestamp \<Rightarrow> gate \<Rightarrow> gate" where
  "resubmitted facts had_prior now g =
     (if g_status g \<in> {Rejected, Voided}
      then
        (let prior = JObj [(''status'', JStr (status_text (g_status g))),
                           (''resolver_id'', jopt_str (g_resolver_id g)),
                           (''resolved_at'', jopt_time (g_resolved_at g)),
                           (''resolution_note'', jopt_str (g_resolution_note g))]
         in (set_gate_status Pending now g)\<lparr>g_resolver_id := None, g_resolved_at := None,
              g_resolution_note := None,
              g_neutral_facts := Some (AList.update ''decision_history''
                 (JList (decision_history g @ [prior])) facts)\<rparr>)
      else if g_status g \<in> {Pending, Auto_passed} \<and> had_prior
        then g\<lparr>g_neutral_facts := Some (dict_update (facts_of g) facts)\<rparr>
      else g)"

definition write_decision :: "decision \<Rightarrow> string \<Rightarrow> timestamp \<Rightarrow> gate \<Rightarrow> gate" where
  "write_decision d reason now g =
     (set_gate_evidence_status (Some (evidence_status d)) now (g\<lparr>g_requires_human := (d \<noteq> Auto_merge)\<rparr>))\<lparr>
        g_decision_basis := Some reason, g_auto_decision_reason := Some (decision_text d)\<rparr>"

definition is_set :: "string option \<Rightarrow> bool" where
  "is_set s \<longleftrightarrow> s \<noteq> None \<and> s \<noteq> Some []"

definition anchor :: "decision \<Rightarrow> string option \<Rightarrow> gate \<Rightarrow> gate" where
  "anchor d head_sha g =
     (if d = Auto_merge
      then (if is_set head_sha then g\<lparr>g_approved_head_sha := head_sha\<rparr> else g)
      else if g_status g = Auto_passed \<and> is_set (g_approved_head_sha g)
        then g\<lparr>g_approved_head_sha := None, g_status := Pending\<rparr>
      else g)"

definition merge_create_args :: "eval_args \<Rightarrow> uuid \<Rightarrow> uuid \<Rightarrow> jdict \<Rightarrow> uuid option \<Rightarrow> uuid option \<Rightarrow> create_args" where
  "merge_create_args a member role facts project approver = \<lparr>ca_slot = merge_slot (ev_org a) (ev_story a),
     ca_member = member, ca_role = role, ca_facts = Some facts, ca_project = project, ca_notify = True,
     ca_gate_id = None, ca_pr_number = db_pr_number a, ca_repo = db_repo a, ca_designated = approver\<rparr>"

text \<open>From the gate row on: resubmission, the decision, its write-back, the card and the anchor.\<close>

definition settle_gate :: "eval_args \<Rightarrow> jdict \<Rightarrow> outcome_stats \<Rightarrow> bool \<Rightarrow> gate option \<Rightarrow> timestamp \<Rightarrow> gate
    \<Rightarrow> merge_decision \<times> gate" where
  "settle_gate a facts outcome self_report_only prior now g =
     (let g1 = resubmitted facts (prior \<noteq> None) now g;
          (d, reason) = decide (normalize_result (ev_ci a)) (normalize_result (ev_pr a)) (g_status g1) outcome
                          (ev_threshold a) MIN_OUTCOME_SAMPLE self_report_only;
          g2 = write_decision d reason now g1;
          g3 = anchor d (ev_head_sha a) g2
      in (\<lparr>md_decision = d, md_reason = reason, md_gate_id = Some (g_id g3), md_gate_status = Some (g_status g3),
           md_disposition = status_to_disposition (g_status g3), md_trust = os_hit_rate outcome,
           md_ci = normalize_result (ev_ci a), md_resolved = os_resolved outcome,
           md_hit_rate = os_hit_rate outcome, md_pending = os_pending outcome,
           md_lower_bound = round4 (os_lower_bound outcome), md_regret = os_regret outcome,
           md_card = (d = Ask_human \<and> map_option g_status prior \<noteq> Some Pending)\<rparr>, g3))"

definition no_substance :: "gate_db \<Rightarrow> eval_args \<Rightarrow> participation \<Rightarrow> string option" where
  \<comment> \<open>the disposition, when there is nothing to judge and no explicit policy: no gate is made\<close>
  "no_substance db a p =
     (if normalize_result (ev_ci a) = None \<and> ev_pr_number a \<le> 0
      then (let (disposition, source) = resolve_disposition db (ev_org a) (pa_member p) (pa_role p) MERGE_GATE_TYPE;
                explicit_ask = (disposition = ''ask'' \<and> is_meaningfully_explicit_ask db (ev_org a) source)
            in if disposition \<noteq> ''deny'' \<and> \<not> explicit_ask then Some disposition else None)
      else None)"

definition materialize_gate :: "github \<Rightarrow> eval_args \<Rightarrow> participation \<Rightarrow> fresh_ids \<Rightarrow> timestamp \<Rightarrow> outcome_stats \<Rightarrow> bool
    \<Rightarrow> gate_db \<Rightarrow> error + (merge_decision \<times> gate_db)" where
  "materialize_gate gh a p ids now outcome self_report_only db =
     (let facts = eval_facts gh a (pa_member p) outcome self_report_only
      in case story_project_id db (ev_org a) (ev_story a) of
           Inl e \<Rightarrow> Inl e
         | Inr project \<Rightarrow>
             (case find_gate_slot_with_pr_fallback (merge_slot (ev_org a) (ev_story a)) (db_pr_number a) (db_repo a) db of
                Inl e \<Rightarrow> Inl e
              | Inr (prior, db1) \<Rightarrow>
                  (case scalar_one_or_none (filter (\<lambda>q. gp_org q = ev_org a) (t_policies db1)) of
                     Inl e \<Rightarrow> Inl e
                   | Inr policy \<Rightarrow>
                       (case create_gate (merge_create_args a (pa_member p) (pa_role p) facts project
                                (case policy of None \<Rightarrow> None | Some q \<Rightarrow> gp_merge_default_approver q)) (fi_gate ids) now db1 of
                          Inl e \<Rightarrow> Inl e
                        | Inr (g, db2) \<Rightarrow>
                            (let (md, g') = settle_gate a facts outcome self_report_only prior now g
                             in Inr (md, upd_gate (g_id g) (\<lambda>_. g') db2))))))"

definition evaluate_merge_gate :: "github \<Rightarrow> eval_args \<Rightarrow> fresh_ids \<Rightarrow> timestamp \<Rightarrow> gate_db
    \<Rightarrow> error + (merge_decision \<times> gate_db)" where
  "evaluate_merge_gate gh a ids now db =
     (let ci = normalize_result (ev_ci a)
      in case resolve_implementation_participation db (ev_org a) (ev_story a) of
           None \<Rightarrow> Inr (early_decision Ask_human ''no implementation participation'' None ci, db)
         | Some p \<Rightarrow>
             (case no_substance db a p of
                Some disposition \<Rightarrow>
                  Inr (early_decision Auto_merge ''no-substance: gate not materialized'' (Some disposition) ci, db)
              | None \<Rightarrow>
                  (let rk = role_key_of db (pa_role p);
                       outcome = outcome_stats_of
                         (compute_member_trust_scores db (ev_org a) (pa_member p) rk 90 False now) rk
                   in case capture_pr_ci_verdict (ev_org a) (ev_story a) (gh_review_rounds gh (ev_repo a) (ev_pr_number a))
                             (normalize_result (ev_pr a) = Some ''pass'') (ev_ci a) (fi_pr_verdict ids) (fi_ci_verdict ids) now db of
                        Inl e \<Rightarrow> Inl e
                      | Inr (capture, db1) \<Rightarrow>
                          materialize_gate gh a p ids now outcome
                            (cr_skipped capture \<noteq> None \<or> cr_recorded capture = []) db1)))"

section \<open>Webhook evidence\<close>

definition CI_SUCCESS :: "string list" where
  "CI_SUCCESS = [''success'']"

definition CI_FAILURE :: "string list" where
  "CI_FAILURE = [''failure'', ''timed_out'', ''action_required'', ''stale'', ''startup_failure'', ''error'']"

definition CI_CANCELLED :: "string list" where
  "CI_CANCELLED = [''cancelled'', ''canceled'', ''skipped'', ''neutral'']"

definition normalize_ci :: "string option \<Rightarrow> string option" where
  "normalize_ci conclusion =
     (case conclusion of
        None \<Rightarrow> None
      | Some s \<Rightarrow>
          (if s = [] then None
           else (let c = py_lower (py_strip s)
                 in if c \<in> set CI_SUCCESS then Some ''success''
                    else if c \<in> set CI_FAILURE then Some ''failure''
                    else if c \<in> set CI_CANCELLED then Some ''cancelled''
                    else None)))"

record publish_item =
  pi_gate :: uuid
  pi_head_sha :: string
  pi_repo :: string
  pi_pr_number :: int

definition sibling_args :: "eval_args \<Rightarrow> gate \<Rightarrow> eval_args" where
  "sibling_args a g = a\<lparr>ev_story := g_work_item_id g,
     ev_pr_number := (case g_pr_number g of None \<Rightarrow> 0 | Some n \<Rightarrow> n),
     ev_repo := (case map_of (facts_of g) ''repo'' of
                   Some (JStr r) \<Rightarrow> if r \<noteq> [] then r
                     else (case g_repo_full_name g of Some f \<Rightarrow> if f \<noteq> [] then f else ev_repo a | None \<Rightarrow> ev_repo a)
                 | _ \<Rightarrow> (case g_repo_full_name g of Some f \<Rightarrow> if f \<noteq> [] then f else ev_repo a | None \<Rightarrow> ev_repo a)),
     ev_pr := None\<rparr>"

fun evaluate_siblings :: "github \<Rightarrow> eval_args \<Rightarrow> string \<Rightarrow> (uuid \<Rightarrow> fresh_ids) \<Rightarrow> timestamp \<Rightarrow> uuid list
    \<Rightarrow> publish_item list \<times> gate_db \<Rightarrow> error + (publish_item list \<times> gate_db)" where
  "evaluate_siblings gh a sha ids now [] x = Inr x"
| "evaluate_siblings gh a sha ids now (i # is) (pubs, db) =
     (case get_gate i db of
        None \<Rightarrow> evaluate_siblings gh a sha ids now is (pubs, db)
      | Some g \<Rightarrow>
          (let a' = sibling_args a g
           in case evaluate_merge_gate gh a' (ids i) now db of
                Inl e \<Rightarrow> Inl e
              | Inr (md, db') \<Rightarrow>
                  evaluate_siblings gh a sha ids now is
                    (case md_gate_id md of None \<Rightarrow> pubs
                     | Some j \<Rightarrow> pubs @ [\<lparr>pi_gate = j, pi_head_sha = sha, pi_repo = ev_repo a', pi_pr_number = ev_pr_number a'\<rparr>],
                     db')))"

definition reconcile_merge_gate_with_real_evidence :: "github \<Rightarrow> eval_args \<Rightarrow> bool \<Rightarrow> fresh_ids \<Rightarrow> (uuid \<Rightarrow> fresh_ids)
    \<Rightarrow> timestamp \<Rightarrow> gate_db \<Rightarrow> error + (merge_decision option \<times> publish_item list \<times> gate_db)" where
  "reconcile_merge_gate_with_real_evidence gh a merged ids sibling_ids now db =
     (case find_gate_slot_with_pr_fallback (merge_slot (ev_org a) (ev_story a)) (db_pr_number a) (db_repo a) db of
        Inl e \<Rightarrow> Inl e
      | Inr (existing, db1) \<Rightarrow>
          (if (case existing of None \<Rightarrow> False | Some g \<Rightarrow> g_status g \<in> {Pending, Auto_passed})
           then (case evaluate_merge_gate gh (a\<lparr>ev_pr := (if merged then Some ''pass'' else None),
                        ev_threshold := DEFAULT_TRUST_THRESHOLD\<rparr>) ids now db1 of
                   Inl e \<Rightarrow> Inl e
                 | Inr (md, db2) \<Rightarrow> Inr (Some md, [], db2))
           else if \<not> is_set (ev_head_sha a) then Inr (None, [], db1)
           else
             (let sha = the (ev_head_sha a);
                  siblings = find_pending_merge_gates_by_head_sha (ev_org a) sha db1
              in if siblings = [] then Inr (None, [], db1)
                 else (case evaluate_siblings gh (a\<lparr>ev_threshold := DEFAULT_TRUST_THRESHOLD\<rparr>) sha sibling_ids now
                              (map g_id siblings) ([], db1) of
                         Inl e \<Rightarrow> Inl e
                       | Inr (pubs, db2) \<Rightarrow> Inr (None, pubs, db2)))))"

section \<open>Late participation\<close>

record pr_link =
  pl_org :: uuid
  pl_story :: uuid
  pl_repo :: string
  pl_pr_number :: int
  pl_deleted_at :: "timestamp option"

record github_app =
  ga_installed :: "error + bool"
  ga_token :: string
  ga_pull :: "string \<Rightarrow> int \<Rightarrow> json option"
  ga_checks :: "string \<Rightarrow> string \<Rightarrow> http_answer"

definition late_link :: "github \<Rightarrow> github_app \<Rightarrow> uuid \<Rightarrow> uuid \<Rightarrow> (string \<times> int \<Rightarrow> fresh_ids) \<Rightarrow> timestamp \<Rightarrow> gate_db \<Rightarrow> pr_link
    \<Rightarrow> gate_db" where
  "late_link gh app org story_id ids now db l =
     (case find_gate_slot_with_pr_fallback (merge_slot org story_id) (Some (pl_pr_number l)) (Some (pl_repo l)) db of
        Inl e \<Rightarrow> db
      | Inr (Some g, db1) \<Rightarrow> db1
      | Inr (None, db1) \<Rightarrow>
          (if ga_token app = [] then db1
           else (case ga_pull app (pl_repo l) (pl_pr_number l) of
                   None \<Rightarrow> db1
                 | Some pr \<Rightarrow>
                     (case jget ''sha'' (jget ''head'' pr) of
                        JStr sha \<Rightarrow>
                          (if sha = [] then db1
                           else (case evaluate_merge_gate gh \<lparr>ev_org = org, ev_story = story_id,
                                        ev_pr_number = pl_pr_number l, ev_repo = pl_repo l,
                                        ev_ci = fst (fetch_status_check_rollup (pl_repo l) sha (ga_token app)
                                                       (ga_checks app (pl_repo l) sha)),
                                        ev_pr = (if truthy (jget ''merged'' pr) then Some ''pass'' else None),
                                        ev_threshold = DEFAULT_TRUST_THRESHOLD, ev_head_sha = Some sha\<rparr>
                                        (ids (pl_repo l, pl_pr_number l)) now db1 of
                                   Inl e \<Rightarrow> db
                                 | Inr (md, db2) \<Rightarrow> db2))
                      | _ \<Rightarrow> db1))))"

definition trigger_gate_creation_for_late_participation :: "github \<Rightarrow> github_app \<Rightarrow> pr_link list \<Rightarrow> uuid \<Rightarrow> uuid
    \<Rightarrow> (string \<times> int \<Rightarrow> fresh_ids) \<Rightarrow> timestamp \<Rightarrow> gate_db \<Rightarrow> gate_db" where
  "trigger_gate_creation_for_late_participation gh app all_links org story_id ids now db =
     (let links = filter (\<lambda>l. pl_org l = org \<and> pl_story l = story_id \<and> pl_deleted_at l = None) all_links
      in if links = [] then db
         else if ga_installed app \<noteq> Inr True then db
         else foldl (late_link gh app org story_id ids now) db links)"

end
