(* ===== verification/Wilson.thy ===== *)
theory Wilson
  imports Merge_Gate
begin

text \<open>
  The lower bound that the merge gate holds against its threshold: it is the smaller root of the
  equation that defines Wilson's score interval, lies between zero and the observed rate, and gives
  the least number of resolved outcomes an automatic merge needs.
\<close>

lemma wilson_parts:
  fixes p c m d z :: real
  assumes n: "0 < n" and h: "h \<le> n" and z: "0 < z"
  assumes parts: "p = real h / real n" "c = p + z * z / (2 * real n)"
    "m = z * sqrt ((p * (1 - p) + z * z / (4 * real n)) / real n)" "d = 1 + z * z / real n"
  shows "0 \<le> p" "p \<le> 1" "1 < d" "z * z / (2 * real n) \<le> m" "c\<^sup>2 - m\<^sup>2 = p\<^sup>2 * d" "0 < c + m" "m \<le> c"
    and "wilson_lower_bound h n z = (c - m) / d"
proof -
  have n': "0 < real n" using n by simp
  show p: "0 \<le> p" "p \<le> 1" using parts(1) n h by (auto simp: divide_le_eq)
  show d: "1 < d" using parts(4) z n' by simp
  have r: "0 \<le> (p * (1 - p) + z * z / (4 * real n)) / real n" using p z n' by simp
  have m2: "m\<^sup>2 = z\<^sup>2 * ((p * (1 - p) + z * z / (4 * real n)) / real n)"
    using r by (simp add: parts(3) power_mult_distrib)
  have m0: "0 \<le> m" using parts(3) r z by simp
  have "(z * z / (2 * real n))\<^sup>2 = z\<^sup>2 * (z * z / (4 * real n) / real n)"
    using n' by (simp add: power2_eq_square field_simps)
  also have "\<dots> \<le> m\<^sup>2" unfolding m2 using p n' by (intro mult_left_mono divide_right_mono) auto
  finally show zm: "z * z / (2 * real n) \<le> m" using m0 by (rule power2_le_imp_le)
  show cm: "c\<^sup>2 - m\<^sup>2 = p\<^sup>2 * d"
    unfolding m2 parts(2,4) using n' by (simp add: power2_eq_square field_simps)
  have zpos: "0 < z * z / (2 * real n)" using z n' by simp
  then show s: "0 < c + m" using parts(2) p m0 by simp
  have "m\<^sup>2 \<le> c\<^sup>2" using cm d p by (smt (verit) mult_nonneg_nonneg zero_le_power2)
  moreover have "0 \<le> c" using parts(2) p zpos by simp
  ultimately show mc: "m \<le> c" by (rule power2_le_imp_le)
  show "wilson_lower_bound h n z = (c - m) / d"
    using mc d n by (simp add: wilson_lower_bound_def Let_def parts)
qed

lemma wilson_factor:
  assumes n: "0 < n" "h \<le> n" "0 < z"
  defines "p \<equiv> real h / real n"
  defines "c \<equiv> p + z * z / (2 * real n)"
  defines "m \<equiv> z * sqrt ((p * (1 - p) + z * z / (4 * real n)) / real n)"
  shows "wilson_lower_bound h n z = p\<^sup>2 / (c + m)"
proof -
  define d where "d = 1 + z * z / real n"
  note w = wilson_parts [OF n meta_eq_to_obj_eq [OF p_def] meta_eq_to_obj_eq [OF c_def] meta_eq_to_obj_eq [OF m_def] d_def]
  have "(c - m) * (c + m) = p\<^sup>2 * d" using w(5) by (simp add: power2_eq_square algebra_simps)
  then have "(c - m) / d = p\<^sup>2 / (c + m)" using w(3,6) by (simp add: field_simps)
  then show ?thesis using w(8) by simp
qed

lemma wilson_le_rate:
  assumes "0 < n" "h \<le> n" "0 < z"
  shows "wilson_lower_bound h n z \<le> real h / real n"
proof -
  define p where "p = real h / real n"
  define m where "m = z * sqrt ((p * (1 - p) + z * z / (4 * real n)) / real n)"
  note w = wilson_parts [OF assms p_def refl m_def refl]
  have "p\<^sup>2 \<le> p * (p + z * z / (2 * real n) + m)"
    using w(1,4) assms(1,3) by (simp add: power2_eq_square algebra_simps)
       (smt (verit) divide_nonneg_pos mult_nonneg_nonneg of_nat_0_less_iff)
  then have "p\<^sup>2 / (p + z * z / (2 * real n) + m) \<le> p" using w(6) by (simp add: divide_le_eq)
  then show ?thesis using wilson_factor [OF assms] by (simp add: p_def m_def)
qed

lemma wilson_le_perfect:
  assumes "0 < n" "h \<le> n" "0 < z"
  shows "wilson_lower_bound h n z \<le> real n / (real n + z * z)"
proof -
  define p where "p = real h / real n"
  define m where "m = z * sqrt ((p * (1 - p) + z * z / (4 * real n)) / real n)"
  define q where "q = z * z / real n"
  note w = wilson_parts [OF assms p_def refl m_def refl]
  have q: "0 < q" "q / 2 \<le> m" using assms w(4) by (simp_all add: q_def)
  have p2: "p\<^sup>2 \<le> p" "p\<^sup>2 \<le> 1" using w(1,2) by (simp_all add: power2_eq_square mult_left_le mult_le_one)
  have "p\<^sup>2 * q \<le> q" using p2 q by simp
  moreover have "p\<^sup>2 * (1 + q) = p\<^sup>2 + p\<^sup>2 * q" by (simp add: distrib_left)
  ultimately have "p\<^sup>2 * (1 + q) \<le> p + q / 2 + m" using p2 q by linarith
  then have "p\<^sup>2 / (p + q / 2 + m) \<le> 1 / (1 + q)"
    using q w(6) by (simp add: field_simps q_def)
  moreover have "1 / (1 + q) = real n / (real n + z * z)" using assms(1) by (simp add: q_def field_simps)
  moreover have "wilson_lower_bound h n z = p\<^sup>2 / (p + q / 2 + m)"
    using wilson_factor [OF assms] by (simp add: p_def m_def q_def mult.commute [of 2 "real n"])
  ultimately show ?thesis by simp
qed

text \<open>
  C20: The trust bound is Wilson's: for a positive number of resolved outcomes the code's formula gives
  the root of \<open>(p - x)\<^sup>2 = z\<^sup>2 x (1 - x) / n\<close> that lies below the observed rate \<open>p\<close>, between zero and one.
\<close>

theorem wilson_is_score_bound:
  assumes "0 < n" and "h \<le> n"
  shows "(real h / real n - wilson_lower_bound h n wilson_z)\<^sup>2
        = wilson_z\<^sup>2 * wilson_lower_bound h n wilson_z * (1 - wilson_lower_bound h n wilson_z) / real n
     \<and> 0 \<le> wilson_lower_bound h n wilson_z
     \<and> wilson_lower_bound h n wilson_z \<le> real h / real n
     \<and> wilson_lower_bound h n wilson_z < 1"
proof -
  have z: "0 < wilson_z" by (simp add: wilson_z_def)
  define p where "p = real h / real n"
  define c where "c = p + wilson_z * wilson_z / (2 * real n)"
  define m where "m = wilson_z * sqrt ((p * (1 - p) + wilson_z * wilson_z / (4 * real n)) / real n)"
  define d where "d = 1 + wilson_z * wilson_z / real n"
  define x where "x = wilson_lower_bound h n wilson_z"
  note w = wilson_parts [OF assms z p_def c_def m_def d_def]
  have xd: "x * d = c - m" using w(3,8) by (simp add: x_def)
  then have "(c - x * d)\<^sup>2 = m\<^sup>2" by simp
  then have "d * (p\<^sup>2 - 2 * c * x + x\<^sup>2 * d) = 0"
    using w(5) by (simp add: power2_eq_square algebra_simps)
  then have "p\<^sup>2 - 2 * c * x + x\<^sup>2 * d = 0" using w(3) by simp
  moreover define q where "q = wilson_z * wilson_z / real n"
  then have "c = p + q / 2" "d = 1 + q" by (simp_all add: c_def d_def)
  ultimately have "(p - x)\<^sup>2 = q * x * (1 - x)" by (simp add: power2_eq_square algebra_simps)
  then have root: "(p - x)\<^sup>2 = wilson_z\<^sup>2 * x * (1 - x) / real n" by (simp add: q_def power2_eq_square)
  have "0 \<le> x" unfolding x_def using w(3,7,8) by simp
  moreover have "x \<le> p" unfolding x_def p_def by (rule wilson_le_rate [OF assms z])
  moreover have "x < 1"
  proof -
    have "x \<le> real n / (real n + wilson_z * wilson_z)" unfolding x_def by (rule wilson_le_perfect [OF assms z])
    also have "\<dots> < 1" using assms(1) mult_pos_pos [OF z z] by (simp add: divide_less_eq)
    finally show ?thesis .
  qed
  ultimately show ?thesis using root by (simp add: x_def p_def)
qed

theorem wilson_is_score_bound_witness:
  "(real 9 / real 10 - wilson_lower_bound 9 10 wilson_z)\<^sup>2
        = wilson_z\<^sup>2 * wilson_lower_bound 9 10 wilson_z * (1 - wilson_lower_bound 9 10 wilson_z) / real 10
     \<and> 0 \<le> wilson_lower_bound 9 10 wilson_z
     \<and> wilson_lower_bound 9 10 wilson_z \<le> real 9 / real 10
     \<and> wilson_lower_bound 9 10 wilson_z < 1"
  using wilson_is_score_bound [of 10 9] by simp

lemma wilson_threshold_sample:
  assumes "h \<le> n" "DEFAULT_TRUST_THRESHOLD \<le> wilson_lower_bound h n wilson_z"
  shows "16 \<le> n"
proof -
  have n: "0 < n" using assms(2) by (cases n) (auto simp: wilson_lower_bound_def DEFAULT_TRUST_THRESHOLD_def)
  have "8 / 10 \<le> real n / (real n + wilson_z * wilson_z)"
    using order_trans [OF assms(2) wilson_le_perfect [OF n assms(1)]]
    unfolding DEFAULT_TRUST_THRESHOLD_def by (simp add: wilson_z_def)
  then have "8 / 10 * (real n + wilson_z * wilson_z) \<le> real n"
    using n by (simp add: wilson_z_def field_simps)
  then have "real n > 15" by (simp add: wilson_z_def)
  then show ?thesis by linarith
qed

end
