(* ===== verification/Merge_Properties.thy ===== *)
theory Merge_Properties
  imports Wilson
begin

text \<open>
  What the merge gate's evaluation guarantees: when it blocks, when it lets a change through without a
  person, what it leaves of a person's approval, where its anchor stands, and what webhook evidence
  may reach. Two theorems state behaviours that the comments of the code do not intend.
\<close>

section \<open>The decision table\<close>

lemma decide_block:
  "fst (decide ci pr st outcome th ms self) = Block \<longleftrightarrow> ci = Some ''fail'' \<or> (ci \<noteq> None \<and> st = Rejected)"
  by (auto simp: decide_def)

lemma decide_auto:
  "fst (decide ci pr st outcome th ms self) = Auto_merge \<longleftrightarrow>
     ci = Some ''pass'' \<and> pr = Some ''pass'' \<and> st = Auto_passed \<and> ms \<le> os_resolved outcome \<and> th \<le> os_lower_bound outcome"
  by (auto simp: decide_def)

lemma normalize_result_cases: "normalize_result r \<in> {None, Some ''pass'', Some ''fail''}"
  by (auto simp: normalize_result_def split: option.splits)

lemma resubmitted_status:
  "g_status (resubmitted facts b now g) = (if g_status g \<in> {Rejected, Voided} then Pending else g_status g)"
  by (simp add: resubmitted_def Let_def)

lemma write_decision_fields [simp]:
  "g_id (write_decision d r now g) = g_id g"
  "g_status (write_decision d r now g) = g_status g"
  "g_approved_head_sha (write_decision d r now g) = g_approved_head_sha g"
  "g_resolver_id (write_decision d r now g) = g_resolver_id g"
  "g_resolved_at (write_decision d r now g) = g_resolved_at g"
  "g_requires_human (write_decision d r now g) = (d \<noteq> Auto_merge)"
  "g_evidence_status (write_decision d r now g) = Some (evidence_status d)"
  "gate_key (write_decision d r now g) = gate_key g"
  by (simp_all add: write_decision_def gate_key_def gate_slot_def set_gate_evidence_status_def)

lemma anchor_fields [simp]:
  "g_id (anchor d sha g) = g_id g" "gate_key (anchor d sha g) = gate_key g"
  "g_requires_human (anchor d sha g) = g_requires_human g"
  "g_evidence_status (anchor d sha g) = g_evidence_status g"
  "g_resolver_id (anchor d sha g) = g_resolver_id g" "g_resolved_at (anchor d sha g) = g_resolved_at g"
  by (simp_all add: anchor_def gate_key_def gate_slot_def)

lemma resubmitted_fields [simp]:
  "g_id (resubmitted facts b now g) = g_id g" "gate_key (resubmitted facts b now g) = gate_key g"
  by (simp_all add: resubmitted_def Let_def gate_key_def gate_slot_def)

definition settled :: "eval_args \<Rightarrow> jdict \<Rightarrow> outcome_stats \<Rightarrow> bool \<Rightarrow> gate option \<Rightarrow> timestamp \<Rightarrow> gate \<Rightarrow> decision \<times> string" where
  "settled a facts outcome self prior now g =
     decide (normalize_result (ev_ci a)) (normalize_result (ev_pr a))
       (g_status (resubmitted facts (prior \<noteq> None) now g)) outcome (ev_threshold a) MIN_OUTCOME_SAMPLE self"

lemma settle_gate_eq:
  assumes "settle_gate a facts outcome self prior now g = (md, g')"
  shows "md_decision md = fst (settled a facts outcome self prior now g)"
    and "g' = anchor (md_decision md) (ev_head_sha a) (write_decision (md_decision md)
           (snd (settled a facts outcome self prior now g)) now (resubmitted facts (prior \<noteq> None) now g))"
    and "md_gate_id md = Some (g_id g')" and "md_gate_status md = Some (g_status g')"
    and "md_resolved md = os_resolved outcome" and "g_id g' = g_id g" and "gate_key g' = gate_key g"
  using assms by (auto simp: settle_gate_def settled_def Let_def split: prod.splits)

text \<open>The evaluations that reach a gate row, with what they pass through.\<close>

lemma evaluate_gate_cases:
  assumes "evaluate_merge_gate gh a ids now db = Inr (md, db')" and "md_gate_id md \<noteq> None"
  obtains p outcome capture self db1 project prior db2 policy g db3 g' where
    "resolve_implementation_participation db (ev_org a) (ev_story a) = Some p"
    "outcome = outcome_stats_of (compute_member_trust_scores db (ev_org a) (pa_member p)
       (role_key_of db (pa_role p)) 90 False now) (role_key_of db (pa_role p))"
    "capture_pr_ci_verdict (ev_org a) (ev_story a) (gh_review_rounds gh (ev_repo a) (ev_pr_number a))
       (normalize_result (ev_pr a) = Some ''pass'') (ev_ci a) (fi_pr_verdict ids) (fi_ci_verdict ids) now db = Inr (capture, db1)"
    "find_gate_slot_with_pr_fallback (merge_slot (ev_org a) (ev_story a)) (db_pr_number a) (db_repo a) db1 = Inr (prior, db2)"
    "create_gate (merge_create_args a (pa_member p) (pa_role p) (eval_facts gh a (pa_member p) outcome self) project policy)
       (fi_gate ids) now db2 = Inr (g, db3)"
    "settle_gate a (eval_facts gh a (pa_member p) outcome self) outcome self prior now g = (md, g')"
    "db' = upd_gate (g_id g) (\<lambda>_. g') db3"
proof -
  obtain p where p: "resolve_implementation_participation db (ev_org a) (ev_story a) = Some p"
    "no_substance db a p = None"
    using assms by (auto simp: evaluate_merge_gate_def early_decision_def Let_def split: option.splits)
  define rk where "rk = role_key_of db (pa_role p)"
  define outcome where "outcome = outcome_stats_of (compute_member_trust_scores db (ev_org a) (pa_member p) rk 90 False now) rk"
  obtain capture db1 where c: "capture_pr_ci_verdict (ev_org a) (ev_story a) (gh_review_rounds gh (ev_repo a) (ev_pr_number a))
       (normalize_result (ev_pr a) = Some ''pass'') (ev_ci a) (fi_pr_verdict ids) (fi_ci_verdict ids) now db = Inr (capture, db1)"
    and m: "materialize_gate gh a p ids now outcome (cr_skipped capture \<noteq> None \<or> cr_recorded capture = []) db1 = Inr (md, db')"
    using assms(1) p by (auto simp: evaluate_merge_gate_def Let_def rk_def outcome_def split: sum.splits)
  define self where "self = (cr_skipped capture \<noteq> None \<or> cr_recorded capture = [])"
  show thesis
    using m unfolding self_def [symmetric] materialize_gate_def Let_def
    by (auto split: sum.splits prod.splits intro!: that [OF p(1) outcome_def [unfolded rk_def] c])
qed

section \<open>What a person decided stays\<close>

definition keeps_approval :: "gate \<Rightarrow> gate \<Rightarrow> bool" where
  "keeps_approval g g' \<longleftrightarrow> (g_status g = Approved \<longrightarrow> g_status g' = Approved
     \<and> g_approved_head_sha g' = g_approved_head_sha g \<and> g_resolver_id g' = g_resolver_id g
     \<and> g_resolved_at g' = g_resolved_at g)"

definition approvals_kept :: "gate_db \<Rightarrow> gate_db \<Rightarrow> bool" where
  "approvals_kept db db' \<longleftrightarrow> (\<forall>i g. get_gate i db = Some g \<longrightarrow> (\<exists>g'. get_gate i db' = Some g' \<and> keeps_approval g g'))"

lemma keeps_refl [simp]: "keeps_approval g g"
  by (simp add: keeps_approval_def)

lemma approvals_kept_trans:
  assumes "approvals_kept db db1" "approvals_kept db1 db2"
  shows "approvals_kept db db2"
  unfolding approvals_kept_def
proof (intro allI impI)
  fix i g assume "get_gate i db = Some g"
  then obtain g1 g2 where "get_gate i db1 = Some g1" "keeps_approval g g1" "get_gate i db2 = Some g2" "keeps_approval g1 g2"
    using assms unfolding approvals_kept_def by blast
  then show "\<exists>g'. get_gate i db2 = Some g' \<and> keeps_approval g g'" by (auto simp: keeps_approval_def)
qed

lemma approvals_kept_cong: "t_gates db' = t_gates db \<Longrightarrow> approvals_kept db db'"
  by (simp add: approvals_kept_def get_gate_def)

lemma get_upd_const:
  "g_id g' = i \<Longrightarrow> get_gate j (upd_gate i (\<lambda>_. g') db) = (if j = i then map_option (\<lambda>_. g') (get_gate i db) else get_gate j db)"
proof -
  assume g': "g_id g' = i"
  have "upd_gate i (\<lambda>_. g') db = upd_gate i (\<lambda>x. if g_id x = i then g' else x) db"
    by (simp add: upd_gate_def upd_row_def)
  moreover have "map_option (\<lambda>x. if g_id x = i then g' else x) (get_gate i db) = map_option (\<lambda>_. g') (get_gate i db)"
    using get_gate_id by (cases "get_gate i db") auto
  ultimately show ?thesis using get_upd_gate [of "\<lambda>x. if g_id x = i then g' else x" j i db] g' by auto
qed

lemma approvals_kept_upd:
  "(\<And>x. g_id (f x) = g_id x) \<Longrightarrow> (\<And>x. get_gate i db = Some x \<Longrightarrow> keeps_approval x (f x)) \<Longrightarrow>
     approvals_kept db (upd_gate i f db)"
  by (auto simp: approvals_kept_def get_upd_gate)

lemma approvals_kept_upd_const:
  "g_id g' = i \<Longrightarrow> (\<And>x. get_gate i db = Some x \<Longrightarrow> keeps_approval x g') \<Longrightarrow> approvals_kept db (upd_gate i (\<lambda>_. g') db)"
  by (auto simp: approvals_kept_def get_upd_const)

lemma resolve_keeps:
  assumes "unique_slots db"
  shows "approvals_kept db (resolve_gate_from_verdict org wi wit src res resolver now db)"
proof (cases rule: resolve_from_verdict_cases [of org wi wit src res resolver now db])
  case (one r g gt)
  then have "get_gate (g_id g) db = Some g" by (intro get_gate_in assms)
  then show ?thesis unfolding one(10) using one(8)
    by (intro approvals_kept_upd) (auto simp: keeps_approval_def)
qed (simp add: approvals_kept_cong)

lemma record_verdict_gates: "record_verdict org p src res rounds fresh now db = Inr db' \<Longrightarrow> t_gates db' = t_gates db"
  by (auto simp: record_verdict_def split: sum.splits option.splits)

lemma unique_slots_resolve:
  "unique_slots db \<Longrightarrow> unique_slots (resolve_gate_from_verdict org wi wit src res resolver now db)"
  using resolve_from_verdict_evolves by (simp add: gates_evolve_def)

definition safe_step :: "gate_db \<Rightarrow> gate_db \<Rightarrow> bool" where
  "safe_step db db' \<longleftrightarrow> unique_slots db' \<and> approvals_kept db db' \<and> g_id ` set (t_gates db') = g_id ` set (t_gates db)"

lemma safe_step_trans: "safe_step db db1 \<Longrightarrow> safe_step db1 db2 \<Longrightarrow> safe_step db db2"
  using approvals_kept_trans by (auto simp: safe_step_def)

lemma upd_row_ids: "(\<And>x. g_id (f x) = g_id x) \<Longrightarrow> g_id ` set (upd_row g_id i f gs) = g_id ` set gs"
  using upd_row_map_key [of g_id f i gs] by (metis list.set_map)

lemma resolve_ids:
  "g_id ` set (t_gates (resolve_gate_from_verdict org wi wit src res resolver now db)) = g_id ` set (t_gates db)"
  by (cases rule: resolve_from_verdict_cases [of org wi wit src res resolver now db]) (auto simp: upd_row_ids)

lemma record_resolve_safe:
  assumes "unique_slots db" "record_verdict org p src res rounds fresh now db = Inr db1"
  shows "safe_step db (resolve_gate_from_verdict org' wi wit src' res' resolver now db1)"
proof -
  have t: "t_gates db1 = t_gates db" by (rule record_verdict_gates [OF assms(2)])
  then have u: "unique_slots db1" using unique_slots_cong assms(1) by blast
  show ?thesis unfolding safe_step_def
    using unique_slots_resolve [OF u] approvals_kept_trans [OF approvals_kept_cong [OF t] resolve_keeps [OF u]] resolve_ids t
    by auto
qed

lemma safe_step_refl: "unique_slots db \<Longrightarrow> safe_step db db"
  by (simp add: safe_step_def approvals_kept_cong)

lemma capture_ci_safe:
  assumes "unique_slots db" "capture_ci org st p ci fresh now (rec, db) = Inr (rec', db')"
  shows "safe_step db db'"
  using assms safe_step_refl record_resolve_safe
  by (auto simp: capture_ci_def Let_def split: option.splits if_splits sum.splits)

lemma capture_safe:
  assumes u: "unique_slots db" and c: "capture_pr_ci_verdict org st rounds merged ci f1 f2 now db = Inr (cr, db')"
  shows "safe_step db db'"
proof (cases "resolve_implementation_participation db org st")
  case None
  then show ?thesis using c u safe_step_refl by (auto simp: capture_pr_ci_verdict_def)
next
  case (Some p)
  then obtain r1 db1 r2 where 1: "(if merged
                 then (case record_verdict org (pa_id p) ''pr'' (Some ''pass'')
                              (if rounds > 0 then Some rounds else None) f1 now db of
                         Inl e \<Rightarrow> Inl e
                       | Inr db1 \<Rightarrow> Inr ([''pr''],
                           resolve_gate_from_verdict org st ''story'' ''pr'' (Some ''pass'') None now db1))
                 else Inr ([], db)) = Inr (r1, db1)" and 2: "capture_ci org st (pa_id p) ci f2 now (r1, db1) = Inr (r2, db')"
    using c by (auto simp: capture_pr_ci_verdict_def split: sum.splits)
  from 1 have "safe_step db db1"
    using u safe_step_refl record_resolve_safe by (auto split: if_splits sum.splits)
  then show ?thesis using capture_ci_safe [OF _ 2] safe_step_trans by (auto simp: safe_step_def)
qed

lemma promotes_keeps: "promotes x y \<Longrightarrow> keeps_approval x y"
proof -
  assume "promotes x y"
  then obtain p r where "y = x\<lparr>g_pr_number := p, g_repo_full_name := r\<rparr>" by (auto simp: promotes_def)
  then show ?thesis by (simp add: keeps_approval_def)
qed

lemma find_slot_safe:
  assumes u: "unique_slots db" and f: "find_gate_slot_with_pr_fallback sl pr repo db = Inr (r, db')"
  shows "safe_step db db'"
proof -
  have r: "unique_slots db'" "list_all2 promotes (t_gates db) (t_gates db')"
    using find_gate_slot_result [OF u f] by auto
  have "\<exists>g'. get_gate i db' = Some g' \<and> keeps_approval g g'" if g: "get_gate i db = Some g" for i g
  proof -
    obtain g' where "g' \<in> set (t_gates db')" "promotes g g'"
      using list_all2_image [OF r(2)] get_gate_id [OF g] by metis
    then show ?thesis using get_gate_in [OF r(1)] promotes_same_status [of g g'] get_gate_id [OF g] promotes_keeps by metis
  qed
  moreover have "map g_id (t_gates db') = map g_id (t_gates db)"
    using r(2) promotes_same_status by (induction rule: list_all2_induct) auto
  ultimately show ?thesis using r(1) by (metis approvals_kept_def list.set_map safe_step_def)
qed

lemma create_gate_keeps:
  assumes u: "unique_slots db" and c: "create_gate a fresh now db = Inr (g, db')"
    and fr: "fresh_gate_id (a, fresh, now) db"
  shows "unique_slots db' \<and> approvals_kept db db' \<and> get_gate (g_id g) db' = Some g"
proof -
  have r: "unique_slots db'" "key_row (target_key (ca_slot a) (ca_pr_number a) (ca_repo a)) db' = Some g"
    using create_gate_result [OF u c fr] by auto
  then have gg: "get_gate (g_id g) db' = Some g" using get_gate_in key_row_Some by blast
  from u c have "approvals_kept db db'"
  proof (cases rule: create_gate_cases)
    case found
    then show ?thesis using find_slot_safe [OF u] by (auto simp: safe_step_def)
  next
    case (reopened g0 db1)
    have s: "safe_step db db1" by (rule find_slot_safe [OF u reopened(1)])
    have u1: "unique_slots db1" using s by (simp add: safe_step_def)
    have g0: "g0 \<in> set (t_gates db1)" using find_gate_slot_norm [OF u reopened(1)] key_row_Some by blast
    let ?f = "reopened_gate (initial_status db1 (sl_org (ca_slot a)) (ca_member a) (ca_role a) (sl_gate_type (ca_slot a))) a now"
    have "approvals_kept db1 (upd_gate (g_id g0) ?f db1)"
    proof (rule approvals_kept_upd)
      show "g_id (?f x) = g_id x" for x by simp
      show "keeps_approval x (?f x)" if "get_gate (g_id g0) db1 = Some x" for x
        using that get_gate_in [OF u1 g0] reopened(2) by (simp add: keeps_approval_def)
    qed
    moreover have "t_gates db' = t_gates (upd_gate (g_id g0) ?f db1)"
      using reopen_rejected_gate_result [OF u1 g0 reopened(3)] by blast
    ultimately have "approvals_kept db1 db'" using approvals_kept_trans approvals_kept_cong by metis
    then show ?thesis using s approvals_kept_trans [of db db1 db'] by (simp add: safe_step_def)
  next
    case created
    have "get_gate i db' = Some x" if "get_gate i db = Some x" for i x
      using that insert_gate_gates [OF created(2)] by (auto simp: get_gate_def find_row_def find_append)
    then show ?thesis by (auto simp: approvals_kept_def)
  qed
  with r gg show ?thesis by blast
qed

lemma settle_keeps:
  assumes "settle_gate a facts outcome self prior now g = (md, g')"
  shows "keeps_approval g g'"
proof (cases "g_status g = Approved")
  case True
  then have r: "resubmitted facts b now g = g" for b by (simp add: resubmitted_def)
  have "md_decision md \<noteq> Auto_merge"
    using settle_gate_eq(1) [OF assms] True by (simp add: settled_def r decide_auto)
  then show ?thesis using settle_gate_eq(2) [OF assms] True
    by (simp add: r keeps_approval_def anchor_def)
qed (simp add: keeps_approval_def)

text \<open>
  An evaluation that reaches a gate: the row it answers is the row it has settled, and the approvals
  given before it stand.
\<close>

lemma evaluate_result:
  assumes u: "unique_slots db" and fr: "fi_gate ids \<notin> g_id ` set (t_gates db)"
    and e: "evaluate_merge_gate gh a ids now db = Inr (md, db')" and i: "md_gate_id md = Some i"
  obtains facts outcome self prior g g' and p :: participation where
    "settle_gate a facts outcome self prior now g = (md, g')" "get_gate i db' = Some g'"
    "approvals_kept db db'" "unique_slots db'"
    "outcome = outcome_stats_of (compute_member_trust_scores db (ev_org a) (pa_member p)
       (role_key_of db (pa_role p)) 90 False now) (role_key_of db (pa_role p))"
proof -
  have ne: "md_gate_id md \<noteq> None" using i by simp
  from e ne obtain p outcome capture self db1 project prior db2 policy g db3 g' where
    "resolve_implementation_participation db (ev_org a) (ev_story a) = Some p"
    and o: "outcome = outcome_stats_of (compute_member_trust_scores db (ev_org a) (pa_member p)
       (role_key_of db (pa_role p)) 90 False now) (role_key_of db (pa_role p))"
    and c: "capture_pr_ci_verdict (ev_org a) (ev_story a) (gh_review_rounds gh (ev_repo a) (ev_pr_number a))
       (normalize_result (ev_pr a) = Some ''pass'') (ev_ci a) (fi_pr_verdict ids) (fi_ci_verdict ids) now db = Inr (capture, db1)"
    and f: "find_gate_slot_with_pr_fallback (merge_slot (ev_org a) (ev_story a)) (db_pr_number a) (db_repo a) db1 = Inr (prior, db2)"
    and cr: "create_gate (merge_create_args a (pa_member p) (pa_role p) (eval_facts gh a (pa_member p) outcome self) project policy)
       (fi_gate ids) now db2 = Inr (g, db3)"
    and s: "settle_gate a (eval_facts gh a (pa_member p) outcome self) outcome self prior now g = (md, g')"
    and db': "db' = upd_gate (g_id g) (\<lambda>_. g') db3"
    by (rule evaluate_gate_cases)
  have s1: "safe_step db db1" by (rule capture_safe [OF u c])
  then have s2: "safe_step db db2" using find_slot_safe [OF _ f] safe_step_trans by (auto simp: safe_step_def)
  then have fr2: "fresh_gate_id (merge_create_args a (pa_member p) (pa_role p) (eval_facts gh a (pa_member p) outcome self)
      project policy, fi_gate ids, now) db2"
    using fr by (auto simp: safe_step_def fresh_gate_id_def merge_create_args_def)
  have s3: "unique_slots db3" "approvals_kept db2 db3" "get_gate (g_id g) db3 = Some g"
    using create_gate_keeps [OF _ cr fr2] s2 by (auto simp: safe_step_def)
  have g': "g_id g' = g_id g" "gate_key g' = gate_key g" using settle_gate_eq(6,7) [OF s] by auto
  have k: "approvals_kept db3 db'" unfolding db'
    using s3(3) settle_keeps [OF s] g' by (intro approvals_kept_upd_const) auto
  have "approvals_kept db db2" using s2 by (simp add: safe_step_def)
  from approvals_kept_trans [OF approvals_kept_trans [OF this s3(2)] k] have ak: "approvals_kept db db'" .
  have get: "get_gate i db' = Some g'" using i settle_gate_eq(3) [OF s] s3(3) g' by (simp add: db' get_upd_const)
  have "unique_slots (upd_gate (g_id g) (\<lambda>x. if g_id x = g_id g then g' else x) db3)"
    using s3 g' get_gate_id [OF s3(3)] by (intro unique_slots_upd) auto
  moreover have "t_gates (upd_gate (g_id g) (\<lambda>x. if g_id x = g_id g then g' else x) db3) = t_gates db'"
    by (simp add: db' upd_row_def)
  ultimately have u': "unique_slots db'" using unique_slots_cong by blast
  show thesis by (rule that [OF s get ak u' o])
qed

section \<open>Properties of an evaluation\<close>

text \<open>
  C1: An evaluation of the merge gate never takes back what a person approved: every gate approved
  before it, the evaluated one and all others, is approved after it, with the same approver, the same time and
  the same approved commit.
\<close>

theorem evaluation_keeps_human_approval:
  assumes "unique_slots db" and "fi_gate ids \<notin> g_id ` set (t_gates db)"
    and "evaluate_merge_gate gh a ids now db = Inr (md, db')"
    and "get_gate i db = Some g" and "g_status g = Approved"
  shows "\<exists>g'. get_gate i db' = Some g' \<and> g_status g' = Approved \<and> g_approved_head_sha g' = g_approved_head_sha g
     \<and> g_resolver_id g' = g_resolver_id g \<and> g_resolved_at g' = g_resolved_at g"
proof (cases "md_gate_id md")
  case None
  then have "db' = db" using assms(3)
    by (auto simp: evaluate_merge_gate_def materialize_gate_def settle_gate_def Let_def
        split: option.splits sum.splits prod.splits)
  then show ?thesis using assms(4,5) by simp
next
  case (Some j)
  have "approvals_kept db db'" using evaluate_result [OF assms(1,2,3) Some] by metis
  then show ?thesis using assms(4,5) by (auto simp: approvals_kept_def keeps_approval_def)
qed

definition sample_github :: github where
  "sample_github = \<lparr>gh_review_rounds = (\<lambda>_ _. 0), gh_changed_files = (\<lambda>_ _. Some [''a.py'']),
     gh_reviewer_logins = (\<lambda>_ _. None)\<rparr>"

definition sample_eval :: eval_args where
  "sample_eval = \<lparr>ev_org = ''o1'', ev_story = ''s1'', ev_pr_number = 7, ev_repo = ''Acme/Repo'', ev_ci = Some ''failure'',
     ev_pr = None, ev_threshold = DEFAULT_TRUST_THRESHOLD, ev_head_sha = Some ''bbb''\<rparr>"

definition sample_ids :: fresh_ids where
  "sample_ids = \<lparr>fi_gate = ''g9'', fi_pr_verdict = ''v8'', fi_ci_verdict = ''v9''\<rparr>"

definition sample_eval_db :: gate_db where
  "sample_eval_db = sample_trust_db\<lparr>t_verdicts := [], t_gates := t_gates sample_db\<rparr>"

text \<open>The unique keys of the tables an evaluation reads, and unused identifiers for what it adds.\<close>

definition eval_ready :: "fresh_ids \<Rightarrow> gate_db \<Rightarrow> bool" where
  "eval_ready ids db \<longleftrightarrow> unique_slots db \<and> unique_verdicts db \<and> distinct (map st_id (t_stories db))
     \<and> distinct (map gp_org (t_policies db)) \<and> fi_gate ids \<notin> g_id ` set (t_gates db)
     \<and> fi_pr_verdict ids \<notin> v_id ` set (t_verdicts db)"

lemma gate_tables_kept [simp]:
  "t_stories (upd_gate i f db) = t_stories db" "t_policies (upd_gate i f db) = t_policies db"
  "t_verdicts (upd_gate i f db) = t_verdicts db"
  by (simp_all add: upd_gate_def)

lemma resolve_tables [simp]:
  "t_stories (resolve_gate_from_verdict org wi wit src res resolver now db) = t_stories db"
  "t_policies (resolve_gate_from_verdict org wi wit src res resolver now db) = t_policies db"
  "t_verdicts (resolve_gate_from_verdict org wi wit src res resolver now db) = t_verdicts db"
  by (simp_all add: resolve_gate_from_verdict_def split: option.split)

lemma record_tables:
  "record_verdict org p src res rounds fresh now db = Inr db' \<Longrightarrow>
     t_stories db' = t_stories db \<and> t_policies db' = t_policies db \<and> t_participations db' = t_participations db \<and> t_roles db' = t_roles db"
  by (auto simp: record_verdict_def split: sum.splits option.splits)

lemma unique_verdicts_cong: "t_verdicts db = t_verdicts db' \<Longrightarrow> unique_verdicts db = unique_verdicts db'"
  by (simp add: unique_verdicts_def)

lemma capture_ci_total:
  assumes "unique_verdicts db"
  shows "\<exists>r db'. capture_ci org st p ci fresh now (rec, db) = Inr (r, db') \<and> t_stories db' = t_stories db \<and> t_policies db' = t_policies db"
proof (cases ci)
  case (Some c)
  obtain db1 where "record_verdict org p ''ci'' (Some (if py_lower c \<in> {''pass'', ''success''} then ''pass'' else ''fail'')) None fresh now db = Inr db1"
    using record_verdict_eq [OF assms] by blast
  with Some record_tables [OF this] show ?thesis by (simp add: capture_ci_def Let_def)
qed (simp add: capture_ci_def)

lemma capture_total:
  assumes u: "unique_verdicts db" and f: "f1 \<notin> v_id ` set (t_verdicts db)"
  shows "\<exists>cr db'. capture_pr_ci_verdict org st rounds merged ci f1 f2 now db = Inr (cr, db')
     \<and> t_stories db' = t_stories db \<and> t_policies db' = t_policies db"
proof (cases "resolve_implementation_participation db org st")
  case None
  then show ?thesis by (simp add: capture_pr_ci_verdict_def)
next
  case (Some p)
  show ?thesis
  proof (cases merged)
    case True
    obtain db1 where r: "record_verdict org (pa_id p) ''pr'' (Some ''pass'') (if rounds > 0 then Some rounds else None) f1 now db = Inr db1"
      using record_verdict_eq [OF u] by blast
    let ?db2 = "resolve_gate_from_verdict org st ''story'' ''pr'' (Some ''pass'') None now db1"
    have "unique_verdicts ?db2" using record_verdict_unique [OF u f r] unique_verdicts_cong [of ?db2 db1] by simp
    from capture_ci_total [OF this, of org st "pa_id p" ci f2 now "[''pr'']"] show ?thesis
      using Some True r record_tables [OF r] by (auto simp: capture_pr_ci_verdict_def)
  next
    case False
    from capture_ci_total [OF u, of org st "pa_id p" ci f2 now "[]"] show ?thesis
      using Some False by (auto simp: capture_pr_ci_verdict_def)
  qed
qed

lemma scalar_unique_key: "distinct (map k xs) \<Longrightarrow> \<exists>r. scalar_one_or_none (filter (\<lambda>x. k x = a) xs) = Inr r"
  by (simp add: filter_key_le1 split: option.split)

lemma scalar_unique_key2: "distinct (map k xs) \<Longrightarrow> \<exists>r. scalar_one_or_none (filter (\<lambda>x. k x = a \<and> P x) xs) = Inr r"
proof -
  assume d: "distinct (map k xs)"
  have "filter (\<lambda>x. k x = a \<and> P x) xs = filter P (filter (\<lambda>x. k x = a) xs)" by (simp add: conj_commute)
  then show ?thesis using d by (simp add: filter_key_le1 split: option.split)
qed

lemma find_slot_tables:
  "find_gate_slot_with_pr_fallback sl pr repo db = Inr (r, db') \<Longrightarrow> t_policies db' = t_policies db"
  by (auto simp: find_gate_slot_with_pr_fallback_def Let_def split: option.splits sum.splits if_splits)

lemma materialize_total:
  assumes u: "unique_slots db" and "distinct (map st_id (t_stories db))" and pol: "distinct (map gp_org (t_policies db))"
  shows "\<exists>md db'. materialize_gate gh a p ids now outcome self db = Inr (md, db')"
proof -
  obtain pid where 1: "story_project_id db (ev_org a) (ev_story a) = Inr pid"
    using scalar_unique_key2 [OF assms(2), of "ev_story a" "\<lambda>s. st_org s = ev_org a"] by (auto simp: story_project_id_def)
  obtain prior db1 where 2: "find_gate_slot_with_pr_fallback (merge_slot (ev_org a) (ev_story a)) (db_pr_number a) (db_repo a) db = Inr (prior, db1)"
    using find_gate_slot_total [OF u] by blast
  obtain q where 3: "scalar_one_or_none (filter (\<lambda>q. gp_org q = ev_org a) (t_policies db1)) = Inr q"
    using scalar_unique_key [OF pol] find_slot_tables [OF 2] by metis
  have "unique_slots db1" using find_gate_slot_result [OF u 2] by blast
  then obtain g db2 where "create_gate (merge_create_args a (pa_member p) (pa_role p) (eval_facts gh a (pa_member p) outcome self) pid
      (case q of None \<Rightarrow> None | Some q \<Rightarrow> gp_merge_default_approver q)) (fi_gate ids) now db1 = Inr (g, db2)"
    using create_gate_total by blast
  with 1 2 3 show ?thesis by (simp add: materialize_gate_def Let_def split: prod.split)
qed

lemma evaluate_total:
  assumes "eval_ready ids db"
  shows "\<exists>md db'. evaluate_merge_gate gh a ids now db = Inr (md, db')"
proof (cases "resolve_implementation_participation db (ev_org a) (ev_story a)")
  case None
  then show ?thesis by (simp add: evaluate_merge_gate_def)
next
  case (Some p)
  show ?thesis
  proof (cases "no_substance db a p")
    case None
    obtain cr db1 where c: "capture_pr_ci_verdict (ev_org a) (ev_story a) (gh_review_rounds gh (ev_repo a) (ev_pr_number a))
       (normalize_result (ev_pr a) = Some ''pass'') (ev_ci a) (fi_pr_verdict ids) (fi_ci_verdict ids) now db = Inr (cr, db1)"
      and t: "t_stories db1 = t_stories db" "t_policies db1 = t_policies db"
      using capture_total assms unfolding eval_ready_def by blast
    have "unique_slots db1" using capture_safe [OF _ c] assms by (simp add: safe_step_def eval_ready_def)
    from materialize_total [OF this] Some None c t assms show ?thesis
      by (simp add: evaluate_merge_gate_def Let_def eval_ready_def)
  qed (simp add: evaluate_merge_gate_def Some)
qed



lemma evaluate_ready:
  "eval_ready ids db \<Longrightarrow> evaluate_merge_gate gh a ids now db
    = Inr (fst (projr (evaluate_merge_gate gh a ids now db)), snd (projr (evaluate_merge_gate gh a ids now db)))"
  using evaluate_total [of ids db gh a now] by auto

lemma sample_ready: "eval_ready sample_ids sample_eval_db"
  by code_simp

theorem evaluation_keeps_human_approval_witness:
  "let r = projr (evaluate_merge_gate sample_github sample_eval sample_ids 900 sample_eval_db);
       g = the (get_gate ''g2'' sample_eval_db)
   in \<exists>g'. get_gate ''g2'' (snd r) = Some g' \<and> g_status g' = Approved \<and> g_approved_head_sha g' = g_approved_head_sha g
     \<and> g_resolver_id g' = g_resolver_id g \<and> g_resolved_at g' = g_resolved_at g"
  unfolding Let_def
proof (rule evaluation_keeps_human_approval [OF _ _ evaluate_ready [OF sample_ready]])
  show "unique_slots sample_eval_db" by code_simp
  show "fi_gate sample_ids \<notin> g_id ` set (t_gates sample_eval_db)" by code_simp
  show "get_gate ''g2'' sample_eval_db = Some (the (get_gate ''g2'' sample_eval_db))" by code_simp
  show "g_status (the (get_gate ''g2'' sample_eval_db)) = Approved" by code_simp
qed

lemma settled_status:
  "g_status (resubmitted facts b now g) \<notin> {Rejected, Voided}"
  by (simp add: resubmitted_status)

text \<open>
  An evaluation that reaches a gate blocks exactly when the CI result counts as a failure. A policy
  that denies the merge does not block: a rejected gate is opened again before the decision, so the
  decision's branch for a denied policy is never taken.
\<close>

lemma blocks_exactly_on_ci_failure:
  assumes "evaluate_merge_gate gh a ids now db = Inr (md, db')" and "md_gate_id md \<noteq> None"
  shows "md_decision md = Block \<longleftrightarrow> normalize_result (ev_ci a) = Some ''fail''"
proof -
  from assms obtain p outcome capture self db1 project prior db2 policy g db3 g' where
    "resolve_implementation_participation db (ev_org a) (ev_story a) = Some p"
    "outcome = outcome_stats_of (compute_member_trust_scores db (ev_org a) (pa_member p)
       (role_key_of db (pa_role p)) 90 False now) (role_key_of db (pa_role p))"
    "capture_pr_ci_verdict (ev_org a) (ev_story a) (gh_review_rounds gh (ev_repo a) (ev_pr_number a))
       (normalize_result (ev_pr a) = Some ''pass'') (ev_ci a) (fi_pr_verdict ids) (fi_ci_verdict ids) now db = Inr (capture, db1)"
    "find_gate_slot_with_pr_fallback (merge_slot (ev_org a) (ev_story a)) (db_pr_number a) (db_repo a) db1 = Inr (prior, db2)"
    "create_gate (merge_create_args a (pa_member p) (pa_role p) (eval_facts gh a (pa_member p) outcome self) project policy)
       (fi_gate ids) now db2 = Inr (g, db3)"
    and s: "settle_gate a (eval_facts gh a (pa_member p) outcome self) outcome self prior now g = (md, g')"
    and "db' = upd_gate (g_id g) (\<lambda>_. g') db3"
    by (rule evaluate_gate_cases)
  show ?thesis using settle_gate_eq(1) [OF s] settled_status by (simp add: settled_def decide_block)
qed

definition sample_denied_db :: gate_db where
  "sample_denied_db = sample_eval_db\<lparr>t_gates := [], t_member_overrides := [
     \<lparr>mo_org = ''o1'', mo_member = ''m1'', mo_gate_type = ''merge'', mo_disposition = ''deny''\<rparr>]\<rparr>"

lemma substance_reaches_gate:
  assumes "evaluate_merge_gate gh a ids now db = Inr (md, db')" and "0 < ev_pr_number a"
    and "resolve_implementation_participation db (ev_org a) (ev_story a) \<noteq> None"
  shows "md_gate_id md \<noteq> None"
proof -
  obtain p where p: "resolve_implementation_participation db (ev_org a) (ev_story a) = Some p" using assms(3) by blast
  have n: "no_substance db a p = None" using assms(2) by (simp add: no_substance_def)
  show ?thesis using assms(1) p n
    by (auto simp: evaluate_merge_gate_def materialize_gate_def Let_def
        dest!: settle_gate_eq(3) split: sum.splits prod.splits option.splits)
qed

lemma blocks_exactly_on_ci_failure_witness:
  "let md = fst (projr (evaluate_merge_gate sample_github (sample_eval\<lparr>ev_ci := Some ''success''\<rparr>) sample_ids 900 sample_denied_db))
   in md_decision md = Block \<longleftrightarrow> normalize_result (Some ''success'') = Some ''fail''"
  unfolding Let_def
proof -
  have r: "eval_ready sample_ids sample_denied_db" by code_simp
  have "md_gate_id (fst (projr (evaluate_merge_gate sample_github (sample_eval\<lparr>ev_ci := Some ''success''\<rparr>) sample_ids 900 sample_denied_db))) \<noteq> None"
    by (rule substance_reaches_gate [OF evaluate_ready [OF r]]) code_simp+
  from blocks_exactly_on_ci_failure [OF evaluate_ready [OF r] this]
  show "md_decision (fst (projr (evaluate_merge_gate sample_github (sample_eval\<lparr>ev_ci := Some ''success''\<rparr>) sample_ids 900 sample_denied_db)))
      = Block \<longleftrightarrow> normalize_result (Some ''success'') = Some ''fail''" by simp
qed

lemma outcome_hit_le:
  "os_hit (outcome_stats_of (compute_member_trust_scores db org m rk' days leg now) rk)
     \<le> os_resolved (outcome_stats_of (compute_member_trust_scores db org m rk' days leg now) rk)"
proof (cases "List.find (\<lambda>s. rk = None \<or> Some (sc_role_key s) = rk) (tr_scores (compute_member_trust_scores db org m rk' days leg now))")
  case None
  then show ?thesis by (simp add: outcome_stats_of_def no_outcome_def)
next
  case (Some s)
  then have "s \<in> set (map score_of (final_buckets db org m rk' days leg now))"
    using find_SomeD [OF Some] by (simp add: compute_scores)
  then obtain k b where b: "(k, b) \<in> set (final_buckets db org m rk' days leg now)" "s = score_of (k, b)" by auto
  have "length (filter (\<lambda>v. is_outcome v \<and> v_result v = Some ''pass'') vs)
      \<le> length (filter (\<lambda>v. is_outcome v \<and> v_result v \<in> {Some ''pass'', Some ''fail''}) vs)" for vs
    by (induction vs) auto
  then have "b_hit b \<le> b_resolved b" using final_bucket_counts [OF b(1)] by (simp add: counts_def)
  then show ?thesis using Some b(2) by (simp add: outcome_stats_of_def stats_of_score_def score_of_def)
qed

lemma outcome_lower_bound:
  "os_lower_bound (outcome_stats_of tr rk) = wilson_lower_bound (os_hit (outcome_stats_of tr rk)) (os_resolved (outcome_stats_of tr rk)) wilson_z"
  by (simp add: outcome_stats_of_def no_outcome_def stats_of_score_def wilson_lower_bound_def split: option.split)

text \<open>
  C2: Nothing is merged without a person unless everything speaks for it. When an evaluation that
  reaches a gate answers an automatic merge, the CI result and the pull request count as passed, the
  gate is auto-passed by policy and at least three outcomes of the member are resolved; at the default
  threshold it takes at least sixteen, because a perfect record of fewer stays below the bound.
\<close>

theorem auto_merge_needs_evidence:
  assumes "unique_slots db" and "fi_gate ids \<notin> g_id ` set (t_gates db)"
    and "evaluate_merge_gate gh a ids now db = Inr (md, db')" and "md_gate_id md = Some i"
    and "md_decision md = Auto_merge"
  shows "normalize_result (ev_ci a) = Some ''pass'' \<and> normalize_result (ev_pr a) = Some ''pass''
     \<and> md_gate_status md = Some Auto_passed \<and> 3 \<le> md_resolved md
     \<and> (ev_threshold a = DEFAULT_TRUST_THRESHOLD \<longrightarrow> 16 \<le> md_resolved md)"
proof -
  from evaluate_result [OF assms(1-4)] obtain facts outcome self prior g g' and p :: participation where
    s: "settle_gate a facts outcome self prior now g = (md, g')"
    and o: "outcome = outcome_stats_of (compute_member_trust_scores db (ev_org a) (pa_member p)
       (role_key_of db (pa_role p)) 90 False now) (role_key_of db (pa_role p))" by metis
  have d: "normalize_result (ev_ci a) = Some ''pass''" "normalize_result (ev_pr a) = Some ''pass''"
    "g_status (resubmitted facts (prior \<noteq> None) now g) = Auto_passed" "MIN_OUTCOME_SAMPLE \<le> os_resolved outcome"
    "ev_threshold a \<le> os_lower_bound outcome"
  proof -
    have "fst (settled a facts outcome self prior now g) = Auto_merge" using settle_gate_eq(1) [OF s] assms(5) by simp
    then show "normalize_result (ev_ci a) = Some ''pass''" "normalize_result (ev_pr a) = Some ''pass''"
      "g_status (resubmitted facts (prior \<noteq> None) now g) = Auto_passed" "MIN_OUTCOME_SAMPLE \<le> os_resolved outcome"
      "ev_threshold a \<le> os_lower_bound outcome" unfolding settled_def decide_auto by blast+
  qed
  have "md_gate_status md = Some Auto_passed"
    using settle_gate_eq(2,4) [OF s] d(3) assms(5) by (simp add: anchor_def)
  moreover have "16 \<le> os_resolved outcome" if "ev_threshold a = DEFAULT_TRUST_THRESHOLD"
    using d(5) that wilson_threshold_sample outcome_hit_le outcome_lower_bound unfolding o by metis
  ultimately show ?thesis using d settle_gate_eq(5) [OF s] by (auto simp: MIN_OUTCOME_SAMPLE_def)
qed

definition sample_auto_db :: gate_db where
  "sample_auto_db = sample_trust_db\<lparr>
     t_policies := [\<lparr>gp_org = ''o1'', gp_posture = ''permissive'', gp_merge_default_approver = None\<rparr>],
     t_stories := map (\<lambda>i. sample_story i None) [''s1'', ''s2''],
     t_participations := [\<lparr>pa_id = ''p1'', pa_org = ''o1'', pa_story = ''s1'', pa_member = ''m1'', pa_role = ''r1'', pa_created_at = 5\<rparr>,
         \<lparr>pa_id = ''p2'', pa_org = ''o1'', pa_story = ''s2'', pa_member = ''m1'', pa_role = ''r1'', pa_created_at = 5\<rparr>],
     t_verdicts := [verdict_row ''v1'' ''o1'' ''p1'' ''hypothesis_outcome_bet'' (Some ''pass'') None 100,
         verdict_row ''v2'' ''o1'' ''p1'' ''hypothesis_outcome_execution'' (Some ''pass'') None 100,
         verdict_row ''v3'' ''o1'' ''p2'' ''hypothesis_outcome_bet'' (Some ''pass'') None 100,
         verdict_row ''v4'' ''o1'' ''p2'' ''hypothesis_outcome_execution'' (Some ''pass'') None 100]\<rparr>"

definition sample_auto_eval :: eval_args where
  "sample_auto_eval = sample_eval\<lparr>ev_ci := Some ''success'', ev_pr := Some ''pass'', ev_threshold := 1 / 2\<rparr>"

theorem auto_merge_needs_evidence_witness:
  "let md = fst (projr (evaluate_merge_gate sample_github sample_auto_eval sample_ids 900 sample_auto_db))
   in normalize_result (ev_ci sample_auto_eval) = Some ''pass'' \<and> normalize_result (ev_pr sample_auto_eval) = Some ''pass''
     \<and> md_gate_status md = Some Auto_passed \<and> 3 \<le> md_resolved md
     \<and> (ev_threshold sample_auto_eval = DEFAULT_TRUST_THRESHOLD \<longrightarrow> 16 \<le> md_resolved md)"
  unfolding Let_def
proof (rule auto_merge_needs_evidence)
  let ?r = "evaluate_merge_gate sample_github sample_auto_eval sample_ids 900 sample_auto_db"
  have r: "eval_ready sample_ids sample_auto_db" by code_simp
  then show "unique_slots sample_auto_db" "fi_gate sample_ids \<notin> g_id ` set (t_gates sample_auto_db)"
    by (simp_all add: eval_ready_def)
  show "?r = Inr (fst (projr ?r), snd (projr ?r))" by (rule evaluate_ready [OF r])
  show "md_gate_id (fst (projr ?r)) = Some ''g9''" by code_simp
  show "md_decision (fst (projr ?r)) = Auto_merge" by code_simp
qed

text \<open>
  The gate row says what was decided: it needs a person exactly when the decision is not an automatic
  merge, its evidence status is that of the decision, and an auto-passed gate carries an approved
  commit only when this evaluation decided an automatic merge, so that no commit is published as passed
  on evidence that no longer holds.
\<close>

lemma gate_row_records_decision:
  assumes "unique_slots db" and "fi_gate ids \<notin> g_id ` set (t_gates db)"
    and "evaluate_merge_gate gh a ids now db = Inr (md, db')" and "md_gate_id md = Some i"
  shows "\<exists>g. get_gate i db' = Some g \<and> md_gate_status md = Some (g_status g)
     \<and> (g_requires_human g \<longleftrightarrow> md_decision md \<noteq> Auto_merge)
     \<and> g_evidence_status g = Some (evidence_status (md_decision md))
     \<and> (g_status g = Auto_passed \<and> is_set (g_approved_head_sha g) \<longrightarrow> md_decision md = Auto_merge)
     \<and> (md_decision md = Auto_merge \<and> is_set (ev_head_sha a) \<longrightarrow> g_approved_head_sha g = ev_head_sha a)"
proof -
  from evaluate_result [OF assms] obtain facts outcome self prior g g' where
    s: "settle_gate a facts outcome self prior now g = (md, g')" and g: "get_gate i db' = Some g'" by metis
  have "g_status g' = Auto_passed \<and> is_set (g_approved_head_sha g') \<longrightarrow> md_decision md = Auto_merge"
    using settle_gate_eq(2) [OF s] by (auto simp: anchor_def)
  moreover have "md_decision md = Auto_merge \<and> is_set (ev_head_sha a) \<longrightarrow> g_approved_head_sha g' = ev_head_sha a"
    using settle_gate_eq(2) [OF s] by (auto simp: anchor_def)
  ultimately show ?thesis using g settle_gate_eq(2,4) [OF s] by auto
qed

lemma gate_row_records_decision_witness:
  "let r = projr (evaluate_merge_gate sample_github sample_auto_eval sample_ids 900 sample_auto_db); md = fst r
   in \<exists>g. get_gate ''g9'' (snd r) = Some g \<and> md_gate_status md = Some (g_status g)
     \<and> (g_requires_human g \<longleftrightarrow> md_decision md \<noteq> Auto_merge)
     \<and> g_evidence_status g = Some (evidence_status (md_decision md))
     \<and> (g_status g = Auto_passed \<and> is_set (g_approved_head_sha g) \<longrightarrow> md_decision md = Auto_merge)
     \<and> (md_decision md = Auto_merge \<and> is_set (ev_head_sha sample_auto_eval) \<longrightarrow> g_approved_head_sha g = ev_head_sha sample_auto_eval)"
  unfolding Let_def
proof (rule gate_row_records_decision)
  let ?r = "evaluate_merge_gate sample_github sample_auto_eval sample_ids 900 sample_auto_db"
  have r: "eval_ready sample_ids sample_auto_db" by code_simp
  then show "unique_slots sample_auto_db" "fi_gate sample_ids \<notin> g_id ` set (t_gates sample_auto_db)"
    by (simp_all add: eval_ready_def)
  show "?r = Inr (fst (projr ?r), snd (projr ?r))" by (rule evaluate_ready [OF r])
  show "md_gate_id (fst (projr ?r)) = Some ''g9''" by code_simp
qed

section \<open>Behaviours beside the intent\<close>

text \<open>
  A run that CI cancelled, skipped or ended neutral counts as a failure at the merge gate although
  the capture of verdicts treats it as not judged: the webhook's reading of such a conclusion leaves
  every verdict as it is when the pull request is not merged, and the evaluation that follows blocks.
\<close>

lemma cancelled_run_blocks_merge_gate:
  assumes "conclusion \<in> set CI_CANCELLED" and "eval_ready ids db" and "0 < ev_pr_number a"
    and "resolve_implementation_participation db (ev_org a) (ev_story a) \<noteq> None"
  shows "(\<exists>cr. capture_pr_ci_verdict (ev_org a) (ev_story a) rounds False (normalize_ci (Some conclusion)) f1 f2 now db = Inr (cr, db)
          \<and> cr_recorded cr = [])
     \<and> (\<exists>md db'. evaluate_merge_gate gh (a\<lparr>ev_ci := normalize_ci (Some conclusion)\<rparr>) ids now db = Inr (md, db')
          \<and> md_decision md = Block)"
proof -
  have "list_all (\<lambda>x. normalize_ci (Some x) = Some ''cancelled'') CI_CANCELLED" by code_simp
  then have c: "normalize_ci (Some conclusion) = Some ''cancelled''" using assms(1) by (simp add: list_all_iff)
  have l: "py_lower ''cancelled'' = ''cancelled''" by code_simp
  have n: "normalize_result (Some ''cancelled'') = Some ''fail''" by code_simp
  let ?a = "a\<lparr>ev_ci := Some ''cancelled''\<rparr>"
  obtain p where p: "resolve_implementation_participation db (ev_org a) (ev_story a) = Some p" using assms(4) by blast
  obtain md db' where e: "evaluate_merge_gate gh ?a ids now db = Inr (md, db')" using evaluate_total [OF assms(2)] by blast
  have "md_gate_id md \<noteq> None" by (rule substance_reaches_gate [OF e]) (use assms in simp_all)
  from e this obtain p' outcome capture self db1 project prior db2 policy g db3 g' where
    "resolve_implementation_participation db (ev_org ?a) (ev_story ?a) = Some p'"
    "outcome = outcome_stats_of (compute_member_trust_scores db (ev_org ?a) (pa_member p')
       (role_key_of db (pa_role p')) 90 False now) (role_key_of db (pa_role p'))"
    "capture_pr_ci_verdict (ev_org ?a) (ev_story ?a) (gh_review_rounds gh (ev_repo ?a) (ev_pr_number ?a))
       (normalize_result (ev_pr ?a) = Some ''pass'') (ev_ci ?a) (fi_pr_verdict ids) (fi_ci_verdict ids) now db = Inr (capture, db1)"
    "find_gate_slot_with_pr_fallback (merge_slot (ev_org ?a) (ev_story ?a)) (db_pr_number ?a) (db_repo ?a) db1 = Inr (prior, db2)"
    "create_gate (merge_create_args ?a (pa_member p') (pa_role p') (eval_facts gh ?a (pa_member p') outcome self) project policy)
       (fi_gate ids) now db2 = Inr (g, db3)"
    and s: "settle_gate ?a (eval_facts gh ?a (pa_member p') outcome self) outcome self prior now g = (md, g')"
    and "db' = upd_gate (g_id g) (\<lambda>_. g') db3"
    by (rule evaluate_gate_cases)
  have "md_decision md = Block" using settle_gate_eq(1) [OF s] by (simp add: settled_def decide_block n)
  then show ?thesis using e p by (simp add: c capture_pr_ci_verdict_def capture_ci_def l)
qed

lemma cancelled_run_blocks_merge_gate_witness:
  "(\<exists>cr. capture_pr_ci_verdict (ev_org sample_eval) (ev_story sample_eval) 0 False (normalize_ci (Some ''skipped'')) ''a'' ''b'' 900
        sample_eval_db = Inr (cr, sample_eval_db) \<and> cr_recorded cr = [])
     \<and> (\<exists>md db'. evaluate_merge_gate sample_github (sample_eval\<lparr>ev_ci := normalize_ci (Some ''skipped'')\<rparr>) sample_ids 900
          sample_eval_db = Inr (md, db') \<and> md_decision md = Block)"
proof (rule cancelled_run_blocks_merge_gate)
  show "''skipped'' \<in> set CI_CANCELLED" by code_simp
  show "eval_ready sample_ids sample_eval_db" by (rule sample_ready)
  show "0 < ev_pr_number sample_eval" by code_simp
  show "resolve_implementation_participation sample_eval_db (ev_org sample_eval) (ev_story sample_eval) \<noteq> None" by code_simp
qed

text \<open>
  When an evaluation withdraws an automatic merge, the gate it re-opens breaks the meaning of the
  resolution columns that every other path keeps: it is pending and still carries the time of its
  resolution, and the time it entered its status is not the time of the change.
\<close>

lemma withdrawn_auto_merge_keeps_resolution:
  assumes "g_status g = Auto_passed" and "gate_ok g" and "is_set (g_approved_head_sha g)"
    and "settle_gate a facts outcome self prior now g = (md, g')" and "md_decision md \<noteq> Auto_merge"
  shows "g_status g' = Pending \<and> g_resolved_at g' \<noteq> None \<and> \<not> gate_ok g' \<and> g_status_entered_at g' = g_status_entered_at g"
proof -
  have r: "g_status (resubmitted facts b now g) = Auto_passed" "g_approved_head_sha (resubmitted facts b now g) = g_approved_head_sha g"
    "g_resolved_at (resubmitted facts b now g) = g_resolved_at g"
    "g_status_entered_at (resubmitted facts b now g) = g_status_entered_at g" for b
    using assms(1) by (simp_all add: resubmitted_def)
  have "g_status_entered_at (write_decision d x now y) = g_status_entered_at y" for d x y
    by (simp add: write_decision_def set_gate_evidence_status_def)
  then have "g_status g' = Pending" "g_resolved_at g' = g_resolved_at g" "g_status_entered_at g' = g_status_entered_at g"
    using settle_gate_eq(2) [OF assms(4)] assms(3,5) r by (simp_all add: anchor_def)
  moreover have "g_resolved_at g \<noteq> None" using assms(1,2) by (simp add: gate_ok_def)
  ultimately show ?thesis by (simp add: gate_ok_def)
qed

definition sample_anchored :: gate where
  "sample_anchored = sample_gate\<lparr>g_status := Auto_passed, g_resolved_at := Some 100, g_approved_head_sha := Some ''aaa''\<rparr>"

lemma withdrawn_auto_merge_keeps_resolution_witness:
  "let g' = snd (settle_gate sample_eval [] no_outcome False None 900 sample_anchored)
   in g_status g' = Pending \<and> g_resolved_at g' \<noteq> None \<and> \<not> gate_ok g' \<and> g_status_entered_at g' = g_status_entered_at sample_anchored"
  unfolding Let_def
proof (rule withdrawn_auto_merge_keeps_resolution)
  show "g_status sample_anchored = Auto_passed" "gate_ok sample_anchored" "is_set (g_approved_head_sha sample_anchored)" by code_simp+
  show "settle_gate sample_eval [] no_outcome False None 900 sample_anchored
    = (fst (settle_gate sample_eval [] no_outcome False None 900 sample_anchored),
       snd (settle_gate sample_eval [] no_outcome False None 900 sample_anchored))" by simp
  show "md_decision (fst (settle_gate sample_eval [] no_outcome False None 900 sample_anchored)) \<noteq> Auto_merge" by code_simp
qed

section \<open>What webhook evidence may reach\<close>

text \<open>
  CI evidence does not reach into what a person has decided or put on hold: when the gate of the
  pull request's slot is rejected, voided, held or approved and no open merge gate waits on the same
  commit, the reconciliation answers nothing and changes no gate but for a pull request or repository it fills in.
\<close>

lemma reconcile_leaves_decided_gates:
  assumes "unique_slots db"
    and "find_gate_slot_with_pr_fallback (merge_slot (ev_org a) (ev_story a)) (db_pr_number a) (db_repo a) db = Inr (Some g, db1)"
    and "g_status g \<in> {Rejected, Voided, Held, Approved}"
    and "\<forall>sha. ev_head_sha a = Some sha \<longrightarrow> find_pending_merge_gates_by_head_sha (ev_org a) sha db1 = []"
  shows "reconcile_merge_gate_with_real_evidence gh a merged ids sids now db = Inr (None, [], db1)
     \<and> list_all2 promotes (t_gates db) (t_gates db1)"
proof -
  have "list_all2 promotes (t_gates db) (t_gates db1)" using find_gate_slot_result [OF assms(1,2)] by blast
  then show ?thesis using assms(2-4)
    by (auto simp: reconcile_merge_gate_with_real_evidence_def is_set_def Let_def)
qed

lemma reconcile_leaves_decided_gates_witness:
  "let db = empty_db\<lparr>t_gates := [sample_gate\<lparr>g_status := Held\<rparr>]\<rparr>;
       db1 = snd (projr (find_gate_slot_with_pr_fallback (merge_slot (ev_org sample_eval) (ev_story sample_eval))
               (db_pr_number sample_eval) (db_repo sample_eval) db))
   in reconcile_merge_gate_with_real_evidence sample_github sample_eval True sample_ids (\<lambda>_. sample_ids) 900 db = Inr (None, [], db1)
     \<and> list_all2 promotes (t_gates db) (t_gates db1)"
  unfolding Let_def
proof (rule reconcile_leaves_decided_gates)
  let ?db = "empty_db\<lparr>t_gates := [sample_gate\<lparr>g_status := Held\<rparr>]\<rparr>"
  let ?f = "find_gate_slot_with_pr_fallback (merge_slot (ev_org sample_eval) (ev_story sample_eval))
               (db_pr_number sample_eval) (db_repo sample_eval) ?db"
  show "unique_slots ?db" by code_simp
  show "?f = Inr (Some (the (fst (projr ?f))), snd (projr ?f))" by code_simp
  show "g_status (the (fst (projr ?f))) \<in> {Rejected, Voided, Held, Approved}" by code_simp
  have "find_pending_merge_gates_by_head_sha (ev_org sample_eval) ''bbb'' (snd (projr ?f)) = []" by code_simp
  then show "\<forall>sha. ev_head_sha sample_eval = Some sha \<longrightarrow> find_pending_merge_gates_by_head_sha (ev_org sample_eval) sha (snd (projr ?f)) = []"
    by (simp add: sample_eval_def)
qed

end
