(* ===== verification/Connections.thy ===== *)
theory Connections
  imports Prelude
begin

text \<open>
  The state of a channel connection (models/channel_connection.py) and the rules that move it
  (services/graph_api_errors.py, services/channel_connection.py): which provider errors mean that a
  person has to reconnect, and which status such an error leaves on the connection. The credential is
  the decrypted access token; the other columns that the publication services do not read are left out.
\<close>

datatype conn_status = Conn_active | Conn_expired | Conn_revoked | Conn_error

record connection =
  cn_id :: uuid
  cn_channel :: string
  cn_account_id :: string
  cn_access_token :: "string option"
  cn_status :: conn_status
  cn_last_error :: "string option"
  cn_last_error_code :: "string option"
  cn_last_error_at :: "timestamp option"

section \<open>Errors of the Graph API\<close>

definition EXPIRED_SUBCODES :: "int list" where "EXPIRED_SUBCODES = [463]"

definition REVOKED_SUBCODES :: "int list" where "REVOKED_SUBCODES = [458, 460, 467, 490]"

definition OAUTH_ERROR_CODE :: int where "OAUTH_ERROR_CODE = 190"

definition PERMISSION_ERROR_CODE :: int where "PERMISSION_ERROR_CODE = 10"

definition RATE_LIMIT_CODES :: "int list" where "RATE_LIMIT_CODES = [4, 17, 32, 613]"

fun classify_graph_oauth_error :: "int option \<Rightarrow> int option \<Rightarrow> conn_status option" where
  "classify_graph_oauth_error None sub = None"
| "classify_graph_oauth_error (Some code) sub =
     (if code \<in> set RATE_LIMIT_CODES then None
      else if code = OAUTH_ERROR_CODE then
        (case sub of
           None \<Rightarrow> Some Conn_error
         | Some s \<Rightarrow> if s \<in> set EXPIRED_SUBCODES then Some Conn_expired
                    else if s \<in> set REVOKED_SUBCODES then Some Conn_revoked
                    else Some Conn_error)
      else if code = PERMISSION_ERROR_CODE \<or> (200 \<le> code \<and> code < 300) then Some Conn_error
      else None)"

definition classify_graph_error_code :: "int \<Rightarrow> int option \<Rightarrow> int option \<Rightarrow> string" where
  "classify_graph_error_code status_code code sub =
     (case classify_graph_oauth_error code sub of
        Some Conn_expired \<Rightarrow> ''CHANNEL_TOKEN_EXPIRED''
      | Some Conn_revoked \<Rightarrow> ''CHANNEL_CONNECTION_REVOKED''
      | Some _ \<Rightarrow> ''CHANNEL_CONNECTION_AUTH_ERROR''
      | None \<Rightarrow>
          if status_code = 401 \<or> status_code = 403 then ''CHANNEL_TOKEN_EXPIRED''
          else if status_code = 429 then ''CHANNEL_RATE_LIMITED''
          else ''CHANNEL_PUBLISH_PROVIDER_ERROR'')"

section \<open>The status a failure leaves\<close>

definition CONNECTION_ERROR_CODE_TO_STATUS :: "(string \<times> conn_status) list" where
  "CONNECTION_ERROR_CODE_TO_STATUS =
     [(''CHANNEL_CONNECTION_REVOKED'', Conn_revoked), (''CHANNEL_CONNECTION_AUTH_ERROR'', Conn_error),
      (''STIBEE_PLAN_RESTRICTED'', Conn_error), (''GHOST_AUTH_FAILED'', Conn_error)]"

definition sticky_connection_status :: "conn_status \<Rightarrow> conn_status \<Rightarrow> conn_status" where
  "sticky_connection_status current new =
     (if current \<in> {Conn_revoked, Conn_expired} then current
      else if current = Conn_error \<and> new = Conn_error then current
      else new)"

definition connection_status_for_error_code :: "string option \<Rightarrow> conn_status \<Rightarrow> conn_status" where
  "connection_status_for_error_code err current =
     sticky_connection_status current
       (case err of
          None \<Rightarrow> Conn_expired
        | Some e \<Rightarrow> (case map_of CONNECTION_ERROR_CODE_TO_STATUS e of None \<Rightarrow> Conn_expired | Some s \<Rightarrow> s))"

definition mark_connection_failed :: "string option \<Rightarrow> string option \<Rightarrow> timestamp \<Rightarrow> connection \<Rightarrow> connection" where
  "mark_connection_failed err message now cn =
     cn\<lparr>cn_status := connection_status_for_error_code err (cn_status cn),
        cn_last_error := Some (take 2000 (case message of None \<Rightarrow> [] | Some m \<Rightarrow> m)),
        cn_last_error_code := err, cn_last_error_at := Some now\<rparr>"

definition mark_connection_recovered :: "connection \<Rightarrow> connection" where
  "mark_connection_recovered cn =
     cn\<lparr>cn_status := Conn_active, cn_last_error := None, cn_last_error_code := None, cn_last_error_at := None\<rparr>"

definition apply_connection_failure :: "conn_status \<Rightarrow> string \<Rightarrow> string option \<Rightarrow> timestamp
    \<Rightarrow> connection \<Rightarrow> connection" where
  "apply_connection_failure status message err now cn =
     (let cn1 = cn\<lparr>cn_last_error := Some (take 2000 message),
                   cn_status := sticky_connection_status (cn_status cn) status\<rparr>
      in case err of
           None \<Rightarrow> cn1
         | Some e \<Rightarrow> cn1\<lparr>cn_last_error_code := Some e, cn_last_error_at := Some now\<rparr>)"

section \<open>Failures of a connection\<close>

text \<open>
  What the two marking operations have in common: the identity and credential stay, and the status
  moves by the sticky rule towards some failure.
\<close>

definition fails_to :: "connection \<Rightarrow> connection \<Rightarrow> bool" where
  "fails_to cn cn' \<longleftrightarrow> cn_id cn' = cn_id cn \<and> cn_channel cn' = cn_channel cn
     \<and> cn_access_token cn' = cn_access_token cn
     \<and> (\<exists>s. s \<noteq> Conn_active \<and> cn_status cn' = sticky_connection_status (cn_status cn) s)"

lemma status_of_code_failed:
  "(case err of None \<Rightarrow> Conn_expired
    | Some e \<Rightarrow> (case map_of CONNECTION_ERROR_CODE_TO_STATUS e of None \<Rightarrow> Conn_expired | Some s \<Rightarrow> s)) \<noteq> Conn_active"
  by (simp add: CONNECTION_ERROR_CODE_TO_STATUS_def split: option.split)

lemma mark_connection_failed_fails: "fails_to cn (mark_connection_failed err msg now cn)"
proof -
  have "\<exists>s. s \<noteq> Conn_active \<and> connection_status_for_error_code err (cn_status cn) = sticky_connection_status (cn_status cn) s"
    unfolding connection_status_for_error_code_def using status_of_code_failed by blast
  then show ?thesis by (simp add: fails_to_def mark_connection_failed_def)
qed

lemma apply_connection_failure_fails:
  "s \<noteq> Conn_active \<Longrightarrow> fails_to cn (apply_connection_failure s msg err now cn)"
  by (auto simp: fails_to_def apply_connection_failure_def Let_def split: option.split)

lemma sticky_final: "current \<in> {Conn_expired, Conn_revoked} \<Longrightarrow> sticky_connection_status current s = current"
  by (auto simp: sticky_connection_status_def)

lemma sticky_not_active: "s \<noteq> Conn_active \<Longrightarrow> sticky_connection_status current s \<noteq> Conn_active"
  by (auto simp: sticky_connection_status_def)

lemma sticky_from_active: "sticky_connection_status Conn_active s = s"
  by (simp add: sticky_connection_status_def)

lemma fails_to_not_active: "fails_to cn cn' \<Longrightarrow> cn_status cn' \<noteq> Conn_active"
  unfolding fails_to_def using sticky_not_active by metis

lemma fails_to_final:
  "fails_to cn cn' \<Longrightarrow> cn_status cn \<in> {Conn_expired, Conn_revoked} \<Longrightarrow> cn_status cn' = cn_status cn"
  by (auto simp: fails_to_def sticky_final)

lemma fails_run:
  assumes "fails_to\<^sup>*\<^sup>* cn cn'" "cn_status cn \<noteq> Conn_active"
  shows "cn_status cn' \<noteq> Conn_active \<and> (cn_status cn \<in> {Conn_expired, Conn_revoked} \<longrightarrow> cn_status cn' = cn_status cn)"
  using assms(1)
proof (induction rule: rtranclp_induct)
  case base
  show ?case using assms(2) by simp
next
  case (step y z)
  then show ?case using fails_to_not_active [OF step.hyps(2)] fails_to_final [OF step.hyps(2)] by auto
qed

lemma rate_limit_is_no_connection_error:
  "code \<in> set RATE_LIMIT_CODES \<Longrightarrow> classify_graph_oauth_error (Some code) sub = None"
  by simp

end
