(* ===== verification/Sha256.thy ===== *)
theory Sha256
  imports Prelude "HOL-Library.Word"
begin

text \<open>
  The hash of the standard library that seals texts: \<^verbatim>\<open>hashlib.sha256(text.encode("utf-8")).hexdigest()\<close>,
  on 32-bit words with wrap-around addition. Characters have code points below 256, so that their
  UTF-8 form has one or two bytes.
\<close>

unbundle bit_operations_syntax

type_synonym w32 = "32 word"

definition utf8_encode :: "string \<Rightarrow> int list" where
  "utf8_encode s = concat (map (\<lambda>c. let n = (of_char c :: int)
     in if n < 128 then [n] else [192 + n div 64, 128 + n mod 64]) s)"

text \<open>
  The constants of the standard are the first 32 bits of the fractional parts of the cube roots of the
  first 64 primes, and of the square roots of the first 8. The root is found binary digit by digit.
\<close>

definition primes_to :: "int \<Rightarrow> int list" where
  "primes_to m = filter (\<lambda>n. list_all (\<lambda>d. n mod d \<noteq> 0) (takeWhile (\<lambda>d. d * d \<le> n) [2..17])) [2..m]"

definition root_fraction :: "nat \<Rightarrow> int \<Rightarrow> w32" where
  "root_fraction k p = of_int (fst (foldl
     (\<lambda>(r, n) _. (if (2 * r + 1) ^ k \<le> n * 2 ^ k then 2 * r + 1 else 2 * r, n * 2 ^ k))
     (int (length (takeWhile (\<lambda>d. d ^ k \<le> p) [1..6])), p) [0..<32]))"

definition round_constants :: "w32 list" where
  "round_constants = map (root_fraction 3) (primes_to 311)"

definition initial_state :: "w32 list" where
  "initial_state = map (root_fraction 2) (primes_to 19)"

definition sha_pad :: "int list \<Rightarrow> int list" where
  "sha_pad bs = (let n = length bs; bits = 8 * int n
     in bs @ [128] @ replicate ((119 - n mod 64) mod 64) 0
        @ map (\<lambda>i. bits div 256 ^ i mod 256) [7, 6, 5, 4, 3, 2, 1, 0])"

fun words_of :: "int list \<Rightarrow> w32 list" where
  "words_of (a # b # c # d # bs) = of_int (((a * 256 + b) * 256 + c) * 256 + d) # words_of bs"
| "words_of _ = []"

definition schedule_word :: "w32 list \<Rightarrow> nat \<Rightarrow> w32 list" where
  "schedule_word ws t =
     (let x = ws ! (t - 15); y = ws ! (t - 2);
          s0 = word_rotr 7 x XOR word_rotr 18 x XOR drop_bit 3 x;
          s1 = word_rotr 17 y XOR word_rotr 19 y XOR drop_bit 10 y
      in ws @ [ws ! (t - 16) + s0 + ws ! (t - 7) + s1])"

fun sha_round :: "w32 list \<Rightarrow> w32 \<times> w32 \<Rightarrow> w32 list" where
  "sha_round [a, b, c, d, e, f, g, h] (k, w) =
     (let s1 = word_rotr 6 e XOR word_rotr 11 e XOR word_rotr 25 e;
          ch = (e AND f) XOR (NOT e AND g);
          t1 = h + s1 + ch + k + w;
          s0 = word_rotr 2 a XOR word_rotr 13 a XOR word_rotr 22 a;
          maj = (a AND b) XOR (a AND c) XOR (b AND c)
      in [t1 + (s0 + maj), a, b, c, d + t1, e, f, g])"
| "sha_round s _ = s"

definition compress :: "w32 list \<Rightarrow> w32 list \<Rightarrow> w32 list" where
  "compress st block =
     (let ws = foldl schedule_word block [16..<64]
      in map2 (+) st (foldl sha_round st (zip round_constants ws)))"

function compress_all :: "w32 list \<Rightarrow> w32 list \<Rightarrow> w32 list" where
  "compress_all st ws = (if length ws < 16 then st else compress_all (compress st (take 16 ws)) (drop 16 ws))"
  by pat_completeness auto
termination by (relation "measure (\<lambda>(st, ws). length ws)") auto

declare compress_all.simps [simp del]

definition hex_digit :: "int \<Rightarrow> char" where
  "hex_digit n = ''0123456789abcdef'' ! nat n"

definition hex_word :: "w32 \<Rightarrow> string" where
  "hex_word w = (let n = uint w in map (\<lambda>i. hex_digit (n div 16 ^ i mod 16)) [7, 6, 5, 4, 3, 2, 1, 0])"

definition sha256_hex :: "string \<Rightarrow> string" where
  "sha256_hex s = concat (map hex_word (compress_all initial_state (words_of (sha_pad (utf8_encode s)))))"

lemma length_sha_round: "length (sha_round st kw) = length st"
  by (cases "(st, kw)" rule: sha_round.cases) (simp_all add: Let_def)

lemma length_foldl_sha_round: "length (foldl sha_round st kws) = length st"
  by (induction kws arbitrary: st) (simp_all add: length_sha_round)

lemma length_compress: "length (compress st b) = length st"
  by (simp add: compress_def Let_def length_foldl_sha_round)

lemma length_compress_all: "length (compress_all st ws) = length st"
  by (induction st ws rule: compress_all.induct) (simp add: compress_all.simps length_compress)

lemma length_initial_state: "length initial_state = 8"
  by code_simp

lemma length_sha256_hex [simp]: "length (sha256_hex s) = 64"
proof -
  have "length (concat (map hex_word ws)) = 8 * length ws" for ws
    by (induction ws) (simp_all add: hex_word_def Let_def)
  then show ?thesis by (simp add: sha256_hex_def length_compress_all length_initial_state)
qed

text \<open>The published test vector of the standard.\<close>

lemma sha256_abc: "sha256_hex ''abc'' = ''ba7816bf8f01cfea414140de5dae2223b00361a396177a9cb410ff61f20015ad''"
  by code_simp

end
