(* ===== verification/Publications.thy ===== *)
theory Publications
  imports Gate_Service Connections Sha256
begin

text \<open>
  Publication commands: models/publication_command.py, models/publication_attempt.py, the classification
  of failures and the operations on one command of services/publication_command.py, the preflight facts of
  services/publish_error_body.py, and the organisation-wide pause of services/external_publish_pause.py.

  A command is the ledger row of one request to publish an approved version to a destination. The
  services of the publication side read and write their own tables, kept in the record
  \<^verbatim>\<open>pub_db\<close>. A save stamps the row's update time, as the column's \<^verbatim>\<open>onupdate\<close> does. Surrogate keys of
  log rows are left out. Row locks appear as the atomicity of the operations.
\<close>

section \<open>Rows\<close>

datatype command_status =
  C_pending | C_in_progress | C_completed | C_failed | C_dead_letter | C_voided | C_blocked
  | C_blocked_unapproved | C_cancelled

datatype content_kind = Channel_post | Site_post | Comment_reply | Ads_boost | Newsletter_send

datatype failure_kind = K_connection | K_needs_check | K_transient | K_not_sent | K_paused

datatype stop_notice = Notice_pending | Notice_sent

record command =
  pc_id :: uuid
  pc_org_id :: uuid
  pc_gate_id :: uuid
  pc_destination :: uuid
  pc_approved_version :: uuid
  pc_operation :: string
  pc_toggle_seq :: int
  pc_content_kind :: content_kind
  pc_scheduled_at :: "timestamp option"
  pc_status :: command_status
  pc_attempt_count :: nat
  pc_next_attempt_at :: "timestamp option"
  pc_last_error :: "string option"
  pc_reason_code :: "string option"
  pc_reason_reset_at :: "timestamp option"
  pc_failure_detail :: "jdict option"
  pc_failure_kind :: "failure_kind option"
  pc_dead_letter_at :: "timestamp option"
  pc_requested_by_member_id :: uuid
  pc_initiated_by :: "string option"
  pc_ads_boost_cycle :: "int option"
  pc_stop_notice_state :: "stop_notice option"
  pc_claimed_at :: "timestamp option"
  pc_provider_call_started_at :: "timestamp option"
  pc_created_at :: timestamp
  pc_updated_at :: timestamp

record attempt =
  at_command_id :: uuid
  at_gate_id :: uuid
  at_approval_check :: string
  at_adapter_called :: bool
  at_started_at :: timestamp
  at_finished_at :: "timestamp option"
  at_result_code :: "string option"

record channel_publication =
  cp_id :: uuid
  cp_org_id :: uuid
  cp_gate_id :: uuid
  cp_version_id :: uuid
  cp_connection_id :: uuid
  cp_status :: string
  cp_external_id :: "string option"
  cp_created_at :: timestamp

record post_version =
  pv_id :: uuid
  pv_draft_id :: uuid
  pv_channel_payload :: "jdict option"
  pv_version :: nat

record post_draft =
  pd_id :: uuid
  pd_org_id :: uuid
  pd_work_item_id :: uuid
  pd_connection_id :: uuid
  pd_status :: string
  pd_created_at :: timestamp

record post_comment =
  cc_id :: uuid
  cc_channel :: string
  cc_external_comment_id :: string
  cc_text_sha256 :: string
  cc_deleted_at :: "timestamp option"

record comment_reply =
  cr_id :: uuid
  cr_comment_id :: uuid
  cr_text :: string
  cr_status :: string
  cr_external_reply_id :: "string option"
  cr_external_reply_url :: "string option"
  cr_last_error :: "string option"

record organization =
  og_id :: uuid
  og_paused_at :: "timestamp option"
  og_paused_by :: "uuid option"
  og_pause_reason :: "string option"

record pause_log =
  pl_org_id :: uuid
  pl_actor_member_id :: uuid
  pl_action :: string
  pl_reason :: "string option"

record stop_event =
  se_command_id :: uuid
  se_content_kind :: content_kind
  se_stop_kind :: string
  se_reason_code :: "string option"
  se_failure_kind :: "failure_kind option"

record pub_db =
  pb_commands :: "command list"
  pb_attempts :: "attempt list"
  pb_publications :: "channel_publication list"
  pb_versions :: "post_version list"
  pb_drafts :: "post_draft list"
  pb_connections :: "connection list"
  pb_comments :: "post_comment list"
  pb_replies :: "comment_reply list"
  pb_orgs :: "organization list"
  pb_pause_log :: "pause_log list"
  pb_gates :: "gate list"
  pb_stop_events :: "stop_event list"
  pb_activities :: "activity list"

definition get_command :: "uuid \<Rightarrow> pub_db \<Rightarrow> command option" where
  "get_command i db = find_row pc_id i (pb_commands db)"

definition upd_command :: "timestamp \<Rightarrow> uuid \<Rightarrow> (command \<Rightarrow> command) \<Rightarrow> pub_db \<Rightarrow> pub_db" where
  "upd_command now i f db =
     db\<lparr>pb_commands := upd_row pc_id i (\<lambda>c. (f c)\<lparr>pc_updated_at := now\<rparr>) (pb_commands db)\<rparr>"

definition upd_connection :: "uuid \<Rightarrow> (connection \<Rightarrow> connection) \<Rightarrow> pub_db \<Rightarrow> pub_db" where
  "upd_connection i f db = db\<lparr>pb_connections := upd_row cn_id i f (pb_connections db)\<rparr>"

definition upd_reply :: "uuid \<Rightarrow> (comment_reply \<Rightarrow> comment_reply) \<Rightarrow> pub_db \<Rightarrow> pub_db" where
  "upd_reply i f db = db\<lparr>pb_replies := upd_row cr_id i f (pb_replies db)\<rparr>"

definition upd_pub_gate :: "uuid \<Rightarrow> (gate \<Rightarrow> gate) \<Rightarrow> pub_db \<Rightarrow> pub_db" where
  "upd_pub_gate i f db = db\<lparr>pb_gates := upd_row g_id i f (pb_gates db)\<rparr>"

section \<open>Failure codes\<close>

definition in_codes :: "string option \<Rightarrow> string list \<Rightarrow> bool" where
  "in_codes e codes \<longleftrightarrow> (case e of None \<Rightarrow> False | Some s \<Rightarrow> s \<in> set codes)"

definition NEWSLETTER_HUMAN_RETRYABLE_BLOCK_CODES :: "string list" where
  "NEWSLETTER_HUMAN_RETRYABLE_BLOCK_CODES = [
    ''NEWSLETTER_SEND_CONNECTION_UNAVAILABLE'']"

definition CONNECTION_BLOCKED_CODES :: "string list" where
  "CONNECTION_BLOCKED_CODES = [
    ''CHANNEL_TOKEN_EXPIRED'', ''CHANNEL_CONNECTION_NOT_ACTIVE'', ''CHANNEL_PUBLISH_AUTH_REJECTED'',
    ''CHANNEL_CONNECTION_REVOKED'', ''CHANNEL_CONNECTION_AUTH_ERROR'', ''GHOST_AUTH_FAILED'']"

definition NEEDS_CHECK_CODES :: "string list" where
  "NEEDS_CHECK_CODES = [
    ''CHANNEL_PUBLISH_IN_PROGRESS'', ''CHANNEL_IMAGE_CONTAINER_FAILED'',
    ''ADS_BOOST_CREATED_BUDGET_DIFFERS'']"

definition RETRY_SAFE_CODES :: "string list" where
  "RETRY_SAFE_CODES = [
    ''THREADS_CREATE_CONTAINER_FAILED'', ''THREADS_CREATE_CONTAINER_MISSING_ID'',
    ''THREADS_CONTAINER_STATUS_FAILED'', ''THREADS_CONTAINER_STATUS_MISSING_FIELD'',
    ''THREADS_PUBLISHING_LIMIT_FAILED'', ''THREADS_PUBLISHING_LIMIT_MISSING_FIELDS'',
    ''THREADS_REPLY_CREATE_CONTAINER_FAILED'', ''THREADS_REPLY_CREATE_CONTAINER_MISSING_ID'',
    ''INSTAGRAM_CREATE_CONTAINER_FAILED'', ''INSTAGRAM_CREATE_CONTAINER_MISSING_ID'',
    ''INSTAGRAM_CREATE_CAROUSEL_CHILD_FAILED'', ''INSTAGRAM_CREATE_CAROUSEL_CHILD_MISSING_ID'',
    ''INSTAGRAM_CREATE_CAROUSEL_PARENT_FAILED'', ''INSTAGRAM_CREATE_CAROUSEL_PARENT_MISSING_ID'',
    ''INSTAGRAM_CREATE_REELS_CONTAINER_FAILED'', ''INSTAGRAM_CREATE_REELS_CONTAINER_MISSING_ID'',
    ''INSTAGRAM_CONTAINER_STATUS_FAILED'', ''INSTAGRAM_CONTAINER_STATUS_MISSING_FIELD'',
    ''INSTAGRAM_PUBLISHING_LIMIT_FAILED'', ''INSTAGRAM_PUBLISHING_LIMIT_MISSING_FIELDS'',
    ''FACEBOOK_CREATE_CAROUSEL_CHILD_FAILED'', ''FACEBOOK_CREATE_CAROUSEL_CHILD_MISSING_ID'',
    ''FACEBOOK_REELS_START_FAILED'', ''FACEBOOK_REELS_START_MISSING_FIELDS'',
    ''FACEBOOK_REELS_UPLOAD_FAILED'', ''X_MEDIA_INIT_FAILED'', ''X_MEDIA_INIT_MISSING_ID'',
    ''X_MEDIA_APPEND_FAILED'', ''X_MEDIA_FINALIZE_FAILED'', ''X_MEDIA_STATUS_FAILED'',
    ''YOUTUBE_UPLOAD_SESSION_INIT_FAILED'', ''YOUTUBE_UPLOAD_SESSION_MISSING_LOCATION'',
    ''THREADS_DELETE_MEDIA_FAILED'', ''FACEBOOK_DELETE_POST_FAILED'', ''SANDBOX_PROVIDER_ERROR'',
    ''SANDBOX_INSTAGRAM_PROVIDER_ERROR'', ''SANDBOX_FACEBOOK_CAROUSEL_CHILD_FAILED'',
    ''SANDBOX_INSTAGRAM_CAROUSEL_CHILD_FAILED'', ''META_ADS_ACCOUNT_READ_FAILED'']"

definition TRANSIENT_CODES :: "string list" where
  "TRANSIENT_CODES = [
    ''CHANNEL_PUBLISH_PROVIDER_ERROR'', ''CHANNEL_RATE_LIMITED'', ''PUBLICATION_COMMAND_PRE_CALL_ERROR'',
    ''ADS_BOOST_CREATE_IN_PROGRESS''] @ RETRY_SAFE_CODES"

definition NOT_SENT_CODES :: "string list" where
  "NOT_SENT_CODES = [
    ''YOUTUBE_UPLOAD_PREP_TIMEOUT'', ''NEWSLETTER_SEND_CONNECTION_UNAVAILABLE'',
    ''NEWSLETTER_SEND_CHANNEL_UNSUPPORTED'', ''CHANNEL_POST_DRAFT_NOT_FOUND'', ''CHANNEL_TEXT_TOO_LONG'',
    ''SITE_POST_SEAL_MISSING'', ''YOUTUBE_QUOTA_EXCEEDED'', ''YOUTUBE_METADATA_INVALID'',
    ''EXTERNAL_PUBLISH_APPROVAL_REQUIRED'', ''GENERATION_BUDGET_EXCEEDED'', ''API_USAGE_BUDGET_EXCEEDED'',
    ''CHANNEL_THREAD_UNSUPPORTED'', ''CHANNEL_THREAD_SEGMENT_LIMIT_EXCEEDED'',
    ''CHANNEL_THREAD_SEGMENT_TOO_LONG'', ''INSTAGRAM_IMAGE_REQUIRED'', ''INSTAGRAM_REELS_VIDEO_REQUIRED'',
    ''FACEBOOK_REELS_VIDEO_REQUIRED'', ''CHANNEL_REELS_UNSUPPORTED'', ''CHANNEL_CAROUSEL_UNSUPPORTED'',
    ''YOUTUBE_IMAGE_CONTAINER_UNSUPPORTED'', ''X_MEDIA_SOURCE_FETCH_FAILED'',
    ''YOUTUBE_VIDEO_SOURCE_FETCH_FAILED'', ''STIBEE_CONNECTION_INCOMPLETE'', ''STIBEE_PLAN_RESTRICTED'',
    ''STIBEE_SENDER_NOT_VERIFIED'', ''SITE_POST_DESTINATION_INSECURE'', ''SITE_POST_DRAFT_NOT_FOUND'',
    ''SITE_POST_NOT_PUBLISHED'', ''COMMENT_REPLY_NOT_FOUND'', ''COMMENT_NOT_FOUND'',
    ''ADS_BOOST_NOT_STARTED_AT_PROVIDER'', ''META_ADS_CAMPAIGN_CREATE_FAILED'',
    ''META_ADS_CAMPAIGN_CREATE_MISSING_FIELD'', ''META_ADS_ADSET_CREATE_FAILED'',
    ''META_ADS_ADSET_CREATE_MISSING_FIELD'', ''META_ADS_AD_CREATE_FAILED'',
    ''META_ADS_AD_CREATE_MISSING_FIELD'']"

definition MAYBE_SENT_CODES :: "string list" where
  "MAYBE_SENT_CODES = [
    ''FACEBOOK_CREATE_POST_MISSING_ID'', ''X_POST_TWEET_MISSING_ID'', ''YOUTUBE_UPLOAD_MISSING_VIDEO_ID'',
    ''THREADS_PUBLISH_CONTAINER_MISSING_ID'', ''INSTAGRAM_PUBLISH_CONTAINER_MISSING_ID'',
    ''INSTAGRAM_REPLY_MISSING_ID'', ''FACEBOOK_REPLY_MISSING_ID'',
    ''FACEBOOK_CREATE_CAROUSEL_PARENT_MISSING_ID'', ''THREADS_PUBLISH_CONTAINER_FAILED'',
    ''INSTAGRAM_PUBLISH_CONTAINER_FAILED'', ''FACEBOOK_CREATE_POST_FAILED'',
    ''FACEBOOK_CREATE_CAROUSEL_PARENT_FAILED'', ''FACEBOOK_REELS_FINISH_FAILED'', ''X_POST_TWEET_FAILED'',
    ''YOUTUBE_UPLOAD_PUT_FAILED'', ''FACEBOOK_REPLY_FAILED'', ''INSTAGRAM_REPLY_FAILED'',
    ''STIBEE_PUBLISH_PROVIDER_ERROR'', ''SITE_POST_PROVIDER_ERROR'', ''YOUTUBE_VIDEO_STATUS_FAILED'',
    ''YOUTUBE_UPLOAD_PUT_TIMEOUT'']"

definition GATE_REVERIFY_ERROR_CODES :: "string list" where
  "GATE_REVERIFY_ERROR_CODES = [
    ''EXTERNAL_PUBLISH_APPROVAL_REQUIRED'', ''SITE_POST_REAPPROVAL_REQUIRED'',
    ''GENERATION_BUDGET_EXCEEDED'', ''API_USAGE_BUDGET_EXCEEDED'']"

definition PRE_CALL_ERROR_CODE :: string where
  "PRE_CALL_ERROR_CODE = ''PUBLICATION_COMMAND_PRE_CALL_ERROR''"

definition OVER_TICK_BUDGET_CODE :: string where
  "OVER_TICK_BUDGET_CODE = ''WORKER_TICK_BUDGET_TOO_SMALL''"

definition WORKER_INTERRUPTED_ERROR_CODE :: string where
  "WORKER_INTERRUPTED_ERROR_CODE = ''PUBLICATION_WORKER_INTERRUPTED''"

definition UNCLASSIFIED_ERROR_CODE :: string where
  "UNCLASSIFIED_ERROR_CODE = ''PUBLICATION_COMMAND_UNCLASSIFIED_ERROR''"

definition PROVIDER_CODE_MISSING :: string where
  "PROVIDER_CODE_MISSING = ''CHANNEL_PUBLISH_PROVIDER_CODE_MISSING''"

definition provider_error_code :: "string option \<Rightarrow> string" where
  "provider_error_code c =
     (case c of None \<Rightarrow> PROVIDER_CODE_MISSING | Some s \<Rightarrow> if s = [] then PROVIDER_CODE_MISSING else s)"

definition classify_failure_kind :: "string option \<Rightarrow> failure_kind" where
  "classify_failure_kind e =
     (if in_codes e CONNECTION_BLOCKED_CODES then K_connection
      else if in_codes e TRANSIENT_CODES then K_transient
      else if in_codes e NEEDS_CHECK_CODES \<or> in_codes e MAYBE_SENT_CODES then K_needs_check
      else if in_codes e NOT_SENT_CODES then K_not_sent
      else K_needs_check)"

section \<open>One command\<close>

definition awaits_stop_notice :: "command \<Rightarrow> bool" where
  "awaits_stop_notice c \<longleftrightarrow>
     pc_status c = C_dead_letter \<or> (pc_status c = C_blocked \<and> pc_failure_kind c = Some K_connection)
     \<or> (pc_status c = C_blocked_unapproved \<and> pc_content_kind c = Newsletter_send
        \<and> in_codes (pc_reason_code c) NEWSLETTER_HUMAN_RETRYABLE_BLOCK_CODES)"

definition mark_stop_notice :: "command \<Rightarrow> command" where
  "mark_stop_notice c = (if awaits_stop_notice c then c\<lparr>pc_stop_notice_state := Some Notice_pending\<rparr> else c)"

definition mark_blocked_unapproved :: "string \<Rightarrow> string \<Rightarrow> command \<Rightarrow> command" where
  "mark_blocked_unapproved reason_code last_error c =
     c\<lparr>pc_status := C_blocked_unapproved, pc_reason_code := Some reason_code, pc_failure_kind := None,
       pc_next_attempt_at := None, pc_last_error := Some (take 2000 last_error)\<rparr>"

definition MAX_RETRIES :: nat where "MAX_RETRIES = 5"

definition BACKOFF_BASE_SECONDS :: int where "BACKOFF_BASE_SECONDS = 60"

definition seconds :: "int \<Rightarrow> int" where
  \<comment> \<open>\<^verbatim>\<open>timedelta(seconds=s)\<close> in microseconds\<close>
  "seconds s = s * 1000000"

definition compute_next_attempt_at :: "nat \<Rightarrow> timestamp \<Rightarrow> int option \<Rightarrow> timestamp" where
  "compute_next_attempt_at attempt_count now retry_after =
     (case retry_after of
        Some s \<Rightarrow> if s > 0 then now + seconds s else now + seconds (BACKOFF_BASE_SECONDS * 2 ^ attempt_count)
      | None \<Rightarrow> now + seconds (BACKOFF_BASE_SECONDS * 2 ^ attempt_count))"

definition dead_lettered :: "timestamp \<Rightarrow> command \<Rightarrow> command" where
  "dead_lettered now c = mark_stop_notice
     (c\<lparr>pc_status := C_dead_letter, pc_dead_letter_at := Some now, pc_next_attempt_at := None\<rparr>)"

definition failed_command :: "string option \<Rightarrow> string option \<Rightarrow> timestamp \<Rightarrow> int option \<Rightarrow> timestamp option
    \<Rightarrow> command \<Rightarrow> command" where
  "failed_command err last_error now retry_after reset_at c0 =
     (let kind = classify_failure_kind err;
          c = c0\<lparr>pc_last_error := (case last_error of None \<Rightarrow> None | Some t \<Rightarrow> if t = [] then None else Some (take 2000 t)),
                 pc_failure_kind := Some kind, pc_reason_code := err, pc_reason_reset_at := reset_at\<rparr>;
          counted = c\<lparr>pc_attempt_count := pc_attempt_count c + 1\<rparr>
      in if kind = K_connection then mark_stop_notice (c\<lparr>pc_status := C_blocked\<rparr>)
         else if kind = K_needs_check then dead_lettered now counted
         else if kind = K_not_sent then dead_lettered now counted
         else if pc_attempt_count counted \<ge> MAX_RETRIES then dead_lettered now counted
         else counted\<lparr>pc_status := C_pending, pc_next_attempt_at :=
                Some (compute_next_attempt_at (pc_attempt_count counted) now retry_after)\<rparr>)"

text \<open>The failure of a command, and of its connection when the code says that a person has to reconnect.\<close>

definition apply_command_failure :: "string option \<Rightarrow> string option \<Rightarrow> timestamp \<Rightarrow> int option
    \<Rightarrow> timestamp option \<Rightarrow> uuid \<Rightarrow> pub_db \<Rightarrow> pub_db" where
  "apply_command_failure err last_error now retry_after reset_at i db =
     (case get_command i db of
        None \<Rightarrow> db
      | Some c \<Rightarrow>
          upd_command now i (failed_command err last_error now retry_after reset_at)
            (if classify_failure_kind err = K_connection
             then upd_connection (pc_destination c) (mark_connection_failed err last_error now) db
             else db))"

definition record_publication_attempt :: "string \<Rightarrow> bool \<Rightarrow> timestamp \<Rightarrow> string option \<Rightarrow> command \<Rightarrow> pub_db \<Rightarrow> pub_db" where
  "record_publication_attempt approval_check adapter_called now result_code c db =
     db\<lparr>pb_attempts := pb_attempts db @
       [\<lparr>at_command_id = pc_id c, at_gate_id = pc_gate_id c, at_approval_check = approval_check,
         at_adapter_called = adapter_called, at_started_at = now, at_finished_at = Some now,
         at_result_code = result_code\<rparr>]\<rparr>"

definition human_retryable :: "command \<Rightarrow> bool" where
  "human_retryable c \<longleftrightarrow>
     \<not> (pc_status c = C_blocked \<and> pc_failure_kind c = Some K_paused)
     \<and> (pc_status c \<in> {C_dead_letter, C_blocked}
        \<or> (pc_status c = C_blocked_unapproved \<and> pc_content_kind c = Newsletter_send
           \<and> in_codes (pc_reason_code c) NEWSLETTER_HUMAN_RETRYABLE_BLOCK_CODES))"

definition viewer_can_retry :: "command \<Rightarrow> bool \<Rightarrow> bool" where
  "viewer_can_retry c viewer_is_human \<longleftrightarrow> viewer_is_human \<and> human_retryable c"

definition derive_processing_kind :: "command option \<Rightarrow> string option \<Rightarrow> string option" where
  "derive_processing_kind co publication_status =
     (case co of
        None \<Rightarrow> None
      | Some c \<Rightarrow>
          if pc_status c = C_pending \<and> publication_status = Some ''container_created'' then Some ''awaiting_container''
          else if pc_scheduled_at c = None \<and> pc_failure_kind c = None
                  \<and> pc_reason_code c \<noteq> Some OVER_TICK_BUDGET_CODE
                  \<and> pc_status c \<in> {C_pending, C_in_progress} \<and> publication_status \<noteq> Some ''published''
          then Some ''publishing''
          else None)"

definition raise_if_needs_check :: "command \<Rightarrow> error + unit" where
  "raise_if_needs_check c =
     (if pc_failure_kind c = Some K_needs_check
      then Inl (HTTPError 409 ''CHANNEL_POST_NEEDS_CHECK'' (Some (pc_id c))) else Inr ())"

definition requeued :: "command \<Rightarrow> command" where
  "requeued c = c\<lparr>pc_status := C_pending, pc_next_attempt_at := None, pc_dead_letter_at := None,
     pc_stop_notice_state := None, pc_last_error := None, pc_failure_kind := None, pc_failure_detail := None\<rparr>"

definition retry_dead_letter_command :: "uuid \<Rightarrow> uuid \<Rightarrow> bool \<Rightarrow> timestamp \<Rightarrow> pub_db \<Rightarrow> command option \<times> pub_db" where
  "retry_dead_letter_command org i only_paused now db =
     (case List.find (\<lambda>c. pc_id c = i \<and> pc_org_id c = org) (pb_commands db) of
        None \<Rightarrow> (None, db)
      | Some c \<Rightarrow>
          if (if only_paused then pc_status c = C_blocked \<and> pc_failure_kind c = Some K_paused else human_retryable c)
          then (Some ((requeued c)\<lparr>pc_updated_at := now\<rparr>), upd_command now i requeued db)
          else (None, db))"

definition requeue_for_human_publish :: "command \<Rightarrow> bool \<times> command" where
  "requeue_for_human_publish c =
     (if pc_status c \<in> {C_completed, C_voided} then (False, c)
      else if pc_status c = C_in_progress then (True, c)
      else
        (let c1 = c\<lparr>pc_status := C_pending, pc_next_attempt_at := None, pc_failure_detail := None\<rparr>
         in if pc_dead_letter_at c \<noteq> None \<or> pc_failure_kind c \<noteq> None \<or> pc_last_error c \<noteq> None
            then (True, c1\<lparr>pc_dead_letter_at := None, pc_stop_notice_state := None, pc_last_error := None,
                           pc_failure_kind := None\<rparr>)
            else (True, c1)))"

section \<open>Creating, voiding and cancelling commands\<close>

type_synonym idempotency_key = "uuid \<times> uuid \<times> uuid \<times> string \<times> int"

definition command_key :: "command \<Rightarrow> idempotency_key" where
  "command_key c = (pc_org_id c, pc_destination c, pc_approved_version c, pc_operation c, pc_toggle_seq c)"

record command_args =
  cm_org_id :: uuid
  cm_gate_id :: uuid
  cm_destination :: uuid
  cm_approved_version :: uuid
  cm_requested_by :: uuid
  cm_scheduled_at :: "timestamp option"
  cm_operation :: string
  cm_content_kind :: content_kind
  cm_toggle_seq :: int
  cm_initiated_by :: "string option"
  cm_ads_boost_cycle :: "int option"

definition args_key :: "command_args \<Rightarrow> idempotency_key" where
  "args_key a = (cm_org_id a, cm_destination a, cm_approved_version a, cm_operation a, cm_toggle_seq a)"

definition new_command :: "command_args \<Rightarrow> uuid \<Rightarrow> timestamp \<Rightarrow> command" where
  "new_command a fresh now =
     \<lparr>pc_id = fresh, pc_org_id = cm_org_id a, pc_gate_id = cm_gate_id a, pc_destination = cm_destination a,
      pc_approved_version = cm_approved_version a, pc_operation = cm_operation a, pc_toggle_seq = cm_toggle_seq a,
      pc_content_kind = cm_content_kind a, pc_scheduled_at = cm_scheduled_at a, pc_status = C_pending,
      pc_attempt_count = 0, pc_next_attempt_at = None, pc_last_error = None, pc_reason_code = None,
      pc_reason_reset_at = None, pc_failure_detail = None, pc_failure_kind = None, pc_dead_letter_at = None,
      pc_requested_by_member_id = cm_requested_by a, pc_initiated_by = cm_initiated_by a,
      pc_ads_boost_cycle = cm_ads_boost_cycle a, pc_stop_notice_state = None, pc_claimed_at = None,
      pc_provider_call_started_at = None, pc_created_at = now, pc_updated_at = now\<rparr>"

definition create_or_get_publication_command :: "command_args \<Rightarrow> uuid \<Rightarrow> timestamp \<Rightarrow> pub_db
    \<Rightarrow> error + (command \<times> bool \<times> pub_db)" where
  "create_or_get_publication_command a fresh now db =
     (case scalar_one_or_none (filter (\<lambda>c. command_key c = args_key a) (pb_commands db)) of
        Inl e \<Rightarrow> Inl e
      | Inr (Some c) \<Rightarrow> Inr (c, False, db)
      | Inr None \<Rightarrow> (let c = new_command a fresh now in Inr (c, True, db\<lparr>pb_commands := pb_commands db @ [c]\<rparr>)))"

definition MONEY_STOPPING_OPS :: "string list" where "MONEY_STOPPING_OPS = [''pause'']"

definition voidable_for_gate :: "uuid \<Rightarrow> command \<Rightarrow> bool" where
  "voidable_for_gate gate c \<longleftrightarrow> pc_gate_id c = gate \<and> pc_status c = C_pending
     \<and> pc_operation c \<notin> set MONEY_STOPPING_OPS"

definition void_pending_commands_for_gate :: "uuid \<Rightarrow> string \<Rightarrow> timestamp \<Rightarrow> pub_db \<Rightarrow> nat \<times> pub_db" where
  "void_pending_commands_for_gate gate reason_code now db =
     (length (filter (voidable_for_gate gate) (pb_commands db)),
      db\<lparr>pb_commands := map (\<lambda>c. if voidable_for_gate gate c
           then c\<lparr>pc_status := C_voided, pc_reason_code := Some reason_code, pc_updated_at := now\<rparr> else c)
         (pb_commands db)\<rparr>)"

definition latest_command_of_gate :: "uuid \<Rightarrow> pub_db \<Rightarrow> command option" where
  "latest_command_of_gate gate db = max_row pc_created_at (filter (\<lambda>c. pc_gate_id c = gate) (pb_commands db))"

definition cancelled :: "command \<Rightarrow> command" where
  "cancelled c = c\<lparr>pc_status := C_cancelled, pc_reason_code := Some ''CANCELLED_BY_HUMAN''\<rparr>"

definition CANCELLABLE_COMMAND_STATUSES :: "command_status list" where
  "CANCELLABLE_COMMAND_STATUSES = [C_pending, C_blocked, C_dead_letter]"

definition get_channel_post_draft :: "uuid \<Rightarrow> uuid \<Rightarrow> pub_db \<Rightarrow> post_draft option" where
  "get_channel_post_draft org draft db = List.find (\<lambda>d. pd_id d = draft \<and> pd_org_id d = org) (pb_drafts db)"

definition resolve_gate_for_draft :: "uuid \<Rightarrow> uuid \<Rightarrow> pub_db \<Rightarrow> error + gate" where
  "resolve_gate_for_draft org draft db =
     (case get_channel_post_draft org draft db of
        None \<Rightarrow> Inl (ValueError ''draft not found'')
      | Some d \<Rightarrow>
          (case find_gate_slot_with_pr_fallback \<lparr>sl_org = org, sl_work_item_id = pd_work_item_id d,
                  sl_work_item_type = ''story'', sl_gate_type = ''external_publish'', sl_scope_key = pd_connection_id d\<rparr>
                  None None (empty_db\<lparr>t_gates := pb_gates db\<rparr>) of
             Inl e \<Rightarrow> Inl e
           | Inr (None, _) \<Rightarrow> Inl (ValueError ''gate not found'')
           | Inr (Some g, _) \<Rightarrow> Inr g))"

definition log_cancel :: "uuid \<Rightarrow> uuid \<Rightarrow> uuid \<Rightarrow> jdict \<Rightarrow> gate \<Rightarrow> command \<Rightarrow> pub_db \<Rightarrow> pub_db" where
  "log_cancel org draft member extra g c db =
     db\<lparr>pb_activities := pb_activities db @
       [\<lparr>ac_org = org, ac_action = ''publication_command_cancelled'', ac_actor_id = None,
         ac_actor_type = ''platform'', ac_entity_type = ''publication_command'', ac_entity_id = pc_id c,
         ac_context = [(''gate_id'', JStr (g_id g)), (''draft_id'', JStr draft),
           (''cancelled_by_member_id'', JStr member)] @ extra\<rparr>]\<rparr>"

definition cancel_scheduled_publication :: "uuid \<Rightarrow> uuid \<Rightarrow> uuid \<Rightarrow> timestamp \<Rightarrow> pub_db \<Rightarrow> error + pub_db" where
  "cancel_scheduled_publication org draft member now db =
     (case resolve_gate_for_draft org draft db of
        Inl e \<Rightarrow> Inl e
      | Inr g \<Rightarrow>
          (case latest_command_of_gate (g_id g) db of
             None \<Rightarrow> Inl (ValueError ''publication command not found'')
           | Some c \<Rightarrow>
               if pc_status c \<notin> set CANCELLABLE_COMMAND_STATUSES
               then Inl (ValueError ''publication command not cancellable'')
               else Inr (log_cancel org draft member [] g c (upd_command now (pc_id c) cancelled db))))"

definition cancel_unstarted_publication :: "uuid \<Rightarrow> uuid \<Rightarrow> uuid \<Rightarrow> timestamp \<Rightarrow> pub_db \<Rightarrow> error + pub_db" where
  "cancel_unstarted_publication org draft member now db =
     (case resolve_gate_for_draft org draft db of
        Inl e \<Rightarrow> Inl e
      | Inr g \<Rightarrow>
          (case latest_command_of_gate (g_id g) db of
             None \<Rightarrow> Inl (ValueError ''publication command not found'')
           | Some c \<Rightarrow>
               if pc_status c \<noteq> C_pending \<or> pc_claimed_at c \<noteq> None \<or> pc_provider_call_started_at c \<noteq> None
               then Inl (ValueError ''publication command already started'')
               else Inr (log_cancel org draft member [(''unstarted'', JBool True)] g c
                 (upd_command now (pc_id c)
                   (\<lambda>x. (cancelled x)\<lparr>pc_last_error := None, pc_next_attempt_at := None\<rparr>) db))))"

section \<open>The pause of an organisation\<close>

definition is_external_publish_paused :: "uuid \<Rightarrow> pub_db \<Rightarrow> bool \<times> string option" where
  "is_external_publish_paused org db =
     (case find_row og_id org (pb_orgs db) of
        None \<Rightarrow> (False, None)
      | Some o1 \<Rightarrow> if og_paused_at o1 = None then (False, None) else (True, og_pause_reason o1))"

definition is_paused_command :: "command \<Rightarrow> bool" where
  "is_paused_command c \<longleftrightarrow> pc_status c = C_blocked \<and> pc_failure_kind c = Some K_paused"

definition requeue_paused_commands :: "uuid \<Rightarrow> timestamp \<Rightarrow> pub_db \<Rightarrow> nat \<times> pub_db" where
  "requeue_paused_commands org now db =
     foldl (\<lambda>(n, d) i. case retry_dead_letter_command org i True now d of
               (None, d1) \<Rightarrow> (n, d1) | (Some _, d1) \<Rightarrow> (n + 1, d1))
       (0, db) (map pc_id (filter (\<lambda>c. pc_org_id c = org \<and> is_paused_command c) (pb_commands db)))"

definition set_external_publish_pause :: "uuid \<Rightarrow> bool \<Rightarrow> string option \<Rightarrow> uuid \<Rightarrow> timestamp \<Rightarrow> pub_db
    \<Rightarrow> error + pub_db" where
  "set_external_publish_pause org paused reason actor now db =
     (case find_row og_id org (pb_orgs db) of
        None \<Rightarrow> Inl (ValueError ''organization not found'')
      | Some _ \<Rightarrow>
          (let log = (\<lambda>act. [\<lparr>pl_org_id = org, pl_actor_member_id = actor, pl_action = act, pl_reason = reason\<rparr>])
           in if paused
              then Inr (db\<lparr>pb_orgs := upd_row og_id org (\<lambda>o1. o1\<lparr>og_paused_at := Some now, og_paused_by := Some actor,
                             og_pause_reason := reason\<rparr>) (pb_orgs db),
                           pb_pause_log := pb_pause_log db @ log ''pause''\<rparr>)
              else Inr (snd (requeue_paused_commands org now
                     (db\<lparr>pb_orgs := upd_row og_id org (\<lambda>o1. o1\<lparr>og_paused_at := None, og_paused_by := None,
                             og_pause_reason := None\<rparr>) (pb_orgs db),
                         pb_pause_log := pb_pause_log db @ log ''resume''\<rparr>)))))"

definition unpaused_orgs_with_paused_commands :: "pub_db \<Rightarrow> uuid list" where
  "unpaused_orgs_with_paused_commands db =
     remdups (map pc_org_id (filter (\<lambda>c. is_paused_command c
       \<and> list_ex (\<lambda>o1. og_id o1 = pc_org_id c \<and> og_paused_at o1 = None) (pb_orgs db)) (pb_commands db)))"

definition requeue_paused_commands_of_unpaused_orgs :: "timestamp \<Rightarrow> pub_db \<Rightarrow> nat \<times> pub_db" where
  "requeue_paused_commands_of_unpaused_orgs now db =
     foldl (\<lambda>(n, d) org. case requeue_paused_commands org now d of (m, d1) \<Rightarrow> (n + m, d1))
       (0, db) (unpaused_orgs_with_paused_commands db)"

end
