(* ===== verification/Publication_Worker.thy ===== *)
theory Publication_Worker
  imports Publications
begin

text \<open>
  The worker of services/publication_command.py: the execution of one claimed command for every content
  kind, the recovery of interrupted commands, the sweep of containers without a command, and the tick
  that ties them together; services/newsletter_send_execution.py for the newsletter branch, the stop
  notices of services/recipe_publish_failure.py and the preflight facts of services/publish_error_body.py.

  What the publishing functions and provider clients answer is a parameter: the record \<^verbatim>\<open>answer\<close> holds
  the outcome of the call, whether a write request left for the provider (the mark of
  services/provider_call_mark.py), and the publication rows the call leaves. The boost handler of
  services/ads_boost_execution.py is a function of that record.
\<close>

section \<open>Answers of the publishing functions\<close>

datatype publish_error =
    ImageContainerFailed
  | ReapprovalRequired
  | DraftNotFound
  | GateNotApproved
  | BudgetExceeded string int int int int
  | YouTubeQuotaExceeded int int int int timestamp string
  | SealMissing
  | TextTooLong int int
  | ConnectionNotActive
  | ConnectionRevoked
  | ConnectionAuth
  | TokenExpired
  | RateLimited timestamp
  | ProviderError "string option"
  | YouTubeMetadata string string
  | ThreadUnsupported string
  | ThreadSegmentLimit int int
  | ThreadSegmentTooLong int int int
  | PublishInProgress
  | PublishPaused "string option"
  | Unclassified

definition API_USAGE_BUDGET_RULE_KEY :: string where
  "API_USAGE_BUDGET_RULE_KEY = ''api_usage_budget''"

definition budget_code :: "string \<Rightarrow> string" where
  "budget_code rule_key = (if rule_key = API_USAGE_BUDGET_RULE_KEY then ''API_USAGE_BUDGET_EXCEEDED''
     else ''GENERATION_BUDGET_EXCEEDED'')"

fun preflight_error_facts :: "publish_error \<Rightarrow> string \<Rightarrow> jdict option" where
  "preflight_error_facts (BudgetExceeded k mx sp es rm) msg =
     Some [(''code'', JStr (budget_code k)), (''limit_minor'', JInt mx), (''spent_minor'', JInt sp),
           (''estimated_cost_minor'', JInt es), (''remaining_minor'', JInt rm)]"
| "preflight_error_facts (YouTubeQuotaExceeded mx sp es rm reset tz) msg =
     Some [(''code'', JStr ''YOUTUBE_QUOTA_EXCEEDED''), (''limit_units'', JInt mx), (''spent_units'', JInt sp),
           (''estimated_units'', JInt es), (''remaining_units'', JInt rm), (''reset_at'', JInt reset),
           (''reset_timezone'', JStr tz)]"
| "preflight_error_facts (TextTooLong mx cur) msg =
     Some [(''code'', JStr ''CHANNEL_TEXT_TOO_LONG''), (''message'', JStr msg), (''max_length'', JInt mx),
           (''current_length'', JInt cur)]"
| "preflight_error_facts (YouTubeMetadata field reason) msg =
     Some [(''code'', JStr ''YOUTUBE_METADATA_INVALID''), (''field'', JStr field), (''reason'', JStr reason)]"
| "preflight_error_facts (ThreadUnsupported channel) msg =
     Some [(''code'', JStr ''CHANNEL_THREAD_UNSUPPORTED''), (''channel'', JStr channel)]"
| "preflight_error_facts (ThreadSegmentLimit mx cur) msg =
     Some [(''code'', JStr ''CHANNEL_THREAD_SEGMENT_LIMIT_EXCEEDED''), (''max_segments'', JInt mx),
           (''current_count'', JInt cur)]"
| "preflight_error_facts (ThreadSegmentTooLong seg mx cur) msg =
     Some [(''code'', JStr ''CHANNEL_THREAD_SEGMENT_TOO_LONG''), (''segment_number'', JInt seg),
           (''max_length'', JInt mx), (''current_length'', JInt cur)]"
| "preflight_error_facts DraftNotFound msg =
     Some [(''code'', JStr ''CHANNEL_POST_DRAFT_NOT_FOUND''), (''message'', JStr msg)]"
| "preflight_error_facts GateNotApproved msg =
     Some [(''code'', JStr ''EXTERNAL_PUBLISH_APPROVAL_REQUIRED''), (''message'', JStr msg)]"
| "preflight_error_facts (PublishPaused reason) msg =
     Some [(''code'', JStr ''EXTERNAL_PUBLISH_PAUSED''), (''message'', JStr msg)]"
| "preflight_error_facts SealMissing msg =
     Some [(''code'', JStr ''SITE_POST_SEAL_MISSING''), (''message'', JStr msg)]"
| "preflight_error_facts ReapprovalRequired msg =
     Some [(''code'', JStr ''SITE_POST_REAPPROVAL_REQUIRED''), (''message'', JStr msg)]"
| "preflight_error_facts ConnectionNotActive msg =
     Some [(''code'', JStr ''CHANNEL_CONNECTION_NOT_ACTIVE''), (''message'', JStr msg)]"
| "preflight_error_facts _ msg = None"

datatype publish_answer = Publication string | Publish_raises publish_error string

datatype site_answer =
  Site_done "string option" | Site_error string string | Site_paused "string option" | Site_raises string

datatype reply_answer = Reply_sent string string | Reply_error int "string option" string | Reply_raises string

datatype newsletter_answer = Newsletter_sent "int option" "string option" | Newsletter_error bool string

record answer =
  an_publish :: publish_answer
  an_site :: site_answer
  an_reply :: reply_answer
  an_newsletter :: newsletter_answer
  an_ads_boost :: "uuid \<Rightarrow> timestamp \<Rightarrow> pub_db \<Rightarrow> pub_db"
  an_provider_call_marked :: bool
  an_publications :: "channel_publication list"
  an_recipe_gate :: "uuid option"

section \<open>Pause and mark\<close>

definition paused_text :: "string option \<Rightarrow> string" where
  "paused_text reason = (case reason of None \<Rightarrow> ''EXTERNAL_PUBLISH_PAUSED''
     | Some r \<Rightarrow> if r = [] then ''EXTERNAL_PUBLISH_PAUSED'' else ''EXTERNAL_PUBLISH_PAUSED: '' @ r)"

definition block_for_external_publish_pause :: "timestamp \<Rightarrow> string option \<Rightarrow> command \<Rightarrow> pub_db \<Rightarrow> pub_db" where
  "block_for_external_publish_pause now reason c db =
     upd_command now (pc_id c)
       (\<lambda>x. x\<lparr>pc_status := C_blocked, pc_failure_kind := Some K_paused, pc_last_error := Some (paused_text reason),
              pc_failure_detail := preflight_error_facts (PublishPaused reason) (paused_text reason)\<rparr>)
       (record_publication_attempt ''paused'' False now None c db)"

definition mark_provider_call_started :: "timestamp \<Rightarrow> uuid \<Rightarrow> pub_db \<Rightarrow> pub_db" where
  "mark_provider_call_started now i db =
     upd_command now i (\<lambda>c. c\<lparr>pc_provider_call_started_at := Some now\<rparr>) db"

section \<open>Channel posts\<close>

definition completed_command :: "command \<Rightarrow> command" where
  "completed_command c = c\<lparr>pc_status := C_completed, pc_last_error := None, pc_failure_kind := None\<rparr>"

definition classify_publish_failure_outcome :: "string option \<Rightarrow> string" where
  "classify_publish_failure_outcome err =
     (if err = Some ''CHANNEL_RATE_LIMITED'' then ''rate_limited''
      else if in_codes err [''CHANNEL_TOKEN_EXPIRED'', ''CHANNEL_CONNECTION_REVOKED'',
                ''CHANNEL_CONNECTION_AUTH_ERROR'', ''CHANNEL_CONNECTION_NOT_ACTIVE''] then ''auth_expired''
      else ''connector_error'')"

definition set_recipe_outcome :: "answer \<Rightarrow> string \<Rightarrow> pub_db \<Rightarrow> pub_db" where
  "set_recipe_outcome a outcome db =
     (case an_recipe_gate a of
        None \<Rightarrow> db
      | Some g \<Rightarrow> upd_pub_gate g (\<lambda>x. x\<lparr>g_publish_outcome := Some outcome\<rparr>) db)"

text \<open>The error code of every exception that goes to the common failure path, with its retry delay.\<close>

fun worker_error_code :: "publish_error \<Rightarrow> bool \<Rightarrow> string option" where
  "worker_error_code ImageContainerFailed m = Some ''CHANNEL_IMAGE_CONTAINER_FAILED''"
| "worker_error_code DraftNotFound m = Some ''CHANNEL_POST_DRAFT_NOT_FOUND''"
| "worker_error_code SealMissing m = Some ''SITE_POST_SEAL_MISSING''"
| "worker_error_code (TextTooLong mx cur) m = Some ''CHANNEL_TEXT_TOO_LONG''"
| "worker_error_code ConnectionNotActive m = Some ''CHANNEL_CONNECTION_NOT_ACTIVE''"
| "worker_error_code ConnectionRevoked m = Some ''CHANNEL_CONNECTION_REVOKED''"
| "worker_error_code ConnectionAuth m = Some ''CHANNEL_CONNECTION_AUTH_ERROR''"
| "worker_error_code TokenExpired m = Some ''CHANNEL_TOKEN_EXPIRED''"
| "worker_error_code (RateLimited reset) m = Some ''CHANNEL_RATE_LIMITED''"
| "worker_error_code (ProviderError c) m = Some (provider_error_code c)"
| "worker_error_code (YouTubeMetadata field reason) m = Some ''YOUTUBE_METADATA_INVALID''"
| "worker_error_code (ThreadUnsupported channel) m = Some ''CHANNEL_THREAD_UNSUPPORTED''"
| "worker_error_code (ThreadSegmentLimit mx cur) m = Some ''CHANNEL_THREAD_SEGMENT_LIMIT_EXCEEDED''"
| "worker_error_code (ThreadSegmentTooLong seg mx cur) m = Some ''CHANNEL_THREAD_SEGMENT_TOO_LONG''"
| "worker_error_code PublishInProgress m = Some ''CHANNEL_PUBLISH_IN_PROGRESS''"
| "worker_error_code _ m = (if m then None else Some PRE_CALL_ERROR_CODE)"

fun worker_retry_after :: "timestamp \<Rightarrow> publish_error \<Rightarrow> int option" where
  "worker_retry_after now (RateLimited reset) = Some (max 0 ((reset - now) div 1000000))"
| "worker_retry_after now _ = None"

fun records_preflight :: "publish_error \<Rightarrow> bool" where
  "records_preflight DraftNotFound = True"
| "records_preflight SealMissing = True"
| "records_preflight (TextTooLong mx cur) = True"
| "records_preflight ConnectionNotActive = True"
| "records_preflight (YouTubeMetadata field reason) = True"
| "records_preflight (ThreadUnsupported channel) = True"
| "records_preflight (ThreadSegmentLimit mx cur) = True"
| "records_preflight (ThreadSegmentTooLong seg mx cur) = True"
| "records_preflight _ = False"

definition common_publish_failure :: "answer \<Rightarrow> timestamp \<Rightarrow> bool \<Rightarrow> publish_error \<Rightarrow> string \<Rightarrow> command \<Rightarrow> pub_db \<Rightarrow> pub_db" where
  "common_publish_failure a now has_draft e msg c db =
     (let m = an_provider_call_marked a; code = worker_error_code e m;
          db1 = (if records_preflight e
                 then upd_command now (pc_id c) (\<lambda>x. x\<lparr>pc_failure_detail := preflight_error_facts e msg\<rparr>) db else db);
          db2 = record_publication_attempt ''ok'' m now code c db1;
          db3 = (if has_draft
                 then set_recipe_outcome a (''publish_failed:'' @ classify_publish_failure_outcome code) db2 else db2)
      in apply_command_failure code (Some msg) now (worker_retry_after now e) None (pc_id c) db3)"

fun handle_publish_error :: "answer \<Rightarrow> timestamp \<Rightarrow> bool \<Rightarrow> publish_error \<Rightarrow> string \<Rightarrow> command \<Rightarrow> pub_db \<Rightarrow> pub_db" where
  "handle_publish_error a now has_draft ReapprovalRequired msg c db =
     upd_command now (pc_id c)
       (\<lambda>x. x\<lparr>pc_status := C_voided, pc_reason_code := Some ''CONTENT_CHANGED'', pc_last_error := Some (take 2000 msg),
              pc_failure_detail := preflight_error_facts ReapprovalRequired msg\<rparr>)
       (record_publication_attempt ''version_mismatch'' False now None c db)"
| "handle_publish_error a now has_draft GateNotApproved msg c db =
     upd_command now (pc_id c)
       (\<lambda>x. (mark_blocked_unapproved ''EXTERNAL_PUBLISH_APPROVAL_REQUIRED'' msg x)
              \<lparr>pc_failure_detail := preflight_error_facts GateNotApproved msg\<rparr>)
       (record_publication_attempt ''missing'' False now None c db)"
| "handle_publish_error a now has_draft (BudgetExceeded k mx sp es rm) msg c db =
     upd_command now (pc_id c)
       (\<lambda>x. (mark_blocked_unapproved (budget_code k) msg x)
              \<lparr>pc_failure_detail := preflight_error_facts (BudgetExceeded k mx sp es rm) msg\<rparr>)
       (record_publication_attempt ''budget_exceeded'' False now None c db)"
| "handle_publish_error a now has_draft (YouTubeQuotaExceeded mx sp es rm reset tz) msg c db =
     upd_command now (pc_id c)
       (\<lambda>x. x\<lparr>pc_failure_detail := preflight_error_facts (YouTubeQuotaExceeded mx sp es rm reset tz) msg\<rparr>)
       (apply_command_failure (Some ''YOUTUBE_QUOTA_EXCEEDED'') (Some msg) now None (Some reset) (pc_id c)
         (record_publication_attempt ''ok'' False now (Some ''YOUTUBE_QUOTA_EXCEEDED'') c db))"
| "handle_publish_error a now has_draft (PublishPaused reason) msg c db =
     block_for_external_publish_pause now reason c db"
| "handle_publish_error a now has_draft e msg c db = common_publish_failure a now has_draft e msg c db"

definition handle_publication :: "answer \<Rightarrow> timestamp \<Rightarrow> string \<Rightarrow> command \<Rightarrow> pub_db \<Rightarrow> pub_db" where
  "handle_publication a now status c db =
     (if status \<noteq> ''published'' then
        upd_command now (pc_id c)
          (\<lambda>x. x\<lparr>pc_status := C_pending, pc_next_attempt_at := Some (now + seconds 30), pc_last_error := None,
                 pc_failure_kind := None\<rparr>)
          (record_publication_attempt ''ok'' True now (Some status) c db)
      else set_recipe_outcome a ''published''
        (upd_command now (pc_id c) completed_command
          (record_publication_attempt ''ok'' True now (Some ''published'') c db)))"

definition run_channel_post :: "answer \<Rightarrow> timestamp \<Rightarrow> command \<Rightarrow> pub_db \<Rightarrow> pub_db" where
  "run_channel_post a now c db =
     (case find_row pv_id (pc_approved_version c) (pb_versions db) of
        None \<Rightarrow> handle_publish_error a now False DraftNotFound ''draft not found'' c db
      | Some v \<Rightarrow>
          (case get_channel_post_draft (pc_org_id c) (pv_draft_id v) db of
             None \<Rightarrow> handle_publish_error a now False DraftNotFound ''draft not found'' c db
           | Some d \<Rightarrow>
               (let db1 = db\<lparr>pb_publications := an_publications a\<rparr>
                in case an_publish a of
                     Publication status \<Rightarrow> handle_publication a now status c db1
                   | Publish_raises e msg \<Rightarrow> handle_publish_error a now True e msg c db1)))"

section \<open>Site posts\<close>

definition site_approval_check :: "string \<Rightarrow> string" where
  "site_approval_check code =
     (if code = ''EXTERNAL_PUBLISH_APPROVAL_REQUIRED'' then ''missing''
      else if code = ''GENERATION_BUDGET_EXCEEDED'' then ''budget_exceeded''
      else ''version_mismatch'')"

definition site_failure :: "answer \<Rightarrow> timestamp \<Rightarrow> string option \<Rightarrow> string \<Rightarrow> command \<Rightarrow> pub_db \<Rightarrow> pub_db" where
  "site_failure a now code msg c db =
     apply_command_failure code (Some msg) now None None (pc_id c)
       (record_publication_attempt ''ok'' (an_provider_call_marked a) now code c db)"

definition run_site_post :: "answer \<Rightarrow> timestamp \<Rightarrow> command \<Rightarrow> pub_db \<Rightarrow> pub_db" where
  "run_site_post a now c db =
     (case an_site a of
        Site_done note \<Rightarrow>
          upd_command now (pc_id c) completed_command
            (record_publication_attempt ''ok'' True now
              (Some (if pc_operation c = ''unpublish'' then (case note of None \<Rightarrow> ''completed'' | Some n \<Rightarrow> n)
                     else ''completed'')) c db)
      | Site_paused reason \<Rightarrow> block_for_external_publish_pause now reason c db
      | Site_error code msg \<Rightarrow>
          if code \<in> set GATE_REVERIFY_ERROR_CODES then
            (let chk = site_approval_check code;
                 db1 = record_publication_attempt chk False now None c db
             in if chk = ''version_mismatch''
                then upd_command now (pc_id c)
                       (\<lambda>x. x\<lparr>pc_status := C_voided, pc_reason_code := Some ''CONTENT_CHANGED'',
                              pc_last_error := Some (take 2000 msg)\<rparr>) db1
                else upd_command now (pc_id c) (mark_blocked_unapproved code msg) db1)
          else site_failure a now (Some code) msg c db
      | Site_raises msg \<Rightarrow>
          site_failure a now (if an_provider_call_marked a then None else Some PRE_CALL_ERROR_CODE) msg c db)"

section \<open>Replies to comments\<close>

definition compute_target_comment_state :: "post_comment \<Rightarrow> string option \<Rightarrow> string" where
  "compute_target_comment_state cm sealed =
     (if cc_deleted_at cm \<noteq> None then ''deleted''
      else if sealed = None \<or> sealed \<noteq> Some (cc_text_sha256 cm) then ''changed''
      else ''current'')"

definition sealed_target :: "gate \<Rightarrow> string option" where
  "sealed_target g = (case map_of (facts_of g) ''target_text_sha256'' of Some (JStr s) \<Rightarrow> Some s | _ \<Rightarrow> None)"

definition fail_reply :: "uuid \<Rightarrow> string \<Rightarrow> pub_db \<Rightarrow> pub_db" where
  "fail_reply r msg db = upd_reply r (\<lambda>x. x\<lparr>cr_status := ''failed'', cr_last_error := Some (take 2000 msg)\<rparr>) db"

definition void_reply_command :: "timestamp \<Rightarrow> string \<Rightarrow> string \<Rightarrow> uuid \<Rightarrow> command \<Rightarrow> pub_db \<Rightarrow> pub_db" where
  "void_reply_command now reason msg r c db =
     fail_reply r msg
       (upd_command now (pc_id c) (\<lambda>x. x\<lparr>pc_status := C_voided, pc_reason_code := Some reason\<rparr>)
         (record_publication_attempt ''version_mismatch'' False now None c db))"

definition reply_code :: "int \<Rightarrow> string option \<Rightarrow> string" where
  "reply_code status_code code =
     (if status_code = 401 \<or> status_code = 403 then ''CHANNEL_TOKEN_EXPIRED''
      else if status_code = 429 then ''CHANNEL_RATE_LIMITED''
      else provider_error_code code)"

definition reply_failure :: "answer \<Rightarrow> timestamp \<Rightarrow> string option \<Rightarrow> string \<Rightarrow> uuid \<Rightarrow> command \<Rightarrow> pub_db \<Rightarrow> pub_db" where
  "reply_failure a now code msg r c db =
     apply_command_failure code (Some msg) now None None (pc_id c)
       (fail_reply r msg (record_publication_attempt ''ok'' (an_provider_call_marked a) now code c db))"

definition send_reply :: "answer \<Rightarrow> timestamp \<Rightarrow> uuid \<Rightarrow> command \<Rightarrow> pub_db \<Rightarrow> pub_db" where
  "send_reply a now r c db =
     (case find_row cn_id (pc_destination c) (pb_connections db) of
        None \<Rightarrow> reply_failure a now (Some ''CHANNEL_CONNECTION_NOT_ACTIVE'') ''connection is not active'' r c db
      | Some cn \<Rightarrow>
          if cn_status cn \<noteq> Conn_active
          then reply_failure a now (Some ''CHANNEL_CONNECTION_NOT_ACTIVE'') ''connection is not active'' r c db
          else if cn_access_token cn = None
          then reply_failure a now (Some ''CHANNEL_CONNECTION_NOT_ACTIVE'') ''connection has no credential'' r c db
          else (case an_reply a of
              Reply_sent rid url \<Rightarrow>
                upd_command now (pc_id c) completed_command
                  (upd_reply r (\<lambda>x. x\<lparr>cr_status := ''sent'', cr_external_reply_id := Some rid,
                       cr_external_reply_url := Some url, cr_last_error := None\<rparr>)
                    (record_publication_attempt ''ok'' True now (Some ''published'') c db))
            | Reply_error st code msg \<Rightarrow> reply_failure a now (Some (reply_code st code)) msg r c db
            | Reply_raises msg \<Rightarrow>
                reply_failure a now (if an_provider_call_marked a then None else Some PRE_CALL_ERROR_CODE) msg r c db))"

definition run_comment_reply :: "answer \<Rightarrow> timestamp \<Rightarrow> command \<Rightarrow> pub_db \<Rightarrow> pub_db" where
  "run_comment_reply a now c db =
     (case find_row cr_id (pc_approved_version c) (pb_replies db) of
        None \<Rightarrow>
          apply_command_failure (Some ''COMMENT_REPLY_NOT_FOUND'') (Some ''reply not found'') now None None (pc_id c)
            (record_publication_attempt ''ok'' False now (Some ''COMMENT_REPLY_NOT_FOUND'') c db)
      | Some r \<Rightarrow>
          (case find_row g_id (pc_gate_id c) (pb_gates db) of
             None \<Rightarrow> void_reply_command now ''GATE_NOT_APPROVED_OR_RESEALED'' ''gate not approved or sealed differently''
                       (cr_id r) c db
           | Some g \<Rightarrow>
               if g_status g \<noteq> Approved \<or> sealed_content_sha256 (g_seals g) \<noteq> Some (sha256_hex (cr_text r))
               then void_reply_command now ''GATE_NOT_APPROVED_OR_RESEALED'' ''gate not approved or sealed differently''
                      (cr_id r) c db
               else (case find_row cc_id (cr_comment_id r) (pb_comments db) of
                   None \<Rightarrow>
                     fail_reply (cr_id r) ''comment not found''
                       (apply_command_failure (Some ''COMMENT_NOT_FOUND'') (Some ''comment not found'') now None None (pc_id c)
                         (record_publication_attempt ''ok'' False now (Some ''COMMENT_NOT_FOUND'') c db))
                 | Some cm \<Rightarrow>
                     if compute_target_comment_state cm (sealed_target g) = ''deleted''
                     then void_reply_command now ''TARGET_COMMENT_DELETED'' ''target comment deleted'' (cr_id r) c db
                     else send_reply a now (cr_id r) c db)))"

section \<open>Newsletters\<close>

definition newsletter_context :: "command \<Rightarrow> pub_db \<Rightarrow> string + (gate \<times> channel_publication \<times> connection)" where
  "newsletter_context c db =
     (case find_row g_id (pc_gate_id c) (pb_gates db) of
        None \<Rightarrow> Inl ''NEWSLETTER_SEND_GATE_MISSING''
      | Some g \<Rightarrow>
          if g_gate_type g \<noteq> ''newsletter_send'' then Inl ''NEWSLETTER_SEND_GATE_MISSING''
          else if g_status g \<noteq> Approved then Inl ''NEWSLETTER_SEND_GATE_NOT_APPROVED''
          else (case (if g_scope_key g = [] then None
                      else case py_uuid (g_scope_key g) of None \<Rightarrow> None
                           | Some p \<Rightarrow> find_row cp_id p (pb_publications db)) of
              None \<Rightarrow> Inl ''NEWSLETTER_SEND_CAMPAIGN_MISSING''
            | Some p \<Rightarrow>
                if cp_external_id p = None \<or> cp_external_id p = Some [] then Inl ''NEWSLETTER_SEND_CAMPAIGN_MISSING''
                else (case find_row cn_id (cp_connection_id p) (pb_connections db) of
                    None \<Rightarrow> Inl ''NEWSLETTER_SEND_CONNECTION_UNAVAILABLE''
                  | Some cn \<Rightarrow> if cn_status cn \<noteq> Conn_active then Inl ''NEWSLETTER_SEND_CONNECTION_UNAVAILABLE''
                              else Inr (g, p, cn))))"

definition log_newsletter :: "string \<Rightarrow> gate \<Rightarrow> jdict \<Rightarrow> command \<Rightarrow> pub_db \<Rightarrow> pub_db" where
  "log_newsletter action g ctx c db =
     db\<lparr>pb_activities := pb_activities db @
       [\<lparr>ac_org = pc_org_id c, ac_action = action, ac_actor_id = Some (pc_requested_by_member_id c),
         ac_actor_type = ''agent'', ac_entity_type = ''gate'', ac_entity_id = g_id g, ac_context = ctx\<rparr>]\<rparr>"

definition newsletter_succeeded :: "timestamp \<Rightarrow> gate \<Rightarrow> jdict \<Rightarrow> command \<Rightarrow> pub_db \<Rightarrow> pub_db" where
  "newsletter_succeeded now g ctx c db =
     log_newsletter ''newsletter_send_succeeded'' g ctx c
       (upd_command now (pc_id c) (\<lambda>x. x\<lparr>pc_status := C_completed\<rparr>)
         (record_publication_attempt ''ok'' True now (Some ''ok'') c db))"

definition newsletter_failed :: "timestamp \<Rightarrow> gate \<Rightarrow> string \<Rightarrow> string \<Rightarrow> command \<Rightarrow> pub_db \<Rightarrow> pub_db" where
  "newsletter_failed now g code msg c db =
     log_newsletter ''newsletter_send_failed'' g [(''error'', JStr msg)] c
       (apply_command_failure (Some code) (Some msg) now None None (pc_id c)
         (record_publication_attempt ''ok'' True now (Some code) c db))"

definition process_sandbox_send :: "answer \<Rightarrow> timestamp \<Rightarrow> gate \<Rightarrow> command \<Rightarrow> pub_db \<Rightarrow> pub_db" where
  "process_sandbox_send a now g c db =
     (case an_newsletter a of
        Newsletter_error plan msg \<Rightarrow> newsletter_failed now g ''NEWSLETTER_SEND_PROVIDER_ERROR'' msg c db
      | Newsletter_sent n seg \<Rightarrow>
          newsletter_succeeded now g [(''recipient_count'', case n of None \<Rightarrow> JNull | Some k \<Rightarrow> JInt k),
            (''segment_name'', jopt_str seg)] c db)"

definition process_real_send :: "answer \<Rightarrow> timestamp \<Rightarrow> gate \<Rightarrow> channel_publication \<Rightarrow> connection \<Rightarrow> command
    \<Rightarrow> pub_db \<Rightarrow> pub_db" where
  "process_real_send a now g p cn c db =
     (if cn_access_token cn = None \<or> sealed_newsletter_scheduled_at (g_seals g) = None
         \<or> cp_external_id p = None \<or> cp_external_id p = Some []
      then apply_command_failure (Some ''NEWSLETTER_SEND_CONNECTION_UNAVAILABLE'') (Some ''connection unavailable'')
             now None None (pc_id c)
             (record_publication_attempt ''ok'' False now (Some ''NEWSLETTER_SEND_CONNECTION_UNAVAILABLE'') c db)
      else (case an_newsletter a of
          Newsletter_error plan msg \<Rightarrow>
            (let code = (if plan then ''STIBEE_PLAN_RESTRICTED'' else ''NEWSLETTER_SEND_PROVIDER_ERROR'')
             in (if plan
                 then upd_connection (cn_id cn) (apply_connection_failure Conn_error (take 2000 msg) (Some ''STIBEE_PLAN_RESTRICTED'') now)
                 else id) (newsletter_failed now g code (take 2000 msg) c db))
        | Newsletter_sent n seg \<Rightarrow>
            newsletter_succeeded now g [(''recipient_count'', JNull),
              (''segment_name'', jopt_str (sealed_newsletter_segment_name (g_seals g)))] c db))"

definition process_one_newsletter_send_command :: "answer \<Rightarrow> timestamp \<Rightarrow> command \<Rightarrow> pub_db \<Rightarrow> pub_db" where
  "process_one_newsletter_send_command a now c db =
     (case newsletter_context c db of
        Inl code \<Rightarrow>
          upd_command now (pc_id c)
            (\<lambda>x. mark_stop_notice (x\<lparr>pc_status := C_blocked_unapproved, pc_last_error := Some code, pc_reason_code := Some code\<rparr>))
            (record_publication_attempt (if code = ''NEWSLETTER_SEND_GATE_NOT_APPROVED'' then ''missing'' else ''ok'')
              False now None c db)
      | Inr (g, p, cn) \<Rightarrow>
          if cn_channel cn = ''stibee_sandbox'' then process_sandbox_send a now g c db
          else if cn_channel cn = ''stibee'' then process_real_send a now g p cn c db
          else apply_command_failure (Some ''NEWSLETTER_SEND_CHANNEL_UNSUPPORTED'') (Some ''channel unsupported'') now None None (pc_id c)
            (record_publication_attempt ''ok'' False now (Some ''NEWSLETTER_SEND_CHANNEL_UNSUPPORTED'') c db))"

section \<open>One command\<close>

definition run_command :: "answer \<Rightarrow> timestamp \<Rightarrow> uuid \<Rightarrow> pub_db \<Rightarrow> pub_db" where
  "run_command a now i db =
     (case get_command i db of
        None \<Rightarrow> db
      | Some c \<Rightarrow>
          (case pc_content_kind c of
             Site_post \<Rightarrow> run_site_post a now c db
           | Comment_reply \<Rightarrow> run_comment_reply a now c db
           | Ads_boost \<Rightarrow> an_ads_boost a i now db
           | Newsletter_send \<Rightarrow> process_one_newsletter_send_command a now c db
           | Channel_post \<Rightarrow> run_channel_post a now c db))"

definition process_one_command :: "answer \<Rightarrow> timestamp \<Rightarrow> uuid \<Rightarrow> pub_db \<Rightarrow> pub_db" where
  "process_one_command a now i db =
     (case get_command i db of
        None \<Rightarrow> db
      | Some c \<Rightarrow>
          (case is_external_publish_paused (pc_org_id c) db of
             (True, reason) \<Rightarrow> block_for_external_publish_pause now reason c db
           | (False, _) \<Rightarrow> run_command a now i (mark_provider_call_started now i db)))"

end
