(* ===== verification/Publication_Tick.thy ===== *)
theory Publication_Tick
  imports Publication_Worker
begin

text \<open>
  One tick of the publication worker: claiming due commands one at a time within the time budget, the
  recovery of commands whose worker died, the sweep of containers without a command, the requests of due
  newsletters, and the delivery of stop notices. Clock readings, elapsed times and the answers of the
  publishing functions are parameters of the tick, given per round of its loop.
\<close>

section \<open>Worst case and budget\<close>

definition PROVIDER_CALL_SECONDS :: int where "PROVIDER_CALL_SECONDS = 20"

definition DEFAULT_COMMAND_WORST_SECONDS :: int where "DEFAULT_COMMAND_WORST_SECONDS = 4 * PROVIDER_CALL_SECONDS"

definition YOUTUBE_UPLOAD_MAX_SECONDS :: int where "YOUTUBE_UPLOAD_MAX_SECONDS = 900"

definition thread_segments :: "uuid \<Rightarrow> pub_db \<Rightarrow> json list" where
  "thread_segments version db =
     (case find_row pv_id version (pb_versions db) of
        None \<Rightarrow> []
      | Some v \<Rightarrow> (case pv_channel_payload v of None \<Rightarrow> [] | Some p \<Rightarrow> json_list (map_of p ''thread'')))"

definition command_worst_case_seconds :: "(string \<Rightarrow> nat option option) \<Rightarrow> command \<Rightarrow> pub_db \<Rightarrow> int" where
  "command_worst_case_seconds adapters c db =
     (if pc_content_kind c \<noteq> Channel_post \<or> pc_operation c \<noteq> ''publish'' then DEFAULT_COMMAND_WORST_SECONDS
      else (case find_row cn_id (pc_destination c) (pb_connections db) of
          None \<Rightarrow> DEFAULT_COMMAND_WORST_SECONDS
        | Some cn \<Rightarrow>
            (case adapters (cn_channel cn) of
               None \<Rightarrow> DEFAULT_COMMAND_WORST_SECONDS
             | Some max_segments \<Rightarrow>
                 (let segments = min (length (thread_segments (pc_approved_version c) db))
                                   (case max_segments of None \<Rightarrow> 0 | Some m \<Rightarrow> m);
                      worst = DEFAULT_COMMAND_WORST_SECONDS + int segments * 2 * PROVIDER_CALL_SECONDS
                  in if starts_with ''youtube'' (cn_channel cn) then worst + YOUTUBE_UPLOAD_MAX_SECONDS else worst))))"

definition TICK_MARGIN_SECONDS :: int where "TICK_MARGIN_SECONDS = 60"

definition worker_tick_budget_seconds :: "int \<Rightarrow> int \<Rightarrow> int" where
  "worker_tick_budget_seconds scheduler_deadline request_timeout =
     max 0 (min scheduler_deadline request_timeout - TICK_MARGIN_SECONDS)"

definition BATCH_SIZE :: nat where "BATCH_SIZE = 50"

section \<open>Recovery of interrupted commands\<close>

definition local_publication_complete :: "command \<Rightarrow> pub_db \<Rightarrow> bool" where
  "local_publication_complete c db =
     (if pc_content_kind c \<noteq> Channel_post \<or> pc_operation c \<noteq> ''publish'' then False
      else (let rows = filter (\<lambda>p. cp_gate_id p = pc_gate_id c \<and> cp_version_id p = pc_approved_version c)
                         (pb_publications db)
            in rows \<noteq> [] \<and> list_all (\<lambda>p. cp_status p = ''published'') rows
               \<and> length rows \<ge> 1 + length (thread_segments (pc_approved_version c) db)))"

definition STUCK_IN_PROGRESS_THRESHOLD :: int where "STUCK_IN_PROGRESS_THRESHOLD = seconds (90 * 60)"

definition is_stuck :: "timestamp \<Rightarrow> command \<Rightarrow> bool" where
  "is_stuck now c \<longleftrightarrow> pc_status c = C_in_progress
     \<and> (case pc_claimed_at c of None \<Rightarrow> pc_updated_at c | Some t \<Rightarrow> t) < now - STUCK_IN_PROGRESS_THRESHOLD"

definition call_may_have_started :: "command \<Rightarrow> bool" where
  "call_may_have_started c \<longleftrightarrow> pc_provider_call_started_at c \<noteq> None \<or> pc_claimed_at c = None"

definition recover_command :: "timestamp \<Rightarrow> uuid \<Rightarrow> pub_db \<Rightarrow> nat \<times> pub_db" where
  "recover_command now i db =
     (case get_command i db of
        None \<Rightarrow> (0, db)
      | Some c \<Rightarrow>
          if pc_status c \<noteq> C_in_progress then (0, db)
          else if call_may_have_started c \<and> local_publication_complete c db
          then (1, upd_command now i completed_command db)
          else (let code = (if call_may_have_started c then WORKER_INTERRUPTED_ERROR_CODE else PRE_CALL_ERROR_CODE)
                in (1, apply_command_failure (Some code) (Some code) now None None i db)))"

definition recover_interrupted_commands :: "timestamp \<Rightarrow> pub_db \<Rightarrow> nat \<times> pub_db" where
  "recover_interrupted_commands now db =
     foldl (\<lambda>(n, d) i. case recover_command now i d of (m, d1) \<Rightarrow> (n + m, d1)) (0, db)
       (map pc_id (take BATCH_SIZE (sort_key pc_created_at (filter (is_stuck now) (pb_commands db)))))"

definition record_unclassified_batch_failure :: "uuid \<Rightarrow> bool \<Rightarrow> timestamp \<Rightarrow> pub_db \<Rightarrow> pub_db" where
  "record_unclassified_batch_failure i provider_called now db =
     (case get_command i db of
        None \<Rightarrow> db
      | Some c \<Rightarrow>
          if pc_status c \<noteq> C_in_progress then db
          else (let code = (if provider_called then UNCLASSIFIED_ERROR_CODE else PRE_CALL_ERROR_CODE)
                in apply_command_failure (Some code) (Some code) now None None i db))"

section \<open>Containers without a command\<close>

definition STUCK_CONTAINER_SWEEP_THRESHOLD_MINUTES :: int where "STUCK_CONTAINER_SWEEP_THRESHOLD_MINUTES = 5"

definition publication_args :: "channel_publication \<Rightarrow> uuid \<Rightarrow> command_args" where
  "publication_args p resolver =
     \<lparr>cm_org_id = cp_org_id p, cm_gate_id = cp_gate_id p, cm_destination = cp_connection_id p,
      cm_approved_version = cp_version_id p, cm_requested_by = resolver, cm_scheduled_at = None,
      cm_operation = ''publish'', cm_content_kind = Channel_post, cm_toggle_seq = 0, cm_initiated_by = None,
      cm_ads_boost_cycle = None\<rparr>"

definition sweep_publication :: "(uuid \<Rightarrow> uuid) \<Rightarrow> timestamp \<Rightarrow> channel_publication \<Rightarrow> pub_db \<Rightarrow> nat \<times> pub_db" where
  "sweep_publication fresh now p db =
     (if list_ex (\<lambda>c. command_key c = (cp_org_id p, cp_connection_id p, cp_version_id p, ''publish'', 0)) (pb_commands db)
      then (0, db)
      else (case find_row g_id (cp_gate_id p) (pb_gates db) of
          None \<Rightarrow> (0, db)
        | Some g \<Rightarrow>
            (case g_resolver_id g of
               None \<Rightarrow> (0, db)
             | Some resolver \<Rightarrow>
                 (case create_or_get_publication_command (publication_args p resolver) (fresh (cp_id p)) now db of
                    Inl e \<Rightarrow> (0, db)
                  | Inr (c, _, db1) \<Rightarrow>
                      (1, upd_command now (pc_id c) (\<lambda>x. x\<lparr>pc_next_attempt_at := Some (now + seconds 30)\<rparr>) db1)))))"

definition sweep_stuck_container_created_publications :: "(uuid \<Rightarrow> uuid) \<Rightarrow> timestamp \<Rightarrow> pub_db \<Rightarrow> nat \<times> pub_db" where
  "sweep_stuck_container_created_publications fresh now db =
     foldl (\<lambda>(n, d) p. case sweep_publication fresh now p d of (m, d1) \<Rightarrow> (n + m, d1)) (0, db)
       (filter (\<lambda>p. cp_status p = ''container_created''
          \<and> cp_created_at p < now - seconds (60 * STUCK_CONTAINER_SWEEP_THRESHOLD_MINUTES)) (pb_publications db))"

section \<open>Due newsletters\<close>

definition newsletter_args :: "gate \<Rightarrow> uuid \<Rightarrow> channel_publication \<Rightarrow> uuid \<Rightarrow> uuid \<Rightarrow> command_args" where
  "newsletter_args g org p version requester =
     \<lparr>cm_org_id = org, cm_gate_id = g_id g, cm_destination = cp_connection_id p,
      cm_approved_version = version, cm_requested_by = requester,
      cm_scheduled_at = sealed_newsletter_scheduled_at (g_seals g), cm_operation = ''send'',
      cm_content_kind = Newsletter_send, cm_toggle_seq = 0, cm_initiated_by = None, cm_ads_boost_cycle = None\<rparr>"

definition request_newsletter_send_command :: "uuid \<Rightarrow> uuid \<Rightarrow> uuid \<Rightarrow> uuid \<Rightarrow> timestamp \<Rightarrow> pub_db
    \<Rightarrow> error + (command \<times> pub_db)" where
  "request_newsletter_send_command org gate requester fresh now db =
     (case find_row g_id gate (pb_gates db) of
        None \<Rightarrow> Inl (ValueError ''NEWSLETTER_SEND_GATE_MISSING'')
      | Some g \<Rightarrow>
          if g_org_id g \<noteq> org \<or> g_gate_type g \<noteq> ''newsletter_send'' then Inl (ValueError ''NEWSLETTER_SEND_GATE_MISSING'')
          else if g_status g \<noteq> Approved then Inl (ValueError ''NEWSLETTER_SEND_GATE_NOT_APPROVED'')
          else (case py_uuid (g_scope_key g) of
              None \<Rightarrow> Inl (ValueError ''badly formed hexadecimal UUID string'')
            | Some pid \<Rightarrow>
                (case find_row cp_id pid (pb_publications db) of
                   None \<Rightarrow> Inl (ValueError ''NEWSLETTER_SEND_PUBLICATION_MISSING'')
                 | Some p \<Rightarrow>
                     (case sealed_newsletter_version_id (g_seals g) of
                        None \<Rightarrow> Inl (ValueError ''approved_version is null'')
                      | Some version \<Rightarrow>
                          (case create_or_get_publication_command (newsletter_args g org p version requester) fresh now db of
                             Inl e \<Rightarrow> Inl e
                           | Inr (c, _, db1) \<Rightarrow> Inr (c, db1))))))"

definition DUE_SENDS_BATCH_SIZE :: nat where "DUE_SENDS_BATCH_SIZE = 50"

definition is_due_send :: "timestamp \<Rightarrow> pub_db \<Rightarrow> gate \<Rightarrow> bool" where
  "is_due_send now db g \<longleftrightarrow> g_gate_type g = ''newsletter_send'' \<and> g_status g = Approved
     \<and> (case sealed_newsletter_scheduled_at (g_seals g) of None \<Rightarrow> False | Some t \<Rightarrow> t \<le> now)
     \<and> \<not> list_ex (\<lambda>c. pc_gate_id c = g_id g \<and> pc_operation c = ''send'') (pb_commands db)"

definition process_due_newsletter_sends :: "(uuid \<Rightarrow> uuid) \<Rightarrow> timestamp \<Rightarrow> pub_db \<Rightarrow> (nat \<times> nat) \<times> pub_db" where
  "process_due_newsletter_sends fresh now db =
     foldl (\<lambda>((q, e), d) g.
         case g_resolver_id g of
           None \<Rightarrow> ((q, e + 1), d)
         | Some r \<Rightarrow>
             (case request_newsletter_send_command (g_org_id g) (g_id g) r (fresh (g_id g)) now d of
                Inl _ \<Rightarrow> ((q, e + 1), d)
              | Inr (_, d1) \<Rightarrow> ((q + 1, e), d1)))
       ((0, 0), db)
       (take DUE_SENDS_BATCH_SIZE (sort_key (\<lambda>g. case sealed_newsletter_scheduled_at (g_seals g) of None \<Rightarrow> 0 | Some t \<Rightarrow> t)
          (filter (is_due_send now db) (pb_gates db))))"

section \<open>Stop notices\<close>

text \<open>
  The recipe context of a stopped command and whether its delivery fails are parameters. A notice and
  the mark \<^verbatim>\<open>sent\<close> are written together; a failed delivery keeps the mark and moves the row to the end.
\<close>

definition stop_kind_text :: "command_status \<Rightarrow> string" where
  "stop_kind_text s = (if s = C_dead_letter then ''dead_letter'' else ''blocked'')"

definition deliver_one_stop_notice :: "(command \<Rightarrow> bool) \<Rightarrow> timestamp \<Rightarrow> uuid \<Rightarrow> pub_db \<Rightarrow> bool \<times> pub_db" where
  "deliver_one_stop_notice in_recipe now i db =
     (case get_command i db of
        None \<Rightarrow> (False, db)
      | Some c \<Rightarrow>
          if pc_stop_notice_state c \<noteq> Some Notice_pending then (False, db)
          else if \<not> awaits_stop_notice c \<or> \<not> in_recipe c
          then (False, upd_command now i (\<lambda>x. x\<lparr>pc_stop_notice_state := None\<rparr>) db)
          else (True, upd_command now i (\<lambda>x. x\<lparr>pc_stop_notice_state := Some Notice_sent\<rparr>)
                 (db\<lparr>pb_stop_events := pb_stop_events db @
                    [\<lparr>se_command_id = i, se_content_kind = pc_content_kind c, se_stop_kind = stop_kind_text (pc_status c),
                      se_reason_code = pc_reason_code c, se_failure_kind = pc_failure_kind c\<rparr>]\<rparr>)))"

definition deliver_pending_stop_notices :: "(command \<Rightarrow> bool) \<Rightarrow> (uuid \<Rightarrow> bool) \<Rightarrow> timestamp \<Rightarrow> pub_db \<Rightarrow> nat \<times> pub_db" where
  "deliver_pending_stop_notices in_recipe fails now db =
     foldl (\<lambda>(n, d) i.
         if fails i then (n, upd_command now i id d)
         else (case deliver_one_stop_notice in_recipe now i d of (sent, d1) \<Rightarrow> (if sent then n + 1 else n, d1)))
       (0, db)
       (map pc_id (take 50 (sort_key pc_updated_at
          (filter (\<lambda>c. pc_stop_notice_state c = Some Notice_pending) (pb_commands db)))))"

section \<open>The tick\<close>

definition is_due :: "timestamp \<Rightarrow> uuid list \<Rightarrow> command \<Rightarrow> bool" where
  "is_due now skip c \<longleftrightarrow> pc_status c = C_pending
     \<and> (case pc_scheduled_at c of None \<Rightarrow> True | Some t \<Rightarrow> t \<le> now)
     \<and> (case pc_next_attempt_at c of None \<Rightarrow> True | Some t \<Rightarrow> t \<le> now)
     \<and> pc_id c \<notin> set skip"

definition next_due :: "timestamp \<Rightarrow> uuid list \<Rightarrow> pub_db \<Rightarrow> command option" where
  "next_due now skip db = min_row pc_created_at (filter (is_due now skip) (pb_commands db))"

definition claimed :: "timestamp \<Rightarrow> command \<Rightarrow> command" where
  "claimed now c =
     (let c1 = (if pc_reason_code c = Some OVER_TICK_BUDGET_CODE then c\<lparr>pc_reason_code := None, pc_last_error := None\<rparr> else c)
      in c1\<lparr>pc_status := C_in_progress, pc_claimed_at := Some now, pc_provider_call_started_at := None,
            pc_failure_detail := None\<rparr>)"

definition over_budget_marked :: "command \<Rightarrow> command" where
  "over_budget_marked c =
     (if pc_reason_code c \<noteq> Some OVER_TICK_BUDGET_CODE
      then c\<lparr>pc_reason_code := Some OVER_TICK_BUDGET_CODE,
             pc_last_error := Some ''worst case exceeds worker tick budget''\<rparr>
      else c)"

datatype escape = No_escape | Escape_before_mark bool | Escape_after_mark bool

text \<open>
  An exception that leaves the handler rolls the session back to the last commit, which is the claim or
  the mark of the provider call.
\<close>

fun run_claimed :: "answer \<Rightarrow> escape \<Rightarrow> timestamp \<Rightarrow> uuid \<Rightarrow> pub_db \<Rightarrow> pub_db" where
  "run_claimed a No_escape now i db = process_one_command a now i db"
| "run_claimed a (Escape_before_mark called) now i db = record_unclassified_batch_failure i called now db"
| "run_claimed a (Escape_after_mark called) now i db =
     record_unclassified_batch_failure i called now (mark_provider_call_started now i db)"

definition count_key :: "escape \<Rightarrow> command option \<Rightarrow> string" where
  "count_key e co =
     (if e \<noteq> No_escape then ''error''
      else case co of None \<Rightarrow> ''pending_retry''
         | Some c \<Rightarrow> (case pc_status c of C_completed \<Rightarrow> ''completed'' | C_dead_letter \<Rightarrow> ''dead_letter''
             | C_blocked \<Rightarrow> ''blocked'' | C_voided \<Rightarrow> ''voided'' | C_blocked_unapproved \<Rightarrow> ''blocked_unapproved''
             | _ \<Rightarrow> ''pending_retry''))"

record round =
  rn_clock :: timestamp
  rn_elapsed :: int
  rn_answer :: answer
  rn_escape :: escape

definition bump :: "string \<Rightarrow> (string \<Rightarrow> nat) \<Rightarrow> string \<Rightarrow> nat" where
  "bump k counts = counts(k := counts k + 1)"

definition unskipped :: "uuid list \<Rightarrow> pub_db \<Rightarrow> nat" where
  "unskipped skip db = length (filter (\<lambda>c. pc_id c \<notin> set skip) (pb_commands db))"

lemma pc_id_over_budget_marked [simp]: "pc_id (over_budget_marked c) = pc_id c"
  by (simp add: over_budget_marked_def)

lemma unskipped_upd_command:
  assumes "\<And>x. pc_id (f x) = pc_id x"
  shows "unskipped skip (upd_command now i f db) = unskipped skip db"
proof -
  have "length (filter (\<lambda>x. pc_id x \<notin> set skip) (map (\<lambda>r. if pc_id r = i then (f r)\<lparr>pc_updated_at := now\<rparr> else r) xs))
      = length (filter (\<lambda>x. pc_id x \<notin> set skip) xs)" for xs
    using assms by (induction xs) auto
  then show ?thesis by (simp add: unskipped_def upd_command_def upd_row_def)
qed

lemma unskipped_less:
  assumes "next_due now skip db = Some c"
  shows "unskipped (pc_id c # skip) db < unskipped skip db"
proof -
  have m: "c \<in> set (pb_commands db)" "pc_id c \<notin> set skip"
    using min_row_in [of pc_created_at "filter (is_due now skip) (pb_commands db)" c] assms
    by (auto simp: next_due_def is_due_def)
  have "unskipped (pc_id c # skip) db
      = length (filter (\<lambda>x. pc_id x \<noteq> pc_id c) (filter (\<lambda>x. pc_id x \<notin> set skip) (pb_commands db)))"
    unfolding unskipped_def filter_filter by (rule arg_cong [where f = length], rule filter_cong) auto
  also have "\<dots> < unskipped skip db"
    unfolding unskipped_def by (rule length_filter_less [where x = c]) (use m in auto)
  finally show ?thesis .
qed

function claim_loop :: "(string \<Rightarrow> nat option option) \<Rightarrow> int \<Rightarrow> (nat \<Rightarrow> round) \<Rightarrow> nat \<Rightarrow> nat \<Rightarrow> uuid list
    \<Rightarrow> (string \<Rightarrow> nat) \<Rightarrow> pub_db \<Rightarrow> (string \<Rightarrow> nat) \<times> pub_db" where
  "claim_loop adapters budget rounds k processed skip counts db =
     (if processed \<ge> BATCH_SIZE then (counts, db)
      else let r = rounds k; now = rn_clock r in
        case next_due now skip db of
          None \<Rightarrow> (counts, db)
        | Some c \<Rightarrow>
            (let worst = command_worst_case_seconds adapters c db
             in if worst > budget
                then claim_loop adapters budget rounds (k + 1) processed (pc_id c # skip) (bump ''over_budget'' counts)
                       (upd_command now (pc_id c) over_budget_marked db)
                else if worst > budget - rn_elapsed r then (bump ''deferred'' counts, db)
                else (let db1 = run_claimed (rn_answer r) (rn_escape r) now (pc_id c)
                                  (upd_command now (pc_id c) (claimed now) db)
                      in claim_loop adapters budget rounds (k + 1) (processed + 1) skip
                           (bump (count_key (rn_escape r) (get_command (pc_id c) db1)) counts) db1)))"
  by pat_completeness auto
termination
proof (relation "measures [\<lambda>(ad, bu, ro, k, processed, skip, co, db). BATCH_SIZE - processed,
    \<lambda>(ad, bu, ro, k, processed, skip, co, db). unskipped skip db]", goal_cases)
  case (2 adapters budget rounds k processed skip counts db x xa c xb)
  then have "unskipped (pc_id c # skip) db < unskipped skip db" by (metis unskipped_less)
  then show ?case using 2 by (simp add: unskipped_upd_command)
qed auto

declare claim_loop.simps [simp del]

definition process_due_publication_commands :: "(string \<Rightarrow> nat option option) \<Rightarrow> int \<Rightarrow> (uuid \<Rightarrow> uuid) \<Rightarrow> (command \<Rightarrow> bool)
    \<Rightarrow> (uuid \<Rightarrow> bool) \<Rightarrow> (nat \<Rightarrow> round) \<Rightarrow> timestamp \<Rightarrow> pub_db \<Rightarrow> (string \<Rightarrow> nat) \<times> pub_db" where
  "process_due_publication_commands adapters budget fresh in_recipe fails rounds now db =
     (let db1 = snd (sweep_stuck_container_created_publications fresh now db);
          db2 = snd (requeue_paused_commands_of_unpaused_orgs now db1);
          (recovered, db3) = recover_interrupted_commands now db2;
          (counts, db4) = claim_loop adapters budget rounds 0 0 [] ((\<lambda>_. 0)(''recovered'' := recovered)) db3;
          (notices, db5) = deliver_pending_stop_notices in_recipe fails now db4
      in (counts(''stop_notices'' := notices), db5))"

end
