(* ===== verification/Publication_Effects.thy ===== *)
theory Publication_Effects
  imports Publication_Tick
begin

text \<open>
  What the operations of the publication worker do to the ledger: reading commands back after an update,
  the state a failure leaves, and the effect of executing one command, branch by branch.
\<close>

section \<open>Reading commands back\<close>

interpretation command_rows: row_table pc_id "find_row pc_id" "upd_row pc_id"
  by (rule row_table_rows)

named_theorems command_simps \<open>reading a command or its log back after an operation\<close>

lemma get_upd_command [command_simps]:
  assumes "\<And>c. pc_id (f c) = pc_id c"
  shows "get_command j (upd_command now i f db)
    = (if j = i then map_option (\<lambda>c. (f c)\<lparr>pc_updated_at := now\<rparr>) (get_command j db) else get_command j db)"
  unfolding get_command_def upd_command_def using assms by (simp add: command_rows.get_upd)

lemma ids_upd_command [command_simps]:
  assumes "\<And>c. pc_id (f c) = pc_id c"
  shows "map pc_id (pb_commands (upd_command now i f db)) = map pc_id (pb_commands db)"
  unfolding upd_command_def using assms by (simp add: command_rows.keys_upd)

lemma get_command_id: "get_command i db = Some c \<Longrightarrow> pc_id c = i \<and> c \<in> set (pb_commands db)"
  unfolding get_command_def by (rule command_rows.get_key)

lemma get_command_member:
  "distinct (map pc_id (pb_commands db)) \<Longrightarrow> c \<in> set (pb_commands db) \<Longrightarrow> get_command (pc_id c) db = Some c"
  unfolding get_command_def by (rule find_row_member)

lemma commands_other [command_simps]:
  "pb_commands (upd_connection k g db) = pb_commands db"
  "pb_commands (upd_reply k h db) = pb_commands db"
  "pb_commands (upd_pub_gate k u db) = pb_commands db"
  "pb_commands (record_publication_attempt ck called now code c db) = pb_commands db"
  "pb_commands (set_recipe_outcome a outcome db) = pb_commands db"
  "pb_commands (fail_reply r msg db) = pb_commands db"
  "pb_commands (log_newsletter action gt ctx c db) = pb_commands db"
  "pb_commands (log_cancel org draft member extra gt c db) = pb_commands db"
  by (simp_all add: upd_connection_def upd_reply_def upd_pub_gate_def record_publication_attempt_def
      set_recipe_outcome_def fail_reply_def log_newsletter_def log_cancel_def split: option.split)

lemma get_command_other [command_simps]:
  "get_command j (upd_connection k g db) = get_command j db"
  "get_command j (upd_reply k h db) = get_command j db"
  "get_command j (upd_pub_gate k u db) = get_command j db"
  "get_command j (record_publication_attempt ck called now code c db) = get_command j db"
  "get_command j (set_recipe_outcome a outcome db) = get_command j db"
  "get_command j (fail_reply r msg db) = get_command j db"
  "get_command j (log_newsletter action gt ctx c db) = get_command j db"
  "get_command j (log_cancel org draft member extra gt c db) = get_command j db"
  "get_command j (db\<lparr>pb_publications := ps\<rparr>) = get_command j db"
  by (simp_all add: get_command_def command_simps)

lemma attempts_other [command_simps]:
  "pb_attempts (upd_command now i f db) = pb_attempts db"
  "pb_attempts (upd_connection k g db) = pb_attempts db"
  "pb_attempts (upd_reply k h db) = pb_attempts db"
  "pb_attempts (upd_pub_gate k u db) = pb_attempts db"
  "pb_attempts (set_recipe_outcome a outcome db) = pb_attempts db"
  "pb_attempts (fail_reply r msg db) = pb_attempts db"
  "pb_attempts (log_newsletter action gt ctx c db) = pb_attempts db"
  "pb_attempts (apply_command_failure err le now ra rs i db) = pb_attempts db"
  by (simp_all add: upd_command_def upd_connection_def upd_reply_def upd_pub_gate_def set_recipe_outcome_def
      fail_reply_def log_newsletter_def apply_command_failure_def split: option.split)

section \<open>Row functions\<close>

text \<open>The columns that no operation on an existing command changes.\<close>

definition ident :: "command \<Rightarrow> uuid \<times> idempotency_key \<times> uuid \<times> content_kind \<times> timestamp" where
  "ident c = (pc_id c, command_key c, pc_gate_id c, pc_content_kind c, pc_created_at c)"

lemma ident_mark_stop_notice [simp]: "ident (mark_stop_notice c) = ident c"
  by (simp add: mark_stop_notice_def ident_def command_key_def)

lemma ident_updates [simp]:
  "ident (c\<lparr>pc_status := s\<rparr>) = ident c" "ident (c\<lparr>pc_attempt_count := n\<rparr>) = ident c"
  "ident (c\<lparr>pc_next_attempt_at := t\<rparr>) = ident c" "ident (c\<lparr>pc_last_error := e\<rparr>) = ident c"
  "ident (c\<lparr>pc_reason_code := e\<rparr>) = ident c" "ident (c\<lparr>pc_reason_reset_at := t\<rparr>) = ident c"
  "ident (c\<lparr>pc_failure_detail := d\<rparr>) = ident c" "ident (c\<lparr>pc_failure_kind := k\<rparr>) = ident c"
  "ident (c\<lparr>pc_dead_letter_at := t\<rparr>) = ident c" "ident (c\<lparr>pc_stop_notice_state := ns\<rparr>) = ident c"
  "ident (c\<lparr>pc_claimed_at := t\<rparr>) = ident c" "ident (c\<lparr>pc_provider_call_started_at := t\<rparr>) = ident c"
  "ident (c\<lparr>pc_updated_at := tt\<rparr>) = ident c"
  by (simp_all add: ident_def command_key_def)

lemma ident_row_functions [simp]:
  "ident (mark_blocked_unapproved rc lerr c) = ident c" "ident (dead_lettered now c) = ident c"
  "ident (failed_command err le now ra rs c) = ident c" "ident (requeued c) = ident c"
  "ident (cancelled c) = ident c" "ident (completed_command c) = ident c" "ident (claimed now c) = ident c"
  "ident (over_budget_marked c) = ident c" "ident (snd (requeue_for_human_publish c)) = ident c"
  by (simp_all add: mark_blocked_unapproved_def dead_lettered_def failed_command_def requeued_def cancelled_def
      completed_command_def claimed_def over_budget_marked_def requeue_for_human_publish_def Let_def)

lemma ident_pc_id: "ident c = ident d \<Longrightarrow> pc_id c = pc_id d"
  by (simp add: ident_def)

lemma pc_id_row_functions [simp]:
  "pc_id (mark_stop_notice c) = pc_id c" "pc_id (mark_blocked_unapproved rc lerr c) = pc_id c"
  "pc_id (dead_lettered now c) = pc_id c" "pc_id (failed_command err le now ra rs c) = pc_id c"
  "pc_id (requeued c) = pc_id c" "pc_id (cancelled c) = pc_id c" "pc_id (completed_command c) = pc_id c"
  "pc_id (claimed now c) = pc_id c" "pc_id (snd (requeue_for_human_publish c)) = pc_id c"
  by (rule ident_pc_id, simp)+

section \<open>The state a failure leaves\<close>

text \<open>
  A command is settled when the worker has let go of it: it is not in progress, and if it waits, it
  waits for a later time. It is closed when nothing but a person takes it up again: it neither waits nor
  is held by a pause.
\<close>

definition settled :: "timestamp \<Rightarrow> command \<Rightarrow> bool" where
  "settled now c \<longleftrightarrow> pc_status c \<noteq> C_in_progress
     \<and> (pc_status c = C_pending \<longrightarrow> (case pc_next_attempt_at c of None \<Rightarrow> False | Some t \<Rightarrow> now < t))"

definition closed :: "command \<Rightarrow> bool" where
  "closed c \<longleftrightarrow> pc_status c \<notin> {C_pending, C_in_progress} \<and> \<not> is_paused_command c"

lemma settled_updates [simp]:
  "settled now (c\<lparr>pc_updated_at := tt\<rparr>) = settled now c" "settled now (c\<lparr>pc_failure_detail := d\<rparr>) = settled now c"
  "closed (c\<lparr>pc_updated_at := tt\<rparr>) = closed c" "closed (c\<lparr>pc_failure_detail := d\<rparr>) = closed c"
  by (simp_all add: settled_def closed_def is_paused_command_def)

lemma classify_not_paused: "classify_failure_kind err \<noteq> K_paused"
  by (simp add: classify_failure_kind_def)

lemma next_attempt_later: "now < compute_next_attempt_at n now ra"
  by (simp add: compute_next_attempt_at_def seconds_def BACKOFF_BASE_SECONDS_def split: option.split)

lemma dead_lettered_settled: "settled now (dead_lettered t c)" "closed (dead_lettered t c)"
  by (simp_all add: dead_lettered_def mark_stop_notice_def awaits_stop_notice_def settled_def closed_def is_paused_command_def)

lemma failed_command_settled: "settled now (failed_command err le now ra rs c)"
  using dead_lettered_settled(1) next_attempt_later
  by (auto simp: failed_command_def Let_def settled_def mark_stop_notice_def)

lemma failed_command_closed:
  "classify_failure_kind err \<noteq> K_transient \<Longrightarrow> closed (failed_command err le now ra rs c)"
  using dead_lettered_settled(2) classify_not_paused [of err]
  by (cases "classify_failure_kind err")
    (auto simp: failed_command_def Let_def closed_def mark_stop_notice_def is_paused_command_def)

lemma failed_command_pending_iff:
  "pc_status (failed_command err le now ra rs c) = C_pending \<longleftrightarrow>
     classify_failure_kind err = K_transient \<and> pc_attempt_count c + 1 < MAX_RETRIES"
  using classify_not_paused [of err]
  by (cases "classify_failure_kind err")
    (auto simp: failed_command_def Let_def mark_stop_notice_def dead_lettered_def)

lemma classify_unknown: "classify_failure_kind None = K_needs_check"
  by (simp add: classify_failure_kind_def in_codes_def)

section \<open>Effect of executing a command\<close>

definition attempt_ok :: "attempt \<Rightarrow> bool" where
  "attempt_ok r \<longleftrightarrow> (at_adapter_called r \<longrightarrow> at_approval_check r = ''ok'')"

definition effect :: "(command \<Rightarrow> bool) \<Rightarrow> command \<Rightarrow> pub_db \<Rightarrow> pub_db \<Rightarrow> bool" where
  "effect P c db db' \<longleftrightarrow>
     (\<exists>c'. get_command (pc_id c) db' = Some c' \<and> ident c' = ident c \<and> P c')
     \<and> (\<forall>j. j \<noteq> pc_id c \<longrightarrow> get_command j db' = get_command j db)
     \<and> map pc_id (pb_commands db') = map pc_id (pb_commands db)
     \<and> (\<exists>r. pb_attempts db' = pb_attempts db @ [r] \<and> at_command_id r = pc_id c \<and> attempt_ok r)"

lemma get_apply_failure [command_simps]:
  "get_command j (apply_command_failure err le now ra rs i db)
     = (if j = i then map_option (\<lambda>c. (failed_command err le now ra rs c)\<lparr>pc_updated_at := now\<rparr>) (get_command j db)
        else get_command j db)"
  by (auto simp: apply_command_failure_def command_simps split: option.split)

lemma ids_apply_failure [command_simps]:
  "map pc_id (pb_commands (apply_command_failure err le now ra rs i db)) = map pc_id (pb_commands db)"
  by (auto simp: apply_command_failure_def command_simps split: option.split)

lemma attempts_record [command_simps]:
  "pb_attempts (record_publication_attempt ck called now code c db) = pb_attempts db @
     [\<lparr>at_command_id = pc_id c, at_gate_id = pc_gate_id c, at_approval_check = ck, at_adapter_called = called,
       at_started_at = now, at_finished_at = Some now, at_result_code = code\<rparr>]"
  by (simp add: record_publication_attempt_def)

text \<open>The four shapes of an execution: a recorded attempt, then a failure or a change of the row.\<close>

lemma effect_upd:
  assumes "get_command (pc_id c) db = Some c" and "\<And>x. ident (f x) = ident x" and "P ((f c)\<lparr>pc_updated_at := now\<rparr>)"
    and "\<not> called \<or> ck = ''ok''"
  shows "effect P c db (upd_command now (pc_id c) f (record_publication_attempt ck called now code c db))"
proof -
  have f: "pc_id (f x) = pc_id x" for x using assms(2) by (rule ident_pc_id)
  show ?thesis using assms unfolding effect_def attempt_ok_def by (auto simp: command_simps f)
qed

lemma effect_fail:
  assumes "get_command (pc_id c) db = Some c" and "P ((failed_command err le now ra rs c)\<lparr>pc_updated_at := now\<rparr>)"
    and "\<not> called \<or> ck = ''ok''"
  shows "effect P c db (apply_command_failure err le now ra rs (pc_id c) (record_publication_attempt ck called now code c db))"
  using assms unfolding effect_def attempt_ok_def by (auto simp: command_simps)

lemma effect_then:
  assumes "effect P c db db'" and "\<And>j. get_command j db'' = get_command j db'"
    and "map pc_id (pb_commands db'') = map pc_id (pb_commands db')" and "pb_attempts db'' = pb_attempts db'"
  shows "effect P c db db''"
  using assms unfolding effect_def by simp

lemma effect_before:
  assumes "effect P c db1 db2" and "\<And>j. get_command j db1 = get_command j db"
    and "map pc_id (pb_commands db1) = map pc_id (pb_commands db)" and "pb_attempts db1 = pb_attempts db"
  shows "effect P c db db2"
  using assms unfolding effect_def by simp

lemma effect_mono: "effect P c db db' \<Longrightarrow> (\<And>x. P x \<Longrightarrow> Q x) \<Longrightarrow> effect Q c db db'"
  unfolding effect_def by blast

section \<open>Executions, branch by branch\<close>

text \<open>
  Positive evidence that nothing visible left for the provider: no write request was sent, the answer is
  a container that still waits, a pause (raised before the adapter is called), or a code of the table of
  failures that precede the visible write.
\<close>

definition answer_unsent :: "answer \<Rightarrow> command \<Rightarrow> bool" where
  "answer_unsent a c \<longleftrightarrow> \<not> an_provider_call_marked a \<or>
     (case pc_content_kind c of
        Channel_post \<Rightarrow>
          (case an_publish a of
             Publication s \<Rightarrow> s \<noteq> ''published''
           | Publish_raises e _ \<Rightarrow> (case e of PublishPaused _ \<Rightarrow> True
               | _ \<Rightarrow> classify_failure_kind (worker_error_code e True) = K_transient))
      | Site_post \<Rightarrow>
          (case an_site a of Site_error code _ \<Rightarrow> classify_failure_kind (Some code) = K_transient
             | Site_paused _ \<Rightarrow> True | _ \<Rightarrow> False)
      | Comment_reply \<Rightarrow>
          (case an_reply a of
             Reply_error st code _ \<Rightarrow> classify_failure_kind (Some (reply_code st code)) = K_transient | _ \<Rightarrow> False)
      | _ \<Rightarrow> False)"

definition run_result :: "timestamp \<Rightarrow> bool \<Rightarrow> command \<Rightarrow> bool" where
  "run_result now unsent c \<longleftrightarrow> settled now c \<and> (unsent \<or> closed c)"

lemma run_result_failed:
  "unsent \<or> classify_failure_kind err \<noteq> K_transient \<Longrightarrow>
     run_result now unsent ((failed_command err le now ra rs c)\<lparr>pc_updated_at := t\<rparr>)"
  by (auto simp: run_result_def failed_command_settled failed_command_closed)

lemma run_result_closed: "closed c \<Longrightarrow> run_result now unsent c"
  by (auto simp: run_result_def settled_def closed_def)

lemmas closed_simps = closed_def is_paused_command_def mark_blocked_unapproved_def completed_command_def
  mark_stop_notice_def

lemma paused_effect:
  assumes "get_command (pc_id c) db = Some c"
  shows "effect (run_result now True) c db (block_for_external_publish_pause now reason c db)"
  unfolding block_for_external_publish_pause_def
  by (rule effect_upd [OF assms]) (simp_all add: run_result_def settled_def)

lemma common_failure_effect:
  assumes "get_command (pc_id c) db = Some c"
    and "unsent \<or> classify_failure_kind (worker_error_code e (an_provider_call_marked a)) \<noteq> K_transient"
  shows "effect (run_result now unsent) c db (common_publish_failure a now dr e msg c db)"
  using assms unfolding effect_def common_publish_failure_def Let_def
  by (auto simp: command_simps attempt_ok_def run_result_failed)

lemma publish_error_effect:
  assumes "get_command (pc_id c) db = Some c"
    and "unsent \<or> (case e of PublishPaused _ \<Rightarrow> False
           | _ \<Rightarrow> classify_failure_kind (worker_error_code e (an_provider_call_marked a)) \<noteq> K_transient)"
  shows "effect (run_result now unsent) c db (handle_publish_error a now dr e msg c db)"
proof (cases e)
  case ReapprovalRequired
  show ?thesis unfolding ReapprovalRequired handle_publish_error.simps
    by (rule effect_upd [OF assms(1)]) (simp_all add: run_result_closed closed_simps)
next
  case GateNotApproved
  show ?thesis unfolding GateNotApproved handle_publish_error.simps
    by (rule effect_upd [OF assms(1)]) (simp_all add: run_result_closed closed_simps)
next
  case (BudgetExceeded k mx sp es rm)
  show ?thesis unfolding BudgetExceeded handle_publish_error.simps
    by (rule effect_upd [OF assms(1)]) (simp_all add: run_result_closed closed_simps)
next
  case (YouTubeQuotaExceeded mx sp es rm reset tz)
  have "classify_failure_kind (Some ''YOUTUBE_QUOTA_EXCEEDED'') = K_not_sent" by code_simp
  then show ?thesis using assms(1) unfolding YouTubeQuotaExceeded handle_publish_error.simps effect_def
    by (auto simp: command_simps attempt_ok_def run_result_closed failed_command_closed)
next
  case (PublishPaused reason)
  then have "unsent" using assms(2) by simp
  then show ?thesis unfolding PublishPaused handle_publish_error.simps using paused_effect [OF assms(1)] by simp
qed (use assms in \<open>simp_all add: common_failure_effect\<close>)

lemma publication_effect:
  assumes "get_command (pc_id c) db = Some c" and "unsent \<or> status = ''published''"
  shows "effect (run_result now unsent) c db (handle_publication a now status c db)"
proof (cases "status = ''published''")
  case True
  have "effect (run_result now unsent) c db (upd_command now (pc_id c) completed_command
          (record_publication_attempt ''ok'' True now (Some ''published'') c db))"
    by (rule effect_upd [OF assms(1)]) (simp_all add: run_result_closed closed_simps)
  then have "effect (run_result now unsent) c db (set_recipe_outcome a ''published'' (upd_command now (pc_id c) completed_command
          (record_publication_attempt ''ok'' True now (Some ''published'') c db)))"
    by (rule effect_then) (simp_all add: command_simps)
  then show ?thesis using True by (simp add: handle_publication_def)
next
  case False
  then show ?thesis using assms(2) unfolding handle_publication_def
    by simp (rule effect_upd [OF assms(1)], simp_all add: run_result_def settled_def seconds_def)
qed

lemma channel_post_effect:
  assumes "get_command (pc_id c) db = Some c" and "pc_content_kind c = Channel_post"
  shows "effect (run_result now (answer_unsent a c)) c db (run_channel_post a now c db)"
proof -
  define db1 where "db1 = db\<lparr>pb_publications := an_publications a\<rparr>"
  have same: "get_command j db1 = get_command j db" "pb_commands db1 = pb_commands db" "pb_attempts db1 = pb_attempts db" for j
    by (simp_all add: db1_def command_simps)
  have nf: "effect (run_result now u) c db (handle_publish_error a now False DraftNotFound t c db)" for u t
  proof (rule publish_error_effect [OF assms(1)])
    have "classify_failure_kind (worker_error_code DraftNotFound m) \<noteq> K_transient" for m by (cases m) code_simp+
    then show "u \<or> (case DraftNotFound of PublishPaused _ \<Rightarrow> False
      | _ \<Rightarrow> classify_failure_kind (worker_error_code DraftNotFound (an_provider_call_marked a)) \<noteq> K_transient)" by simp
  qed
  have "effect (run_result now (answer_unsent a c)) c db
      (case an_publish a of Publication status \<Rightarrow> handle_publication a now status c db1
        | Publish_raises e msg \<Rightarrow> handle_publish_error a now True e msg c db1)"
  proof (rule effect_before [of _ _ db1])
    show "effect (run_result now (answer_unsent a c)) c db1
      (case an_publish a of Publication status \<Rightarrow> handle_publication a now status c db1
        | Publish_raises e msg \<Rightarrow> handle_publish_error a now True e msg c db1)"
    proof (cases "an_publish a")
      case (Publication s)
      have "answer_unsent a c \<or> s = ''published''" using Publication assms(2) by (simp add: answer_unsent_def)
      then show ?thesis using Publication assms(1) by (simp add: publication_effect same)
    next
      case (Publish_raises e msg)
      have "answer_unsent a c \<or> (case e of PublishPaused _ \<Rightarrow> False
           | _ \<Rightarrow> classify_failure_kind (worker_error_code e (an_provider_call_marked a)) \<noteq> K_transient)"
        using Publish_raises assms(2) by (cases e) (auto simp: answer_unsent_def)
      then show ?thesis using Publish_raises assms(1) by (simp add: publish_error_effect same)
    qed
  qed (simp_all add: same)
  then show ?thesis unfolding run_channel_post_def db1_def [symmetric] Let_def
    using nf by (simp split: option.split)
qed

lemma site_failure_effect:
  assumes "get_command (pc_id c) db = Some c" and "unsent \<or> classify_failure_kind code \<noteq> K_transient"
  shows "effect (run_result now unsent) c db (site_failure a now code msg c db)"
  unfolding site_failure_def using assms by (intro effect_fail) (simp_all add: run_result_failed)

lemma site_post_effect:
  assumes "get_command (pc_id c) db = Some c" and "pc_content_kind c = Site_post"
  shows "effect (run_result now (answer_unsent a c)) c db (run_site_post a now c db)"
proof (cases "an_site a")
  case (Site_done nt)
  have "effect (run_result now u) c db (upd_command now (pc_id c) completed_command
      (record_publication_attempt ''ok'' True now code c db))" for u code
    by (rule effect_upd [OF assms(1)]) (simp_all add: run_result_closed closed_simps)
  then show ?thesis using Site_done by (simp add: run_site_post_def)
next
  case (Site_error code msg)
  have f: "answer_unsent a c \<or> classify_failure_kind (Some code) \<noteq> K_transient"
    using Site_error assms(2) by (simp add: answer_unsent_def)
  show ?thesis
  proof (cases "code \<in> set GATE_REVERIFY_ERROR_CODES")
    case True
    show ?thesis
    proof (cases "site_approval_check code = ''version_mismatch''")
      case v: True
      then show ?thesis using True Site_error unfolding run_site_post_def
        by (simp add: Let_def) (rule effect_upd [OF assms(1)], simp_all add: run_result_closed closed_simps)
    next
      case v: False
      then show ?thesis using True Site_error unfolding run_site_post_def
        by (simp add: Let_def) (rule effect_upd [OF assms(1)], simp_all add: run_result_closed closed_simps)
    qed
  next
    case False
    then show ?thesis using Site_error f site_failure_effect [OF assms(1), of "answer_unsent a c" "Some code"]
      by (simp add: run_site_post_def)
  qed
next
  case (Site_paused reason)
  then have "answer_unsent a c" using assms(2) by (simp add: answer_unsent_def)
  then show ?thesis using Site_paused paused_effect [OF assms(1)] by (simp add: run_site_post_def)
next
  case (Site_raises msg)
  then have "answer_unsent a c \<or> an_provider_call_marked a" by (auto simp: answer_unsent_def)
  then show ?thesis using Site_raises by (auto simp: run_site_post_def site_failure_effect assms(1) classify_unknown)
qed

lemma void_reply_effect:
  assumes "get_command (pc_id c) db = Some c"
  shows "effect (run_result now unsent) c db (void_reply_command now reason msg r c db)"
proof -
  have "effect (run_result now unsent) c db
      (upd_command now (pc_id c) (\<lambda>x. x\<lparr>pc_status := C_voided, pc_reason_code := Some reason\<rparr>)
         (record_publication_attempt ''version_mismatch'' False now None c db))"
    by (rule effect_upd [OF assms]) (simp_all add: run_result_closed closed_simps)
  then show ?thesis unfolding void_reply_command_def by (rule effect_then) (simp_all add: command_simps)
qed

lemma reply_failure_effect:
  assumes "get_command (pc_id c) db = Some c" and "unsent \<or> classify_failure_kind code \<noteq> K_transient"
  shows "effect (run_result now unsent) c db (reply_failure a now code msg r c db)"
  using assms unfolding effect_def reply_failure_def
  by (auto simp: command_simps attempt_ok_def run_result_failed)

lemma send_reply_effect:
  assumes "get_command (pc_id c) db = Some c" and "pc_content_kind c = Comment_reply"
  shows "effect (run_result now (answer_unsent a c)) c db (send_reply a now r c db)"
proof -
  have na: "classify_failure_kind (Some ''CHANNEL_CONNECTION_NOT_ACTIVE'') \<noteq> K_transient" by code_simp
  have sent: "effect (run_result now u) c db (upd_command now (pc_id c) completed_command
                  (upd_reply r f (record_publication_attempt ''ok'' True now (Some ''published'') c db)))" for u f
    using assms(1) unfolding effect_def by (auto simp: command_simps attempt_ok_def run_result_closed closed_simps)
  have err: "an_reply a = Reply_error st code msg \<Longrightarrow>
      answer_unsent a c \<or> classify_failure_kind (Some (reply_code st code)) \<noteq> K_transient" for st code msg
    using assms(2) by (simp add: answer_unsent_def)
  have "answer_unsent a c \<or> an_provider_call_marked a" by (auto simp: answer_unsent_def)
  then have ra: "an_provider_call_marked a \<Longrightarrow> effect (run_result now (answer_unsent a c)) c db (reply_failure a now None msg r c db)"
    "\<not> an_provider_call_marked a \<Longrightarrow> effect (run_result now (answer_unsent a c)) c db
       (reply_failure a now (Some PRE_CALL_ERROR_CODE) msg r c db)" for msg
    by (auto simp: reply_failure_effect assms(1) classify_unknown)
  show ?thesis unfolding send_reply_def
    by (auto simp: reply_failure_effect assms(1) na sent err ra split: option.split reply_answer.split)
qed

lemma comment_reply_effect:
  assumes "get_command (pc_id c) db = Some c" and "pc_content_kind c = Comment_reply"
  shows "effect (run_result now (answer_unsent a c)) c db (run_comment_reply a now c db)"
proof -
  have k: "classify_failure_kind (Some ''COMMENT_REPLY_NOT_FOUND'') \<noteq> K_transient"
      "classify_failure_kind (Some ''COMMENT_NOT_FOUND'') \<noteq> K_transient" by code_simp+
  have nf: "effect (run_result now u) c db (apply_command_failure (Some code) le now None None (pc_id c)
      (record_publication_attempt ''ok'' False now (Some code) c db))"
    if "classify_failure_kind (Some code) \<noteq> K_transient" for u code le
    by (rule effect_fail [OF assms(1)]) (simp_all add: run_result_failed that)
  have nc: "effect (run_result now u) c db (fail_reply r msg (apply_command_failure (Some ''COMMENT_NOT_FOUND'') le now None None (pc_id c)
      (record_publication_attempt ''ok'' False now (Some ''COMMENT_NOT_FOUND'') c db)))" for u r msg le
    by (rule effect_then [OF nf [OF k(2)]]) (simp_all add: command_simps)
  show ?thesis unfolding run_comment_reply_def
    by (auto simp: nf nc k void_reply_effect [OF assms(1)] send_reply_effect [OF assms] split: option.split)
qed

lemma newsletter_effect:
  assumes "get_command (pc_id c) db = Some c"
  shows "effect (run_result now unsent) c db (process_one_newsletter_send_command a now c db)"
proof -
  have k: "classify_failure_kind (Some ''NEWSLETTER_SEND_PROVIDER_ERROR'') \<noteq> K_transient"
      "classify_failure_kind (Some ''STIBEE_PLAN_RESTRICTED'') \<noteq> K_transient"
      "classify_failure_kind (Some ''NEWSLETTER_SEND_CONNECTION_UNAVAILABLE'') \<noteq> K_transient"
      "classify_failure_kind (Some ''NEWSLETTER_SEND_CHANNEL_UNSUPPORTED'') \<noteq> K_transient" by code_simp+
  have fl: "effect (run_result now unsent) c db (apply_command_failure (Some code) le now None None (pc_id c)
      (record_publication_attempt ''ok'' cal now rc c db))"
    if "classify_failure_kind (Some code) \<noteq> K_transient" for code le cal rc
    by (rule effect_fail [OF assms]) (simp_all add: run_result_failed that)
  have bad: "effect (run_result now unsent) c db (newsletter_failed now g code msg c db)"
    if "classify_failure_kind (Some code) \<noteq> K_transient" for g code msg
    unfolding newsletter_failed_def by (rule effect_then [OF fl [OF that]]) (simp_all add: command_simps)
  have good: "effect (run_result now unsent) c db (newsletter_succeeded now g ctx c db)" for g ctx
    using assms unfolding newsletter_succeeded_def effect_def
    by (auto simp: command_simps attempt_ok_def run_result_closed closed_simps)
  have plan: "effect (run_result now unsent) c db (upd_connection k f (newsletter_failed now g code msg c db))"
    if "classify_failure_kind (Some code) \<noteq> K_transient" for k f g code msg
    by (rule effect_then [OF bad [OF that]]) (simp_all add: command_simps)
  have blk: "effect (run_result now unsent) c db (upd_command now (pc_id c)
      (\<lambda>x. mark_stop_notice (x\<lparr>pc_status := C_blocked_unapproved, pc_last_error := Some code, pc_reason_code := Some code\<rparr>))
      (record_publication_attempt ck False now None c db))" for code ck
    by (rule effect_upd [OF assms]) (simp_all add: run_result_closed closed_simps)
  show ?thesis
    unfolding process_one_newsletter_send_command_def process_sandbox_send_def process_real_send_def
    by (auto simp: fl bad good plan blk k Let_def split: sum.split newsletter_answer.split)
qed

lemma run_command_effect:
  assumes "get_command i db = Some c" and "pc_content_kind c \<noteq> Ads_boost"
  shows "effect (run_result now (answer_unsent a c)) c db (run_command a now i db)"
proof -
  have g: "get_command (pc_id c) db = Some c" using assms(1) get_command_id by metis
  show ?thesis unfolding run_command_def using assms
    by (cases "pc_content_kind c")
      (simp_all add: channel_post_effect g site_post_effect comment_reply_effect newsletter_effect)
qed

lemma get_mark [command_simps]:
  "get_command j (mark_provider_call_started now i db)
     = (if j = i then map_option (\<lambda>c. c\<lparr>pc_provider_call_started_at := Some now, pc_updated_at := now\<rparr>) (get_command j db)
        else get_command j db)"
  by (simp add: mark_provider_call_started_def command_simps)

lemma ids_mark [command_simps]:
  "map pc_id (pb_commands (mark_provider_call_started now i db)) = map pc_id (pb_commands db)"
  by (simp add: mark_provider_call_started_def command_simps)

lemma attempts_mark [command_simps]: "pb_attempts (mark_provider_call_started now i db) = pb_attempts db"
  by (simp add: mark_provider_call_started_def command_simps)

lemma process_one_effect:
  assumes "get_command i db = Some c" and "pc_content_kind c \<noteq> Ads_boost"
  shows "effect (settled now) c db (process_one_command a now i db)"
proof (cases "fst (is_external_publish_paused (pc_org_id c) db)")
  case True
  have g: "get_command (pc_id c) db = Some c" using assms(1) get_command_id by metis
  obtain reason where "is_external_publish_paused (pc_org_id c) db = (True, reason)" using True by (metis prod.collapse)
  then have "process_one_command a now i db = block_for_external_publish_pause now reason c db"
    using assms(1) by (simp add: process_one_command_def)
  moreover have "effect (settled now) c db (block_for_external_publish_pause now reason c db)"
    by (rule effect_mono [OF paused_effect [OF g]]) (simp add: run_result_def)
  ultimately show ?thesis by simp
next
  case False
  define c1 where "c1 = c\<lparr>pc_provider_call_started_at := Some now, pc_updated_at := now\<rparr>"
  define db1 where "db1 = mark_provider_call_started now i db"
  have i: "pc_id c = i" using assms(1) get_command_id by metis
  have "get_command i db1 = Some c1" using assms(1) by (simp add: db1_def c1_def command_simps)
  then have "effect (run_result now (answer_unsent a c1)) c1 db1 (run_command a now i db1)"
    by (rule run_command_effect) (simp add: c1_def assms(2))
  then have "effect (settled now) c1 db1 (run_command a now i db1)" by (rule effect_mono) (simp add: run_result_def)
  then have "effect (settled now) c db (run_command a now i db1)"
    unfolding effect_def using i by (auto simp: c1_def db1_def command_simps)
  moreover have "process_one_command a now i db = run_command a now i db1"
    using assms(1) False by (auto simp: process_one_command_def db1_def split: prod.split)
  ultimately show ?thesis by simp
qed

end
