(* ===== verification/Publication_Machine.thy ===== *)
theory Publication_Machine
  imports Publication_Effects
begin

text \<open>
  Publication workers as a concurrent system. Several ticks, people and other services act on one ledger:
  a worker claims a command, enters the provider call and finishes it, and may die at any point; the
  recovery, the pause, cancellations and new requests interleave with it. The state adds to the database
  the clock and the live workers, each with its command, the time of its claim and whether it has
  entered the provider call.

  The abstract specification is an outbox: a message is open, being sent, or closed, and only a person
  opens a closed one. The system refines it, which bounds what is ever sent twice.
\<close>

section \<open>The outbox\<close>

datatype label = Tau | Start uuid | Unsent uuid | Maybe_sent uuid | Human uuid

datatype outbox = Open | Sending | Closed

text \<open>
  One message under a label of its own. Silent steps close open messages at most. A call that may have
  gone out closes the message; one that is known not to have gone out may open it again.
\<close>

fun outbox_step :: "uuid \<Rightarrow> label \<Rightarrow> outbox \<Rightarrow> outbox \<Rightarrow> bool" where
  "outbox_step i Tau x y = (y = x \<or> (x = Open \<and> y = Closed))"
| "outbox_step i (Start k) x y = (if k = i then x = Open \<and> y = Sending else y = x)"
| "outbox_step i (Unsent k) x y = (if k = i then x = Sending \<and> y \<noteq> Sending else y = x)"
| "outbox_step i (Maybe_sent k) x y = (if k = i then x = Sending \<and> y = Closed else y = x)"
| "outbox_step i (Human k) x y = (if k = i then y = x \<or> (x \<noteq> Sending \<and> y = Open) else y = x)"

inductive lab_run :: "('l \<Rightarrow> 's \<Rightarrow> 's \<Rightarrow> bool) \<Rightarrow> 's \<Rightarrow> 'l list \<Rightarrow> 's \<Rightarrow> bool" for step where
  lab_run_Nil: "lab_run step s [] s"
| lab_run_Cons: "step l s s' \<Longrightarrow> lab_run step s' ls s'' \<Longrightarrow> lab_run step s (l # ls) s''"

inductive_cases lab_run_NilE: "lab_run step s [] s'"
inductive_cases lab_run_ConsE: "lab_run step s (l # ls) s'"

lemma lab_run_Cons_iff: "lab_run step s (l # ls) s'' \<longleftrightarrow> (\<exists>s'. step l s s' \<and> lab_run step s' ls s'')"
  by (auto elim: lab_run_ConsE intro: lab_run_Cons)

lemma lab_run_append: "lab_run step s (xs @ ys) s'' \<longleftrightarrow> (\<exists>s'. lab_run step s xs s' \<and> lab_run step s' ys s'')"
proof (induction xs arbitrary: s)
  case Nil
  show ?case by (auto intro: lab_run_Nil elim: lab_run_NilE)
next
  case (Cons x xs)
  then show ?case by (auto simp: lab_run_Cons_iff)
qed

text \<open>A forward simulation carries runs of the system to runs of its specification.\<close>

locale simulation =
  fixes step :: "'l \<Rightarrow> 's \<Rightarrow> 's \<Rightarrow> bool" and inv :: "'s \<Rightarrow> bool"
    and abs :: "'s \<Rightarrow> 'a" and astep :: "'l \<Rightarrow> 'a \<Rightarrow> 'a \<Rightarrow> bool"
  assumes keeps_inv: "inv s \<Longrightarrow> step l s s' \<Longrightarrow> inv s'"
    and simulates: "inv s \<Longrightarrow> step l s s' \<Longrightarrow> astep l (abs s) (abs s')"
begin

lemma run_simulates: "lab_run step s ls s' \<Longrightarrow> inv s \<Longrightarrow> lab_run astep (abs s) ls (abs s') \<and> inv s'"
proof (induction rule: lab_run.induct)
  case (lab_run_Cons l s s' ls s'')
  then show ?case using keeps_inv simulates by (blast intro: lab_run.intros)
qed (auto intro: lab_run.intros)

end

text \<open>In the outbox itself: once closed, a message stays closed until a person acts.\<close>

lemma outbox_closed:
  assumes "lab_run (outbox_step i) Closed ls y" and "Human i \<notin> set ls"
  shows "y = Closed \<and> Start i \<notin> set ls"
proof -
  have "x = Closed \<Longrightarrow> Human i \<notin> set ls \<Longrightarrow> y = Closed \<and> Start i \<notin> set ls" if "lab_run (outbox_step i) x ls y" for x
    using that
  proof (induction rule: lab_run.induct)
    case (lab_run_Cons l x x' ls y)
    then show ?case by (cases l) (auto split: if_splits)
  qed simp
  then show ?thesis using assms by blast
qed

lemma outbox_once:
  assumes "lab_run (outbox_step i) x (xs @ Maybe_sent i # ys @ Start i # zs) y"
  shows "Human i \<in> set ys"
proof (rule ccontr)
  assume h: "Human i \<notin> set ys"
  obtain x1 where "lab_run (outbox_step i) x1 (Maybe_sent i # ys @ Start i # zs) y"
    using assms by (auto simp: lab_run_append)
  then obtain x2 where "outbox_step i (Maybe_sent i) x1 x2" "lab_run (outbox_step i) x2 (ys @ Start i # zs) y"
    by (auto elim: lab_run_ConsE)
  then obtain x3 where "lab_run (outbox_step i) Closed ys x3" "lab_run (outbox_step i) x3 (Start i # zs) y"
    by (auto simp: lab_run_append)
  moreover then have "x3 = Closed" using outbox_closed h by blast
  ultimately show False by (auto elim!: lab_run_ConsE)
qed

section \<open>The system\<close>

record pub_sys =
  ps_db :: pub_db
  ps_clock :: timestamp
  ps_live :: "(uuid \<times> timestamp \<times> bool) list"

text \<open>The longest life of a worker's request: the platform cuts it off (3600 s, the largest deployment setting).\<close>

definition REQUEST_LIMIT :: int where "REQUEST_LIMIT = seconds 3600"

definition drop_live :: "uuid \<Rightarrow> (uuid \<times> timestamp \<times> bool) list \<Rightarrow> (uuid \<times> timestamp \<times> bool) list" where
  "drop_live i ws = filter (\<lambda>w. fst w \<noteq> i) ws"

inductive pub_step :: "label \<Rightarrow> pub_sys \<Rightarrow> pub_sys \<Rightarrow> bool" where
  clock: "ps_clock s \<le> t \<Longrightarrow> \<forall>(i, u, ph) \<in> set (ps_live s). t \<le> u + REQUEST_LIMIT \<Longrightarrow>
    pub_step Tau s (s\<lparr>ps_clock := t\<rparr>)"
| claim: "next_due (ps_clock s) skip (ps_db s) = Some c \<Longrightarrow>
    pub_step Tau s (s\<lparr>ps_db := upd_command (ps_clock s) (pc_id c) (claimed (ps_clock s)) (ps_db s),
                     ps_live := (pc_id c, ps_clock s, False) # ps_live s\<rparr>)"
| over_budget: "next_due (ps_clock s) skip (ps_db s) = Some c \<Longrightarrow>
    pub_step Tau s (s\<lparr>ps_db := upd_command (ps_clock s) (pc_id c) over_budget_marked (ps_db s)\<rparr>)"
| block: "(i, t, False) \<in> set (ps_live s) \<Longrightarrow> get_command i (ps_db s) = Some c \<Longrightarrow>
    is_external_publish_paused (pc_org_id c) (ps_db s) = (True, reason) \<Longrightarrow>
    pub_step Tau s (s\<lparr>ps_db := block_for_external_publish_pause (ps_clock s) reason c (ps_db s),
                     ps_live := drop_live i (ps_live s)\<rparr>)"
| start: "(i, t, False) \<in> set (ps_live s) \<Longrightarrow> get_command i (ps_db s) = Some c \<Longrightarrow>
    fst (is_external_publish_paused (pc_org_id c) (ps_db s)) = False \<Longrightarrow>
    pub_step (Start i) s (s\<lparr>ps_db := mark_provider_call_started (ps_clock s) i (ps_db s),
                           ps_live := (i, t, True) # drop_live i (ps_live s)\<rparr>)"
| finish: "(i, t, True) \<in> set (ps_live s) \<Longrightarrow> get_command i (ps_db s) = Some c \<Longrightarrow>
    pub_step (if answer_unsent a c then Unsent i else Maybe_sent i) s
      (s\<lparr>ps_db := run_command a (ps_clock s) i (ps_db s), ps_live := drop_live i (ps_live s)\<rparr>)"
| escape: "(i, t, True) \<in> set (ps_live s) \<Longrightarrow>
    pub_step (if called then Maybe_sent i else Unsent i) s
      (s\<lparr>ps_db := record_unclassified_batch_failure i called (ps_clock s) (ps_db s), ps_live := drop_live i (ps_live s)\<rparr>)"
| escape_early: "(i, t, False) \<in> set (ps_live s) \<Longrightarrow>
    pub_step Tau s
      (s\<lparr>ps_db := record_unclassified_batch_failure i False (ps_clock s) (ps_db s), ps_live := drop_live i (ps_live s)\<rparr>)"
| crash: "(i, t, ph) \<in> set (ps_live s) \<Longrightarrow>
    pub_step (if ph then Maybe_sent i else Tau) s (s\<lparr>ps_live := drop_live i (ps_live s)\<rparr>)"
| recover: "get_command i (ps_db s) = Some c \<Longrightarrow> is_stuck (ps_clock s) c \<Longrightarrow>
    pub_step Tau s (s\<lparr>ps_db := snd (recover_command (ps_clock s) i (ps_db s))\<rparr>)"
| create: "create_or_get_publication_command a fresh (ps_clock s) (ps_db s) = Inr (c, new, db') \<Longrightarrow>
    get_command fresh (ps_db s) = None \<Longrightarrow> cm_content_kind a \<noteq> Ads_boost \<Longrightarrow> pub_step Tau s (s\<lparr>ps_db := db'\<rparr>)"
| sweep: "get_command (fresh (cp_id p)) (ps_db s) = None \<Longrightarrow>
    pub_step Tau s (s\<lparr>ps_db := snd (sweep_publication fresh (ps_clock s) p (ps_db s))\<rparr>)"
| void: "pub_step Tau s (s\<lparr>ps_db := snd (void_pending_commands_for_gate gt reason_code (ps_clock s) (ps_db s))\<rparr>)"
| cancel: "cancel_scheduled_publication org draft member (ps_clock s) (ps_db s) = Inr db' \<Longrightarrow>
    pub_step Tau s (s\<lparr>ps_db := db'\<rparr>)"
| cancel_unstarted: "cancel_unstarted_publication org draft member (ps_clock s) (ps_db s) = Inr db' \<Longrightarrow>
    pub_step Tau s (s\<lparr>ps_db := db'\<rparr>)"
| pause: "set_external_publish_pause org paused reason actor (ps_clock s) (ps_db s) = Inr db' \<Longrightarrow>
    pub_step Tau s (s\<lparr>ps_db := db'\<rparr>)"
| unpause: "pub_step Tau s (s\<lparr>ps_db := snd (requeue_paused_commands_of_unpaused_orgs (ps_clock s) (ps_db s))\<rparr>)"
| notice: "pub_step Tau s (s\<lparr>ps_db := snd (deliver_one_stop_notice in_recipe (ps_clock s) i (ps_db s))\<rparr>)"
| elsewhere: "pb_commands db' = pb_commands (ps_db s) \<Longrightarrow> pub_step Tau s (s\<lparr>ps_db := db'\<rparr>)"
| retry: "pub_step (Human i) s (s\<lparr>ps_db := snd (retry_dead_letter_command org i False (ps_clock s) (ps_db s))\<rparr>)"
| publish_now: "get_command i (ps_db s) = Some c \<Longrightarrow> raise_if_needs_check c = Inr () \<Longrightarrow>
    pub_step (Human i) s (s\<lparr>ps_db := upd_command (ps_clock s) i (\<lambda>x. snd (requeue_for_human_publish x)) (ps_db s)\<rparr>)"

section \<open>Rows under a step\<close>

text \<open>
  \<^verbatim>\<open>calm\<close>: identity stays, nothing enters or leaves the worker's hands. \<^verbatim>\<open>quiet\<close>: moreover no closed
  command is taken up again.
\<close>

definition calm_row :: "command \<Rightarrow> command \<Rightarrow> bool" where
  "calm_row c c' \<longleftrightarrow> ident c' = ident c \<and>
     (if pc_status c = C_in_progress
      then pc_status c' = C_in_progress \<and> pc_claimed_at c' = pc_claimed_at c
           \<and> pc_provider_call_started_at c' = pc_provider_call_started_at c
      else pc_status c' \<noteq> C_in_progress)"

definition quiet_row :: "command \<Rightarrow> command \<Rightarrow> bool" where
  "quiet_row c c' \<longleftrightarrow> calm_row c c' \<and> (closed c \<longrightarrow> closed c')"

fun opt_row_rel :: "(command \<Rightarrow> command \<Rightarrow> bool) \<Rightarrow> command option \<Rightarrow> command option \<Rightarrow> bool" where
  "opt_row_rel R None None = True"
| "opt_row_rel R None (Some c') = (pc_status c' = C_pending \<and> pc_content_kind c' \<noteq> Ads_boost)"
| "opt_row_rel R (Some c) None = False"
| "opt_row_rel R (Some c) (Some c') = R c c'"

definition rows_rel :: "(command \<Rightarrow> command \<Rightarrow> bool) \<Rightarrow> pub_db \<Rightarrow> pub_db \<Rightarrow> bool" where
  "rows_rel R db db' \<longleftrightarrow>
     (distinct (map pc_id (pb_commands db)) \<longrightarrow> distinct (map pc_id (pb_commands db')))
     \<and> (\<forall>j. opt_row_rel R (get_command j db) (get_command j db'))"

lemma calm_refl [simp]: "calm_row c c" by (simp add: calm_row_def)

lemma quiet_refl [simp]: "quiet_row c c" by (simp add: quiet_row_def)

lemma calm_updated [simp]: "calm_row c (c'\<lparr>pc_updated_at := t\<rparr>) = calm_row c c'"
  by (simp add: calm_row_def)

lemma quiet_updated [simp]: "quiet_row c (c'\<lparr>pc_updated_at := t\<rparr>) = quiet_row c c'"
  by (simp add: quiet_row_def)

lemma quiet_trans: "quiet_row a b \<Longrightarrow> quiet_row b c \<Longrightarrow> quiet_row a c"
  by (auto simp: quiet_row_def calm_row_def split: if_splits)

lemma quiet_pending: "quiet_row c c' \<Longrightarrow> pc_status c = C_pending \<Longrightarrow> pc_content_kind c' = pc_content_kind c"
  by (simp add: quiet_row_def calm_row_def ident_def)

lemma opt_row_rel_refl: "(\<And>c. R c c) \<Longrightarrow> opt_row_rel R x x"
  by (cases x) simp_all

lemma opt_row_rel_mono: "opt_row_rel R x y \<Longrightarrow> (\<And>c c'. R c c' \<Longrightarrow> S c c') \<Longrightarrow> opt_row_rel S x y"
  by (cases "(R, x, y)" rule: opt_row_rel.cases) auto

lemma rows_rel_same: "pb_commands db' = pb_commands db \<Longrightarrow> (\<And>c. R c c) \<Longrightarrow> rows_rel R db db'"
  by (simp add: rows_rel_def get_command_def opt_row_rel_refl)

lemma rows_rel_upd:
  assumes "\<And>x. ident (f x) = ident x"
    and "\<And>c. get_command i db = Some c \<Longrightarrow> R c ((f c)\<lparr>pc_updated_at := now\<rparr>)" and "\<And>c. R c c"
  shows "rows_rel R db (upd_command now i f db)"
proof -
  have f: "pc_id (f x) = pc_id x" for x using assms(1) by (rule ident_pc_id)
  have "opt_row_rel R (get_command j db) (get_command j (upd_command now i f db))" for j
    using assms(2) by (cases "get_command j db") (auto simp: command_simps f opt_row_rel_refl assms(3))
  then show ?thesis by (simp add: rows_rel_def ids_upd_command f)
qed

lemma rows_rel_mono: "rows_rel R db db' \<Longrightarrow> (\<And>c c'. R c c' \<Longrightarrow> S c c') \<Longrightarrow> rows_rel S db db'"
  unfolding rows_rel_def using opt_row_rel_mono by metis

lemma quiet_rows_trans:
  assumes "rows_rel quiet_row db1 db2" "rows_rel quiet_row db2 db3"
    and "\<And>j c c'. get_command j db2 = Some c \<Longrightarrow> get_command j db1 = None \<Longrightarrow> get_command j db3 = Some c' \<Longrightarrow> pc_status c' = C_pending"
  shows "rows_rel quiet_row db1 db3"
proof -
  have "opt_row_rel quiet_row (get_command j db1) (get_command j db3)" for j
  proof -
    have "opt_row_rel quiet_row (get_command j db1) (get_command j db2)" "opt_row_rel quiet_row (get_command j db2) (get_command j db3)"
      using assms(1,2) by (auto simp: rows_rel_def)
    then show ?thesis
    proof (cases "get_command j db1")
      case None
      show ?thesis
      proof (cases "get_command j db2")
        case c2: None
        then show ?thesis using None \<open>opt_row_rel quiet_row (get_command j db2) (get_command j db3)\<close> by simp
      next
        case c2: (Some c2)
        then obtain c3 where c3: "get_command j db3 = Some c3" "quiet_row c2 c3"
          using \<open>opt_row_rel quiet_row (get_command j db2) (get_command j db3)\<close> by (cases "get_command j db3") simp_all
        have "pc_status c2 = C_pending" "pc_content_kind c2 \<noteq> Ads_boost"
          using \<open>opt_row_rel quiet_row (get_command j db1) (get_command j db2)\<close> None c2 by simp_all
        then show ?thesis using None c3 quiet_pending [OF c3(2)] assms(3) [OF c2 None c3(1)] by simp
      qed
    next
      case (Some c1)
      then obtain c2 where c2: "get_command j db2 = Some c2" "quiet_row c1 c2"
        using \<open>opt_row_rel quiet_row (get_command j db1) (get_command j db2)\<close> by (cases "get_command j db2") simp_all
      then obtain c3 where "get_command j db3 = Some c3" "quiet_row c2 c3"
        using \<open>opt_row_rel quiet_row (get_command j db2) (get_command j db3)\<close> by (cases "get_command j db3") simp_all
      then show ?thesis using Some quiet_trans [OF c2(2)] by simp
    qed
  qed
  then show ?thesis using assms(1,2) by (simp add: rows_rel_def)
qed

lemma get_None_iff: "get_command j db = None \<longleftrightarrow> j \<notin> set (map pc_id (pb_commands db))"
  by (auto simp: get_command_def find_row_None)

definition quietly :: "pub_db \<Rightarrow> pub_db \<Rightarrow> bool" where
  "quietly db db' \<longleftrightarrow> (distinct (map pc_id (pb_commands db)) \<longrightarrow>
     rows_rel quiet_row db db' \<and> map pc_id (pb_commands db') = map pc_id (pb_commands db))"

lemma quietly_same: "pb_commands db' = pb_commands db \<Longrightarrow> quietly db db'"
  by (simp add: quietly_def rows_rel_same)

lemma quietly_trans:
  assumes "quietly a b" "quietly b c"
  shows "quietly a c"
  unfolding quietly_def
proof
  assume d: "distinct (map pc_id (pb_commands a))"
  then have ab: "rows_rel quiet_row a b" "map pc_id (pb_commands b) = map pc_id (pb_commands a)"
    using assms(1) by (simp_all add: quietly_def)
  then have bc: "rows_rel quiet_row b c" "map pc_id (pb_commands c) = map pc_id (pb_commands b)"
    using assms(2) d unfolding quietly_def by simp_all
  have "get_command j a = None \<Longrightarrow> get_command j b = None" for j
    using ab(2) by (simp add: get_None_iff)
  then have "rows_rel quiet_row a c"
    by (intro quiet_rows_trans [OF ab(1) bc(1)]) simp
  then show "rows_rel quiet_row a c \<and> map pc_id (pb_commands c) = map pc_id (pb_commands a)"
    using ab(2) bc(2) by simp
qed

lemma quietly_upd:
  assumes "\<And>x. ident (f x) = ident x"
    and "\<And>c. distinct (map pc_id (pb_commands db)) \<Longrightarrow> get_command i db = Some c \<Longrightarrow> quiet_row c (f c)"
  shows "quietly db (upd_command now i f db)"
proof -
  have "pc_id (f x) = pc_id x" for x using assms(1) by (rule ident_pc_id)
  then show ?thesis unfolding quietly_def using assms
    by (simp add: ids_upd_command rows_rel_upd)
qed

lemma quietly_foldl:
  assumes "\<And>n d x. quietly d (snd (f (n, d) x))"
  shows "quietly db (snd (foldl f (n, db) xs))"
proof (induction xs arbitrary: n db)
  case Nil
  show ?case by (simp add: quietly_same)
next
  case (Cons x xs)
  have "quietly db (snd (f (n, db) x))" by (rule assms)
  then show ?case using Cons.IH [of "snd (f (n, db) x)" "fst (f (n, db) x)"] by (simp add: quietly_trans)
qed

section \<open>Quiet operations\<close>

lemma quiet_over_budget: "quiet_row c (over_budget_marked c)"
  by (simp add: quiet_row_def calm_row_def closed_def is_paused_command_def over_budget_marked_def)

lemma quiet_requeued: "is_paused_command c \<Longrightarrow> quiet_row c (requeued c)"
  by (simp add: quiet_row_def calm_row_def closed_def is_paused_command_def requeued_def)

lemma quiet_cancelled: "pc_status c \<noteq> C_in_progress \<Longrightarrow> quiet_row c (cancelled c)"
  by (simp add: quiet_row_def calm_row_def closed_def is_paused_command_def cancelled_def)

lemma quiet_notice: "quiet_row c (c\<lparr>pc_stop_notice_state := ns\<rparr>)"
  by (simp add: quiet_row_def calm_row_def closed_def is_paused_command_def)

lemma find_org_command:
  assumes "List.find (\<lambda>c. pc_id c = i \<and> pc_org_id c = org) (pb_commands db) = Some c"
    and "distinct (map pc_id (pb_commands db))"
  shows "get_command i db = Some c"
proof -
  have "c \<in> set (pb_commands db)" "pc_id c = i" using find_SomeD [OF assms(1)] by simp_all
  then show ?thesis using get_command_member [OF assms(2)] by blast
qed

lemma retry_paused_quietly: "quietly db (snd (retry_dead_letter_command org i True now db))"
proof (cases "List.find (\<lambda>c. pc_id c = i \<and> pc_org_id c = org) (pb_commands db)")
  case None
  then show ?thesis by (simp add: retry_dead_letter_command_def quietly_same)
next
  case (Some c)
  show ?thesis
  proof (cases "is_paused_command c")
    case False
    then show ?thesis using Some by (auto simp: retry_dead_letter_command_def is_paused_command_def quietly_same)
  next
    case True
    have "quietly db (upd_command now i requeued db)"
      by (rule quietly_upd) (use find_org_command [OF Some] True in \<open>simp_all add: quiet_requeued\<close>)
    then show ?thesis using Some True by (simp add: retry_dead_letter_command_def is_paused_command_def)
  qed
qed

lemma requeue_paused_quietly: "quietly db (snd (requeue_paused_commands org now db))"
  unfolding requeue_paused_commands_def
proof (rule quietly_foldl)
  fix n :: nat and d x
  obtain r d1 where "retry_dead_letter_command org x True now d = (r, d1)" by fastforce
  moreover then have "quietly d d1" using retry_paused_quietly [of d org x now] by simp
  ultimately show "quietly d (snd ((\<lambda>(n, d) i. case retry_dead_letter_command org i True now d of
      (None, d1) \<Rightarrow> (n, d1) | (Some _, d1) \<Rightarrow> (n + 1, d1)) (n, d) x))" by (simp split: option.split)
qed

lemma requeue_unpaused_quietly: "quietly db (snd (requeue_paused_commands_of_unpaused_orgs now db))"
  unfolding requeue_paused_commands_of_unpaused_orgs_def
proof (rule quietly_foldl)
  fix n :: nat and d x
  obtain m d1 where "requeue_paused_commands x now d = (m, d1)" by fastforce
  moreover then have "quietly d d1" using requeue_paused_quietly [of d x now] by simp
  ultimately show "quietly d (snd ((\<lambda>(n, d) org. case requeue_paused_commands org now d of (m, d1) \<Rightarrow> (n + m, d1)) (n, d) x))"
    by simp
qed

lemma pause_quietly:
  assumes "set_external_publish_pause org paused reason actor now db = Inr db'"
  shows "quietly db db'"
proof (cases paused)
  case True
  then show ?thesis using assms by (auto simp: set_external_publish_pause_def Let_def quietly_same split: option.splits)
next
  case False
  then obtain os lg where "db' = snd (requeue_paused_commands org now (db\<lparr>pb_orgs := os, pb_pause_log := lg\<rparr>))"
    using assms by (auto simp: set_external_publish_pause_def Let_def split: option.splits)
  moreover have "quietly db (db\<lparr>pb_orgs := os, pb_pause_log := lg\<rparr>)" by (rule quietly_same) simp
  ultimately show ?thesis using requeue_paused_quietly quietly_trans by blast
qed

lemma latest_command: "latest_command_of_gate gt db = Some c \<Longrightarrow> c \<in> set (pb_commands db)"
  unfolding latest_command_of_gate_def by (drule max_row_in) simp

lemma cancel_upd_quietly:
  assumes "latest_command_of_gate gt db = Some c" "pc_status c \<noteq> C_in_progress"
    and "\<And>x. ident (f x) = ident x" "quiet_row c (f c)"
  shows "quietly db (log_cancel org draft member extra g c (upd_command now (pc_id c) f db))"
proof (rule quietly_trans)
  show "quietly db (upd_command now (pc_id c) f db)"
    by (rule quietly_upd [OF assms(3)]) (use latest_command [OF assms(1)] assms(4) get_command_member in fastforce)
qed (simp add: quietly_same commands_other)

lemma cancel_quietly:
  assumes "cancel_scheduled_publication org draft member now db = Inr db'"
  shows "quietly db db'"
proof -
  obtain g c where "latest_command_of_gate (g_id g) db = Some c" "pc_status c \<in> set CANCELLABLE_COMMAND_STATUSES"
      "db' = log_cancel org draft member [] g c (upd_command now (pc_id c) cancelled db)"
    using assms by (auto simp: cancel_scheduled_publication_def split: sum.splits option.splits if_splits)
  then show ?thesis
    by (simp add: cancel_upd_quietly quiet_cancelled CANCELLABLE_COMMAND_STATUSES_def) (auto intro!: cancel_upd_quietly quiet_cancelled)
qed

lemma cancel_unstarted_quietly:
  assumes "cancel_unstarted_publication org draft member now db = Inr db'"
  shows "quietly db db'"
proof -
  obtain g c where c: "latest_command_of_gate (g_id g) db = Some c" "pc_status c = C_pending"
      "db' = log_cancel org draft member [(''unstarted'', JBool True)] g c (upd_command now (pc_id c)
         (\<lambda>x. (cancelled x)\<lparr>pc_last_error := None, pc_next_attempt_at := None\<rparr>) db)"
    using assms by (auto simp: cancel_unstarted_publication_def split: sum.splits option.splits if_splits)
  moreover have "quiet_row c ((cancelled c)\<lparr>pc_last_error := None, pc_next_attempt_at := None\<rparr>)"
    using c(2) by (simp add: quiet_row_def calm_row_def closed_def is_paused_command_def cancelled_def)
  ultimately show ?thesis by (simp add: cancel_upd_quietly)
qed

lemma notice_quietly: "quietly db (snd (deliver_one_stop_notice in_recipe now i db))"
proof -
  have u: "quietly d (upd_command now i (\<lambda>x. x\<lparr>pc_stop_notice_state := ns\<rparr>) d)" for d ns
    by (rule quietly_upd) (simp_all add: quiet_notice)
  have "quietly db (upd_command now i (\<lambda>x. x\<lparr>pc_stop_notice_state := ns\<rparr>) (db\<lparr>pb_stop_events := es\<rparr>))" for ns es
    by (rule quietly_trans [OF quietly_same u]) simp
  then show ?thesis unfolding deliver_one_stop_notice_def
    by (simp add: u quietly_same split: option.split)
qed

lemma find_row_map: "(\<And>x. key (g x) = key x) \<Longrightarrow> find_row key j (map g xs) = map_option g (find_row key j xs)"
  by (induction xs) (simp_all add: find_row_def)

lemma void_quietly: "quietly db (snd (void_pending_commands_for_gate gt reason now db))"
proof -
  define g where "g = (\<lambda>c. if voidable_for_gate gt c
    then c\<lparr>pc_status := C_voided, pc_reason_code := Some reason, pc_updated_at := now\<rparr> else c)"
  define db' where "db' = snd (void_pending_commands_for_gate gt reason now db)"
  have cs: "pb_commands db' = map g (pb_commands db)" by (simp add: db'_def g_def void_pending_commands_for_gate_def)
  have i: "pc_id (g x) = pc_id x" for x by (simp add: g_def)
  have q: "quiet_row x (g x)" for x
    by (simp add: g_def quiet_row_def calm_row_def closed_def is_paused_command_def voidable_for_gate_def)
  have "get_command j db' = map_option g (get_command j db)" for j
    unfolding get_command_def cs using i by (rule find_row_map)
  then have "opt_row_rel quiet_row (get_command j db) (get_command j db')" for j
    by (cases "get_command j db") (simp_all add: q)
  moreover have "map pc_id (pb_commands db') = map pc_id (pb_commands db)" by (simp add: cs i)
  ultimately show ?thesis by (simp add: quietly_def rows_rel_def db'_def [symmetric])
qed

lemma create_rows:
  assumes "create_or_get_publication_command a fresh now db = Inr (c, new, db')"
    and "get_command fresh db = None" "cm_content_kind a \<noteq> Ads_boost"
  shows "rows_rel quiet_row db db' \<and> (new \<longrightarrow> get_command (pc_id c) db' = Some c)
    \<and> (\<forall>j. get_command j db = None \<longrightarrow> get_command j db' = None \<or> j = pc_id c)"
proof (cases new)
  case False
  then have "db' = db" using assms(1)
    by (auto simp: create_or_get_publication_command_def Let_def split: sum.splits option.splits)
  then show ?thesis using False by (simp add: rows_rel_same)
next
  case True
  then have n: "c = new_command a fresh now" "db' = db\<lparr>pb_commands := pb_commands db @ [c]\<rparr>" using assms(1)
    by (auto simp: create_or_get_publication_command_def Let_def split: sum.splits option.splits)
  have f: "pc_id c = fresh" "pc_status c = C_pending" "pc_content_kind c \<noteq> Ads_boost"
    using n(1) assms(3) by (simp_all add: new_command_def)
  have g: "get_command j db' = (case get_command j db of None \<Rightarrow> if j = fresh then Some c else None | Some x \<Rightarrow> Some x)" for j
    by (simp add: n(2) get_command_def find_row_def find_append f(1) split: option.split)
  have "opt_row_rel quiet_row (get_command j db) (get_command j db')" for j
    using f by (cases "get_command j db") (simp_all add: g)
  moreover have "fresh \<notin> set (map pc_id (pb_commands db))" using assms(2) by (simp add: get_None_iff)
  ultimately show ?thesis using f assms(2) by (simp add: rows_rel_def g) (simp add: n(2))
qed

lemma create_new: 
  assumes "create_or_get_publication_command a fresh now db = Inr (c, new, db')" "\<not> new"
  shows "db' = db \<and> c \<in> set (pb_commands db) \<and> command_key c = args_key a"
proof -
  have "scalar_one_or_none (filter (\<lambda>c. command_key c = args_key a) (pb_commands db)) = Inr (Some c) \<and> db' = db"
    using assms by (auto simp: create_or_get_publication_command_def Let_def split: sum.splits option.splits)
  then have "filter (\<lambda>c. command_key c = args_key a) (pb_commands db) = [c]" "db' = db"
    by (simp_all add: scalar_one_or_none_Some)
  then show ?thesis by (metis (mono_tags, lifting) filter_eq_Cons_iff in_set_conv_decomp)
qed

lemma sweep_rows:
  assumes "get_command (fresh (cp_id p)) db = None"
  shows "rows_rel quiet_row db (snd (sweep_publication fresh now p db))"
proof -
  have same: "rows_rel quiet_row db db" by (simp add: rows_rel_same)
  have "rows_rel quiet_row db (upd_command now (pc_id c) (\<lambda>x. x\<lparr>pc_next_attempt_at := t\<rparr>) db1)"
    if cr: "create_or_get_publication_command (publication_args p r) (fresh (cp_id p)) now db = Inr (c, new, db1)" for r c new db1 t
  proof -
    have k: "cm_content_kind (publication_args p r) \<noteq> Ads_boost" by (simp add: publication_args_def)
    have q: "quiet_row x (x\<lparr>pc_next_attempt_at := t\<rparr>)" for x
      by (simp add: quiet_row_def calm_row_def closed_def is_paused_command_def)
    have u: "rows_rel quiet_row db1 (upd_command now (pc_id c) (\<lambda>x. x\<lparr>pc_next_attempt_at := t\<rparr>) db1)"
      by (rule rows_rel_upd) (simp_all add: q)
    have c: "rows_rel quiet_row db db1" using create_rows [OF cr assms k] by blast
    show ?thesis
    proof (rule quiet_rows_trans [OF c u])
      fix j c1 c2
      assume g1: "get_command j db1 = Some c1" "get_command j db = None"
        and g2: "get_command j (upd_command now (pc_id c) (\<lambda>x. x\<lparr>pc_next_attempt_at := t\<rparr>) db1) = Some c2"
      have "opt_row_rel quiet_row (get_command j db) (get_command j db1)" using c by (simp add: rows_rel_def)
      then have "pc_status c1 = C_pending" using g1 by simp
      moreover have "pc_status c2 = pc_status c1"
        using g1(1) g2 by (auto simp: get_upd_command split: if_splits)
      ultimately show "pc_status c2 = C_pending" by simp
    qed
  qed
  then show ?thesis unfolding sweep_publication_def
    by (simp add: same split: option.split sum.split)
qed

section \<open>The invariant and the view\<close>

definition worker_ok :: "pub_db \<Rightarrow> timestamp \<Rightarrow> uuid \<times> timestamp \<times> bool \<Rightarrow> bool" where
  "worker_ok db now w \<longleftrightarrow> (case w of (i, t, ph) \<Rightarrow>
     now \<le> t + REQUEST_LIMIT
     \<and> (case get_command i db of None \<Rightarrow> False
        | Some c \<Rightarrow> pc_status c = C_in_progress \<and> pc_claimed_at c = Some t
            \<and> (pc_provider_call_started_at c \<noteq> None \<longleftrightarrow> ph)))"

definition pub_inv :: "pub_sys \<Rightarrow> bool" where
  "pub_inv s \<longleftrightarrow> distinct (map pc_id (pb_commands (ps_db s))) \<and> distinct (map fst (ps_live s))
     \<and> list_all (worker_ok (ps_db s) (ps_clock s)) (ps_live s)
     \<and> list_all (\<lambda>c. pc_content_kind c \<noteq> Ads_boost) (pb_commands (ps_db s))"

definition in_call :: "uuid \<Rightarrow> (uuid \<times> timestamp \<times> bool) list \<Rightarrow> bool" where
  "in_call i ws \<longleftrightarrow> list_ex (\<lambda>(j, t, ph). j = i \<and> ph) ws"

fun view :: "bool \<Rightarrow> command option \<Rightarrow> outbox" where
  "view calling None = Open"
| "view calling (Some c) =
     (if pc_status c = C_in_progress
      then if pc_provider_call_started_at c = None \<and> pc_claimed_at c \<noteq> None then Open
           else if calling then Sending else Closed
      else if closed c then Closed else Open)"

definition outbox_of :: "pub_sys \<Rightarrow> uuid \<Rightarrow> outbox" where
  "outbox_of s i = view (in_call i (ps_live s)) (get_command i (ps_db s))"

definition row_change :: "uuid \<Rightarrow> pub_db \<Rightarrow> pub_db \<Rightarrow> command \<Rightarrow> command \<Rightarrow> bool" where
  "row_change i db db' c c' \<longleftrightarrow> get_command i db = Some c \<and> get_command i db' = Some c' \<and> ident c' = ident c
     \<and> (\<forall>j. j \<noteq> i \<longrightarrow> get_command j db' = get_command j db)
     \<and> map pc_id (pb_commands db') = map pc_id (pb_commands db)"

lemma row_change_upd:
  assumes "get_command i db = Some c" "\<And>x. ident (f x) = ident x"
  shows "row_change i db (upd_command now i f db) c ((f c)\<lparr>pc_updated_at := now\<rparr>)"
proof -
  have "pc_id (f x) = pc_id x" for x using assms(2) by (rule ident_pc_id)
  then show ?thesis using assms by (simp add: row_change_def command_simps)
qed

lemma row_change_effect:
  assumes "effect P c db db'" "get_command i db = Some c"
  obtains c' where "row_change i db db' c c'" "P c'"
proof -
  have i: "pc_id c = i" using assms(2) get_command_id by metis
  then show thesis using that assms unfolding effect_def row_change_def by blast
qed

lemma kinds_iff:
  "distinct (map pc_id (pb_commands db)) \<Longrightarrow>
     list_all (\<lambda>c. pc_content_kind c \<noteq> Ads_boost) (pb_commands db)
     \<longleftrightarrow> (\<forall>j c. get_command j db = Some c \<longrightarrow> pc_content_kind c \<noteq> Ads_boost)"
  unfolding list_all_iff using get_command_id get_command_member by metis

lemma ident_kind: "ident c' = ident c \<Longrightarrow> pc_content_kind c' = pc_content_kind c"
  by (simp add: ident_def)

lemma row_change_kinds:
  assumes "pub_inv s" "row_change i (ps_db s) db' c c'"
  shows "distinct (map pc_id (pb_commands db'))" "list_all (\<lambda>c. pc_content_kind c \<noteq> Ads_boost) (pb_commands db')"
proof -
  have d: "distinct (map pc_id (pb_commands (ps_db s)))" using assms(1) by (simp add: pub_inv_def)
  then show d': "distinct (map pc_id (pb_commands db'))" using assms(2) unfolding row_change_def by metis
  have "\<forall>j c. get_command j (ps_db s) = Some c \<longrightarrow> pc_content_kind c \<noteq> Ads_boost"
    using assms(1) kinds_iff [OF d] by (simp add: pub_inv_def)
  then have "pc_content_kind x \<noteq> Ads_boost" if "get_command j db' = Some x" for j x
    using that assms(2) ident_kind unfolding row_change_def by (cases "j = i") (metis option.inject)+
  then show "list_all (\<lambda>c. pc_content_kind c \<noteq> Ads_boost) (pb_commands db')" using kinds_iff [OF d'] by blast
qed

lemma drop_live_other: "w \<in> set (drop_live i ws) \<longleftrightarrow> w \<in> set ws \<and> fst w \<noteq> i"
  by (simp add: drop_live_def conj_commute)

lemma worker_ok_other:
  "row_change i db db' c c' \<Longrightarrow> fst w \<noteq> i \<Longrightarrow> worker_ok db' now w = worker_ok db now w"
  by (cases w) (simp add: worker_ok_def row_change_def)

lemma worker_okE:
  assumes "worker_ok db now (i, t, ph)"
  obtains c where "get_command i db = Some c" "pc_status c = C_in_progress" "pc_claimed_at c = Some t"
    "pc_provider_call_started_at c \<noteq> None \<longleftrightarrow> ph" "now \<le> t + REQUEST_LIMIT"
  using assms by (cases "get_command i db") (simp_all add: worker_ok_def)

lemma inv_row_change:
  assumes "pub_inv s" "row_change i (ps_db s) db' c c'"
  shows "pub_inv (s\<lparr>ps_db := db', ps_live := drop_live i (ps_live s)\<rparr>)"
proof -
  have "list_all (worker_ok db' (ps_clock s)) (drop_live i (ps_live s))"
    using assms(1) worker_ok_other [OF assms(2)] by (auto simp: pub_inv_def list_all_iff drop_live_other)
  then show ?thesis using assms(1) row_change_kinds [OF assms]
    by (simp add: pub_inv_def drop_live_def distinct_map_filter)
qed

lemma inv_row_worker:
  assumes "pub_inv s" "row_change i (ps_db s) db' c c'" "worker_ok db' (ps_clock s) (i, t, ph)"
  shows "pub_inv (s\<lparr>ps_db := db', ps_live := (i, t, ph) # drop_live i (ps_live s)\<rparr>)"
proof -
  have "i \<notin> fst ` set (drop_live i (ps_live s))" by (auto simp: drop_live_def)
  then show ?thesis using inv_row_change [OF assms(1,2)] assms(3) by (simp add: pub_inv_def)
qed

lemma in_call_drop: "in_call j (drop_live i ws) \<longleftrightarrow> j \<noteq> i \<and> in_call j ws"
  by (auto simp: in_call_def drop_live_def list_ex_iff)

lemma in_call_Cons: "in_call j ((i, t, ph) # ws) \<longleftrightarrow> (j = i \<and> ph) \<or> in_call j ws"
  by (auto simp: in_call_def)

lemma outbox_other:
  assumes "row_change i (ps_db s) db' c c'" "j \<noteq> i"
  shows "outbox_of (s\<lparr>ps_db := db', ps_live := drop_live i (ps_live s)\<rparr>) j = outbox_of s j"
    "outbox_of (s\<lparr>ps_db := db', ps_live := (i, t, ph) # drop_live i (ps_live s)\<rparr>) j = outbox_of s j"
  using assms by (simp_all add: outbox_of_def in_call_drop in_call_Cons row_change_def)

text \<open>Operations that leave the workers alone.\<close>

lemma calm_inv:
  assumes "pub_inv s" "rows_rel calm_row (ps_db s) db'"
  shows "pub_inv (s\<lparr>ps_db := db'\<rparr>)"
proof -
  have d: "distinct (map pc_id (pb_commands (ps_db s)))" using assms(1) by (simp add: pub_inv_def)
  then have d': "distinct (map pc_id (pb_commands db'))" using assms(2) by (simp add: rows_rel_def)
  have r: "opt_row_rel calm_row (get_command j (ps_db s)) (get_command j db')" for j using assms(2) by (simp add: rows_rel_def)
  have k: "\<forall>j c. get_command j (ps_db s) = Some c \<longrightarrow> pc_content_kind c \<noteq> Ads_boost"
    using assms(1) kinds_iff [OF d] by (simp add: pub_inv_def)
  have "pc_content_kind x \<noteq> Ads_boost" if "get_command j db' = Some x" for j x
  proof (cases "get_command j (ps_db s)")
    case None
    then show ?thesis using r [of j] that by simp
  next
    case (Some c)
    then have "calm_row c x" using r [of j] that by simp
    then show ?thesis using k Some ident_kind unfolding calm_row_def by metis
  qed
  then have kinds: "list_all (\<lambda>c. pc_content_kind c \<noteq> Ads_boost) (pb_commands db')" using kinds_iff [OF d'] by blast
  have "worker_ok db' (ps_clock s) w" if ok: "worker_ok (ps_db s) (ps_clock s) w" for w
  proof -
    obtain i t ph where w: "w = (i, t, ph)" by (cases w)
    have "worker_ok (ps_db s) (ps_clock s) (i, t, ph)" using ok w by simp
    then obtain c where c: "get_command i (ps_db s) = Some c" "pc_status c = C_in_progress" "pc_claimed_at c = Some t"
        "pc_provider_call_started_at c \<noteq> None \<longleftrightarrow> ph" "ps_clock s \<le> t + REQUEST_LIMIT"
      by (rule worker_okE)
    then obtain c' where "get_command i db' = Some c'" "calm_row c c'"
      using r [of i] by (cases "get_command i db'") simp_all
    then show ?thesis using c by (simp add: w worker_ok_def calm_row_def)
  qed
  then show ?thesis using assms(1) d' kinds by (simp add: pub_inv_def list_all_iff)
qed

lemma quiet_outbox:
  assumes "rows_rel quiet_row (ps_db s) db'"
  shows "outbox_step i Tau (outbox_of s i) (outbox_of (s\<lparr>ps_db := db'\<rparr>) i)"
proof -
  have "opt_row_rel quiet_row (get_command i (ps_db s)) (get_command i db')" using assms by (simp add: rows_rel_def)
  then show ?thesis
    by (cases "get_command i (ps_db s)"; cases "get_command i db'")
      (simp_all add: outbox_of_def quiet_row_def calm_row_def closed_def split: if_splits)
qed

lemma quiet_ok:
  assumes "pub_inv s" "rows_rel quiet_row (ps_db s) db'"
  shows "pub_inv (s\<lparr>ps_db := db'\<rparr>) \<and> (\<forall>i. outbox_step i Tau (outbox_of s i) (outbox_of (s\<lparr>ps_db := db'\<rparr>) i))"
proof -
  have "rows_rel calm_row (ps_db s) db'" by (rule rows_rel_mono [OF assms(2)]) (simp add: quiet_row_def)
  then show ?thesis using calm_inv [OF assms(1)] quiet_outbox [OF assms(2)] by blast
qed

lemma quietly_ok:
  "pub_inv s \<Longrightarrow> quietly (ps_db s) db' \<Longrightarrow>
     pub_inv (s\<lparr>ps_db := db'\<rparr>) \<and> (\<forall>i. outbox_step i Tau (outbox_of s i) (outbox_of (s\<lparr>ps_db := db'\<rparr>) i))"
  by (rule quiet_ok) (simp_all add: quietly_def pub_inv_def)

section \<open>Steps on one command\<close>

definition step_ok :: "label \<Rightarrow> pub_sys \<Rightarrow> pub_sys \<Rightarrow> bool" where
  "step_ok l s s' \<longleftrightarrow> pub_inv s' \<and> (\<forall>i. outbox_step i l (outbox_of s i) (outbox_of s' i))"

fun concerns :: "label \<Rightarrow> uuid \<Rightarrow> bool" where
  "concerns Tau i = True"
| "concerns (Start k) i = (k = i)"
| "concerns (Unsent k) i = (k = i)"
| "concerns (Maybe_sent k) i = (k = i)"
| "concerns (Human k) i = (k = i)"

lemma outbox_step_other: "concerns l i \<Longrightarrow> j \<noteq> i \<Longrightarrow> outbox_step j l x x"
  by (cases l) auto

lemma step_drop:
  assumes "pub_inv s" "row_change i (ps_db s) db' c c'" "concerns l i"
    and "outbox_step i l (outbox_of s i) (view False (Some c'))"
  shows "step_ok l s (s\<lparr>ps_db := db', ps_live := drop_live i (ps_live s)\<rparr>)"
proof -
  have "get_command i db' = Some c'" using assms(2) by (simp add: row_change_def)
  then have "outbox_of (s\<lparr>ps_db := db', ps_live := drop_live i (ps_live s)\<rparr>) i = view False (Some c')"
    by (simp add: outbox_of_def in_call_drop del: view.simps)
  then have "outbox_step j l (outbox_of s j) (outbox_of (s\<lparr>ps_db := db', ps_live := drop_live i (ps_live s)\<rparr>) j)" for j
    using assms(3,4) outbox_other(1) [OF assms(2)] outbox_step_other by (cases "j = i") simp_all
  then show ?thesis using inv_row_change [OF assms(1,2)] by (simp add: step_ok_def)
qed

lemma step_enter:
  assumes "pub_inv s" "row_change i (ps_db s) db' c c'" "concerns l i" "worker_ok db' (ps_clock s) (i, t, ph)"
    and "outbox_step i l (outbox_of s i) (view ph (Some c'))"
  shows "step_ok l s (s\<lparr>ps_db := db', ps_live := (i, t, ph) # drop_live i (ps_live s)\<rparr>)"
proof -
  have "get_command i db' = Some c'" using assms(2) by (simp add: row_change_def)
  then have "outbox_of (s\<lparr>ps_db := db', ps_live := (i, t, ph) # drop_live i (ps_live s)\<rparr>) i = view ph (Some c')"
    by (simp add: outbox_of_def in_call_drop in_call_Cons del: view.simps)
  then have "outbox_step j l (outbox_of s j) (outbox_of (s\<lparr>ps_db := db', ps_live := (i, t, ph) # drop_live i (ps_live s)\<rparr>) j)" for j
    using assms(3,5) outbox_other(2) [OF assms(2)] outbox_step_other by (cases "j = i") simp_all
  then show ?thesis using inv_row_worker [OF assms(1,2,4)] by (simp add: step_ok_def)
qed

lemma live_row:
  assumes "pub_inv s" "(i, t, ph) \<in> set (ps_live s)"
  obtains c where "get_command i (ps_db s) = Some c" "pc_status c = C_in_progress" "pc_claimed_at c = Some t"
    "pc_provider_call_started_at c \<noteq> None \<longleftrightarrow> ph" "ps_clock s \<le> t + REQUEST_LIMIT"
    "outbox_of s i = (if ph then Sending else Open)"
proof -
  have "worker_ok (ps_db s) (ps_clock s) (i, t, ph)" using assms unfolding pub_inv_def list_all_iff by blast
  then obtain c where c: "get_command i (ps_db s) = Some c" "pc_status c = C_in_progress" "pc_claimed_at c = Some t"
    "pc_provider_call_started_at c \<noteq> None \<longleftrightarrow> ph" "ps_clock s \<le> t + REQUEST_LIMIT" by (rule worker_okE)
  have "ph \<Longrightarrow> in_call i (ps_live s)" using assms(2) unfolding in_call_def list_ex_iff by blast
  then have "outbox_of s i = (if ph then Sending else Open)" using c by (cases ph) (simp_all add: outbox_of_def)
  then show thesis using c that by blast
qed

lemma not_live:
  assumes "pub_inv s" "get_command i (ps_db s) = Some c" "pc_status c \<noteq> C_in_progress \<or> is_stuck (ps_clock s) c"
  shows "drop_live i (ps_live s) = ps_live s" "\<not> in_call i (ps_live s)"
proof -
  have n: "(i, t, ph) \<notin> set (ps_live s)" for t ph
  proof
    assume "(i, t, ph) \<in> set (ps_live s)"
    then obtain d where "get_command i (ps_db s) = Some d" "pc_status d = C_in_progress" "pc_claimed_at d = Some t"
      "ps_clock s \<le> t + REQUEST_LIMIT" by (rule live_row [OF assms(1)])
    then show False using assms(2,3)
      by (auto simp: is_stuck_def STUCK_IN_PROGRESS_THRESHOLD_def REQUEST_LIMIT_def seconds_def)
  qed
  then show "drop_live i (ps_live s) = ps_live s" unfolding drop_live_def by (auto intro!: filter_True)
  show "\<not> in_call i (ps_live s)" using n by (auto simp: in_call_def list_ex_iff)
qed

lemma step_row:
  assumes "pub_inv s" "row_change i (ps_db s) db' c c'" "concerns l i"
    and "pc_status c \<noteq> C_in_progress \<or> is_stuck (ps_clock s) c"
    and "outbox_step i l (view False (Some c)) (view False (Some c'))"
  shows "step_ok l s (s\<lparr>ps_db := db'\<rparr>)"
proof -
  have c: "get_command i (ps_db s) = Some c" using assms(2) by (simp add: row_change_def)
  have "outbox_of s i = view False (Some c)"
    using not_live(2) [OF assms(1) c assms(4)] c by (simp add: outbox_of_def del: view.simps)
  then have "step_ok l s (s\<lparr>ps_db := db', ps_live := drop_live i (ps_live s)\<rparr>)"
    using step_drop [OF assms(1-3)] assms(5) by simp
  then show ?thesis using not_live(1) [OF assms(1) c assms(4)] by simp
qed

lemma next_due_row:
  assumes "pub_inv s" "next_due now skip (ps_db s) = Some c"
  shows "get_command (pc_id c) (ps_db s) = Some c" "pc_status c = C_pending"
proof -
  have "c \<in> set (pb_commands (ps_db s))" "pc_status c = C_pending"
    using min_row_in [of pc_created_at "filter (is_due now skip) (pb_commands (ps_db s))" c] assms(2)
    by (simp_all add: next_due_def is_due_def)
  then show "get_command (pc_id c) (ps_db s) = Some c" "pc_status c = C_pending"
    using get_command_member assms(1) by (simp_all add: pub_inv_def)
qed

lemma live_kind:
  assumes "pub_inv s" "get_command i (ps_db s) = Some c"
  shows "pc_content_kind c \<noteq> Ads_boost"
  using assms kinds_iff [of "ps_db s"] by (simp add: pub_inv_def)

lemma failed_row_change:
  assumes "get_command i db = Some c"
  shows "row_change i db (apply_command_failure err le now ra rs i db) c ((failed_command err le now ra rs c)\<lparr>pc_updated_at := now\<rparr>)"
  using assms by (simp add: row_change_def command_simps)

lemma not_sending: "x \<noteq> Sending \<longleftrightarrow> x = Open \<or> x = Closed"
  by (cases x) simp_all

lemma view_settled: "settled now c \<Longrightarrow> view b (Some c) = (if closed c then Closed else Open)"
  by (simp add: settled_def)

lemma view_failed:
  "view b (Some ((failed_command err le now ra rs c)\<lparr>pc_updated_at := t\<rparr>)) \<noteq> Sending"
  "classify_failure_kind err \<noteq> K_transient \<Longrightarrow>
     view b (Some ((failed_command err le now ra rs c)\<lparr>pc_updated_at := t\<rparr>)) = Closed"
  using view_settled [of now "(failed_command err le now ra rs c)\<lparr>pc_updated_at := t\<rparr>" b]
  by (simp_all add: failed_command_settled failed_command_closed del: view.simps)

lemma recovery_codes:
  "classify_failure_kind (Some WORKER_INTERRUPTED_ERROR_CODE) = K_needs_check"
  "classify_failure_kind (Some UNCLASSIFIED_ERROR_CODE) = K_needs_check"
  by code_simp+

lemma ok_clock:
  assumes "pub_inv s" "\<forall>(i, u, ph) \<in> set (ps_live s). t \<le> u + REQUEST_LIMIT"
  shows "step_ok Tau s (s\<lparr>ps_clock := t\<rparr>)"
proof -
  have "worker_ok (ps_db s) t w" if "worker_ok (ps_db s) (ps_clock s) w" "w \<in> set (ps_live s)" for w
    using that assms(2) by (cases w) (auto simp: worker_ok_def)
  then show ?thesis using assms(1) by (simp add: step_ok_def pub_inv_def list_all_iff outbox_of_def)
qed

lemma ok_claim:
  assumes "pub_inv s" "next_due (ps_clock s) skip (ps_db s) = Some c"
  shows "step_ok Tau s (s\<lparr>ps_db := upd_command (ps_clock s) (pc_id c) (claimed (ps_clock s)) (ps_db s),
                     ps_live := (pc_id c, ps_clock s, False) # ps_live s\<rparr>)"
proof -
  note c = next_due_row [OF assms]
  have nl: "drop_live (pc_id c) (ps_live s) = ps_live s" "\<not> in_call (pc_id c) (ps_live s)"
    using not_live [OF assms(1) c(1)] c(2) by simp_all
  have ch: "row_change (pc_id c) (ps_db s) (upd_command (ps_clock s) (pc_id c) (claimed (ps_clock s)) (ps_db s)) c
      ((claimed (ps_clock s) c)\<lparr>pc_updated_at := ps_clock s\<rparr>)"
    by (rule row_change_upd [OF c(1)]) simp
  have f: "pc_status (claimed (ps_clock s) c) = C_in_progress" "pc_claimed_at (claimed (ps_clock s) c) = Some (ps_clock s)"
    "pc_provider_call_started_at (claimed (ps_clock s) c) = None" by (simp_all add: claimed_def Let_def)
  have "outbox_of s (pc_id c) = Open" using c by (simp add: outbox_of_def closed_def)
  then have "step_ok Tau s (s\<lparr>ps_db := upd_command (ps_clock s) (pc_id c) (claimed (ps_clock s)) (ps_db s),
                     ps_live := (pc_id c, ps_clock s, False) # drop_live (pc_id c) (ps_live s)\<rparr>)"
    by (intro step_enter [OF assms(1) ch])
      (simp_all add: f worker_ok_def command_simps c REQUEST_LIMIT_def seconds_def)
  then show ?thesis by (simp add: nl)
qed

lemma ok_over_budget:
  assumes "pub_inv s"
  shows "step_ok Tau s (s\<lparr>ps_db := upd_command (ps_clock s) i over_budget_marked (ps_db s)\<rparr>)"
  unfolding step_ok_def
  by (rule quietly_ok [OF assms], rule quietly_upd) (simp_all add: quiet_over_budget)

lemma ok_block:
  assumes "pub_inv s" "(i, t, False) \<in> set (ps_live s)" "get_command i (ps_db s) = Some c"
  shows "step_ok Tau s (s\<lparr>ps_db := block_for_external_publish_pause (ps_clock s) reason c (ps_db s),
                     ps_live := drop_live i (ps_live s)\<rparr>)"
proof -
  have g: "get_command (pc_id c) (ps_db s) = Some c" using assms(3) get_command_id by metis
  obtain c' where c': "row_change i (ps_db s) (block_for_external_publish_pause (ps_clock s) reason c (ps_db s)) c c'"
      "run_result (ps_clock s) True c'"
    by (rule row_change_effect [OF paused_effect [OF g] assms(3)])
  have "outbox_of s i = Open" by (rule live_row [OF assms(1,2)]) simp
  moreover have "view False (Some c') \<noteq> Sending"
    using c'(2) view_settled [of "ps_clock s" c' False] by (simp add: run_result_def del: view.simps)
  ultimately show ?thesis
    by (intro step_drop [OF assms(1) c'(1)]) (simp_all add: not_sending del: view.simps)
qed

lemma ok_start:
  assumes "pub_inv s" "(i, t, False) \<in> set (ps_live s)" "get_command i (ps_db s) = Some c"
  shows "step_ok (Start i) s (s\<lparr>ps_db := mark_provider_call_started (ps_clock s) i (ps_db s),
                           ps_live := (i, t, True) # drop_live i (ps_live s)\<rparr>)"
proof -
  obtain d where d: "get_command i (ps_db s) = Some d" "pc_status d = C_in_progress" "pc_claimed_at d = Some t"
    "ps_clock s \<le> t + REQUEST_LIMIT" "outbox_of s i = (if False then Sending else Open)"
    by (rule live_row [OF assms(1,2)])
  have ch: "row_change i (ps_db s) (mark_provider_call_started (ps_clock s) i (ps_db s)) d
      (d\<lparr>pc_provider_call_started_at := Some (ps_clock s), pc_updated_at := ps_clock s\<rparr>)"
    unfolding mark_provider_call_started_def by (rule row_change_upd [OF d(1)]) simp
  show ?thesis
    by (rule step_enter [OF assms(1) ch]) (simp_all add: d worker_ok_def command_simps)
qed

lemma ok_finish:
  assumes "pub_inv s" "(i, t, True) \<in> set (ps_live s)" "get_command i (ps_db s) = Some c"
  shows "step_ok (if answer_unsent a c then Unsent i else Maybe_sent i) s
      (s\<lparr>ps_db := run_command a (ps_clock s) i (ps_db s), ps_live := drop_live i (ps_live s)\<rparr>)"
proof -
  have "effect (run_result (ps_clock s) (answer_unsent a c)) c (ps_db s) (run_command a (ps_clock s) i (ps_db s))"
    by (rule run_command_effect [OF assms(3) live_kind [OF assms(1,3)]])
  then obtain c' where c': "row_change i (ps_db s) (run_command a (ps_clock s) i (ps_db s)) c c'"
      "run_result (ps_clock s) (answer_unsent a c) c'"
    by (rule row_change_effect [OF _ assms(3)])
  have "outbox_of s i = Sending" by (rule live_row [OF assms(1,2)]) simp
  moreover have "view False (Some c') = (if closed c' then Closed else Open)" "answer_unsent a c \<or> closed c'"
    using c'(2) view_settled [of "ps_clock s" c' False] by (simp_all add: run_result_def del: view.simps)
  ultimately show ?thesis
    by (intro step_drop [OF assms(1) c'(1)]) (auto simp del: view.simps)
qed

lemma ok_escape:
  assumes "pub_inv s" "(i, t, ph) \<in> set (ps_live s)" "called \<longrightarrow> ph"
  shows "step_ok (if ph then if called then Maybe_sent i else Unsent i else Tau) s
      (s\<lparr>ps_db := record_unclassified_batch_failure i called (ps_clock s) (ps_db s), ps_live := drop_live i (ps_live s)\<rparr>)"
proof -
  define code where "code = Some (if called then UNCLASSIFIED_ERROR_CODE else PRE_CALL_ERROR_CODE)"
  obtain c where c: "get_command i (ps_db s) = Some c" "pc_status c = C_in_progress"
    "outbox_of s i = (if ph then Sending else Open)" by (rule live_row [OF assms(1,2)])
  have eq: "record_unclassified_batch_failure i called (ps_clock s) (ps_db s)
      = apply_command_failure code code (ps_clock s) None None i (ps_db s)"
    using c by (simp add: record_unclassified_batch_failure_def code_def)
  have k: "called \<Longrightarrow> classify_failure_kind code \<noteq> K_transient" by (simp add: code_def recovery_codes)
  show ?thesis unfolding eq
    by (rule step_drop [OF assms(1) failed_row_change [OF c(1)]])
      (use c(3) assms(3) k view_failed [where err = code] in
        \<open>auto simp: not_sending simp del: view.simps\<close>)
qed

lemma ok_crash:
  assumes "pub_inv s" "(i, t, ph) \<in> set (ps_live s)"
  shows "step_ok (if ph then Maybe_sent i else Tau) s (s\<lparr>ps_live := drop_live i (ps_live s)\<rparr>)"
proof -
  obtain c where c: "get_command i (ps_db s) = Some c" "pc_status c = C_in_progress" "pc_claimed_at c = Some t"
    "pc_provider_call_started_at c \<noteq> None \<longleftrightarrow> ph" "outbox_of s i = (if ph then Sending else Open)"
    by (rule live_row [OF assms])
  have "row_change i (ps_db s) (ps_db s) c c" using c(1) by (simp add: row_change_def)
  then have "step_ok (if ph then Maybe_sent i else Tau) s (s\<lparr>ps_db := ps_db s, ps_live := drop_live i (ps_live s)\<rparr>)"
    by (rule step_drop [OF assms(1)]) (use c in auto)
  then show ?thesis by simp
qed

lemma ok_recover:
  assumes "pub_inv s" "get_command i (ps_db s) = Some c" "is_stuck (ps_clock s) c"
  shows "step_ok Tau s (s\<lparr>ps_db := snd (recover_command (ps_clock s) i (ps_db s))\<rparr>)"
proof -
  have p: "pc_status c = C_in_progress" using assms(3) by (simp add: is_stuck_def)
  show ?thesis
  proof (cases "call_may_have_started c \<and> local_publication_complete c (ps_db s)")
    case True
    then have "snd (recover_command (ps_clock s) i (ps_db s)) = upd_command (ps_clock s) i completed_command (ps_db s)"
      using assms(2) p by (simp add: recover_command_def)
    moreover have "row_change i (ps_db s) (upd_command (ps_clock s) i completed_command (ps_db s)) c
        ((completed_command c)\<lparr>pc_updated_at := ps_clock s\<rparr>)" by (rule row_change_upd [OF assms(2)]) simp
    ultimately show ?thesis using True p assms(3)
      by (auto intro!: step_row [OF assms(1)] simp: call_may_have_started_def closed_def completed_command_def is_paused_command_def)
  next
    case False
    define code where "code = Some (if call_may_have_started c then WORKER_INTERRUPTED_ERROR_CODE else PRE_CALL_ERROR_CODE)"
    have eq: "snd (recover_command (ps_clock s) i (ps_db s)) = apply_command_failure code code (ps_clock s) None None i (ps_db s)"
      using assms(2) p False by (simp add: recover_command_def code_def)
    have v: "view False (Some c) = (if call_may_have_started c then Closed else Open)"
      using p by (auto simp: call_may_have_started_def)
    have k: "call_may_have_started c \<Longrightarrow> classify_failure_kind code \<noteq> K_transient" by (simp add: code_def recovery_codes)
    show ?thesis unfolding eq
      by (rule step_row [OF assms(1) failed_row_change [OF assms(2)]])
        (use assms(3) v k view_failed [where err = code] in
          \<open>auto simp: not_sending simp del: view.simps\<close>)
  qed
qed

lemma ok_same:
  assumes "pub_inv s" "concerns l i" "\<And>x. outbox_step i l x x"
  shows "step_ok l s s"
proof -
  have "outbox_step j l x x" for j x using assms outbox_step_other by (cases "j = i") simp_all
  then show ?thesis using assms(1) by (simp add: step_ok_def)
qed

lemma ok_retry:
  assumes "pub_inv s"
  shows "step_ok (Human i) s (s\<lparr>ps_db := snd (retry_dead_letter_command org i False (ps_clock s) (ps_db s))\<rparr>)"
proof (cases "List.find (\<lambda>c. pc_id c = i \<and> pc_org_id c = org) (pb_commands (ps_db s))")
  case None
  then show ?thesis using ok_same [OF assms, of "Human i" i] by (simp add: retry_dead_letter_command_def)
next
  case (Some c)
  then have g: "get_command i (ps_db s) = Some c" using find_org_command assms by (simp add: pub_inv_def)
  show ?thesis
  proof (cases "human_retryable c")
    case False
    then show ?thesis using Some ok_same [OF assms, of "Human i" i] by (simp add: retry_dead_letter_command_def)
  next
    case True
    then have p: "pc_status c \<noteq> C_in_progress" by (auto simp: human_retryable_def)
    have "row_change i (ps_db s) (upd_command (ps_clock s) i requeued (ps_db s)) c ((requeued c)\<lparr>pc_updated_at := ps_clock s\<rparr>)"
      by (rule row_change_upd [OF g]) simp
    then have "step_ok (Human i) s (s\<lparr>ps_db := upd_command (ps_clock s) i requeued (ps_db s)\<rparr>)"
      by (rule step_row [OF assms]) (use p in \<open>simp_all add: requeued_def closed_def\<close>)
    then show ?thesis using Some True by (simp add: retry_dead_letter_command_def)
  qed
qed

lemma ok_publish_now:
  assumes "pub_inv s" "get_command i (ps_db s) = Some c"
  shows "step_ok (Human i) s (s\<lparr>ps_db := upd_command (ps_clock s) i (\<lambda>x. snd (requeue_for_human_publish x)) (ps_db s)\<rparr>)"
proof (cases "pc_status c \<in> {C_completed, C_voided, C_in_progress}")
  case True
  define db' where "db' = upd_command (ps_clock s) i (\<lambda>x. snd (requeue_for_human_publish x)) (ps_db s)"
  have same: "snd (requeue_for_human_publish c) = c" using True by (auto simp: requeue_for_human_publish_def)
  have "rows_rel quiet_row (ps_db s) db'"
    unfolding db'_def by (rule rows_rel_upd) (use assms(2) same in simp_all)
  then have "pub_inv (s\<lparr>ps_db := db'\<rparr>)" using quiet_ok [OF assms(1)] by blast
  moreover have "outbox_of (s\<lparr>ps_db := db'\<rparr>) j = outbox_of s j" for j
    by (cases "j = i") (simp_all add: outbox_of_def db'_def command_simps assms(2) same)
  ultimately show ?thesis unfolding db'_def [symmetric] step_ok_def by simp
next
  case False
  have "row_change i (ps_db s) (upd_command (ps_clock s) i (\<lambda>x. snd (requeue_for_human_publish x)) (ps_db s)) c
      ((snd (requeue_for_human_publish c))\<lparr>pc_updated_at := ps_clock s\<rparr>)"
    by (rule row_change_upd [OF assms(2)]) simp
  then show ?thesis
    by (rule step_row [OF assms(1)]) (use False in \<open>simp_all add: requeue_for_human_publish_def closed_def Let_def\<close>)
qed

section \<open>The refinement\<close>

lemma ok_quietly: "pub_inv s \<Longrightarrow> quietly (ps_db s) db' \<Longrightarrow> step_ok Tau s (s\<lparr>ps_db := db'\<rparr>)"
  using quietly_ok by (simp add: step_ok_def)

lemmas quiet_operations = void_quietly cancel_quietly cancel_unstarted_quietly pause_quietly requeue_unpaused_quietly
  notice_quietly quietly_same

lemma pub_step_ok:
  assumes "pub_step l s s'" "pub_inv s"
  shows "step_ok l s s'"
  using assms
proof (cases rule: pub_step.cases)
  case (claim skip c)
  then show ?thesis using ok_claim [OF assms(2)] by simp
next
  case (escape i t called)
  then show ?thesis using ok_escape [OF assms(2), of i t True called] by simp
next
  case (escape_early i t)
  then show ?thesis using ok_escape [OF assms(2), of i t False False] by simp
next
  case (create a fresh c new db')
  then show ?thesis using quiet_ok [OF assms(2)] create_rows by (simp add: step_ok_def)
next
  case (sweep fresh p)
  then show ?thesis using quiet_ok [OF assms(2) sweep_rows] by (simp add: step_ok_def)
qed (simp_all add: assms(2) ok_clock ok_over_budget ok_block ok_start ok_finish ok_crash ok_recover ok_retry
  ok_publish_now ok_quietly quiet_operations)

interpretation pub_outbox: simulation pub_step pub_inv outbox_of "\<lambda>l x y. \<forall>i. outbox_step i l (x i) (y i)"
  by unfold_locales (use pub_step_ok in \<open>simp_all add: step_ok_def\<close>)

lemma lab_run_component: "lab_run (\<lambda>l x y. \<forall>i. outbox_step i l (x i) (y i)) x ls y \<Longrightarrow> lab_run (outbox_step i) (x i) ls (y i)"
  by (induction rule: lab_run.induct) (blast intro: lab_run.intros)+


end
