(* ===== verification/Publication_Properties.thy ===== *)
theory Publication_Properties
  imports Publication_Machine
begin

text \<open>
  The properties of the publication worker: what is sent twice, who may hold a command, what an execution
  leaves, how often a failure is retried, what a tick processes, and how the pause and the connections
  take part.
\<close>

section \<open>An example ledger\<close>

definition pub_db0 :: pub_db where
  "pub_db0 = \<lparr>pb_commands = [], pb_attempts = [], pb_publications = [], pb_versions = [], pb_drafts = [],
     pb_connections = [], pb_comments = [], pb_replies = [],
     pb_orgs = [\<lparr>og_id = ''org'', og_paused_at = None, og_paused_by = None, og_pause_reason = None\<rparr>],
     pb_pause_log = [], pb_gates = [], pb_stop_events = [], pb_activities = []\<rparr>"

definition args0 :: command_args where
  "args0 = \<lparr>cm_org_id = ''org'', cm_gate_id = ''gate'', cm_destination = ''conn'', cm_approved_version = ''v1'',
     cm_requested_by = ''m'', cm_scheduled_at = None, cm_operation = ''publish'', cm_content_kind = Site_post,
     cm_toggle_seq = 0, cm_initiated_by = None, cm_ads_boost_cycle = None\<rparr>"

definition command0 :: command where "command0 = new_command args0 ''c1'' 0"

definition pub_db1 :: pub_db where "pub_db1 = pub_db0\<lparr>pb_commands := [command0]\<rparr>"

definition sys1 :: pub_sys where "sys1 = \<lparr>ps_db = pub_db1, ps_clock = 0, ps_live = []\<rparr>"

definition answer0 :: answer where
  "answer0 = \<lparr>an_publish = Publication ''published'', an_site = Site_error ''SITE_POST_PROVIDER_ERROR'' ''timeout'',
     an_reply = Reply_raises ''x'', an_newsletter = Newsletter_sent None None, an_ads_boost = (\<lambda>_ _ d. d),
     an_provider_call_marked = True, an_publications = [], an_recipe_gate = None\<rparr>"

section \<open>The outbox\<close>


lemma inv_sys1: "pub_inv sys1"
  by code_simp

text \<open>
  An example run on the command: it is claimed, the call starts, the worker dies; ninety minutes later the
  recovery finds the command, a person retries it, and it is claimed and called again.
\<close>

definition sys2 :: pub_sys where
  "sys2 = sys1\<lparr>ps_db := upd_command (ps_clock sys1) (pc_id command0) (claimed (ps_clock sys1)) (ps_db sys1),
     ps_live := (pc_id command0, ps_clock sys1, False) # ps_live sys1\<rparr>"

definition sys3 :: pub_sys where
  "sys3 = sys2\<lparr>ps_db := mark_provider_call_started (ps_clock sys2) ''c1'' (ps_db sys2),
     ps_live := (''c1'', 0, True) # drop_live ''c1'' (ps_live sys2)\<rparr>"

definition sys4 :: pub_sys where "sys4 = sys3\<lparr>ps_live := drop_live ''c1'' (ps_live sys3)\<rparr>"

definition sys5 :: pub_sys where "sys5 = sys4\<lparr>ps_clock := seconds 6000\<rparr>"

definition sys6 :: pub_sys where "sys6 = sys5\<lparr>ps_db := snd (recover_command (ps_clock sys5) ''c1'' (ps_db sys5))\<rparr>"

definition sys7 :: pub_sys where
  "sys7 = sys6\<lparr>ps_db := snd (retry_dead_letter_command ''org'' ''c1'' False (ps_clock sys6) (ps_db sys6))\<rparr>"

definition command7 :: command where
  "command7 = command0\<lparr>pc_attempt_count := 1, pc_reason_code := Some WORKER_INTERRUPTED_ERROR_CODE,
     pc_claimed_at := Some 0, pc_provider_call_started_at := Some 0, pc_updated_at := seconds 6000\<rparr>"

lemma sys7_eval [code]:
  "sys7 = \<lparr>ps_db = pub_db0\<lparr>pb_commands := [command7]\<rparr>, ps_clock = seconds 6000, ps_live = []\<rparr>"
  by code_simp

definition sys8 :: pub_sys where
  "sys8 = sys7\<lparr>ps_db := upd_command (ps_clock sys7) (pc_id command7) (claimed (ps_clock sys7)) (ps_db sys7),
     ps_live := (pc_id command7, ps_clock sys7, False) # ps_live sys7\<rparr>"

definition sys9 :: pub_sys where
  "sys9 = sys8\<lparr>ps_db := mark_provider_call_started (ps_clock sys8) ''c1'' (ps_db sys8),
     ps_live := (''c1'', seconds 6000, True) # drop_live ''c1'' (ps_live sys8)\<rparr>"

lemma step1: "pub_step Tau sys1 sys2"
  unfolding sys2_def by (rule pub_step.claim [of _ "[]"]) code_simp

lemma step2: "pub_step (Start ''c1'') sys2 sys3"
  unfolding sys3_def by (rule pub_step.start [where c = "hd (pb_commands (ps_db sys2))"]) code_simp+

lemma step3: "pub_step (Maybe_sent ''c1'') sys3 sys4"
  using pub_step.crash [of "''c1''" 0 True sys3] unfolding sys4_def by (simp add: sys3_def)

lemma step4: "pub_step Tau sys4 sys5"
  unfolding sys5_def by (rule pub_step.clock) code_simp+

lemma step5: "pub_step Tau sys5 sys6"
  unfolding sys6_def by (rule pub_step.recover [where c = "hd (pb_commands (ps_db sys5))"]) code_simp+

lemma step6: "pub_step (Human ''c1'') sys6 sys7"
  unfolding sys7_def by (rule pub_step.retry)

lemma step7: "pub_step Tau sys7 sys8"
  unfolding sys8_def by (rule pub_step.claim [of _ "[]"]) code_simp

lemma step8: "pub_step (Start ''c1'') sys8 sys9"
  unfolding sys9_def by (rule pub_step.start [where c = "hd (pb_commands (ps_db sys8))"]) code_simp+

lemma run_sys9:
  "lab_run pub_step sys1 ([Tau, Start ''c1''] @ Maybe_sent ''c1'' # [Tau, Tau, Human ''c1'', Tau] @ Start ''c1'' # []) sys9"
  unfolding append_Cons append_Nil
  by (rule lab_run_Cons, rule step1 step2 step3 step4 step5 step6 step7 step8)+ (rule lab_run_Nil)






section \<open>One execution\<close>



section \<open>Retries\<close>

text \<open>One failure: its code, its time and the wait the provider asked for.\<close>

definition fail_in_turn :: "(string \<times> timestamp \<times> int option) list \<Rightarrow> command \<Rightarrow> command" where
  "fail_in_turn fs c = foldl (\<lambda>c (code, t, wait). failed_command (Some code) (Some code) t wait None c) c fs"

lemma failed_transient:
  assumes "classify_failure_kind err = K_transient"
  shows "pc_attempt_count (failed_command err le t ra rs c) = pc_attempt_count c + 1"
    and "pc_attempt_count c + 1 < MAX_RETRIES \<Longrightarrow> pc_status (failed_command err le t ra rs c) = C_pending
           \<and> pc_next_attempt_at (failed_command err le t ra rs c) = Some (compute_next_attempt_at (pc_attempt_count c + 1) t ra)"
    and "MAX_RETRIES \<le> pc_attempt_count c + 1 \<Longrightarrow> pc_status (failed_command err le t ra rs c) = C_dead_letter
           \<and> pc_dead_letter_at (failed_command err le t ra rs c) = Some t
           \<and> pc_stop_notice_state (failed_command err le t ra rs c) = Some Notice_pending"
  using assms by (simp_all add: failed_command_def Let_def dead_lettered_def mark_stop_notice_def awaits_stop_notice_def)

lemma fail_in_turn_snoc:
  "fail_in_turn (fs @ [(code, t, wait)]) c = failed_command (Some code) (Some code) t wait None (fail_in_turn fs c)"
  by (simp add: fail_in_turn_def)

lemma fail_in_turn_count:
  "list_all (\<lambda>f. classify_failure_kind (Some (fst f)) = K_transient) fs \<Longrightarrow>
     pc_attempt_count (fail_in_turn fs c) = pc_attempt_count c + length fs"
  by (induction fs rule: rev_induct) (auto simp: fail_in_turn_snoc failed_transient(1) fail_in_turn_def [of "[]"])

text \<open>
  C23: A new command is retried at most four times by itself. After fewer than five transient failures it
  is pending, and its next attempt is due 2, 4, 8, 16 minutes after the last failure, or after the time the
  provider asked for; the fifth moves it to the dead letters and asks for a stop notice.\<close>

theorem transient_retries_bounded:
  assumes "list_all (\<lambda>f. classify_failure_kind (Some (fst f)) = K_transient) (fs @ [(code, t, wait)])"
  shows "let c = fail_in_turn (fs @ [(code, t, wait)]) (new_command a fresh now) in
    if length fs < 4
    then pc_status c = C_pending \<and> pc_next_attempt_at c = Some (t + seconds
           (case wait of Some w \<Rightarrow> if w > 0 then w else 60 * 2 ^ (length fs + 1) | None \<Rightarrow> 60 * 2 ^ (length fs + 1)))
    else pc_status c = C_dead_letter \<and> pc_dead_letter_at c = Some t \<and> pc_stop_notice_state c = Some Notice_pending"
proof -
  have k: "classify_failure_kind (Some code) = K_transient" using assms(1) by simp
  have n: "pc_attempt_count (fail_in_turn fs (new_command a fresh now)) = length fs"
    using fail_in_turn_count [of fs] assms(1) by (simp add: new_command_def)
  show ?thesis
    using failed_transient(2,3) [OF k] n unfolding fail_in_turn_snoc Let_def
    by (simp add: MAX_RETRIES_def compute_next_attempt_at_def BACKOFF_BASE_SECONDS_def split: option.split)
qed

theorem transient_retries_bounded_witness:
  "let f = (''CHANNEL_RATE_LIMITED'', 7, None); c = new_command args0 ''c1'' 0 in
     pc_next_attempt_at (fail_in_turn ([f] @ [f]) c) = Some (7 + seconds 240)
     \<and> pc_status (fail_in_turn (replicate 4 f @ [f]) c) = C_dead_letter"
proof -
  have "classify_failure_kind (Some ''CHANNEL_RATE_LIMITED'') = K_transient" by code_simp
  then show ?thesis
    using transient_retries_bounded [of "[(''CHANNEL_RATE_LIMITED'', 7, None)]" "''CHANNEL_RATE_LIMITED''" 7 None args0 "''c1''" 0]
      transient_retries_bounded [of "replicate 4 (''CHANNEL_RATE_LIMITED'', 7, None)" "''CHANNEL_RATE_LIMITED''" 7 None args0 "''c1''" 0]
    by (simp add: Let_def list_all_iff)
qed

section \<open>One tick\<close>

lemma row_change_trans: "row_change i a b c d \<Longrightarrow> row_change i b e d f \<Longrightarrow> row_change i a e c f"
  unfolding row_change_def by simp

lemma row_change_ident: "row_change i a b c d \<Longrightarrow> ident d = ident c"
  by (simp add: row_change_def)

lemma row_change_get: "row_change i a b c d \<Longrightarrow> get_command i b = Some d"
  by (simp add: row_change_def)

lemma mark_row_change:
  "get_command i db = Some c \<Longrightarrow>
     row_change i db (mark_provider_call_started now i db) c
       (c\<lparr>pc_provider_call_started_at := Some now, pc_updated_at := now\<rparr>)"
  by (simp add: row_change_def command_simps)

lemma unclassified_change:
  assumes "get_command i db = Some c" "pc_status c = C_in_progress"
  obtains c' where "row_change i db (record_unclassified_batch_failure i called now db) c c'" "settled now c'"
proof -
  define code where "code = Some (if called then UNCLASSIFIED_ERROR_CODE else PRE_CALL_ERROR_CODE)"
  have "record_unclassified_batch_failure i called now db = apply_command_failure code code now None None i db"
    using assms by (simp add: record_unclassified_batch_failure_def code_def)
  then show thesis using that failed_row_change [OF assms(1), of code code now None None]
    by (simp add: failed_command_settled)
qed

lemma run_claimed_change:
  assumes "get_command i db = Some c" "pc_content_kind c \<noteq> Ads_boost" "pc_status c = C_in_progress"
  obtains c' where "row_change i db (run_claimed a e now i db) c c'" "settled now c'"
proof (cases e)
  case No_escape
  then show thesis using row_change_effect [OF process_one_effect [OF assms(1,2)] assms(1)] that by auto
next
  case (Escape_before_mark called)
  obtain c' where "row_change i db (record_unclassified_batch_failure i called now db) c c'" "settled now c'"
    by (rule unclassified_change [OF assms(1,3)])
  then show thesis using that Escape_before_mark by simp
next
  case (Escape_after_mark called)
  note m = mark_row_change [OF assms(1), of now]
  obtain c' where "row_change i (mark_provider_call_started now i db)
      (record_unclassified_batch_failure i called now (mark_provider_call_started now i db))
      (c\<lparr>pc_provider_call_started_at := Some now, pc_updated_at := now\<rparr>) c'" "settled now c'"
    by (rule unclassified_change [OF row_change_get [OF m]]) (simp_all add: assms(3))
  then show thesis unfolding Escape_after_mark run_claimed.simps
    using that [unfolded Escape_after_mark run_claimed.simps] row_change_trans [OF m] by blast
qed

lemma claim_and_run_change:
  assumes "get_command i db = Some c" "pc_content_kind c \<noteq> Ads_boost"
  obtains c' where "row_change i db (run_claimed a e now i (upd_command now i (claimed now) db)) c c'" "settled now c'"
proof -
  have ch: "row_change i db (upd_command now i (claimed now) db) c ((claimed now c)\<lparr>pc_updated_at := now\<rparr>)"
    by (rule row_change_upd [OF assms(1)]) simp
  have "pc_content_kind (claimed now c) = pc_content_kind c" "pc_status (claimed now c) = C_in_progress"
    by (simp_all add: claimed_def Let_def)
  then have k: "pc_content_kind ((claimed now c)\<lparr>pc_updated_at := now\<rparr>) \<noteq> Ads_boost"
    "pc_status ((claimed now c)\<lparr>pc_updated_at := now\<rparr>) = C_in_progress" using assms(2) by simp_all
  obtain c' where "row_change i (upd_command now i (claimed now) db)
      (run_claimed a e now i (upd_command now i (claimed now) db)) ((claimed now c)\<lparr>pc_updated_at := now\<rparr>) c'" "settled now c'"
    by (rule run_claimed_change [OF row_change_get [OF ch] k])
  then show thesis using that row_change_trans [OF ch] by blast
qed

definition due_ids :: "timestamp \<Rightarrow> pub_db \<Rightarrow> uuid list" where
  "due_ids now db = map pc_id (filter (is_due now []) (pb_commands db))"

definition ledger_ok :: "pub_db \<Rightarrow> bool" where
  "ledger_ok db \<longleftrightarrow> distinct (map pc_id (pb_commands db)) \<and> list_all (\<lambda>c. pc_content_kind c \<noteq> Ads_boost) (pb_commands db)"

lemma due_ids_iff:
  assumes "ledger_ok db"
  shows "j \<in> set (due_ids now db) \<longleftrightarrow> (\<exists>c. get_command j db = Some c \<and> is_due now [] c)"
proof -
  have d: "distinct (map pc_id (pb_commands db))" using assms by (simp add: ledger_ok_def)
  show ?thesis unfolding due_ids_def using get_command_id get_command_member [OF d] by (simp add: image_iff) metis
qed

lemma distinct_due_ids: "ledger_ok db \<Longrightarrow> distinct (due_ids now db)"
  by (simp add: due_ids_def ledger_ok_def distinct_map_filter)

lemma next_due_None: "next_due now [] db = None \<Longrightarrow> due_ids now db = []"
  by (auto simp: next_due_def due_ids_def min_row_None)

lemma next_due_Some:
  assumes "ledger_ok db" "next_due now [] db = Some c"
  shows "get_command (pc_id c) db = Some c" "is_due now [] c" "pc_content_kind c \<noteq> Ads_boost"
proof -
  have m: "c \<in> set (pb_commands db)" "is_due now [] c"
    using min_row_in [of pc_created_at "filter (is_due now []) (pb_commands db)" c] assms(2) by (simp_all add: next_due_def)
  then show "is_due now [] c" "pc_content_kind c \<noteq> Ads_boost" using assms(1) by (auto simp: ledger_ok_def list_all_iff)
  show "get_command (pc_id c) db = Some c" using get_command_member m assms(1) by (simp add: ledger_ok_def)
qed

lemma ledger_ok_change:
  assumes "ledger_ok db" "row_change i db db' c c'"
  shows "ledger_ok db'"
proof -
  define s where "s = \<lparr>ps_db = db, ps_clock = 0, ps_live = []\<rparr>"
  have "pub_inv s" using assms(1) by (simp add: s_def pub_inv_def ledger_ok_def)
  then show ?thesis using row_change_kinds [of s i db' c c'] assms(2) by (simp add: s_def ledger_ok_def)
qed

lemma due_ids_settled:
  assumes "ledger_ok db" "row_change i db db' c c'" "is_due now [] c" "settled now c'"
  shows "set (due_ids now db') = set (due_ids now db) - {i}" "length (due_ids now db) = Suc (length (due_ids now db'))"
proof -
  have ok': "ledger_ok db'" by (rule ledger_ok_change [OF assms(1,2)])
  have i: "get_command i db = Some c" "get_command i db' = Some c'" using assms(2) by (simp_all add: row_change_def)
  have nd: "\<not> is_due now [] c'" using assms(4) by (auto simp: settled_def is_due_def split: option.splits)
  show eq: "set (due_ids now db') = set (due_ids now db) - {i}"
  proof (rule set_eqI)
    fix j
    show "j \<in> set (due_ids now db') \<longleftrightarrow> j \<in> set (due_ids now db) - {i}"
      using assms(2) nd i by (cases "j = i") (simp_all add: due_ids_iff ok' assms(1) row_change_def)
  qed
  have "i \<in> set (due_ids now db)" using i(1) assms(3) by (simp add: due_ids_iff assms(1))
  then have "card (set (due_ids now db)) = Suc (card (set (due_ids now db')))" unfolding eq by (rule card_Suc_Diff1 [OF finite_set, symmetric])
  then show "length (due_ids now db) = Suc (length (due_ids now db'))"
    by (simp add: distinct_card distinct_due_ids ok' assms(1))
qed

lemma worst_case_bound:
  assumes "\<forall>ch m. adapters ch = Some (Some m) \<longrightarrow> int m \<le> M" "0 \<le> M"
  shows "command_worst_case_seconds adapters c db \<le> 980 + 40 * M"
proof -
  have seg: "int (min n (case ms of None \<Rightarrow> 0 | Some m \<Rightarrow> m)) \<le> M" if "adapters ch = Some ms" for n ms ch
  proof (cases ms)
    case (Some m)
    then have "int m \<le> M" using assms(1) that by blast
    moreover have "int (min n m) \<le> int m" by simp
    ultimately show ?thesis using Some by (simp del: of_nat_min)
  qed (simp add: assms(2))
  have base: "DEFAULT_COMMAND_WORST_SECONDS \<le> 980 + 40 * M" "DEFAULT_COMMAND_WORST_SECONDS = 80"
    using assms(2) by (simp_all add: DEFAULT_COMMAND_WORST_SECONDS_def PROVIDER_CALL_SECONDS_def)
  have full: "DEFAULT_COMMAND_WORST_SECONDS + x * 2 * PROVIDER_CALL_SECONDS + YOUTUBE_UPLOAD_MAX_SECONDS \<le> 980 + 40 * M"
    "DEFAULT_COMMAND_WORST_SECONDS + x * 2 * PROVIDER_CALL_SECONDS \<le> 980 + 40 * M" if "x \<le> M" for x
    using that by (simp_all add: DEFAULT_COMMAND_WORST_SECONDS_def PROVIDER_CALL_SECONDS_def YOUTUBE_UPLOAD_MAX_SECONDS_def)
  show ?thesis unfolding command_worst_case_seconds_def
    by (simp add: base(1) full seg Let_def del: of_nat_min split: option.split)
qed

text \<open>The loop on a clock that stands still, with time for every command.\<close>

lemma claim_loop_drains:
  assumes "\<forall>k. rn_clock (rounds k) = now \<and> rn_elapsed (rounds k) + (980 + 40 * M) \<le> budget" "0 \<le> M"
    and "\<forall>ch m. adapters ch = Some (Some m) \<longrightarrow> int m \<le> M" "\<forall>k. 0 \<le> rn_elapsed (rounds k)"
    and "ledger_ok db" "p \<le> BATCH_SIZE"
  shows "let db' = snd (claim_loop adapters budget rounds k p [] counts db) in
      ledger_ok db' \<and> length (due_ids now db') = length (due_ids now db) - (BATCH_SIZE - p)
      \<and> set (due_ids now db') \<subseteq> set (due_ids now db)
      \<and> (\<forall>j. j \<notin> set (due_ids now db) \<longrightarrow> get_command j db' = get_command j db)"
  using assms(5,6)
proof (induction "BATCH_SIZE - p" arbitrary: p k counts db)
  case 0
  then have "BATCH_SIZE \<le> p" by simp
  then show ?case using 0(2) by (subst claim_loop.simps) simp
next
  case (Suc n)
  then have p: "\<not> BATCH_SIZE \<le> p" by simp
  show ?case
  proof (cases "next_due now [] db")
    case None
    then show ?thesis using next_due_None [OF None] Suc.prems(1) assms(1) p
      by (subst claim_loop.simps) (simp add: Let_def)
  next
    case (Some c)
    note c = next_due_Some [OF Suc.prems(1) Some]
    define db1 where "db1 = run_claimed (rn_answer (rounds k)) (rn_escape (rounds k)) now (pc_id c)
        (upd_command now (pc_id c) (claimed now) db)"
    obtain c' where c': "row_change (pc_id c) db db1 c c'" "settled now c'"
      unfolding db1_def by (rule claim_and_run_change [OF c(1,3)])
    note due = due_ids_settled [OF Suc.prems(1) c'(1) c(2) c'(2)]
    have w: "command_worst_case_seconds adapters c db \<le> 980 + 40 * M" by (rule worst_case_bound [OF assms(3,2)])
    have "rn_elapsed (rounds k) + (980 + 40 * M) \<le> budget" "0 \<le> rn_elapsed (rounds k)" using assms(1,4) by simp_all
    then have b: "\<not> budget < command_worst_case_seconds adapters c db"
      "\<not> budget - rn_elapsed (rounds k) < command_worst_case_seconds adapters c db" using w by linarith+
    define counts1 where "counts1 = bump (count_key (rn_escape (rounds k)) (get_command (pc_id c) db1)) counts"
    have "rn_clock (rounds k) = now" using assms(1) by blast
    then have loop: "claim_loop adapters budget rounds k p [] counts db
        = claim_loop adapters budget rounds (k + 1) (p + 1) [] counts1 db1"
      unfolding counts1_def db1_def using p Some b by (subst claim_loop.simps) (simp add: Let_def)
    have "pc_id c \<in> set (due_ids now db)" using c by (simp add: due_ids_iff Suc.prems(1))
    then have "j \<notin> set (due_ids now db) \<Longrightarrow> get_command j db1 = get_command j db" for j
      using c'(1) unfolding row_change_def by metis
    moreover have "let db' = snd (claim_loop adapters budget rounds (k + 1) (p + 1) [] counts1 db1) in
      ledger_ok db' \<and> length (due_ids now db') = length (due_ids now db1) - (BATCH_SIZE - (p + 1))
      \<and> set (due_ids now db') \<subseteq> set (due_ids now db1)
      \<and> (\<forall>j. j \<notin> set (due_ids now db1) \<longrightarrow> get_command j db' = get_command j db1)"
      using Suc.hyps(2) p by (intro Suc.hyps(1) ledger_ok_change [OF Suc.prems(1) c'(1)]) simp_all
    ultimately show ?thesis using p unfolding loop Let_def due(2) by (auto simp: due(1))
  qed
qed



section \<open>Creating commands\<close>

text \<open>
  One command per request. Where no two commands share organisation, destination, version, operation
  and toggle number, asking for a command never fails: it answers the command of that key, adding it only
  when there is none, keeps every other command, and asking again answers the same row and changes
  nothing.\<close>

lemma command_created_once:
  assumes "distinct (map command_key (pb_commands db))"
  shows "\<exists>c new db'. create_or_get_publication_command a fresh now db = Inr (c, new, db') \<and> command_key c = args_key a
    \<and> pb_commands db' = pb_commands db @ (if new then [c] else []) \<and> (new \<longleftrightarrow> args_key a \<notin> command_key ` set (pb_commands db))
    \<and> distinct (map command_key (pb_commands db'))
    \<and> create_or_get_publication_command a fresh' now' db' = Inr (c, False, db')"
proof (cases "filter (\<lambda>c. command_key c = args_key a) (pb_commands db)")
  case Nil
  define c where "c = new_command a fresh now"
  have k: "command_key c = args_key a" by (simp add: c_def new_command_def command_key_def args_key_def)
  have n: "args_key a \<notin> command_key ` set (pb_commands db)" using Nil by (auto simp: filter_empty_conv)
  show ?thesis
    by (rule exI [of _ c], rule exI [of _ True], rule exI [of _ "db\<lparr>pb_commands := pb_commands db @ [c]\<rparr>"])
      (use Nil n k assms in \<open>simp add: create_or_get_publication_command_def Let_def c_def [symmetric]\<close>)
next
  case (Cons c cs)
  have "distinct (map command_key (c # cs))" using assms unfolding Cons [symmetric] by (rule distinct_map_filter)
  moreover have "x \<in> set (c # cs) \<Longrightarrow> command_key x = args_key a" for x unfolding Cons [symmetric] by simp
  ultimately have cs: "cs = []" "command_key c = args_key a" by (cases cs; simp)+
  have "c \<in> set (filter (\<lambda>c. command_key c = args_key a) (pb_commands db))" unfolding Cons by simp
  then have "c \<in> set (pb_commands db)" by simp
  then have m: "args_key a \<in> command_key ` set (pb_commands db)" using cs(2) by (metis imageI)
  show ?thesis
    by (rule exI [of _ c], rule exI [of _ False], rule exI [of _ db])
      (use Cons cs m assms in \<open>simp add: create_or_get_publication_command_def\<close>)
qed

lemma command_created_once_witness:
  "\<exists>c new db'. create_or_get_publication_command args0 ''c2'' 3 pub_db1 = Inr (c, new, db') \<and> \<not> new \<and> pc_id c = ''c1''"
proof -
  have d: "distinct (map command_key (pb_commands pub_db1))" "args_key args0 \<in> command_key ` set (pb_commands pub_db1)"
    "map pc_id (filter (\<lambda>c. command_key c = args_key args0) (pb_commands pub_db1)) = [''c1'']" by code_simp+
  obtain c new db' where c: "create_or_get_publication_command args0 ''c2'' 3 pub_db1 = Inr (c, new, db')" "\<not> new"
    "command_key c = args_key args0"
    using command_created_once [OF d(1), of args0 "''c2''" 3] d(2) by blast
  moreover have "c \<in> set (filter (\<lambda>c. command_key c = args_key args0) (pb_commands pub_db1))"
    using create_new [OF c(1,2)] by simp
  then have "pc_id c \<in> set (map pc_id (filter (\<lambda>c. command_key c = args_key args0) (pb_commands pub_db1)))" by simp
  ultimately show ?thesis unfolding d(3) by auto
qed

section \<open>Failures and connections\<close>

text \<open>
  C24: A failure the code does not know is never retried by itself. Unless its error is in the table of
  transient codes, a failed command waits for a person: it is dead-lettered or blocked by its connection,
  a stop notice is pending, and no tick takes it up; the table is disjoint from the codes that may have
  reached the provider.\<close>

theorem unknown_failure_waits_for_person:
  assumes "\<not> in_codes err TRANSIENT_CODES" "get_command i db = Some c"
  shows "(\<exists>c'. get_command i (apply_command_failure err le now ra rs i db) = Some c'
      \<and> (if in_codes err CONNECTION_BLOCKED_CODES then pc_status c' = C_blocked else pc_status c' = C_dead_letter)
      \<and> pc_stop_notice_state c' = Some Notice_pending \<and> human_retryable c' \<and> (\<forall>t. \<not> is_due t [] c')
      \<and> (\<not> in_codes err NOT_SENT_CODES \<and> \<not> in_codes err CONNECTION_BLOCKED_CODES \<longrightarrow> raise_if_needs_check c' \<noteq> Inr ()))
    \<and> set TRANSIENT_CODES \<inter> set (NEEDS_CHECK_CODES @ MAYBE_SENT_CODES @ NOT_SENT_CODES @ CONNECTION_BLOCKED_CODES) = {}"
proof -
  define c' where "c' = (failed_command err le now ra rs c)\<lparr>pc_updated_at := now\<rparr>"
  have g: "get_command i (apply_command_failure err le now ra rs i db) = Some c'"
    using failed_row_change [OF assms(2)] by (simp add: row_change_def c'_def)
  have k: "classify_failure_kind err = (if in_codes err CONNECTION_BLOCKED_CODES then K_connection
      else if in_codes err NOT_SENT_CODES \<and> \<not> in_codes err NEEDS_CHECK_CODES \<and> \<not> in_codes err MAYBE_SENT_CODES
      then K_not_sent else K_needs_check)"
    using assms(1) by (simp add: classify_failure_kind_def)
  have "if in_codes err CONNECTION_BLOCKED_CODES then pc_status c' = C_blocked else pc_status c' = C_dead_letter"
    "pc_stop_notice_state c' = Some Notice_pending" "human_retryable c'" "\<not> is_due t [] c'" for t
    by (simp_all add: c'_def failed_command_def Let_def k dead_lettered_def mark_stop_notice_def awaits_stop_notice_def
        human_retryable_def is_due_def)
  moreover have "\<not> in_codes err NOT_SENT_CODES \<and> \<not> in_codes err CONNECTION_BLOCKED_CODES \<longrightarrow> raise_if_needs_check c' \<noteq> Inr ()"
    by (simp add: c'_def failed_command_def Let_def k dead_lettered_def mark_stop_notice_def raise_if_needs_check_def)
  moreover have "set TRANSIENT_CODES \<inter> set (NEEDS_CHECK_CODES @ MAYBE_SENT_CODES @ NOT_SENT_CODES @ CONNECTION_BLOCKED_CODES) = {}"
  proof -
    have "list_all (\<lambda>t. t \<notin> set (NEEDS_CHECK_CODES @ MAYBE_SENT_CODES @ NOT_SENT_CODES @ CONNECTION_BLOCKED_CODES)) TRANSIENT_CODES"
      by code_simp
    then show ?thesis unfolding list_all_iff by blast
  qed
  ultimately show ?thesis using g by blast
qed

theorem unknown_failure_waits_for_person_witness:
  "\<exists>c'. get_command ''c1'' (apply_command_failure (Some ''NEW_PROVIDER_CODE'') None 4 None None ''c1'' pub_db1) = Some c'
     \<and> pc_status c' = C_dead_letter \<and> raise_if_needs_check c' \<noteq> Inr ()"
proof -
  have "\<not> in_codes (Some ''NEW_PROVIDER_CODE'') TRANSIENT_CODES" "get_command ''c1'' pub_db1 = Some command0"
    "\<not> in_codes (Some ''NEW_PROVIDER_CODE'') NOT_SENT_CODES" "\<not> in_codes (Some ''NEW_PROVIDER_CODE'') CONNECTION_BLOCKED_CODES"
    by code_simp+
  then show ?thesis using unknown_failure_waits_for_person [of "Some ''NEW_PROVIDER_CODE''" "''c1''" pub_db1 command0 None 4 None None]
    by metis
qed

section \<open>Pause and resume\<close>

interpretation org_rows: row_table og_id "find_row og_id" "upd_row og_id"
  by (rule row_table_rows)

definition resumed :: "uuid \<Rightarrow> timestamp \<Rightarrow> command \<Rightarrow> command" where
  "resumed org now c = (if pc_org_id c = org \<and> is_paused_command c then (requeued c)\<lparr>pc_updated_at := now\<rparr> else c)"

lemma resumed_resumed: "resumed org now (resumed org now c) = resumed org now c"
  by (simp add: resumed_def requeued_def is_paused_command_def)

lemma pc_id_resumed [simp]: "pc_id (resumed org now c) = pc_id c"
  by (simp add: resumed_def requeued_def)

lemma find_org_command_None:
  assumes "List.find (\<lambda>c. pc_id c = i \<and> pc_org_id c = org) (pb_commands db) = None" "get_command i db = Some c"
  shows "pc_org_id c \<noteq> org"
  using assms(1) get_command_id [OF assms(2)] by (auto simp: find_None_iff)

lemma retry_paused_get:
  assumes "distinct (map pc_id (pb_commands db))"
  shows "get_command j (snd (retry_dead_letter_command org i True now db))
      = (if j = i then map_option (resumed org now) (get_command j db) else get_command j db)"
    and "map pc_id (pb_commands (snd (retry_dead_letter_command org i True now db))) = map pc_id (pb_commands db)"
    and "pb_attempts (snd (retry_dead_letter_command org i True now db)) = pb_attempts db"
    and "pb_orgs (snd (retry_dead_letter_command org i True now db)) = pb_orgs db"
proof -
  show "map pc_id (pb_commands (snd (retry_dead_letter_command org i True now db))) = map pc_id (pb_commands db)"
    "pb_attempts (snd (retry_dead_letter_command org i True now db)) = pb_attempts db"
    "pb_orgs (snd (retry_dead_letter_command org i True now db)) = pb_orgs db"
    by (simp_all add: retry_dead_letter_command_def command_simps upd_command_def [of now i requeued] upd_row_def
        requeued_def o_def split: option.split)
  show "get_command j (snd (retry_dead_letter_command org i True now db))
      = (if j = i then map_option (resumed org now) (get_command j db) else get_command j db)"
  proof (cases "List.find (\<lambda>c. pc_id c = i \<and> pc_org_id c = org) (pb_commands db)")
    case None
    then show ?thesis using find_org_command_None [OF None]
      by (cases "get_command i db") (auto simp: retry_dead_letter_command_def resumed_def)
  next
    case (Some c)
    then have "get_command i db = Some c" "pc_org_id c = org" using find_org_command [OF Some assms] find_SomeD [OF Some] by simp_all
    then show ?thesis using Some
      by (simp add: retry_dead_letter_command_def resumed_def is_paused_command_def command_simps)
  qed
qed

lemma requeue_foldl:
  fixes now :: timestamp and org :: uuid
  assumes "distinct (map pc_id (pb_commands db))"
  defines "f \<equiv> \<lambda>(n :: nat, d) i. case retry_dead_letter_command org i True now d of
      (None, d1) \<Rightarrow> (n, d1) | (Some _, d1) \<Rightarrow> (n + 1, d1)"
  shows "get_command j (snd (foldl f (n, db) js)) = (if j \<in> set js then map_option (resumed org now) (get_command j db)
        else get_command j db)
    \<and> pb_attempts (snd (foldl f (n, db) js)) = pb_attempts db \<and> pb_orgs (snd (foldl f (n, db) js)) = pb_orgs db"
  using assms(1)
proof (induction js arbitrary: n db)
  case (Cons i js)
  obtain m where f: "f (n, db) i = (m, snd (retry_dead_letter_command org i True now db))"
    by (cases "retry_dead_letter_command org i True now db"; cases "fst (retry_dead_letter_command org i True now db)")
      (simp_all add: f_def)
  note r = retry_paused_get [OF Cons.prems, where org = org and i = i and now = now]
  have "distinct (map pc_id (pb_commands (snd (retry_dead_letter_command org i True now db))))" using r(2) Cons.prems by simp
  note ih = Cons.IH [OF this, of m]
  show ?case using ih by (cases "get_command j db") (auto simp: f r(1,3,4) resumed_resumed)
qed simp

lemma requeue_paused_commands_get:
  assumes "distinct (map pc_id (pb_commands db))"
  shows "get_command j (snd (requeue_paused_commands org now db)) = map_option (resumed org now) (get_command j db)"
    and "pb_attempts (snd (requeue_paused_commands org now db)) = pb_attempts db"
    and "pb_orgs (snd (requeue_paused_commands org now db)) = pb_orgs db"
proof -
  define js where "js = map pc_id (filter (\<lambda>c. pc_org_id c = org \<and> is_paused_command c) (pb_commands db))"
  note fold = requeue_foldl [OF assms, of j org now 0 js]
  show "pb_attempts (snd (requeue_paused_commands org now db)) = pb_attempts db"
    "pb_orgs (snd (requeue_paused_commands org now db)) = pb_orgs db"
    using fold by (simp_all add: requeue_paused_commands_def js_def)
  have "map_option (resumed org now) (get_command j db) = get_command j db" if "j \<notin> set js"
  proof (cases "get_command j db")
    case (Some c)
    then have "c \<in> set (pb_commands db)" "pc_id c = j" using get_command_id by blast+
    then have "\<not> (pc_org_id c = org \<and> is_paused_command c)" using that by (auto simp: js_def)
    then show ?thesis using Some by (auto simp: resumed_def)
  qed simp
  then show "get_command j (snd (requeue_paused_commands org now db)) = map_option (resumed org now) (get_command j db)"
    using fold by (auto simp: requeue_paused_commands_def js_def)
qed

text \<open>
  C25: Pausing loses nothing. After an organisation pauses publishing, executing one of its commands never
  calls the provider, and the resume puts the command back into the queue with the attempts it had, due at
  once unless it is scheduled for later.\<close>

theorem pause_resume_roundtrip:
  assumes "distinct (map pc_id (pb_commands db))" "find_row og_id org (pb_orgs db) = Some o1"
    and "get_command i db = Some c" "pc_org_id c = org"
  shows "\<exists>db1 db3 c3 r. set_external_publish_pause org True reason actor t1 db = Inr db1
    \<and> set_external_publish_pause org False reason' actor' t3 (process_one_command a t2 i db1) = Inr db3
    \<and> is_external_publish_paused org db3 = (False, None)
    \<and> pb_attempts db3 = pb_attempts db @ [r] \<and> \<not> at_adapter_called r \<and> at_approval_check r = ''paused''
    \<and> get_command i db3 = Some c3 \<and> command_key c3 = command_key c \<and> pc_status c3 = C_pending
    \<and> pc_attempt_count c3 = pc_attempt_count c \<and> pc_scheduled_at c3 = pc_scheduled_at c \<and> pc_next_attempt_at c3 = None"
proof -
  define db1 where "db1 = db\<lparr>pb_orgs := upd_row og_id org (\<lambda>o1. o1\<lparr>og_paused_at := Some t1, og_paused_by := Some actor,
      og_pause_reason := reason\<rparr>) (pb_orgs db), pb_pause_log := pb_pause_log db @
      [\<lparr>pl_org_id = org, pl_actor_member_id = actor, pl_action = ''pause'', pl_reason = reason\<rparr>]\<rparr>"
  have p: "set_external_publish_pause org True reason actor t1 db = Inr db1"
    using assms(2) by (simp add: set_external_publish_pause_def db1_def)
  have f: "find_row og_id org (pb_orgs db1) = Some (o1\<lparr>og_paused_at := Some t1, og_paused_by := Some actor, og_pause_reason := reason\<rparr>)"
    using assms(2) by (simp add: db1_def org_rows.get_upd)
  have c1: "get_command i db1 = Some c" "pc_id c = i" using assms(3) get_command_id [OF assms(3)] by (simp_all add: db1_def get_command_def)
  define db2 where "db2 = block_for_external_publish_pause t2 reason c db1"
  have two: "process_one_command a t2 i db1 = db2"
    using c1 f assms(4) by (simp add: process_one_command_def is_external_publish_paused_def db2_def)
  define r where "r = \<lparr>at_command_id = i, at_gate_id = pc_gate_id c, at_approval_check = ''paused'', at_adapter_called = False,
      at_started_at = t2, at_finished_at = Some t2, at_result_code = None\<rparr>"
  define c2 where "c2 = c\<lparr>pc_status := C_blocked, pc_failure_kind := Some K_paused, pc_last_error := Some (paused_text reason),
              pc_failure_detail := preflight_error_facts (PublishPaused reason) (paused_text reason), pc_updated_at := t2\<rparr>"
  have two_facts: "get_command i db2 = Some c2" "map pc_id (pb_commands db2) = map pc_id (pb_commands db)"
    "pb_attempts db2 = pb_attempts db @ [r]" "pb_orgs db2 = pb_orgs db1"
    using c1 by (simp_all add: db2_def block_for_external_publish_pause_def command_simps c2_def r_def)
      (simp_all add: db1_def upd_command_def record_publication_attempt_def)
  define dbm where "dbm = db2\<lparr>pb_orgs := upd_row og_id org (\<lambda>o1. o1\<lparr>og_paused_at := None, og_paused_by := None,
      og_pause_reason := None\<rparr>) (pb_orgs db2), pb_pause_log := pb_pause_log db2 @
      [\<lparr>pl_org_id = org, pl_actor_member_id = actor', pl_action = ''resume'', pl_reason = reason'\<rparr>]\<rparr>"
  define db3 where "db3 = snd (requeue_paused_commands org t3 dbm)"
  have three: "set_external_publish_pause org False reason' actor' t3 db2 = Inr db3"
    using f two_facts(4) by (simp add: set_external_publish_pause_def db3_def dbm_def)
  have d: "distinct (map pc_id (pb_commands dbm))" using assms(1) two_facts(2) by (simp add: dbm_def)
  note q = requeue_paused_commands_get [OF d, where org = org and now = t3, folded db3_def]
  have "get_command i dbm = Some c2" using two_facts(1) by (simp add: dbm_def get_command_def)
  then have g3: "get_command i db3 = Some (resumed org t3 c2)" using q(1) by simp
  have r3: "resumed org t3 c2 = (requeued c2)\<lparr>pc_updated_at := t3\<rparr>"
    using assms(4) by (simp add: resumed_def c2_def is_paused_command_def)
  have "is_external_publish_paused org db3 = (False, None)"
    using f two_facts(4) by (simp add: is_external_publish_paused_def q(3) dbm_def org_rows.get_upd)
  moreover have "pb_attempts db3 = pb_attempts db @ [r]" using two_facts(3) by (simp add: q(2)) (simp add: dbm_def)
  moreover have "\<not> at_adapter_called r" "at_approval_check r = ''paused''" by (simp_all add: r_def)
  moreover have "command_key (resumed org t3 c2) = command_key c" "pc_status (resumed org t3 c2) = C_pending"
    "pc_attempt_count (resumed org t3 c2) = pc_attempt_count c" "pc_scheduled_at (resumed org t3 c2) = pc_scheduled_at c"
    "pc_next_attempt_at (resumed org t3 c2) = None"
    unfolding r3 by (simp_all add: requeued_def c2_def command_key_def)
  ultimately show ?thesis using p three g3 unfolding two [symmetric] by blast
qed

theorem pause_resume_roundtrip_witness:
  "\<exists>db1 db3 c3. set_external_publish_pause ''org'' True None ''m'' 1 pub_db1 = Inr db1
    \<and> set_external_publish_pause ''org'' False None ''m'' 3 (process_one_command answer0 2 ''c1'' db1) = Inr db3
    \<and> get_command ''c1'' db3 = Some c3 \<and> pc_status c3 = C_pending \<and> pc_attempt_count c3 = 0"
proof -
  have "distinct (map pc_id (pb_commands pub_db1))" "get_command ''c1'' pub_db1 = Some command0" "pc_org_id command0 = ''org''"
    "pc_attempt_count command0 = 0"
    "find_row og_id ''org'' (pb_orgs pub_db1) = Some \<lparr>og_id = ''org'', og_paused_at = None, og_paused_by = None, og_pause_reason = None\<rparr>"
    by code_simp+
  then show ?thesis using pause_resume_roundtrip [of pub_db1 "''org''" _ "''c1''" command0 None "''m''" 1 None "''m''" 3 answer0 2]
    by metis
qed

section \<open>Connections\<close>

text \<open>The two ways a connection's failure is recorded: by a failed command, and by a failed check.\<close>

datatype connection_failure =
    By_command "string option" "string option" timestamp
  | By_check conn_status string "string option" timestamp

fun record_failure :: "connection \<Rightarrow> connection_failure \<Rightarrow> connection" where
  "record_failure cn (By_command err msg t) = mark_connection_failed err msg t cn"
| "record_failure cn (By_check st msg err t) = apply_connection_failure st msg err t cn"

fun is_failure :: "connection_failure \<Rightarrow> bool" where
  "is_failure (By_command err msg t) = True"
| "is_failure (By_check st msg err t) = (st \<noteq> Conn_active)"

lemma record_failure_fails: "is_failure f \<Longrightarrow> fails_to cn (record_failure cn f)"
  by (cases f) (simp_all add: mark_connection_failed_fails apply_connection_failure_fails)

lemma record_failures_run: "list_all is_failure fs \<Longrightarrow> fails_to\<^sup>*\<^sup>* cn (foldl record_failure cn fs)"
  by (induction fs rule: rev_induct) (auto intro: rtranclp.rtrancl_into_rtrancl record_failure_fails)

text \<open>
  A failed connection stays failed until it is connected again. However many failures commands and
  checks record, in any order, none makes it active, and once it is expired or revoked its status no longer
  changes; connecting again makes it active and clears the error.\<close>

lemma connection_failure_sticky:
  assumes "list_all is_failure (f # fs)"
  shows "let failed = record_failure cn f; last = foldl record_failure cn (f # fs) in
    cn_status last \<noteq> Conn_active
    \<and> (cn_status failed = Conn_expired \<or> cn_status failed = Conn_revoked \<longrightarrow> cn_status last = cn_status failed)
    \<and> cn_status (mark_connection_recovered last) = Conn_active \<and> cn_last_error (mark_connection_recovered last) = None"
proof -
  have "cn_status (record_failure cn f) \<noteq> Conn_active"
    using assms by (intro fails_to_not_active [OF record_failure_fails]) simp
  then show ?thesis using fails_run [OF record_failures_run [of fs "record_failure cn f"]] assms
    by (auto simp: Let_def mark_connection_recovered_def)
qed

definition connection0 :: connection where
  "connection0 = \<lparr>cn_id = ''conn'', cn_channel = ''threads'', cn_account_id = ''a'', cn_access_token = Some ''t'',
     cn_status = Conn_active, cn_last_error = None, cn_last_error_code = None, cn_last_error_at = None\<rparr>"

lemma connection_failure_sticky_witness:
  "cn_status (foldl record_failure connection0
      [By_command (Some ''CHANNEL_CONNECTION_REVOKED'') None 1, By_command (Some ''CHANNEL_TOKEN_EXPIRED'') None 2]) = Conn_revoked"
proof -
  have "cn_status (record_failure connection0 (By_command (Some ''CHANNEL_CONNECTION_REVOKED'') None 1)) = Conn_revoked" by code_simp
  then show ?thesis
    using connection_failure_sticky [of "By_command (Some ''CHANNEL_CONNECTION_REVOKED'') None 1"
        "[By_command (Some ''CHANNEL_TOKEN_EXPIRED'') None 2]" connection0] by (simp add: Let_def)
qed

end
