(* ===== verification/Background_Jobs.thy ===== *)
theory Background_Jobs
  imports Publication_Tick
begin

text \<open>
  The shared job queue: models/background_job.py and services/background_jobs.py. A request only inserts
  a row; the worker's tick claims due rows with the budget the publication commands leave, runs the
  handler of the kind, and writes result and completion in one commit. What a handler answers, and the
  clock and remaining budget of every round, are parameters.
\<close>

section \<open>Rows\<close>

datatype job_status = J_pending | J_in_progress | J_completed | J_failed

record job =
  jb_id :: uuid
  jb_org_id :: uuid
  jb_kind :: string
  jb_payload :: json
  jb_status :: job_status
  jb_result :: "json option"
  jb_error :: "json option"
  jb_attempt_count :: nat
  jb_next_attempt_at :: "timestamp option"
  jb_requested_by_member_id :: uuid
  jb_created_at :: timestamp
  jb_claimed_at :: "timestamp option"
  jb_finished_at :: "timestamp option"
  jb_dedup_key :: "string option"

definition MAX_ATTEMPTS :: nat where "MAX_ATTEMPTS = 3"

definition LEASE_SECONDS :: int where "LEASE_SECONDS = 15 * 60"

definition JOB_BACKOFF_BASE_SECONDS :: int where "JOB_BACKOFF_BASE_SECONDS = 60"

definition FAILED_CODE :: string where "FAILED_CODE = ''BACKGROUND_JOB_FAILED''"

definition VIDEO_CONFIRM_WORST_SECONDS :: int where "VIDEO_CONFIRM_WORST_SECONDS = 15 + 180 + 15 + 15"

definition CONVERT_WORST_SECONDS :: int where "CONVERT_WORST_SECONDS = 30 + 120 + 30 + 10"

definition HANDLERS :: "(string \<times> int) list" where
  "HANDLERS = [(''channel_video_confirm'', VIDEO_CONFIRM_WORST_SECONDS), (''attachment_convert'', CONVERT_WORST_SECONDS),
     (''loop_context_pack'', 75), (''retro_synthesis'', 70)]"

definition job_open :: "job \<Rightarrow> bool" where
  "job_open j \<longleftrightarrow> jb_status j = J_pending \<or> jb_status j = J_in_progress"

section \<open>Enqueue\<close>

type_synonym dedup = "uuid \<times> string \<times> uuid \<times> string"

definition dedup_of :: "job \<Rightarrow> dedup option" where
  \<comment> \<open>the partial unique index over open jobs with a key\<close>
  "dedup_of j = (case jb_dedup_key j of
     None \<Rightarrow> None
   | Some d \<Rightarrow> if job_open j then Some (jb_org_id j, jb_kind j, jb_requested_by_member_id j, d) else None)"

definition new_job :: "uuid \<Rightarrow> uuid \<Rightarrow> string \<Rightarrow> uuid \<Rightarrow> json \<Rightarrow> string option \<Rightarrow> timestamp \<Rightarrow> job" where
  "new_job fresh org kind member payload key now =
     \<lparr>jb_id = fresh, jb_org_id = org, jb_kind = kind, jb_payload = payload, jb_status = J_pending, jb_result = None,
      jb_error = None, jb_attempt_count = 0, jb_next_attempt_at = None, jb_requested_by_member_id = member,
      jb_created_at = now, jb_claimed_at = None, jb_finished_at = None, jb_dedup_key = key\<rparr>"

definition enqueue_background_job :: "uuid \<Rightarrow> string \<Rightarrow> uuid \<Rightarrow> json \<Rightarrow> string option \<Rightarrow> uuid \<Rightarrow> timestamp \<Rightarrow> job list
    \<Rightarrow> error + (job \<times> job list)" where
  "enqueue_background_job org kind member payload key fresh now jobs =
     (if map_of HANDLERS kind = None then Inl (ValueError ''unknown background job kind'')
      else (let j = new_job fresh org kind member payload key now; inserted = Inr (j, jobs @ [j]) in
        case key of
          None \<Rightarrow> inserted
        | Some d \<Rightarrow>
            (case scalar_one_or_none (filter (\<lambda>x. dedup_of x = Some (org, kind, member, d)) jobs) of
               Inl e \<Rightarrow> Inl e
             | Inr None \<Rightarrow> inserted
             | Inr (Some x) \<Rightarrow> Inr (x, jobs))))"

section \<open>Claim\<close>

definition job_due :: "timestamp \<Rightarrow> job \<Rightarrow> bool" where
  "job_due now j \<longleftrightarrow>
     (jb_status j = J_pending \<and> (case jb_next_attempt_at j of None \<Rightarrow> True | Some t \<Rightarrow> t \<le> now))
     \<or> (jb_status j = J_in_progress \<and> (case jb_claimed_at j of None \<Rightarrow> False | Some t \<Rightarrow> t < now - seconds LEASE_SECONDS))"

definition oldest_due :: "timestamp \<Rightarrow> uuid list \<Rightarrow> job list \<Rightarrow> job option" where
  "oldest_due now skipped jobs =
     min_row (\<lambda>j. (jb_created_at j, jb_id j)) (filter (\<lambda>j. job_due now j \<and> jb_id j \<notin> set skipped) jobs)"

definition claimed_job :: "timestamp \<Rightarrow> job \<Rightarrow> job" where
  "claimed_job now j = j\<lparr>jb_status := J_in_progress, jb_claimed_at := Some now, jb_attempt_count := jb_attempt_count j + 1\<rparr>"

lemma oldest_due_in:
  assumes "oldest_due now skipped jobs = Some j"
  shows "j \<in> set jobs" "job_due now j" "jb_id j \<notin> set skipped"
  using min_row_in [of "\<lambda>j. (jb_created_at j, jb_id j)" "filter (\<lambda>j. job_due now j \<and> jb_id j \<notin> set skipped) jobs" j] assms
  by (simp_all add: oldest_due_def)

lemma skipped_less:
  assumes "j \<in> set jobs" "jb_id j \<notin> set skipped"
  shows "length (filter (\<lambda>x. jb_id x \<notin> set (jb_id j # skipped)) jobs) < length (filter (\<lambda>x. jb_id x \<notin> set skipped) jobs)"
proof -
  have "filter (\<lambda>x. jb_id x \<notin> set (jb_id j # skipped)) jobs
      = filter (\<lambda>x. jb_id x \<noteq> jb_id j) (filter (\<lambda>x. jb_id x \<notin> set skipped) jobs)"
    by (simp add: conj_commute)
  also have "length \<dots> < length (filter (\<lambda>x. jb_id x \<notin> set skipped) jobs)"
    by (rule length_filter_less [where x = j]) (use assms in simp_all)
  finally show ?thesis .
qed

function claim_next :: "timestamp \<Rightarrow> int \<Rightarrow> uuid list \<Rightarrow> job list \<Rightarrow> job option \<times> uuid list \<times> job list" where
  "claim_next now remaining skipped jobs =
     (case oldest_due now skipped jobs of
        None \<Rightarrow> (None, skipped, jobs)
      | Some j \<Rightarrow>
          (case map_of HANDLERS (jb_kind j) of
             None \<Rightarrow> claim_next now remaining (jb_id j # skipped) jobs
           | Some worst \<Rightarrow>
               if worst > remaining then (None, jb_id j # skipped, jobs)
               else (Some (claimed_job now j), skipped, upd_row jb_id (jb_id j) (claimed_job now) jobs)))"
  by pat_completeness auto
termination
  by (relation "measure (\<lambda>(now, remaining, skipped, jobs). length (filter (\<lambda>x. jb_id x \<notin> set skipped) jobs))")
    (simp_all add: skipped_less oldest_due_in del: set_simps)

declare claim_next.simps [simp del]

section \<open>Run and finish\<close>

text \<open>
  A handler ends with a result, or with an exception of which \<^verbatim>\<open>error_body\<close> knows the answer the request
  would have got, or with any other exception, of which only the type name is kept.
\<close>

datatype job_answer = Job_result json | Job_refused json | Job_raises string

definition failed_body :: "string \<Rightarrow> json" where
  "failed_body name = JObj [(''status_code'', JInt 503),
     (''detail'', JObj [(''code'', JStr FAILED_CODE), (''message'', JStr name)])]"

fun job_outcome :: "job_answer \<Rightarrow> nat \<Rightarrow> timestamp \<Rightarrow> job \<Rightarrow> job" where
  "job_outcome (Job_result r) attempt now j =
     j\<lparr>jb_status := J_completed, jb_result := Some r, jb_error := None, jb_finished_at := Some now\<rparr>"
| "job_outcome (Job_refused body) attempt now j =
     j\<lparr>jb_status := J_failed, jb_error := Some body, jb_finished_at := Some now\<rparr>"
| "job_outcome (Job_raises name) attempt now j =
     (if attempt \<ge> MAX_ATTEMPTS
      then j\<lparr>jb_status := J_failed, jb_finished_at := Some now, jb_error := Some (failed_body name)\<rparr>
      else j\<lparr>jb_status := J_pending, jb_claimed_at := None,
             jb_next_attempt_at := Some (now + seconds (JOB_BACKOFF_BASE_SECONDS * 2 ^ (attempt - 1)))\<rparr>)"

fun outcome_key :: "job_answer \<Rightarrow> nat \<Rightarrow> string" where
  "outcome_key (Job_result r) attempt = ''completed''"
| "outcome_key (Job_refused body) attempt = ''failed''"
| "outcome_key (Job_raises name) attempt = (if attempt \<ge> MAX_ATTEMPTS then ''failed'' else ''retry'')"

definition finish_job :: "uuid \<Rightarrow> (job \<Rightarrow> job) \<Rightarrow> job list \<Rightarrow> error + job list" where
  "finish_job i f jobs =
     (case filter (\<lambda>j. jb_id j = i) jobs of
        [j] \<Rightarrow> Inr (upd_row jb_id i f jobs)
      | [] \<Rightarrow> Inl (ValueError ''no row was found when one was required'')
      | _ \<Rightarrow> Inl MultipleResultsFound)"

record job_round =
  jr_remaining :: int
  jr_clock :: timestamp
  jr_answer :: job_answer
  jr_finished :: timestamp

text \<open>What the attempts still allow: it shrinks with every claim that is finished, so the loop ends on any clock.\<close>

definition job_weight :: "job \<Rightarrow> nat" where
  "job_weight j = (if job_open j then max 1 (MAX_ATTEMPTS - jb_attempt_count j) else 0)"

definition queue_weight :: "job list \<Rightarrow> nat" where "queue_weight jobs = sum_list (map job_weight jobs)"

lemma job_id_updates [simp]:
  "jb_id (claimed_job now j) = jb_id j" "jb_id (job_outcome a n now j) = jb_id j"
  by (simp add: claimed_job_def) (cases a; simp)

lemma claimed_outcome_weight:
  "job_open j \<Longrightarrow> job_weight (job_outcome a (jb_attempt_count j + 1) t (claimed_job now j)) < job_weight j"
  by (cases a) (auto simp: job_weight_def job_open_def claimed_job_def MAX_ATTEMPTS_def)

lemma filter_upd_row: "(\<And>r. key (f r) = key r) \<Longrightarrow> filter (\<lambda>r. key r = i) (upd_row key i f rs) = map f (filter (\<lambda>r. key r = i) rs)"
  by (induction rs) (simp_all add: upd_row_def)

lemma upd_row_upd_row: "(\<And>r. key (f r) = key r) \<Longrightarrow> upd_row key i g (upd_row key i f rs) = upd_row key i (g \<circ> f) rs"
  by (induction rs) (simp_all add: upd_row_def)

lemma sum_upd_row_single:
  assumes "filter (\<lambda>r. key r = i) rs = [r]"
  shows "sum_list (map w (upd_row key i f rs)) + w r = sum_list (map w rs) + (w (f r) :: nat)"
  using assms
proof (induction rs)
  case (Cons a rs)
  show ?case
  proof (cases "key a = i")
    case True
    then have "a = r" "filter (\<lambda>r. key r = i) rs = []" using Cons.prems by simp_all
    moreover then have "upd_row key i f rs = rs" by (induction rs) (simp_all add: upd_row_def split: if_splits)
    ultimately show ?thesis using True by (simp add: upd_row_def)
  next
    case False
    then show ?thesis using Cons by (simp add: upd_row_def)
  qed
qed simp

lemma claim_next_Some:
  assumes "claim_next now remaining skipped jobs = (Some j, sk, js)"
  obtains j0 worst where "j0 \<in> set jobs" "job_due now j0" "jb_id j0 \<notin> set skipped" "map_of HANDLERS (jb_kind j0) = Some worst"
    "worst \<le> remaining" "j = claimed_job now j0" "js = upd_row jb_id (jb_id j0) (claimed_job now) jobs"
proof -
  have "claim_next now remaining skipped jobs = (Some j, sk, js) \<Longrightarrow>
    \<exists>j0 worst. j0 \<in> set jobs \<and> job_due now j0 \<and> jb_id j0 \<notin> set skipped \<and> map_of HANDLERS (jb_kind j0) = Some worst
      \<and> worst \<le> remaining \<and> j = claimed_job now j0 \<and> js = upd_row jb_id (jb_id j0) (claimed_job now) jobs"
  proof (induction now remaining skipped jobs rule: claim_next.induct)
    case (1 now remaining skipped jobs)
    show ?case
    proof (cases "oldest_due now skipped jobs")
      case None
      then show ?thesis using "1.prems" by (simp add: claim_next.simps [of now])
    next
      case (Some j0)
      show ?thesis
      proof (cases "map_of HANDLERS (jb_kind j0)")
        case None
        then have "claim_next now remaining (jb_id j0 # skipped) jobs = (Some j, sk, js)"
          using "1.prems" Some by (simp add: claim_next.simps [of now remaining skipped])
        then show ?thesis using "1.IH" [OF Some None] by auto
      next
        case k: (Some worst)
        then show ?thesis using "1.prems" Some oldest_due_in [OF Some]
          by (auto simp: claim_next.simps [of now remaining skipped] split: if_splits)
      qed
    qed
  qed
  then show thesis using assms that by blast
qed

lemma job_due_open: "job_due now j \<Longrightarrow> job_open j"
  by (auto simp: job_due_def job_open_def)

lemma claim_finish_weight:
  assumes "claim_next now remaining skipped jobs = (Some j, sk, js)"
    and "finish_job (jb_id j) (job_outcome a (jb_attempt_count j) t) js = Inr js'"
  shows "queue_weight js' < queue_weight jobs"
proof -
  obtain j0 where j0: "j0 \<in> set jobs" "job_due now j0" "j = claimed_job now j0"
      "js = upd_row jb_id (jb_id j0) (claimed_job now) jobs"
    by (rule claim_next_Some [OF assms(1)])
  obtain x where x: "filter (\<lambda>r. jb_id r = jb_id j0) js = [x]"
      "js' = upd_row jb_id (jb_id j0) (job_outcome a (jb_attempt_count j) t) js"
    using assms(2) j0(3) by (auto simp: finish_job_def split: list.splits)
  have m: "map (claimed_job now) (filter (\<lambda>r. jb_id r = jb_id j0) jobs) = [x]"
    using x(1) unfolding j0(4) by (simp add: filter_upd_row)
  have "j0 \<in> set (filter (\<lambda>r. jb_id r = jb_id j0) jobs)" using j0(1) by simp
  then have f: "filter (\<lambda>r. jb_id r = jb_id j0) jobs = [j0]"
    using m by (cases "filter (\<lambda>r. jb_id r = jb_id j0) jobs") auto
  have n: "jb_attempt_count j = jb_attempt_count j0 + 1" by (simp add: j0(3) claimed_job_def)
  have "js' = upd_row jb_id (jb_id j0) (job_outcome a (jb_attempt_count j0 + 1) t \<circ> claimed_job now) jobs"
    unfolding x(2) j0(4) n by (simp add: upd_row_upd_row)
  then have "queue_weight js' + job_weight j0
      = queue_weight jobs + job_weight (job_outcome a (jb_attempt_count j0 + 1) t (claimed_job now j0))"
    unfolding queue_weight_def using sum_upd_row_single [OF f] by simp
  then show ?thesis using claimed_outcome_weight [OF job_due_open [OF j0(2)], of a t now] by simp
qed

function process_loop :: "(nat \<Rightarrow> job_round) \<Rightarrow> nat \<Rightarrow> uuid list \<Rightarrow> (string \<Rightarrow> nat) \<Rightarrow> job list
    \<Rightarrow> error + ((string \<Rightarrow> nat) \<times> job list)" where
  "process_loop rounds k skipped counts jobs =
     (let r = rounds k in
      if jr_remaining r \<le> 0 then Inr (counts, jobs)
      else (case claim_next (jr_clock r) (jr_remaining r) skipped jobs of
          (None, sk, js) \<Rightarrow> Inr (counts(''deferred'' := length sk), js)
        | (Some j, sk, js) \<Rightarrow>
            (case finish_job (jb_id j) (job_outcome (jr_answer r) (jb_attempt_count j) (jr_finished r)) js of
               Inl e \<Rightarrow> Inl e
             | Inr js' \<Rightarrow> process_loop rounds (k + 1) sk (bump (outcome_key (jr_answer r) (jb_attempt_count j)) counts) js')))"
  by pat_completeness auto
termination
  by (relation "measure (\<lambda>(rounds, k, skipped, counts, jobs). queue_weight jobs)")
    (auto dest!: claim_finish_weight [OF sym])

declare process_loop.simps [simp del]

definition process_due_background_jobs :: "(nat \<Rightarrow> job_round) \<Rightarrow> job list \<Rightarrow> error + ((string \<Rightarrow> nat) \<times> job list)" where
  "process_due_background_jobs rounds jobs = process_loop rounds 0 [] (\<lambda>_. 0) jobs"

section \<open>What a screen reads\<close>

fun status_text_job :: "job_status \<Rightarrow> string" where
  "status_text_job J_pending = ''pending''"
| "status_text_job J_in_progress = ''in_progress''"
| "status_text_job J_completed = ''completed''"
| "status_text_job J_failed = ''failed''"

definition background_job_view :: "job \<Rightarrow> json option \<Rightarrow> jdict" where
  "background_job_view j rendered =
     [(''id'', JStr (jb_id j)), (''kind'', JStr (jb_kind j)), (''status'', JStr (status_text_job (jb_status j))),
      (''result'', case rendered of Some r \<Rightarrow> r | None \<Rightarrow> (case jb_result j of None \<Rightarrow> JNull | Some r \<Rightarrow> r)),
      (''error'', case jb_error j of None \<Rightarrow> JNull | Some e \<Rightarrow> e),
      (''created_at'', JInt (jb_created_at j)), (''finished_at'', jopt_time (jb_finished_at j))]"

end
