(* ===== verification/Background_Machine.thy ===== *)
theory Background_Machine
  imports Background_Jobs Publication_Machine
begin

text \<open>
  The job queue as a concurrent system: requests enqueue, ticks claim, handlers end and may die with
  their worker, and after the lease a job is claimed again. A live handler ends within the lease of its
  claim; this is what the lease rests on. The system refines a machine in which a job is begun, put back
  and ended, and its interface is the one of the publication workers.
\<close>

section \<open>The machine of one job\<close>

datatype job_label = Quiet | Begin uuid | Put_back uuid | End uuid

datatype job_stage = Waiting | Running | Ended

fun stage_step :: "uuid \<Rightarrow> job_label \<Rightarrow> job_stage \<Rightarrow> job_stage \<Rightarrow> bool" where
  "stage_step i Quiet x y = (y = x)"
| "stage_step i (Begin k) x y = (if k = i then x \<noteq> Ended \<and> y = Running else y = x)"
| "stage_step i (Put_back k) x y = (if k = i then x = Running \<and> y = Waiting else y = x)"
| "stage_step i (End k) x y = (if k = i then x = Running \<and> y = Ended else y = x)"

fun job_concerns :: "job_label \<Rightarrow> uuid \<Rightarrow> bool" where
  "job_concerns Quiet i = True"
| "job_concerns (Begin k) i = (k = i)"
| "job_concerns (Put_back k) i = (k = i)"
| "job_concerns (End k) i = (k = i)"

lemma stage_step_other: "job_concerns l i \<Longrightarrow> j \<noteq> i \<Longrightarrow> stage_step j l x x"
  by (cases l) auto

lemma ended_stays:
  assumes "lab_run (stage_step i) x ls y" "x = Ended"
  shows "y = Ended \<and> Begin i \<notin> set ls \<and> Put_back i \<notin> set ls \<and> End i \<notin> set ls"
  using assms
proof (induction rule: lab_run.induct)
  case (lab_run_Cons l x x' ls y)
  then show ?case by (cases l) (auto split: if_splits)
qed simp

section \<open>The system\<close>

record job_sys =
  js_jobs :: "job list"
  js_clock :: timestamp
  js_live :: "(uuid \<times> timestamp \<times> nat) list"

definition end_label :: "job_answer \<Rightarrow> nat \<Rightarrow> uuid \<Rightarrow> job_label" where
  "end_label a n i = (if outcome_key a n = ''retry'' then Put_back i else End i)"

inductive job_step :: "job_label \<Rightarrow> job_sys \<Rightarrow> job_sys \<Rightarrow> bool" where
  job_clock: "js_clock s \<le> t \<Longrightarrow> \<forall>(i, u, n) \<in> set (js_live s). t \<le> u + seconds LEASE_SECONDS \<Longrightarrow>
    job_step Quiet s (s\<lparr>js_clock := t\<rparr>)"
| job_enqueue: "enqueue_background_job org kind member payload key fresh (js_clock s) (js_jobs s) = Inr (j, jobs') \<Longrightarrow>
    find_row jb_id fresh (js_jobs s) = None \<Longrightarrow> job_step Quiet s (s\<lparr>js_jobs := jobs'\<rparr>)"
| job_claim: "claim_next (js_clock s) remaining skipped (js_jobs s) = (Some j, sk, jobs') \<Longrightarrow>
    job_step (Begin (jb_id j)) s (s\<lparr>js_jobs := jobs', js_live := (jb_id j, js_clock s, jb_attempt_count j) # js_live s\<rparr>)"
| job_finish: "(i, u, n) \<in> set (js_live s) \<Longrightarrow> finish_job i (job_outcome a n (js_clock s)) (js_jobs s) = Inr jobs' \<Longrightarrow>
    job_step (end_label a n i) s (s\<lparr>js_jobs := jobs', js_live := filter (\<lambda>w. fst w \<noteq> i) (js_live s)\<rparr>)"
| job_crash: "(i, u, n) \<in> set (js_live s) \<Longrightarrow>
    job_step Quiet s (s\<lparr>js_live := filter (\<lambda>w. fst w \<noteq> i) (js_live s)\<rparr>)"

definition get_job :: "uuid \<Rightarrow> job list \<Rightarrow> job option" where
  "get_job i jobs = find_row jb_id i jobs"

interpretation job_rows: row_table jb_id "find_row jb_id" "upd_row jb_id"
  by (rule row_table_rows)

text \<open>The row invariant: what status, attempts, result and finish say about each other.\<close>

definition job_row_ok :: "job \<Rightarrow> bool" where
  "job_row_ok j \<longleftrightarrow> (jb_finished_at j = None \<longleftrightarrow> job_open j) \<and> (jb_result j = None \<longleftrightarrow> jb_status j \<noteq> J_completed)
     \<and> (jb_status j = J_pending \<longrightarrow> jb_attempt_count j < MAX_ATTEMPTS)
     \<and> (jb_status j = J_in_progress \<longrightarrow> jb_claimed_at j \<noteq> None \<and> 1 \<le> jb_attempt_count j)"

definition handler_ok :: "job list \<Rightarrow> timestamp \<Rightarrow> uuid \<times> timestamp \<times> nat \<Rightarrow> bool" where
  "handler_ok jobs now w \<longleftrightarrow> (case w of (i, u, n) \<Rightarrow> now \<le> u + seconds LEASE_SECONDS
     \<and> (case get_job i jobs of None \<Rightarrow> False
        | Some j \<Rightarrow> jb_status j = J_in_progress \<and> jb_claimed_at j = Some u \<and> jb_attempt_count j = n))"

definition open_keys :: "job list \<Rightarrow> dedup list" where
  "open_keys jobs = concat (map (\<lambda>j. case dedup_of j of None \<Rightarrow> [] | Some d \<Rightarrow> [d]) jobs)"

definition job_inv :: "job_sys \<Rightarrow> bool" where
  "job_inv s \<longleftrightarrow> distinct (map jb_id (js_jobs s)) \<and> distinct (open_keys (js_jobs s)) \<and> distinct (map fst (js_live s))
     \<and> list_all job_row_ok (js_jobs s) \<and> list_all (handler_ok (js_jobs s) (js_clock s)) (js_live s)"

definition stage_of :: "job_sys \<Rightarrow> uuid \<Rightarrow> job_stage" where
  "stage_of s i = (case get_job i (js_jobs s) of None \<Rightarrow> Waiting
     | Some j \<Rightarrow> (case jb_status j of J_pending \<Rightarrow> Waiting | J_in_progress \<Rightarrow> Running | _ \<Rightarrow> Ended))"

section \<open>Steps\<close>

lemma handlerE:
  assumes "job_inv s" "(i, u, n) \<in> set (js_live s)"
  obtains j where "get_job i (js_jobs s) = Some j" "jb_status j = J_in_progress" "jb_claimed_at j = Some u"
    "jb_attempt_count j = n" "js_clock s \<le> u + seconds LEASE_SECONDS"
proof -
  have "handler_ok (js_jobs s) (js_clock s) (i, u, n)" using assms unfolding job_inv_def list_all_iff by blast
  then show thesis using that by (cases "get_job i (js_jobs s)") (simp_all add: handler_ok_def)
qed

lemma get_job_id: "get_job i jobs = Some j \<Longrightarrow> jb_id j = i \<and> j \<in> set jobs"
  unfolding get_job_def by (rule job_rows.get_key)

lemma get_job_member: "distinct (map jb_id jobs) \<Longrightarrow> j \<in> set jobs \<Longrightarrow> get_job (jb_id j) jobs = Some j"
  unfolding get_job_def by (rule find_row_member)

lemma get_job_upd:
  "(\<And>j. jb_id (f j) = jb_id j) \<Longrightarrow>
     get_job k (upd_row jb_id i f jobs) = (if k = i then map_option f (get_job k jobs) else get_job k jobs)"
  unfolding get_job_def by (rule job_rows.get_upd)

lemma not_handled:
  assumes "job_inv s" "get_job i (js_jobs s) = Some j" "job_due (js_clock s) j"
  shows "i \<notin> fst ` set (js_live s)"
proof
  assume "i \<in> fst ` set (js_live s)"
  then obtain u n where "(i, u, n) \<in> set (js_live s)" by auto
  then obtain x where "get_job i (js_jobs s) = Some x" "jb_status x = J_in_progress" "jb_claimed_at x = Some u"
    "js_clock s \<le> u + seconds LEASE_SECONDS" by (rule handlerE [OF assms(1)])
  then show False using assms(2,3) by (auto simp: job_due_def)
qed

text \<open>A claim or an ending changes one row, keeps its key or gives it up, and leaves the other workers alone.\<close>

definition key_list :: "job \<Rightarrow> dedup list" where
  "key_list j = (case dedup_of j of None \<Rightarrow> [] | Some d \<Rightarrow> [d])"

lemma open_keys_simps [simp]:
  "open_keys [] = []" "open_keys (j # jobs) = key_list j @ open_keys jobs"
  "open_keys (xs @ ys) = open_keys xs @ open_keys ys"
  by (simp_all add: open_keys_def key_list_def)

lemma key_list_upd: "dedup_of x = dedup_of j \<or> dedup_of x = None \<Longrightarrow> key_list x = key_list j \<or> key_list x = []"
  by (auto simp: key_list_def)

lemma open_keys_upd:
  assumes "\<And>j. j \<in> set jobs \<Longrightarrow> key_list (f j) = key_list j \<or> key_list (f j) = []" and "distinct (open_keys jobs)"
  shows "distinct (open_keys (upd_row jb_id i f jobs)) \<and> set (open_keys (upd_row jb_id i f jobs)) \<subseteq> set (open_keys jobs)"
  using assms
proof (induction jobs)
  case (Cons j jobs)
  have ih: "distinct (open_keys (upd_row jb_id i f jobs))" "set (open_keys (upd_row jb_id i f jobs)) \<subseteq> set (open_keys jobs)"
    using Cons by simp_all
  define ks where "ks = (if jb_id j = i then key_list (f j) else key_list j)"
  have ks: "ks = key_list j \<or> ks = []" using Cons.prems(1) [of j] by (simp add: ks_def)
  have "open_keys (upd_row jb_id i f (j # jobs)) = ks @ open_keys (upd_row jb_id i f jobs)" by (simp add: upd_row_def ks_def)
  moreover have "distinct (key_list j)" "set (key_list j) \<inter> set (open_keys jobs) = {}" using Cons.prems(2) by simp_all
  ultimately show ?case using ih ks by auto
qed (simp add: upd_row_def)

lemma job_upd_inv:
  assumes "job_inv s" "get_job i (js_jobs s) = Some j" "\<And>x. jb_id (f x) = jb_id x" "job_row_ok (f j)"
    and "dedup_of (f j) = dedup_of j \<or> dedup_of (f j) = None"
    and "live' = filter (\<lambda>w. fst w \<noteq> i) (js_live s) \<or> (\<exists>n. live' = (i, js_clock s, n) # filter (\<lambda>w. fst w \<noteq> i) (js_live s)
           \<and> handler_ok (upd_row jb_id i f (js_jobs s)) (js_clock s) (i, js_clock s, n))"
  shows "job_inv (s\<lparr>js_jobs := upd_row jb_id i f (js_jobs s), js_live := live'\<rparr>)"
proof -
  define g where "g = (\<lambda>x. if jb_id x = i then f j else x)"
  have d: "distinct (map jb_id (js_jobs s))" "distinct (open_keys (js_jobs s))" "distinct (map fst (js_live s))"
    "list_all job_row_ok (js_jobs s)" using assms(1) by (simp_all add: job_inv_def)
  have j: "jb_id j = i" "j \<in> set (js_jobs s)" using get_job_id [OF assms(2)] by simp_all
  have only: "x = j" if "x \<in> set (js_jobs s)" "jb_id x = i" for x
    using get_job_member [OF d(1) that(1)] that(2) assms(2) by simp
  have same: "upd_row jb_id i f (js_jobs s) = upd_row jb_id i (\<lambda>_. f j) (js_jobs s)"
    unfolding upd_row_def using only by (intro map_cong) auto
  have upd: "upd_row jb_id i f (js_jobs s) = upd_row jb_id i g (js_jobs s)"
    unfolding upd_row_def g_def using only by (intro map_cong) auto
  have g: "jb_id (g x) = jb_id x" for x using assms(3) j(1) by (simp add: g_def)
  have keys: "distinct (open_keys (upd_row jb_id i f (js_jobs s)))"
    unfolding upd by (rule conjunct1 [OF open_keys_upd [OF _ d(2)]]) (use only key_list_upd [OF assms(5)] in \<open>auto simp: g_def\<close>)
  have rows: "list_all job_row_ok (upd_row jb_id i f (js_jobs s))"
    unfolding same using d(4) assms(4) by (auto simp: list_all_iff upd_row_def)
  have old: "list_all (handler_ok (upd_row jb_id i f (js_jobs s)) (js_clock s)) (filter (\<lambda>w. fst w \<noteq> i) (js_live s))"
    using assms(1) by (auto simp: job_inv_def list_all_iff handler_ok_def get_job_upd assms(3))
  have "distinct (map jb_id (upd_row jb_id i f (js_jobs s)))" using d(1) by (simp add: job_rows.keys_upd assms(3))
  moreover have "distinct (map fst (filter (\<lambda>w. fst w \<noteq> i) (js_live s)))" using d(3) by (rule distinct_map_filter)
  moreover have "i \<notin> fst ` set (filter (\<lambda>w. fst w \<noteq> i) (js_live s))" by auto
  ultimately show ?thesis using assms(6) keys rows old by (auto simp: job_inv_def)
qed

section \<open>The refinement\<close>

definition job_step_ok :: "job_label \<Rightarrow> job_sys \<Rightarrow> job_sys \<Rightarrow> bool" where
  "job_step_ok l s s' \<longleftrightarrow> job_inv s' \<and> (\<forall>i. stage_step i l (stage_of s i) (stage_of s' i))"

lemma stage_upd:
  assumes "\<And>x. jb_id (f x) = jb_id x"
  shows "stage_of (s\<lparr>js_jobs := upd_row jb_id i f (js_jobs s), js_live := ws\<rparr>) k =
    (if k = i then (case get_job i (js_jobs s) of None \<Rightarrow> Waiting
        | Some j \<Rightarrow> (case jb_status (f j) of J_pending \<Rightarrow> Waiting | J_in_progress \<Rightarrow> Running | _ \<Rightarrow> Ended))
     else stage_of s k)"
  by (simp add: stage_of_def get_job_upd assms split: option.split)

lemma job_row_okD: "job_inv s \<Longrightarrow> get_job i (js_jobs s) = Some j \<Longrightarrow> job_row_ok j"
  using get_job_id unfolding job_inv_def list_all_iff by blast

lemma dedup_claimed: "job_open j \<Longrightarrow> dedup_of (claimed_job now j) = dedup_of j"
  by (simp add: dedup_of_def claimed_job_def job_open_def split: option.split)

lemma dedup_outcome: "job_open j \<Longrightarrow> dedup_of (job_outcome a n t j) = dedup_of j \<or> dedup_of (job_outcome a n t j) = None"
  by (cases a) (auto simp: dedup_of_def job_open_def split: option.split)

lemma ok_job_claim:
  assumes "job_inv s" "claim_next (js_clock s) remaining skipped (js_jobs s) = (Some j, sk, jobs')"
  shows "job_step_ok (Begin (jb_id j)) s
    (s\<lparr>js_jobs := jobs', js_live := (jb_id j, js_clock s, jb_attempt_count j) # js_live s\<rparr>)"
proof -
  obtain j0 where j0: "j0 \<in> set (js_jobs s)" "job_due (js_clock s) j0" "j = claimed_job (js_clock s) j0"
      "jobs' = upd_row jb_id (jb_id j0) (claimed_job (js_clock s)) (js_jobs s)"
    by (rule claim_next_Some [OF assms(2)])
  have g: "get_job (jb_id j0) (js_jobs s) = Some j0" using get_job_member j0(1) assms(1) by (simp add: job_inv_def)
  have nl: "jb_id j0 \<notin> fst ` set (js_live s)" by (rule not_handled [OF assms(1) g j0(2)])
  then have live: "js_live s = filter (\<lambda>w. fst w \<noteq> jb_id j0) (js_live s)" by (intro filter_True [symmetric]) (metis image_eqI)
  have o: "job_open j0" by (rule job_due_open [OF j0(2)])
  have r: "job_row_ok (claimed_job (js_clock s) j0)"
    using job_row_okD [OF assms(1) g] o by (auto simp: job_row_ok_def claimed_job_def job_open_def)
  have h: "handler_ok jobs' (js_clock s) (jb_id j0, js_clock s, jb_attempt_count j)"
    unfolding j0(3,4) by (simp add: handler_ok_def get_job_upd g) (simp add: claimed_job_def LEASE_SECONDS_def seconds_def)
  have "job_inv (s\<lparr>js_jobs := upd_row jb_id (jb_id j0) (claimed_job (js_clock s)) (js_jobs s),
      js_live := (jb_id j0, js_clock s, jb_attempt_count j) # js_live s\<rparr>)"
    by (rule job_upd_inv [where f = "claimed_job (js_clock s)", OF assms(1) g _ r]) (use dedup_claimed [OF o] live h j0(4) in auto)
  moreover have "stage_step k (Begin (jb_id j0)) (stage_of s k)
      (stage_of (s\<lparr>js_jobs := upd_row jb_id (jb_id j0) (claimed_job (js_clock s)) (js_jobs s), js_live := ws\<rparr>) k)" for k ws
    unfolding stage_upd [of "claimed_job (js_clock s)", OF job_id_updates(1)]
    using o g by (auto simp: claimed_job_def job_open_def stage_of_def)
  ultimately show ?thesis unfolding job_step_ok_def using j0(3,4) by simp
qed

lemma ok_job_finish:
  assumes "job_inv s" "(i, u, n) \<in> set (js_live s)" "finish_job i (job_outcome a n (js_clock s)) (js_jobs s) = Inr jobs'"
  shows "job_step_ok (end_label a n i) s (s\<lparr>js_jobs := jobs', js_live := filter (\<lambda>w. fst w \<noteq> i) (js_live s)\<rparr>)"
proof -
  obtain j where j: "get_job i (js_jobs s) = Some j" "jb_status j = J_in_progress" "jb_attempt_count j = n"
    by (rule handlerE [OF assms(1,2)])
  have jobs': "jobs' = upd_row jb_id i (job_outcome a n (js_clock s)) (js_jobs s)"
    using assms(3) by (simp add: finish_job_def split: list.splits)
  have o: "job_open j" using j(2) by (simp add: job_open_def)
  have r: "job_row_ok (job_outcome a n (js_clock s) j)"
    using job_row_okD [OF assms(1) j(1)] j(2,3)
    by (cases a) (auto simp: job_row_ok_def job_open_def MAX_ATTEMPTS_def)
  have "job_inv (s\<lparr>js_jobs := jobs', js_live := filter (\<lambda>w. fst w \<noteq> i) (js_live s)\<rparr>)"
    unfolding jobs' by (rule job_upd_inv [where f = "job_outcome a n (js_clock s)", OF assms(1) j(1) _ r]) (use dedup_outcome [OF o] in auto)
  moreover have "stage_step k (end_label a n i) (stage_of s k) (stage_of (s\<lparr>js_jobs := jobs', js_live := ws\<rparr>) k)" for k ws
    unfolding jobs' stage_upd [of "job_outcome a n (js_clock s)", OF job_id_updates(2)]
    using j by (cases a) (auto simp: end_label_def stage_of_def)
  ultimately show ?thesis unfolding job_step_ok_def by blast
qed

lemma ok_job_enqueue:
  assumes "job_inv s" "enqueue_background_job org kind member payload key fresh (js_clock s) (js_jobs s) = Inr (j, jobs')"
    and "find_row jb_id fresh (js_jobs s) = None"
  shows "job_step_ok Quiet s (s\<lparr>js_jobs := jobs'\<rparr>)"
proof (cases "jobs' = js_jobs s")
  case True
  then show ?thesis using assms(1) by (simp add: job_step_ok_def)
next
  case False
  define x where "x = new_job fresh org kind member payload key (js_clock s)"
  have jobs': "jobs' = js_jobs s @ [x]" and free: "case key of None \<Rightarrow> True
      | Some d \<Rightarrow> filter (\<lambda>y. dedup_of y = Some (org, kind, member, d)) (js_jobs s) = []"
    using assms(2) False by (auto simp: enqueue_background_job_def Let_def x_def scalar_one_or_none_None
        split: option.splits sum.splits if_splits)
  have new: "fresh \<notin> set (map jb_id (js_jobs s))" using assms(3) by (auto simp: find_row_None)
  have g: "get_job k jobs' = (case get_job k (js_jobs s) of None \<Rightarrow> if k = fresh then Some x else None | Some y \<Rightarrow> Some y)" for k
    by (simp add: jobs' get_job_def find_row_def find_append x_def new_job_def split: option.split)
  have kx: "key_list x = (case key of None \<Rightarrow> [] | Some d \<Rightarrow> [(org, kind, member, d)])"
    by (simp add: key_list_def x_def new_job_def dedup_of_def job_open_def split: option.split)
  have nk: "set (key_list x) \<inter> set (open_keys (js_jobs s)) = {}" "distinct (key_list x)"
    using free by (auto simp: kx open_keys_def filter_empty_conv split: option.splits)
  have "handler_ok jobs' (js_clock s) w" if "handler_ok (js_jobs s) (js_clock s) w" for w
    using that by (cases w) (auto simp: handler_ok_def g split: option.splits)
  then have "job_inv (s\<lparr>js_jobs := jobs'\<rparr>)" using assms(1) new nk
    by (auto simp: job_inv_def jobs' list_all_iff x_def new_job_def job_row_ok_def job_open_def MAX_ATTEMPTS_def)
  moreover have "stage_of (s\<lparr>js_jobs := jobs'\<rparr>) k = stage_of s k" for k
    by (simp add: stage_of_def g x_def new_job_def split: option.split)
  ultimately show ?thesis by (simp add: job_step_ok_def)
qed

lemma ok_job_other:
  assumes "job_inv s" "list_all (handler_ok (js_jobs s) t) ws" "distinct (map fst ws)"
  shows "job_step_ok Quiet s (s\<lparr>js_clock := t, js_live := ws\<rparr>)"
  using assms by (simp add: job_step_ok_def job_inv_def stage_of_def)

lemma job_step_preserves:
  assumes "job_step l s s'" "job_inv s"
  shows "job_step_ok l s s'"
  using assms
proof (cases rule: job_step.cases)
  case (job_clock t)
  have "handler_ok (js_jobs s) t w" if "handler_ok (js_jobs s) (js_clock s) w" "w \<in> set (js_live s)" for w
    using that job_clock(4) by (cases w) (auto simp: handler_ok_def)
  then show ?thesis using ok_job_other [OF assms(2), of t "js_live s"] assms(2) job_clock
    by (simp add: job_inv_def list_all_iff)
next
  case (job_crash i u n)
  have "list_all (handler_ok (js_jobs s) (js_clock s)) (filter (\<lambda>w. fst w \<noteq> i) (js_live s))"
    using assms(2) by (simp add: job_inv_def list_all_iff)
  then show ?thesis using ok_job_other [OF assms(2), of "js_clock s" "filter (\<lambda>w. fst w \<noteq> i) (js_live s)"] assms(2) job_crash
    by (simp add: job_inv_def distinct_map_filter)
qed (use assms(2) ok_job_claim ok_job_finish ok_job_enqueue in simp_all)

interpretation job_queue: simulation job_step job_inv stage_of "\<lambda>l x y. \<forall>i. stage_step i l (x i) (y i)"
  by unfold_locales (use job_step_preserves in \<open>simp_all add: job_step_ok_def\<close>)

lemma stage_run_component: "lab_run (\<lambda>l x y. \<forall>i. stage_step i l (x i) (y i)) x ls y \<Longrightarrow> lab_run (stage_step i) (x i) ls (y i)"
  by (induction rule: lab_run.induct) (blast intro: lab_run.intros)+

end
