(* ===== verification/Background_Properties.thy ===== *)
theory Background_Properties
  imports Background_Machine
begin

text \<open>The properties of the background jobs: one open job per request, one ending per job, bounded ticks, and the unbounded crash loop.\<close>

section \<open>An example queue\<close>

definition job0 :: job where
  "job0 = new_job ''j0'' ''org'' ''retro_synthesis'' ''m'' JNull (Some ''k'') 0"

definition jsys0 :: job_sys where "jsys0 = \<lparr>js_jobs = [], js_clock = 0, js_live = []\<rparr>"

definition jsys1 :: job_sys where "jsys1 = \<lparr>js_jobs = [job0], js_clock = 0, js_live = []\<rparr>"

definition jsys2 :: job_sys where
  "jsys2 = \<lparr>js_jobs = [claimed_job 0 job0], js_clock = 0, js_live = [(''j0'', 0, 1)]\<rparr>"

definition jsys3 :: job_sys where
  "jsys3 = \<lparr>js_jobs = [job_outcome (Job_result JNull) 1 0 (claimed_job 0 job0)], js_clock = 0, js_live = []\<rparr>"

lemma job_run_example: "lab_run job_step jsys0 [Quiet, Begin ''j0'', End ''j0''] jsys3"
proof (rule lab_run_Cons)
  have "enqueue_background_job ''org'' ''retro_synthesis'' ''m'' JNull (Some ''k'') ''j0'' (js_clock jsys0) (js_jobs jsys0)
      = Inr (job0, [job0])" "find_row jb_id ''j0'' (js_jobs jsys0) = None" by code_simp+
  from job_step.job_enqueue [OF this] show "job_step Quiet jsys0 jsys1" by (simp add: jsys0_def jsys1_def)
  show "lab_run job_step jsys1 [Begin ''j0'', End ''j0''] jsys3"
  proof (rule lab_run_Cons)
    have "claim_next (js_clock jsys1) 100 [] (js_jobs jsys1) = (Some (claimed_job 0 job0), [], [claimed_job 0 job0])" by code_simp
    from job_step.job_claim [OF this] show "job_step (Begin ''j0'') jsys1 jsys2"
      by (simp add: jsys1_def jsys2_def) (simp add: job0_def new_job_def claimed_job_def)
    show "lab_run job_step jsys2 [End ''j0''] jsys3"
    proof (rule lab_run_Cons)
      have "finish_job ''j0'' (job_outcome (Job_result JNull) 1 (js_clock jsys2)) (js_jobs jsys2)
          = Inr [job_outcome (Job_result JNull) 1 0 (claimed_job 0 job0)]" by code_simp
      moreover have "(''j0'', 0, 1) \<in> set (js_live jsys2)" by (simp add: jsys2_def)
      ultimately show "job_step (End ''j0'') jsys2 jsys3"
        using job_step.job_finish [of "''j0''" 0 1 jsys2 "Job_result JNull"]
        by (simp add: end_label_def) (simp add: jsys2_def jsys3_def)
      show "lab_run job_step jsys3 [] jsys3" by (rule lab_run_Nil)
    qed
  qed
qed

lemma job_inv_jsys0: "job_inv jsys0"
  by (simp add: job_inv_def jsys0_def)

section \<open>The queue\<close>

lemma open_key_member: "j \<in> set jobs \<Longrightarrow> dedup_of j = Some d \<Longrightarrow> d \<in> set (open_keys jobs)"
proof (induction jobs)
  case (Cons x jobs)
  then show ?case by (cases "j = x") (simp_all add: key_list_def)
qed simp

lemma open_key_unique:
  "distinct (open_keys jobs) \<Longrightarrow> length (filter (\<lambda>j. dedup_of j = Some d) jobs) \<le> 1"
proof (induction jobs)
  case (Cons j jobs)
  show ?case
  proof (cases "dedup_of j = Some d")
    case True
    then have "d \<notin> set (open_keys jobs)" using Cons.prems by (simp add: key_list_def)
    then have "filter (\<lambda>j. dedup_of j = Some d) jobs = []"
      unfolding filter_empty_conv using open_key_member by blast
    then show ?thesis by simp
  qed (use Cons in simp)
qed simp

text \<open>
  Asking twice starts one job. In every reachable state of the queue, whatever workers die, at most one
  open job carries a deduplication key of a member; enqueuing a known kind then never fails, and with the
  key of an open job it answers that job and adds none. Rows stay consistent: a job has a result exactly
  when it is completed and a finishing time exactly when it is no longer open.\<close>

lemma open_jobs_unique:
  assumes "job_inv s" "lab_run job_step s ls s'"
  shows "distinct (map jb_id (js_jobs s'))
    \<and> length (filter (\<lambda>j. dedup_of j = Some (org, kind, member, d)) (js_jobs s')) \<le> 1
    \<and> list_all job_row_ok (js_jobs s')
    \<and> (kind \<in> fst ` set HANDLERS \<longrightarrow>
         (\<exists>j jobs'. enqueue_background_job org kind member payload (Some d) fresh now (js_jobs s') = Inr (j, jobs')
            \<and> dedup_of j = Some (org, kind, member, d)
            \<and> jobs' = (if list_ex (\<lambda>x. dedup_of x = Some (org, kind, member, d)) (js_jobs s') then js_jobs s' else js_jobs s' @ [j])))"
proof -
  have inv: "job_inv s'" using job_queue.run_simulates [OF assms(2,1)] by blast
  then have u: "length (filter (\<lambda>j. dedup_of j = Some (org, kind, member, d)) (js_jobs s')) \<le> 1"
    by (intro open_key_unique) (simp add: job_inv_def)
  have "\<exists>j jobs'. enqueue_background_job org kind member payload (Some d) fresh now (js_jobs s') = Inr (j, jobs')
      \<and> dedup_of j = Some (org, kind, member, d)
      \<and> jobs' = (if list_ex (\<lambda>x. dedup_of x = Some (org, kind, member, d)) (js_jobs s') then js_jobs s' else js_jobs s' @ [j])"
    if k: "kind \<in> fst ` set HANDLERS"
  proof (cases "filter (\<lambda>x. dedup_of x = Some (org, kind, member, d)) (js_jobs s')")
    case Nil
    then have "\<not> list_ex (\<lambda>x. dedup_of x = Some (org, kind, member, d)) (js_jobs s')"
      by (auto simp: list_ex_iff filter_empty_conv)
    moreover have "dedup_of (new_job fresh org kind member payload (Some d) now) = Some (org, kind, member, d)"
      by (simp add: dedup_of_def new_job_def job_open_def)
    moreover have "map_of HANDLERS kind \<noteq> None" using k by (simp add: map_of_eq_None_iff)
    ultimately show ?thesis using Nil by (auto simp: enqueue_background_job_def Let_def)
  next
    case (Cons x xs)
    then have "xs = []" using u by simp
    then have x: "filter (\<lambda>x. dedup_of x = Some (org, kind, member, d)) (js_jobs s') = [x]" using Cons by simp
    then have m: "x \<in> set (js_jobs s')" "dedup_of x = Some (org, kind, member, d)"
      by (metis (mono_tags, lifting) filter_eq_Cons_iff in_set_conv_decomp)+
    then have "list_ex (\<lambda>x. dedup_of x = Some (org, kind, member, d)) (js_jobs s')" by (auto simp: list_ex_iff)
    moreover have "map_of HANDLERS kind \<noteq> None" using k by (simp add: map_of_eq_None_iff)
    ultimately show ?thesis using x m(2) by (auto simp: enqueue_background_job_def Let_def)
  qed
  then show ?thesis using inv u by (simp add: job_inv_def)
qed

lemma open_jobs_unique_witness:
  "\<exists>j. enqueue_background_job ''org'' ''retro_synthesis'' ''m'' JNull (Some ''k'') ''j1'' 9 (js_jobs jsys3) = Inr (j, js_jobs jsys3 @ [j])"
proof -
  have "''retro_synthesis'' \<in> fst ` set HANDLERS" by code_simp
  moreover have "\<not> list_ex (\<lambda>x. dedup_of x = Some (''org'', ''retro_synthesis'', ''m'', ''k'')) (js_jobs jsys3)" by code_simp
  ultimately show ?thesis
    using open_jobs_unique [OF job_inv_jsys0 job_run_example, of "''org''" "''retro_synthesis''" "''m''" "''k''" JNull "''j1''" 9]
    by auto
qed

lemma ended_row_stays:
  assumes "job_step l s s'" "job_inv s" "stage_of s i = Ended"
  shows "get_job i (js_jobs s') = get_job i (js_jobs s)"
proof -
  obtain j where j: "get_job i (js_jobs s) = Some j" "\<not> job_open j"
    using assms(3) by (cases "get_job i (js_jobs s)") (auto simp: stage_of_def job_open_def split: job_status.splits)
  show ?thesis using assms(1,2)
  proof (cases rule: job_step.cases)
    case (job_enqueue org kind member payload key fresh x jobs')
    then have "jobs' = js_jobs s \<or> (\<exists>x. jobs' = js_jobs s @ [x])"
      by (auto simp: enqueue_background_job_def Let_def split: option.splits sum.splits if_splits)
    then show ?thesis using job_enqueue j(1) by (auto simp: get_job_def find_row_def find_append)
  next
    case (job_claim remaining skipped x sk jobs')
    obtain j0 where j0: "j0 \<in> set (js_jobs s)" "job_due (js_clock s) j0"
        "jobs' = upd_row jb_id (jb_id j0) (claimed_job (js_clock s)) (js_jobs s)"
      by (rule claim_next_Some [OF job_claim(3)])
    have "get_job (jb_id j0) (js_jobs s) = Some j0" using get_job_member j0(1) assms(2) by (simp add: job_inv_def)
    then have "i \<noteq> jb_id j0" using j job_due_open [OF j0(2)] by auto
    then show ?thesis using job_claim j0(3) by (simp add: get_job_upd)
  next
    case (job_finish k u n a jobs')
    obtain x where x: "get_job k (js_jobs s) = Some x" "jb_status x = J_in_progress" by (rule handlerE [OF assms(2) job_finish(3)])
    have "jobs' = upd_row jb_id k (job_outcome a n (js_clock s)) (js_jobs s)"
      using job_finish(4) by (simp add: finish_job_def split: list.splits)
    moreover have "i \<noteq> k" using x j by (auto simp: job_open_def)
    ultimately show ?thesis using job_finish by (simp add: get_job_upd)
  qed simp_all
qed

lemma ended_row_stays_run:
  assumes "lab_run job_step s ls s'" "job_inv s" "stage_of s i = Ended"
  shows "get_job i (js_jobs s') = get_job i (js_jobs s)"
  using assms
proof (induction rule: lab_run.induct)
  case (lab_run_Cons l s s1 ls s2)
  have ok: "job_step_ok l s s1" by (rule job_step_preserves [OF lab_run_Cons.hyps(1) lab_run_Cons.prems(1)])
  have row: "get_job i (js_jobs s1) = get_job i (js_jobs s)" by (rule ended_row_stays [OF lab_run_Cons.hyps(1) lab_run_Cons.prems])
  then have "stage_of s1 i = Ended" using lab_run_Cons.prems(2) by (simp add: stage_of_def)
  then show ?case using lab_run_Cons.IH ok row by (simp add: job_step_ok_def)
qed simp

text \<open>
  A job ends once. Once a worker has committed the end of a job, no worker begins it again, puts it back
  or ends it a second time, and its row, with the result or error it was ended with, never changes: a
  handler that is run again after a death commits its effects at most once.\<close>

lemma job_ends_once:
  assumes "job_inv s" "lab_run job_step s (xs @ [End i]) s1" "lab_run job_step s1 ys s2"
  shows "Begin i \<notin> set ys \<and> Put_back i \<notin> set ys \<and> End i \<notin> set ys
    \<and> (\<exists>j. get_job i (js_jobs s1) = Some j \<and> (jb_status j = J_completed \<or> jb_status j = J_failed)
         \<and> get_job i (js_jobs s2) = Some j)"
proof -
  have run: "lab_run (stage_step i) (stage_of s i) (xs @ [End i]) (stage_of s1 i)" and inv: "job_inv s1"
    using job_queue.run_simulates [OF assms(2,1)] stage_run_component by blast+
  have ended: "stage_of s1 i = Ended" using run by (auto simp: lab_run_append elim!: lab_run_ConsE lab_run_NilE)
  have "lab_run (stage_step i) (stage_of s1 i) ys (stage_of s2 i)"
    using job_queue.run_simulates [OF assms(3) inv] stage_run_component by blast
  then have "Begin i \<notin> set ys \<and> Put_back i \<notin> set ys \<and> End i \<notin> set ys" using ended_stays ended by blast
  moreover obtain j where "get_job i (js_jobs s1) = Some j" "jb_status j = J_completed \<or> jb_status j = J_failed"
    using ended by (cases "get_job i (js_jobs s1)") (auto simp: stage_of_def split: job_status.splits)
  ultimately show ?thesis using ended_row_stays_run [OF assms(3) inv ended] by auto
qed

lemma job_ends_once_witness:
  "\<exists>j. get_job ''j0'' (js_jobs jsys3) = Some j \<and> (jb_status j = J_completed \<or> jb_status j = J_failed)"
  using job_ends_once [OF job_inv_jsys0, of "[Quiet, Begin ''j0'']" "''j0''" jsys3 "[]" jsys3] job_run_example
  by (auto intro: lab_run_Nil)

section \<open>A tick\<close>

definition ticked :: "(string \<Rightarrow> nat) \<Rightarrow> nat" where
  "ticked c = c ''completed'' + c ''failed'' + c ''retry''"

lemma ticked_simps [simp]:
  "ticked (\<lambda>_. 0) = 0" "ticked (c(''deferred'' := n)) = ticked c" "ticked (bump (outcome_key a n) c) = Suc (ticked c)"
  by (simp_all add: ticked_def) (cases a; simp add: bump_def)

definition unknown_skipped :: "uuid list \<Rightarrow> job list \<Rightarrow> bool" where
  "unknown_skipped skipped jobs \<longleftrightarrow> list_all (\<lambda>j. jb_id j \<in> set skipped \<longrightarrow> map_of HANDLERS (jb_kind j) = None) jobs"

lemma unknown_skipped_upd:
  assumes "unknown_skipped skipped jobs" "\<And>j. jb_id (f j) = jb_id j" "\<And>j. jb_kind (f j) = jb_kind j"
  shows "unknown_skipped skipped (upd_row jb_id i f jobs)"
  using assms by (auto simp: unknown_skipped_def upd_row_def list_all_iff)

lemma job_kind_updates [simp]:
  "jb_kind (claimed_job now j) = jb_kind j" "jb_kind (job_outcome a n now j) = jb_kind j"
  by (simp add: claimed_job_def) (cases a; simp)

lemma filter_key_single: "distinct (map key rs) \<Longrightarrow> r \<in> set rs \<Longrightarrow> filter (\<lambda>x. key x = key r) rs = [r]"
proof (induction rs)
  case (Cons a rs)
  show ?case
  proof (cases "a = r")
    case True
    then have "\<forall>x \<in> set rs. key x \<noteq> key r" using Cons.prems(1) by (metis distinct.simps(2) image_eqI list.map(2) list.set_map)
    then have "filter (\<lambda>x. key x = key r) rs = []" by (simp add: filter_empty_conv)
    then show ?thesis using True by simp
  next
    case False
    then have r: "r \<in> set rs" using Cons.prems(2) by simp
    then have "key a \<noteq> key r" using Cons.prems(1) by (metis distinct.simps(2) image_eqI list.map(2) list.set_map)
    then show ?thesis using Cons r by simp
  qed
qed simp

lemma finish_claimed:
  assumes "distinct (map jb_id jobs)" "claim_next now remaining skipped jobs = (Some j, sk, js)"
  shows "finish_job (jb_id j) (job_outcome a n t) js = Inr (upd_row jb_id (jb_id j) (job_outcome a n t) js)"
    and "map jb_id (upd_row jb_id (jb_id j) (job_outcome a n t) js) = map jb_id jobs"
proof -
  obtain j0 where j0: "j0 \<in> set jobs" "j = claimed_job now j0" "js = upd_row jb_id (jb_id j0) (claimed_job now) jobs"
    by (rule claim_next_Some [OF assms(2)])
  have f: "filter (\<lambda>r. jb_id r = jb_id j0) jobs = [j0]"
    by (rule filter_key_single [OF assms(1) j0(1)])
  have "filter (\<lambda>r. jb_id r = jb_id j0) js = [claimed_job now j0]" unfolding j0(3) by (simp add: filter_upd_row f)
  then show "finish_job (jb_id j) (job_outcome a n t) js = Inr (upd_row jb_id (jb_id j) (job_outcome a n t) js)"
    by (simp add: finish_job_def j0(2))
  show "map jb_id (upd_row jb_id (jb_id j) (job_outcome a n t) js) = map jb_id jobs"
    unfolding j0(3) by (simp add: job_rows.keys_upd)
qed

lemma claim_next_skips:
  assumes "distinct (map jb_id jobs)" and "claim_next now remaining skipped jobs = (r, sk, js)" "unknown_skipped skipped jobs" "\<forall>w \<in> snd ` set HANDLERS. w \<le> remaining"
  shows "unknown_skipped sk js \<and> (r = None \<longrightarrow> js = jobs \<and> (\<forall>j \<in> set js. job_due now j \<longrightarrow> map_of HANDLERS (jb_kind j) = None))"
  using assms
proof (induction now remaining skipped jobs rule: claim_next.induct)
  case (1 now remaining skipped jobs)
  show ?case
  proof (cases "oldest_due now skipped jobs")
    case None
    then have "filter (\<lambda>j. job_due now j \<and> jb_id j \<notin> set skipped) jobs = []"
      unfolding oldest_due_def by (rule min_row_None [THEN iffD1])
    then have "\<forall>j \<in> set jobs. job_due now j \<longrightarrow> jb_id j \<in> set skipped" by (simp add: filter_empty_conv)
    moreover have "r = None" "sk = skipped" "js = jobs" using 1(3) None by (simp_all add: claim_next.simps [of now])
    ultimately show ?thesis using 1(4) by (simp add: unknown_skipped_def list_all_iff)
  next
    case (Some j0)
    note j0 = oldest_due_in [OF Some]
    show ?thesis
    proof (cases "map_of HANDLERS (jb_kind j0)")
      case None
      then have "claim_next now remaining (jb_id j0 # skipped) jobs = (r, sk, js)"
        using 1(3) Some by (simp add: claim_next.simps [of now remaining skipped])
      moreover have "unknown_skipped (jb_id j0 # skipped) jobs" 
        unfolding unknown_skipped_def list_all_iff
      proof (intro ballI impI)
        fix x assume x: "x \<in> set jobs" "jb_id x \<in> set (jb_id j0 # skipped)"
        show "map_of HANDLERS (jb_kind x) = None"
        proof (cases "jb_id x = jb_id j0")
          case True
          then have "x = j0" using 1(2) x(1) j0(1) by (metis distinct_map inj_onD)
          then show ?thesis using None by simp
        next
          case False
          then show ?thesis using 1(4) x by (simp add: unknown_skipped_def list_all_iff)
        qed
      qed
      ultimately show ?thesis using 1(1) [OF Some None] 1(2,5) by blast
    next
      case k: (Some worst)
      then have "worst \<le> remaining" using 1(5) map_of_SomeD [OF k] by force
      then have "r = Some (claimed_job now j0)" "sk = skipped" "js = upd_row jb_id (jb_id j0) (claimed_job now) jobs"
        using 1(3) Some k by (simp_all add: claim_next.simps [of now remaining skipped])
      then show ?thesis using unknown_skipped_upd [OF 1(4), of "claimed_job now"] by simp
    qed
  qed
qed

lemma claim_next_same: "claim_next now remaining skipped jobs = (None, sk, js) \<Longrightarrow> js = jobs"
proof (induction now remaining skipped jobs rule: claim_next.induct)
  case (1 now remaining skipped jobs)
  show ?case
  proof (cases "oldest_due now skipped jobs")
    case (Some j0)
    then show ?thesis using 1 by (cases "map_of HANDLERS (jb_kind j0)") (simp_all add: claim_next.simps [of now remaining skipped] split: if_splits)
  qed (use 1(2) in \<open>simp add: claim_next.simps [of now]\<close>)
qed

definition roomy :: "(nat \<Rightarrow> job_round) \<Rightarrow> nat \<Rightarrow> nat \<Rightarrow> bool" where
  "roomy rounds k n \<longleftrightarrow> (\<forall>i \<in> {k..k + n}. VIDEO_CONFIRM_WORST_SECONDS \<le> jr_remaining (rounds i))"

definition none_due :: "timestamp \<Rightarrow> job list \<Rightarrow> bool" where
  "none_due now jobs \<longleftrightarrow> list_all (\<lambda>j. job_due now j \<longrightarrow> map_of HANDLERS (jb_kind j) = None) jobs"

lemma worst_seconds: "w \<in> snd ` set HANDLERS \<Longrightarrow> w \<le> VIDEO_CONFIRM_WORST_SECONDS" "0 < VIDEO_CONFIRM_WORST_SECONDS"
  by (auto simp: HANDLERS_def VIDEO_CONFIRM_WORST_SECONDS_def CONVERT_WORST_SECONDS_def)

lemma process_loop_ends:
  "distinct (map jb_id jobs) \<Longrightarrow> \<exists>counts' jobs'. process_loop rounds k skipped counts jobs = Inr (counts', jobs')
    \<and> ticked counts' + queue_weight jobs' \<le> ticked counts + queue_weight jobs \<and> map jb_id jobs' = map jb_id jobs
    \<and> (roomy rounds k (queue_weight jobs) \<longrightarrow> unknown_skipped skipped jobs \<longrightarrow>
        (\<exists>i \<in> {k..k + queue_weight jobs}. none_due (jr_clock (rounds i)) jobs'))"
proof (induction rounds k skipped counts jobs rule: process_loop.induct)
  case (1 rounds k skipped counts jobs)
  define r where "r = rounds k"
  show ?case
  proof (cases "jr_remaining r \<le> 0")
    case True
    then have "\<not> roomy rounds k (queue_weight jobs)" using worst_seconds(2) by (force simp: roomy_def r_def)
    then show ?thesis using True by (simp add: process_loop.simps [of rounds k] r_def)
  next
    case False
    obtain taken sk js where c: "claim_next (jr_clock r) (jr_remaining r) skipped jobs = (taken, sk, js)" by (rule prod_cases3)
    have room: "\<forall>w \<in> snd ` set HANDLERS. w \<le> jr_remaining r" if "roomy rounds k (queue_weight jobs)"
    proof -
      have "VIDEO_CONFIRM_WORST_SECONDS \<le> jr_remaining r" using that by (simp add: roomy_def r_def)
      then show ?thesis using worst_seconds(1) by force
    qed
    show ?thesis
    proof (cases taken)
      case None
      then have eq: "process_loop rounds k skipped counts jobs = Inr (counts(''deferred'' := length sk), jobs)"
        using False c claim_next_same [of "jr_clock r" "jr_remaining r" skipped jobs sk js]
        by (simp add: process_loop.simps [of rounds k] r_def)
      have "none_due (jr_clock (rounds k)) jobs" if "roomy rounds k (queue_weight jobs)" "unknown_skipped skipped jobs"
        using claim_next_skips [OF 1(2) c that(2) room [OF that(1)]] None by (simp add: none_due_def list_all_iff r_def)
      then show ?thesis unfolding eq by auto
    next
      case (Some j)
      let ?js = "upd_row jb_id (jb_id j) (job_outcome (jr_answer r) (jb_attempt_count j) (jr_finished r)) js"
      let ?counts = "bump (outcome_key (jr_answer r) (jb_attempt_count j)) counts"
      have c': "claim_next (jr_clock r) (jr_remaining r) skipped jobs = (Some j, sk, js)" using c Some by simp
      note fin = finish_claimed [OF 1(2) c', where a = "jr_answer r" and n = "jb_attempt_count j" and t = "jr_finished r"]
      have less: "queue_weight ?js < queue_weight jobs" by (rule claim_finish_weight [OF c' fin(1)])
      have eq: "process_loop rounds k skipped counts jobs = process_loop rounds (k + 1) sk ?counts ?js"
        using False c' fin(1) by (simp add: process_loop.simps [of rounds k] r_def Let_def)
      obtain counts' jobs' where ih: "process_loop rounds (k + 1) sk ?counts ?js = Inr (counts', jobs')"
        "ticked counts' + queue_weight jobs' \<le> ticked ?counts + queue_weight ?js" "map jb_id jobs' = map jb_id ?js"
        "roomy rounds (k + 1) (queue_weight ?js) \<longrightarrow> unknown_skipped sk ?js \<longrightarrow>
          (\<exists>i \<in> {k + 1..k + 1 + queue_weight ?js}. none_due (jr_clock (rounds i)) jobs')"
        using 1(1) [OF r_def False c' [symmetric] refl refl fin(1)] 1(2) fin(2) by auto
      have "\<exists>i \<in> {k..k + queue_weight jobs}. none_due (jr_clock (rounds i)) jobs'"
        if "roomy rounds k (queue_weight jobs)" "unknown_skipped skipped jobs"
      proof -
        have "unknown_skipped sk ?js"
          using claim_next_skips [OF 1(2) c that(2) room [OF that(1)]] unknown_skipped_upd by simp
        moreover have "roomy rounds (k + 1) (queue_weight ?js)" using that(1) less by (simp add: roomy_def)
        ultimately obtain i where "i \<in> {k + 1..k + 1 + queue_weight ?js}" "none_due (jr_clock (rounds i)) jobs'"
          using ih(4) by blast
        then show ?thesis using less by (intro bexI [of _ i]) simp_all
      qed
      then show ?thesis unfolding eq using ih(1-3) less fin(2) by simp
    qed
  qed
qed

text \<open>
  C40: A tick of the worker ends and leaves no job behind. Whatever the handlers answer and however the clock
  runs, a tick over rows with distinct ids returns counts; each open job takes at most the attempts it has
  left. Unless the tick's budget falls below the longest handler, there is a clock reading after which no job of a
  known kind is due any more.\<close>

theorem job_tick_drains:
  assumes "distinct (map jb_id jobs)"
  shows "\<exists>counts jobs'. process_due_background_jobs rounds jobs = Inr (counts, jobs')
    \<and> counts ''completed'' + counts ''failed'' + counts ''retry'' + queue_weight jobs' \<le> queue_weight jobs
    \<and> map jb_id jobs' = map jb_id jobs
    \<and> (if \<exists>k \<le> queue_weight jobs. jr_remaining (rounds k) < VIDEO_CONFIRM_WORST_SECONDS then True
       else \<exists>k \<le> queue_weight jobs. list_all (\<lambda>j. job_due (jr_clock (rounds k)) j \<longrightarrow> map_of HANDLERS (jb_kind j) = None) jobs')"
proof -
  obtain counts jobs' where l: "process_loop rounds 0 [] (\<lambda>_. 0) jobs = Inr (counts, jobs')"
    "ticked counts + queue_weight jobs' \<le> queue_weight jobs" "map jb_id jobs' = map jb_id jobs"
    "roomy rounds 0 (queue_weight jobs) \<longrightarrow> (\<exists>i \<in> {0..queue_weight jobs}. none_due (jr_clock (rounds i)) jobs')"
    using process_loop_ends [OF assms, of rounds 0 "[]" "\<lambda>_. 0"] by (auto simp: unknown_skipped_def list_all_iff)
  moreover have "\<exists>k \<le> queue_weight jobs. none_due (jr_clock (rounds k)) jobs'"
    if "\<not> (\<exists>k \<le> queue_weight jobs. jr_remaining (rounds k) < VIDEO_CONFIRM_WORST_SECONDS)"
  proof -
    have "roomy rounds 0 (queue_weight jobs)" using that by (force simp: roomy_def)
    then show ?thesis using l(4) by auto
  qed
  ultimately show ?thesis unfolding process_due_background_jobs_def ticked_def none_due_def by auto
qed

text \<open>Two jobs, one of them failing twice before it succeeds, drained in one tick of five rounds.\<close>

definition rounds0 :: "nat \<Rightarrow> job_round" where
  "rounds0 k = \<lparr>jr_remaining = 1000, jr_clock = 10 ^ 12 * int k, jr_answer = (if k < 2 then Job_raises ''X'' else Job_result JNull),
     jr_finished = 10 ^ 12 * int k\<rparr>"

theorem job_tick_drains_witness:
  "\<exists>counts jobs'. process_due_background_jobs rounds0 [job0] = Inr (counts, jobs')
    \<and> counts ''completed'' + counts ''failed'' + counts ''retry'' + queue_weight jobs' \<le> 3
    \<and> (\<exists>k \<le> 3. list_all (\<lambda>j. job_due (jr_clock (rounds0 k)) j \<longrightarrow> map_of HANDLERS (jb_kind j) = None) jobs')"
proof -
  have w: "queue_weight [job0] = 3" by code_simp
  have roomy: "(\<exists>k \<le> 3. jr_remaining (rounds0 k) < VIDEO_CONFIRM_WORST_SECONDS) = False"
    by (simp add: rounds0_def VIDEO_CONFIRM_WORST_SECONDS_def)
  have "distinct (map jb_id [job0])" by simp
  from job_tick_drains [OF this, of rounds0, unfolded w roomy if_False] show ?thesis by blast
qed

section \<open>A worker that dies\<close>

lemma claim_alone:
  assumes "job_due now j" "map_of HANDLERS (jb_kind j) = Some worst" "worst \<le> remaining"
  shows "claim_next now remaining [] [j] = (Some (claimed_job now j), [], [claimed_job now j])"
  using assms by (simp add: claim_next.simps [of now] oldest_due_def upd_row_def)

lemma crash_cycle:
  assumes "job_due t j" "map_of HANDLERS (jb_kind j) = Some worst"
  defines "u \<equiv> t + seconds LEASE_SECONDS + 1"
  shows "lab_run job_step \<lparr>js_jobs = [j], js_clock = t, js_live = []\<rparr> [Begin (jb_id j), Quiet, Quiet]
      \<lparr>js_jobs = [claimed_job t j], js_clock = u, js_live = []\<rparr>"
    and "job_due u (claimed_job t j)"
proof -
  have c: "claim_next t worst [] [j] = (Some (claimed_job t j), [], [claimed_job t j])"
    by (rule claim_alone [OF assms(1,2)]) simp
  have "job_step (Begin (jb_id j)) \<lparr>js_jobs = [j], js_clock = t, js_live = []\<rparr>
      \<lparr>js_jobs = [claimed_job t j], js_clock = t, js_live = [(jb_id j, t, jb_attempt_count j + 1)]\<rparr>"
    using job_step.job_claim [of "\<lparr>js_jobs = [j], js_clock = t, js_live = []\<rparr>" worst "[]"] c by (simp add: claimed_job_def)
  moreover have "job_step Quiet \<lparr>js_jobs = [claimed_job t j], js_clock = t, js_live = [(jb_id j, t, jb_attempt_count j + 1)]\<rparr>
      \<lparr>js_jobs = [claimed_job t j], js_clock = t, js_live = []\<rparr>"
    using job_step.job_crash [of "jb_id j" t "jb_attempt_count j + 1"
        "\<lparr>js_jobs = [claimed_job t j], js_clock = t, js_live = [(jb_id j, t, jb_attempt_count j + 1)]\<rparr>"] by simp
  moreover have "job_step Quiet \<lparr>js_jobs = [claimed_job t j], js_clock = t, js_live = []\<rparr>
      \<lparr>js_jobs = [claimed_job t j], js_clock = u, js_live = []\<rparr>"
    using job_step.job_clock [of "\<lparr>js_jobs = [claimed_job t j], js_clock = t, js_live = []\<rparr>" u]
    by (simp add: u_def seconds_def LEASE_SECONDS_def)
  ultimately show "lab_run job_step \<lparr>js_jobs = [j], js_clock = t, js_live = []\<rparr> [Begin (jb_id j), Quiet, Quiet]
      \<lparr>js_jobs = [claimed_job t j], js_clock = u, js_live = []\<rparr>"
    by (blast intro: lab_run.intros)
  show "job_due u (claimed_job t j)" by (simp add: job_due_def claimed_job_def u_def)
qed

text \<open>
  A job whose worker died is never lost. The lease always brings it back: a due job of a known kind
  whose worker dies each time is claimed again after every lease, for every number of attempts, and is
  still open and due afterwards. The attempt bound MAX_ATTEMPTS counts exceptions of the handler only.\<close>

lemma lease_always_reclaims:
  assumes "job_due t j" "map_of HANDLERS (jb_kind j) = Some worst"
  shows "\<exists>ls s' j'. lab_run job_step \<lparr>js_jobs = [j], js_clock = t, js_live = []\<rparr> ls s' \<and> js_jobs s' = [j']
    \<and> jb_attempt_count j' = jb_attempt_count j + n \<and> job_due (js_clock s') j'"
proof -
  have "job_due t j \<Longrightarrow> map_of HANDLERS (jb_kind j) = Some worst \<Longrightarrow>
    \<exists>ls u j'. lab_run job_step \<lparr>js_jobs = [j], js_clock = t, js_live = []\<rparr> ls \<lparr>js_jobs = [j'], js_clock = u, js_live = []\<rparr>
      \<and> jb_attempt_count j' = jb_attempt_count j + n \<and> job_due u j'"
  proof (induction n arbitrary: t j)
    case 0
    then show ?case by (intro exI [of _ "[]"] exI [of _ t] exI [of _ j]) (simp add: lab_run_Nil)
  next
    case (Suc n)
    note step = crash_cycle [OF Suc.prems]
    have "map_of HANDLERS (jb_kind (claimed_job t j)) = Some worst" using Suc.prems(2) by simp
    then obtain ls u j' where r: "lab_run job_step \<lparr>js_jobs = [claimed_job t j], js_clock = t + seconds LEASE_SECONDS + 1, js_live = []\<rparr>
        ls \<lparr>js_jobs = [j'], js_clock = u, js_live = []\<rparr>"
      "jb_attempt_count j' = jb_attempt_count (claimed_job t j) + n" "job_due u j'"
      using Suc.IH [OF step(2)] by blast
    have "jb_attempt_count j' = jb_attempt_count j + Suc n" using r(2) by (simp add: claimed_job_def)
    moreover have "lab_run job_step \<lparr>js_jobs = [j], js_clock = t, js_live = []\<rparr> ([Begin (jb_id j), Quiet, Quiet] @ ls)
        \<lparr>js_jobs = [j'], js_clock = u, js_live = []\<rparr>"
      using step(1) r(1) unfolding lab_run_append by blast
    ultimately show ?case using r(3) by blast
  qed
  then show ?thesis using assms by (metis job_sys.select_convs(1,2))
qed

lemma lease_always_reclaims_witness:
  "\<exists>ls s' j'. lab_run job_step jsys1 ls s' \<and> js_jobs s' = [j'] \<and> jb_attempt_count j' = 50 \<and> job_due (js_clock s') j'"
proof -
  have "job_due 0 job0" "map_of HANDLERS (jb_kind job0) = Some 70" "jb_attempt_count job0 = 0" by code_simp+
  then show ?thesis using lease_always_reclaims [of 0 job0 70 50] by (simp add: jsys1_def)
qed

end
