(* ===== verification/Line_Config.thy ===== *)
theory Line_Config
  imports Verdicts Sha256
begin

text \<open>
  Workflow lines, their configuration: models/workflow_line.py, services/workflow_line_config.py and
  services/workflow_line_seed.py. A configuration is the JSON value of a version; a version is drafted,
  linted, sent to review behind a gate and published, and publishing moves the one active definition of its
  organisation, project and entity type. Texts of lint errors are kept as the rule and the step they name.
\<close>

section \<open>Python on JSON values\<close>

fun hashable :: "json \<Rightarrow> bool" where
  "hashable (JList _) = False"
| "hashable (JObj _) = False"
| "hashable _ = True"

text \<open>\<^verbatim>\<open>for x in v or []\<close>: what a falsy value, a list, a dictionary or a string runs over; a number raises.\<close>

definition iter_or_empty :: "json \<Rightarrow> error + json list" where
  "iter_or_empty v = (if \<not> truthy v then Inr []
     else (case v of
         JList xs \<Rightarrow> Inr xs
       | JObj d \<Rightarrow> Inr (map (\<lambda>kv. JStr (fst kv)) d)
       | JStr s \<Rightarrow> Inr (map (\<lambda>c. JStr [c]) s)
       | _ \<Rightarrow> Inl TypeError))"

definition jget_or :: "string \<Rightarrow> json \<Rightarrow> json \<Rightarrow> json" where
  "jget_or k dflt j = (case j of JObj d \<Rightarrow> (case map_of d k of None \<Rightarrow> dflt | Some v \<Rightarrow> v) | _ \<Rightarrow> dflt)"

definition dict_or_empty :: "json \<Rightarrow> json" where
  \<comment> \<open>\<^verbatim>\<open>x if isinstance(x, dict) else {}\<close>\<close>
  "dict_or_empty j = (if is_obj j then j else JObj [])"

definition res_bind :: "error + 'a \<Rightarrow> ('a \<Rightarrow> error + 'b) \<Rightarrow> error + 'b" where
  "res_bind r f = (case r of Inl e \<Rightarrow> Inl e | Inr a \<Rightarrow> f a)"

fun map_res :: "('a \<Rightarrow> error + 'b) \<Rightarrow> 'a list \<Rightarrow> error + 'b list" where
  "map_res f [] = Inr []"
| "map_res f (x # xs) = res_bind (f x) (\<lambda>y. res_bind (map_res f xs) (\<lambda>ys. Inr (y # ys)))"

lemma res_bind_simps [simp]: "res_bind (Inl e) f = Inl e" "res_bind (Inr a) f = f a"
  by (simp_all add: res_bind_def)

lemma res_bind_Inr: "res_bind r f = Inr b \<longleftrightarrow> (\<exists>a. r = Inr a \<and> f a = Inr b)"
  by (cases r) simp_all

section \<open>The canonical text and its hash\<close>

function digits_of :: "nat \<Rightarrow> string" where
  "digits_of n = (if n < 10 then [char_of (48 + n)] else digits_of (n div 10) @ [char_of (48 + n mod 10)])"
  by pat_completeness auto
termination by (relation "measure id") auto

declare digits_of.simps [simp del]

definition int_text :: "int \<Rightarrow> string" where
  "int_text i = (if i < 0 then CHR ''-'' # digits_of (nat (- i)) else digits_of (nat i))"

definition hex_nibble :: "nat \<Rightarrow> char" where
  "hex_nibble n = (if n < 10 then char_of (48 + n) else char_of (87 + n))"

definition escape_char :: "char \<Rightarrow> string" where
  "escape_char c = (let n = (of_char c :: nat) in
     if n = 34 \<or> n = 92 then [CHR 92, c]
     else if n = 10 then [CHR 92, CHR ''n'']
     else if n = 13 then [CHR 92, CHR ''r'']
     else if n = 9 then [CHR 92, CHR ''t'']
     else if n = 12 then [CHR 92, CHR ''f'']
     else if n = 8 then [CHR 92, CHR ''b'']
     else if n < 32 then [CHR 92, CHR ''u'', CHR ''0'', CHR ''0'', hex_nibble (n div 16), hex_nibble (n mod 16)]
     else [c])"

definition quoted :: "string \<Rightarrow> string" where
  "quoted s = [CHR 34] @ concat (map escape_char s) @ [CHR 34]"

fun joined :: "string list \<Rightarrow> string" where
  "joined [] = []"
| "joined [t] = t"
| "joined (t # ts) = t @ [CHR '',''] @ joined ts"

text \<open>\<^verbatim>\<open>json.dumps(v, sort_keys=True, separators=(",", ":"), ensure_ascii=False)\<close>, with \<^verbatim>\<open>repr\<close> of a float as a parameter.\<close>

fun json_text :: "(real \<Rightarrow> string) \<Rightarrow> json \<Rightarrow> string" where
  "json_text rp JNull = ''null''"
| "json_text rp (JBool b) = (if b then ''true'' else ''false'')"
| "json_text rp (JInt i) = int_text i"
| "json_text rp (JReal r) = rp r"
| "json_text rp (JStr s) = quoted s"
| "json_text rp (JList xs) = ''['' @ joined (map (json_text rp) xs) @ '']''"
| "json_text rp (JObj d) = ''{'' @ joined (map (\<lambda>(k, t). quoted k @ '':'' @ t)
     (sort_key fst (map (\<lambda>(k, v). (k, json_text rp v)) d))) @ ''}''"

definition compute_config_hash :: "(real \<Rightarrow> string) \<Rightarrow> json \<Rightarrow> string" where
  "compute_config_hash rp config = sha256_hex (json_text rp config)"

section \<open>Lint\<close>

definition WORKFLOW_EVENT_ALLOWLIST :: "string list" where
  "WORKFLOW_EVENT_ALLOWLIST = [''dispatched'', ''story_assigned'', ''conversation.message_created'', ''conversation:mention'',
     ''kickoff'', ''review_request'', ''qa_request'', ''deploy_request'', ''handoff'']"

definition ALLOWED_ROUTING_FIELDS :: "string list" where
  "ALLOWED_ROUTING_FIELDS = [''trust_score'', ''risk_level'', ''outcome_status'', ''entity_type'', ''from_status'',
     ''to_status'', ''assignee_type'', ''story_points'', ''actor_type'']"

definition ALLOWED_ROUTING_OPS :: "string list" where
  "ALLOWED_ROUTING_OPS = [''eq'', ''ne'', ''lt'', ''lte'', ''gt'', ''gte'', ''in'', ''not_in'']"

definition HUMAN_STEP_TYPES :: "string list" where
  "HUMAN_STEP_TYPES = [''human-gate'', ''merge-gate'']"

definition in_strings :: "json \<Rightarrow> string list \<Rightarrow> error + bool" where
  \<comment> \<open>\<^verbatim>\<open>v in frozenset(...)\<close> of strings: a list or dictionary is not hashable\<close>
  "in_strings v names = (if hashable v then Inr (v \<in> JStr ` set names) else Inl TypeError)"

type_synonym lint_error = "string \<times> nat"

definition flag :: "bool \<Rightarrow> string \<Rightarrow> nat \<Rightarrow> lint_error list" where
  "flag b rule i = (if b then [(rule, i)] else [])"

definition lint_condition :: "nat \<Rightarrow> json \<Rightarrow> error + lint_error list" where
  "lint_condition i c =
     (if \<not> is_obj c then Inr []
      else res_bind (in_strings (jget ''field'' c) ALLOWED_ROUTING_FIELDS) (\<lambda>f.
           res_bind (in_strings (jget ''op'' c) ALLOWED_ROUTING_OPS) (\<lambda>p.
             Inr (flag (\<not> f) ''unknown_field'' i @ flag (\<not> p) ''unknown_op'' i))))"

definition lint_rule :: "nat \<Rightarrow> json \<Rightarrow> error + lint_error list" where
  "lint_rule i r =
     (if \<not> is_obj r then Inr [(''unknown_field'', i)]
      else res_bind (iter_or_empty (jget ''conditions'' r)) (\<lambda>conds.
           res_bind (map_res (lint_condition i) conds) (\<lambda>es.
             Inr (flag (jget ''mode'' r \<notin> {JNull, JStr ''all'', JStr ''any''}) ''unknown_op'' i
                  @ concat es
                  @ flag (truthy (jget ''catch_all'' r) \<and> jget ''decision'' r = JStr ''auto_route'') ''catch_all_auto_route'' i))))"

definition collect_event_types :: "json \<Rightarrow> string list" where
  "collect_event_types step =
     (let of_block = (\<lambda>k. let b = jget k step in
          if \<not> is_obj b then []
          else (case (if truthy (jget ''emit_event'' b) then jget ''emit_event'' b else jget ''event_type'' b) of
                  JStr s \<Rightarrow> [s] | _ \<Rightarrow> []))
      in of_block ''on_approve'' @ of_block ''on_reject''
         @ (case jget ''event_type'' step of JStr s \<Rightarrow> [s] | _ \<Rightarrow> []))"

definition lint_human_step :: "nat \<Rightarrow> json \<Rightarrow> json \<Rightarrow> lint_error list" where
  "lint_human_step i approval assignee =
     (let approvers = jget ''approvers'' approval in
      flag (\<not> truthy approvers \<and> \<not> truthy (jget ''approver_role'' approval)) ''no_approver'' i
      @ flag (jget ''self_approval'' approval = JStr ''allow_only'' \<or> approvers = JList [JStr ''self'']
              \<or> truthy (jget ''only_self'' approval)) ''self_approval_only'' i
      @ flag (\<not> (truthy (jget ''fallback'' assignee) \<or> truthy (jget ''deputy'' assignee)
                 \<or> truthy (jget ''fallback_role'' assignee))) ''no_fallback'' i)"

definition moves_on :: "json \<Rightarrow> json list \<Rightarrow> bool" where
  \<comment> \<open>\<^verbatim>\<open>non_block_exists\<close> of one step\<close>
  "moves_on step rules \<longleftrightarrow>
     (jget ''step_type'' step \<noteq> JStr ''advisory''
        \<and> set (map (\<lambda>r. if is_obj r then jget ''decision'' r else JNull) rules) \<noteq> {JStr ''block''})
     \<or> \<not> truthy (jget ''routing_rules'' step)"

definition lint_step :: "nat \<Rightarrow> json \<Rightarrow> error + (lint_error list \<times> bool)" where
  "lint_step i step =
     (if \<not> is_obj step then Inr ([(''unknown_field'', i)], False)
      else res_bind (iter_or_empty (jget ''routing_rules'' step)) (\<lambda>rules.
           res_bind (map_res (lint_rule i) rules) (\<lambda>es.
           if list_ex (\<lambda>r. is_obj r \<and> \<not> hashable (jget ''decision'' r)) rules then Inl TypeError
           else res_bind (in_strings (jget ''step_type'' step) HUMAN_STEP_TYPES) (\<lambda>human.
             let sla = dict_or_empty (jget ''sla_policy'' step) in
             Inr (concat es
                  @ (if human then lint_human_step i (dict_or_empty (jget ''approval_policy'' step))
                                     (dict_or_empty (jget ''assignee_policy'' step)) else [])
                  @ flag (jget ''on_timeout'' sla = JStr ''auto_approve''
                          \<and> (human \<or> truthy (jget_or ''applies_to_high_risk'' (JBool True) sla)))
                      ''high_risk_timeout_auto_approve'' i
                  @ concat (map (\<lambda>ev. flag (ev \<notin> set WORKFLOW_EVENT_ALLOWLIST) ''event_not_in_allowlist'' i)
                      (collect_event_types step)),
                  moves_on step rules)))))"

definition lint_config :: "json \<Rightarrow> error + lint_error list" where
  "lint_config config =
     (case jget ''steps'' config of
        JList steps \<Rightarrow>
          (if steps = [] then Inr [(''no_steps'', 0)]
           else res_bind (map_res (\<lambda>(i, s). lint_step i s) (enumerate 0 steps)) (\<lambda>rs.
             Inr (concat (map fst rs)
                  @ flag (\<not> list_ex snd rs) ''all_transitions_blocked'' (length steps))))
      | _ \<Rightarrow> Inr [(''no_steps'', 0)])"

section \<open>Versions\<close>

fun is_valid_version_transition :: "version_status \<Rightarrow> version_status \<Rightarrow> bool" where
  "is_valid_version_transition V_draft new = (new \<in> {V_pending_review, V_retired})"
| "is_valid_version_transition V_pending_review new = (new \<in> {V_published, V_rejected, V_draft, V_retired})"
| "is_valid_version_transition V_published new = (new = V_retired)"
| "is_valid_version_transition V_rejected new = (new \<in> {V_draft, V_retired})"
| "is_valid_version_transition V_retired new = False"

type_synonym line_scope = "uuid \<times> uuid option \<times> string"

definition version_scope :: "line_version \<Rightarrow> line_scope" where
  "version_scope v = (lv_org v, lv_project v, lv_entity_type v)"

definition definition_scope :: "line_definition \<Rightarrow> line_scope" where
  "definition_scope d = (ld_org d, ld_project d, ld_entity_type d)"

definition get_version :: "uuid \<Rightarrow> gate_db \<Rightarrow> line_version option" where
  "get_version i db = find_row lv_id i (t_line_versions db)"

definition upd_version :: "uuid \<Rightarrow> (line_version \<Rightarrow> line_version) \<Rightarrow> gate_db \<Rightarrow> gate_db" where
  "upd_version i f db = db\<lparr>t_line_versions := upd_row lv_id i f (t_line_versions db)\<rparr>"

definition next_version :: "line_scope \<Rightarrow> gate_db \<Rightarrow> nat" where
  "next_version sc db = foldr max (map lv_version (filter (\<lambda>v. version_scope v = sc) (t_line_versions db))) 0 + 1"

definition list_versions :: "line_scope \<Rightarrow> gate_db \<Rightarrow> line_version list" where
  "list_versions sc db = rev (sort_key lv_version (filter (\<lambda>v. version_scope v = sc) (t_line_versions db)))"

definition linted :: "lint_error list \<Rightarrow> line_version \<Rightarrow> line_version" where
  "linted es v = v\<lparr>lv_lint_passed := (es = []), lv_lint_errors := es\<rparr>"

definition new_version :: "(real \<Rightarrow> string) \<Rightarrow> uuid \<Rightarrow> line_scope \<Rightarrow> json \<Rightarrow> uuid \<Rightarrow> lint_error list \<Rightarrow> nat \<Rightarrow> line_version" where
  "new_version rp fresh sc config created_by es n = \<lparr>lv_id = fresh, lv_line_definition_id = None, lv_org = fst sc,
     lv_project = fst (snd sc), lv_entity_type = snd (snd sc), lv_version = n, lv_status = V_draft, lv_config = config,
     lv_config_hash = compute_config_hash rp config, lv_lint_passed = (es = []), lv_lint_errors = es,
     lv_created_by = created_by, lv_reviewed_by = None, lv_review_gate_id = None, lv_published_at = None\<rparr>"

definition create_draft :: "(real \<Rightarrow> string) \<Rightarrow> line_scope \<Rightarrow> json \<Rightarrow> uuid \<Rightarrow> uuid \<Rightarrow> gate_db
    \<Rightarrow> error + (line_version \<times> gate_db)" where
  "create_draft rp sc config created_by fresh db =
     res_bind (lint_config config) (\<lambda>es.
       let v = new_version rp fresh sc config created_by es (next_version sc db)
       in Inr (v, db\<lparr>t_line_versions := t_line_versions db @ [v]\<rparr>))"

definition update_draft_config :: "(real \<Rightarrow> string) \<Rightarrow> line_version \<Rightarrow> json \<Rightarrow> gate_db \<Rightarrow> error + gate_db" where
  "update_draft_config rp v config db =
     (if lv_status v \<noteq> V_draft then Inl (ValueError ''only a draft can be changed'')
      else res_bind (lint_config config) (\<lambda>es.
        Inr (upd_version (lv_id v) (\<lambda>x. linted es (x\<lparr>lv_config := config, lv_config_hash := compute_config_hash rp config\<rparr>)) db)))"

definition transition_version :: "line_version \<Rightarrow> version_status \<Rightarrow> gate_db \<Rightarrow> error + gate_db" where
  "transition_version v new db =
     (if \<not> is_valid_version_transition (lv_status v) new then Inl (ValueError ''illegal version transition'')
      else Inr (upd_version (lv_id v) (\<lambda>x. x\<lparr>lv_status := new\<rparr>) db))"

section \<open>Publishing\<close>

definition WORKFLOW_CONFIG_PUBLISH_GATE_TYPE :: string where
  "WORKFLOW_CONFIG_PUBLISH_GATE_TYPE = ''workflow_config_publish''"

definition WORKFLOW_LINE_VERSION_WORK_ITEM_TYPE :: string where
  "WORKFLOW_LINE_VERSION_WORK_ITEM_TYPE = ''wf_line_version''"

definition default_role_id :: "uuid \<Rightarrow> gate_db \<Rightarrow> uuid option" where
  "default_role_id org db =
     map_option pr_id (min_row (\<lambda>r. (pr_created_at r, pr_id r)) (filter (\<lambda>r. pr_org r = org \<and> pr_is_default r) (t_roles db)))"

definition assert_not_self_approval :: "gate \<Rightarrow> uuid option \<Rightarrow> uuid \<Rightarrow> error + unit" where
  "assert_not_self_approval g resolver version_id =
     (case (resolver, map_of (facts_of g) ''requested_by_member_id'') of
        (Some r, Some (JStr m)) \<Rightarrow> if m \<noteq> [] \<and> r = m then Inl (SelfApprovalError (Some version_id)) else Inr ()
      | _ \<Rightarrow> Inr ())"

definition definition_of :: "line_version \<Rightarrow> uuid \<Rightarrow> timestamp \<Rightarrow> line_definition" where
  "definition_of v fresh now = \<lparr>ld_id = fresh, ld_org = lv_org v, ld_project = lv_project v, ld_entity_type = lv_entity_type v,
     ld_name = (if truthy (jget ''name'' (lv_config v)) then jget ''name'' (lv_config v) else JStr (lv_entity_type v @ '' line'')),
     ld_version = lv_version v, ld_is_active = True,
     ld_source = (if lv_project v \<noteq> None then ''project_override'' else ''org_config''), ld_created_by = Some (lv_created_by v),
     ld_published_at = Some now, ld_retired_at = None, ld_config_hash = Some (lv_config_hash v)\<rparr>"

definition retire_active :: "(line_definition \<Rightarrow> bool) \<Rightarrow> timestamp \<Rightarrow> gate_db \<Rightarrow> gate_db" where
  "retire_active P now db = db\<lparr>t_line_definitions :=
     map (\<lambda>d. if ld_is_active d \<and> P d then d\<lparr>ld_is_active := False, ld_retired_at := Some now\<rparr> else d) (t_line_definitions db)\<rparr>"

definition insert_definition :: "line_definition \<Rightarrow> gate_db \<Rightarrow> error + gate_db" where
  \<comment> \<open>the partial unique indexes: one active definition per organisation, project and entity type\<close>
  "insert_definition d db =
     (if ld_is_active d \<and> list_ex (\<lambda>x. ld_is_active x \<and> definition_scope x = definition_scope d) (t_line_definitions db)
      then Inl IntegrityError else Inr (db\<lparr>t_line_definitions := t_line_definitions db @ [d]\<rparr>))"

definition complete_publish :: "line_version \<Rightarrow> gate \<Rightarrow> uuid option \<Rightarrow> bool \<Rightarrow> uuid \<Rightarrow> timestamp \<Rightarrow> gate_db \<Rightarrow> error + gate_db" where
  "complete_publish v g resolver auto fresh now db =
     (if g_status g \<notin> {Approved, Auto_passed} then Inl (ValueError ''gate not approved'')
      else if g_gate_type g \<noteq> WORKFLOW_CONFIG_PUBLISH_GATE_TYPE then Inl (ValueError ''not a publish gate'')
      else res_bind (if auto then Inr () else assert_not_self_approval g resolver (lv_id v)) (\<lambda>_.
        if lv_status v = V_published then Inr db
        else
          let db1 = upd_version (lv_id v) (\<lambda>x. x\<lparr>lv_status := V_published, lv_published_at := Some now, lv_reviewed_by := resolver\<rparr>) db;
              db2 = retire_active (\<lambda>d. definition_scope d = version_scope v) now db1
          in res_bind (insert_definition (definition_of v fresh now) db2) (\<lambda>db3.
               Inr (upd_version (lv_id v) (\<lambda>x. x\<lparr>lv_line_definition_id := Some fresh\<rparr>) db3))))"

definition publish_args :: "uuid \<Rightarrow> line_version \<Rightarrow> uuid \<Rightarrow> uuid \<Rightarrow> create_args" where
  "publish_args org v member role = \<lparr>ca_slot = \<lparr>sl_org = org, sl_work_item_id = lv_id v,
       sl_work_item_type = WORKFLOW_LINE_VERSION_WORK_ITEM_TYPE, sl_gate_type = WORKFLOW_CONFIG_PUBLISH_GATE_TYPE, sl_scope_key = []\<rparr>,
     ca_member = member, ca_role = role,
     ca_facts = Some [(''version_id'', JStr (lv_id v)), (''config_hash'', JStr (lv_config_hash v)),
       (''requested_by_member_id'', JStr member), (''entity_type'', JStr (lv_entity_type v))],
     ca_project = lv_project v, ca_notify = True, ca_gate_id = None, ca_pr_number = None, ca_repo = None, ca_designated = None\<rparr>"

record publish_ids =
  pn_role :: uuid
  pn_gate :: uuid
  pn_definition :: uuid

text \<open>
  The endpoint commits the lint result when the lint fails; with any other exception nothing stays.\<close>

definition request_publish :: "uuid \<Rightarrow> line_version \<Rightarrow> uuid \<Rightarrow> publish_ids \<Rightarrow> timestamp \<Rightarrow> gate_db
    \<Rightarrow> (error + gate) \<times> gate_db" where
  "request_publish org v member ids now db =
     (case lint_config (lv_config v) of
        Inl e \<Rightarrow> (Inl e, db)
      | Inr es \<Rightarrow>
          (let db1 = upd_version (lv_id v) (linted es) db in
           if es \<noteq> [] then (Inl (PublishLintError es), db1)
           else
             (case (if lv_status v \<notin> {V_draft, V_pending_review, V_rejected} then Inl (ValueError ''cannot request publish'')
                    else if lv_status v \<noteq> V_pending_review then transition_version v V_pending_review db1 else Inr db1) of
                Inl e \<Rightarrow> (Inl e, db)
              | Inr db2 \<Rightarrow>
                  (let role = (case default_role_id org db2 of Some r \<Rightarrow> r | None \<Rightarrow> pn_role ids) in
                   case create_gate (publish_args org v member role) (pn_gate ids) now db2 of
                     Inl e \<Rightarrow> (Inl e, db)
                   | Inr (g, db3) \<Rightarrow>
                       (let db4 = upd_version (lv_id v) (\<lambda>x. x\<lparr>lv_review_gate_id := Some (g_id g)\<rparr>) db3 in
                        if g_status g \<in> {Approved, Auto_passed}
                        then (case get_version (lv_id v) db4 of
                                None \<Rightarrow> (Inl (ValueError ''version not found''), db)
                              | Some v' \<Rightarrow>
                                  (case complete_publish v' g None True (pn_definition ids) now db4 of
                                     Inl e \<Rightarrow> (Inl e, db)
                                   | Inr db5 \<Rightarrow> (Inr g, db5)))
                        else (Inr g, db4))))))"

section \<open>The seed\<close>

definition DEFAULT_STORY_LINE_CONFIG :: json where
  "DEFAULT_STORY_LINE_CONFIG = JObj [(''rollout_mode'', JStr ''enforcing''), (''steps'', JList [
     JObj [(''step_key'', JStr ''dev_relay''), (''from_status'', JStr ''backlog''), (''to_status'', JStr ''ready-for-dev''),
           (''step_type'', JStr ''agent-handoff''), (''assignee_policy'', JObj [(''role'', JStr ''developer'')]),
           (''event_type'', JStr ''dispatched'')],
     JObj [(''step_key'', JStr ''qa_observe''), (''from_status'', JStr ''in-progress''), (''to_status'', JStr ''in-review''),
           (''step_type'', JStr ''advisory'')],
     JObj [(''step_key'', JStr ''po_merge_gate''), (''from_status'', JStr ''in-review''), (''to_status'', JStr ''done''),
           (''step_type'', JStr ''merge-gate''), (''gate_type'', JStr ''merge''),
           (''approval_policy'', JObj [(''approver_role'', JStr ''product_owner'')]),
           (''assignee_policy'', JObj [(''role'', JStr ''product_owner''), (''fallback_role'', JStr ''admin'')])]])]"

definition SEED_AUTHOR :: uuid where "SEED_AUTHOR = ''00000000-0000-0000-0000-000000000000''"

definition seed_scope :: "uuid \<Rightarrow> line_scope" where "seed_scope org = (org, None, ''story'')"

definition is_seeded :: "uuid \<Rightarrow> line_definition \<Rightarrow> bool" where
  "is_seeded org d \<longleftrightarrow> definition_scope d = seed_scope org \<and> ld_source d = ''system_default''"

definition seed_definition :: "(real \<Rightarrow> string) \<Rightarrow> uuid \<Rightarrow> json \<Rightarrow> nat \<Rightarrow> uuid \<Rightarrow> timestamp \<Rightarrow> line_definition" where
  "seed_definition rp org config n fresh now = \<lparr>ld_id = fresh, ld_org = org, ld_project = None, ld_entity_type = ''story'',
     ld_name = JStr ''Default Story Line'', ld_version = n, ld_is_active = True, ld_source = ''system_default'',
     ld_created_by = Some SEED_AUTHOR, ld_published_at = Some now, ld_retired_at = None,
     ld_config_hash = Some (compute_config_hash rp config)\<rparr>"

datatype seed_result = Seed_lint_failed "lint_error list" | Already_seeded | Seeded nat nat

definition seed_default_story_line :: "(real \<Rightarrow> string) \<Rightarrow> uuid \<Rightarrow> json \<Rightarrow> uuid \<Rightarrow> uuid \<Rightarrow> timestamp \<Rightarrow> gate_db
    \<Rightarrow> error + (seed_result \<times> gate_db)" where
  "seed_default_story_line rp org config fresh_def fresh_ver now db =
     res_bind (lint_config config) (\<lambda>es.
       if es \<noteq> [] then Inr (Seed_lint_failed es, db)
       else
         let actives = filter (\<lambda>d. is_seeded org d \<and> ld_is_active d) (t_line_definitions db) in
         if list_ex (\<lambda>d. ld_config_hash d = Some (compute_config_hash rp config)) actives then Inr (Already_seeded, db)
         else
           let db1 = retire_active (is_seeded org) now db;
               db2 = db1\<lparr>t_line_versions := map (\<lambda>v. if lv_line_definition_id v \<in> Some ` ld_id ` set actives \<and> lv_status v = V_published
                       then v\<lparr>lv_status := V_retired\<rparr> else v) (t_line_versions db1)\<rparr>;
               n = next_version (seed_scope org) db2;
               v = (new_version rp fresh_ver (seed_scope org) config SEED_AUTHOR [] n)
                     \<lparr>lv_line_definition_id := Some fresh_def, lv_status := V_published, lv_published_at := Some now\<rparr>
           in res_bind (insert_definition (seed_definition rp org config n fresh_def now) db2) (\<lambda>db3.
                Inr (Seeded n (length actives), db3\<lparr>t_line_versions := t_line_versions db3 @ [v]\<rparr>)))"

lemma default_story_line_lints: "lint_config DEFAULT_STORY_LINE_CONFIG = Inr []"
  by code_simp

end
