(* ===== verification/Line_Engine.thy ===== *)
theory Line_Engine
  imports Line_Config Merge_Gate
begin

text \<open>
  Workflow lines, their engine: services/workflow_runtime_mode.py, services/workflow_grandfather.py,
  services/workflow_readiness_matrix.py, services/workflow_line_resolver.py and
  services/workflow_line_engine.py. Before a board moves an entity the active line is evaluated; whatever
  happens inside, the answer is a decision and never an exception. The text of a caught exception is the
  model's own; Python's text of a float or a container is the parameter \<^verbatim>\<open>str_of\<close>.
\<close>

section \<open>Runtime mode and circuit breaker\<close>

definition minutes :: "int \<Rightarrow> int" where
  "minutes m = m * 60 * 1000000"

definition MODE_ORDER :: "string list" where
  "MODE_ORDER = [''off'', ''shadow'', ''advisory'', ''enforcing'']"

definition mode_rank :: "string \<Rightarrow> nat" where
  \<comment> \<open>\<^verbatim>\<open>_MODE_RANK.get(m, 0)\<close>\<close>
  "mode_rank m = (if m = ''shadow'' then 1 else if m = ''advisory'' then 2 else if m = ''enforcing'' then 3 else 0)"

definition min_mode :: "string \<Rightarrow> string \<Rightarrow> string" where
  "min_mode a b = (if mode_rank a \<le> mode_rank b then a else b)"

record line_settings =
  ls_enabled :: bool
  ls_allowlist :: string
  ls_mode :: string

definition allowlist_uuids :: "line_settings \<Rightarrow> uuid list" where
  \<comment> \<open>the parts of the list that are UUIDs, in their order\<close>
  "allowlist_uuids st = List.map_filter (\<lambda>x. if py_strip x = [] then None else py_uuid (py_strip x))
     (split_on (CHR '','') (ls_allowlist st))"

definition configured_mode :: "line_settings \<Rightarrow> string" where
  "configured_mode st = (let m = py_lower (py_strip (ls_mode st)) in if m \<in> set MODE_ORDER then m else ''off'')"

definition CB_WINDOW_MIN :: int where "CB_WINDOW_MIN = 5"
definition CB_THRESHOLD :: nat where "CB_THRESHOLD = 5"
definition CB_DEGRADE_MIN :: int where "CB_DEGRADE_MIN = 15"
definition CB_LOOKBACK_MIN :: int where "CB_LOOKBACK_MIN = CB_WINDOW_MIN + CB_DEGRADE_MIN"

definition engine_failures :: "uuid \<Rightarrow> timestamp \<Rightarrow> gate_db \<Rightarrow> timestamp list" where
  "engine_failures org now db =
     sort (map sr_started_at (filter (\<lambda>r. sr_org r = org \<and> sr_status r = ''engine_failed''
       \<and> now - minutes CB_LOOKBACK_MIN < sr_started_at r) (t_step_runs db)))"

definition circuit_open :: "uuid \<Rightarrow> timestamp \<Rightarrow> gate_db \<Rightarrow> bool" where
  "circuit_open org now db =
     (let rows = engine_failures org now db in
      if length rows < CB_THRESHOLD then False
      else list_ex (\<lambda>i. let j = i + CB_THRESHOLD - 1 in
             j < length rows \<and> rows ! j - rows ! i \<le> minutes CB_WINDOW_MIN
             \<and> now \<le> rows ! j + minutes CB_DEGRADE_MIN) [0..<length rows])"

definition resolve_runtime_mode :: "line_settings \<Rightarrow> uuid \<Rightarrow> timestamp \<Rightarrow> gate_db \<Rightarrow> string" where
  "resolve_runtime_mode st org now db =
     (if \<not> ls_enabled st then ''off''
      else if allowlist_uuids st \<noteq> [] \<and> org \<notin> set (allowlist_uuids st) then ''off''
      else if configured_mode st = ''off'' then ''off''
      else if circuit_open org now db then min_mode (configured_mode st) ''advisory''
      else configured_mode st)"

section \<open>Grandfathering\<close>

definition GRANDFATHER_STATUSES :: "string list" where
  "GRANDFATHER_STATUSES = [''in-progress'', ''in-review'']"

definition open_grandfather :: "uuid \<Rightarrow> uuid \<Rightarrow> step_run \<Rightarrow> bool" where
  "open_grandfather org story_id r \<longleftrightarrow> sr_org r = org \<and> sr_entity_type r = ''story'' \<and> sr_entity_id r = story_id
     \<and> sr_status r = ''grandfathered''"

definition has_open_grandfather :: "uuid \<Rightarrow> uuid \<Rightarrow> gate_db \<Rightarrow> bool" where
  "has_open_grandfather org story_id db = list_ex (open_grandfather org story_id) (t_step_runs db)"

text \<open>A new run with the defaults of its columns.\<close>

definition blank_run :: "uuid \<Rightarrow> uuid \<Rightarrow> uuid \<Rightarrow> string \<Rightarrow> uuid \<Rightarrow> string option \<Rightarrow> string \<Rightarrow> string \<Rightarrow> string
    \<Rightarrow> uuid \<Rightarrow> string \<Rightarrow> timestamp \<Rightarrow> step_run" where
  "blank_run i org project entity_type entity_id from_status to_status status mode corr tid now =
     \<lparr>sr_id = i, sr_org = org, sr_gate_id = None, sr_h1_gate_id = None, sr_status = status, sr_held_until = None,
      sr_routing_reason = None, sr_sla_due_at = None, sr_started_at = now, sr_resolved_at = None,
      sr_project_id = project, sr_line_definition_id = None, sr_entity_type = entity_type, sr_entity_id = entity_id,
      sr_from_status = from_status, sr_to_status = to_status, sr_mode = mode, sr_effective_step_type = JNull,
      sr_effective_gate_type = None, sr_routing_decision = None, sr_routing_context = [], sr_trust_snapshot = [],
      sr_failure_class = None, sr_failure_message = None, sr_degraded_to_plain = False, sr_transition_id = tid,
      sr_attempt = 1, sr_risk_snapshot = [], sr_resolved_member_id = None, sr_event_id = None,
      sr_recipient_seq = None, sr_delivery_status = ''not_required'', sr_delivery_error = None,
      sr_approval_group_id = None, sr_quorum_policy = [], sr_next_reminder_at = None, sr_reminder_count = 0,
      sr_escalated_to = None, sr_withdrawn_by = None, sr_withdrawn_at = None, sr_withdraw_reason = None,
      sr_correlation_id = corr\<rparr>"

definition grandfather_run :: "uuid \<Rightarrow> uuid \<times> uuid \<times> string \<Rightarrow> timestamp \<Rightarrow> story \<Rightarrow> step_run" where
  "grandfather_run org ids now s = (case ids of (i, corr, tid) \<Rightarrow>
     (blank_run i org (st_project s) ''story'' (st_id s) (Some (st_status s)) (st_status s) ''grandfathered''
        ''advisory_only'' corr tid now)\<lparr>sr_routing_decision := Some ''would_grandfather'',
          sr_routing_reason := Some ''in-flight at enable (advisory backfill)''\<rparr>)"

fun mark_stories :: "uuid \<Rightarrow> (uuid \<Rightarrow> uuid \<times> uuid \<times> string) \<Rightarrow> timestamp \<Rightarrow> story list \<Rightarrow> gate_db \<Rightarrow> nat \<times> gate_db" where
  "mark_stories org ids now [] db = (0, db)"
| "mark_stories org ids now (s # ss) db =
     (if has_open_grandfather org (st_id s) db then mark_stories org ids now ss db
      else (let (n, db') = mark_stories org ids now ss
                  (db\<lparr>t_step_runs := t_step_runs db @ [grandfather_run org (ids (st_id s)) now s]\<rparr>)
            in (Suc n, db')))"

record backfill_result =
  bf_grandfathered :: nat
  bf_scanned :: nat
  bf_skipped_disabled :: nat

definition backfill_grandfather :: "line_settings \<Rightarrow> uuid \<Rightarrow> (uuid \<Rightarrow> uuid \<times> uuid \<times> string) \<Rightarrow> timestamp \<Rightarrow> gate_db
    \<Rightarrow> backfill_result \<times> gate_db" where
  "backfill_grandfather st org ids now db =
     (if resolve_runtime_mode st org now db = ''off''
      then (\<lparr>bf_grandfathered = 0, bf_scanned = 0, bf_skipped_disabled = 1\<rparr>, db)
      else
        (let stories = filter (\<lambda>s. st_org s = org \<and> st_status s \<in> set GRANDFATHER_STATUSES) (t_stories db);
             (n, db') = mark_stories org ids now stories db
         in (\<lparr>bf_grandfathered = n, bf_scanned = length stories, bf_skipped_disabled = 0\<rparr>, db')))"

definition resolve_backfill_orgs :: "line_settings \<Rightarrow> gate_db \<Rightarrow> uuid list" where
  "resolve_backfill_orgs st db =
     (if \<not> ls_enabled st then []
      else if allowlist_uuids st \<noteq> [] then allowlist_uuids st
      else remdups (map st_org (filter (\<lambda>s. st_status s \<in> set GRANDFATHER_STATUSES) (t_stories db))))"

definition consume_grandfather :: "uuid \<Rightarrow> string \<Rightarrow> uuid \<Rightarrow> string option \<Rightarrow> string \<Rightarrow> timestamp \<Rightarrow> gate_db
    \<Rightarrow> bool \<times> gate_db" where
  "consume_grandfather org entity_type entity_id from_status to_status now db =
     (if entity_type \<noteq> ''story'' then (False, db)
      else (has_open_grandfather org entity_id db,
            db\<lparr>t_step_runs := map (\<lambda>r. if open_grandfather org entity_id r
                 then r\<lparr>sr_status := ''grandfathered_applied'', sr_from_status := from_status, sr_to_status := to_status,
                        sr_resolved_at := Some now\<rparr> else r) (t_step_runs db)\<rparr>))"

section \<open>Readiness of the entities\<close>

record entity_readiness =
  er_entity_type :: string
  er_has_native_status :: bool
  er_status_enum :: "string list option"
  er_valid_transitions :: "(string \<times> string) list option"
  er_gating_eligible :: bool
  er_dispatch_capable :: bool
  er_blocking_reason :: "string option"

definition HYPOTHESIS_STATUSES :: "string list" where
  "HYPOTHESIS_STATUSES = [''proposed'', ''active'', ''measuring'', ''verified'', ''falsified'', ''killed'', ''archived'']"
definition GOAL_STATUSES :: "string list" where
  "GOAL_STATUSES = [''draft'', ''active'', ''done'', ''archived'']"
definition SPRINT_STATUSES :: "string list" where
  "SPRINT_STATUSES = [''planning'', ''active'', ''review'', ''closed'', ''archived'']"

definition ready :: "string \<Rightarrow> string list option \<Rightarrow> (string \<times> string) list option \<Rightarrow> entity_readiness" where
  "ready e enum ts = \<lparr>er_entity_type = e, er_has_native_status = True, er_status_enum = enum,
     er_valid_transitions = ts, er_gating_eligible = True, er_dispatch_capable = True, er_blocking_reason = None\<rparr>"

definition DOC_STATUSES :: "string list" where
  "DOC_STATUSES = [''draft'', ''pending'', ''confirmed'', ''denied'', ''superseded'', ''deprecated'']"

definition READINESS_MATRIX :: "(string \<times> entity_readiness) list" where
  "READINESS_MATRIX =
     [(''story'', ready ''story'' None None),
      (''hypothesis'', ready ''hypothesis'' (Some HYPOTHESIS_STATUSES) (Some [(''proposed'', ''active'')])),
      (''epic'', ready ''epic'' (Some GOAL_STATUSES) (Some [(''draft'', ''active''), (''active'', ''done'')])),
      (''sprint'', ready ''sprint'' (Some SPRINT_STATUSES)
         (Some [(''planning'', ''active''), (''active'', ''closed''), (''review'', ''closed'')])),
      (''doc'', ready ''doc'' (Some DOC_STATUSES) (Some [(''draft'', ''confirmed'')]))]"

definition get_readiness :: "string \<Rightarrow> entity_readiness option" where
  "get_readiness e = map_of READINESS_MATRIX e"

definition is_transition_supported :: "string \<Rightarrow> string \<Rightarrow> string \<Rightarrow> bool" where
  "is_transition_supported e from_status to_status =
     (case get_readiness e of
        None \<Rightarrow> False
      | Some d \<Rightarrow> if \<not> er_gating_eligible d then False
                  else (case er_valid_transitions d of None \<Rightarrow> True | Some ts \<Rightarrow> (from_status, to_status) \<in> set ts))"

section \<open>Routing context\<close>

definition HIGH_EFFORT_POINTS :: int where "HIGH_EFFORT_POINTS = 8"

definition jopt_int :: "int option \<Rightarrow> json" where
  "jopt_int x = (case x of None \<Rightarrow> JNull | Some i \<Rightarrow> JInt i)"

definition story_predicate :: "story option \<Rightarrow> jdict" where
  "story_predicate s = (case s of None \<Rightarrow> []
     | Some x \<Rightarrow> [(''priority'', JStr (st_priority x)), (''story_points'', jopt_int (st_points x)),
         (''has_success_hypothesis'', JBool (st_success_hypothesis x \<noteq> None \<and> st_success_hypothesis x \<noteq> Some [])),
         (''has_metric_definition'', JBool (st_metric_definition x \<noteq> None)),
         (''has_measure_after'', JBool (st_measure_after x \<noteq> None)),
         (''outcome_status'', JStr (st_outcome_status x)),
         (''has_outcome_result'', JBool (st_outcome_result x \<noteq> None)),
         (''is_excluded'', JBool (st_excluded x))])"

definition risk_flags :: "story option \<Rightarrow> jdict" where
  "risk_flags s = (let sp = (case s of None \<Rightarrow> None | Some x \<Rightarrow> st_points x) in
     [(''prod_touch'', JNull),
      (''high_effort'', JBool (case sp of None \<Rightarrow> False | Some n \<Rightarrow> HIGH_EFFORT_POINTS \<le> n)),
      (''story_points'', jopt_int sp),
      (''uncertain'', JBool (sp = None))])"

definition resolve_trust_snapshot :: "uuid \<Rightarrow> uuid option \<Rightarrow> string option \<Rightarrow> timestamp \<Rightarrow> gate_db \<Rightarrow> jdict" where
  "resolve_trust_snapshot org member role_key now db =
     (case member of
        None \<Rightarrow> [(''primary_source'', JStr ''hypothesis_outcome''), (''cold_start'', JBool True),
                 (''reason'', JStr ''no_member''), (''hypothesis_hit_rate'', JNull), (''resolved'', JInt 0),
                 (''hit'', JInt 0), (''pending'', JInt 0), (''captured_before_verdict'', JBool True)]
      | Some m \<Rightarrow>
          (let t = compute_member_trust_scores db org m role_key 90 False now
           in [(''primary_source'', JStr (tr_primary_source t)),
               (''hypothesis_hit_rate'', jopt_real (tr_hit_rate t)),
               (''resolved'', JInt (int (tr_resolved t))), (''hit'', JInt (int (tr_hit t))),
               (''pending'', JInt (int (tr_pending t))), (''cold_start'', JBool (tr_resolved t = 0)),
               (''role_key'', jopt_str role_key), (''captured_before_verdict'', JBool True)]))"

definition round_half_even :: "real \<Rightarrow> int" where
  "round_half_even x = (let f = \<lfloor>x\<rfloor>; d = x - of_int f in
     if d < 1/2 then f else if d > 1/2 then f + 1 else if even f then f else f + 1)"

definition story_weight :: "story \<Rightarrow> int" where
  "story_weight s = (case st_points s of None \<Rightarrow> 0 | Some n \<Rightarrow> n)"

definition get_epic_progress :: "uuid \<Rightarrow> uuid \<Rightarrow> uuid \<Rightarrow> gate_db \<Rightarrow> jdict" where
  "get_epic_progress org project epic db =
     (let rows = filter (\<lambda>s. st_project s = project \<and> st_org s = org \<and> st_epic_id s = Some epic
                             \<and> st_deleted_at s = None) (t_stories db);
          d = filter (\<lambda>s. st_status s = ''done'') rows
      in [(''total_stories'', JInt (int (length rows))), (''done_stories'', JInt (int (length d))),
          (''total_points'', JInt (sum_list (map story_weight rows))),
          (''done_points'', JInt (sum_list (map story_weight d))),
          (''completion_pct'', JInt (if length rows > 0
              then round_half_even (real (length d) / real (length rows) * 100) else 0))])"

definition epic_aggregate :: "uuid \<Rightarrow> uuid \<Rightarrow> gate_db \<Rightarrow> jdict" where
  "epic_aggregate org epic db =
     (case List.find (\<lambda>g. gl_id g = epic) (t_goals db) of
        None \<Rightarrow> [(''total_stories'', JInt 0), (''done_stories'', JInt 0), (''completion_pct'', JInt 0), (''open_stories'', JInt 0)]
      | Some g \<Rightarrow>
          (let prog = get_epic_progress org (gl_project g) epic db;
               total = (case map_of prog ''total_stories'' of Some (JInt n) \<Rightarrow> n | _ \<Rightarrow> 0);
               d = (case map_of prog ''done_stories'' of Some (JInt n) \<Rightarrow> n | _ \<Rightarrow> 0)
           in prog @ [(''open_stories'', JInt (total - d))]))"

record line_args =
  la_org :: uuid
  la_project :: "uuid option"
  la_entity_type :: string
  la_entity_id :: uuid
  la_from :: "string option"
  la_to :: string
  la_actor :: "uuid option"
  la_actor_type :: "string option"
  la_transition_id :: string
  la_dry_run :: bool

definition unsupported_context :: "line_args \<Rightarrow> string option \<Rightarrow> jdict" where
  "unsupported_context a reason =
     [(''entity_type'', JStr (la_entity_type a)), (''entity_id'', JStr (la_entity_id a)), (''supported'', JBool False),
      (''reason'', jopt_str reason), (''risk_flags'', JObj [(''prod_touch'', JNull), (''uncertain'', JBool True)]),
      (''trust'', JObj [(''cold_start'', JBool True), (''captured_before_verdict'', JBool True)]),
      (''suggested_default'', JStr ''ask_human'')]"

definition resolve_routing_context :: "line_args \<Rightarrow> timestamp \<Rightarrow> gate_db \<Rightarrow> jdict" where
  "resolve_routing_context a now db =
     (case get_readiness (la_entity_type a) of
        None \<Rightarrow> unsupported_context a (Some ''unknown_entity_type'')
      | Some d \<Rightarrow>
          if \<not> er_gating_eligible d then unsupported_context a (er_blocking_reason d)
          else
            (let s = (if la_entity_type a = ''story'' then List.find (\<lambda>s. st_id s = la_entity_id a) (t_stories db) else None);
                 risk = risk_flags s;
                 trust = resolve_trust_snapshot (la_org a) (la_actor a) None now db;
                 ask = truthy (jget ''uncertain'' (JObj risk)) \<or> truthy (jget ''cold_start'' (JObj trust))
             in [(''entity_type'', JStr (la_entity_type a)), (''entity_id'', JStr (la_entity_id a)), (''supported'', JBool True),
                 (''story'', JObj (story_predicate s)),
                 (''actor'', JObj [(''member_id'', jopt_str (la_actor a)), (''type'', jopt_str (la_actor_type a))]),
                 (''risk_flags'', JObj risk), (''trust'', JObj trust),
                 (''suggested_default'', if ask then JStr ''ask_human'' else JNull)]
                @ (if la_entity_type a = ''epic''
                   then [(''epic_aggregate'', JObj (epic_aggregate (la_org a) (la_entity_id a) db))] else [])))"

definition trust_of :: "jdict \<Rightarrow> jdict" where
  "trust_of ctx = (case map_of ctx ''trust'' of Some (JObj t) \<Rightarrow> t | _ \<Rightarrow> [])"

section \<open>Which line and which step govern\<close>

definition active_definition :: "uuid \<Rightarrow> uuid option \<Rightarrow> string \<Rightarrow> gate_db \<Rightarrow> line_definition option" where
  "active_definition org project entity_type db =
     (let candidates = filter (\<lambda>d. ld_org d = org \<and> ld_entity_type d = entity_type \<and> ld_is_active d) (t_line_definitions db)
      in case (case project of None \<Rightarrow> None | Some p \<Rightarrow> List.find (\<lambda>d. ld_project d = Some p) candidates) of
           Some d \<Rightarrow> Some d
         | None \<Rightarrow> List.find (\<lambda>d. ld_project d = None) candidates)"

definition published_version :: "uuid \<Rightarrow> gate_db \<Rightarrow> line_version option" where
  "published_version def_id db =
     max_row lv_version (filter (\<lambda>v. lv_line_definition_id v = Some def_id \<and> lv_status v = V_published) (t_line_versions db))"

definition published_config :: "uuid \<Rightarrow> gate_db \<Rightarrow> json" where
  "published_config def_id db =
     (case published_version def_id db of None \<Rightarrow> JObj [] | Some v \<Rightarrow> dict_or_empty (lv_config v))"

definition step_matches :: "string option \<Rightarrow> string \<Rightarrow> json \<Rightarrow> bool" where
  "step_matches from_status to_status step \<longleftrightarrow>
     is_obj step \<and> jget ''to_status'' step = JStr to_status \<and> jget ''from_status'' step \<in> {jopt_str from_status, JNull}"

definition match_step :: "json \<Rightarrow> string option \<Rightarrow> string \<Rightarrow> error + json option" where
  "match_step config from_status to_status =
     res_bind (iter_or_empty (jget ''steps'' config)) (\<lambda>steps. Inr (List.find (step_matches from_status to_status) steps))"

definition is_merge_gate_step :: "json \<Rightarrow> bool" where
  "is_merge_gate_step step \<longleftrightarrow> jget ''step_type'' step = JStr ''merge-gate'' \<or> jget ''gate_type'' step = JStr ''merge''"

fun py_str :: "(json \<Rightarrow> string) \<Rightarrow> json \<Rightarrow> string" where
  "py_str rp JNull = ''None''"
| "py_str rp (JBool b) = (if b then ''True'' else ''False'')"
| "py_str rp (JInt i) = int_text i"
| "py_str rp (JStr s) = s"
| "py_str rp v = rp v"

definition text_or :: "(json \<Rightarrow> string) \<Rightarrow> json \<Rightarrow> string \<Rightarrow> string" where
  \<comment> \<open>\<^verbatim>\<open>str(v or dflt)\<close>\<close>
  "text_or rp v dflt = (if truthy v then py_str rp v else dflt)"

definition config_mode :: "(json \<Rightarrow> string) \<Rightarrow> json \<Rightarrow> string" where
  "config_mode rp config = py_strip (text_or rp (jget ''rollout_mode'' config) ''shadow'')"

definition line_merge_gate_active :: "line_settings \<Rightarrow> (json \<Rightarrow> string) \<Rightarrow> uuid \<Rightarrow> uuid option \<Rightarrow> string \<Rightarrow> string option \<Rightarrow> string
    \<Rightarrow> timestamp \<Rightarrow> gate_db \<Rightarrow> bool" where
  "line_merge_gate_active st rp org project entity_type from_status to_status now db =
     (let rt = resolve_runtime_mode st org now db in
      if rt = ''off'' then False
      else (case active_definition org project entity_type db of
              None \<Rightarrow> False
            | Some d \<Rightarrow>
                (let config = published_config (ld_id d) db in
                 if min_mode rt (config_mode rp config) \<noteq> ''enforcing'' then False
                 else (case match_step config from_status to_status of
                         Inr (Some step) \<Rightarrow> is_merge_gate_step step
                       | _ \<Rightarrow> False))))"

section \<open>Recording a run\<close>

definition terminal_run_statuses :: "string list" where
  "terminal_run_statuses = [''applied'', ''rejected'', ''failed'', ''engine_failed'', ''withdrawn'', ''timed_out'', ''cancelled'',
     ''grandfathered'', ''grandfathered_applied'']"

definition waiting_run_statuses :: "string list" where
  "waiting_run_statuses = [''waiting_gate'', ''waiting_parallel'', ''reminded'', ''escalated'', ''held'']"

definition same_transition :: "step_run \<Rightarrow> step_run \<Rightarrow> bool" where
  \<comment> \<open>equal columns of the index; a null from-status equals nothing\<close>
  "same_transition x y \<longleftrightarrow> sr_org x = sr_org y \<and> sr_entity_type x = sr_entity_type y \<and> sr_entity_id x = sr_entity_id y
     \<and> sr_from_status x \<noteq> None \<and> sr_from_status x = sr_from_status y \<and> sr_to_status x = sr_to_status y"

definition runs_clash :: "step_run \<Rightarrow> step_run \<Rightarrow> bool" where
  \<comment> \<open>the partial unique indexes \<^verbatim>\<open>uq_wf_step_run_active\<close> and \<^verbatim>\<open>uq_wf_step_run_pending_gate\<close>\<close>
  "runs_clash x y \<longleftrightarrow> same_transition x y \<and>
     ((sr_status x \<notin> set terminal_run_statuses \<and> sr_status y \<notin> set terminal_run_statuses \<and> sr_attempt x = sr_attempt y)
      \<or> (sr_status x \<in> set waiting_run_statuses \<and> sr_status y \<in> set waiting_run_statuses
         \<and> sr_effective_gate_type x \<noteq> None \<and> sr_effective_gate_type x = sr_effective_gate_type y))"

definition text_column :: "json \<Rightarrow> bool" where
  "text_column j \<longleftrightarrow> j = JNull \<or> (\<exists>s. j = JStr s)"

lemma text_column_code [code]: "text_column j = (case j of JNull \<Rightarrow> True | JStr s \<Rightarrow> True | _ \<Rightarrow> False)"
  by (cases j) (simp_all add: text_column_def)

record line_ids =
  li_run :: uuid
  li_correlation :: uuid
  li_merge :: fresh_ids

definition record_step_run :: "line_args \<Rightarrow> line_ids \<Rightarrow> timestamp \<Rightarrow> string \<Rightarrow> string \<Rightarrow> (step_run \<Rightarrow> step_run) \<Rightarrow> gate_db
    \<Rightarrow> error + (step_run option \<times> gate_db)" where
  "record_step_run a ids now status mode fill db =
     (if la_dry_run a then Inr (None, db)
      else (case la_project a of
              None \<Rightarrow> Inl (ValueError ''step_run project_id is required'')
            | Some project \<Rightarrow>
                (let r = fill (blank_run (li_run ids) (la_org a) project (la_entity_type a) (la_entity_id a) (la_from a)
                            (la_to a) status mode (li_correlation ids) (la_transition_id a) now)
                 in if \<not> text_column (sr_effective_step_type r) \<or> list_ex (runs_clash r) (t_step_runs db)
                    then Inr (None, db)
                    else Inr (Some r, db\<lparr>t_step_runs := t_step_runs db @ [r]\<rparr>))))"

definition governed :: "line_definition \<Rightarrow> json \<Rightarrow> jdict \<Rightarrow> string \<Rightarrow> string \<Rightarrow> step_run \<Rightarrow> step_run" where
  \<comment> \<open>the keyword arguments shared by the records of a governed transition\<close>
  "governed d step ctx dec reason r = r\<lparr>sr_line_definition_id := Some (ld_id d), sr_effective_step_type := jget ''step_type'' step,
     sr_routing_context := ctx, sr_trust_snapshot := trust_of ctx, sr_routing_decision := Some dec,
     sr_routing_reason := Some reason\<rparr>"

section \<open>The decision\<close>

datatype line_mode = Plain_transition | Advisory_only | Gate_pending | Blocked_by_policy | Engine_failed

record line_decision =
  dc_mode :: line_mode
  dc_status_to_apply :: "string option"
  dc_gate_id :: "uuid option"
  dc_run_id :: "uuid option"
  dc_blocking_reason :: "string option"
  dc_http_status :: "int option"
  dc_degraded :: bool
  dc_relay :: "uuid option"
  dc_gate_type :: "string option"

definition proceeds :: "line_decision \<Rightarrow> bool" where
  "proceeds d \<longleftrightarrow> dc_mode d \<in> {Plain_transition, Advisory_only, Engine_failed}"

definition decided :: "line_mode \<Rightarrow> string option \<Rightarrow> step_run option \<Rightarrow> line_decision" where
  "decided m to_apply r = \<lparr>dc_mode = m, dc_status_to_apply = to_apply, dc_gate_id = None, dc_run_id = map_option sr_id r,
     dc_blocking_reason = None, dc_http_status = None, dc_degraded = False, dc_relay = None, dc_gate_type = None\<rparr>"

abbreviation plain :: line_decision where "plain \<equiv> decided Plain_transition None None"

definition stopped :: "line_mode \<Rightarrow> string \<Rightarrow> int \<Rightarrow> step_run option \<Rightarrow> line_decision" where
  "stopped m reason http r = (decided m None r)\<lparr>dc_blocking_reason := Some reason, dc_http_status := Some http\<rparr>"

record line_env =
  le_settings :: line_settings
  le_github :: github
  le_str :: "json \<Rightarrow> string"

definition merge_eval_args :: "line_args \<Rightarrow> eval_args" where
  "merge_eval_args a = \<lparr>ev_org = la_org a, ev_story = la_entity_id a, ev_pr_number = 0, ev_repo = [], ev_ci = None,
     ev_pr = None, ev_threshold = DEFAULT_TRUST_THRESHOLD, ev_head_sha = None\<rparr>"

fun merge_outcome :: "decision \<Rightarrow> string \<times> string \<times> string" where
  \<comment> \<open>status, mode and routing decision of the run\<close>
  "merge_outcome Auto_merge = (''applied'', ''advisory_only'', ''auto_route'')"
| "merge_outcome Block = (''blocked_by_policy'', ''blocked_by_policy'', ''block'')"
| "merge_outcome Ask_human = (''waiting_gate'', ''gate_pending'', ''ask_human'')"

fun merge_line_decision :: "decision \<Rightarrow> string \<Rightarrow> step_run option \<Rightarrow> line_decision" where
  "merge_line_decision Auto_merge to_status r = decided Advisory_only (Some to_status) r"
| "merge_line_decision Block to_status r = stopped Blocked_by_policy ''merge gate blocks this transition'' 409 r"
| "merge_line_decision Ask_human to_status r = stopped Gate_pending ''merge gate requires human approval'' 409 r"

definition merge_gate_wrapper :: "line_env \<Rightarrow> line_args \<Rightarrow> line_ids \<Rightarrow> timestamp \<Rightarrow> line_definition \<Rightarrow> json \<Rightarrow> jdict \<Rightarrow> gate_db
    \<Rightarrow> (error + line_decision) \<times> gate_db" where
  "merge_gate_wrapper env a ids now d step ctx db =
     (if la_dry_run a
      then (Inr ((stopped Gate_pending ''merge-gate (dry-run preview)'' 202 None)\<lparr>dc_gate_type := Some ''merge''\<rparr>), db)
      else (case evaluate_merge_gate (le_github env) (merge_eval_args a) (li_merge ids) now db of
              Inl e \<Rightarrow> (Inl e, db)
            | Inr (md, db1) \<Rightarrow>
                (let (status, mode, routing) = merge_outcome (md_decision md)
                 in case record_step_run a ids now status mode
                           (\<lambda>r. (governed d step ctx routing (''merge-gate wrapper: '' @ decision_text (md_decision md)) r)
                              \<lparr>sr_gate_id := md_gate_id md, sr_h1_gate_id := md_gate_id md, sr_effective_gate_type := Some ''merge''\<rparr>) db1 of
                      Inl e \<Rightarrow> (Inl e, db1)
                    | Inr (r, db2) \<Rightarrow>
                        (Inr ((merge_line_decision (md_decision md) (la_to a) r)\<lparr>dc_gate_id := md_gate_id md\<rparr>), db2))))"

definition govern :: "line_env \<Rightarrow> line_args \<Rightarrow> line_ids \<Rightarrow> timestamp \<Rightarrow> string \<Rightarrow> line_definition \<Rightarrow> json \<Rightarrow> gate_db
    \<Rightarrow> (error + line_decision) \<times> gate_db" where
  \<comment> \<open>from the matched step on\<close>
  "govern env a ids now mode d step db =
     (let ctx = resolve_routing_context a now db in
      if mode = ''enforcing'' \<and> jget ''enforcement'' step = JStr ''block''
      then (case record_step_run a ids now ''blocked_by_policy'' ''blocked_by_policy''
                   (governed d step ctx ''block'' ''static policy block'') db of
              Inl e \<Rightarrow> (Inl e, db)
            | Inr (r, db') \<Rightarrow> (Inr (stopped Blocked_by_policy ''workflow line policy blocks this transition'' 409 r), db'))
      else if mode = ''enforcing'' \<and> is_merge_gate_step step then merge_gate_wrapper env a ids now d step ctx db
      else (case record_step_run a ids now ''routing_resolved'' ''advisory_only''
                   (governed d step ctx (''would_'' @ text_or (le_str env) (jget ''step_type'' step) ''advisory'')
                      (''shadow/advisory record (mode='' @ mode @ '')'')) db of
              Inl e \<Rightarrow> (Inl e, db)
            | Inr (r, db') \<Rightarrow>
                (Inr ((decided Advisory_only (Some (la_to a)) r)
                   \<lparr>dc_relay := (if mode = ''enforcing'' \<and> jget ''step_type'' step = JStr ''agent-handoff''
                                 then map_option sr_id r else None)\<rparr>), db')))"

definition pass_grandfather :: "line_args \<Rightarrow> timestamp \<Rightarrow> gate_db \<Rightarrow> bool \<times> gate_db" where
  "pass_grandfather a now db =
     (if la_dry_run a then (la_entity_type a = ''story'' \<and> has_open_grandfather (la_org a) (la_entity_id a) db, db)
      else consume_grandfather (la_org a) (la_entity_type a) (la_entity_id a) (la_from a) (la_to a) now db)"

definition evaluate_body :: "line_env \<Rightarrow> line_args \<Rightarrow> line_ids \<Rightarrow> timestamp \<Rightarrow> gate_db
    \<Rightarrow> (error + line_decision) \<times> gate_db" where
  \<comment> \<open>inside the \<^verbatim>\<open>try\<close>\<close>
  "evaluate_body env a ids now db =
     (let rt = resolve_runtime_mode (le_settings env) (la_org a) now db in
      if rt = ''off'' then (Inr plain, db)
      else (case active_definition (la_org a) (la_project a) (la_entity_type a) db of
              None \<Rightarrow> (Inr plain, db)
            | Some d \<Rightarrow>
                (let config = published_config (ld_id d) db; cm = config_mode (le_str env) config; mode = min_mode rt cm in
                 if cm = ''off'' \<or> mode = ''off'' then (Inr plain, db)
                 else (let (passed, db1) = pass_grandfather a now db in
                       if passed then (Inr plain, db1)
                       else (case match_step config (la_from a) (la_to a) of
                               Inl e \<Rightarrow> (Inl e, db1)
                             | Inr None \<Rightarrow> (Inr plain, db1)
                             | Inr (Some step) \<Rightarrow> govern env a ids now mode d step db1)))))"

fun error_class :: "error \<Rightarrow> string" where
  "error_class (ValueError _) = ''ValueError''"
| "error_class MultipleResultsFound = ''MultipleResultsFound''"
| "error_class (HTTPError _ _ _) = ''HTTPException''"
| "error_class NotSelfError = ''GateUndoNotSelfError''"
| "error_class WindowExpiredError = ''GateUndoWindowExpiredError''"
| "error_class TypeError = ''TypeError''"
| "error_class IntegrityError = ''IntegrityError''"
| "error_class (SelfApprovalError _) = ''SelfApprovalError''"
| "error_class (PublishLintError _) = ''PublishLintError''"
| "error_class (ServiceError c _) = c"
| "error_class (ReviewedDraftChanged _ _) = ''RecipeReviewedDraftChangedError''"

definition error_message :: "error \<Rightarrow> string" where
  "error_message e = (case e of ValueError m \<Rightarrow> m | _ \<Rightarrow> [])"

definition engine_failed :: "line_args \<Rightarrow> line_ids \<Rightarrow> timestamp \<Rightarrow> error \<Rightarrow> gate_db \<Rightarrow> line_decision \<times> gate_db" where
  \<comment> \<open>the outer \<^verbatim>\<open>except\<close>: a failure to record the failure is dropped too\<close>
  "engine_failed a ids now e db =
     (let (r, db') = (case record_step_run a ids now ''engine_failed'' ''engine_failed''
                        (\<lambda>r. r\<lparr>sr_failure_class := Some (error_class e), sr_failure_message := Some (take 500 (error_message e)),
                              sr_degraded_to_plain := True\<rparr>) db of
                      Inl _ \<Rightarrow> (None, db) | Inr x \<Rightarrow> x)
      in ((decided Engine_failed (Some (la_to a)) r)\<lparr>dc_degraded := True\<rparr>, db'))"

definition evaluate_line_for_transition :: "line_env \<Rightarrow> line_args \<Rightarrow> line_ids \<Rightarrow> timestamp \<Rightarrow> gate_db
    \<Rightarrow> line_decision \<times> gate_db" where
  "evaluate_line_for_transition env a ids now db =
     (case evaluate_body env a ids now db of
        (Inr d, db') \<Rightarrow> (d, db')
      | (Inl e, db') \<Rightarrow> engine_failed a ids now e db')"

end
