(* ===== verification/Line_Machine.thy ===== *)
theory Line_Machine
  imports Line_Engine
begin

text \<open>
  The life of line configurations: drafts, edits, publish requests, completions behind an approved gate,
  rejections and retirements, the seed, and the other services, which leave the two tables alone. The
  invariant ties every version to its hash, its lint and its number and every active pointer to its scope.
\<close>

section \<open>What other components leave alone\<close>

lemma find_slot_frame:
  "find_gate_slot_with_pr_fallback sl pr repo db = Inr (r, db') \<Longrightarrow> \<exists>gs. db' = db\<lparr>t_gates := gs\<rparr>"
  by (auto simp: find_gate_slot_with_pr_fallback_def upd_gate_def Let_def split: option.splits sum.splits if_splits
           intro: exI [of _ "t_gates db"])

lemma notify_frame: "\<exists>ns. notify_pending_approval g p db = db\<lparr>t_notifications := ns\<rparr>"
  by (auto simp: notify_pending_approval_def Let_def intro: exI [of _ "t_notifications db"])

definition gates_only :: "gate_db \<Rightarrow> gate_db \<Rightarrow> bool" where
  "gates_only db db' \<longleftrightarrow> (\<exists>gs ns. db' = db\<lparr>t_gates := gs, t_notifications := ns\<rparr>)"

lemma gates_onlyI: "db' = db\<lparr>t_gates := gs\<rparr> \<Longrightarrow> gates_only db db'"
  unfolding gates_only_def by (intro exI [of _ gs] exI [of _ "t_notifications db"]) simp

lemma gates_only_trans: "gates_only a b \<Longrightarrow> gates_only b c \<Longrightarrow> gates_only a c"
  unfolding gates_only_def by (elim exE) (rule exI, rule exI, simp)

lemma gates_only_upd: "gates_only db (upd_gate i f db)"
  unfolding upd_gate_def by (rule gates_onlyI) simp

lemma gates_only_notify: "gates_only db (notify_pending_approval g p db)"
proof -
  obtain ns where "notify_pending_approval g p db = db\<lparr>t_notifications := ns\<rparr>" using notify_frame by blast
  then show ?thesis unfolding gates_only_def by (intro exI [of _ "t_gates db"] exI [of _ ns]) simp
qed

lemma gates_only_tables:
  assumes "gates_only db db'"
  shows "t_line_definitions db' = t_line_definitions db" "t_line_versions db' = t_line_versions db"
    "t_step_runs db' = t_step_runs db" "t_stories db' = t_stories db" "t_roles db' = t_roles db"
    "t_participations db' = t_participations db" "t_verdicts db' = t_verdicts db"
  using assms unfolding gates_only_def by auto

lemma gates_only_refl: "gates_only db db"
  by (rule gates_onlyI [where gs = "t_gates db"]) simp

lemma create_gate_frame:
  assumes "create_gate a fresh now db = Inr (g, db')"
  shows "gates_only db db'"
proof -
  obtain r db1 where f: "find_gate_slot_with_pr_fallback (ca_slot a) (ca_pr_number a) (norm_repo_opt (ca_repo a)) db = Inr (r, db1)"
    using assms by (auto simp: create_gate_def split: sum.splits)
  have one: "gates_only db db1" using find_slot_frame [OF f] gates_onlyI by blast
  show ?thesis
  proof (cases r)
    case (Some x)
    show ?thesis
    proof (cases "g_status x = Rejected")
      case True
      then have "db' = snd (reopen_rejected_gate x a now db1)" using assms f Some by (simp add: create_gate_def)
      moreover have "gates_only db1 (snd (reopen_rejected_gate x a now db1))"
        unfolding reopen_rejected_gate_def Let_def
        by (auto intro: gates_only_trans [OF gates_only_upd gates_only_notify] gates_only_upd)
      ultimately show ?thesis using one gates_only_trans by blast
    next
      case False
      then show ?thesis using assms f Some one by (simp add: create_gate_def)
    qed
  next
    case None
    then have "db' = (let st = initial_status db1 (sl_org (ca_slot a)) (ca_member a) (ca_role a) (sl_gate_type (ca_slot a));
                          x = new_gate a fresh st now; db2 = db1\<lparr>t_gates := t_gates db1 @ [x]\<rparr>
                      in if st = Pending \<and> ca_notify a then notify_pending_approval x (ca_project a) db2 else db2)"
      using assms f by (simp add: create_gate_def Let_def)
    moreover have "gates_only db1 (db1\<lparr>t_gates := t_gates db1 @ [x]\<rparr>)" for x by (rule gates_onlyI) simp
    ultimately have "gates_only db1 db'"
      by (auto simp: Let_def intro: gates_only_trans [OF _ gates_only_notify])
    then show ?thesis using one gates_only_trans by blast
  qed
qed

section \<open>The steps\<close>

inductive line_step :: "(real \<Rightarrow> string) \<Rightarrow> gate_db \<Rightarrow> gate_db \<Rightarrow> bool" for rp where
  line_draft: "create_draft rp sc config m i db = Inr (v, db') \<Longrightarrow> i \<notin> lv_id ` set (t_line_versions db) \<Longrightarrow>
    line_step rp db db'"
| line_edit: "get_version i db = Some v \<Longrightarrow> update_draft_config rp v config db = Inr db' \<Longrightarrow> line_step rp db db'"
| line_request: "get_version i db = Some v \<Longrightarrow> request_publish org v m ids now db = (res, db') \<Longrightarrow>
    pn_definition ids \<notin> ld_id ` set (t_line_definitions db) \<Longrightarrow> line_step rp db db'"
| line_complete: "get_version i db = Some v \<Longrightarrow> lv_review_gate_id v = Some k \<Longrightarrow> find_org_gate (lv_org v) k db = Some g \<Longrightarrow>
    complete_publish v g resolver auto fresh now db = Inr db' \<Longrightarrow>
    fresh \<notin> ld_id ` set (t_line_definitions db) \<Longrightarrow> line_step rp db db'"
| line_close: "get_version i db = Some v \<Longrightarrow> new \<in> {V_rejected, V_retired} \<Longrightarrow> transition_version v new db = Inr db' \<Longrightarrow>
    line_step rp db db'"
| line_seed: "seed_default_story_line rp org config fresh_def fresh_ver now db = Inr (r, db') \<Longrightarrow>
    fresh_def \<notin> ld_id ` set (t_line_definitions db) \<Longrightarrow> fresh_ver \<notin> lv_id ` set (t_line_versions db) \<Longrightarrow>
    line_step rp db db'"
| line_other: "t_line_definitions db' = t_line_definitions db \<Longrightarrow> t_line_versions db' = t_line_versions db \<Longrightarrow>
    line_step rp db db'"

definition line_init :: "gate_db \<Rightarrow> bool" where
  "line_init db \<longleftrightarrow> t_line_definitions db = [] \<and> t_line_versions db = []"

section \<open>The invariant\<close>

definition version_ok :: "(real \<Rightarrow> string) \<Rightarrow> line_version \<Rightarrow> bool" where
  "version_ok rp v \<longleftrightarrow> lv_config_hash v = compute_config_hash rp (lv_config v)
     \<and> (lv_status v \<in> {V_pending_review, V_published, V_rejected} \<longrightarrow> lint_config (lv_config v) = Inr [])
     \<and> (lv_review_gate_id v \<noteq> None \<longrightarrow> lv_status v \<noteq> V_draft \<and> lint_config (lv_config v) = Inr [])
     \<and> (lv_line_definition_id v \<noteq> None \<longrightarrow> lv_status v \<noteq> V_draft)"

definition pointer_ok :: "line_definition list \<Rightarrow> line_version \<Rightarrow> bool" where
  \<comment> \<open>a version that was published has its definition, with its hash and its number\<close>
  "pointer_ok ds v \<longleftrightarrow> (case lv_line_definition_id v of None \<Rightarrow> lv_status v \<noteq> V_published
     | Some i \<Rightarrow> (\<exists>d \<in> set ds. ld_id d = i \<and> definition_scope d = version_scope v
           \<and> ld_config_hash d = Some (lv_config_hash v) \<and> ld_version d = lv_version v))"

definition active_scopes :: "line_definition list \<Rightarrow> line_scope list" where
  "active_scopes ds = map definition_scope (filter ld_is_active ds)"

definition version_keys :: "line_version list \<Rightarrow> (line_scope \<times> nat) list" where
  "version_keys vs = map (\<lambda>v. (version_scope v, lv_version v)) vs"

definition line_inv :: "(real \<Rightarrow> string) \<Rightarrow> gate_db \<Rightarrow> bool" where
  "line_inv rp db \<longleftrightarrow> distinct (map lv_id (t_line_versions db)) \<and> distinct (map ld_id (t_line_definitions db))
     \<and> distinct (active_scopes (t_line_definitions db)) \<and> distinct (version_keys (t_line_versions db))
     \<and> list_all (version_ok rp) (t_line_versions db) \<and> list_all (pointer_ok (t_line_definitions db)) (t_line_versions db)"

lemma line_inv_cong:
  "t_line_definitions db' = t_line_definitions db \<Longrightarrow> t_line_versions db' = t_line_versions db \<Longrightarrow> line_inv rp db' = line_inv rp db"
  by (simp add: line_inv_def)

lemma line_init_inv: "line_init db \<Longrightarrow> line_inv rp db"
  by (simp add: line_init_def line_inv_def active_scopes_def version_keys_def)

interpretation version_rows: row_table lv_id "find_row lv_id" "upd_row lv_id"
  by (rule row_table_rows)

lemma get_version_in: "get_version i db = Some v \<Longrightarrow> v \<in> set (t_line_versions db) \<and> lv_id v = i"
  unfolding get_version_def using version_rows.get_key by blast

lemma upd_version_tables [simp]:
  "t_line_definitions (upd_version i f db) = t_line_definitions db"
  "t_line_versions (upd_version i f db) = upd_row lv_id i f (t_line_versions db)"
  by (simp_all add: upd_version_def)

text \<open>An update of one version that keeps its key, and leaves the row and its pointer in order.\<close>

definition keeps_key :: "(line_version \<Rightarrow> line_version) \<Rightarrow> bool" where
  "keeps_key f \<longleftrightarrow> (\<forall>v. lv_id (f v) = lv_id v \<and> version_scope (f v) = version_scope v \<and> lv_version (f v) = lv_version v)"

lemma upd_version_inv:
  assumes inv: "line_inv rp db" and key: "keeps_key f"
    and row: "\<And>v. v \<in> set (t_line_versions db) \<Longrightarrow> lv_id v = i \<Longrightarrow> version_ok rp (f v) \<and> pointer_ok (t_line_definitions db) (f v)"
  shows "line_inv rp (upd_version i f db)"
proof -
  have "map lv_id (upd_row lv_id i f (t_line_versions db)) = map lv_id (t_line_versions db)"
    using key by (simp add: version_rows.keys_upd keeps_key_def)
  moreover have "version_keys (upd_row lv_id i f (t_line_versions db)) = version_keys (t_line_versions db)"
    using key by (simp add: version_keys_def upd_row_def keeps_key_def)
  moreover have "list_all (version_ok rp) (upd_row lv_id i f (t_line_versions db))"
    "list_all (pointer_ok (t_line_definitions db)) (upd_row lv_id i f (t_line_versions db))"
    using inv row by (auto simp: line_inv_def list_all_iff upd_row_def)
  ultimately show ?thesis using inv by (simp add: line_inv_def)
qed

lemma only_version:
  assumes "line_inv rp db" "get_version i db = Some v" "x \<in> set (t_line_versions db)" "lv_id x = i"
  shows "x = v"
  using assms find_row_member [of lv_id "t_line_versions db" x] by (simp add: line_inv_def get_version_def)

lemma version_okD:
  assumes "line_inv rp db" "get_version i db = Some v"
  shows "version_ok rp v" "pointer_ok (t_line_definitions db) v"
  using assms get_version_in unfolding line_inv_def list_all_iff by blast+

section \<open>Version numbers\<close>

lemma foldr_max_ge: "x \<in> set xs \<Longrightarrow> x \<le> foldr max xs (0 :: nat)"
  by (induction xs) auto

lemma next_version_fresh: "v \<in> set (t_line_versions db) \<Longrightarrow> (version_scope v, lv_version v) \<noteq> (sc, next_version sc db)"
proof
  assume v: "v \<in> set (t_line_versions db)" and "(version_scope v, lv_version v) = (sc, next_version sc db)"
  then have sc: "version_scope v = sc" and eq: "lv_version v = next_version sc db" by simp_all
  have "lv_version v \<in> lv_version ` {x \<in> set (t_line_versions db). version_scope x = sc}" using v sc by (intro imageI) simp
  then have "lv_version v \<in> set (map lv_version (filter (\<lambda>v. version_scope v = sc) (t_line_versions db)))" by simp
  then have "lv_version v < next_version sc db" unfolding next_version_def by (drule_tac foldr_max_ge) simp
  then show False using eq by simp
qed

lemma add_version_inv:
  assumes inv: "line_inv rp db" and "lv_id v \<notin> lv_id ` set (t_line_versions db)"
    and "lv_version v = next_version (version_scope v) db"
    and "version_ok rp v" "pointer_ok (t_line_definitions db) v"
  shows "line_inv rp (db\<lparr>t_line_versions := t_line_versions db @ [v]\<rparr>)"
proof -
  have "(version_scope v, lv_version v) \<notin> set (version_keys (t_line_versions db))"
  proof
    assume "(version_scope v, lv_version v) \<in> set (version_keys (t_line_versions db))"
    then obtain x where "x \<in> set (t_line_versions db)" "(version_scope x, lv_version x) = (version_scope v, lv_version v)"
      by (auto simp: version_keys_def)
    then show False using next_version_fresh [of x db "version_scope v"] assms(3) by simp
  qed
  then have "distinct (version_keys (t_line_versions db @ [v]))" using inv by (simp add: line_inv_def version_keys_def)
  moreover have "distinct (map lv_id (t_line_versions db @ [v]))" using inv assms(2) by (simp add: line_inv_def)
  ultimately show ?thesis using inv assms(4,5) by (simp add: line_inv_def)
qed

section \<open>The pointer\<close>

lemma retire_active_tables [simp]: "t_line_versions (retire_active P now db) = t_line_versions db"
  by (simp add: retire_active_def)

definition retired :: "timestamp \<Rightarrow> (line_definition \<Rightarrow> bool) \<Rightarrow> line_definition \<Rightarrow> line_definition" where
  "retired now P d = (if ld_is_active d \<and> P d then d\<lparr>ld_is_active := False, ld_retired_at := Some now\<rparr> else d)"

lemma retired_fields [simp]:
  "ld_id (retired now P d) = ld_id d" "definition_scope (retired now P d) = definition_scope d"
  "ld_config_hash (retired now P d) = ld_config_hash d" "ld_version (retired now P d) = ld_version d"
  "ld_is_active (retired now P d) \<longleftrightarrow> ld_is_active d \<and> \<not> P d"
  by (auto simp: retired_def definition_scope_def)

lemma retire_active_retired:
  "t_line_definitions (retire_active P now db) = map (retired now P) (t_line_definitions db)"
  by (simp add: retire_active_def retired_def cong: map_cong)

lemma pointer_ok_mono:
  assumes "pointer_ok ds v"
    and "\<And>d. d \<in> set ds \<Longrightarrow> \<exists>e \<in> set es. ld_id e = ld_id d \<and> definition_scope e = definition_scope d
           \<and> ld_config_hash e = ld_config_hash d \<and> ld_version e = ld_version d"
  shows "pointer_ok es v"
  using assms unfolding pointer_ok_def by (auto split: option.splits) metis

lemma pointer_ok_retired: "pointer_ok ds v \<Longrightarrow> pointer_ok (map (retired now P) ds) v"
  by (rule pointer_ok_mono) (auto intro!: bexI)

lemma pointer_ok_append: "pointer_ok ds v \<Longrightarrow> pointer_ok (ds @ [d]) v"
  by (rule pointer_ok_mono) auto

lemma active_scopes_retired:
  "active_scopes (map (retired now P) ds) = map definition_scope (filter (\<lambda>d. ld_is_active d \<and> \<not> P d) ds)"
  by (induction ds) (auto simp: active_scopes_def)

lemma retire_active_inv:
  assumes inv: "line_inv rp db"
  shows "line_inv rp (retire_active P now db)"
proof -
  have "ld_id \<circ> retired now P = ld_id" by (rule ext) simp
  then have "distinct (map (ld_id \<circ> retired now P) (t_line_definitions db))" using inv by (simp add: line_inv_def)
  moreover have "distinct (active_scopes (map (retired now P) (t_line_definitions db)))"
    using inv distinct_map_filter [of definition_scope "filter ld_is_active (t_line_definitions db)" "\<lambda>d. \<not> P d"]
    unfolding active_scopes_retired by (simp add: line_inv_def active_scopes_def filter_filter conj_commute)
  ultimately show ?thesis
    using inv unfolding line_inv_def retire_active_retired by (auto simp: list_all_iff intro: pointer_ok_retired)
qed

lemma insert_definition_result:
  assumes "insert_definition d db = Inr db'"
  shows "db' = db\<lparr>t_line_definitions := t_line_definitions db @ [d]\<rparr>"
    "ld_is_active d \<Longrightarrow> definition_scope d \<notin> set (active_scopes (t_line_definitions db))"
  using assms by (auto simp: insert_definition_def active_scopes_def list_ex_iff split: if_splits)

lemma insert_definition_inv:
  assumes inv: "line_inv rp db" and ins: "insert_definition d db = Inr db'"
    and id: "ld_id d \<notin> ld_id ` set (t_line_definitions db)"
  shows "line_inv rp db'"
proof -
  note r = insert_definition_result [OF ins]
  have "distinct (active_scopes (t_line_definitions db @ [d]))"
    using inv r(2) by (auto simp: line_inv_def active_scopes_def)
  moreover have "distinct (map ld_id (t_line_definitions db @ [d]))" using inv id by (simp add: line_inv_def)
  ultimately show ?thesis
    using inv unfolding r(1) line_inv_def by (auto simp: list_all_iff intro: pointer_ok_append)
qed

section \<open>Every step keeps the invariant\<close>

lemma create_draft_inv:
  assumes "line_inv rp db" "create_draft rp sc config m i db = Inr (v, db')" "i \<notin> lv_id ` set (t_line_versions db)"
  shows "line_inv rp db'"
proof -
  obtain es where v: "v = new_version rp i sc config m es (next_version sc db)"
    and db': "db' = db\<lparr>t_line_versions := t_line_versions db @ [v]\<rparr>"
    using assms(2) by (auto simp: create_draft_def res_bind_Inr Let_def)
  show ?thesis unfolding db'
    by (rule add_version_inv [OF assms(1)])
       (use assms(3) in \<open>simp_all add: v new_version_def version_ok_def pointer_ok_def version_scope_def\<close>)
qed

lemma update_draft_inv:
  assumes inv: "line_inv rp db" and v: "get_version i db = Some v" and u: "update_draft_config rp v config db = Inr db'"
  shows "line_inv rp db'"
proof -
  define f where "f = (\<lambda>es x. linted es (x\<lparr>lv_config := config, lv_config_hash := compute_config_hash rp config\<rparr>))"
  have i: "lv_id v = i" using get_version_in [OF v] by simp
  from u obtain es where draft: "lv_status v = V_draft" and db': "db' = upd_version i (f es) db"
    by (auto simp: update_draft_config_def res_bind_Inr f_def i split: if_splits)
  have ok: "version_ok rp v" "pointer_ok (t_line_definitions db) v" by (rule version_okD [OF inv v])+
  have "line_inv rp (upd_version i (f es) db)"
  proof (rule upd_version_inv [OF inv])
    show "keeps_key (f es)" by (simp add: keeps_key_def f_def linted_def version_scope_def)
    show "version_ok rp (f es x) \<and> pointer_ok (t_line_definitions db) (f es x)"
      if "x \<in> set (t_line_versions db)" "lv_id x = i" for x
      using only_version [OF inv v that] ok draft
      by (auto simp: version_ok_def pointer_ok_def f_def linted_def split: option.splits)
  qed
  then show ?thesis by (simp add: db')
qed

lemma transition_version_result:
  "transition_version v new db = Inr db' \<Longrightarrow> is_valid_version_transition (lv_status v) new
     \<and> db' = upd_version (lv_id v) (\<lambda>x. x\<lparr>lv_status := new\<rparr>) db"
  by (simp add: transition_version_def split: if_splits)

lemma set_status_key: "keeps_key (\<lambda>x. x\<lparr>lv_status := s\<rparr>)"
  by (simp add: keeps_key_def version_scope_def)

lemma close_inv:
  assumes inv: "line_inv rp db" and v: "get_version i db = Some v" and new: "new \<in> {V_rejected, V_retired}"
    and t: "transition_version v new db = Inr db'"
  shows "line_inv rp db'"
proof -
  have i: "lv_id v = i" using get_version_in [OF v] by simp
  have valid: "is_valid_version_transition (lv_status v) new" and db': "db' = upd_version i (\<lambda>x. x\<lparr>lv_status := new\<rparr>) db"
    using transition_version_result [OF t] i by simp_all
  have ok: "version_ok rp v" "pointer_ok (t_line_definitions db) v" by (rule version_okD [OF inv v])+
  show ?thesis unfolding db'
  proof (rule upd_version_inv [OF inv set_status_key])
    show "version_ok rp (x\<lparr>lv_status := new\<rparr>) \<and> pointer_ok (t_line_definitions db) (x\<lparr>lv_status := new\<rparr>)"
      if "x \<in> set (t_line_versions db)" "lv_id x = i" for x
      using only_version [OF inv v that] ok new valid
      by (cases "lv_status v") (auto simp: version_ok_def pointer_ok_def version_scope_def split: option.splits)
  qed
qed

text \<open>Completion: the version is published, the old pointer retired, the new one set.\<close>

lemma complete_publish_result:
  assumes "complete_publish v g resolver auto fresh now db = Inr db'"
  shows "db' = db \<and> lv_status v = V_published \<or>
    (\<exists>db3. insert_definition (definition_of v fresh now)
        (retire_active (\<lambda>d. definition_scope d = version_scope v) now
          (upd_version (lv_id v) (\<lambda>x. x\<lparr>lv_status := V_published, lv_published_at := Some now, lv_reviewed_by := resolver\<rparr>) db)) = Inr db3
      \<and> db' = upd_version (lv_id v) (\<lambda>x. x\<lparr>lv_line_definition_id := Some fresh\<rparr>) db3)"
  using assms by (auto simp: complete_publish_def Let_def res_bind_Inr split: if_splits)

definition pre_published :: "uuid option \<Rightarrow> timestamp \<Rightarrow> uuid \<Rightarrow> line_version \<Rightarrow> line_version" where
  "pre_published resolver now fresh x = x\<lparr>lv_status := V_published, lv_published_at := Some now, lv_reviewed_by := resolver,
     lv_line_definition_id := Some fresh\<rparr>"

lemma upd_version_row_twice:
  "(\<And>r. key (f r) = key r) \<Longrightarrow> upd_row key i h (upd_row key i f rs) = upd_row key i (\<lambda>r. h (f r)) rs"
  by (simp add: upd_row_def)

lemma complete_publish_inv:
  assumes inv: "line_inv rp db" and v: "get_version i db = Some v" and k: "lv_review_gate_id v \<noteq> None"
    and c: "complete_publish v g resolver auto fresh now db = Inr db'"
    and id: "fresh \<notin> ld_id ` set (t_line_definitions db)"
  shows "line_inv rp db'"
proof (rule disjE [OF complete_publish_result [OF c]], goal_cases)
  case 2
  have i: "lv_id v = i" using get_version_in [OF v] by simp
  have ok: "version_ok rp v" "pointer_ok (t_line_definitions db) v" by (rule version_okD [OF inv v])+
  define P where "P = (\<lambda>d. definition_scope d = version_scope v)"
  define d where "d = definition_of v fresh now"
  obtain db3 where ins: "insert_definition d (retire_active P now
      (upd_version i (\<lambda>x. x\<lparr>lv_status := V_published, lv_published_at := Some now, lv_reviewed_by := resolver\<rparr>) db)) = Inr db3"
    and db': "db' = upd_version i (\<lambda>x. x\<lparr>lv_line_definition_id := Some fresh\<rparr>) db3"
    using 2 by (auto simp: P_def d_def i)
  have defs3: "t_line_definitions db3 = map (retired now P) (t_line_definitions db) @ [d]"
    using insert_definition_result(1) [OF ins] by (simp add: retire_active_retired)
  have vers3: "t_line_versions db3 = upd_row lv_id i (\<lambda>x. x\<lparr>lv_status := V_published, lv_published_at := Some now,
      lv_reviewed_by := resolver\<rparr>) (t_line_versions db)"
    using insert_definition_result(1) [OF ins] by simp
  have defs': "t_line_definitions db' = map (retired now P) (t_line_definitions db) @ [d]" by (simp add: db' defs3)
  have vers': "t_line_versions db' = upd_row lv_id i (pre_published resolver now fresh) (t_line_versions db)"
    by (simp add: db' vers3 upd_version_row_twice pre_published_def [abs_def])
  have d': "ld_is_active d" "ld_id d = fresh" "definition_scope d = version_scope v"
    "ld_config_hash d = Some (lv_config_hash v)" "ld_version d = lv_version v"
    by (simp_all add: d_def definition_of_def definition_scope_def version_scope_def)
  have "insert_definition d (retire_active P now db) = Inr (db\<lparr>t_line_definitions := map (retired now P) (t_line_definitions db) @ [d]\<rparr>)"
  proof -
    have "\<not> list_ex (\<lambda>x. ld_is_active x \<and> definition_scope x = definition_scope d) (t_line_definitions (retire_active P now db))"
      by (auto simp: retire_active_retired list_ex_iff P_def d')
    then show ?thesis by (simp add: insert_definition_def retire_active_def retired_def cong: map_cong)
  qed
  from insert_definition_inv [OF retire_active_inv [OF inv] this]
  have base: "line_inv rp (db\<lparr>t_line_definitions := map (retired now P) (t_line_definitions db) @ [d]\<rparr>)" (is "line_inv rp ?db2")
    using id by (force simp: retire_active_retired d')
  have "line_inv rp (upd_version i (pre_published resolver now fresh) ?db2)"
  proof (rule upd_version_inv [OF base])
    show "keeps_key (pre_published resolver now fresh)" by (simp add: keeps_key_def pre_published_def version_scope_def)
    show "version_ok rp (pre_published resolver now fresh x) \<and> pointer_ok (t_line_definitions ?db2) (pre_published resolver now fresh x)"
      if "x \<in> set (t_line_versions ?db2)" "lv_id x = i" for x
    proof -
      have "x = v" using only_version [OF inv v] that by simp
      then show ?thesis using ok k d' by (auto simp: version_ok_def pointer_ok_def pre_published_def version_scope_def)
    qed
  qed
  then show ?case by (rule iffD2 [OF line_inv_cong, rotated 2]) (simp_all add: defs' vers')
qed (use inv in simp)

text \<open>A publish request: lint, review status, gate, and completion where the policy passes it at once.\<close>

lemma linted_key: "keeps_key (linted es)"
  by (simp add: keeps_key_def linted_def version_scope_def)

lemma linted_inv:
  assumes "line_inv rp db" "get_version i db = Some v"
  shows "line_inv rp (upd_version i (linted es) db)"
proof (rule upd_version_inv [OF assms(1) linted_key])
  show "version_ok rp (linted es x) \<and> pointer_ok (t_line_definitions db) (linted es x)"
    if "x \<in> set (t_line_versions db)" "lv_id x = i" for x
    using only_version [OF assms that] version_okD [OF assms]
    by (auto simp: version_ok_def pointer_ok_def linted_def version_scope_def split: option.splits)
qed

lemma get_upd_version:
  "keeps_key f \<Longrightarrow> get_version i (upd_version i f db) = map_option f (get_version i db)"
  unfolding get_version_def upd_version_def by (simp add: version_rows.get_upd_same keeps_key_def)

lemma reviewing_inv:
  assumes inv: "line_inv rp db" and v: "get_version i db = Some v" and l: "lint_config (lv_config v) = Inr []"
    and s: "lv_status v = V_draft"
  shows "line_inv rp (upd_version i (\<lambda>x. x\<lparr>lv_status := V_pending_review\<rparr>) db)"
proof (rule upd_version_inv [OF inv set_status_key])
  show "version_ok rp (x\<lparr>lv_status := V_pending_review\<rparr>) \<and> pointer_ok (t_line_definitions db) (x\<lparr>lv_status := V_pending_review\<rparr>)"
    if "x \<in> set (t_line_versions db)" "lv_id x = i" for x
    using only_version [OF inv v that] version_okD [OF inv v] l s
    by (auto simp: version_ok_def pointer_ok_def version_scope_def split: option.splits)
qed

lemma review_gate_inv:
  assumes inv: "line_inv rp db" and v: "get_version i db = Some v" and s: "lv_status v = V_pending_review"
  shows "line_inv rp (upd_version i (\<lambda>x. x\<lparr>lv_review_gate_id := Some k\<rparr>) db)"
proof (rule upd_version_inv [OF inv])
  show "keeps_key (\<lambda>x. x\<lparr>lv_review_gate_id := Some k\<rparr>)" by (simp add: keeps_key_def version_scope_def)
  show "version_ok rp (x\<lparr>lv_review_gate_id := Some k\<rparr>) \<and> pointer_ok (t_line_definitions db) (x\<lparr>lv_review_gate_id := Some k\<rparr>)"
    if "x \<in> set (t_line_versions db)" "lv_id x = i" for x
    using only_version [OF inv v that] version_okD [OF inv v] s
    by (auto simp: version_ok_def pointer_ok_def version_scope_def split: option.splits)
qed

lemma request_publish_cases:
  assumes r: "request_publish org v m ids now db = (res, db')"
  obtains (nothing) e where "db' = db" "res = Inl e"
  | (lint) es e where "lint_config (lv_config v) = Inr es" "db' = upd_version (lv_id v) (linted es) db" "res = Inl e"
  | (gate) db2 role g db3 db4 where
      "lint_config (lv_config v) = Inr []"
      "(lv_status v = V_pending_review \<and> db2 = upd_version (lv_id v) (linted []) db)
        \<or> (lv_status v = V_draft
            \<and> db2 = upd_version (lv_id v) (\<lambda>x. x\<lparr>lv_status := V_pending_review\<rparr>) (upd_version (lv_id v) (linted []) db))"
      "create_gate (publish_args org v m role) (pn_gate ids) now db2 = Inr (g, db3)"
      "db4 = upd_version (lv_id v) (\<lambda>x. x\<lparr>lv_review_gate_id := Some (g_id g)\<rparr>) db3"
      "db' = db4 \<or> (\<exists>v'. get_version (lv_id v) db4 = Some v'
          \<and> complete_publish v' g None True (pn_definition ids) now db4 = Inr db')" "res = Inr g"
proof (cases "lint_config (lv_config v)")
  case (Inl e)
  then have "db' = db" "res = Inl e" using r by (simp_all add: request_publish_def)
  then show thesis by (rule nothing)
next
  case (Inr es)
  show thesis
  proof (cases "es = []")
    case False
    then have "db' = upd_version (lv_id v) (linted es) db" "res = Inl (PublishLintError es)"
      using r Inr by (simp_all add: request_publish_def Let_def)
    then show thesis by (rule lint [OF Inr])
  next
    case True
    define db1 where "db1 = upd_version (lv_id v) (linted []) db"
    define mid where "mid = (if lv_status v \<notin> {V_draft, V_pending_review, V_rejected} then Inl (ValueError ''cannot request publish'')
                    else if lv_status v \<noteq> V_pending_review then transition_version v V_pending_review db1 else Inr db1)"
    show thesis
    proof (cases mid)
      case (Inl e)
      then have "db' = db \<and> res = Inl e" using r \<open>lint_config (lv_config v) = Inr es\<close> True
        unfolding request_publish_def Let_def mid_def db1_def by (simp split: if_splits)
      then have "db' = db" "res = Inl e" by simp_all
      then show thesis by (rule nothing)
    next
      case (Inr db2)
      define role where "role = (case default_role_id org db2 of Some x \<Rightarrow> x | None \<Rightarrow> pn_role ids)"
      have st: "(lv_status v = V_pending_review \<and> db2 = db1)
         \<or> (lv_status v = V_draft \<and> db2 = upd_version (lv_id v) (\<lambda>x. x\<lparr>lv_status := V_pending_review\<rparr>) db1)"
        using Inr by (cases "lv_status v") (auto simp: mid_def transition_version_def)
      have req: "request_publish org v m ids now db =
          (case create_gate (publish_args org v m role) (pn_gate ids) now db2 of
                     Inl e \<Rightarrow> (Inl e, db)
                   | Inr (g, db3) \<Rightarrow>
                       (let db4 = upd_version (lv_id v) (\<lambda>x. x\<lparr>lv_review_gate_id := Some (g_id g)\<rparr>) db3 in
                        if g_status g \<in> {Approved, Auto_passed}
                        then (case get_version (lv_id v) db4 of
                                None \<Rightarrow> (Inl (ValueError ''version not found''), db)
                              | Some v' \<Rightarrow>
                                  (case complete_publish v' g None True (pn_definition ids) now db4 of
                                     Inl e \<Rightarrow> (Inl e, db)
                                   | Inr db5 \<Rightarrow> (Inr g, db5)))
                        else (Inr g, db4)))"
        using \<open>lint_config (lv_config v) = Inr es\<close> True Inr
        unfolding request_publish_def Let_def mid_def db1_def role_def by (simp split del: if_split)
      show thesis
      proof (cases "create_gate (publish_args org v m role) (pn_gate ids) now db2")
        case (Inl e)
        then have "db' = db" "res = Inl e" using req r by simp_all
        then show thesis by (rule nothing)
      next
        case (Inr p)
        obtain g db3 where p: "p = (g, db3)" by (cases p)
        define db4 where "db4 = upd_version (lv_id v) (\<lambda>x. x\<lparr>lv_review_gate_id := Some (g_id g)\<rparr>) db3"
        have "(\<exists>e. db' = db \<and> res = Inl e) \<or> (db' = db4 \<or> (\<exists>v'. get_version (lv_id v) db4 = Some v'
          \<and> complete_publish v' g None True (pn_definition ids) now db4 = Inr db')) \<and> res = Inr g"
          using r unfolding req Inr p by (auto simp: db4_def Let_def split: if_splits option.splits sum.splits)
        then show thesis
        proof
          assume "\<exists>e. db' = db \<and> res = Inl e"
          then obtain e where "db' = db" "res = Inl e" by blast
          then show thesis by (rule nothing)
        next
          assume a: "(db' = db4 \<or> (\<exists>v'. get_version (lv_id v) db4 = Some v'
            \<and> complete_publish v' g None True (pn_definition ids) now db4 = Inr db')) \<and> res = Inr g"
          show thesis
            by (rule gate [OF _ _ Inr [unfolded p] db4_def conjunct1 [OF a] conjunct2 [OF a]])
               (use st \<open>lint_config (lv_config v) = Inr es\<close> True in \<open>simp_all add: db1_def\<close>)
        qed
      qed
    qed
  qed
qed

lemma request_publish_inv:
  assumes inv: "line_inv rp db" and v: "get_version i db = Some v" and r: "request_publish org v m ids now db = (res, db')"
    and id: "pn_definition ids \<notin> ld_id ` set (t_line_definitions db)"
  shows "line_inv rp db'"
  using r
proof (cases rule: request_publish_cases)
  case nothing
  then show ?thesis using inv by simp
next
  case (lint es e)
  then show ?thesis using linted_inv [OF inv v] get_version_in [OF v] by simp
next
  case (gate db2 role g db3 db4)
  have i: "lv_id v = i" using get_version_in [OF v] by simp
  let ?db1 = "upd_version i (linted []) db"
  have inv1: "line_inv rp ?db1" by (rule linted_inv [OF inv v])
  have v1: "get_version i ?db1 = Some (linted [] v)" by (simp add: get_upd_version [OF linted_key] v)
  have 2: "line_inv rp db2 \<and> (\<exists>v2. get_version i db2 = Some v2 \<and> lv_status v2 = V_pending_review)
      \<and> t_line_definitions db2 = t_line_definitions db"
    using gate(2)
  proof
    assume a: "lv_status v = V_pending_review \<and> db2 = upd_version (lv_id v) (linted []) db"
    then show ?thesis using inv1 v1 by (simp add: i linted_def)
  next
    assume a: "lv_status v = V_draft
       \<and> db2 = upd_version (lv_id v) (\<lambda>x. x\<lparr>lv_status := V_pending_review\<rparr>) (upd_version (lv_id v) (linted []) db)"
    have "line_inv rp (upd_version i (\<lambda>x. x\<lparr>lv_status := V_pending_review\<rparr>) ?db1)"
      by (rule reviewing_inv [OF inv1 v1]) (use a gate(1) in \<open>simp_all add: linted_def\<close>)
    then show ?thesis using a by (simp add: i get_upd_version [OF set_status_key] v1)
  qed
  then obtain v2 where v2: "get_version i db2 = Some v2" "lv_status v2 = V_pending_review" by blast
  note f = gates_only_tables [OF create_gate_frame [OF gate(3)]]
  have inv3: "line_inv rp db3" using 2 line_inv_cong [OF f(1,2)] by simp
  have v3: "get_version i db3 = Some v2" using v2 by (simp add: get_version_def f)
  have inv4: "line_inv rp db4" unfolding gate(4) i by (rule review_gate_inv [OF inv3 v3 v2(2)])
  have v4: "get_version i db4 = Some (v2\<lparr>lv_review_gate_id := Some (g_id g)\<rparr>)"
    unfolding gate(4) i by (simp add: get_upd_version keeps_key_def version_scope_def v3)
  have defs4: "t_line_definitions db4 = t_line_definitions db" using 2 f(1) by (simp add: gate(4))
  from gate(5) show ?thesis
  proof
    assume "\<exists>v'. get_version (lv_id v) db4 = Some v' \<and> complete_publish v' g None True (pn_definition ids) now db4 = Inr db'"
    then have "complete_publish (v2\<lparr>lv_review_gate_id := Some (g_id g)\<rparr>) g None True (pn_definition ids) now db4 = Inr db'"
      using v4 i by simp
    then show ?thesis by (rule complete_publish_inv [OF inv4 v4, rotated]) (use id defs4 in simp_all)
  qed (use inv4 in simp)
qed

text \<open>The seed.\<close>

definition seed_retired :: "uuid option set \<Rightarrow> line_version \<Rightarrow> line_version" where
  "seed_retired ids v = (if lv_line_definition_id v \<in> ids \<and> lv_status v = V_published then v\<lparr>lv_status := V_retired\<rparr> else v)"

lemma seed_retired_fields [simp]:
  "lv_id (seed_retired ids v) = lv_id v" "version_scope (seed_retired ids v) = version_scope v"
  "lv_version (seed_retired ids v) = lv_version v" "lv_line_definition_id (seed_retired ids v) = lv_line_definition_id v"
  "lv_config (seed_retired ids v) = lv_config v" "lv_config_hash (seed_retired ids v) = lv_config_hash v"
  by (simp_all add: seed_retired_def version_scope_def)

lemma seed_retired_ok:
  "version_ok rp v \<Longrightarrow> version_ok rp (seed_retired ids v)"
  "pointer_ok ds v \<Longrightarrow> pointer_ok ds (seed_retired ids v)"
  by (auto simp: seed_retired_def version_ok_def pointer_ok_def version_scope_def split: option.splits)

lemma seed_retired_inv:
  assumes "line_inv rp db"
  shows "line_inv rp (db\<lparr>t_line_versions := map (seed_retired ids) (t_line_versions db)\<rparr>)"
proof -
  have "lv_id \<circ> seed_retired ids = lv_id" by (rule ext) simp
  then have "distinct (map lv_id (map (seed_retired ids) (t_line_versions db)))" using assms by (simp add: line_inv_def)
  moreover have "version_keys (map (seed_retired ids) (t_line_versions db)) = version_keys (t_line_versions db)"
    by (simp add: version_keys_def)
  ultimately show ?thesis using assms seed_retired_ok by (auto simp: line_inv_def list_all_iff)
qed

lemma seed_inv:
  assumes inv: "line_inv rp db"
    and s: "seed_default_story_line rp org config fresh_def fresh_ver now db = Inr (r, db')"
    and fd: "fresh_def \<notin> ld_id ` set (t_line_definitions db)" and fv: "fresh_ver \<notin> lv_id ` set (t_line_versions db)"
  shows "line_inv rp db'"
proof -
  obtain es where l: "lint_config config = Inr es" using s by (auto simp: seed_default_story_line_def res_bind_Inr)
  define actives where "actives = filter (\<lambda>d. is_seeded org d \<and> ld_is_active d) (t_line_definitions db)"
  define db1 where "db1 = retire_active (is_seeded org) now db"
  define db2 where "db2 = db1\<lparr>t_line_versions := map (seed_retired (Some ` ld_id ` set actives)) (t_line_versions db1)\<rparr>"
  define n where "n = next_version (seed_scope org) db2"
  define v where "v = (new_version rp fresh_ver (seed_scope org) config SEED_AUTHOR [] n)
                     \<lparr>lv_line_definition_id := Some fresh_def, lv_status := V_published, lv_published_at := Some now\<rparr>"
  define d where "d = seed_definition rp org config n fresh_def now"
  have inv2: "line_inv rp db2" unfolding db2_def db1_def by (rule seed_retired_inv [OF retire_active_inv [OF inv]])
  have "db' = db \<or> (es = [] \<and> (\<exists>db3. insert_definition d db2 = Inr db3
      \<and> db' = db3\<lparr>t_line_versions := t_line_versions db3 @ [v]\<rparr>))"
    using s unfolding seed_default_story_line_def l res_bind_simps Let_def
    by (auto simp: res_bind_Inr actives_def db1_def db2_def n_def v_def d_def seed_retired_def [abs_def] split: if_splits)
  then show ?thesis
  proof
    assume a: "es = [] \<and> (\<exists>db3. insert_definition d db2 = Inr db3 \<and> db' = db3\<lparr>t_line_versions := t_line_versions db3 @ [v]\<rparr>)"
    then obtain db3 where ins: "insert_definition d db2 = Inr db3"
      and db': "db' = db3\<lparr>t_line_versions := t_line_versions db3 @ [v]\<rparr>" by blast
    note r = insert_definition_result(1) [OF ins]
    have did: "ld_id d = fresh_def" "definition_scope d = seed_scope org" "ld_version d = n"
      "ld_config_hash d = Some (compute_config_hash rp config)"
      by (simp_all add: d_def seed_definition_def definition_scope_def seed_scope_def)
    have defs2: "ld_id ` set (t_line_definitions db2) = ld_id ` set (t_line_definitions db)"
      by (simp add: db2_def db1_def retire_active_retired image_image)
    have vs2: "lv_id ` set (t_line_versions db2) = lv_id ` set (t_line_versions db)"
      by (simp add: db2_def db1_def image_image)
    have inv3: "line_inv rp db3" by (rule insert_definition_inv [OF inv2 ins]) (use fd defs2 did in simp)
    have vs3: "t_line_versions db3 = t_line_versions db2" by (simp add: r)
    have scope: "version_scope v = seed_scope org" by (simp add: v_def new_version_def version_scope_def)
    have nv: "lv_version v = next_version (version_scope v) db3"
      unfolding scope by (simp add: v_def new_version_def n_def next_version_def vs3)
    show ?thesis unfolding db'
    proof (rule add_version_inv [OF inv3 _ nv])
      show "lv_id v \<notin> lv_id ` set (t_line_versions db3)" using fv vs2 by (simp add: vs3 v_def new_version_def)
      show "version_ok rp v" using a l by (simp add: v_def new_version_def version_ok_def)
      have "d \<in> set (t_line_definitions db3)" by (simp add: r)
      then show "pointer_ok (t_line_definitions db3) v"
        unfolding pointer_ok_def using did scope by (auto simp: v_def new_version_def intro!: bexI [of _ d])
    qed
  qed (use inv in simp)
qed

lemma line_step_inv:
  assumes "line_inv rp db" "line_step rp db db'"
  shows "line_inv rp db'"
  using assms(2)
proof cases
  case line_draft
  then show ?thesis using create_draft_inv [OF assms(1)] by blast
next
  case line_edit
  then show ?thesis using update_draft_inv [OF assms(1)] by blast
next
  case line_request
  then show ?thesis using request_publish_inv [OF assms(1)] by blast
next
  case line_complete
  then show ?thesis using complete_publish_inv [OF assms(1)] by auto
next
  case line_close
  then show ?thesis using close_inv [OF assms(1)] by blast
next
  case line_seed
  then show ?thesis using seed_inv [OF assms(1)] by blast
next
  case line_other
  then show ?thesis using line_inv_cong assms(1) by blast
qed

interpretation lines: transition_system line_init "line_step rp" "line_inv rp" for rp
  by unfold_locales (auto intro: line_init_inv line_step_inv)

end
