(* ===== verification/Line_Properties.thy ===== *)
theory Line_Properties
  imports Line_Machine
begin

text \<open>
  What workflow lines promise: published lines lint clean and keep their hash, the engine stops a transition
  only where policy says so, repeated failures switch it to advice, a preview tells what the real evaluation
  would do, and stories in flight pass once before they are governed.
\<close>

section \<open>The shape of an evaluation\<close>

definition governing :: "line_env \<Rightarrow> line_args \<Rightarrow> timestamp \<Rightarrow> gate_db \<Rightarrow> (string \<times> line_definition \<times> json) option" where
  \<comment> \<open>the effective mode, the active line and its published configuration\<close>
  "governing env a now db =
     (let rt = resolve_runtime_mode (le_settings env) (la_org a) now db in
      if rt = ''off'' then None
      else (case active_definition (la_org a) (la_project a) (la_entity_type a) db of
              None \<Rightarrow> None
            | Some d \<Rightarrow>
                (let config = published_config (ld_id d) db; cm = config_mode (le_str env) config; mode = min_mode rt cm in
                 if cm = ''off'' \<or> mode = ''off'' then None else Some (mode, d, config))))"

lemma evaluate_body_governing:
  "evaluate_body env a ids now db =
     (case governing env a now db of
        None \<Rightarrow> (Inr plain, db)
      | Some (mode, d, config) \<Rightarrow>
          (let (passed, db1) = pass_grandfather a now db in
           if passed then (Inr plain, db1)
           else (case match_step config (la_from a) (la_to a) of
                   Inl e \<Rightarrow> (Inl e, db1)
                 | Inr None \<Rightarrow> (Inr plain, db1)
                 | Inr (Some step) \<Rightarrow> govern env a ids now mode d step db1)))"
  by (simp add: evaluate_body_def governing_def Let_def split: option.split)

lemma governingD:
  assumes "governing env a now db = Some (mode, d, config)"
  shows "mode = min_mode (resolve_runtime_mode (le_settings env) (la_org a) now db) (config_mode (le_str env) config)"
    "active_definition (la_org a) (la_project a) (la_entity_type a) db = Some d" "config = published_config (ld_id d) db"
  using assms by (auto simp: governing_def Let_def split: if_splits option.splits)

lemma enforcing_min: "min_mode a b = ''enforcing'' \<longleftrightarrow> a = ''enforcing'' \<and> b = ''enforcing''"
  by (auto simp: min_mode_def mode_rank_def split: if_splits)

text \<open>A record either is dropped, fails for want of a project, or is one more run.\<close>

lemma record_step_run_cases:
  assumes "record_step_run a ids now status mode fill db = x"
  obtains (dropped) "x = Inr (None, db)"
  | (no_project) "la_project a = None" "\<not> la_dry_run a" "x = Inl (ValueError ''step_run project_id is required'')"
  | (stored) project r where "la_project a = Some project" "\<not> la_dry_run a"
      "r = fill (blank_run (li_run ids) (la_org a) project (la_entity_type a) (la_entity_id a) (la_from a) (la_to a) status
             mode (li_correlation ids) (la_transition_id a) now)"
      "\<not> list_ex (runs_clash r) (t_step_runs db)" "x = Inr (Some r, db\<lparr>t_step_runs := t_step_runs db @ [r]\<rparr>)"
  using assms by (auto simp: record_step_run_def Let_def split: if_splits option.splits)

lemma record_dry: "la_dry_run a \<Longrightarrow> record_step_run a ids now status mode fill db = Inr (None, db)"
  by (simp add: record_step_run_def)

lemma record_project:
  assumes "la_project a = Some p"
  shows "\<exists>r db'. record_step_run a ids now status mode fill db = Inr (r, db')"
  using assms by (simp add: record_step_run_def Let_def)

lemma record_run_tables:
  assumes "record_step_run a ids now status mode fill db = Inr (r, db')"
  shows "t_gates db' = t_gates db" "t_line_definitions db' = t_line_definitions db" "t_line_versions db' = t_line_versions db"
  using assms by (auto simp: record_step_run_def Let_def split: if_splits option.splits)

section \<open>When a transition is stopped\<close>

lemma proceeds_simps [simp]:
  "proceeds (decided Plain_transition x r)" "proceeds (decided Advisory_only x r)" "proceeds (decided Engine_failed x r)"
  "proceeds (d\<lparr>dc_relay := y\<rparr>) = proceeds d" "proceeds (d\<lparr>dc_degraded := b\<rparr>) = proceeds d"
  "proceeds (d\<lparr>dc_gate_id := y\<rparr>) = proceeds d"
  by (simp_all add: proceeds_def decided_def)

lemma govern_stops:
  assumes "govern env a ids now mode d step db = (Inr dec, db')" "\<not> proceeds dec"
  shows "mode = ''enforcing'' \<and> (jget ''enforcement'' step = JStr ''block'' \<or> is_merge_gate_step step)"
proof (rule ccontr)
  assume "\<not> ?thesis"
  then show False using assms
    by (auto simp: govern_def Let_def split: if_splits sum.splits)
qed

lemma line_stops_only_enforcing:
  assumes "\<not> proceeds (fst (evaluate_line_for_transition env a ids now db))"
  shows "resolve_runtime_mode (le_settings env) (la_org a) now db = ''enforcing'' \<and>
    (\<exists>d step. active_definition (la_org a) (la_project a) (la_entity_type a) db = Some d
      \<and> config_mode (le_str env) (published_config (ld_id d) db) = ''enforcing''
      \<and> match_step (published_config (ld_id d) db) (la_from a) (la_to a) = Inr (Some step)
      \<and> (jget ''enforcement'' step = JStr ''block'' \<or> is_merge_gate_step step))"
proof -
  obtain res db' where e: "evaluate_body env a ids now db = (res, db')" by (cases "evaluate_body env a ids now db")
  have "\<exists>dec. res = Inr dec \<and> \<not> proceeds dec"
    using assms e by (cases res) (auto simp: evaluate_line_for_transition_def engine_failed_def Let_def split: prod.splits)
  then obtain dec where dec: "res = Inr dec" "\<not> proceeds dec" by blast
  obtain mode d config where g: "governing env a now db = Some (mode, d, config)"
    using e dec by (cases "governing env a now db") (auto simp: evaluate_body_governing)
  obtain passed db1 where p: "pass_grandfather a now db = (passed, db1)" by (cases "pass_grandfather a now db")
  have body: "(if passed then (Inr plain, db1)
     else case match_step config (la_from a) (la_to a) of Inl e \<Rightarrow> (Inl e, db1) | Inr None \<Rightarrow> (Inr plain, db1)
       | Inr (Some step) \<Rightarrow> govern env a ids now mode d step db1) = (Inr dec, db')"
    using e g p dec by (simp add: evaluate_body_governing)
  then obtain step where step: "match_step config (la_from a) (la_to a) = Inr (Some step)"
    "govern env a ids now mode d step db1 = (Inr dec, db')"
    using dec(2) by (auto split: if_splits sum.splits option.splits)
  from govern_stops [OF step(2) dec(2)] governingD [OF g] step(1)
  show ?thesis by (simp add: enforcing_min)
qed

text \<open>
  C31: fail-open. If an evaluation stops a transition, then the runtime mode and the published line are both
  enforcing, the line has a step for this very transition, and that step blocks or is a merge gate. Every other
  case, exceptions inside included, lets the transition through.
\<close>

theorem line_stops_only_by_policy:
  assumes "\<not> proceeds (fst (evaluate_line_for_transition env a ids now db))"
  shows "resolve_runtime_mode (le_settings env) (la_org a) now db = ''enforcing'' \<and>
    (\<exists>d step. active_definition (la_org a) (la_project a) (la_entity_type a) db = Some d
      \<and> config_mode (le_str env) (published_config (ld_id d) db) = ''enforcing''
      \<and> match_step (published_config (ld_id d) db) (la_from a) (la_to a) = Inr (Some step)
      \<and> (jget ''enforcement'' step = JStr ''block'' \<or> is_merge_gate_step step))"
  using assms by (rule line_stops_only_enforcing)

section \<open>The circuit breaker\<close>

lemma sorted_window:
  assumes s: "sorted xs" and t: "t \<in> set xs" and n: "Suc k \<le> length (filter (\<lambda>x. lo < x \<and> x \<le> t) xs)"
  obtains j where "k \<le> j" "j < length xs" "xs ! j = (t :: 'a :: linorder)" "lo < xs ! (j - k)"
proof -
  define J where "J = {i. i < length xs \<and> xs ! i \<le> t}"
  have fin: "finite J" by (simp add: J_def)
  obtain i where i: "i < length xs" "xs ! i = t" using t by (auto simp: in_set_conv_nth)
  then have "i \<in> J" by (simp add: J_def)
  define j where "j = Max J"
  have jJ: "j \<in> J" and above: "\<And>m. m \<in> J \<Longrightarrow> m \<le> j" using Max_in [OF fin] Max_ge [OF fin] \<open>i \<in> J\<close> by (auto simp: j_def)
  then have j: "j < length xs" "xs ! j \<le> t" by (simp_all add: J_def)
  moreover have "t \<le> xs ! j" using sorted_nth_mono [OF s above [OF \<open>i \<in> J\<close>] j(1)] i by simp
  ultimately have jt: "xs ! j = t" by simp
  have card: "length (filter (\<lambda>x. lo < x \<and> x \<le> t) xs) = card {m. m < length xs \<and> lo < xs ! m \<and> xs ! m \<le> t}"
    by (simp add: length_filter_conv_card)
  have "k \<le> j \<and> lo < xs ! (j - k)"
  proof (rule ccontr)
    assume no: "\<not> (k \<le> j \<and> lo < xs ! (j - k))"
    define U where "U = {j - k <..j} \<union> (if k \<le> j then {} else {0})"
    have sub: "{m. m < length xs \<and> lo < xs ! m \<and> xs ! m \<le> t} \<subseteq> U"
    proof
      fix m assume m: "m \<in> {m. m < length xs \<and> lo < xs ! m \<and> xs ! m \<le> t}"
      then have le: "m \<le> j" using above by (simp add: J_def)
      show "m \<in> U"
      proof (cases "k \<le> j")
        case True
        then have "\<not> lo < xs ! (j - k)" using no by simp
        then have "\<not> m \<le> j - k" using m sorted_nth_mono [OF s, of m "j - k"] j(1) by fastforce
        then show ?thesis using le by (simp add: U_def)
      qed (use le in \<open>auto simp: U_def\<close>)
    qed
    have fU: "finite U" by (simp add: U_def)
    have "card U \<le> k"
    proof (cases "k \<le> j")
      case False
      have "card U \<le> card {0..j}" by (rule card_mono) (auto simp: U_def)
      then show ?thesis using False by simp
    qed (simp add: U_def)
    with card_mono [OF fU sub] have "card {m. m < length xs \<and> lo < xs ! m \<and> xs ! m \<le> t} \<le> k" by (rule order_trans)
    then show False using n card by simp
  qed
  then show thesis using that j jt by blast
qed

lemma circuit_opens:
  assumes n: "CB_THRESHOLD \<le> length (filter (\<lambda>r. sr_org r = org \<and> sr_status r = ''engine_failed''
      \<and> t - minutes CB_WINDOW_MIN < sr_started_at r \<and> sr_started_at r \<le> t) (t_step_runs db))"
    and r: "r \<in> set (t_step_runs db)" "sr_org r = org" "sr_status r = ''engine_failed''" "sr_started_at r = t"
    and now: "now \<le> t + minutes CB_DEGRADE_MIN"
  shows "circuit_open org now db"
proof -
  define rows where "rows = engine_failures org now db"
  define old where "old = now - minutes CB_LOOKBACK_MIN"
  have lo: "old \<le> t - minutes CB_WINDOW_MIN"
    using now by (simp add: old_def minutes_def CB_LOOKBACK_MIN_def)
  have w: "0 < minutes CB_WINDOW_MIN" by (simp add: minutes_def CB_WINDOW_MIN_def)
  have len: "length (filter (\<lambda>x. t - minutes CB_WINDOW_MIN < x \<and> x \<le> t) rows)
    = length (filter (\<lambda>r. sr_org r = org \<and> sr_status r = ''engine_failed''
      \<and> t - minutes CB_WINDOW_MIN < sr_started_at r \<and> sr_started_at r \<le> t) (t_step_runs db))"
  proof -
    have "length (filter P (sort ys)) = length (filter P ys)" for P and ys :: "int list"
      by (simp add: filter_sort)
    moreover have "filter (\<lambda>x. t - minutes CB_WINDOW_MIN < x \<and> x \<le> t) (map sr_started_at (filter (\<lambda>r. sr_org r = org
        \<and> sr_status r = ''engine_failed'' \<and> old < sr_started_at r) (t_step_runs db)))
      = map sr_started_at (filter (\<lambda>r. sr_org r = org \<and> sr_status r = ''engine_failed''
      \<and> t - minutes CB_WINDOW_MIN < sr_started_at r \<and> sr_started_at r \<le> t) (t_step_runs db))"
      unfolding filter_map filter_filter using lo by (intro arg_cong [where f = "map sr_started_at"] filter_cong) auto
    ultimately show ?thesis by (simp add: rows_def engine_failures_def old_def)
  qed
  have s: "sorted rows" by (simp add: rows_def engine_failures_def)
  have t: "t \<in> set rows" using r lo w by (auto simp: rows_def engine_failures_def old_def)
  have "Suc 4 \<le> length (filter (\<lambda>x. t - minutes CB_WINDOW_MIN < x \<and> x \<le> t) rows)"
    using n len by (simp add: CB_THRESHOLD_def)
  then obtain j where j: "4 \<le> j" "j < length rows" "rows ! j = t" "t - minutes CB_WINDOW_MIN < rows ! (j - 4)"
    by (rule sorted_window [OF s t])
  have "list_ex (\<lambda>i. let j = i + CB_THRESHOLD - 1 in j < length rows \<and> rows ! j - rows ! i \<le> minutes CB_WINDOW_MIN
             \<and> now \<le> rows ! j + minutes CB_DEGRADE_MIN) [0..<length rows]"
    unfolding list_ex_iff using j now by (intro bexI [of _ "j - 4"]) (auto simp: CB_THRESHOLD_def Let_def)
  moreover have "CB_THRESHOLD \<le> length rows" using j by (simp add: CB_THRESHOLD_def)
  ultimately show ?thesis by (simp add: circuit_open_def Let_def flip: rows_def)
qed

text \<open>
  C35: five failures of the engine within five minutes of an organisation keep every transition of that
  organisation free for fifteen minutes after the last of them, whatever the published lines say.
\<close>

theorem circuit_breaker_frees_board:
  assumes "CB_THRESHOLD \<le> length (filter (\<lambda>r. sr_org r = la_org a \<and> sr_status r = ''engine_failed''
      \<and> t - minutes CB_WINDOW_MIN < sr_started_at r \<and> sr_started_at r \<le> t) (t_step_runs db))"
    and "r \<in> set (t_step_runs db)" "sr_org r = la_org a" "sr_status r = ''engine_failed''" "sr_started_at r = t"
    and "now \<le> t + minutes CB_DEGRADE_MIN"
  shows "proceeds (fst (evaluate_line_for_transition env a ids now db))"
proof (rule ccontr)
  assume "\<not> ?thesis"
  then have "resolve_runtime_mode (le_settings env) (la_org a) now db = ''enforcing''"
    using line_stops_only_enforcing by blast
  moreover have "circuit_open (la_org a) now db" by (rule circuit_opens [OF assms])
  moreover have "min_mode m ''advisory'' \<noteq> ''enforcing''" for m by (auto simp: min_mode_def mode_rank_def)
  ultimately show False by (auto simp: resolve_runtime_mode_def split: if_splits)
qed

section \<open>Preview\<close>

definition agrees :: "line_decision \<Rightarrow> line_decision \<Rightarrow> bool" where
  \<comment> \<open>the same answer, up to the ids of rows a preview does not write\<close>
  "agrees x y \<longleftrightarrow> x\<lparr>dc_run_id := None, dc_relay := None, dc_gate_id := None\<rparr> = y\<lparr>dc_run_id := None, dc_relay := None, dc_gate_id := None\<rparr>"

definition preview :: "line_args \<Rightarrow> line_args" where
  "preview a = a\<lparr>la_dry_run := True\<rparr>"

lemma preview_fields [simp]:
  "la_org (preview a) = la_org a" "la_project (preview a) = la_project a" "la_entity_type (preview a) = la_entity_type a"
  "la_entity_id (preview a) = la_entity_id a" "la_from (preview a) = la_from a" "la_to (preview a) = la_to a"
  "la_dry_run (preview a)"
  by (simp_all add: preview_def)

lemma preview_governing: "governing env (preview a) now db = governing env a now db"
  unfolding governing_def preview_fields ..

lemma engine_failed_form:
  "\<exists>r db'. engine_failed a ids now e db = ((decided Engine_failed (Some (la_to a)) r)\<lparr>dc_degraded := True\<rparr>, db')"
proof -
  define x where "x = (case record_step_run a ids now ''engine_failed'' ''engine_failed''
                        (\<lambda>r. r\<lparr>sr_failure_class := Some (error_class e), sr_failure_message := Some (take 500 (error_message e)),
                              sr_degraded_to_plain := True\<rparr>) db of
                      Inl _ \<Rightarrow> (None, db) | Inr x \<Rightarrow> x)"
  have "engine_failed a ids now e db = ((decided Engine_failed (Some (la_to a)) (fst x))\<lparr>dc_degraded := True\<rparr>, snd x)"
    by (simp add: engine_failed_def x_def case_prod_beta)
  then show ?thesis by blast
qed

lemma preview_grandfather:
  "pass_grandfather (preview a) now db = (fst (pass_grandfather a now db), db)"
  by (auto simp: pass_grandfather_def consume_grandfather_def preview_def)

lemma governing_merge_gate:
  assumes "governing env a now db = Some (mode, d, config)" "mode = ''enforcing''"
    "match_step config (la_from a) (la_to a) = Inr (Some step)" "is_merge_gate_step step"
  shows "line_merge_gate_active (le_settings env) (le_str env) (la_org a) (la_project a) (la_entity_type a) (la_from a) (la_to a) now db"
  using assms by (auto simp: governing_def line_merge_gate_active_def Let_def split: if_splits option.splits)

lemma govern_preview:
  assumes "la_project a = Some p" "mode = ''enforcing'' \<longrightarrow> jget ''enforcement'' step = JStr ''block'' \<or> \<not> is_merge_gate_step step"
  shows "\<exists>x y db'. govern env (preview a) ids now mode d step db1 = (Inr x, db1)
    \<and> govern env a ids now mode d step db2 = (Inr y, db') \<and> agrees x y"
proof -
  let ?block = "mode = ''enforcing'' \<and> jget ''enforcement'' step = JStr ''block''"
  have dry: "record_step_run (preview a) ids now st md fill db1 = Inr (None, db1)" for st md fill by (rule record_dry) simp
  show ?thesis
  proof (cases ?block)
    case True
    obtain r db' where "record_step_run a ids now ''blocked_by_policy'' ''blocked_by_policy''
        (governed d step (resolve_routing_context a now db2) ''block'' ''static policy block'') db2 = Inr (r, db')"
      using record_project [OF assms(1)] by blast
    then show ?thesis using True by (simp add: govern_def Let_def dry agrees_def stopped_def decided_def)
  next
    case False
    then have m: "\<not> (mode = ''enforcing'' \<and> is_merge_gate_step step)" using assms(2) by blast
    obtain r db' where r: "record_step_run a ids now ''routing_resolved'' ''advisory_only''
                   (governed d step (resolve_routing_context a now db2)
                      (''would_'' @ text_or (le_str env) (jget ''step_type'' step) ''advisory'')
                      (''shadow/advisory record (mode='' @ mode @ '')'')) db2 = Inr (r, db')"
      using record_project [OF assms(1)] by blast
    have "govern env (preview a) ids now mode d step db1 = (Inr ((decided Advisory_only (Some (la_to a)) None)\<lparr>dc_relay := None\<rparr>), db1)"
      using False m unfolding govern_def Let_def dry by auto
    moreover have "govern env a ids now mode d step db2 = (Inr ((decided Advisory_only (Some (la_to a)) r)
        \<lparr>dc_relay := (if mode = ''enforcing'' \<and> jget ''step_type'' step = JStr ''agent-handoff'' then map_option sr_id r else None)\<rparr>), db')"
      using False m r unfolding govern_def Let_def by auto
    ultimately show ?thesis by (simp add: agrees_def decided_def)
  qed
qed

text \<open>
  a preview writes nothing and answers what the real evaluation of the same transition would answer, up to
  the ids of the rows the real one writes. The one exception is a merge gate step in enforcing mode: there the
  preview says 202, a gate is pending, and does not run the merge gate.
\<close>

lemma preview_tells_the_decision:
  assumes "la_project a = Some p"
  shows "snd (evaluate_line_for_transition env (preview a) ids now db) = db \<and>
    (agrees (fst (evaluate_line_for_transition env (preview a) ids now db)) (fst (evaluate_line_for_transition env a ids now db))
     \<or> dc_http_status (fst (evaluate_line_for_transition env (preview a) ids now db)) = Some 202
       \<and> line_merge_gate_active (le_settings env) (le_str env) (la_org a) (la_project a) (la_entity_type a) (la_from a) (la_to a) now db)"
proof (cases "governing env a now db")
  case None
  then show ?thesis by (simp add: evaluate_line_for_transition_def evaluate_body_governing preview_governing agrees_def)
next
  case (Some g)
  obtain mode d config where g: "g = (mode, d, config)" by (cases g)
  obtain passed db1 where p: "pass_grandfather a now db = (passed, db1)" by (cases "pass_grandfather a now db")
  have dfailed: "engine_failed (preview a) ids now e db = ((decided Engine_failed (Some (la_to a)) None)\<lparr>dc_degraded := True\<rparr>, db)" for e
    by (simp add: engine_failed_def record_dry)
  note ev = evaluate_line_for_transition_def evaluate_body_governing preview_governing preview_grandfather Some g p
  show ?thesis
  proof (cases passed)
    case True
    then show ?thesis by (simp add: ev agrees_def)
  next
    case False
    show ?thesis
    proof (cases "match_step config (la_from a) (la_to a)")
      case (Inl e)
      obtain r db' where "engine_failed a ids now e db1 = ((decided Engine_failed (Some (la_to a)) r)\<lparr>dc_degraded := True\<rparr>, db')"
        using engine_failed_form by blast
      then show ?thesis using False Inl by (simp add: ev dfailed agrees_def decided_def)
    next
      case (Inr o_step)
      show ?thesis
      proof (cases o_step)
        case None
        then show ?thesis using False Inr by (simp add: ev agrees_def)
      next
        case (Some step)
        show ?thesis
        proof (cases "mode = ''enforcing'' \<longrightarrow> jget ''enforcement'' step = JStr ''block'' \<or> \<not> is_merge_gate_step step")
          case True
          obtain x y db' where "govern env (preview a) ids now mode d step db = (Inr x, db)"
            "govern env a ids now mode d step db1 = (Inr y, db')" "agrees x y"
            using govern_preview [OF assms True] by metis
          then show ?thesis using False Inr Some by (simp add: ev)
        next
          case mg: False
          have "line_merge_gate_active (le_settings env) (le_str env) (la_org a) (la_project a) (la_entity_type a) (la_from a) (la_to a) now db"
            using governing_merge_gate [OF \<open>governing env a now db = Some g\<close> [unfolded g]] mg Inr Some by blast
          moreover have "govern env (preview a) ids now mode d step db
            = (Inr ((stopped Gate_pending ''merge-gate (dry-run preview)'' 202 None)\<lparr>dc_gate_type := Some ''merge''\<rparr>), db)"
            using mg by (simp add: govern_def Let_def merge_gate_wrapper_def)
          ultimately show ?thesis using False Inr Some by (simp add: ev stopped_def)
        qed
      qed
    qed
  qed
qed

section \<open>Grandfathering\<close>

lemma mark_stories_marks:
  "mark_stories org ids now ss db = (n, db') \<Longrightarrow>
     (\<forall>s \<in> set ss. has_open_grandfather org (st_id s) db') \<and> t_gates db' = t_gates db
     \<and> (\<forall>i. has_open_grandfather org i db \<longrightarrow> has_open_grandfather org i db')"
proof (induction ss arbitrary: db n db')
  case (Cons s ss)
  show ?case
  proof (cases "has_open_grandfather org (st_id s) db")
    case True
    then show ?thesis using Cons.IH Cons.prems by auto
  next
    case False
    let ?db = "db\<lparr>t_step_runs := t_step_runs db @ [grandfather_run org (ids (st_id s)) now s]\<rparr>"
    obtain m where m: "mark_stories org ids now ss ?db = (m, db')"
      using Cons.prems False by (auto simp: Let_def split: prod.splits)
    have "has_open_grandfather org (st_id s) ?db"
      by (simp add: has_open_grandfather_def open_grandfather_def grandfather_run_def blank_run_def split: prod.split)
    moreover have "has_open_grandfather org i db \<Longrightarrow> has_open_grandfather org i ?db" for i
      by (simp add: has_open_grandfather_def)
    ultimately show ?thesis using Cons.IH [OF m] by auto
  qed
qed simp

lemma consumed_closes:
  "\<not> has_open_grandfather org i (snd (consume_grandfather org ''story'' i from_status to_status now db))"
proof -
  have "\<not> open_grandfather org i (r\<lparr>sr_status := ''grandfathered_applied'',
      sr_from_status := from_status, sr_to_status := to_status, sr_resolved_at := Some now\<rparr>)" for r
    by (simp add: open_grandfather_def)
  then show ?thesis by (auto simp: consume_grandfather_def has_open_grandfather_def list_ex_iff)
qed

lemma consume_gates: "t_gates (snd (consume_grandfather org e i from_status to_status now db)) = t_gates db"
  by (simp add: consume_grandfather_def)

lemma grandfathered_evaluation:
  assumes "has_open_grandfather (la_org a) (la_entity_id a) db" "la_entity_type a = ''story''" "\<not> la_dry_run a"
  shows "fst (evaluate_line_for_transition env a ids now db) = plain
    \<and> t_gates (snd (evaluate_line_for_transition env a ids now db)) = t_gates db
    \<and> (governing env a now db \<noteq> None \<longrightarrow>
        \<not> has_open_grandfather (la_org a) (la_entity_id a) (snd (evaluate_line_for_transition env a ids now db)))"
proof (cases "governing env a now db")
  case None
  then show ?thesis by (simp add: evaluate_line_for_transition_def evaluate_body_governing)
next
  case (Some g)
  obtain mode d config where g: "g = (mode, d, config)" by (cases g)
  obtain passed db1 where c: "pass_grandfather a now db = (passed, db1)" by (cases "pass_grandfather a now db")
  have passed: passed and db1: "db1 = snd (consume_grandfather (la_org a) ''story'' (la_entity_id a) (la_from a) (la_to a) now db)"
    using c assms by (simp_all add: pass_grandfather_def consume_grandfather_def)
  then show ?thesis using Some g c consumed_closes consume_gates
    by (simp add: evaluate_line_for_transition_def evaluate_body_governing)
qed

text \<open>
  switching the engine on does not freeze work in flight. After the backfill of an organisation the next
  transition of each of its stories in progress or in review passes freely, whatever line is published by then
  and whenever it happens, and no gate is made; if a line is active, the marker is used up by it.
\<close>

lemma backfill_frees_next_transition:
  assumes "resolve_runtime_mode st (la_org a) now db \<noteq> ''off''" "backfill_grandfather st (la_org a) marks now db = (r, db1)"
    and "s \<in> set (t_stories db)" "st_org s = la_org a" "st_status s \<in> set GRANDFATHER_STATUSES"
    and "la_entity_type a = ''story''" "la_entity_id a = st_id s" "\<not> la_dry_run a"
  shows "t_gates db1 = t_gates db \<and> fst (evaluate_line_for_transition env a ids later db1) = plain
    \<and> t_gates (snd (evaluate_line_for_transition env a ids later db1)) = t_gates db
    \<and> (governing env a later db1 = None \<or>
        \<not> has_open_grandfather (la_org a) (st_id s) (snd (evaluate_line_for_transition env a ids later db1)))"
proof -
  obtain n where "mark_stories (la_org a) marks now
      (filter (\<lambda>s. st_org s = la_org a \<and> st_status s \<in> set GRANDFATHER_STATUSES) (t_stories db)) db = (n, db1)"
    using assms(1,2) by (auto simp: backfill_grandfather_def Let_def split: prod.splits)
  note m = mark_stories_marks [OF this]
  have o: "has_open_grandfather (la_org a) (la_entity_id a) db1" using m assms(3-5,7) by simp
  show ?thesis using grandfathered_evaluation [OF o assms(6,8)] m assms(7) by auto
qed

section \<open>Published lines\<close>

lemma active_definition_in:
  assumes "active_definition org project entity_type db = Some d"
  shows "d \<in> set (t_line_definitions db) \<and> ld_is_active d"
proof -
  show ?thesis using assms unfolding active_definition_def Let_def by (auto dest!: find_SomeD split: option.splits)
qed

lemma distinct_map_filter_only:
  assumes "distinct (map f (filter P xs))" "x \<in> set xs" "P x"
  shows "filter (\<lambda>y. P y \<and> f y = f x) xs = [x]"
  using assms
proof (induction xs)
  case (Cons y ys)
  show ?case
  proof (cases "x = y")
    case True
    have "f z \<noteq> f x" if "z \<in> set ys" "P z" for z
      using Cons.prems True that by (auto simp: image_iff)
    then have "filter (\<lambda>z. P z \<and> f z = f x) ys = []" by (auto simp: filter_empty_conv)
    then show ?thesis using True Cons.prems by simp
  next
    case False
    then have "x \<in> set ys" using Cons.prems by simp
    moreover have "\<not> (P y \<and> f y = f x)" using Cons.prems calculation by auto
    ultimately show ?thesis using Cons by (auto split: if_splits)
  qed
qed simp

lemma governing_version_sound:
  assumes inv: "line_inv rp db" and d: "active_definition org project entity_type db = Some d"
    and v: "published_version (ld_id d) db = Some v"
  shows "lint_config (lv_config v) = Inr [] \<and> ld_config_hash d = Some (compute_config_hash rp (lv_config v))
    \<and> version_scope v = definition_scope d \<and> ld_version d = lv_version v
    \<and> filter (\<lambda>e. ld_is_active e \<and> definition_scope e = definition_scope d) (t_line_definitions db) = [d]"
proof -
  have vin: "v \<in> set (t_line_versions db)" "lv_line_definition_id v = Some (ld_id d)" "lv_status v = V_published"
    using max_row_in [OF v [unfolded published_version_def]] by simp_all
  have din: "d \<in> set (t_line_definitions db)" "ld_is_active d" using active_definition_in [OF d] by simp_all
  have ok: "version_ok rp v" "pointer_ok (t_line_definitions db) v"
    using inv vin(1) by (auto simp: line_inv_def list_all_iff)
  obtain e where e: "e \<in> set (t_line_definitions db)" "ld_id e = ld_id d" "definition_scope e = version_scope v"
    "ld_config_hash e = Some (lv_config_hash v)" "ld_version e = lv_version v"
    using ok(2) vin(2) by (auto simp: pointer_ok_def)
  have "distinct (map ld_id (t_line_definitions db))" using inv by (simp add: line_inv_def)
  then have "e = d" using e din by (auto simp: distinct_map inj_on_def)
  moreover have "filter (\<lambda>x. ld_is_active x \<and> definition_scope x = definition_scope d) (t_line_definitions db) = [d]"
    using inv din by (intro distinct_map_filter_only) (simp_all add: line_inv_def active_scopes_def)
  ultimately show ?thesis using e ok(1) vin(3) by (simp add: version_ok_def)
qed

text \<open>
  C32: in every reachable state the configuration that governs lints clean and is the one whose hash the active
  pointer carries, its version belongs to the pointer's scope, and no other active pointer has that scope.
\<close>

theorem published_lines_sound:
  assumes "line_init db0" "(line_step rp)\<^sup>*\<^sup>* db0 db"
    and "active_definition org project entity_type db = Some d" "published_version (ld_id d) db = Some v"
  shows "lint_config (lv_config v) = Inr [] \<and> ld_config_hash d = Some (compute_config_hash rp (lv_config v))
    \<and> version_scope v = definition_scope d \<and> ld_version d = lv_version v
    \<and> filter (\<lambda>e. ld_is_active e \<and> definition_scope e = definition_scope d) (t_line_definitions db) = [d]"
  using governing_version_sound [OF lines.reachable_inv [OF assms(1,2)] assms(3,4)] .

section \<open>A published line never trips the engine\<close>

lemma lint_steps:
  assumes "lint_config config = Inr es" "es = []"
  shows "\<exists>steps. jget ''steps'' config = JList steps"
  using assms by (auto simp: lint_config_def split: json.splits)

lemma governing_config_iterates:
  assumes "line_inv rp db" "active_definition org project entity_type db = Some d"
  shows "\<exists>o_step. match_step (published_config (ld_id d) db) from_status to_status = Inr o_step"
proof (cases "published_version (ld_id d) db")
  case None
  then show ?thesis by (simp add: published_config_def match_step_def jget_def iter_or_empty_def)
next
  case (Some v)
  obtain steps where "jget ''steps'' (lv_config v) = JList steps"
    using lint_steps governing_version_sound [OF assms Some] by blast
  then have "jget ''steps'' (dict_or_empty (lv_config v)) = JList steps"
    by (cases "lv_config v") (simp_all add: dict_or_empty_def jget_def)
  then show ?thesis using Some by (simp add: published_config_def match_step_def iter_or_empty_def)
qed

text \<open>The unique constraints of the tables a merge gate reads.\<close>

definition tables_unique :: "gate_db \<Rightarrow> bool" where
  "tables_unique db \<longleftrightarrow> unique_slots db \<and> distinct (map st_id (t_stories db)) \<and> distinct (map gp_org (t_policies db))"

lemma distinct_filter_one: "distinct (map k rs) \<Longrightarrow> (\<And>r. P r \<Longrightarrow> k r = x) \<Longrightarrow> length (filter P rs) \<le> 1"
proof (induction rs)
  case (Cons r rs)
  show ?case
  proof (cases "P r")
    case True
    then have "filter P rs = []" using Cons.prems by (auto simp: filter_empty_conv image_iff)
    then show ?thesis using True by simp
  qed (use Cons in simp)
qed simp

lemma scalar_one: "length rs \<le> 1 \<Longrightarrow> \<exists>r. scalar_one_or_none rs = Inr r"
  by (cases rs rule: scalar_one_or_none.cases) auto

lemma materialize_gate_total:
  assumes u: "tables_unique db"
  shows "\<exists>md db'. materialize_gate gh a p ids now outcome self_report db = Inr (md, db') \<and> gates_only db db'"
proof -
  have "length (filter (\<lambda>s. st_id s = ev_story a \<and> st_org s = ev_org a) (t_stories db)) \<le> 1"
    by (rule distinct_filter_one [where k = st_id and x = "ev_story a"]) (use u in \<open>auto simp: tables_unique_def\<close>)
  then obtain project where p: "story_project_id db (ev_org a) (ev_story a) = Inr project"
    using scalar_one unfolding story_project_id_def by fastforce
  obtain prior db1 where f: "find_gate_slot_with_pr_fallback (merge_slot (ev_org a) (ev_story a)) (db_pr_number a) (db_repo a) db
      = Inr (prior, db1)" using find_gate_slot_total u unfolding tables_unique_def by blast
  obtain gs where db1: "db1 = db\<lparr>t_gates := gs\<rparr>" using find_slot_frame [OF f] by blast
  have u1: "unique_slots db1" using find_gate_slot_result [OF _ f] u by (simp add: tables_unique_def)
  have "length (filter (\<lambda>q. gp_org q = ev_org a) (t_policies db1)) \<le> 1"
    by (rule distinct_filter_one [where k = gp_org and x = "ev_org a"]) (use u in \<open>auto simp: tables_unique_def db1\<close>)
  then obtain policy where q: "scalar_one_or_none (filter (\<lambda>q. gp_org q = ev_org a) (t_policies db1)) = Inr policy"
    using scalar_one by blast
  define ca where "ca = merge_create_args a (pa_member p) (pa_role p) (eval_facts gh a (pa_member p) outcome self_report) project
       (case policy of None \<Rightarrow> None | Some q \<Rightarrow> gp_merge_default_approver q)"
  obtain g db2 where c: "create_gate ca (fi_gate ids) now db1 = Inr (g, db2)" using create_gate_total [OF u1] by blast
  obtain md g' where s: "settle_gate a (eval_facts gh a (pa_member p) outcome self_report) outcome self_report prior now g = (md, g')"
    by (cases "settle_gate a (eval_facts gh a (pa_member p) outcome self_report) outcome self_report prior now g")
  have "materialize_gate gh a p ids now outcome self_report db = Inr (md, upd_gate (g_id g) (\<lambda>_. g') db2)"
    using p f q c s by (simp add: materialize_gate_def ca_def)
  moreover have "gates_only db (upd_gate (g_id g) (\<lambda>_. g') db2)"
    by (rule gates_only_trans [OF gates_only_trans [OF gates_onlyI [OF db1] create_gate_frame [OF c]] gates_only_upd])
  ultimately show ?thesis by blast
qed

lemma merge_eval_total:
  assumes "tables_unique db"
  shows "\<exists>md db'. evaluate_merge_gate gh (merge_eval_args a) ids now db = Inr (md, db') \<and> gates_only db db'"
proof -
  have none: "normalize_result None = None" by (simp add: normalize_result_def)
  have cap: "\<exists>cr. capture_pr_ci_verdict org s rounds False None i j now db = Inr (cr, db)" for org s rounds i j
    by (simp add: capture_pr_ci_verdict_def capture_ci_def split: option.split)
  show ?thesis
  proof (cases "resolve_implementation_participation db (la_org a) (la_entity_id a)")
    case None
    then show ?thesis using gates_only_refl by (simp add: evaluate_merge_gate_def merge_eval_args_def none)
  next
    case (Some p)
    let ?ea = "merge_eval_args a"
    have ea: "ev_org ?ea = la_org a" "ev_story ?ea = la_entity_id a" "ev_ci ?ea = None" "ev_pr ?ea = None"
      by (simp_all add: merge_eval_args_def)
    obtain cr where cr: "capture_pr_ci_verdict (la_org a) (la_entity_id a) (gh_review_rounds gh (ev_repo ?ea) (ev_pr_number ?ea))
        False None (fi_pr_verdict ids) (fi_ci_verdict ids) now db = Inr (cr, db)" using cap by blast
    show ?thesis
    proof (cases "no_substance db ?ea p")
      case None
      then show ?thesis using Some cr materialize_gate_total [OF assms]
        by (simp add: evaluate_merge_gate_def ea none Let_def)
    next
      case (Some x)
      then show ?thesis using \<open>resolve_implementation_participation db (la_org a) (la_entity_id a) = Some p\<close> gates_only_refl
        by (simp add: evaluate_merge_gate_def ea none Let_def)
    qed
  qed
qed


section \<open>Review of a publish request\<close>

lemma request_publish_gate:
  assumes "request_publish org v m ids now db = (Inr g, db')"
  shows "\<exists>db2 role db3. t_gates db2 = t_gates db \<and> create_gate (publish_args org v m role) (pn_gate ids) now db2 = Inr (g, db3)"
  using assms
proof (cases rule: request_publish_cases)
  case (gate db2 role g' db3 db4)
  have "t_gates db2 = t_gates db" using gate(2) by (auto simp: upd_version_def)
  then show ?thesis using gate(3,6) by blast
qed simp_all

lemma create_new_gate:
  assumes "find_gate_slot_with_pr_fallback (ca_slot a) None None db = Inr (None, db)" "ca_pr_number a = None" "ca_repo a = None"
    and "create_gate a fresh now db = Inr (g, db')"
  shows "g_neutral_facts g = ca_facts a \<and> g_gate_type g = sl_gate_type (ca_slot a)"
  using assms by (auto simp: create_gate_def norm_repo_opt_def new_gate_def Let_def)

lemma null_find_cong:
  "t_gates db2 = t_gates db \<Longrightarrow> find_gate_slot_with_pr_fallback sl None None db = Inr (None, db) \<Longrightarrow>
     find_gate_slot_with_pr_fallback sl None None db2 = Inr (None, db2)"
  by (auto simp: find_gate_slot_with_pr_fallback_def split: sum.splits)

definition publish_slot :: "uuid \<Rightarrow> line_version \<Rightarrow> slot" where
  "publish_slot org v = ca_slot (publish_args org v [] [])"

text \<open>
  who asks for a publication cannot approve it. When a request opened a fresh gate, completing the version
  with that gate approved by the requester is refused with the self-approval error, in any later state.
\<close>

lemma requester_cannot_approve:
  assumes "request_publish org v m ids now db = (Inr g, db')"
    and "find_gate_slot_with_pr_fallback (publish_slot org v) None None db = Inr (None, db)" "m \<noteq> []"
    and "g_status g' = Approved" "g_neutral_facts g' = g_neutral_facts g" "g_gate_type g' = g_gate_type g"
  shows "complete_publish w g' (Some m) False fresh later db2 = Inl (SelfApprovalError (Some (lv_id w)))"
proof -
  obtain db2 role db3 where t: "t_gates db2 = t_gates db" and c: "create_gate (publish_args org v m role) (pn_gate ids) now db2 = Inr (g, db3)"
    using request_publish_gate [OF assms(1)] by blast
  have slot: "ca_slot (publish_args org v m role) = publish_slot org v" by (simp add: publish_slot_def publish_args_def)
  have "g_neutral_facts g = ca_facts (publish_args org v m role) \<and> g_gate_type g = WORKFLOW_CONFIG_PUBLISH_GATE_TYPE"
    using create_new_gate [OF null_find_cong [OF t assms(2), folded slot] _ _ c] by (simp add: publish_args_def)
  then show ?thesis using assms(3-)
    by (simp add: complete_publish_def assert_not_self_approval_def facts_of_def publish_args_def)
qed

text \<open>A gate already in the slot is taken as it is, whoever its facts name as the requester.\<close>

lemma request_takes_foreign_gate:
  assumes "lint_config (lv_config v) = Inr []" "lv_status v = V_draft" "g_status g = Pending"
    and "find_gate_slot_with_pr_fallback (publish_slot org v) None None db = Inr (Some g, db)"
  shows "fst (request_publish org v m ids now db) = Inr g"
proof -
  have f: "find_gate_slot_with_pr_fallback (publish_slot org v) None None db2 = Inr (Some g, db2)" if "t_gates db2 = t_gates db" for db2
    using assms(4) that by (auto simp: find_gate_slot_with_pr_fallback_def split: sum.splits)
  have slot: "ca_slot (publish_args org v m role) = publish_slot org v" "ca_pr_number (publish_args org v m role) = None"
    "ca_repo (publish_args org v m role) = None" for role
    by (simp_all add: publish_slot_def publish_args_def)
  have "create_gate (publish_args org v m role) k now db2 = Inr (g, db2)" if "t_gates db2 = t_gates db" for db2 role k
    using f [OF that] assms(3) by (simp add: create_gate_def slot norm_repo_opt_def)
  then show ?thesis using assms(1-3)
    by (simp add: request_publish_def Let_def transition_version_def upd_version_def)
qed

lemma foreign_gate_approves_requester:
  assumes "map_of (facts_of g) ''requested_by_member_id'' = Some (JStr other)" "other \<noteq> m"
  shows "assert_not_self_approval g (Some m) i = Inr ()"
  using assms by (simp add: assert_not_self_approval_def)

lemma publish_pointer_free:
  "\<exists>db'. insert_definition (definition_of v fresh now) (retire_active (\<lambda>d. definition_scope d = version_scope v) now db) = Inr db'"
proof -
  have "definition_scope (definition_of v fresh now) = version_scope v"
    by (simp add: definition_of_def definition_scope_def version_scope_def)
  then show ?thesis by (auto simp: insert_definition_def retire_active_retired list_ex_iff)
qed

lemma retired_version_is_published:
  assumes "get_version i db = Some v" "lv_status v = V_retired" "g_status g = Approved"
    and "g_gate_type g = WORKFLOW_CONFIG_PUBLISH_GATE_TYPE" "assert_not_self_approval g resolver (lv_id v) = Inr ()"
  shows "\<exists>db' v'. complete_publish v g resolver False fresh now db = Inr db' \<and> get_version i db' = Some v' \<and> lv_status v' = V_published"
proof -
  have i: "lv_id v = i" using get_version_in [OF assms(1)] by simp
  let ?f = "\<lambda>x. x\<lparr>lv_status := V_published, lv_published_at := Some now, lv_reviewed_by := resolver\<rparr>"
  obtain db3 where ins: "insert_definition (definition_of v fresh now)
      (retire_active (\<lambda>d. definition_scope d = version_scope v) now (upd_version i ?f db)) = Inr db3"
    using publish_pointer_free by blast
  then have "complete_publish v g resolver False fresh now db
      = Inr (upd_version i (\<lambda>x. x\<lparr>lv_line_definition_id := Some fresh\<rparr>) db3)"
    using assms(2-) i by (simp add: complete_publish_def Let_def)
  moreover have "t_line_versions db3 = upd_row lv_id i ?f (t_line_versions db)"
    using insert_definition_result(1) [OF ins] by simp
  then have "get_version i db3 = Some (?f v)"
    using assms(1) by (simp add: get_version_def version_rows.get_upd_same)
  then have "get_version i (upd_version i (\<lambda>x. x\<lparr>lv_line_definition_id := Some fresh\<rparr>) db3)
      = Some ((?f v)\<lparr>lv_line_definition_id := Some fresh\<rparr>)"
    by (simp add: get_upd_version keeps_key_def version_scope_def)
  ultimately show ?thesis by auto
qed

text \<open>Rejected versions stay rejected: the guard of a request names them, the transition refuses them.\<close>

lemma rejected_never_resubmitted:
  assumes "lint_config (lv_config v) = Inr []" "lv_status v = V_rejected"
  shows "request_publish org v m ids now db = (Inl (ValueError ''illegal version transition''), db)"
  using assms by (simp add: request_publish_def Let_def transition_version_def)

section \<open>Retired lines and repeated transitions\<close>

lemma retired_line_still_active:
  assumes "active_definition (la_org a) (la_project a) (la_entity_type a) db = Some d" "transition_version v V_retired db = Inr db'"
    and "\<And>w. w \<in> set (t_line_versions db) \<Longrightarrow> lv_line_definition_id w = Some (ld_id d) \<Longrightarrow> lv_id w = lv_id v"
  shows "active_definition (la_org a) (la_project a) (la_entity_type a) db' = Some d
    \<and> fst (evaluate_line_for_transition env a ids now db') = plain"
proof -
  have db': "db' = upd_version (lv_id v) (\<lambda>x. x\<lparr>lv_status := V_retired\<rparr>) db"
    using transition_version_result [OF assms(2)] by blast
  have act: "active_definition (la_org a) (la_project a) (la_entity_type a) db' = Some d"
    using assms(1) by (simp add: active_definition_def db')
  have "filter (\<lambda>w. lv_line_definition_id w = Some (ld_id d) \<and> lv_status w = V_published) (t_line_versions db') = []"
    using assms(3) by (auto simp: db' upd_row_def filter_empty_conv)
  then have conf: "published_config (ld_id d) db' = JObj []" by (simp add: published_config_def published_version_def)
  have match: "match_step (JObj []) x y = Inr None" for x y by (simp add: match_step_def jget_def iter_or_empty_def)
  show ?thesis
  proof (cases "governing env a now db'")
    case None
    then show ?thesis using act by (simp add: evaluate_line_for_transition_def evaluate_body_governing)
  next
    case (Some g)
    obtain mode e config where g: "g = (mode, e, config)" by (cases g)
    have "config = JObj []" using governingD(2,3) [OF Some [unfolded g]] act conf by simp
    then show ?thesis using act Some g match
      by (simp add: evaluate_line_for_transition_def evaluate_body_governing split: prod.split)
  qed
qed

text \<open>
  While a run of the same transition is open, a second evaluation records nothing and asks for no relay.
\<close>

lemma clash_not_recorded:
  assumes "r \<in> set (t_step_runs db)" "sr_org r = la_org a" "sr_entity_type r = la_entity_type a" "sr_entity_id r = la_entity_id a"
    and "sr_from_status r = la_from a" "la_from a \<noteq> None" "sr_to_status r = la_to a" "sr_attempt r = 1"
    and "sr_status r \<notin> set terminal_run_statuses" "status \<notin> set terminal_run_statuses" "la_project a = Some p"
  shows "record_step_run a ids now status mode (governed d step ctx x y) db = Inr (None, db)"
proof -
  define new where "new = governed d step ctx x y (blank_run (li_run ids) (la_org a) p (la_entity_type a) (la_entity_id a)
      (la_from a) (la_to a) status mode (li_correlation ids) (la_transition_id a) now)"
  have "runs_clash new r" using assms by (simp add: runs_clash_def same_transition_def new_def governed_def blank_run_def)
  then have "list_ex (runs_clash new) (t_step_runs db)" using assms(1) by (auto simp: list_ex_iff)
  then show ?thesis using assms(11) by (simp add: record_step_run_def new_def Let_def)
qed

lemma repeated_handoff_not_relayed:
  assumes "governing env a now db = Some (mode, d, config)" "match_step config (la_from a) (la_to a) = Inr (Some step)"
    and "jget ''step_type'' step = JStr ''agent-handoff''" "jget ''gate_type'' step = JNull" "jget ''enforcement'' step = JNull"
    and "r \<in> set (t_step_runs db)" "sr_org r = la_org a" "sr_entity_type r = la_entity_type a" "sr_entity_id r = la_entity_id a"
    and "sr_from_status r = la_from a" "la_from a \<noteq> None" "sr_to_status r = la_to a" "sr_attempt r = 1"
    and "sr_status r = ''dispatched''" "la_project a = Some p" "\<not> fst (pass_grandfather a now db)"
  shows "dc_relay (fst (evaluate_line_for_transition env a ids now db)) = None
    \<and> dc_run_id (fst (evaluate_line_for_transition env a ids now db)) = None"
proof -
  obtain db1 where c: "pass_grandfather a now db = (False, db1)" using assms(16) by (cases "pass_grandfather a now db") simp
  have r1: "r \<in> set (t_step_runs db1)"
  proof -
    have "\<not> open_grandfather (la_org a) (la_entity_id a) r" using assms(14) by (simp add: open_grandfather_def)
    then show ?thesis using c assms(6)
      by (force simp: pass_grandfather_def consume_grandfather_def split: if_splits)
  qed
  have "sr_status r \<notin> set terminal_run_statuses" "''routing_resolved'' \<notin> set terminal_run_statuses"
    by (simp_all add: assms(14) terminal_run_statuses_def)
  note n = clash_not_recorded [OF r1 assms(7-13) this assms(15)]
  have "\<not> is_merge_gate_step step" by (simp add: is_merge_gate_step_def assms(3,4))
  then show ?thesis using assms(1,2,5) c
    by (simp add: evaluate_line_for_transition_def evaluate_body_governing govern_def Let_def n decided_def)
qed

section \<open>Concrete lines\<close>

definition silent_github :: github where
  "silent_github = \<lparr>gh_review_rounds = (\<lambda>_ _. 0), gh_changed_files = (\<lambda>_ _. None), gh_reviewer_logins = (\<lambda>_ _. None)\<rparr>"

definition sample_env :: line_env where
  "sample_env = \<lparr>le_settings = \<lparr>ls_enabled = True, ls_allowlist = [], ls_mode = ''enforcing''\<rparr>,
     le_github = silent_github, le_str = (\<lambda>_. [])\<rparr>"

definition sample_move :: "string \<Rightarrow> string \<Rightarrow> line_args" where
  "sample_move from_status to_status = \<lparr>la_org = ''o1'', la_project = Some ''j1'', la_entity_type = ''story'', la_entity_id = ''s1'',
     la_from = Some from_status, la_to = to_status, la_actor = None, la_actor_type = None, la_transition_id = ''t1'',
     la_dry_run = False\<rparr>"

definition sample_line_ids :: line_ids where
  "sample_line_ids = \<lparr>li_run = ''run1'', li_correlation = ''c1'',
     li_merge = \<lparr>fi_gate = ''g1'', fi_pr_verdict = ''v1'', fi_ci_verdict = ''v2''\<rparr>\<rparr>"

definition sample_line_start :: gate_db where
  "sample_line_start = empty_db\<lparr>t_stories := [sample_story ''s1'' (Some 3)]\<rparr>"

definition sample_seeded :: "string \<Rightarrow> gate_db" where
  \<comment> \<open>the start after the seed, with the hash of the configuration as argument\<close>
  "sample_seeded h = sample_line_start\<lparr>
     t_line_definitions := [\<lparr>ld_id = ''d1'', ld_org = ''o1'', ld_project = None, ld_entity_type = ''story'',
       ld_name = JStr ''Default Story Line'', ld_version = 1, ld_is_active = True, ld_source = ''system_default'',
       ld_created_by = Some SEED_AUTHOR, ld_published_at = Some 100, ld_retired_at = None, ld_config_hash = Some h\<rparr>],
     t_line_versions := [\<lparr>lv_id = ''v1'', lv_line_definition_id = Some ''d1'', lv_org = ''o1'', lv_project = None,
       lv_entity_type = ''story'', lv_version = 1, lv_status = V_published, lv_config = DEFAULT_STORY_LINE_CONFIG,
       lv_config_hash = h, lv_lint_passed = True, lv_lint_errors = [], lv_created_by = SEED_AUTHOR, lv_reviewed_by = None,
       lv_review_gate_id = None, lv_published_at = Some 100\<rparr>]\<rparr>"

definition sample_hash :: string where
  "sample_hash = compute_config_hash (\<lambda>_. []) DEFAULT_STORY_LINE_CONFIG"

lemma sample_seed:
  "seed_default_story_line (\<lambda>_. []) ''o1'' DEFAULT_STORY_LINE_CONFIG ''d1'' ''v1'' 100 sample_line_start
     = Inr (Seeded 1 0, sample_seeded sample_hash)"
  unfolding seed_default_story_line_def default_story_line_lints
  by (simp add: sample_line_start_def empty_db_def retire_active_def next_version_def seed_definition_def new_version_def
      seed_scope_def insert_definition_def sample_seeded_def sample_hash_def res_bind_def)

lemma sample_reach: "line_init sample_line_start" "(line_step (\<lambda>_. []))\<^sup>*\<^sup>* sample_line_start (sample_seeded sample_hash)"
proof -
  show "line_init sample_line_start" by (simp add: line_init_def sample_line_start_def empty_db_def)
  have "line_step (\<lambda>_. []) sample_line_start (sample_seeded sample_hash)"
    by (rule line_seed [OF sample_seed]) (simp_all add: sample_line_start_def empty_db_def)
  then show "(line_step (\<lambda>_. []))\<^sup>*\<^sup>* sample_line_start (sample_seeded sample_hash)" by simp
qed

lemma sample_merge_stops:
  "fst (evaluate_line_for_transition sample_env (sample_move ''in-review'' ''done'') sample_line_ids 200 (sample_seeded h))
     = (stopped Gate_pending ''merge gate requires human approval'' 409 None)\<lparr>dc_run_id := Some ''run1''\<rparr>"
  by code_simp

lemma sample_merge_not_proceeds:
  "\<not> proceeds (fst (evaluate_line_for_transition sample_env (sample_move ''in-review'' ''done'') sample_line_ids 200 (sample_seeded h)))"
  unfolding sample_merge_stops by (simp add: proceeds_def stopped_def decided_def)

lemma sample_move_fields [simp]:
  "la_org (sample_move x y) = ''o1''" "la_project (sample_move x y) = Some ''j1''" "la_from (sample_move x y) = Some x"
  "la_to (sample_move x y) = y" "la_entity_type (sample_move x y) = ''story''" "la_entity_id (sample_move x y) = ''s1''"
  "\<not> la_dry_run (sample_move x y)"
  by (simp_all add: sample_move_def)

theorem line_stops_only_by_policy_witness:
  "resolve_runtime_mode (le_settings sample_env) ''o1'' 200 (sample_seeded sample_hash) = ''enforcing''"
  using line_stops_only_by_policy [OF sample_merge_not_proceeds [of sample_hash]] by simp

definition sample_failure :: "nat \<Rightarrow> step_run" where
  "sample_failure n = blank_run (replicate n CHR ''r'') ''o1'' ''j1'' ''story'' ''s1'' (Some ''in-review'') ''done'' ''engine_failed''
     ''engine_failed'' ''c1'' ''t1'' (100 + int n)"

definition sample_failing :: "string \<Rightarrow> gate_db" where
  "sample_failing h = (sample_seeded h)\<lparr>t_step_runs := map sample_failure [1, 2, 3, 4, 5]\<rparr>"

theorem circuit_breaker_frees_board_witness:
  "proceeds (fst (evaluate_line_for_transition sample_env (sample_move ''in-review'' ''done'') sample_line_ids 200
     (sample_failing sample_hash)))"
proof (rule circuit_breaker_frees_board [where t = 105 and r = "sample_failure 5"])
  show "CB_THRESHOLD \<le> length (filter (\<lambda>r. sr_org r = la_org (sample_move ''in-review'' ''done'') \<and> sr_status r = ''engine_failed''
      \<and> 105 - minutes CB_WINDOW_MIN < sr_started_at r \<and> sr_started_at r \<le> 105) (t_step_runs (sample_failing sample_hash)))"
    by (simp add: sample_failing_def sample_failure_def blank_run_def minutes_def CB_WINDOW_MIN_def CB_THRESHOLD_def)
qed (simp_all add: sample_failing_def sample_failure_def blank_run_def minutes_def CB_DEGRADE_MIN_def)

lemma preview_tells_the_decision_witness:
  "snd (evaluate_line_for_transition sample_env (preview (sample_move ''in-progress'' ''in-review'')) sample_line_ids 200
     (sample_seeded sample_hash)) = sample_seeded sample_hash"
  using preview_tells_the_decision [of "sample_move ''in-progress'' ''in-review''" "''j1''"] by simp

lemma backfill_frees_next_transition_witness:
  "fst (evaluate_line_for_transition sample_env (sample_move ''in-review'' ''done'') sample_line_ids 300
     (snd (backfill_grandfather (le_settings sample_env) ''o1'' (\<lambda>i. (i, i, i)) 200 (sample_seeded sample_hash)))) = plain"
proof -
  have mode: "resolve_runtime_mode (le_settings sample_env) ''o1'' 200 (sample_seeded h) \<noteq> ''off''" for h by code_simp
  obtain r db1 where b: "backfill_grandfather (le_settings sample_env) ''o1'' (\<lambda>i. (i, i, i)) 200 (sample_seeded sample_hash) = (r, db1)"
    by (cases "backfill_grandfather (le_settings sample_env) ''o1'' (\<lambda>i. (i, i, i)) 200 (sample_seeded sample_hash)")
  have s: "sample_story ''s1'' (Some 3) \<in> set (t_stories (sample_seeded sample_hash))"
    by (simp add: sample_seeded_def sample_line_start_def)
  show ?thesis
    using backfill_frees_next_transition [of "le_settings sample_env" "sample_move ''in-review'' ''done''" 200 "sample_seeded sample_hash"
        "\<lambda>i. (i, i, i)" r db1 "sample_story ''s1'' (Some 3)"] mode b s
    by (simp add: sample_story_def GRANDFATHER_STATUSES_def)
qed

theorem published_lines_sound_witness:
  "ld_config_hash (hd (t_line_definitions (sample_seeded sample_hash))) = Some (compute_config_hash (\<lambda>_. []) DEFAULT_STORY_LINE_CONFIG)"
proof -
  have d: "active_definition ''o1'' None ''story'' (sample_seeded sample_hash) = Some (hd (t_line_definitions (sample_seeded sample_hash)))"
    by (simp add: active_definition_def sample_seeded_def)
  have v: "published_version (ld_id (hd (t_line_definitions (sample_seeded sample_hash)))) (sample_seeded sample_hash)
      = Some (hd (t_line_versions (sample_seeded sample_hash)))"
    by (simp add: published_version_def sample_seeded_def)
  show ?thesis using published_lines_sound [OF sample_reach d v] by (simp add: sample_seeded_def)
qed


definition sample_draft :: "string \<Rightarrow> line_version" where
  "sample_draft h = \<lparr>lv_id = ''v1'', lv_line_definition_id = None, lv_org = ''o1'', lv_project = None, lv_entity_type = ''story'',
     lv_version = 1, lv_status = V_draft, lv_config = DEFAULT_STORY_LINE_CONFIG, lv_config_hash = h, lv_lint_passed = True,
     lv_lint_errors = [], lv_created_by = ''m1'', lv_reviewed_by = None, lv_review_gate_id = None, lv_published_at = None\<rparr>"

definition sample_draft_db :: "string \<Rightarrow> gate_db" where
  "sample_draft_db h = empty_db\<lparr>t_line_versions := [sample_draft h]\<rparr>"

definition sample_publish_ids :: publish_ids where
  "sample_publish_ids = \<lparr>pn_role = ''r1'', pn_gate = ''g1'', pn_definition = ''d1''\<rparr>"

lemma sample_request:
  "(case fst (request_publish ''o1'' (sample_draft h) ''m1'' sample_publish_ids 200 (sample_draft_db h)) of
      Inl _ \<Rightarrow> False | Inr g \<Rightarrow> g_status g = Pending)"
  by code_simp

lemma requester_cannot_approve_witness:
  "\<exists>g. fst (request_publish ''o1'' (sample_draft sample_hash) ''m1'' sample_publish_ids 200 (sample_draft_db sample_hash)) = Inr g
     \<and> complete_publish (sample_draft sample_hash) (g\<lparr>g_status := Approved\<rparr>) (Some ''m1'') False ''d1'' 300 (sample_draft_db sample_hash)
         = Inl (SelfApprovalError (Some ''v1''))"
proof -
  obtain g where g: "fst (request_publish ''o1'' (sample_draft sample_hash) ''m1'' sample_publish_ids 200 (sample_draft_db sample_hash)) = Inr g"
    using sample_request [of sample_hash] by (auto split: sum.splits)
  then obtain db' where r: "request_publish ''o1'' (sample_draft sample_hash) ''m1'' sample_publish_ids 200 (sample_draft_db sample_hash) = (Inr g, db')"
    by (metis prod.collapse)
  have "find_gate_slot_with_pr_fallback (publish_slot ''o1'' (sample_draft sample_hash)) None None (sample_draft_db sample_hash)
      = Inr (None, sample_draft_db sample_hash)"
    by (simp add: find_gate_slot_with_pr_fallback_def sample_draft_db_def empty_db_def)
  from requester_cannot_approve [OF r this, of "g\<lparr>g_status := Approved\<rparr>" "sample_draft sample_hash" "''d1''" 300 "sample_draft_db sample_hash"]
  show ?thesis using g by (simp add: sample_draft_def)
qed

end
