(* ===== verification/Lifecycle.thy ===== *)
theory Lifecycle
  imports Line_Engine
begin

text \<open>
  The life of hypotheses, goals, sprints and documents: services/hypothesis.py (the transition),
  services/goal.py, services/sprint.py, services/doc.py, repositories/sprint.py,
  services/outcome_evidence.py, services/outcome_scorer.py, services/hypothesis_outcome_verdict.py and
  services/loop_outcome_attribution.py. Every transition asks the workflow line first, unless a gate's
  approval applies it. Python's reading of a number in a text is the parameter \<^verbatim>\<open>num\<close>.
\<close>

section \<open>Common parts\<close>

fun fold_res :: "('a \<Rightarrow> 's \<Rightarrow> error + 's) \<Rightarrow> 'a list \<Rightarrow> 's \<Rightarrow> error + 's" where
  "fold_res f [] s = Inr s"
| "fold_res f (x # xs) s = res_bind (f x s) (fold_res f xs)"

definition dget :: "string \<Rightarrow> jdict \<Rightarrow> json" where
  "dget k d = (case map_of d k of None \<Rightarrow> JNull | Some v \<Rightarrow> v)"

record caller =
  cl_id :: uuid
  cl_type :: string

definition overlay_args :: "uuid \<Rightarrow> uuid \<Rightarrow> string \<Rightarrow> uuid \<Rightarrow> string \<Rightarrow> string \<Rightarrow> caller \<Rightarrow> string \<Rightarrow> line_args" where
  "overlay_args org project entity_type entity_id from_status to_status c tid =
     \<lparr>la_org = org, la_project = Some project, la_entity_type = entity_type, la_entity_id = entity_id,
      la_from = Some from_status, la_to = to_status, la_actor = Some (cl_id c), la_actor_type = Some (cl_type c),
      la_transition_id = tid, la_dry_run = False\<rparr>"

definition line_holds :: "line_env \<Rightarrow> line_args \<Rightarrow> line_ids \<Rightarrow> timestamp \<Rightarrow> gate_db \<Rightarrow> bool \<times> gate_db" where
  \<comment> \<open>\<^verbatim>\<open>not _decision.proceeds\<close>\<close>
  "line_holds env a ids now db = (let (d, db1) = evaluate_line_for_transition env a ids now db in (\<not> proceeds d, db1))"

definition has_valid_unmeasurable_reason :: "jdict option \<Rightarrow> bool" where
  "has_valid_unmeasurable_reason r =
     (case r of None \<Rightarrow> False
      | Some d \<Rightarrow> (case dget ''reason'' d of JStr s \<Rightarrow> py_strip s \<noteq> [] | _ \<Rightarrow> False))"

definition has_valid_outcome_evidence :: "jdict option \<Rightarrow> bool" where
  "has_valid_outcome_evidence r =
     (case r of None \<Rightarrow> False
      | Some d \<Rightarrow> (case dget ''actual'' d of JInt _ \<Rightarrow> True | JReal _ \<Rightarrow> True | _ \<Rightarrow> False)
                 \<and> has_valid_unmeasurable_reason r)"

section \<open>What a resolved hypothesis sets off\<close>

definition BET_SOURCE :: string where "BET_SOURCE = ''hypothesis_outcome_bet''"
definition EXECUTION_SOURCE :: string where "EXECUTION_SOURCE = ''hypothesis_outcome_execution''"
definition BET_ROLE_KEY :: string where "BET_ROLE_KEY = ''hypothesis_owner''"

record outcome_ids =
  oi_execution :: "uuid \<Rightarrow> uuid"
  oi_participation :: "uuid \<Rightarrow> uuid \<Rightarrow> uuid"
  oi_bet :: "uuid \<Rightarrow> uuid \<Rightarrow> uuid"

definition bet_members :: "hypothesis \<Rightarrow> uuid list" where
  "bet_members h = (case hy_confirmed_by h of None \<Rightarrow> [hy_owner h]
     | Some m \<Rightarrow> if m = hy_owner h then [hy_owner h] else [hy_owner h, m])"

definition record_bet :: "hypothesis \<Rightarrow> string \<Rightarrow> outcome_ids \<Rightarrow> timestamp \<Rightarrow> uuid \<Rightarrow> uuid \<Rightarrow> gate_db \<Rightarrow> error + gate_db" where
  "record_bet h result ids now s m db =
     res_bind (ensure_review_participation (hy_org h) s m BET_ROLE_KEY (oi_participation ids s m) now db) (\<lambda>(p, db1).
       case p of None \<Rightarrow> Inr db1
       | Some x \<Rightarrow> record_verdict (hy_org h) (pa_id x) BET_SOURCE (Some result) None (oi_bet ids s m) now db1)"

definition record_execution :: "hypothesis \<Rightarrow> string option \<Rightarrow> outcome_ids \<Rightarrow> timestamp \<Rightarrow> uuid \<Rightarrow> gate_db \<Rightarrow> error + gate_db" where
  "record_execution h result ids now s db =
     (case resolve_implementation_participation db (hy_org h) s of
        None \<Rightarrow> Inr db
      | Some x \<Rightarrow> record_verdict (hy_org h) (pa_id x) EXECUTION_SOURCE result None (oi_execution ids s) now db)"

definition linked_stories :: "hypothesis \<Rightarrow> gate_db \<Rightarrow> uuid list" where
  "linked_stories h db = map hl_story (filter (\<lambda>l. hl_hypothesis l = hy_id h) (t_story_links db))"

definition record_outcome_verdicts :: "hypothesis \<Rightarrow> outcome_ids \<Rightarrow> timestamp \<Rightarrow> gate_db \<Rightarrow> error + gate_db" where
  "record_outcome_verdicts h ids now db =
     (if hy_status h \<notin> {''verified'', ''falsified''} then Inr db
      else
        let bet = (if hy_status h = ''verified'' then ''pass'' else ''fail'');
            execution = (if hy_status h = ''verified'' then Some ''pass'' else None)
        in fold_res (\<lambda>s d. res_bind (record_execution h execution ids now s d)
             (fold_res (record_bet h bet ids now s) (bet_members h))) (linked_stories h db) db)"

definition LOOP_STATUSES :: "string list" where
  "LOOP_STATUSES = [''draft'', ''briefing'', ''generating'', ''deciding'', ''executing'', ''measuring'', ''closed'', ''abandoned'']"

definition valid_loop_transition :: "string \<Rightarrow> string \<Rightarrow> bool" where
  "valid_loop_transition f t \<longleftrightarrow>
     (f, t) \<in> {(''draft'', ''briefing''), (''briefing'', ''generating''), (''generating'', ''deciding''), (''deciding'', ''executing''),
                (''executing'', ''measuring''), (''measuring'', ''closed'')}
     \<or> f \<in> {''draft'', ''briefing'', ''generating'', ''deciding'', ''executing'', ''measuring''} \<and> t = ''abandoned''"

definition attributed_loop :: "hypothesis \<Rightarrow> timestamp \<Rightarrow> loop_run \<Rightarrow> loop_run" where
  "attributed_loop h now l = l\<lparr>lo_outcome_snapshot := Some [(''hypothesis_id'', JStr (hy_id h)), (''hypothesis_status'', JStr (hy_status h)),
       (''outcome_result'', case hy_outcome_result h of None \<Rightarrow> JNull | Some d \<Rightarrow> JObj d), (''attributed_at'', JInt now)],
     lo_attributed_at := Some now, lo_status := ''closed''\<rparr>"

definition attributable :: "hypothesis \<Rightarrow> loop_run \<Rightarrow> bool" where
  "attributable h l \<longleftrightarrow> lo_hypothesis l = Some (hy_id h) \<and> lo_org l = hy_org h \<and> lo_status l = ''measuring''
     \<and> lo_attributed_at l = None \<and> valid_loop_transition (lo_status l) ''closed''"

definition attribute_loop_outcome :: "hypothesis \<Rightarrow> timestamp \<Rightarrow> gate_db \<Rightarrow> gate_db" where
  "attribute_loop_outcome h now db =
     (if hy_status h \<notin> {''verified'', ''falsified''} then db
      else db\<lparr>t_loops := map (\<lambda>l. if attributable h l then attributed_loop h now l else l) (t_loops db)\<rparr>)"

section \<open>Hypotheses\<close>

definition valid_hypothesis_transition :: "string \<Rightarrow> string \<Rightarrow> bool" where
  "valid_hypothesis_transition f t \<longleftrightarrow>
     (f, t) \<in> {(''proposed'', ''active''), (''active'', ''measuring''), (''measuring'', ''verified''), (''measuring'', ''falsified''),
               (''proposed'', ''killed''), (''active'', ''killed''), (''measuring'', ''killed''), (''verified'', ''archived''),
               (''falsified'', ''archived''), (''killed'', ''archived'')}"

definition find_hypothesis :: "uuid \<Rightarrow> uuid \<Rightarrow> gate_db \<Rightarrow> hypothesis option" where
  "find_hypothesis org i db = List.find (\<lambda>h. hy_id h = i \<and> hy_org h = org) (t_hypotheses db)"

definition upd_hypothesis :: "uuid \<Rightarrow> (hypothesis \<Rightarrow> hypothesis) \<Rightarrow> gate_db \<Rightarrow> gate_db" where
  "upd_hypothesis i f db = db\<lparr>t_hypotheses := upd_row hy_id i f (t_hypotheses db)\<rparr>"

abbreviation hypothesis_error :: "string \<Rightarrow> error" where
  "hypothesis_error code \<equiv> ServiceError ''HypothesisServiceError'' code"

definition resolution :: "caller \<Rightarrow> string \<Rightarrow> jdict option \<Rightarrow> string option \<Rightarrow> timestamp \<Rightarrow> hypothesis \<Rightarrow> hypothesis" where
  \<comment> \<open>the columns that \<^verbatim>\<open>updates\<close> collects\<close>
  "resolution c target result note now h =
     (let h1 = h\<lparr>hy_status := target\<rparr>;
          h2 = (if target = ''active'' then h1\<lparr>hy_confirmed_by := Some (cl_id c)\<rparr> else h1);
          h3 = (case result of
                  Some d \<Rightarrow> if target \<in> {''verified'', ''falsified''}
                    then h2\<lparr>hy_outcome_result := Some (dict_update d [(''closed_by'', JStr (cl_type c)),
                           (''closed_by_member_id'', JStr (cl_id c))])\<rparr> else h2
                | None \<Rightarrow> h2);
          h4 = (case note of
                  Some n \<Rightarrow> if target = ''killed'' \<and> n \<noteq> []
                    then h3\<lparr>hy_outcome_result := Some (dict_update (case hy_outcome_result h of None \<Rightarrow> [] | Some d \<Rightarrow> d)
                           [(''reason'', JStr n)])\<rparr> else h3
                | None \<Rightarrow> h3)
      in (if target = ''archived'' then h4\<lparr>hy_archived_at := Some now\<rparr> else h4))"

definition settle_hypothesis :: "caller \<Rightarrow> string \<Rightarrow> jdict option \<Rightarrow> string option \<Rightarrow> outcome_ids \<Rightarrow> timestamp \<Rightarrow> hypothesis \<Rightarrow> gate_db
    \<Rightarrow> error + gate_db" where
  \<comment> \<open>from the check for a person on\<close>
  "settle_hypothesis c target result note ids now h db =
     (if target \<in> {''active'', ''verified'', ''falsified''} \<and> cl_type c \<noteq> ''human''
      then Inl (hypothesis_error ''HUMAN_CONFIRM_REQUIRED'')
      else if target \<in> {''verified'', ''falsified''} \<and> \<not> has_valid_outcome_evidence result
      then Inl (hypothesis_error ''OUTCOME_RESULT_REQUIRED'')
      else
        let h' = resolution c target result note now h;
            db1 = upd_hypothesis (hy_id h) (resolution c target result note now) db
        in if target \<in> {''verified'', ''falsified''}
           then res_bind (record_outcome_verdicts h' ids now db1) (\<lambda>db2. Inr (attribute_loop_outcome h' now db2))
           else Inr db1)"

definition transition_hypothesis :: "line_env \<Rightarrow> uuid \<Rightarrow> caller \<Rightarrow> uuid \<Rightarrow> string \<Rightarrow> jdict option \<Rightarrow> string option \<Rightarrow> bool
    \<Rightarrow> string \<Rightarrow> line_ids \<Rightarrow> outcome_ids \<Rightarrow> timestamp \<Rightarrow> gate_db \<Rightarrow> error + gate_db" where
  "transition_hypothesis env org c i target result note via_gate tid lids ids now db =
     (case find_hypothesis org i db of
        None \<Rightarrow> Inl (hypothesis_error ''HYPOTHESIS_NOT_FOUND'')
      | Some h \<Rightarrow>
          if target \<notin> set HYPOTHESIS_STATUSES then Inl (hypothesis_error ''INVALID_STATUS'')
          else if \<not> valid_hypothesis_transition (hy_status h) target
          then Inl (hypothesis_error ''INVALID_HYPOTHESIS_TRANSITION'')
          else
            let (held, db1) = (if target = ''active'' \<and> hy_status h = ''proposed'' \<and> \<not> via_gate
                  then line_holds env (overlay_args org (hy_project h) ''hypothesis'' (hy_id h) ''proposed'' ''active'' c tid) lids now db
                  else (False, db))
            in if held then Inr db1 else settle_hypothesis c target result note ids now h db1)"

section \<open>Scoring\<close>

record scoring =
  sg_status :: string
  sg_result :: "jdict option"

definition pending_scoring :: scoring where "pending_scoring = \<lparr>sg_status = ''pending'', sg_result = None\<rparr>"

definition py_float :: "(string \<Rightarrow> real option) \<Rightarrow> json \<Rightarrow> real option" where
  "py_float num j = (case j of JInt i \<Rightarrow> Some (of_int i) | JReal r \<Rightarrow> Some r | JBool b \<Rightarrow> Some (if b then 1 else 0)
     | JStr s \<Rightarrow> num s | _ \<Rightarrow> None)"

definition apply_direction :: "real \<Rightarrow> real \<Rightarrow> json \<Rightarrow> string option" where
  "apply_direction actual target direction =
     (if direction = JStr ''up'' then Some (if actual \<ge> target then ''hit'' else ''miss'')
      else if direction = JStr ''down'' then Some (if actual \<le> target then ''hit'' else ''miss'')
      else None)"

definition scored :: "(string \<Rightarrow> real option) \<Rightarrow> json \<Rightarrow> real \<Rightarrow> timestamp \<Rightarrow> scoring" where
  \<comment> \<open>from \<^verbatim>\<open>float(target)\<close> on, the same in the three scorers\<close>
  "scored num md actual now =
     (case py_float num (jget ''target'' md) of
        None \<Rightarrow> pending_scoring
      | Some target \<Rightarrow>
          (case apply_direction actual target (jget ''direction'' md) of
             None \<Rightarrow> pending_scoring
           | Some v \<Rightarrow> \<lparr>sg_status = v, sg_result = Some [(''metric'', jget ''metric'' md), (''target'', JReal target),
                  (''actual'', JReal actual), (''direction'', jget ''direction'' md), (''scored_at'', JInt now)]\<rparr>))"

definition round2 :: "real \<Rightarrow> real" where
  "round2 x = of_int (round_half_even (x * 100)) / 100"

definition score_sprint_outcome :: "(string \<Rightarrow> real option) \<Rightarrow> json \<Rightarrow> int \<Rightarrow> nat \<Rightarrow> int \<Rightarrow> timestamp \<Rightarrow> scoring option" where
  "score_sprint_outcome num md velocity backlog points now =
     (if \<not> truthy md then None
      else if jget ''source'' md \<noteq> JStr ''internal_ops'' then Some pending_scoring
      else if jget ''metric'' md = JStr ''velocity'' then Some (scored num md (of_int velocity) now)
      else if jget ''metric'' md = JStr ''backlog_remaining'' then Some (scored num md (real backlog) now)
      else if jget ''metric'' md = JStr ''progress''
      then Some (scored num md (round2 (if points > 0 then of_int velocity / of_int points * 100 else 0)) now)
      else Some pending_scoring)"

definition score_epic_outcome :: "(string \<Rightarrow> real option) \<Rightarrow> json \<Rightarrow> real \<Rightarrow> timestamp \<Rightarrow> scoring option" where
  "score_epic_outcome num md pct now =
     (if \<not> truthy md then None
      else if jget ''source'' md \<noteq> JStr ''internal_ops'' then Some pending_scoring
      else if jget ''metric'' md = JStr ''completion_pct'' then Some (scored num md (round2 pct) now)
      else Some pending_scoring)"

definition score_ga4_outcome :: "(json \<Rightarrow> error + real option) \<Rightarrow> (string \<Rightarrow> real option) \<Rightarrow> json \<Rightarrow> timestamp \<Rightarrow> error + scoring" where
  \<comment> \<open>\<^verbatim>\<open>ga4\<close> is what fetching the metric of this definition gives, an exception included\<close>
  "score_ga4_outcome ga4 num md now =
     (if \<not> truthy (jget ''property_id'' md) \<or> \<not> truthy (jget ''ga4_metric'' md) then Inr pending_scoring
      else res_bind (ga4 md) (\<lambda>actual. case actual of None \<Rightarrow> Inr pending_scoring | Some x \<Rightarrow> Inr (scored num md x now)))"

section \<open>Sprints\<close>

definition valid_sprint_transition :: "string \<Rightarrow> string \<Rightarrow> bool" where
  "valid_sprint_transition f t \<longleftrightarrow>
     (f, t) \<in> {(''planning'', ''active''), (''planning'', ''closed''), (''active'', ''review''), (''active'', ''closed''),
               (''review'', ''closed''), (''closed'', ''archived'')}"

definition DEAD_HYPOTHESIS_STATUSES :: "string list" where "DEAD_HYPOTHESIS_STATUSES = [''killed'', ''archived'']"

definition find_sprint :: "uuid \<Rightarrow> uuid \<Rightarrow> gate_db \<Rightarrow> sprint option" where
  "find_sprint org i db = List.find (\<lambda>s. sp_id s = i \<and> sp_org s = org) (t_sprints db)"

definition upd_sprint :: "uuid \<Rightarrow> (sprint \<Rightarrow> sprint) \<Rightarrow> gate_db \<Rightarrow> gate_db" where
  "upd_sprint i f db = db\<lparr>t_sprints := upd_row sp_id i f (t_sprints db)\<rparr>"

definition active_sprints :: "uuid \<Rightarrow> uuid \<Rightarrow> gate_db \<Rightarrow> sprint list" where
  "active_sprints org project db =
     filter (\<lambda>s. sp_org s = org \<and> sp_project s = project \<and> sp_status s = ''active'') (t_sprints db)"

definition activate_sprint :: "sprint \<Rightarrow> gate_db \<Rightarrow> error + gate_db" where
  "activate_sprint s db =
     (if sp_status s \<noteq> ''planning'' then Inl (ValueError ''cannot activate'')
      else res_bind (scalar_one_or_none (active_sprints (sp_org s) (sp_project s) db)) (\<lambda>other.
        if other \<noteq> None then Inl (ValueError ''active sprint already exists'')
        else Inr (upd_sprint (sp_id s) (\<lambda>x. x\<lparr>sp_status := ''active''\<rparr>) db)))"

definition closed_sprint :: "int \<Rightarrow> scoring option \<Rightarrow> sprint \<Rightarrow> sprint" where
  "closed_sprint velocity sg s =
     (let s1 = s\<lparr>sp_status := ''closed'', sp_velocity := Some velocity\<rparr>
      in case sg of None \<Rightarrow> s1
         | Some g \<Rightarrow> s1\<lparr>sp_outcome_status := sg_status g, sp_outcome_result := map_option JObj (sg_result g)\<rparr>)"

definition close_sprint :: "(string \<Rightarrow> real option) \<Rightarrow> sprint \<Rightarrow> timestamp \<Rightarrow> gate_db \<Rightarrow> error + gate_db" where
  "close_sprint num s now db =
     (if sp_status s \<notin> {''active'', ''review''} then Inl (ValueError ''cannot close'')
      else
        let stories = filter (\<lambda>x. st_sprint_id x = Some (sp_id s) \<and> st_deleted_at x = None) (t_stories db);
            finished = filter (\<lambda>x. st_status x = ''done'') stories;
            velocity = sum_list (map story_weight finished);
            sg = score_sprint_outcome num (case sp_metric_definition s of None \<Rightarrow> JNull | Some m \<Rightarrow> m) velocity
                   (length stories - length finished) (sum_list (map story_weight stories)) now
        in Inr (upd_sprint (sp_id s) (closed_sprint velocity sg) db))"

definition alive_hypothesis_linked :: "uuid \<Rightarrow> gate_db \<Rightarrow> bool" where
  "alive_hypothesis_linked i db = list_ex (\<lambda>l. hs_sprint l = i \<and>
     list_ex (\<lambda>h. hy_id h = hs_hypothesis l \<and> hy_status h \<notin> set DEAD_HYPOTHESIS_STATUSES) (t_hypotheses db)) (t_sprint_links db)"

abbreviation sprint_error :: "string \<Rightarrow> error" where
  "sprint_error code \<equiv> ServiceError ''SprintTransitionError'' code"

definition apply_sprint :: "(string \<Rightarrow> real option) \<Rightarrow> sprint \<Rightarrow> string \<Rightarrow> timestamp \<Rightarrow> gate_db \<Rightarrow> error + gate_db" where
  "apply_sprint num s to_status now db =
     (if to_status = ''active'' then activate_sprint s db
      else if to_status = ''closed''
      then (if sp_status s = ''planning''
            then Inr (upd_sprint (sp_id s) (\<lambda>x. x\<lparr>sp_status := ''closed'', sp_velocity := Some 0\<rparr>) db)
            else close_sprint num s now db)
      else Inr (upd_sprint (sp_id s) (\<lambda>x. x\<lparr>sp_status := to_status\<rparr>) db))"

definition transition_sprint :: "line_env \<Rightarrow> (string \<Rightarrow> real option) \<Rightarrow> uuid \<Rightarrow> caller \<Rightarrow> uuid \<Rightarrow> string \<Rightarrow> bool \<Rightarrow> string \<Rightarrow> line_ids
    \<Rightarrow> timestamp \<Rightarrow> gate_db \<Rightarrow> error + gate_db" where
  "transition_sprint env num org c i to_status via_gate tid lids now db =
     (case find_sprint org i db of
        None \<Rightarrow> Inl (sprint_error ''SPRINT_NOT_FOUND'')
      | Some s \<Rightarrow>
          if to_status \<notin> set SPRINT_STATUSES then Inl (sprint_error ''INVALID_STATUS'')
          else if \<not> valid_sprint_transition (sp_status s) to_status then Inl (sprint_error ''INVALID_SPRINT_TRANSITION'')
          else if sp_status s = ''planning'' \<and> to_status = ''active'' \<and> \<not> alive_hypothesis_linked i db
          then Inl (sprint_error ''HYPOTHESIS_REQUIRED_FOR_ACTIVATION'')
          else
            let (held, db1) = (if (sp_status s, to_status) \<in> {(''planning'', ''active''), (''active'', ''closed''), (''review'', ''closed'')}
                    \<and> \<not> via_gate
                  then line_holds env (overlay_args org (sp_project s) ''sprint'' (sp_id s) (sp_status s) to_status c tid) lids now db
                  else (False, db))
            in if held then Inr db1 else apply_sprint num s to_status now db1)"

section \<open>Goals\<close>

definition valid_goal_transition :: "string \<Rightarrow> string \<Rightarrow> bool" where
  "valid_goal_transition f t \<longleftrightarrow>
     (f, t) \<in> {(''draft'', ''active''), (''active'', ''done''), (''active'', ''archived''), (''done'', ''archived''), (''draft'', ''archived'')}"

definition find_goal :: "uuid \<Rightarrow> uuid \<Rightarrow> gate_db \<Rightarrow> goal option" where
  "find_goal org i db = List.find (\<lambda>g. gl_id g = i \<and> gl_org g = org) (t_goals db)"

definition upd_goal :: "uuid \<Rightarrow> (goal \<Rightarrow> goal) \<Rightarrow> gate_db \<Rightarrow> gate_db" where
  "upd_goal i f db = db\<lparr>t_goals := upd_row gl_id i f (t_goals db)\<rparr>"

abbreviation goal_error :: "string \<Rightarrow> error" where
  "goal_error code \<equiv> ServiceError ''GoalTransitionError'' code"

definition judged_goal :: "caller \<Rightarrow> string option \<Rightarrow> jdict option \<Rightarrow> goal \<Rightarrow> error + (goal \<Rightarrow> goal)" where
  \<comment> \<open>the judgement a goal needs when it is done\<close>
  "judged_goal c outcome result g =
     (if gl_outcome_status g \<in> {''hit'', ''miss''} then Inr id
      else (case outcome of
              None \<Rightarrow> Inr (\<lambda>x. x\<lparr>gl_outcome_status := ''unmeasured''\<rparr>)
            | Some oc \<Rightarrow>
                if oc \<notin> {''hit'', ''miss'', ''unmeasurable''} then Inl (goal_error ''INVALID_OUTCOME_STATUS'')
                else if oc \<in> {''hit'', ''miss''} \<and> \<not> has_valid_outcome_evidence result then Inl (goal_error ''OUTCOME_RESULT_REQUIRED'')
                else if oc = ''unmeasurable'' \<and> \<not> has_valid_unmeasurable_reason result then Inl (goal_error ''OUTCOME_REASON_REQUIRED'')
                else Inr (\<lambda>x. x\<lparr>gl_outcome_status := oc, gl_outcome_result := Some (dict_update (case result of None \<Rightarrow> [] | Some d \<Rightarrow> d)
                       [(''source'', JStr ''manual''), (''closed_by'', JStr (cl_type c)), (''closed_by_member_id'', JStr (cl_id c))])\<rparr>)))"

definition transition_goal :: "line_env \<Rightarrow> uuid \<Rightarrow> caller \<Rightarrow> uuid \<Rightarrow> string \<Rightarrow> bool \<Rightarrow> string option \<Rightarrow> jdict option \<Rightarrow> string \<Rightarrow> line_ids
    \<Rightarrow> timestamp \<Rightarrow> gate_db \<Rightarrow> error + gate_db" where
  "transition_goal env org c i to_status via_gate outcome result tid lids now db =
     (case find_goal org i db of
        None \<Rightarrow> Inl (goal_error ''EPIC_NOT_FOUND'')
      | Some g \<Rightarrow>
          if to_status \<notin> set GOAL_STATUSES then Inl (goal_error ''INVALID_STATUS'')
          else if \<not> valid_goal_transition (gl_status g) to_status then Inl (goal_error ''INVALID_EPIC_TRANSITION'')
          else
            let (held, db1) = (if (gl_status g, to_status) \<in> {(''draft'', ''active''), (''active'', ''done'')} \<and> \<not> via_gate
                  then line_holds env (overlay_args org (gl_project g) ''epic'' (gl_id g) (gl_status g) to_status c tid) lids now db
                  else (False, db))
            in if held then Inr db1
               else if to_status = ''active'' \<and> cl_type c \<noteq> ''human'' then Inl (goal_error ''HUMAN_CONFIRM_REQUIRED'')
               else if to_status = ''done''
               then res_bind (judged_goal c outcome result g) (\<lambda>judge.
                      Inr (upd_goal (gl_id g) (\<lambda>x. (judge x)\<lparr>gl_status := ''done''\<rparr>) db1))
               else Inr (upd_goal (gl_id g) (\<lambda>x. x\<lparr>gl_status := to_status\<rparr>) db1))"

end
