(* ===== verification/Outcome_Loop.thy ===== *)
theory Outcome_Loop
  imports Lifecycle
begin

text \<open>
  The outcome loop: creating, changing, linking and archiving hypotheses (services/hypothesis.py), the cron that scores them
  (services/hypothesis_scorer.py), the loops that wait for their outcome (services/loop.py) and the
  drafts of an outcome that a person confirms at a gate (services/hypothesis_outcome_confirm.py). Epic
  links, embeddings and the briefing document of a loop are not modelled.
\<close>

section \<open>Creating and linking hypotheses\<close>

definition lookup_member :: "uuid \<Rightarrow> gate_db \<Rightarrow> string \<times> uuid option" where
  \<comment> \<open>type and organisation of \<^verbatim>\<open>_lookup_members_by_ids_legacy\<close>; an unknown id is a person of no organisation\<close>
  "lookup_member i db =
     (case List.find (\<lambda>m. tm_id m = i) (t_team_members db) of
        Some m \<Rightarrow> (tm_type m, Some (tm_org m))
      | None \<Rightarrow> (case List.find (\<lambda>m. om_id m = i) (t_org_members db) of
                    Some m \<Rightarrow> (''human'', Some (om_org m))
                  | None \<Rightarrow> (''human'', None)))"

definition targets_same_project :: "uuid \<Rightarrow> uuid list \<Rightarrow> uuid list \<Rightarrow> uuid option \<Rightarrow> gate_db \<Rightarrow> bool" where
  \<comment> \<open>\<^verbatim>\<open>_assert_targets_same_project\<close>; unknown targets are refused\<close>
  "targets_same_project project epics stories sprint_id db \<longleftrightarrow>
     list_all (\<lambda>e. list_ex (\<lambda>g. gl_id g = e \<and> gl_project g = project) (t_goals db)) epics
     \<and> list_all (\<lambda>s. list_ex (\<lambda>x. st_id x = s \<and> st_project x = project) (t_stories db)) stories
     \<and> (case sprint_id of None \<Rightarrow> True
        | Some i \<Rightarrow> map_option sp_project (List.find (\<lambda>s. sp_id s = i) (t_sprints db)) = Some project)"

definition add_story_links :: "uuid \<Rightarrow> uuid list \<Rightarrow> gate_db \<Rightarrow> error + gate_db" where
  \<comment> \<open>a story named twice violates the unique key\<close>
  "add_story_links i stories db =
     (let existing = map hl_story (filter (\<lambda>l. hl_hypothesis l = i) (t_story_links db));
          new = filter (\<lambda>s. s \<notin> set existing) stories
      in if distinct new
         then Inr (db\<lparr>t_story_links := t_story_links db @ map (\<lambda>s. \<lparr>hl_hypothesis = i, hl_story = s\<rparr>) new\<rparr>)
         else Inl IntegrityError)"

definition set_sprint_link :: "uuid \<Rightarrow> uuid \<Rightarrow> gate_db \<Rightarrow> gate_db" where
  \<comment> \<open>one sprint per hypothesis: insert, or move the link there is\<close>
  "set_sprint_link i sprint_id db =
     (if list_ex (\<lambda>l. hs_hypothesis l = i) (t_sprint_links db)
      then db\<lparr>t_sprint_links := map (\<lambda>l. if hs_hypothesis l = i then l\<lparr>hs_sprint := sprint_id\<rparr> else l) (t_sprint_links db)\<rparr>
      else db\<lparr>t_sprint_links := t_sprint_links db @ [\<lparr>hs_hypothesis = i, hs_sprint = sprint_id\<rparr>]\<rparr>)"

definition remove_sprint_link :: "uuid \<Rightarrow> gate_db \<Rightarrow> gate_db" where
  "remove_sprint_link i db = db\<lparr>t_sprint_links := filter (\<lambda>l. hs_hypothesis l \<noteq> i) (t_sprint_links db)\<rparr>"

definition link_sprint :: "uuid \<Rightarrow> uuid option \<Rightarrow> gate_db \<Rightarrow> gate_db" where
  "link_sprint i sprint_id db = (case sprint_id of None \<Rightarrow> db | Some s \<Rightarrow> set_sprint_link i s db)"

record hypothesis_payload =
  hp_project :: uuid
  hp_statement :: string
  hp_metric_definition :: json
  hp_measure_after :: timestamp
  hp_owner :: "uuid option"
  hp_status :: string
  hp_epics :: "uuid list"
  hp_stories :: "uuid list"
  hp_sprint :: "uuid option"

definition new_hypothesis :: "uuid \<Rightarrow> caller \<Rightarrow> hypothesis_payload \<Rightarrow> uuid \<Rightarrow> string \<Rightarrow> uuid \<Rightarrow> hypothesis" where
  "new_hypothesis org c p owner status fresh =
     \<lparr>hy_id = fresh, hy_org = org, hy_project = hp_project p, hy_status = status, hy_owner = owner,
      hy_confirmed_by = (if status = ''active'' then Some (cl_id c) else None), hy_outcome_result = None,
      hy_statement = hp_statement p, hy_metric_definition = hp_metric_definition p, hy_measure_after = hp_measure_after p,
      hy_created_by = cl_id c, hy_drafted_by = (if cl_type c \<noteq> ''human'' then Some (cl_id c) else None), hy_archived_at = None\<rparr>"

definition create_hypothesis :: "uuid \<Rightarrow> caller \<Rightarrow> hypothesis_payload \<Rightarrow> uuid \<Rightarrow> gate_db \<Rightarrow> error + gate_db" where
  "create_hypothesis org c p fresh db =
     (if hp_owner p = None \<and> cl_type c \<noteq> ''human'' then Inl (hypothesis_error ''HUMAN_OWNER_REQUIRED'')
      else
        let owner = (case hp_owner p of None \<Rightarrow> cl_id c | Some m \<Rightarrow> m);
            status = (if cl_type c \<noteq> ''human'' then ''proposed'' else if hp_status p = [] then ''proposed'' else hp_status p)
        in if lookup_member owner db \<noteq> (''human'', Some org) then Inl (hypothesis_error ''HUMAN_OWNER_REQUIRED'')
           else if status \<notin> {''proposed'', ''active''} then Inl (hypothesis_error ''INVALID_CREATE_STATUS'')
           else if \<not> targets_same_project (hp_project p) (hp_epics p) (hp_stories p) (hp_sprint p) db
           then Inl (hypothesis_error ''CROSS_PROJECT_LINK_FORBIDDEN'')
           else res_bind (add_story_links fresh (hp_stories p)
                    (db\<lparr>t_hypotheses := t_hypotheses db @ [new_hypothesis org c p owner status fresh]\<rparr>))
                  (\<lambda>db1. Inr (link_sprint fresh (hp_sprint p) db1)))"

definition DEFAULT_MEASURE_DAYS :: int where "DEFAULT_MEASURE_DAYS = 14"

definition create_hypothesis_guided :: "line_env \<Rightarrow> uuid \<Rightarrow> caller \<Rightarrow> uuid \<Rightarrow> string \<Rightarrow> json \<Rightarrow> json \<Rightarrow> json \<Rightarrow> uuid \<Rightarrow> string \<Rightarrow> line_ids
    \<Rightarrow> outcome_ids \<Rightarrow> timestamp \<Rightarrow> gate_db \<Rightarrow> error + gate_db" where
  "create_hypothesis_guided env org c project statement metric target direction fresh tid lids ids now db =
     (if cl_type c \<noteq> ''human'' then Inl (hypothesis_error ''HUMAN_ONLY'')
      else res_bind (create_hypothesis org c
               \<lparr>hp_project = project, hp_statement = statement, hp_metric_definition = JObj [(''metric'', metric),
                  (''source'', JStr ''manual''), (''target'', target), (''direction'', direction)],
                hp_measure_after = now + minutes (DEFAULT_MEASURE_DAYS * 24 * 60), hp_owner = Some (cl_id c),
                hp_status = ''active'', hp_epics = [], hp_stories = [], hp_sprint = None\<rparr> fresh db)
             (\<lambda>db1. transition_hypothesis env org c fresh ''measuring'' None None False tid lids ids now db1))"

definition link_hypothesis :: "uuid \<Rightarrow> uuid \<Rightarrow> uuid list \<Rightarrow> uuid list \<Rightarrow> uuid option \<Rightarrow> gate_db \<Rightarrow> error + gate_db" where
  "link_hypothesis org i epics stories sprint_id db =
     (case find_hypothesis org i db of
        None \<Rightarrow> Inl (hypothesis_error ''HYPOTHESIS_NOT_FOUND'')
      | Some h \<Rightarrow>
          if \<not> targets_same_project (hy_project h) epics stories sprint_id db
          then Inl (hypothesis_error ''CROSS_PROJECT_LINK_FORBIDDEN'')
          else res_bind (add_story_links i stories db) (\<lambda>db1. Inr (link_sprint i sprint_id db1)))"

definition unlink_hypothesis :: "uuid \<Rightarrow> uuid \<Rightarrow> uuid list \<Rightarrow> bool \<Rightarrow> gate_db \<Rightarrow> error + gate_db" where
  "unlink_hypothesis org i stories unlink_sprint db =
     (case find_hypothesis org i db of
        None \<Rightarrow> Inl (hypothesis_error ''HYPOTHESIS_NOT_FOUND'')
      | Some _ \<Rightarrow>
          let db1 = db\<lparr>t_story_links := filter (\<lambda>l. \<not> (hl_hypothesis l = i \<and> hl_story l \<in> set stories)) (t_story_links db)\<rparr>
          in Inr (if unlink_sprint then remove_sprint_link i db1 else db1))"

record hypothesis_update =
  \<comment> \<open>what the request sets; \<^verbatim>\<open>hu_other\<close> says whether it sets a column outside the model\<close>
  hu_statement :: "string option"
  hu_metric_definition :: "json option"
  hu_measure_after :: "timestamp option"
  hu_owner :: "uuid option"
  hu_sprint :: "uuid option option"
  hu_other :: bool

definition apply_update :: "hypothesis_update \<Rightarrow> hypothesis \<Rightarrow> hypothesis" where
  "apply_update u h = h\<lparr>hy_statement := (case hu_statement u of None \<Rightarrow> hy_statement h | Some x \<Rightarrow> x),
     hy_metric_definition := (case hu_metric_definition u of None \<Rightarrow> hy_metric_definition h | Some x \<Rightarrow> x),
     hy_measure_after := (case hu_measure_after u of None \<Rightarrow> hy_measure_after h | Some x \<Rightarrow> x),
     hy_owner := (case hu_owner u of None \<Rightarrow> hy_owner h | Some x \<Rightarrow> x)\<rparr>"

definition update_hypothesis :: "uuid \<Rightarrow> uuid \<Rightarrow> hypothesis_update \<Rightarrow> gate_db \<Rightarrow> error + gate_db" where
  "update_hypothesis org i u db =
     (case find_hypothesis org i db of
        None \<Rightarrow> Inl (hypothesis_error ''HYPOTHESIS_NOT_FOUND'')
      | Some h \<Rightarrow>
          if hu_statement u = None \<and> hu_metric_definition u = None \<and> hu_measure_after u = None \<and> hu_owner u = None
             \<and> hu_sprint u = None \<and> \<not> hu_other u
          then Inl (hypothesis_error ''NO_VALID_FIELDS'')
          else if (case hu_owner u of None \<Rightarrow> False | Some m \<Rightarrow> lookup_member m db \<noteq> (''human'', Some org))
          then Inl (hypothesis_error ''HUMAN_OWNER_REQUIRED'')
          else if (case hu_sprint u of Some (Some s) \<Rightarrow> \<not> targets_same_project (hy_project h) [] [] (Some s) db | _ \<Rightarrow> False)
          then Inl (hypothesis_error ''CROSS_PROJECT_LINK_FORBIDDEN'')
          else
            let db1 = upd_hypothesis i (apply_update u) db
            in Inr (case hu_sprint u of None \<Rightarrow> db1 | Some None \<Rightarrow> remove_sprint_link i db1 | Some (Some s) \<Rightarrow> set_sprint_link i s db1))"

definition archive_hypothesis :: "uuid \<Rightarrow> uuid \<Rightarrow> timestamp \<Rightarrow> gate_db \<Rightarrow> error + gate_db" where
  \<comment> \<open>from any status: the state machine is not asked\<close>
  "archive_hypothesis org i now db =
     (if find_hypothesis org i db = None then Inl (hypothesis_error ''HYPOTHESIS_NOT_FOUND'')
      else Inr (upd_hypothesis i (\<lambda>h. h\<lparr>hy_status := ''archived'', hy_archived_at := Some now\<rparr>) db))"

section \<open>The scoring cron\<close>

definition linked_story_completion_pct :: "uuid \<Rightarrow> gate_db \<Rightarrow> real" where
  "linked_story_completion_pct i db =
     (let rows = List.map_filter (\<lambda>l. if hl_hypothesis l = i
              then List.find (\<lambda>s. st_id s = hl_story l \<and> st_deleted_at s = None) (t_stories db) else None) (t_story_links db);
          finished = filter (\<lambda>s. st_status s = ''done'') rows
      in round2 (if length rows > 0 then real (length finished) / real (length rows) * 100 else 0))"

record score_report =
  rp_to_measuring :: "uuid list"
  rp_verified :: "uuid list"
  rp_falsified :: "uuid list"
  rp_pending :: "uuid list"
  rp_failed :: "uuid list"

definition empty_report :: score_report where
  "empty_report = \<lparr>rp_to_measuring = [], rp_verified = [], rp_falsified = [], rp_pending = [], rp_failed = []\<rparr>"

record score_env =
  se_ga4 :: "json \<Rightarrow> error + real option"
  se_num :: "string \<Rightarrow> real option"

definition score_metric :: "score_env \<Rightarrow> hypothesis \<Rightarrow> timestamp \<Rightarrow> gate_db \<Rightarrow> error + scoring" where
  "score_metric e h now db =
     (let md = (if truthy (hy_metric_definition h) then hy_metric_definition h else JObj []) in
      if jget ''source'' md = JStr ''ga4'' then score_ga4_outcome (se_ga4 e) (se_num e) md now
      else if jget ''source'' md = JStr ''internal_ops''
      then Inr (case score_epic_outcome (se_num e) md (linked_story_completion_pct (hy_id h) db) now of
                  None \<Rightarrow> pending_scoring | Some s \<Rightarrow> s)
      else Inr pending_scoring)"

definition OUTCOME_TO_STATUS :: "string \<Rightarrow> string option" where
  "OUTCOME_TO_STATUS s = (if s = ''hit'' then Some ''verified'' else if s = ''miss'' then Some ''falsified'' else None)"

definition resolve_scored :: "hypothesis \<Rightarrow> string \<Rightarrow> scoring \<Rightarrow> outcome_ids \<Rightarrow> timestamp \<Rightarrow> gate_db \<Rightarrow> error + gate_db" where
  "resolve_scored h status sg ids now db =
     (let f = (\<lambda>x. x\<lparr>hy_status := status, hy_outcome_result := sg_result sg\<rparr>)
      in res_bind (record_outcome_verdicts (f h) ids now (upd_hypothesis (hy_id h) f db)) (\<lambda>db1.
           Inr (attribute_loop_outcome (f h) now db1)))"

definition score_one :: "score_env \<Rightarrow> outcome_ids \<Rightarrow> timestamp \<Rightarrow> hypothesis \<Rightarrow> score_report \<times> gate_db
    \<Rightarrow> error + (score_report \<times> gate_db)" where
  "score_one e ids now h st =
     (let (r, db) = st;
          (r1, db1) = (if hy_status h = ''active''
             then (r\<lparr>rp_to_measuring := rp_to_measuring r @ [hy_id h]\<rparr>, upd_hypothesis (hy_id h) (\<lambda>x. x\<lparr>hy_status := ''measuring''\<rparr>) db)
             else (r, db))
      in case score_metric e h now db1 of
           Inl _ \<Rightarrow> Inr (r1\<lparr>rp_failed := rp_failed r1 @ [hy_id h]\<rparr>, db1)
         | Inr sg \<Rightarrow>
             (case OUTCOME_TO_STATUS (sg_status sg) of
                None \<Rightarrow> Inr (r1\<lparr>rp_pending := rp_pending r1 @ [hy_id h]\<rparr>, db1)
              | Some status \<Rightarrow>
                  res_bind (resolve_scored (h\<lparr>hy_status := ''measuring''\<rparr>) status sg ids now db1) (\<lambda>db2.
                    Inr (if status = ''verified'' then r1\<lparr>rp_verified := rp_verified r1 @ [hy_id h]\<rparr>
                         else r1\<lparr>rp_falsified := rp_falsified r1 @ [hy_id h]\<rparr>, db2))))"

definition due_hypotheses :: "timestamp \<Rightarrow> gate_db \<Rightarrow> hypothesis list" where
  "due_hypotheses now db =
     filter (\<lambda>h. hy_measure_after h \<le> now \<and> hy_status h \<in> {''active'', ''measuring''}) (t_hypotheses db)"

definition score_hypotheses :: "score_env \<Rightarrow> outcome_ids \<Rightarrow> timestamp \<Rightarrow> gate_db \<Rightarrow> error + (score_report \<times> gate_db)" where
  "score_hypotheses e ids now db = fold_res (score_one e ids now) (due_hypotheses now db) (empty_report, db)"

section \<open>Loops\<close>

abbreviation loop_error :: "string \<Rightarrow> error" where
  "loop_error code \<equiv> ServiceError ''LoopServiceError'' code"

definition upd_loop :: "uuid \<Rightarrow> (loop_run \<Rightarrow> loop_run) \<Rightarrow> gate_db \<Rightarrow> gate_db" where
  "upd_loop i f db = db\<lparr>t_loops := upd_row lo_id i f (t_loops db)\<rparr>"

definition add_loop :: "uuid \<Rightarrow> caller \<Rightarrow> uuid \<Rightarrow> string \<Rightarrow> uuid \<Rightarrow> uuid \<Rightarrow> gate_db \<Rightarrow> error + gate_db" where
  \<comment> \<open>from the check of the hypothesis on\<close>
  "add_loop org c project title hypothesis_id fresh db =
     (case find_hypothesis org hypothesis_id db of
        None \<Rightarrow> Inl (loop_error ''HYPOTHESIS_NOT_FOUND'')
      | Some h \<Rightarrow>
          if hy_project h \<noteq> project then Inl (loop_error ''HYPOTHESIS_PROJECT_MISMATCH'')
          else Inr (db\<lparr>t_loops := t_loops db @ [\<lparr>lo_id = fresh, lo_org = org, lo_project = project,
                 lo_hypothesis = Some hypothesis_id, lo_status = ''draft'', lo_outcome_snapshot = None, lo_attributed_at = None,
                 lo_decision_gate = None, lo_chosen_artifact = None, lo_title = title, lo_created_by = cl_id c\<rparr>]\<rparr>))"

definition create_loop :: "uuid \<Rightarrow> caller \<Rightarrow> uuid \<Rightarrow> string \<Rightarrow> uuid + hypothesis_payload option \<Rightarrow> uuid \<Rightarrow> uuid \<Rightarrow> gate_db \<Rightarrow> error + gate_db" where
  \<comment> \<open>with the id of a hypothesis, or with the parts of a new one; its own errors come under the loop's class\<close>
  "create_loop org c project title hyp fresh_hyp fresh db =
     (case hyp of
        Inl i \<Rightarrow> add_loop org c project title i fresh db
      | Inr None \<Rightarrow> Inl (loop_error ''LOOP_HYPOTHESIS_REQUIRED'')
      | Inr (Some p) \<Rightarrow>
          (case create_hypothesis org c p fresh_hyp db of
             Inl (ServiceError _ code) \<Rightarrow> Inl (loop_error code)
           | Inl e \<Rightarrow> Inl e
           | Inr db1 \<Rightarrow> add_loop org c project title fresh_hyp fresh db1))"

definition LOOP_TRANSITION_ALLOWED_TARGETS :: "string list" where
  "LOOP_TRANSITION_ALLOWED_TARGETS = [''briefing'', ''generating'', ''deciding'', ''measuring'', ''abandoned'']"

definition transition_loop :: "uuid \<Rightarrow> loop_run \<Rightarrow> string \<Rightarrow> gate_db \<Rightarrow> error + gate_db" where
  "transition_loop org l target db =
     (if target \<notin> set LOOP_TRANSITION_ALLOWED_TARGETS then Inl (loop_error ''TRANSITION_NOT_ALLOWED'')
      else if \<not> valid_loop_transition (lo_status l) target then Inl (loop_error ''INVALID_LOOP_TRANSITION'')
      else if target = ''generating'' \<and>
        map_option hy_status (Option.bind (lo_hypothesis l) (\<lambda>i. find_hypothesis org i db)) \<noteq> Some ''active''
      then Inl (loop_error ''HYPOTHESIS_NOT_ACTIVE'')
      else Inr (upd_loop (lo_id l) (\<lambda>x. x\<lparr>lo_status := target\<rparr>) db))"

section \<open>Drafts of an outcome\<close>

definition HYPOTHESIS_OUTCOME_CONFIRM_GATE_TYPE :: string where
  "HYPOTHESIS_OUTCOME_CONFIRM_GATE_TYPE = ''hypothesis_outcome_confirm''"

definition DRAFTABLE_TARGETS :: "string list" where "DRAFTABLE_TARGETS = [''verified'', ''falsified'', ''killed'']"

abbreviation confirm_error :: "string \<Rightarrow> error" where
  "confirm_error code \<equiv> ServiceError ''HypothesisOutcomeConfirmError'' code"

definition draft_args :: "uuid \<Rightarrow> uuid \<Rightarrow> uuid \<Rightarrow> uuid \<Rightarrow> string \<Rightarrow> json \<Rightarrow> string \<Rightarrow> uuid \<Rightarrow> create_args" where
  "draft_args org member i project target actual reason role =
     \<lparr>ca_slot = \<lparr>sl_org = org, sl_work_item_id = i, sl_work_item_type = ''hypothesis'',
        sl_gate_type = HYPOTHESIS_OUTCOME_CONFIRM_GATE_TYPE, sl_scope_key = []\<rparr>,
      ca_member = member, ca_role = role,
      ca_facts = Some [(''draft_target'', JStr target), (''draft_actual'', actual), (''draft_reason'', JStr reason)],
      ca_project = Some project, ca_notify = True, ca_gate_id = None, ca_pr_number = None, ca_repo = None, ca_designated = None\<rparr>"

definition draft_hypothesis_outcome :: "uuid \<Rightarrow> uuid \<Rightarrow> uuid \<Rightarrow> string \<Rightarrow> json \<Rightarrow> string \<Rightarrow> uuid \<Rightarrow> timestamp \<Rightarrow> gate_db
    \<Rightarrow> error + (gate \<times> gate_db)" where
  "draft_hypothesis_outcome org member i target actual reason fresh now db =
     (if target \<notin> set DRAFTABLE_TARGETS then Inl (confirm_error ''INVALID_DRAFT_TARGET'')
      else (case find_hypothesis org i db of
              None \<Rightarrow> Inl (confirm_error ''HYPOTHESIS_NOT_FOUND'')
            | Some h \<Rightarrow>
                if hy_status h \<noteq> ''measuring'' then Inl (confirm_error ''NOT_MEASURING'')
                else if \<not> valid_hypothesis_transition (hy_status h) target
                then Inl (confirm_error ''INVALID_HYPOTHESIS_TRANSITION'')
                else create_gate (draft_args org member i (hy_project h) target actual reason
                       (case default_role_id org db of None \<Rightarrow> i | Some r \<Rightarrow> r)) fresh now db))"

definition json_text_or :: "json \<Rightarrow> string" where
  "json_text_or j = (case j of JStr s \<Rightarrow> s | _ \<Rightarrow> [])"

definition resolve_hypothesis_outcome_confirm_gate :: "line_env \<Rightarrow> gate \<Rightarrow> gate_status \<Rightarrow> uuid option \<Rightarrow> string \<Rightarrow> line_ids \<Rightarrow> outcome_ids
    \<Rightarrow> timestamp \<Rightarrow> gate_db \<Rightarrow> error + gate_db" where
  \<comment> \<open>a missing resolver is written as Python's text of None\<close>
  "resolve_hypothesis_outcome_confirm_gate env g new_status resolver tid lids ids now db =
     (if g_work_item_type g \<noteq> ''hypothesis'' \<or> g_gate_type g \<noteq> HYPOTHESIS_OUTCOME_CONFIRM_GATE_TYPE then Inr db
      else if new_status \<noteq> Approved then Inr db
      else (case find_hypothesis (g_org_id g) (g_work_item_id g) db of
              None \<Rightarrow> Inr db
            | Some h \<Rightarrow>
                if hy_status h \<noteq> ''measuring'' then Inr db
                else
                  let target = dget ''draft_target'' (facts_of g); reason = dget ''draft_reason'' (facts_of g) in
                  res_bind (in_strings target DRAFTABLE_TARGETS) (\<lambda>ok.
                    if \<not> ok then Inr db
                    else if target = JStr ''killed'' \<and> \<not> text_column reason
                    then Inl (ServiceError ''ValidationError'' ''note'')
                    else transition_hypothesis env (g_org_id g)
                      \<lparr>cl_id = (case resolver of None \<Rightarrow> ''None'' | Some m \<Rightarrow> m), cl_type = ''human''\<rparr> (hy_id h) (json_text_or target)
                      (if target = JStr ''killed'' then None
                       else Some [(''actual'', dget ''draft_actual'' (facts_of g)), (''reason'', reason)])
                      (if target = JStr ''killed'' \<and> reason \<noteq> JNull then Some (json_text_or reason) else None)
                      True tid lids ids now db)))"

end
