(* ===== verification/Outcome_Machine.thy ===== *)
theory Outcome_Machine
  imports Outcome_Loop Line_Machine
begin

text \<open>
  The outcome loop as a step relation: people and agents create, link and move hypotheses, loops, sprints
  and goals, gates confirm outcomes, the cron scores, and everything else leaves these tables alone. The
  invariant says what a resolved hypothesis and a closed loop carry.
\<close>

section \<open>What leaves the work tables alone\<close>

definition same_work :: "gate_db \<Rightarrow> gate_db \<Rightarrow> bool" where
  "same_work db db' \<longleftrightarrow> t_hypotheses db' = t_hypotheses db \<and> t_sprints db' = t_sprints db \<and> t_goals db' = t_goals db
     \<and> t_loops db' = t_loops db \<and> t_stories db' = t_stories db \<and> t_story_links db' = t_story_links db
     \<and> t_sprint_links db' = t_sprint_links db \<and> t_docs db' = t_docs db"

lemma same_work_refl [simp]: "same_work db db"
  by (simp add: same_work_def)

lemma same_work_trans [trans]: "same_work a b \<Longrightarrow> same_work b c \<Longrightarrow> same_work a c"
  by (simp add: same_work_def)

lemma same_work_gates_only: "gates_only db db' \<Longrightarrow> same_work db db'"
  unfolding gates_only_def same_work_def by auto

lemma same_work_tables:
  "same_work db (db\<lparr>t_step_runs := a\<rparr>)" "same_work db (db\<lparr>t_gates := b\<rparr>)" "same_work db (db\<lparr>t_verdicts := c\<rparr>)"
  "same_work db (db\<lparr>t_participations := d\<rparr>)"
  by (simp_all add: same_work_def)

lemma same_work_upd_gate: "same_work db (upd_gate i f db)"
  by (rule same_work_gates_only [OF gates_only_upd])

lemma same_work_record_verdict: "record_verdict org p src r n fresh now db = Inr db' \<Longrightarrow> same_work db db'"
  by (auto simp: record_verdict_def same_work_def split: sum.splits option.splits)

lemma same_work_resolve: "same_work db (resolve_gate_from_verdict org wi wit src r m now db)"
  by (auto simp: resolve_gate_from_verdict_def same_work_upd_gate split: option.split)

lemma same_work_ensure: "ensure_review_participation org s m k fresh now db = Inr (p, db') \<Longrightarrow> same_work db db'"
  by (auto simp: ensure_review_participation_def same_work_def Let_def split: sum.splits option.splits)

lemma same_work_capture_ci: "capture_ci org s p ci fresh now (rec, db) = Inr (r, db') \<Longrightarrow> same_work db db'"
  by (auto simp: capture_ci_def Let_def split: option.splits if_splits sum.splits
           dest!: same_work_record_verdict intro: same_work_trans [OF _ same_work_resolve])

lemma same_work_capture: "capture_pr_ci_verdict org s n m ci f1 f2 now db = Inr (r, db') \<Longrightarrow> same_work db db'"
  by (auto simp: capture_pr_ci_verdict_def split: option.splits if_splits sum.splits
           dest!: same_work_capture_ci same_work_record_verdict
           intro: same_work_trans [OF same_work_trans [OF _ same_work_resolve]])

lemma same_work_slot: "find_gate_slot_with_pr_fallback sl pr repo db = Inr (r, db') \<Longrightarrow> same_work db db'"
  using find_slot_frame by (fastforce simp: same_work_def)

lemma same_work_materialize: "materialize_gate gh a p ids now oc b db = Inr (md, db') \<Longrightarrow> same_work db db'"
  by (auto simp: materialize_gate_def Let_def split: sum.splits prod.splits
           dest!: same_work_slot create_gate_frame same_work_gates_only
           intro: same_work_trans [OF same_work_trans [OF _ _] same_work_upd_gate])

lemma same_work_merge: "evaluate_merge_gate gh a ids now db = Inr (md, db') \<Longrightarrow> same_work db db'"
  by (auto simp: evaluate_merge_gate_def Let_def split: option.splits sum.splits prod.splits
           dest!: same_work_capture same_work_materialize intro: same_work_trans)

lemma same_work_record_run: "record_step_run a ids now st m fill db = Inr (r, db') \<Longrightarrow> same_work db db'"
  by (auto simp: record_step_run_def Let_def same_work_tables split: if_splits option.splits)

lemma same_work_wrapper: "same_work db (snd (merge_gate_wrapper env a ids now d step ctx db))"
  by (auto simp: merge_gate_wrapper_def split: sum.split prod.split
           dest!: same_work_merge same_work_record_run intro: same_work_trans)

lemma same_work_govern: "same_work db (snd (govern env a ids now mode d step db))"
  by (auto simp: govern_def Let_def same_work_wrapper split: sum.split prod.split dest!: same_work_record_run)

lemma same_work_grandfather: "same_work db (snd (pass_grandfather a now db))"
  by (simp add: pass_grandfather_def consume_grandfather_def same_work_tables)

lemma same_work_body: "same_work db (snd (evaluate_body env a ids now db))"
proof -
  have "same_work db db1" if "pass_grandfather a now db = (b, db1)" for b db1
    using same_work_grandfather [of db a now] that by simp
  then show ?thesis
    by (auto simp: evaluate_body_def Let_def split: option.split sum.split prod.split
             intro: same_work_trans [OF _ same_work_govern])
qed

lemma same_work_evaluate: "same_work db (snd (evaluate_line_for_transition env a ids now db))"
proof -
  have failed: "same_work db1 (snd (engine_failed a ids now e db1))" for e db1
    by (auto simp: engine_failed_def Let_def split: sum.split prod.split dest!: same_work_record_run)
  obtain r db1 where b: "evaluate_body env a ids now db = (r, db1)" by (cases "evaluate_body env a ids now db")
  have "same_work db db1" using same_work_body [of db env a ids now] b by simp
  then show ?thesis using b same_work_trans [OF _ failed] by (simp add: evaluate_line_for_transition_def split: sum.split)
qed

lemma same_work_holds: "line_holds env a ids now db = (b, db') \<Longrightarrow> same_work db db'"
  using same_work_evaluate [of db env a ids now] by (auto simp: line_holds_def split: prod.splits)

lemma same_work_fold:
  assumes "\<And>x s s'. f x s = Inr s' \<Longrightarrow> same_work s s'"
  shows "fold_res f xs s = Inr s' \<Longrightarrow> same_work s s'"
proof (induction xs arbitrary: s)
  case (Cons x xs)
  from Cons.prems obtain s1 where "f x s = Inr s1" "fold_res f xs s1 = Inr s'"
    by (auto simp: res_bind_Inr)
  with Cons.IH assms show ?case by (blast intro: same_work_trans)
qed simp

lemma same_work_bet: "record_bet h r ids now s m db = Inr db' \<Longrightarrow> same_work db db'"
  by (auto simp: record_bet_def res_bind_Inr split: option.splits
           dest!: same_work_ensure same_work_record_verdict intro: same_work_trans)

lemma same_work_execution: "record_execution h r ids now s db = Inr db' \<Longrightarrow> same_work db db'"
  by (auto simp: record_execution_def split: option.splits dest!: same_work_record_verdict)

lemma same_work_outcome:
  assumes "record_outcome_verdicts h ids now db = Inr db'"
  shows "same_work db db'"
proof (cases "hy_status h \<in> {''verified'', ''falsified''}")
  case True
  let ?f = "\<lambda>s d. res_bind (record_execution h (if hy_status h = ''verified'' then Some ''pass'' else None) ids now s d)
     (fold_res (record_bet h (if hy_status h = ''verified'' then ''pass'' else ''fail'') ids now s) (bet_members h))"
  have "same_work d d'" if "?f s d = Inr d'" for s d d'
    using that by (auto simp: res_bind_Inr dest!: same_work_execution same_work_fold [OF same_work_bet, rotated] intro: same_work_trans)
  from same_work_fold [of ?f, OF this] show ?thesis
    using assms True by (simp add: record_outcome_verdicts_def Let_def split: if_splits)
qed (use assms in \<open>simp add: record_outcome_verdicts_def\<close>)

section \<open>Steps\<close>

inductive outcome_step :: "gate_db \<Rightarrow> gate_db \<Rightarrow> bool" where
  hypothesis_made: "create_hypothesis org c p fresh db = Inr db' \<Longrightarrow> fresh \<notin> hy_id ` set (t_hypotheses db) \<Longrightarrow> outcome_step db db'"
| hypothesis_guided: "create_hypothesis_guided env org c project st m t d fresh tid lids ids now db = Inr db' \<Longrightarrow>
    fresh \<notin> hy_id ` set (t_hypotheses db) \<Longrightarrow> outcome_step db db'"
| hypothesis_linked: "link_hypothesis org i es ss sp db = Inr db' \<Longrightarrow> outcome_step db db'"
| hypothesis_unlinked: "unlink_hypothesis org i ss b db = Inr db' \<Longrightarrow> outcome_step db db'"
| hypothesis_updated: "update_hypothesis org i u db = Inr db' \<Longrightarrow> outcome_step db db'"
| hypothesis_archived: "archive_hypothesis org i now db = Inr db' \<Longrightarrow> outcome_step db db'"
| hypothesis_moved: "transition_hypothesis env org c i target result note via tid lids ids now db = Inr db' \<Longrightarrow> outcome_step db db'"
| outcome_confirmed: "resolve_hypothesis_outcome_confirm_gate env g st resolver tid lids ids now db = Inr db' \<Longrightarrow> outcome_step db db'"
| cron_scored: "score_hypotheses e ids now db = Inr (r, db') \<Longrightarrow> outcome_step db db'"
| loop_made: "create_loop org c project title hyp fresh_hyp fresh db = Inr db' \<Longrightarrow> fresh_hyp \<notin> hy_id ` set (t_hypotheses db) \<Longrightarrow>
    fresh \<notin> lo_id ` set (t_loops db) \<Longrightarrow> outcome_step db db'"
| loop_moved: "l \<in> set (t_loops db) \<Longrightarrow> transition_loop org l target db = Inr db' \<Longrightarrow> outcome_step db db'"
| loop_decided: "l \<in> set (t_loops db) \<Longrightarrow> lo_status l = ''deciding'' \<Longrightarrow> status \<in> {''deciding'', ''executing''} \<Longrightarrow>
    outcome_step db (upd_loop (lo_id l) (\<lambda>x. x\<lparr>lo_status := status, lo_decision_gate := g, lo_chosen_artifact := a\<rparr>) db)"
| sprint_made: "sp_id s \<notin> sp_id ` set (t_sprints db) \<Longrightarrow> sp_status s = ''planning'' \<Longrightarrow>
    outcome_step db (db\<lparr>t_sprints := t_sprints db @ [s]\<rparr>)"
| sprint_moved: "transition_sprint env num org c i to_status via tid lids now db = Inr db' \<Longrightarrow> outcome_step db db'"
| goal_moved: "transition_goal env org c i to_status via oc result tid lids now db = Inr db' \<Longrightarrow> outcome_step db db'"
| elsewhere: "t_hypotheses db' = t_hypotheses db \<Longrightarrow> t_loops db' = t_loops db \<Longrightarrow> t_sprints db' = t_sprints db \<Longrightarrow> outcome_step db db'"

section \<open>How a row may change\<close>

text \<open>
  One change of a hypothesis row: nothing of its identity moves, the status follows the state machine, the
  states that count have been confirmed by somebody, and a resolved one carries a measured value that
  no later change touches.\<close>

definition evidenced :: "jdict option \<Rightarrow> bool" where
  "evidenced r \<longleftrightarrow> (case r of None \<Rightarrow> False | Some d \<Rightarrow> (case dget ''actual'' d of JInt _ \<Rightarrow> True | JReal _ \<Rightarrow> True | _ \<Rightarrow> False))"

definition CONFIRMED_STATUSES :: "string list" where
  "CONFIRMED_STATUSES = [''active'', ''measuring'', ''verified'', ''falsified'']"

definition SETTLED_STATUSES :: "string list" where
  "SETTLED_STATUSES = [''verified'', ''falsified'', ''killed'', ''archived'']"

definition hypothesis_ok :: "hypothesis \<Rightarrow> bool" where
  "hypothesis_ok h \<longleftrightarrow> hy_status h \<in> set HYPOTHESIS_STATUSES
     \<and> (hy_status h \<in> set CONFIRMED_STATUSES \<longrightarrow> hy_confirmed_by h \<noteq> None)
     \<and> (hy_status h \<in> {''verified'', ''falsified''} \<longrightarrow> evidenced (hy_outcome_result h))"

definition hypothesis_path :: "string \<Rightarrow> string \<Rightarrow> bool" where
  \<comment> \<open>archiving asks for no earlier status\<close>
  "hypothesis_path = (\<lambda>s t. valid_hypothesis_transition s t \<or> t = ''archived'')\<^sup>*\<^sup>*"

definition hypothesis_change :: "hypothesis \<Rightarrow> hypothesis \<Rightarrow> bool" where
  "hypothesis_change h h' \<longleftrightarrow> hy_id h' = hy_id h \<and> hy_org h' = hy_org h
     \<and> hypothesis_path (hy_status h) (hy_status h')
     \<and> (hypothesis_ok h \<longrightarrow> hypothesis_ok h')
     \<and> (hy_status h \<in> set SETTLED_STATUSES \<longrightarrow> hy_outcome_result h' = hy_outcome_result h)"

lemma hypothesis_path_refl [simp]: "hypothesis_path s s"
  by (simp add: hypothesis_path_def)

lemma hypothesis_path_step: "valid_hypothesis_transition s t \<Longrightarrow> hypothesis_path s t"
  unfolding hypothesis_path_def by blast

lemma hypothesis_change_refl [simp]: "hypothesis_change h h"
  by (simp add: hypothesis_change_def)

lemma hypothesis_path_archived: "hypothesis_path s ''archived''"
  unfolding hypothesis_path_def by blast

lemma settled_step: "valid_hypothesis_transition s t \<Longrightarrow> s \<in> set SETTLED_STATUSES \<Longrightarrow> t = ''archived''"
  by (auto simp: valid_hypothesis_transition_def SETTLED_STATUSES_def)

lemma hypothesis_path_settled:
  "hypothesis_path s t \<Longrightarrow> s \<in> set SETTLED_STATUSES \<Longrightarrow> t = s \<or> t = ''archived''"
  unfolding hypothesis_path_def
  by (induction rule: rtranclp_induct) (auto simp: valid_hypothesis_transition_def SETTLED_STATUSES_def)

lemma hypothesis_change_trans: "hypothesis_change a b \<Longrightarrow> hypothesis_change b c \<Longrightarrow> hypothesis_change a c"
proof -
  assume 1: "hypothesis_change a b" and 2: "hypothesis_change b c"
  have p: "hypothesis_path (hy_status a) (hy_status c)"
    using 1 2 unfolding hypothesis_change_def hypothesis_path_def by (meson rtranclp_trans)
  have "hy_outcome_result c = hy_outcome_result a" if a: "hy_status a \<in> set SETTLED_STATUSES"
  proof -
    have "hy_status b = hy_status a \<or> hy_status b = ''archived''"
      using 1 a hypothesis_path_settled by (simp add: hypothesis_change_def)
    then have "hy_status b \<in> set SETTLED_STATUSES" using a by (auto simp: SETTLED_STATUSES_def)
    then show ?thesis using 1 2 a unfolding hypothesis_change_def by metis
  qed
  with p show ?thesis using 1 2 unfolding hypothesis_change_def by metis
qed

text \<open>One change of a loop: it keeps its hypothesis, and once closed or abandoned it is final.\<close>

definition loop_change :: "loop_run \<Rightarrow> loop_run \<Rightarrow> bool" where
  "loop_change l l' \<longleftrightarrow> lo_id l' = lo_id l \<and> lo_org l' = lo_org l \<and> lo_hypothesis l' = lo_hypothesis l
     \<and> (lo_status l \<in> {''closed'', ''abandoned''} \<longrightarrow> l' = l)"

lemma loop_change_refl [simp]: "loop_change l l"
  by (simp add: loop_change_def)

lemma loop_change_trans: "loop_change a b \<Longrightarrow> loop_change b c \<Longrightarrow> loop_change a c"
  unfolding loop_change_def by metis

section \<open>The invariant\<close>

text \<open>
  A closed loop shows what its hypothesis measured: the hypothesis is resolved, or archived afterwards, and
  the snapshot in the loop is still its result. A loop that is not closed has no snapshot.\<close>

definition snapshot_of :: "hypothesis list \<Rightarrow> loop_run \<Rightarrow> bool" where
  "snapshot_of hs l \<longleftrightarrow> (\<exists>s \<in> set_option (lo_outcome_snapshot l). \<exists>h \<in> set hs.
     lo_hypothesis l = Some (hy_id h) \<and> hy_org h = lo_org l \<and> hy_status h \<in> {''verified'', ''falsified'', ''archived''}
     \<and> dget ''hypothesis_id'' s = JStr (hy_id h) \<and> dget ''hypothesis_status'' s \<in> {JStr ''verified'', JStr ''falsified''}
     \<and> dget ''outcome_result'' s = (case hy_outcome_result h of None \<Rightarrow> JNull | Some d \<Rightarrow> JObj d))"

definition loop_ok :: "hypothesis list \<Rightarrow> loop_run \<Rightarrow> bool" where
  "loop_ok hs l \<longleftrightarrow> lo_status l \<in> set LOOP_STATUSES
     \<and> (if lo_status l = ''closed'' then lo_attributed_at l \<noteq> None \<and> snapshot_of hs l
        else lo_attributed_at l = None \<and> lo_outcome_snapshot l = None)"

definition sprint_ok :: "sprint \<Rightarrow> bool" where
  "sprint_ok s \<longleftrightarrow> sp_status s \<in> set SPRINT_STATUSES \<and> (sp_status s \<in> {''closed'', ''archived''} \<longrightarrow> sp_velocity s \<noteq> None)"

definition one_active_sprint :: "sprint list \<Rightarrow> bool" where
  "one_active_sprint ss \<longleftrightarrow> (\<forall>s \<in> set ss. \<forall>t \<in> set ss. sp_status s = ''active'' \<and> sp_status t = ''active''
     \<and> sp_org s = sp_org t \<and> sp_project s = sp_project t \<longrightarrow> s = t)"

definition outcome_inv :: "gate_db \<Rightarrow> bool" where
  "outcome_inv db \<longleftrightarrow> distinct (map hy_id (t_hypotheses db)) \<and> distinct (map lo_id (t_loops db)) \<and> distinct (map sp_id (t_sprints db))
     \<and> (\<forall>h \<in> set (t_hypotheses db). hypothesis_ok h) \<and> (\<forall>l \<in> set (t_loops db). loop_ok (t_hypotheses db) l)
     \<and> (\<forall>s \<in> set (t_sprints db). sprint_ok s) \<and> one_active_sprint (t_sprints db)"

text \<open>What every operation gives: the invariant, and no row that goes against its table's changes.\<close>

definition settled_loop :: "gate_db \<Rightarrow> loop_run \<Rightarrow> bool" where
  \<comment> \<open>its hypothesis can no longer be resolved\<close>
  "settled_loop db l \<longleftrightarrow> (\<exists>h \<in> set (t_hypotheses db). lo_hypothesis l = Some (hy_id h) \<and> hy_status h \<in> set SETTLED_STATUSES)"

definition loop_goes :: "gate_db \<Rightarrow> loop_run \<Rightarrow> loop_run \<Rightarrow> bool" where
  "loop_goes db l l' \<longleftrightarrow> loop_change l l' \<and> (lo_status l \<noteq> ''closed'' \<and> lo_status l' = ''closed'' \<longrightarrow> \<not> settled_loop db l)"

definition progress :: "gate_db \<Rightarrow> gate_db \<Rightarrow> bool" where
  "progress db db' \<longleftrightarrow> (outcome_inv db \<longrightarrow> outcome_inv db'
     \<and> (\<forall>h \<in> set (t_hypotheses db). \<exists>h' \<in> set (t_hypotheses db'). hypothesis_change h h')
     \<and> (\<forall>l \<in> set (t_loops db). \<exists>l' \<in> set (t_loops db'). loop_goes db l l'))"

lemma loop_goes_refl [simp]: "loop_goes db l l"
  by (simp add: loop_goes_def)

lemma unmoved: "h \<in> set hs \<Longrightarrow> \<exists>h' \<in> set hs. hypothesis_change h h'"
  "l \<in> set ls \<Longrightarrow> \<exists>l' \<in> set ls. loop_goes db l l'"
  using hypothesis_change_refl loop_goes_refl by blast+

lemma unmoved_all: "\<forall>h \<in> set hs. \<exists>h' \<in> set hs. hypothesis_change h h'" "\<forall>l \<in> set ls. \<exists>l' \<in> set ls. loop_goes db l l'"
  by (blast intro: unmoved)+

lemma progress_refl [simp]: "progress db db"
  by (simp add: progress_def unmoved_all)

lemma settled_kept:
  assumes "settled_loop a l" "\<forall>h \<in> set (t_hypotheses a). \<exists>h' \<in> set (t_hypotheses b). hypothesis_change h h'" "loop_change l l'"
  shows "settled_loop b l'"
proof -
  obtain h where h: "h \<in> set (t_hypotheses a)" "lo_hypothesis l = Some (hy_id h)" "hy_status h \<in> set SETTLED_STATUSES"
    using assms(1) by (auto simp: settled_loop_def)
  then obtain h' where h': "h' \<in> set (t_hypotheses b)" "hypothesis_change h h'" using assms(2) by blast
  then have "hy_status h' = hy_status h \<or> hy_status h' = ''archived''"
    using hypothesis_path_settled h(3) by (simp add: hypothesis_change_def)
  then have "hy_status h' \<in> set SETTLED_STATUSES" using h(3) by (auto simp: SETTLED_STATUSES_def)
  moreover have "lo_hypothesis l' = Some (hy_id h')" using h(2) h'(2) assms(3) by (simp add: hypothesis_change_def loop_change_def)
  ultimately show ?thesis using h'(1) unfolding settled_loop_def by blast
qed

lemma progress_trans:
  assumes 1: "progress a b" and 2: "progress b c"
  shows "progress a c"
  unfolding progress_def
proof (intro impI conjI ballI)
  assume inv: "outcome_inv a"
  note 1 = 1 [unfolded progress_def, rule_format, OF inv]
  note 2 = 2 [unfolded progress_def, rule_format, OF conjunct1 [OF 1]]
  show "outcome_inv c" using 2 by blast
  show "\<exists>h' \<in> set (t_hypotheses c). hypothesis_change h h'" if "h \<in> set (t_hypotheses a)" for h
    using that 1 2 hypothesis_change_trans by blast
  fix l assume "l \<in> set (t_loops a)"
  then obtain l' where l': "l' \<in> set (t_loops b)" "loop_goes a l l'" using 1 by blast
  then obtain l'' where l'': "l'' \<in> set (t_loops c)" "loop_goes b l' l''" using 2 by blast
  have k: "settled_loop a l \<Longrightarrow> settled_loop b l'" using settled_kept [of a l b l'] l'(2) 1 by (auto simp: loop_goes_def)
  have "loop_change l l''" using l' l'' loop_change_trans by (auto simp: loop_goes_def)
  then have "loop_goes a l l''" using l'(2) l''(2) k unfolding loop_goes_def by blast
  with l'' show "\<exists>l'' \<in> set (t_loops c). loop_goes a l l''" by blast
qed

lemma progress_tables:
  "t_hypotheses db' = t_hypotheses db \<Longrightarrow> t_loops db' = t_loops db \<Longrightarrow> t_sprints db' = t_sprints db \<Longrightarrow> progress db db'"
  by (simp add: progress_def outcome_inv_def unmoved_all)

lemma progress_same_work: "same_work db db' \<Longrightarrow> progress db db'"
  by (rule progress_tables) (simp_all add: same_work_def)

section \<open>Writing one row\<close>

lemma snapshot_mono:
  assumes "snapshot_of hs l" "\<And>h. h \<in> set hs \<Longrightarrow> \<exists>h' \<in> set hs'. hypothesis_change h h'"
  shows "snapshot_of hs' l"
proof -
  obtain s h where s: "s \<in> set_option (lo_outcome_snapshot l)" and h: "h \<in> set hs" "lo_hypothesis l = Some (hy_id h)"
      "hy_org h = lo_org l" "hy_status h \<in> {''verified'', ''falsified'', ''archived''}"
      "dget ''hypothesis_id'' s = JStr (hy_id h)" "dget ''hypothesis_status'' s \<in> {JStr ''verified'', JStr ''falsified''}"
      "dget ''outcome_result'' s = (case hy_outcome_result h of None \<Rightarrow> JNull | Some d \<Rightarrow> JObj d)"
    using assms(1) unfolding snapshot_of_def by blast
  obtain h' where h': "h' \<in> set hs'" "hypothesis_change h h'" using assms(2) h(1) by blast
  have "hy_status h \<in> set SETTLED_STATUSES" using h(4) by (auto simp: SETTLED_STATUSES_def)
  then have "hy_status h' = hy_status h \<or> hy_status h' = ''archived''" "hy_outcome_result h' = hy_outcome_result h"
    using h'(2) hypothesis_path_settled unfolding hypothesis_change_def by blast+
  then have "hy_status h' \<in> {''verified'', ''falsified'', ''archived''}" using h(4) by auto
  then show ?thesis unfolding snapshot_of_def using s h h' \<open>hy_outcome_result h' = _\<close>
    by (intro bexI [of _ s] bexI [of _ h']) (simp_all add: hypothesis_change_def)
qed

lemma loop_ok_mono: "loop_ok hs l \<Longrightarrow> (\<And>h. h \<in> set hs \<Longrightarrow> \<exists>h' \<in> set hs'. hypothesis_change h h') \<Longrightarrow> loop_ok hs' l"
  unfolding loop_ok_def using snapshot_mono by auto

lemma row_unique: "distinct (map k xs) \<Longrightarrow> x \<in> set xs \<Longrightarrow> y \<in> set xs \<Longrightarrow> k x = k y \<Longrightarrow> x = y"
  by (auto simp: distinct_map inj_on_def)

lemma set_upd_row:
  "distinct (map k xs) \<Longrightarrow> x \<in> set xs \<Longrightarrow> y \<in> set (upd_row k (k x) f xs) \<longleftrightarrow> y = f x \<or> y \<in> set xs \<and> k y \<noteq> k x"
  unfolding upd_row_def using row_unique by fastforce

lemma upd_row_image:
  assumes "distinct (map k xs)" "x \<in> set xs" "R x (f x)" "\<And>z. R z z" "z \<in> set xs"
  shows "\<exists>y \<in> set (upd_row k (k x) f xs). R z y"
  using list_all2_upd_row [of k xs x R f] assms by (metis list_all2_image)

lemma list_all2_keys: "list_all2 R xs ys \<Longrightarrow> (\<And>x y. R x y \<Longrightarrow> k y = k x) \<Longrightarrow> map k ys = map k xs"
  by (induction rule: list_all2_induct) auto

lemma progress_hypothesis:
  assumes "h \<in> set (t_hypotheses db)" "outcome_inv db \<Longrightarrow> hypothesis_change h (f h)"
    "\<And>x. hy_id (f x) = hy_id x"
  shows "progress db (upd_hypothesis (hy_id h) f db)"
  unfolding progress_def
proof (intro impI conjI)
  assume inv: "outcome_inv db"
  let ?hs = "upd_row hy_id (hy_id h) f (t_hypotheses db)"
  have d: "distinct (map hy_id (t_hypotheses db))" using inv by (simp add: outcome_inv_def)
  have im: "\<exists>y \<in> set ?hs. hypothesis_change z y" if "z \<in> set (t_hypotheses db)" for z
    by (rule upd_row_image [where R = hypothesis_change, OF d assms(1) _ _ that]) (use assms(2) inv in simp_all)
  show "\<forall>z \<in> set (t_hypotheses db). \<exists>y \<in> set (t_hypotheses (upd_hypothesis (hy_id h) f db)). hypothesis_change z y"
    using im by (simp add: upd_hypothesis_def)
  have "hypothesis_ok y" if "y \<in> set ?hs" for y
  proof -
    have "y = f h \<or> y \<in> set (t_hypotheses db)" using that set_upd_row [OF d assms(1)] by blast
    then show ?thesis using inv assms(1,2) unfolding outcome_inv_def hypothesis_change_def by auto
  qed
  moreover have "loop_ok ?hs l" if "l \<in> set (t_loops db)" for l
    using that inv im loop_ok_mono [of "t_hypotheses db" l ?hs] by (simp add: outcome_inv_def)
  ultimately show "outcome_inv (upd_hypothesis (hy_id h) f db)"
    using inv upd_row_map_key [of hy_id f, OF assms(3)] by (simp add: outcome_inv_def upd_hypothesis_def)
  show "\<forall>l\<in>set (t_loops db). \<exists>l'\<in>set (t_loops (upd_hypothesis (hy_id h) f db)). loop_goes db l l'"
    by (simp add: upd_hypothesis_def unmoved_all)
qed

lemma inv_loops:
  assumes inv: "outcome_inv db"
    and a: "list_all2 (\<lambda>l l'. loop_change l l' \<and> (loop_ok (t_hypotheses db) l \<longrightarrow> loop_ok (t_hypotheses db) l')) (t_loops db) ls"
  shows "outcome_inv (db\<lparr>t_loops := ls\<rparr>)"
proof -
  have "map lo_id ls = map lo_id (t_loops db)"
    by (rule list_all2_keys [OF a]) (simp add: loop_change_def)
  moreover have "loop_ok (t_hypotheses db) l'" if "l' \<in> set ls" for l'
    using inv by (auto simp: outcome_inv_def intro: list_all2_origin [OF a that])
  ultimately show ?thesis using inv by (simp add: outcome_inv_def)
qed

lemma progress_loop_row:
  assumes l: "l \<in> set (t_loops db)" and c: "loop_change l (f l)" and n: "lo_status l \<noteq> ''closed'' \<longrightarrow> lo_status (f l) \<noteq> ''closed''"
    and o: "\<And>hs. loop_ok hs l \<Longrightarrow> loop_ok hs (f l)"
  shows "progress db (upd_loop (lo_id l) f db)"
  unfolding progress_def upd_loop_def
proof (intro impI conjI)
  assume inv: "outcome_inv db"
  let ?ls = "upd_row lo_id (lo_id l) f (t_loops db)"
  have d: "distinct (map lo_id (t_loops db))" using inv by (simp add: outcome_inv_def)
  have "list_all2 (\<lambda>l l'. loop_change l l' \<and> (loop_ok (t_hypotheses db) l \<longrightarrow> loop_ok (t_hypotheses db) l')) (t_loops db) ?ls"
    by (rule list_all2_upd_row [OF d l]) (use c o in simp_all)
  then show "outcome_inv (db\<lparr>t_loops := ?ls\<rparr>)" by (rule inv_loops [OF inv])
  have "list_all2 (loop_goes db) (t_loops db) ?ls"
    by (rule list_all2_upd_row [OF d l]) (use c n in \<open>auto simp: loop_goes_def\<close>)
  note g = this
  show "\<forall>l\<in>set (t_loops db). \<exists>l'\<in>set (t_loops (db\<lparr>t_loops := ?ls\<rparr>)). loop_goes db l l'"
    by (auto elim!: list_all2_image [OF g])
qed (simp add: unmoved_all)

lemma progress_sprints:
  assumes "outcome_inv db \<Longrightarrow> distinct (map sp_id ss) \<and> (\<forall>s \<in> set ss. sprint_ok s) \<and> one_active_sprint ss"
  shows "progress db (db\<lparr>t_sprints := ss\<rparr>)"
  unfolding progress_def
proof (intro impI conjI)
  assume inv: "outcome_inv db"
  show "outcome_inv (db\<lparr>t_sprints := ss\<rparr>)" using assms [OF inv] inv by (simp add: outcome_inv_def)
qed (simp_all add: unmoved_all)

lemma progress_new_hypothesis:
  assumes "hypothesis_ok h" "hy_id h \<notin> hy_id ` set (t_hypotheses db)"
  shows "progress db (db\<lparr>t_hypotheses := t_hypotheses db @ [h]\<rparr>)"
  unfolding progress_def
proof (intro impI conjI)
  assume inv: "outcome_inv db"
  have "loop_ok (t_hypotheses db @ [h]) l" if "l \<in> set (t_loops db)" for l
    using that inv loop_ok_mono [of "t_hypotheses db" l "t_hypotheses db @ [h]"]
    by (auto simp: outcome_inv_def intro: unmoved)
  then show "outcome_inv (db\<lparr>t_hypotheses := t_hypotheses db @ [h]\<rparr>)"
    using inv assms by (auto simp: outcome_inv_def)
qed (auto intro: unmoved)

lemma progress_new_loop:
  assumes "lo_status l \<in> set LOOP_STATUSES - {''closed''}" "lo_attributed_at l = None" "lo_outcome_snapshot l = None"
    "lo_id l \<notin> lo_id ` set (t_loops db)"
  shows "progress db (db\<lparr>t_loops := t_loops db @ [l]\<rparr>)"
  unfolding progress_def
proof (intro impI conjI)
  assume inv: "outcome_inv db"
  then show "outcome_inv (db\<lparr>t_loops := t_loops db @ [l]\<rparr>)"
    using assms by (auto simp: outcome_inv_def loop_ok_def)
qed (auto intro: unmoved)

section \<open>Every operation makes progress\<close>

lemma attribute_inv:
  assumes inv: "outcome_inv db" and r: "hy_status h \<in> {''verified'', ''falsified''}" and h: "h \<in> set (t_hypotheses db)"
  shows "outcome_inv (attribute_loop_outcome h now db)"
proof -
  have "loop_change l (attributed_loop h now l)" "loop_ok (t_hypotheses db) (attributed_loop h now l)"
    if "attributable h l" for l
    using that h r
    by (auto simp: attributable_def attributed_loop_def loop_change_def loop_ok_def snapshot_of_def dget_def LOOP_STATUSES_def)
  then have "list_all2 (\<lambda>l l'. loop_change l l' \<and> (loop_ok (t_hypotheses db) l \<longrightarrow> loop_ok (t_hypotheses db) l'))
      (t_loops db) (map (\<lambda>l. if attributable h l then attributed_loop h now l else l) (t_loops db))"
    by (simp add: list.rel_map list_all2_same)
  from inv_loops [OF inv this] show ?thesis using r by (simp add: attribute_loop_outcome_def)
qed

lemma attribute_loops:
  assumes "l \<in> set (t_loops db)"
  shows "\<exists>l' \<in> set (t_loops (attribute_loop_outcome h now db)). loop_change l l'
    \<and> (lo_status l \<noteq> ''closed'' \<and> lo_status l' = ''closed'' \<longrightarrow> lo_hypothesis l = Some (hy_id h))"
proof (cases "hy_status h \<in> {''verified'', ''falsified''} \<and> attributable h l")
  case True
  then have "loop_change l (attributed_loop h now l)" "lo_hypothesis l = Some (hy_id h)"
    by (auto simp: attributable_def attributed_loop_def loop_change_def)
  then show ?thesis using assms True by (auto simp: attribute_loop_outcome_def intro!: rev_bexI [of "attributed_loop h now l"])
next
  case False
  then show ?thesis using assms by (auto simp: attribute_loop_outcome_def intro!: rev_bexI [of l] image_eqI [where x = l])
qed

lemma attribute_hypotheses: "t_hypotheses (attribute_loop_outcome h now db) = t_hypotheses db"
  by (simp add: attribute_loop_outcome_def)

lemma dget_update_other: "k \<notin> fst ` set b \<Longrightarrow> dget k (dict_update a b) = dget k a"
proof -
  assume "k \<notin> fst ` set b"
  then have "map_of (rev b) k = None" by (simp add: map_of_eq_None_iff)
  then show ?thesis by (simp add: dget_def map_of_dict_update)
qed

lemma resolution_fields:
  "hy_id (resolution c target result note now h) = hy_id h" "hy_org (resolution c target result note now h) = hy_org h"
  "hy_owner (resolution c target result note now h) = hy_owner h" "hy_status (resolution c target result note now h) = target"
  "hy_confirmed_by (resolution c target result note now h) = (if target = ''active'' then Some (cl_id c) else hy_confirmed_by h)"
  by (auto simp: resolution_def Let_def split: option.split)

lemma resolution_result:
  "hy_outcome_result (resolution c ''archived'' result note now h) = hy_outcome_result h"
  "target \<in> {''verified'', ''falsified''} \<Longrightarrow> hy_outcome_result (resolution c target (Some d) note now h)
     = Some (dict_update d [(''closed_by'', JStr (cl_type c)), (''closed_by_member_id'', JStr (cl_id c))])"
  by (auto simp: resolution_def Let_def split: option.split)

lemma evidence_evidenced: "has_valid_outcome_evidence r \<Longrightarrow> evidenced r"
  by (auto simp: has_valid_outcome_evidence_def evidenced_def split: option.splits)

lemma resolution_change:
  assumes t: "valid_hypothesis_transition (hy_status h) target" and s: "target \<in> set HYPOTHESIS_STATUSES"
    and e: "target \<in> {''verified'', ''falsified''} \<Longrightarrow> has_valid_outcome_evidence result"
  shows "hypothesis_change h (resolution c target result note now h)"
proof -
  let ?h = "resolution c target result note now h"
  have "hy_confirmed_by ?h \<noteq> None" if "hypothesis_ok h" "target \<in> set CONFIRMED_STATUSES"
    using that t by (auto simp: resolution_fields hypothesis_ok_def CONFIRMED_STATUSES_def valid_hypothesis_transition_def)
  moreover have "evidenced (hy_outcome_result ?h)" if v: "target \<in> {''verified'', ''falsified''}"
  proof -
    obtain d where "result = Some d" using e [OF v] by (auto simp: has_valid_outcome_evidence_def split: option.splits)
    then show ?thesis using evidence_evidenced [OF e [OF v]] v
      by (simp add: resolution_result evidenced_def dget_update_other)
  qed
  moreover have "hy_outcome_result ?h = hy_outcome_result h" if "hy_status h \<in> set SETTLED_STATUSES"
    using settled_step [OF t that] by (simp add: resolution_result)
  ultimately show ?thesis using s hypothesis_path_step [OF t]
    by (auto simp: hypothesis_change_def hypothesis_ok_def resolution_fields)
qed

lemma in_upd_hypothesis: "h \<in> set (t_hypotheses db) \<Longrightarrow> f h \<in> set (t_hypotheses (upd_hypothesis (hy_id h) f db))"
  by (force simp: upd_hypothesis_def upd_row_def)

lemma progress_resolved:
  assumes h: "h \<in> set (t_hypotheses db)" and c: "hypothesis_change h (f h)" and i: "\<And>x. hy_id (f x) = hy_id x"
    and u: "hy_status h \<notin> set SETTLED_STATUSES" and t: "hy_status (f h) \<in> {''verified'', ''falsified''}"
    and r: "record_outcome_verdicts (f h) ids now (upd_hypothesis (hy_id h) f db) = Inr db2"
  shows "progress db (attribute_loop_outcome (f h) now db2)"
  unfolding progress_def
proof (intro impI conjI ballI)
  let ?db = "attribute_loop_outcome (f h) now db2"
  assume inv: "outcome_inv db"
  have w: "same_work (upd_hypothesis (hy_id h) f db) db2" using same_work_outcome [OF r] .
  note p = progress_trans [OF progress_hypothesis [OF h c i] progress_same_work [OF w], unfolded progress_def, rule_format, OF inv]
  have m: "f h \<in> set (t_hypotheses db2)" using in_upd_hypothesis [OF h] w by (simp add: same_work_def)
  show "outcome_inv ?db" by (rule attribute_inv [OF conjunct1 [OF p] t m])
  show "\<exists>x' \<in> set (t_hypotheses ?db). hypothesis_change x x'" if "x \<in> set (t_hypotheses db)" for x
    using p that by (simp add: attribute_hypotheses)
  fix l assume l: "l \<in> set (t_loops db)"
  have "t_loops db2 = t_loops db" using w by (simp add: same_work_def upd_hypothesis_def)
  then obtain l' where l': "l' \<in> set (t_loops ?db)" "loop_change l l'"
      "lo_status l \<noteq> ''closed'' \<and> lo_status l' = ''closed'' \<longrightarrow> lo_hypothesis l = Some (hy_id h)"
    using attribute_loops [of l db2 "f h" now] l i by auto
  have "\<not> settled_loop db l" if "lo_hypothesis l = Some (hy_id h)"
    using that u row_unique [of hy_id "t_hypotheses db"] h inv by (auto simp: settled_loop_def outcome_inv_def)
  then show "\<exists>l' \<in> set (t_loops ?db). loop_goes db l l'" using l' unfolding loop_goes_def by blast
qed

lemma progress_settle:
  assumes "settle_hypothesis c target result note ids now h db = Inr db'" "h \<in> set (t_hypotheses db)"
    "valid_hypothesis_transition (hy_status h) target" "target \<in> set HYPOTHESIS_STATUSES"
  shows "progress db db'"
proof -
  let ?f = "resolution c target result note now"
  have e: "target \<in> {''verified'', ''falsified''} \<Longrightarrow> has_valid_outcome_evidence result"
    using assms(1) by (auto simp: settle_hypothesis_def split: if_splits)
  have ch: "hypothesis_change h (?f h)" by (rule resolution_change [OF assms(3,4) e])
  show ?thesis
  proof (cases "target \<in> {''verified'', ''falsified''}")
    case True
    then obtain db2 where "record_outcome_verdicts (?f h) ids now (upd_hypothesis (hy_id h) ?f db) = Inr db2"
        "db' = attribute_loop_outcome (?f h) now db2"
      using assms(1) by (auto simp: settle_hypothesis_def Let_def res_bind_Inr split: if_splits)
    moreover have "hy_status h \<notin> set SETTLED_STATUSES" using settled_step [OF assms(3)] True by auto
    ultimately show ?thesis using progress_resolved [of h db ?f] assms(2) ch True by (simp add: resolution_fields)
  next
    case False
    then have "db' = upd_hypothesis (hy_id h) ?f db"
      using assms(1) by (auto simp: settle_hypothesis_def Let_def split: if_splits)
    then show ?thesis using progress_hypothesis [of h db ?f] assms(2) ch by (simp add: resolution_fields)
  qed
qed

lemma find_hypothesis_SomeD: "find_hypothesis org i db = Some h \<Longrightarrow> h \<in> set (t_hypotheses db) \<and> hy_id h = i \<and> hy_org h = org"
  unfolding find_hypothesis_def by (drule find_SomeD) simp

lemma progress_transition:
  assumes "transition_hypothesis env org c i target result note via tid lids ids now db = Inr db'"
  shows "progress db db'"
proof -
  obtain h where h: "find_hypothesis org i db = Some h" "target \<in> set HYPOTHESIS_STATUSES"
      "valid_hypothesis_transition (hy_status h) target"
    using assms by (auto simp: transition_hypothesis_def split: option.splits if_splits)
  obtain held db1 where ov: "(if target = ''active'' \<and> hy_status h = ''proposed'' \<and> \<not> via
      then line_holds env (overlay_args org (hy_project h) ''hypothesis'' (hy_id h) ''proposed'' ''active'' c tid) lids now db
      else (False, db)) = (held, db1)" by fastforce
  then have w: "same_work db db1" by (auto split: if_splits dest!: same_work_holds)
  have "progress db1 db'"
  proof (cases held)
    case True
    then show ?thesis using assms h ov by (auto simp: transition_hypothesis_def split: if_splits)
  next
    case False
    then have "settle_hypothesis c target result note ids now h db1 = Inr db'"
      using assms h ov by (auto simp: transition_hypothesis_def split: if_splits)
    then show ?thesis using progress_settle h find_hypothesis_SomeD [OF h(1)] w by (simp add: same_work_def)
  qed
  then show ?thesis using progress_same_work [OF w] progress_trans by blast
qed

lemma scored_evidenced: "OUTCOME_TO_STATUS (sg_status (scored num md actual now)) = Some t \<Longrightarrow> evidenced (sg_result (scored num md actual now))"
  by (auto simp: scored_def OUTCOME_TO_STATUS_def pending_scoring_def evidenced_def dget_def split: option.splits if_splits)

lemma pending_unscored: "OUTCOME_TO_STATUS (sg_status pending_scoring) = None"
  by (simp add: OUTCOME_TO_STATUS_def pending_scoring_def)

lemma score_metric_evidenced:
  assumes "score_metric e h now db = Inr sg" "OUTCOME_TO_STATUS (sg_status sg) = Some t"
  shows "evidenced (sg_result sg)"
proof -
  have "sg = pending_scoring \<or> (\<exists>num md actual. sg = scored num md actual now)"
    using assms(1) unfolding score_metric_def score_ga4_outcome_def score_epic_outcome_def Let_def
    by (auto simp: res_bind_Inr split: if_splits option.splits)
  then show ?thesis using assms(2) pending_unscored scored_evidenced by auto
qed

lemma OUTCOME_TO_STATUS_values: "OUTCOME_TO_STATUS s = Some t \<Longrightarrow> t = ''verified'' \<or> t = ''falsified''"
  by (auto simp: OUTCOME_TO_STATUS_def split: if_splits)

lemma progress_score_one:
  assumes s: "score_one e ids now h (r, db) = Inr (r', db')" and h: "h \<in> set (t_hypotheses db)"
    and a: "hy_status h \<in> {''active'', ''measuring''}"
  shows "progress db db'"
proof -
  let ?h = "h\<lparr>hy_status := ''measuring''\<rparr>"
  let ?db = "if hy_status h = ''active'' then upd_hypothesis (hy_id h) (\<lambda>x. x\<lparr>hy_status := ''measuring''\<rparr>) db else db"
  have c: "hypothesis_change h ?h"
    using a by (auto simp: hypothesis_change_def hypothesis_ok_def HYPOTHESIS_STATUSES_def CONFIRMED_STATUSES_def SETTLED_STATUSES_def
        valid_hypothesis_transition_def intro: hypothesis_path_step)
  have p: "progress db ?db" using progress_hypothesis [of h db "\<lambda>x. x\<lparr>hy_status := ''measuring''\<rparr>"] h c by simp
  have i: "?h \<in> set (t_hypotheses ?db)"
  proof (cases "hy_status h = ''active''")
    case False
    then have "?h = h" using a by (cases h) simp
    then show ?thesis using False h by simp
  qed (use in_upd_hypothesis [OF h] in simp)
  show ?thesis
  proof (cases "db' = ?db")
    case False
    then obtain sg t where sg: "score_metric e h now ?db = Inr sg" "OUTCOME_TO_STATUS (sg_status sg) = Some t"
        "resolve_scored ?h t sg ids now ?db = Inr db'"
      using s by (auto simp: score_one_def Let_def res_bind_Inr split: if_splits sum.splits option.splits)
    let ?f = "\<lambda>x. x\<lparr>hy_status := t, hy_outcome_result := sg_result sg\<rparr>"
    obtain db2 where r: "record_outcome_verdicts (?f ?h) ids now (upd_hypothesis (hy_id ?h) ?f ?db) = Inr db2"
        "db' = attribute_loop_outcome (?f ?h) now db2"
      using sg(3) unfolding resolve_scored_def Let_def res_bind_Inr by auto
    have "hypothesis_change ?h (?f ?h)"
      using OUTCOME_TO_STATUS_values [OF sg(2)] score_metric_evidenced [OF sg(1,2)]
      by (auto simp: hypothesis_change_def hypothesis_ok_def HYPOTHESIS_STATUSES_def CONFIRMED_STATUSES_def SETTLED_STATUSES_def
          valid_hypothesis_transition_def intro: hypothesis_path_step)
    then have "progress ?db db'"
      using progress_resolved [OF i, of ?f] r OUTCOME_TO_STATUS_values [OF sg(2)] by (auto simp: SETTLED_STATUSES_def)
    then show ?thesis using p progress_trans by blast
  qed (use p in simp)
qed

lemma score_one_others:
  assumes "score_one e ids now h (r, db) = Inr (r', db')" "x \<in> set (t_hypotheses db)" "hy_id x \<noteq> hy_id h"
  shows "x \<in> set (t_hypotheses db')"
proof -
  have u: "x \<in> set (t_hypotheses (upd_hypothesis (hy_id h) f d))" if "x \<in> set (t_hypotheses d)" for f d
    using that assms(3) by (force simp: upd_hypothesis_def upd_row_def)
  have o: "x \<in> set (t_hypotheses d')" if "record_outcome_verdicts k ids now d = Inr d'" "x \<in> set (t_hypotheses d)" for k d d'
    using same_work_outcome [OF that(1)] that(2) by (simp add: same_work_def)
  have t: "t_hypotheses (attribute_loop_outcome k now d) = t_hypotheses d" for k d
    by (simp add: attribute_loop_outcome_def)
  show ?thesis
    using assms(1,2) by (auto simp: score_one_def Let_def res_bind_Inr resolve_scored_def t u split: if_splits sum.splits option.splits
        dest!: o)
qed

lemma progress_score_all:
  "fold_res (score_one e ids now) hs (r, db) = Inr (r', db') \<Longrightarrow> set hs \<subseteq> set (t_hypotheses db) \<Longrightarrow> distinct (map hy_id hs) \<Longrightarrow>
    (\<And>h. h \<in> set hs \<Longrightarrow> hy_status h \<in> {''active'', ''measuring''}) \<Longrightarrow> progress db db'"
proof (induction hs arbitrary: r db)
  case (Cons h hs)
  from Cons.prems(1) obtain r1 db1 where s: "score_one e ids now h (r, db) = Inr (r1, db1)"
      "fold_res (score_one e ids now) hs (r1, db1) = Inr (r', db')" by (auto simp: res_bind_Inr)
  have "set hs \<subseteq> set (t_hypotheses db1)"
  proof
    fix x assume x: "x \<in> set hs"
    then have "hy_id x \<noteq> hy_id h" using Cons.prems(3) by (metis distinct.simps(2) image_eqI image_set list.map(2))
    then show "x \<in> set (t_hypotheses db1)" using score_one_others [OF s(1)] x Cons.prems(2) by auto
  qed
  then have "progress db1 db'" using Cons.IH [OF s(2)] Cons.prems(3,4) by simp
  moreover have "progress db db1" using progress_score_one [OF s(1)] Cons.prems(2,4) by simp
  ultimately show ?case using progress_trans by blast
qed simp

lemma progress_cron:
  assumes "score_hypotheses e ids now db = Inr (r, db')"
  shows "progress db db'"
proof (cases "outcome_inv db")
  case True
  then have "distinct (map hy_id (due_hypotheses now db))"
    by (auto simp: outcome_inv_def due_hypotheses_def distinct_map_filter)
  then show ?thesis using progress_score_all [of e ids now "due_hypotheses now db"] assms
    by (auto simp: score_hypotheses_def due_hypotheses_def)
qed (simp add: progress_def)

lemma progress_confirm: "resolve_hypothesis_outcome_confirm_gate env g st resolver tid lids ids now db = Inr db' \<Longrightarrow> progress db db'"
  by (auto simp: resolve_hypothesis_outcome_confirm_gate_def Let_def res_bind_Inr split: if_splits option.splits dest!: progress_transition)

lemma progress_archive: "archive_hypothesis org i now db = Inr db' \<Longrightarrow> progress db db'"
proof -
  assume a: "archive_hypothesis org i now db = Inr db'"
  then obtain h where h: "h \<in> set (t_hypotheses db)" "hy_id h = i"
    by (auto simp: archive_hypothesis_def split: if_splits dest!: find_hypothesis_SomeD)
  have "hypothesis_change h (h\<lparr>hy_status := ''archived'', hy_archived_at := Some now\<rparr>)"
    by (simp add: hypothesis_change_def hypothesis_path_archived hypothesis_ok_def HYPOTHESIS_STATUSES_def CONFIRMED_STATUSES_def)
  then show ?thesis
    using progress_hypothesis [of h db "\<lambda>h. h\<lparr>hy_status := ''archived'', hy_archived_at := Some now\<rparr>"] h a
    by (auto simp: archive_hypothesis_def split: if_splits)
qed

lemma progress_sprint_link: "progress db (set_sprint_link i s db)" "progress db (remove_sprint_link i db)"
  by (auto simp: set_sprint_link_def remove_sprint_link_def intro: progress_tables)

lemma progress_update: "update_hypothesis org i u db = Inr db' \<Longrightarrow> progress db db'"
proof -
  assume a: "update_hypothesis org i u db = Inr db'"
  then obtain h where h: "h \<in> set (t_hypotheses db)" "hy_id h = i"
    by (auto simp: update_hypothesis_def split: option.splits dest!: find_hypothesis_SomeD)
  let ?db = "upd_hypothesis i (apply_update u) db"
  have "hypothesis_change h (apply_update u h)" by (simp add: hypothesis_change_def hypothesis_ok_def apply_update_def)
  then have "progress db ?db" using progress_hypothesis [of h db "apply_update u"] h by (simp add: apply_update_def)
  moreover have "db' = (case hu_sprint u of None \<Rightarrow> ?db | Some None \<Rightarrow> remove_sprint_link i ?db | Some (Some s) \<Rightarrow> set_sprint_link i s ?db)"
    using a by (simp add: update_hypothesis_def Let_def split: option.splits if_splits)
  then have "progress ?db db'" using progress_sprint_link by (simp split: option.splits)
  ultimately show ?thesis using progress_trans by blast
qed

lemma progress_unlink: "unlink_hypothesis org i ss b db = Inr db' \<Longrightarrow> progress db db'"
  by (auto simp: unlink_hypothesis_def remove_sprint_link_def Let_def split: option.splits intro!: progress_tables)

section \<open>Creation, links, loops, sprints and goals\<close>

lemma link_frames:
  "add_story_links i ss db = Inr db' \<Longrightarrow> progress db db'" "progress db (link_sprint i sp db)"
  by (auto simp: add_story_links_def link_sprint_def set_sprint_link_def Let_def split: if_splits option.split intro: progress_tables)

lemma progress_create:
  assumes "create_hypothesis org c p fresh db = Inr db'" "fresh \<notin> hy_id ` set (t_hypotheses db)"
  shows "progress db db'"
proof -
  obtain owner status db1 where *: "status \<in> {''proposed'', ''active''}"
      "add_story_links fresh (hp_stories p) (db\<lparr>t_hypotheses := t_hypotheses db @ [new_hypothesis org c p owner status fresh]\<rparr>) = Inr db1"
      "db' = link_sprint fresh (hp_sprint p) db1"
    using assms(1) unfolding create_hypothesis_def Let_def by (auto simp: res_bind_Inr split: if_splits)
  have "hypothesis_ok (new_hypothesis org c p owner status fresh)"
    using *(1) by (auto simp: new_hypothesis_def hypothesis_ok_def HYPOTHESIS_STATUSES_def CONFIRMED_STATUSES_def)
  moreover have "hy_id (new_hypothesis org c p owner status fresh) = fresh" by (simp add: new_hypothesis_def)
  ultimately show ?thesis using progress_new_hypothesis assms(2) link_frames * progress_trans by metis
qed

lemma progress_guided:
  "create_hypothesis_guided env org c project st m t d fresh tid lids ids now db = Inr db' \<Longrightarrow>
     fresh \<notin> hy_id ` set (t_hypotheses db) \<Longrightarrow> progress db db'"
  unfolding create_hypothesis_guided_def
  by (auto simp: res_bind_Inr split: if_splits dest: progress_create progress_transition intro: progress_trans)

lemma progress_link: "link_hypothesis org i es ss sp db = Inr db' \<Longrightarrow> progress db db'"
  by (auto simp: link_hypothesis_def res_bind_Inr split: option.splits if_splits dest!: link_frames(1)
           intro: progress_trans link_frames(2))

lemma progress_add_loop:
  "add_loop org c project title i fresh db = Inr db' \<Longrightarrow> fresh \<notin> lo_id ` set (t_loops db) \<Longrightarrow> progress db db'"
  by (auto simp: add_loop_def LOOP_STATUSES_def split: option.splits if_splits intro!: progress_new_loop)

lemma create_hypothesis_loops: "create_hypothesis org c p fresh db = Inr db' \<Longrightarrow> t_loops db' = t_loops db"
  unfolding create_hypothesis_def Let_def
  by (auto simp: res_bind_Inr add_story_links_def link_sprint_def set_sprint_link_def Let_def split: if_splits option.splits)

lemma progress_create_loop:
  assumes "create_loop org c project title hyp fresh_hyp fresh db = Inr db'" "fresh_hyp \<notin> hy_id ` set (t_hypotheses db)"
    "fresh \<notin> lo_id ` set (t_loops db)"
  shows "progress db db'"
proof (cases "\<exists>p. hyp = Inr (Some p)")
  case True
  then obtain p db1 where c: "create_hypothesis org c p fresh_hyp db = Inr db1" "add_loop org c project title fresh_hyp fresh db1 = Inr db'"
    using assms(1) by (auto simp: create_loop_def split: sum.splits option.splits error.splits)
  show ?thesis
    using progress_create [OF c(1) assms(2)] progress_add_loop [OF c(2)] assms(3) create_hypothesis_loops [OF c(1)] progress_trans
    by auto
qed (use assms progress_add_loop in \<open>auto simp: create_loop_def split: sum.splits option.splits\<close>)

lemma progress_loop:
  assumes t: "transition_loop org l target db = Inr db'" and l: "l \<in> set (t_loops db)"
  shows "progress db db'"
proof -
  have v: "valid_loop_transition (lo_status l) target" "target \<in> set LOOP_TRANSITION_ALLOWED_TARGETS"
      "db' = upd_loop (lo_id l) (\<lambda>x. x\<lparr>lo_status := target\<rparr>) db"
    using t by (auto simp: transition_loop_def split: if_splits)
  have o: "lo_status l \<notin> {''closed'', ''abandoned''}" using v(1) unfolding valid_loop_transition_def by force
  have n: "target \<noteq> ''closed'' \<and> target \<in> set LOOP_STATUSES"
    using v(2) unfolding LOOP_TRANSITION_ALLOWED_TARGETS_def LOOP_STATUSES_def by force
  show ?thesis unfolding v(3)
    by (rule progress_loop_row [OF l]) (use o n in \<open>simp_all add: loop_change_def loop_ok_def\<close>)
qed

lemma progress_decided:
  assumes "l \<in> set (t_loops db)" "lo_status l = ''deciding''" "status \<in> {''deciding'', ''executing''}"
  shows "progress db (upd_loop (lo_id l) (\<lambda>x. x\<lparr>lo_status := status, lo_decision_gate := g, lo_chosen_artifact := a\<rparr>) db)"
proof -
  have n: "status \<noteq> ''closed'' \<and> status \<in> set LOOP_STATUSES" using assms(3) unfolding LOOP_STATUSES_def by force
  show ?thesis
    by (rule progress_loop_row [OF assms(1)]) (use assms(2) n in \<open>simp_all add: loop_change_def loop_ok_def snapshot_of_def\<close>)
qed

lemma progress_sprint:
  assumes s: "s \<in> set (t_sprints db)" and i: "\<And>x. sp_id (f x) = sp_id x" and o: "sprint_ok s \<Longrightarrow> sprint_ok (f s)"
    and p: "sp_org (f s) = sp_org s \<and> sp_project (f s) = sp_project s"
    and a: "sp_status (f s) \<noteq> ''active'' \<or> active_sprints (sp_org s) (sp_project s) db = []"
  shows "progress db (upd_sprint (sp_id s) f db)"
  unfolding upd_sprint_def
proof (rule progress_sprints, intro conjI ballI)
  assume inv: "outcome_inv db"
  let ?ss = "upd_row sp_id (sp_id s) f (t_sprints db)"
  have d: "distinct (map sp_id (t_sprints db))" using inv by (simp add: outcome_inv_def)
  then show "distinct (map sp_id ?ss)" using upd_row_map_key [of sp_id f, OF i] by simp
  have m: "x \<in> set ?ss \<longleftrightarrow> x = f s \<or> x \<in> set (t_sprints db) \<and> sp_id x \<noteq> sp_id s" for x
    by (rule set_upd_row [OF d s])
  show "sprint_ok x" if "x \<in> set ?ss" for x
    using that m o inv s by (auto simp: outcome_inv_def)
  have "\<not> (sp_status x = ''active'' \<and> sp_org x = sp_org s \<and> sp_project x = sp_project s)"
    if "sp_status (f s) = ''active''" "x \<in> set (t_sprints db)" for x
    using that a by (auto simp: active_sprints_def filter_empty_conv)
  note alone = this
  have u: "one_active_sprint (t_sprints db)" using inv by (simp add: outcome_inv_def)
  show "one_active_sprint ?ss"
    unfolding one_active_sprint_def
  proof (intro ballI impI)
    fix x y assume x: "x \<in> set ?ss" and y: "y \<in> set ?ss" and e: "sp_status x = ''active'' \<and> sp_status y = ''active''
        \<and> sp_org x = sp_org y \<and> sp_project x = sp_project y"
    have "x = f s \<or> x \<in> set (t_sprints db)" "y = f s \<or> y \<in> set (t_sprints db)" using m x y by blast+
    then show "x = y" using alone [of x] alone [of y] e p u [unfolded one_active_sprint_def] by auto
  qed
qed

lemma find_sprint_SomeD: "find_sprint org i db = Some s \<Longrightarrow> s \<in> set (t_sprints db) \<and> sp_id s = i \<and> sp_org s = org"
  unfolding find_sprint_def by (drule find_SomeD) simp

lemma closed_sprint_fields:
  "sp_id (closed_sprint v sg s) = sp_id s" "sp_org (closed_sprint v sg s) = sp_org s" "sp_project (closed_sprint v sg s) = sp_project s"
  "sp_status (closed_sprint v sg s) = ''closed''" "sp_velocity (closed_sprint v sg s) = Some v"
  by (auto simp: closed_sprint_def Let_def split: option.split)

lemma sprint_ok_status: "sprint_ok s \<Longrightarrow> sprint_ok (s\<lparr>sp_status := ''active''\<rparr>)"
  "sprint_ok (s\<lparr>sp_status := ''closed'', sp_velocity := Some v\<rparr>)"
  by (simp_all add: sprint_ok_def SPRINT_STATUSES_def)

lemma sprint_ok_closed: "sprint_ok (closed_sprint v sg s)"
  by (simp add: sprint_ok_def closed_sprint_fields SPRINT_STATUSES_def)

lemma sprint_ok_other:
  assumes "sprint_ok s" "valid_sprint_transition (sp_status s) t" "t \<notin> {''active'', ''closed''}"
  shows "sprint_ok (s\<lparr>sp_status := t\<rparr>)"
proof -
  have "t = ''review'' \<or> t = ''archived'' \<and> sp_status s = ''closed''"
    using assms(2,3) unfolding valid_sprint_transition_def by force
  then show ?thesis using assms(1) by (elim disjE) (simp_all add: sprint_ok_def SPRINT_STATUSES_def)
qed

lemmas sprint_ok_simps = sprint_ok_status sprint_ok_closed sprint_ok_other

lemma progress_apply_sprint:
  assumes "apply_sprint num s to_status now db = Inr db'" "s \<in> set (t_sprints db)" "valid_sprint_transition (sp_status s) to_status"
  shows "progress db db'"
proof -
  consider (active) "to_status = ''active''" | (closed) "to_status = ''closed''" | (other) "to_status \<notin> {''active'', ''closed''}"
    by blast
  then show ?thesis
  proof cases
    case active
    then show ?thesis using assms
      by (auto simp: apply_sprint_def activate_sprint_def res_bind_Inr scalar_one_or_none_None sprint_ok_simps
               split: if_splits intro!: progress_sprint)
  next
    case closed
    then show ?thesis using assms
      by (auto simp: apply_sprint_def close_sprint_def Let_def sprint_ok_simps closed_sprint_fields
               split: if_splits intro!: progress_sprint)
  next
    case other
    then show ?thesis using assms
      by (auto simp: apply_sprint_def sprint_ok_simps intro!: progress_sprint)
  qed
qed

lemma progress_transition_sprint:
  assumes "transition_sprint env num org c i to_status via tid lids now db = Inr db'"
  shows "progress db db'"
proof -
  obtain s where s: "find_sprint org i db = Some s" "valid_sprint_transition (sp_status s) to_status" "to_status \<in> set SPRINT_STATUSES"
      "\<not> (sp_status s = ''planning'' \<and> to_status = ''active'' \<and> \<not> alive_hypothesis_linked i db)"
    using assms by (auto simp: transition_sprint_def split: option.splits if_splits)
  obtain held db1 where ov: "(if (sp_status s, to_status) \<in> {(''planning'', ''active''), (''active'', ''closed''), (''review'', ''closed'')} \<and> \<not> via
      then line_holds env (overlay_args org (sp_project s) ''sprint'' (sp_id s) (sp_status s) to_status c tid) lids now db
      else (False, db)) = (held, db1)" by fastforce
  then have w: "same_work db db1" by (auto split: if_splits dest!: same_work_holds)
  have "(if held then Inr db1 else apply_sprint num s to_status now db1) = Inr db'"
    using assms s ov by (simp add: transition_sprint_def split del: if_split)
  then have "progress db1 db'"
    using progress_apply_sprint [OF _ _ s(2)] find_sprint_SomeD [OF s(1)] w by (auto simp: same_work_def split: if_splits)
  then show ?thesis using progress_same_work [OF w] progress_trans by blast
qed

lemma goal_frames: "t_hypotheses (upd_goal i f db) = t_hypotheses db" "t_loops (upd_goal i f db) = t_loops db"
  "t_sprints (upd_goal i f db) = t_sprints db"
  by (simp_all add: upd_goal_def)

lemma progress_transition_goal:
  assumes "transition_goal env org c i to_status via oc result tid lids now db = Inr db'"
  shows "progress db db'"
proof -
  obtain g where g: "find_goal org i db = Some g" using assms by (auto simp: transition_goal_def split: option.splits)
  obtain held db1 where ov: "(if (gl_status g, to_status) \<in> {(''draft'', ''active''), (''active'', ''done'')} \<and> \<not> via
      then line_holds env (overlay_args org (gl_project g) ''epic'' (gl_id g) (gl_status g) to_status c tid) lids now db
      else (False, db)) = (held, db1)" by fastforce
  then have w: "same_work db db1" by (auto split: if_splits dest!: same_work_holds)
  have "db' = db1 \<or> (\<exists>f. db' = upd_goal (gl_id g) f db1)"
    using assms g ov unfolding transition_goal_def by (auto simp: res_bind_Inr split: if_splits)
  then have "progress db1 db'" by (auto simp: goal_frames intro: progress_tables)
  then show ?thesis using progress_same_work [OF w] progress_trans by blast
qed

section \<open>Every run\<close>

lemma outcome_step_progress: "outcome_step db db' \<Longrightarrow> progress db db'"
proof (induction rule: outcome_step.induct)
  case (sprint_made s db)
  then show ?case
    by (intro progress_sprints) (auto simp: outcome_inv_def one_active_sprint_def sprint_ok_def SPRINT_STATUSES_def)
qed (rule progress_create progress_guided progress_link progress_unlink progress_update progress_archive progress_transition progress_confirm progress_cron progress_create_loop
       progress_loop progress_decided progress_transition_sprint progress_transition_goal progress_tables; assumption)+

lemma outcome_run_progress: "outcome_step\<^sup>*\<^sup>* db db' \<Longrightarrow> progress db db'"
  by (induction rule: rtranclp_induct) (auto intro: progress_trans outcome_step_progress)

interpretation outcome: transition_system "\<lambda>db. t_hypotheses db = [] \<and> t_loops db = [] \<and> t_sprints db = []" outcome_step outcome_inv
proof
  show "outcome_inv db" if "t_hypotheses db = [] \<and> t_loops db = [] \<and> t_sprints db = []" for db
    using that by (simp add: outcome_inv_def one_active_sprint_def)
  show "outcome_inv db'" if "outcome_inv db" "outcome_step db db'" for db db'
    using that outcome_step_progress by (auto simp: progress_def)
qed

end
