(* ===== verification/Outcome_Properties.thy ===== *)
theory Outcome_Properties
  imports Outcome_Machine Line_Properties
begin

text \<open>
  What the outcome loop promises: a resolved hypothesis has a measured value and a person behind it and
  stays as it was resolved, a closed loop shows the result of its hypothesis, a project has one active
  sprint, and a closed sprint is judged by the velocity of its stories.
\<close>

section \<open>Runs\<close>

lemma run_hypothesis:
  assumes "outcome_inv db" "outcome_step\<^sup>*\<^sup>* db db'" "h \<in> set (t_hypotheses db)" "h' \<in> set (t_hypotheses db')" "hy_id h' = hy_id h"
  shows "hypothesis_change h h'"
proof -
  have p: "outcome_inv db' \<and> (\<exists>x \<in> set (t_hypotheses db'). hypothesis_change h x)"
    using outcome_run_progress [OF assms(2)] assms(1,3) by (auto simp: progress_def)
  then obtain x where x: "x \<in> set (t_hypotheses db')" "hypothesis_change h x" by blast
  then have "x = h'"
    using row_unique [of hy_id "t_hypotheses db'" x h'] p assms(4,5) by (simp add: outcome_inv_def hypothesis_change_def)
  with x show ?thesis by simp
qed

lemma run_loop:
  assumes "outcome_inv db" "outcome_step\<^sup>*\<^sup>* db db'" "l \<in> set (t_loops db)" "l' \<in> set (t_loops db')" "lo_id l' = lo_id l"
  shows "loop_goes db l l'"
proof -
  have p: "outcome_inv db' \<and> (\<exists>x \<in> set (t_loops db'). loop_goes db l x)"
    using outcome_run_progress [OF assms(2)] assms(1,3) by (auto simp: progress_def)
  then obtain x where x: "x \<in> set (t_loops db')" "loop_goes db l x" by blast
  then have "x = l'"
    using row_unique [of lo_id "t_loops db'" x l'] p assms(4,5) by (simp add: outcome_inv_def loop_goes_def loop_change_def)
  with x show ?thesis by simp
qed

section \<open>A concrete organisation\<close>

definition sample_human :: caller where "sample_human = \<lparr>cl_id = ''m1'', cl_type = ''human''\<rparr>"

definition sample_evidence :: jdict where
  "sample_evidence = [(''actual'', JInt 42), (''reason'', JStr ''counted'')]"

definition sample_outcome_ids :: outcome_ids where
  "sample_outcome_ids = \<lparr>oi_execution = (\<lambda>s. ''e1''), oi_participation = (\<lambda>s m. ''p1''), oi_bet = (\<lambda>s m. ''b1'')\<rparr>"

definition sample_hypothesis :: "string \<Rightarrow> jdict option \<Rightarrow> hypothesis" where
  "sample_hypothesis status result = \<lparr>hy_id = ''h1'', hy_org = ''o1'', hy_project = ''j1'', hy_status = status, hy_owner = ''m1'',
     hy_confirmed_by = Some ''m1'', hy_outcome_result = result, hy_statement = ''more signups'',
     hy_metric_definition = JObj [(''metric'', JStr ''signups''), (''source'', JStr ''manual''), (''target'', JInt 40),
       (''direction'', JStr ''up'')], hy_measure_after = 100 + minutes (14 * 24 * 60), hy_created_by = ''m1'', hy_drafted_by = None, hy_archived_at = None\<rparr>"

definition sample_loop :: "string \<Rightarrow> loop_run" where
  "sample_loop status = \<lparr>lo_id = ''l1'', lo_org = ''o1'', lo_project = ''j1'', lo_hypothesis = Some ''h1'', lo_status = status,
     lo_outcome_snapshot = None, lo_attributed_at = None, lo_decision_gate = None, lo_chosen_artifact = None,
     lo_title = ''first'', lo_created_by = ''m1''\<rparr>"

definition sample_members :: gate_db where
  "sample_members = empty_db\<lparr>t_org_members := [\<lparr>om_id = ''m1'', om_org = ''o1'', om_role = ''owner'', om_deleted_at = None, om_created_at = 1\<rparr>]\<rparr>"

definition sample_measuring :: gate_db where
  "sample_measuring = sample_members\<lparr>t_hypotheses := [sample_hypothesis ''measuring'' None], t_loops := [sample_loop ''measuring'']\<rparr>"

definition sample_result :: jdict where
  "sample_result = [(''actual'', JInt 42), (''reason'', JStr ''counted''), (''closed_by'', JStr ''human''), (''closed_by_member_id'', JStr ''m1'')]"

definition sample_verified :: "loop_run \<Rightarrow> gate_db" where
  "sample_verified l = sample_members\<lparr>t_hypotheses := [sample_hypothesis ''verified'' (Some sample_result)], t_loops := [l]\<rparr>"

definition sample_closed :: loop_run where
  "sample_closed = attributed_loop (sample_hypothesis ''verified'' (Some sample_result)) 300 (sample_loop ''measuring'')"

lemmas sample_outcome_defs = sample_human_def sample_evidence_def sample_outcome_ids_def sample_hypothesis_def sample_loop_def
  sample_members_def sample_measuring_def sample_result_def sample_verified_def sample_closed_def empty_db_def

lemma sample_guided:
  "create_hypothesis_guided sample_env ''o1'' sample_human ''j1'' ''more signups'' (JStr ''signups'') (JInt 40) (JStr ''up'') ''h1''
     ''t1'' sample_line_ids sample_outcome_ids 100 sample_members
   = Inr (sample_members\<lparr>t_hypotheses := [sample_hypothesis ''measuring'' None]\<rparr>)"
  by (simp add: create_hypothesis_guided_def create_hypothesis_def new_hypothesis_def lookup_member_def targets_same_project_def
      add_story_links_def link_sprint_def transition_hypothesis_def find_hypothesis_def valid_hypothesis_transition_def
      HYPOTHESIS_STATUSES_def settle_hypothesis_def resolution_def upd_hypothesis_def upd_row_def res_bind_def sample_outcome_defs
      DEFAULT_MEASURE_DAYS_def Let_def)

lemma sample_verify:
  "transition_hypothesis sample_env ''o1'' sample_human ''h1'' ''verified'' (Some sample_evidence) None False ''t1'' sample_line_ids
     sample_outcome_ids 300 (sample_members\<lparr>t_hypotheses := [sample_hypothesis ''measuring'' None], t_loops := ls\<rparr>)
   = Inr (sample_members\<lparr>t_hypotheses := [sample_hypothesis ''verified'' (Some sample_result)],
       t_loops := map (\<lambda>l. if attributable (sample_hypothesis ''verified'' (Some sample_result)) l
         then attributed_loop (sample_hypothesis ''verified'' (Some sample_result)) 300 l else l) ls\<rparr>)"
  by (simp add: transition_hypothesis_def find_hypothesis_def valid_hypothesis_transition_def HYPOTHESIS_STATUSES_def settle_hypothesis_def
      resolution_def upd_hypothesis_def upd_row_def res_bind_def has_valid_outcome_evidence_def has_valid_unmeasurable_reason_def
      dget_def py_strip_def is_py_space_def record_outcome_verdicts_def linked_stories_def attribute_loop_outcome_def dict_update_def
      Let_def sample_outcome_defs)

definition sample_org :: gate_db where
  "sample_org = sample_members\<lparr>t_hypotheses := [sample_hypothesis ''measuring'' None]\<rparr>"

lemma sample_no_loops: "sample_members\<lparr>t_hypotheses := hs, t_loops := []\<rparr> = sample_members\<lparr>t_hypotheses := hs\<rparr>"
  by (simp add: sample_members_def empty_db_def)

lemma sample_path:
  "outcome_step\<^sup>*\<^sup>* sample_members (sample_members\<lparr>t_hypotheses := [sample_hypothesis ''verified'' (Some sample_result)]\<rparr>)"
proof -
  have "outcome_step sample_members sample_org"
    unfolding sample_org_def by (rule hypothesis_guided [OF sample_guided]) (simp add: sample_members_def empty_db_def)
  moreover have "outcome_step sample_org (sample_members\<lparr>t_hypotheses := [sample_hypothesis ''verified'' (Some sample_result)]\<rparr>)"
    using hypothesis_moved [OF sample_verify [of "[]"]] by (simp add: sample_org_def sample_no_loops)
  ultimately show ?thesis by simp
qed

lemma sample_closing: "outcome_step sample_measuring (sample_verified sample_closed)"
proof -
  have "attributable (sample_hypothesis ''verified'' (Some sample_result)) (sample_loop ''measuring'')"
    by (simp add: attributable_def valid_loop_transition_def sample_hypothesis_def sample_loop_def)
  then show ?thesis
    using hypothesis_moved [OF sample_verify [of "[sample_loop ''measuring'']"]]
    by (simp add: sample_measuring_def sample_verified_def sample_closed_def)
qed

lemma sample_measuring_inv: "outcome_inv sample_measuring"
  by (simp add: outcome_inv_def hypothesis_ok_def HYPOTHESIS_STATUSES_def loop_ok_def LOOP_STATUSES_def one_active_sprint_def
      CONFIRMED_STATUSES_def sample_outcome_defs)

lemma sample_verified_inv: "outcome_inv (sample_verified sample_closed)"
  using outcome.step_inv [OF sample_measuring_inv sample_closing] .

section \<open>Properties\<close>

text \<open>
  C36: Nothing is verified or falsified without evidence. In every state the operations of hypotheses, loops,
  sprints and goals reach, whoever runs them and in whatever order, a hypothesis that is verified or
  falsified carries a numeric measured value and the member who confirmed that it should be measured.\<close>

theorem resolved_outcomes_are_measured:
  assumes "t_hypotheses db = []" "t_loops db = []" "t_sprints db = []" "outcome_step\<^sup>*\<^sup>* db db'"
    "h \<in> set (t_hypotheses db')" "hy_status h \<in> {''verified'', ''falsified''}"
  shows "hy_confirmed_by h \<noteq> None \<and> (\<exists>d. hy_outcome_result h = Some d \<and>
    ((\<exists>i. dget ''actual'' d = JInt i) \<or> (\<exists>r. dget ''actual'' d = JReal r)))"
proof -
  have "outcome_inv db'" using outcome.reachable_inv assms(1-4) by blast
  then have "hypothesis_ok h" using assms(5) by (simp add: outcome_inv_def)
  then show ?thesis using assms(6)
    by (auto simp: hypothesis_ok_def CONFIRMED_STATUSES_def evidenced_def split: option.splits json.splits)
qed

theorem resolved_outcomes_are_measured_witness:
  "hy_confirmed_by (sample_hypothesis ''verified'' (Some sample_result)) \<noteq> None
    \<and> (\<exists>d. hy_outcome_result (sample_hypothesis ''verified'' (Some sample_result)) = Some d \<and>
    ((\<exists>i. dget ''actual'' d = JInt i) \<or> (\<exists>r. dget ''actual'' d = JReal r)))"
  by (rule resolved_outcomes_are_measured [OF _ _ _ sample_path]) (simp_all add: sample_members_def sample_hypothesis_def empty_db_def)

text \<open>
  C37: A resolution is final. From any well-formed state, whatever is done to hypotheses, loops, sprints and
  goals, a hypothesis that was verified, falsified or killed is later in the same state or archived,
  and the outcome recorded with it is the same.\<close>

theorem resolved_outcome_is_final:
  assumes "outcome_inv db" "outcome_step\<^sup>*\<^sup>* db db'" "h \<in> set (t_hypotheses db)" "h' \<in> set (t_hypotheses db')" "hy_id h' = hy_id h"
    "hy_status h \<in> {''verified'', ''falsified'', ''killed''}"
  shows "hy_status h' \<in> {hy_status h, ''archived''} \<and> hy_outcome_result h' = hy_outcome_result h"
proof -
  have c: "hypothesis_change h h'" by (rule run_hypothesis [OF assms(1-5)])
  have s: "hy_status h \<in> set SETTLED_STATUSES" using assms(6) by (auto simp: SETTLED_STATUSES_def)
  have "hy_status h' = hy_status h \<or> hy_status h' = ''archived''"
    using c s hypothesis_path_settled by (simp add: hypothesis_change_def)
  then show ?thesis using c s by (simp add: hypothesis_change_def)
qed

lemma sample_archive:
  "outcome_step (sample_verified l) (sample_members\<lparr>t_hypotheses := [(sample_hypothesis ''archived'' (Some sample_result))\<lparr>hy_archived_at := Some 900\<rparr>],
     t_loops := [l]\<rparr>)"
  by (rule hypothesis_archived [of "''o1''" "''h1''" 900])
    (simp add: archive_hypothesis_def find_hypothesis_def upd_hypothesis_def upd_row_def sample_outcome_defs)

theorem resolved_outcome_is_final_witness:
  "hy_status ((sample_hypothesis ''archived'' (Some sample_result))\<lparr>hy_archived_at := Some 900\<rparr>)
      \<in> {hy_status (sample_hypothesis ''verified'' (Some sample_result)), ''archived''}
   \<and> hy_outcome_result ((sample_hypothesis ''archived'' (Some sample_result))\<lparr>hy_archived_at := Some 900\<rparr>)
      = hy_outcome_result (sample_hypothesis ''verified'' (Some sample_result))"
  by (rule resolved_outcome_is_final [OF sample_verified_inv r_into_rtranclp [of outcome_step, OF sample_archive]])
    (simp_all add: sample_verified_def sample_hypothesis_def)

text \<open>
  C38: A closed loop is the frozen record of its hypothesis. From any well-formed state, a loop that is closed
  stays exactly as it is in every later state, and there its hypothesis is one of the same organisation
  that was resolved, whose recorded outcome is the one in the loop.\<close>

theorem closed_loop_keeps_its_outcome:
  assumes "outcome_inv db" "outcome_step\<^sup>*\<^sup>* db db'" "l \<in> set (t_loops db)" "lo_status l = ''closed''"
  shows "l \<in> set (t_loops db') \<and> (\<exists>s h. lo_outcome_snapshot l = Some s \<and> h \<in> set (t_hypotheses db') \<and> lo_hypothesis l = Some (hy_id h)
     \<and> hy_org h = lo_org l \<and> dget ''hypothesis_status'' s \<in> {JStr ''verified'', JStr ''falsified''}
     \<and> dget ''outcome_result'' s = (case hy_outcome_result h of None \<Rightarrow> JNull | Some d \<Rightarrow> JObj d))"
proof -
  have p: "outcome_inv db'" "\<exists>x \<in> set (t_loops db'). loop_goes db l x"
    using outcome_run_progress [OF assms(2)] assms(1,3) by (auto simp: progress_def)
  then have l: "l \<in> set (t_loops db')" using assms(4) by (auto simp: loop_goes_def loop_change_def)
  then have "snapshot_of (t_hypotheses db') l" using p(1) assms(4) by (simp add: outcome_inv_def loop_ok_def)
  with l show ?thesis unfolding snapshot_of_def by fastforce
qed

theorem closed_loop_keeps_its_outcome_witness:
  "sample_closed \<in> set [sample_closed] \<and> (\<exists>s h. lo_outcome_snapshot sample_closed = Some s
     \<and> h \<in> set [(sample_hypothesis ''archived'' (Some sample_result))\<lparr>hy_archived_at := Some 900\<rparr>] \<and> lo_hypothesis sample_closed = Some (hy_id h)
     \<and> hy_org h = lo_org sample_closed \<and> dget ''hypothesis_status'' s \<in> {JStr ''verified'', JStr ''falsified''}
     \<and> dget ''outcome_result'' s = (case hy_outcome_result h of None \<Rightarrow> JNull | Some d \<Rightarrow> JObj d))"
  using closed_loop_keeps_its_outcome [OF sample_verified_inv r_into_rtranclp [of outcome_step, OF sample_archive], of sample_closed]
  by (simp add: sample_verified_def sample_closed_def attributed_loop_def)

text \<open>
  A loop that comes late never closes. If the hypothesis of an open loop has already been verified, falsified,
  killed or archived, no sequence of operations ever closes that loop: outcomes are handed out at the
  moment of resolution only, and nothing else closes a loop.\<close>

lemma late_loop_never_closes:
  assumes "outcome_inv db" "outcome_step\<^sup>*\<^sup>* db db'" "l \<in> set (t_loops db)" "lo_status l \<noteq> ''closed''" "h \<in> set (t_hypotheses db)"
    "lo_hypothesis l = Some (hy_id h)" "hy_status h \<in> {''verified'', ''falsified'', ''killed'', ''archived''}"
    "l' \<in> set (t_loops db')" "lo_id l' = lo_id l"
  shows "lo_status l' \<noteq> ''closed''"
proof -
  have "settled_loop db l" using assms(5-7) by (auto simp: settled_loop_def SETTLED_STATUSES_def)
  then show ?thesis using run_loop [OF assms(1-3,8,9)] assms(4) by (auto simp: loop_goes_def)
qed

lemma sample_late_inv: "outcome_inv (sample_verified (sample_loop ''executing''))"
  by (simp add: outcome_inv_def hypothesis_ok_def HYPOTHESIS_STATUSES_def loop_ok_def LOOP_STATUSES_def one_active_sprint_def
      CONFIRMED_STATUSES_def evidenced_def dget_def sample_outcome_defs)

lemma sample_late_move: "outcome_step (sample_verified (sample_loop ''executing'')) (sample_verified (sample_loop ''measuring''))"
  by (rule loop_moved [of "sample_loop ''executing''" _ "''o1''" "''measuring''"])
    (simp_all add: transition_loop_def LOOP_TRANSITION_ALLOWED_TARGETS_def valid_loop_transition_def upd_loop_def upd_row_def
      sample_verified_def sample_loop_def)

lemma late_loop_never_closes_witness: "lo_status (sample_loop ''measuring'') \<noteq> ''closed''"
  by (rule late_loop_never_closes [OF sample_late_inv r_into_rtranclp [of outcome_step, OF sample_late_move],
      of "sample_loop ''executing''" "sample_hypothesis ''verified'' (Some sample_result)"])
    (simp_all add: sample_verified_def sample_loop_def sample_hypothesis_def)

lemma all_equal_le1: "distinct xs \<Longrightarrow> (\<And>x y. x \<in> set xs \<Longrightarrow> y \<in> set xs \<Longrightarrow> x = y) \<Longrightarrow> length xs \<le> 1"
proof (cases xs rule: scalar_one_or_none.cases)
  case (3 a b cs)
  assume d: "distinct xs" and e: "\<And>x y. x \<in> set xs \<Longrightarrow> y \<in> set xs \<Longrightarrow> x = y"
  have "a = b" by (rule e) (simp_all add: 3)
  then show ?thesis using d by (simp add: 3)
qed simp_all

lemma unique_actives:
  assumes "distinct (map sp_id ss)" "one_active_sprint ss"
  shows "length (filter (\<lambda>s. sp_org s = org \<and> sp_project s = project \<and> sp_status s = ''active'') ss) \<le> 1"
proof -
  let ?as = "filter (\<lambda>s. sp_org s = org \<and> sp_project s = project \<and> sp_status s = ''active'') ss"
  have "distinct ?as" using assms(1) by (simp add: distinct_map)
  moreover have "x = y" if "x \<in> set ?as" "y \<in> set ?as" for x y
    using that assms(2) by (simp add: one_active_sprint_def)
  ultimately show ?thesis by (rule all_equal_le1)
qed

text \<open>
  C39: One sprint at a time. From any well-formed state and after any sequence of operations, a project of an
  organisation has at most one active sprint, so the query that asks for it never finds two.\<close>

theorem one_active_sprint_per_project:
  assumes "outcome_inv db" "outcome_step\<^sup>*\<^sup>* db db'"
  shows "length (active_sprints org project db') \<le> 1 \<and> scalar_one_or_none (active_sprints org project db') \<noteq> Inl MultipleResultsFound"
proof -
  have "outcome_inv db'" by (rule outcome.run_inv [OF assms(2,1)])
  then have l: "length (active_sprints org project db') \<le> 1"
    unfolding active_sprints_def by (intro unique_actives) (simp_all add: outcome_inv_def)
  then show ?thesis using scalar_one_or_none_le1 by fastforce
qed

definition sample_sprint :: "string \<Rightarrow> sprint" where
  "sample_sprint status = \<lparr>sp_id = ''sp1'', sp_org = ''o1'', sp_project = ''j1'', sp_status = status, sp_velocity = None,
     sp_metric_definition = Some (JObj [(''source'', JStr ''internal_ops''), (''metric'', JStr ''velocity''), (''target'', JInt 5),
       (''direction'', JStr ''up'')]), sp_outcome_status = ''n_a'', sp_outcome_result = None\<rparr>"

definition sample_planned :: "string \<Rightarrow> gate_db" where
  "sample_planned status = sample_measuring\<lparr>t_sprints := [sample_sprint status],
     t_sprint_links := [\<lparr>hs_hypothesis = ''h1'', hs_sprint = ''sp1''\<rparr>]\<rparr>"

lemma sample_start_sprint:
  "transition_sprint sample_env (\<lambda>_. None) ''o1'' sample_human ''sp1'' ''active'' True ''t1'' sample_line_ids 200 (sample_planned ''planning'')
     = Inr (sample_planned ''active'')"
  by (simp add: transition_sprint_def find_sprint_def SPRINT_STATUSES_def valid_sprint_transition_def alive_hypothesis_linked_def
      DEAD_HYPOTHESIS_STATUSES_def apply_sprint_def activate_sprint_def active_sprints_def res_bind_def upd_sprint_def upd_row_def
      sample_planned_def sample_sprint_def sample_measuring_def sample_hypothesis_def Let_def)

lemma sample_planned_inv: "outcome_inv (sample_planned ''planning'')"
  using sample_measuring_inv
  by (simp add: outcome_inv_def sample_planned_def sample_sprint_def one_active_sprint_def sprint_ok_def SPRINT_STATUSES_def)

theorem one_active_sprint_per_project_witness:
  "length (active_sprints ''o1'' ''j1'' (sample_planned ''active'')) \<le> 1
     \<and> scalar_one_or_none (active_sprints ''o1'' ''j1'' (sample_planned ''active'')) \<noteq> Inl MultipleResultsFound"
  by (rule one_active_sprint_per_project [OF sample_planned_inv])
    (rule r_into_rtranclp, rule sprint_moved [OF sample_start_sprint])

lemma find_sprint_upd:
  "find_sprint org i db = Some s \<Longrightarrow> (\<And>x. sp_id (f x) = sp_id x \<and> sp_org (f x) = sp_org x)
     \<Longrightarrow> find_sprint org i (upd_sprint i f db) = Some (f s)"
proof -
  assume s: "find_sprint org i db = Some s" and k: "\<And>x. sp_id (f x) = sp_id x \<and> sp_org (f x) = sp_org x"
  have "List.find (\<lambda>s. sp_id s = i \<and> sp_org s = org) ss = Some s \<Longrightarrow>
      List.find (\<lambda>s. sp_id s = i \<and> sp_org s = org) (upd_row sp_id i f ss) = Some (f s)" for ss
    by (induction ss) (auto simp: upd_row_def k split: if_splits)
  then show ?thesis using s by (simp add: find_sprint_def upd_sprint_def)
qed

definition finished_points :: "uuid \<Rightarrow> gate_db \<Rightarrow> int" where
  "finished_points i db = sum_list (map story_weight (filter (\<lambda>x. st_sprint_id x = Some i \<and> st_deleted_at x = None \<and> st_status x = ''done'')
     (t_stories db)))"

text \<open>
  A sprint is judged by what it finished. Closing a running sprint whose measure is its velocity against a
  target leaves it closed with the points of its finished, undeleted stories as velocity, and the
  outcome is a hit exactly when these points reach the target in the direction the measure names.\<close>

lemma closing_judges_by_velocity:
  assumes "find_sprint org i db = Some s" "sp_status s \<in> {''active'', ''review''}" "sp_metric_definition s = Some md" "truthy md"
    "jget ''source'' md = JStr ''internal_ops''" "jget ''metric'' md = JStr ''velocity''" "py_float num (jget ''target'' md) = Some t"
    "jget ''direction'' md \<in> {JStr ''up'', JStr ''down''}"
  shows "\<exists>db' s'. transition_sprint env num org c i ''closed'' True tid lids now db = Inr db' \<and> find_sprint org i db' = Some s'
    \<and> sp_status s' = ''closed'' \<and> sp_velocity s' = Some (finished_points i db)
    \<and> (sp_outcome_status s' = ''hit'' \<longleftrightarrow> (if jget ''direction'' md = JStr ''up'' then of_int (finished_points i db) \<ge> t
                                        else of_int (finished_points i db) \<le> t))
    \<and> (sp_outcome_status s' = ''hit'' \<or> sp_outcome_status s' = ''miss'')"
proof -
  have i: "sp_id s = i" using find_sprint_SomeD [OF assms(1)] by simp
  have v: "valid_sprint_transition (sp_status s) ''closed''" "sp_status s \<noteq> ''planning''"
    using assms(2) by (auto simp: valid_sprint_transition_def)
  let ?stories = "filter (\<lambda>x. st_sprint_id x = Some i \<and> st_deleted_at x = None) (t_stories db)"
  let ?finished = "filter (\<lambda>x. st_status x = ''done'') ?stories"
  have p: "sum_list (map story_weight ?finished) = finished_points i db"
    by (simp add: finished_points_def conj_ac)
  define sg where "sg = score_sprint_outcome num md (finished_points i db) (length ?stories - length ?finished)
      (sum_list (map story_weight ?stories)) now"
  have t: "transition_sprint env num org c i ''closed'' True tid lids now db = Inr (upd_sprint i (closed_sprint (finished_points i db) sg) db)"
    using assms(1-3) v i p by (simp add: transition_sprint_def SPRINT_STATUSES_def apply_sprint_def close_sprint_def Let_def sg_def)
  have f: "find_sprint org i (upd_sprint i (closed_sprint (finished_points i db) sg) db) = Some (closed_sprint (finished_points i db) sg s)"
    by (rule find_sprint_upd [OF assms(1)]) (simp add: closed_sprint_fields)
  have g: "sg = Some (scored num md (of_int (finished_points i db)) now)"
    using assms(4-6) by (simp add: sg_def score_sprint_outcome_def)
  have o: "sp_outcome_status (closed_sprint (finished_points i db) sg s)
      = (if jget ''direction'' md = JStr ''up'' then if of_int (finished_points i db) \<ge> t then ''hit'' else ''miss''
         else if of_int (finished_points i db) \<le> t then ''hit'' else ''miss'')"
    using assms(7,8) by (auto simp: g closed_sprint_def scored_def apply_direction_def)
  show ?thesis using t f o by (auto simp: closed_sprint_fields)
qed

lemma closing_judges_by_velocity_witness:
  "\<exists>db' s'. transition_sprint sample_env (\<lambda>_. None) ''o1'' sample_human ''sp1'' ''closed'' True ''t1'' sample_line_ids 400 (sample_planned ''active'') = Inr db'
    \<and> find_sprint ''o1'' ''sp1'' db' = Some s'
    \<and> sp_status s' = ''closed'' \<and> sp_velocity s' = Some (finished_points ''sp1'' (sample_planned ''active''))
    \<and> (sp_outcome_status s' = ''hit'' \<longleftrightarrow> (if jget ''direction'' (the (sp_metric_definition (sample_sprint ''active''))) = JStr ''up''
          then of_int (finished_points ''sp1'' (sample_planned ''active'')) \<ge> (5::real)
          else of_int (finished_points ''sp1'' (sample_planned ''active'')) \<le> (5::real)))
    \<and> (sp_outcome_status s' = ''hit'' \<or> sp_outcome_status s' = ''miss'')"
  by (rule closing_judges_by_velocity [of _ _ _ "sample_sprint ''active''"])
    (simp_all add: find_sprint_def sample_planned_def sample_sprint_def jget_def py_float_def)

section \<open>What goes another way\<close>

lemma archive_ignores_status:
  "find_hypothesis org i db = Some h \<Longrightarrow> \<exists>db'. archive_hypothesis org i now db = Inr db'"
  "\<not> valid_hypothesis_transition ''measuring'' ''archived''"
  by (auto simp: archive_hypothesis_def valid_hypothesis_transition_def)

lemma unmeasured_draft_cannot_be_confirmed:
  assumes "g_work_item_type g = ''hypothesis''" "g_gate_type g = HYPOTHESIS_OUTCOME_CONFIRM_GATE_TYPE"
    "find_hypothesis (g_org_id g) (g_work_item_id g) db = Some h" "hy_status h = ''measuring''"
    "facts_of g = [(''draft_target'', JStr ''verified''), (''draft_actual'', JStr ''about forty''), (''draft_reason'', r)]"
  shows "resolve_hypothesis_outcome_confirm_gate env g Approved resolver tid lids ids now db
    = Inl (hypothesis_error ''OUTCOME_RESULT_REQUIRED'')"
  using assms find_hypothesis_SomeD [OF assms(3)]
  by (simp add: resolve_hypothesis_outcome_confirm_gate_def dget_def in_strings_def DRAFTABLE_TARGETS_def res_bind_def
      transition_hypothesis_def HYPOTHESIS_STATUSES_def valid_hypothesis_transition_def settle_hypothesis_def
      has_valid_outcome_evidence_def json_text_or_def Let_def)

end
