(* ===== verification/Billing_Calendar.thy ===== *)
theory Billing_Calendar
  imports Prelude
begin

text \<open>
  services/billing_period.py on the calendar of Python's datetime: instants are microseconds since
  the epoch, in UTC, a date is its proleptic Gregorian ordinal (\<^verbatim>\<open>date.toordinal()\<close>), and ordinals
  convert to year, month and day and back.  The lemmas at the end bound a billing period.
  Python refuses years above 9999; the model continues the calendar.
\<close>

section \<open>The calendar\<close>

definition day_us :: int where "day_us = 86400000000"

definition date_of :: "timestamp \<Rightarrow> int" where
  \<comment> \<open>\<^verbatim>\<open>t.date()\<close>; 1970-01-01 has the ordinal 719163\<close>
  "date_of t = t div day_us + 719163"

definition time_of :: "timestamp \<Rightarrow> int" where
  "time_of t = t mod day_us"

definition is_leap :: "int \<Rightarrow> bool" where
  "is_leap y \<longleftrightarrow> y mod 4 = 0 \<and> (y mod 100 \<noteq> 0 \<or> y mod 400 = 0)"

definition days_in_month :: "int \<Rightarrow> int \<Rightarrow> int" where
  \<comment> \<open>\<^verbatim>\<open>calendar.monthrange(year, month)[1]\<close>\<close>
  "days_in_month y m =
     (if m = 2 then (if is_leap y then 29 else 28)
      else if m = 4 \<or> m = 6 \<or> m = 9 \<or> m = 11 then 30 else 31)"

definition days_before_year :: "int \<Rightarrow> int" where
  "days_before_year y = (let p = y - 1 in p * 365 + p div 4 - p div 100 + p div 400)"

function days_before_month :: "int \<Rightarrow> int \<Rightarrow> int" where
  "days_before_month y m =
     (if m \<le> 1 then 0 else days_before_month y (m - 1) + days_in_month y (m - 1))"
  by pat_completeness auto
termination by (relation "measure (\<lambda>(y, m). nat m)") auto

declare days_before_month.simps [simp del]

definition ymd2ord :: "int \<Rightarrow> int \<Rightarrow> int \<Rightarrow> int" where
  "ymd2ord y m d = days_before_year y + days_before_month y m + d"

function year_from :: "int \<Rightarrow> int \<Rightarrow> int" where
  "year_from y n = (if days_before_year (y + 1) < n then year_from (y + 1) n else y)"
  by pat_completeness auto

function month_from :: "int \<Rightarrow> int \<Rightarrow> int \<Rightarrow> int \<times> int" where
  "month_from y m r =
     (if 12 \<le> m \<or> r \<le> days_in_month y m then (m, r) else month_from y (m + 1) (r - days_in_month y m))"
  by pat_completeness auto
termination by (relation "measure (\<lambda>(y, m, r). nat (12 - m))") auto

declare month_from.simps [simp del]

lemma div_step: "0 < (k::int) \<Longrightarrow> y div k - (y - 1) div k = (if k dvd y then 1 else 0)"
proof (cases "k dvd y")
  case True
  assume k: "0 < k"
  obtain q where y: "y = k * q" using True by (rule dvdE)
  have "(y - 1) div k = q - 1" by (rule int_div_pos_eq [where r = "k - 1"]) (use k y in \<open>simp_all add: algebra_simps\<close>)
  then show ?thesis using True k y by simp
next
  case False
  assume k: "0 < k"
  have r: "0 < y mod k" "y mod k < k"
    using False k pos_mod_bound [of k y] pos_mod_sign [of k y]
    by (simp_all add: dvd_eq_mod_eq_0 order_less_le)
  have "(y - 1) div k = y div k"
    by (rule int_div_pos_eq [where r = "y mod k - 1"]) (use r in simp_all)
  then show ?thesis using False by simp
qed

lemma leap_sum:
  "a - a' = p \<Longrightarrow> b - b' = q \<Longrightarrow> c - c' = r \<Longrightarrow>
   (y * 365 + a - b + c) - ((y - 1) * 365 + a' - b' + c') = 365 + p - q + (r::int)"
  by simp

lemma days_before_year_Suc:
  "days_before_year (y + 1) = days_before_year y + (if is_leap y then 366 else 365)"
proof -
  have imp: "100 dvd y \<Longrightarrow> 4 dvd y" "400 dvd y \<Longrightarrow> 100 dvd y" by presburger+
  have "days_before_year (y + 1) - days_before_year y
      = 365 + (if 4 dvd y then 1 else 0) - (if 100 dvd y then 1 else 0) + (if 400 dvd y then 1 else 0)"
    unfolding days_before_year_def Let_def add_diff_cancel_right'
    by (rule leap_sum) (rule div_step; simp)+
  moreover have "is_leap y \<longleftrightarrow> 4 dvd y \<and> (\<not> 100 dvd y \<or> 400 dvd y)"
    unfolding is_leap_def dvd_eq_mod_eq_0 ..
  ultimately show ?thesis using imp
    by (cases "4 dvd y"; cases "100 dvd y"; cases "400 dvd y") (simp_all only: if_True if_False, simp_all)
qed

lemma days_before_year_grows: "0 \<le> k \<Longrightarrow> days_before_year y + 365 * k \<le> days_before_year (y + k)"
proof (induction k rule: int_ge_induct)
  case (step k)
  then show ?case using days_before_year_Suc [of "y + k"] by (auto simp: algebra_simps split: if_splits)
qed simp

termination year_from
proof (relation "measure (\<lambda>(y, n). nat (n - days_before_year y))")
  fix y n :: int
  assume "days_before_year (y + 1) < n"
  then show "((y + 1, n), (y, n)) \<in> measure (\<lambda>(y, n). nat (n - days_before_year y))"
    using days_before_year_Suc [of y] by (auto split: if_splits)
qed simp

declare year_from.simps [simp del]

definition year_of :: "int \<Rightarrow> int" where
  \<comment> \<open>the year of an ordinal; the search starts below it\<close>
  "year_of n = year_from ((n - 1) div 366 + 1) n"

definition ord2ymd :: "int \<Rightarrow> int \<times> int \<times> int" where
  "ord2ymd n = (let y = year_of n in (y, month_from y 1 (n - days_before_year y)))"

fun digits :: "nat \<Rightarrow> nat \<Rightarrow> string" where
  "digits 0 n = []"
| "digits (Suc k) n = digits k (n div 10) @ [char_of (48 + n mod 10)]"

definition date_text :: "int \<Rightarrow> string" where
  \<comment> \<open>\<^verbatim>\<open>d.isoformat()\<close>\<close>
  "date_text n = (case ord2ymd n of (y, m, d) \<Rightarrow>
     digits 4 (nat y) @ ''-'' @ digits 2 (nat m) @ ''-'' @ digits 2 (nat d))"

section \<open>Billing periods\<close>

definition add_months :: "timestamp \<Rightarrow> int \<Rightarrow> timestamp" where
  "add_months t months =
     (case ord2ymd (date_of t) of (y, m, d) \<Rightarrow>
        let total_month_index = m - 1 + months;
            year = y + total_month_index div 12;
            month = total_month_index mod 12 + 1;
            day = min d (days_in_month year month)
        in (ymd2ord year month day - 719163) * day_us + time_of t)"

definition compute_period_end :: "timestamp \<Rightarrow> string option \<Rightarrow> error + timestamp" where
  "compute_period_end period_start billing_cycle =
     (if billing_cycle \<noteq> Some ''monthly'' \<and> billing_cycle \<noteq> Some ''annual''
      then Inl (ValueError ''billing_cycle must be 'monthly' or 'annual' '')
      else Inr (add_months period_start (if billing_cycle = Some ''monthly'' then 1 else 12)))"

definition new_subscription_period :: "timestamp \<Rightarrow> string \<Rightarrow> error + timestamp \<times> timestamp" where
  "new_subscription_period now billing_cycle =
     (case compute_period_end now (Some billing_cycle) of
        Inl e \<Rightarrow> Inl e | Inr period_end \<Rightarrow> Inr (now, period_end))"

section \<open>The conversions are inverse\<close>

lemma days_in_month_bounds: "28 \<le> days_in_month y m" "days_in_month y m \<le> 31"
  by (auto simp: days_in_month_def)

lemma days_before_month_1 [simp]: "days_before_month y 1 = 0"
  by (simp add: days_before_month.simps)

lemma days_before_month_Suc:
  "1 \<le> m \<Longrightarrow> days_before_month y (m + 1) = days_before_month y m + days_in_month y m"
  by (subst days_before_month.simps) simp

lemma days_before_months:
  "days_before_month y 13 = (if is_leap y then 366 else 365)"
  by (simp add: days_before_month.simps days_in_month_def)

lemma year_from_spec:
  "days_before_year y < n \<Longrightarrow>
   days_before_year (year_from y n) < n \<and> n \<le> days_before_year (year_from y n + 1)"
proof (induction y n rule: year_from.induct)
  case (1 y n)
  then show ?case by (cases "days_before_year (y + 1) < n") (simp_all add: year_from.simps [of y n])
qed

lemma days_before_year_le: "0 \<le> p \<Longrightarrow> days_before_year (p + 1) \<le> p * 366"
proof -
  assume p: "0 \<le> p"
  have "p div 400 \<le> p div 100" by (rule zdiv_mono2) (use p in simp_all)
  moreover have "p div 4 \<le> p" using zdiv_mono2 [of p 1 4] p by (simp only: div_by_1)
  ultimately have "p * 365 + p div 4 - p div 100 + p div 400 \<le> p * 365 + p - p div 100 + p div 100"
    by (intro add_mono diff_mono) simp_all
  then show ?thesis by (simp add: days_before_year_def Let_def)
qed

lemma year_of_spec:
  assumes "1 \<le> n"
  shows "days_before_year (year_of n) < n" "n \<le> days_before_year (year_of n + 1)"
proof -
  have "0 \<le> (n - 1) div 366" using assms by (simp add: pos_imp_zdiv_nonneg_iff)
  then have "days_before_year ((n - 1) div 366 + 1) \<le> (n - 1) div 366 * 366"
    by (rule days_before_year_le)
  also have "\<dots> \<le> n - 1" using pos_mod_sign [of 366 "n - 1"] div_mult_mod_eq [of "n - 1" 366] by linarith
  also have "\<dots> < n" by simp
  finally show "days_before_year (year_of n) < n" "n \<le> days_before_year (year_of n + 1)"
    using year_from_spec by (auto simp: year_of_def)
qed

lemma month_from_spec:
  assumes "1 \<le> m" "m \<le> 12" "1 \<le> r" "r \<le> days_before_month y 13 - days_before_month y m"
    and "month_from y m r = (m', d)"
  shows "m \<le> m' \<and> m' \<le> 12 \<and> 1 \<le> d \<and> d \<le> days_in_month y m' \<and> days_before_month y m' + d = days_before_month y m + r"
  using assms
proof (induction y m r arbitrary: m' d rule: month_from.induct)
  case (1 y m r)
  show ?case
  proof (cases "12 \<le> m \<or> r \<le> days_in_month y m")
    case True
    with 1 have "m' = m" "d = r" by (simp_all add: month_from.simps [of y m r])
    moreover have "r \<le> days_in_month y m"
      using True 1(2-5) days_before_month_Suc [of m y] by auto
    ultimately show ?thesis using 1 by auto
  next
    case False
    then have "month_from y (m + 1) (r - days_in_month y m) = (m', d)"
      using 1(6) by (simp add: month_from.simps [of y m r])
    then show ?thesis
      using 1(1) [OF False, of m' d] 1(2-5) False days_before_month_Suc [of m y] by auto
  qed
qed

lemma ord2ymd_spec:
  assumes "1 \<le> n" "ord2ymd n = (y, m, d)"
  shows "1 \<le> m \<and> m \<le> 12 \<and> 1 \<le> d \<and> d \<le> days_in_month y m \<and> ymd2ord y m d = n"
proof -
  let ?r = "n - days_before_year (year_of n)"
  have y: "y = year_of n" and md: "month_from y 1 ?r = (m, d)"
    using assms(2) by (auto simp: ord2ymd_def Let_def)
  have "1 \<le> ?r" "?r \<le> days_before_month y 13"
    using year_of_spec [OF assms(1)] days_before_year_Suc [of "year_of n"] days_before_months [of y] y
    by (auto split: if_splits)
  then show ?thesis
    using month_from_spec [of 1 ?r y m d] md by (auto simp: ymd2ord_def y)
qed

text \<open>Adding a month or a year moves the date by the length of that month or year, the end of the
month clamped, and keeps the time of day.\<close>

lemma date_of_split: "t = (date_of t - 719163) * day_us + time_of t"
  by (simp add: date_of_def time_of_def)

lemma date_of_join: "0 \<le> h \<Longrightarrow> h < day_us \<Longrightarrow> date_of ((n - 719163) * day_us + h) = n"
  by (simp add: date_of_def day_us_def)

lemma time_of_bounds: "0 \<le> time_of t" "time_of t < day_us"
  by (simp_all add: time_of_def day_us_def)

lemma next_month_ord:
  assumes "1 \<le> m" "m \<le> 12"
  shows "ymd2ord (y + m div 12) (m mod 12 + 1) d = ymd2ord y m d + days_in_month y m"
proof (cases "m = 12")
  case True
  then show ?thesis
    using days_before_year_Suc [of y] days_before_months [of y] days_before_month_Suc [of 12 y]
    by (auto simp: ymd2ord_def split: if_splits)
next
  case False
  then show ?thesis using assms days_before_month_Suc [of m y] by (simp add: ymd2ord_def)
qed

lemma monthly_shift:
  assumes "1 \<le> date_of t"
  shows "\<exists>k. 28 \<le> k \<and> k \<le> 31 \<and> add_months t 1 = t + k * day_us"
proof -
  obtain y m d where ymd: "ord2ymd (date_of t) = (y, m, d)" by (metis prod_cases3)
  note s = ord2ymd_spec [OF assms ymd]
  define d' where "d' = min d (days_in_month (y + m div 12) (m mod 12 + 1))"
  define k where "k = days_in_month y m + d' - d"
  have "ymd2ord (y + m div 12) (m mod 12 + 1) d' = date_of t + k"
    using next_month_ord [of m y d'] s by (simp add: k_def) (simp add: ymd2ord_def)
  then have "add_months t 1 = (date_of t + k - 719163) * day_us + time_of t"
    by (simp add: add_months_def ymd Let_def d'_def)
  then have "add_months t 1 = t + k * day_us"
    using date_of_split [of t] by (simp add: algebra_simps)
  moreover have "28 \<le> k" "k \<le> 31"
    using s days_in_month_bounds [of y m] days_in_month_bounds [of "y + m div 12" "m mod 12 + 1"]
    by (auto simp: k_def d'_def)
  ultimately show ?thesis by blast
qed

lemma days_before_month_leap:
  assumes "1 \<le> m" "m \<le> 12"
  shows "days_before_month (y + 1) m + (if 2 < m \<and> is_leap y then 1 else 0)
       = days_before_month y m + (if 2 < m \<and> is_leap (y + 1) then 1 else 0)"
proof -
  have "m = 1 \<or> m = 2 \<or> m = 3 \<or> m = 4 \<or> m = 5 \<or> m = 6 \<or> m = 7 \<or> m = 8 \<or> m = 9 \<or> m = 10
      \<or> m = 11 \<or> m = 12" using assms by presburger
  then show ?thesis by (elim disjE) (simp_all add: days_before_month.simps days_in_month_def)
qed

lemma leap_next: "is_leap y \<Longrightarrow> \<not> is_leap (y + 1)"
  unfolding is_leap_def by presburger

lemma annual_shift:
  assumes "1 \<le> date_of t"
  shows "\<exists>k. 365 \<le> k \<and> k \<le> 366 \<and> add_months t 12 = t + k * day_us"
proof -
  obtain y m d where ymd: "ord2ymd (date_of t) = (y, m, d)" by (metis prod_cases3)
  note s = ord2ymd_spec [OF assms ymd]
  have ix: "(11 + m) div 12 = 1" "(11 + m) mod 12 + 1 = m" using s by presburger+
  define d' where "d' = min d (days_in_month (y + 1) m)"
  define k where "k = ymd2ord (y + 1) m d' - ymd2ord y m d"
  have "add_months t 12 = (date_of t + k - 719163) * day_us + time_of t"
    using s ix by (simp add: add_months_def ymd Let_def d'_def k_def)
  then have "add_months t 12 = t + k * day_us"
    using date_of_split [of t] by (simp add: algebra_simps)
  moreover have "365 \<le> k \<and> k \<le> 366"
  proof (cases "m = 2")
    case True
    then show ?thesis
      using s days_before_year_Suc [of y] days_before_month_leap [of m y] leap_next [of y]
      by (cases "is_leap y") (auto simp: k_def d'_def ymd2ord_def days_in_month_def)
  next
    case False
    then have "d' = d" using s by (simp add: d'_def days_in_month_def)
    then show ?thesis
      using s days_before_year_Suc [of y] days_before_month_leap [of m y] leap_next [of y]
      by (cases "is_leap y"; cases "2 < m") (auto simp: k_def ymd2ord_def split: if_splits)
  qed
  ultimately show ?thesis by blast
qed

lemma compute_period_end_shift:
  assumes "compute_period_end t cycle = Inr e" "1 \<le> date_of t"
  shows "t + (if cycle = Some ''annual'' then 365 else 28) * day_us \<le> e"
    and "e \<le> t + (if cycle = Some ''annual'' then 366 else 31) * day_us"
  using assms monthly_shift [of t] annual_shift [of t]
  by (auto simp: compute_period_end_def day_us_def split: if_splits)

lemma add_months_keeps_time: "1 \<le> date_of t \<Longrightarrow> time_of (add_months t 1) = time_of t"
  using monthly_shift [of t] by (auto simp: time_of_def day_us_def)

end
