(* ===== verification/Billing.thy ===== *)
theory Billing
  imports Billing_Calendar Gate_Schema
begin

text \<open>
  The money of the program: the tables of billing (models/billing_order.py, billing_ledger_entry.py,
  org_billing_key.py, org_subscription.py, offering_version.py, grandfather_policy.py), the ledger
  (services/billing_ledger.py), the answers of the payment provider (services/payment/toss_adapter.py)
  and the charge of an organisation (services/billing_charge.py).

  These services commit several times on their way, and what they committed stays when a later
  statement raises.  A result is therefore a pair: the exception or value, and the database as it is
  left.  charge_org is a program of transactions: charge_step is one transaction or one request to
  the provider, and run_charge performs them one after another.  Other processes may act between
  them; Billing_Machine interleaves the same steps.

  Of an offering and of the other rows the records hold the columns that billing reads or writes; the
  usage limits of an offering are not among them.
\<close>

section \<open>Tables\<close>

datatype order_status = OrderPending | OrderConfirmed | OrderFailed | OrderDowngraded

record billing_order =
  bo_id :: uuid
  bo_org :: uuid
  bo_order_id :: string
  bo_amount :: int
  bo_currency :: string
  bo_status :: order_status
  bo_purpose :: string
  bo_payment_key :: "string option"
  bo_failure_reason :: "string option"
  bo_refund_status :: "string option"
  bo_created_at :: timestamp
  bo_updated_at :: timestamp

record ledger_entry =
  le_id :: uuid
  le_org :: uuid
  le_ts :: timestamp
  le_entry_type :: string
  le_amount :: int
  le_currency :: string
  le_direction :: string
  le_provider :: "string option"
  le_provider_ref :: "string option"
  le_subscription :: "uuid option"
  le_metadata :: "jdict option"

record billing_card =
  card_issuer_code :: "string option"
  card_acquirer_code :: "string option"
  card_number_masked :: "string option"
  card_type :: "string option"
  card_owner_type :: "string option"

record billing_key =
  bk_id :: uuid
  bk_org :: uuid
  bk_customer_key :: string
  bk_encrypted :: "string option"
  bk_card :: billing_card
  bk_status :: string
  bk_issued_at :: "timestamp option"
  bk_updated_at :: timestamp

record org_subscription =
  su_id :: uuid
  su_org :: uuid
  su_tier :: string
  su_cycle :: "string option"
  su_status :: string
  su_currency :: "string option"
  su_provider :: "string option"
  su_period_start :: "timestamp option"
  su_period_end :: "timestamp option"
  su_claimed_at :: "timestamp option"
  su_offering :: "uuid option"
  su_pending_tier :: "string option"
  su_pending_offering :: "uuid option"
  su_pending_apply_at :: "timestamp option"

record pack_offer =
  pack_unit :: string
  pack_price :: int
  pack_max :: "int option"

record offering =
  ov_id :: uuid
  ov_tier :: string
  ov_currency :: string
  ov_label :: string
  ov_monthly :: int
  ov_annual :: int
  ov_seats :: int
  ov_extra_seat :: "int option"
  ov_packs :: "(string \<times> pack_offer) list option"
  ov_from :: timestamp
  ov_to :: "timestamp option"
  ov_created_by :: string

record grandfather =
  gf_id :: uuid
  gf_org :: uuid
  gf_offering :: uuid
  gf_from :: timestamp
  gf_to :: "timestamp option"
  gf_created_by :: string

text \<open>A message to the owners and administrators of an organisation: its kind, the tier it names,
and the day or the two seat counts it mentions.\<close>

record bill_mail =
  ml_org :: uuid
  ml_to :: "uuid list"
  ml_kind :: string
  ml_tier :: string
  ml_numbers :: "int list"

record bill_db =
  b_orders :: "billing_order list"
  b_ledger :: "ledger_entry list"
  b_keys :: "billing_key list"
  b_subs :: "org_subscription list"
  b_offerings :: "offering list"
  b_policies :: "grandfather list"
  b_members :: "org_member list"
  b_orgs :: "uuid list"
  b_activities :: "activity list"
  b_mails :: "bill_mail list"
  b_grace_days :: int

type_synonym 'a billed = "(error + 'a) \<times> bill_db"

definition upd_order :: "string \<Rightarrow> (billing_order \<Rightarrow> billing_order) \<Rightarrow> bill_db \<Rightarrow> bill_db" where
  "upd_order i f db = db\<lparr>b_orders := upd_row bo_order_id i f (b_orders db)\<rparr>"

definition get_order :: "string \<Rightarrow> bill_db \<Rightarrow> billing_order option" where
  "get_order i db = find_row bo_order_id i (b_orders db)"

definition upd_sub :: "uuid \<Rightarrow> (org_subscription \<Rightarrow> org_subscription) \<Rightarrow> bill_db \<Rightarrow> bill_db" where
  "upd_sub i f db = db\<lparr>b_subs := upd_row su_org i f (b_subs db)\<rparr>"

definition get_sub :: "uuid \<Rightarrow> bill_db \<Rightarrow> org_subscription option" where
  "get_sub i db = find_row su_org i (b_subs db)"

definition get_offering :: "uuid \<Rightarrow> bill_db \<Rightarrow> offering option" where
  "get_offering i db = find_row ov_id i (b_offerings db)"

definition get_key :: "uuid \<Rightarrow> bill_db \<Rightarrow> billing_key option" where
  "get_key i db = find_row bk_org i (b_keys db)"

definition seats_of :: "uuid \<Rightarrow> bill_db \<Rightarrow> org_member list" where
  "seats_of org db = filter (\<lambda>m. om_org m = org \<and> om_deleted_at m = None) (b_members db)"

definition admins_of :: "uuid \<Rightarrow> bill_db \<Rightarrow> uuid list" where
  "admins_of org db = map om_id (filter (\<lambda>m. om_role m = ''owner'' \<or> om_role m = ''admin'') (seats_of org db))"

section \<open>The ledger\<close>

definition ENTRY_TYPES :: "string list" where
  "ENTRY_TYPES = [''charge'', ''refund'', ''pack_purchase'', ''credit_grant'', ''credit_consume'', ''adjustment'']"

definition DIRECTIONS :: "string list" where
  "DIRECTIONS = [''debit'', ''credit'']"

definition CURRENCIES :: "string list" where
  \<comment> \<open>the CHECK constraint on the currency of orders and ledger entries\<close>
  "CURRENCIES = [''usd'', ''krw'']"

definition find_entry :: "string option \<Rightarrow> bill_db \<Rightarrow> ledger_entry option" where
  "find_entry ref db = (case ref of None \<Rightarrow> None
     | Some r \<Rightarrow> List.find (\<lambda>e. le_provider_ref e = Some r) (b_ledger db))"

text \<open>\<^verbatim>\<open>INSERT ... ON CONFLICT (provider_ref) DO NOTHING\<close>, and the entry that is there afterwards.\<close>

definition book :: "ledger_entry \<Rightarrow> bill_db \<Rightarrow> bill_db" where
  "book e db = (if find_entry (le_provider_ref e) db \<noteq> None then db
     else db\<lparr>b_ledger := b_ledger db @ [e]\<rparr>)"

definition record_ledger_entry :: "ledger_entry \<Rightarrow> bill_db \<Rightarrow> ledger_entry billed" where
  "record_ledger_entry e db =
     (if le_entry_type e \<notin> set ENTRY_TYPES then (Inl (ValueError ''invalid entry_type''), db)
      else if le_direction e \<notin> set DIRECTIONS then (Inl (ValueError ''invalid direction''), db)
      else if le_amount e \<le> 0 then (Inl (ValueError ''amount_minor must be positive''), db)
      else if le_currency e \<notin> set CURRENCIES then (Inl IntegrityError, db)
      else (case find_entry (le_provider_ref e) db of
              Some old \<Rightarrow> (Inr old, db)
            | None \<Rightarrow> (Inr e, book e db)))"

definition signed_amount :: "ledger_entry \<Rightarrow> int" where
  "signed_amount e = (if le_direction e = ''credit'' then le_amount e else - le_amount e)"

definition get_org_balance :: "uuid \<Rightarrow> string \<Rightarrow> bill_db \<Rightarrow> int" where
  "get_org_balance org currency db =
     sum_list (map signed_amount (filter (\<lambda>e. le_org e = org \<and> le_currency e = currency) (b_ledger db)))"

section \<open>The payment provider\<close>

text \<open>
  What a request to the provider ends with: the JSON body of a success, an error of the provider
  with its code (\<^verbatim>\<open>TossApiError\<close>), or no answer (a \<^verbatim>\<open>RuntimeError\<close>: the network, or no secret key).
  The answers are a parameter, as are the keys with which the provider's billing keys are encrypted.
\<close>

datatype toss_answer = Body jdict | ApiError string | Unreachable

record toss =
  key_configured :: bool
  decrypt_key :: "string \<Rightarrow> string option"
  encrypt_key :: "string \<Rightarrow> string"
  toss_charge :: "string \<Rightarrow> string \<Rightarrow> string \<Rightarrow> int \<Rightarrow> toss_answer"
  toss_lookup :: "string \<Rightarrow> toss_answer"
  toss_refund :: "string \<Rightarrow> int option \<Rightarrow> string \<Rightarrow> toss_answer"
  toss_issue_key :: "string \<Rightarrow> string \<Rightarrow> toss_answer"
  toss_delete_key :: "string \<Rightarrow> toss_answer"

definition DUPLICATED_ORDER_ID :: string where
  "DUPLICATED_ORDER_ID = ''DUPLICATED_ORDER_ID''"

definition toss_error :: "toss_answer \<Rightarrow> string \<Rightarrow> error" where
  \<comment> \<open>the exception of \<^verbatim>\<open>_post\<close>, \<^verbatim>\<open>_get\<close> and \<^verbatim>\<open>_delete\<close>\<close>
  "toss_error a label = (case a of
       ApiError code \<Rightarrow> ServiceError ''TossApiError'' code
     | _ \<Rightarrow> ServiceError ''RuntimeError'' ''Cannot reach Toss API'')"

definition toss_text :: "toss_answer \<Rightarrow> string \<Rightarrow> string" where
  \<comment> \<open>\<^verbatim>\<open>str(exc)\<close>\<close>
  "toss_text a label = (case a of
       ApiError code \<Rightarrow> code @ '': Toss '' @ label @ '' failed''
     | _ \<Rightarrow> ''Cannot reach Toss API'')"

definition text_field :: "string \<Rightarrow> jdict \<Rightarrow> string option" where
  \<comment> \<open>\<^verbatim>\<open>body.get(k)\<close> where the value is a text and an empty one counts as missing\<close>
  "text_field k b = (case map_of b k of Some (JStr s) \<Rightarrow> if s = [] then None else Some s | _ \<Rightarrow> None)"

definition verify_webhook :: "(string \<Rightarrow> string \<Rightarrow> string) \<Rightarrow> string \<Rightarrow> string \<Rightarrow> string option \<Rightarrow> bool" where
  "verify_webhook hmac_hex secret raw_body signature =
     (if secret = [] then True
      else (case signature of None \<Rightarrow> False
            | Some s \<Rightarrow> s \<noteq> [] \<and> hmac_hex secret raw_body = s))"

section \<open>Charging an organisation\<close>

record charge_call =
  cc_new_id :: uuid
  cc_org :: uuid
  cc_order_id :: string
  cc_amount :: int
  cc_currency :: string
  cc_entry_type :: string
  cc_metadata :: "jdict option"

subsection \<open>The transactions\<close>

definition new_order :: "charge_call \<Rightarrow> timestamp \<Rightarrow> billing_order" where
  "new_order c now = \<lparr>bo_id = cc_new_id c, bo_org = cc_org c, bo_order_id = cc_order_id c,
     bo_amount = cc_amount c, bo_currency = cc_currency c, bo_status = OrderPending,
     bo_purpose = cc_entry_type c, bo_payment_key = None, bo_failure_reason = None,
     bo_refund_status = None, bo_created_at = now, bo_updated_at = now\<rparr>"

definition claim_order :: "charge_call \<Rightarrow> timestamp \<Rightarrow> bill_db \<Rightarrow> bool billed" where
  \<comment> \<open>\<^verbatim>\<open>INSERT ... ON CONFLICT (order_id) DO NOTHING\<close>; the value is \<^verbatim>\<open>rowcount == 1\<close>\<close>
  "claim_order c now db =
     (if cc_currency c \<notin> set CURRENCIES \<or> cc_entry_type c \<notin> {''charge'', ''pack_purchase''}
      then (Inl IntegrityError, db)
      else if get_order (cc_order_id c) db \<noteq> None then (Inr False, db)
      else (Inr True, db\<lparr>b_orders := b_orders db @ [new_order c now]\<rparr>))"

definition reclaim_order :: "string \<Rightarrow> timestamp \<Rightarrow> bill_db \<Rightarrow> bool \<times> bill_db" where
  \<comment> \<open>the compare-and-set from failed to pending\<close>
  "reclaim_order i now db = (case get_order i db of
       None \<Rightarrow> (False, db)
     | Some x \<Rightarrow> if bo_status x = OrderFailed
         then (True, upd_order i (\<lambda>x. x\<lparr>bo_status := OrderPending, bo_updated_at := now\<rparr>) db)
         else (False, db))"

definition mark_failed_if_not_confirmed :: "string \<Rightarrow> string \<Rightarrow> timestamp \<Rightarrow> bill_db \<Rightarrow> bill_db" where
  "mark_failed_if_not_confirmed i reason now db =
     upd_order i (\<lambda>x. if bo_status x = OrderConfirmed then x
       else x\<lparr>bo_status := OrderFailed, bo_failure_reason := Some (take 500 reason), bo_updated_at := now\<rparr>) db"

definition confirm_order :: "string \<Rightarrow> string \<Rightarrow> timestamp \<Rightarrow> bill_db \<Rightarrow> bill_db" where
  "confirm_order i key now db =
     upd_order i (\<lambda>x. if bo_status x = OrderConfirmed then x
       else x\<lparr>bo_status := OrderConfirmed, bo_payment_key := Some key, bo_updated_at := now\<rparr>) db"

definition charge_entry :: "charge_call \<Rightarrow> string \<Rightarrow> timestamp \<Rightarrow> ledger_entry" where
  \<comment> \<open>the entry \<^verbatim>\<open>_confirm_with_ledger\<close> books; its identifier is derived from the payment key\<close>
  "charge_entry c key now = \<lparr>le_id = ''ledger-'' @ key, le_org = cc_org c, le_ts = now,
     le_entry_type = cc_entry_type c, le_amount = cc_amount c, le_currency = cc_currency c,
     le_direction = ''credit'', le_provider = Some ''toss'', le_provider_ref = Some key,
     le_subscription = None, le_metadata = cc_metadata c\<rparr>"

definition active_key :: "uuid \<Rightarrow> bill_db \<Rightarrow> billing_key option" where
  "active_key org db = List.find (\<lambda>k. bk_org k = org \<and> bk_status k = ''active'') (b_keys db)"

subsection \<open>The program\<close>

text \<open>
  Where a charge stands: what its next transaction or request is.  \<^verbatim>\<open>Stale\<close> and \<^verbatim>\<open>Stale_looked\<close> are
  the reconciliation of one order that stayed pending (sweep_stale_pending_orders), which ends in the
  same transactions.
\<close>

datatype charge_pc =
    Claim | Contested | Reclaim | Key_check | Send string string | Answered toss_answer
  | Lookup | Looked toss_answer | Book string | Confirm string | Refetch
  | Stale | Stale_looked toss_answer
  | Returned billing_order | Raised error

definition refetch :: "charge_call \<Rightarrow> bill_db \<Rightarrow> charge_pc" where
  "refetch c db = (case get_order (cc_order_id c) db of
     Some x \<Rightarrow> Returned x | None \<Rightarrow> Raised (ServiceError ''NoResultFound'' []))"

definition key_check :: "toss \<Rightarrow> charge_call \<Rightarrow> timestamp \<Rightarrow> bill_db \<Rightarrow> charge_pc \<times> bill_db" where
  "key_check env c now db =
     (if \<not> key_configured env then (Raised (ServiceError ''BillingKeyEncryptionNotConfigured'' []), db)
      else (case active_key (cc_org c) db of
          None \<Rightarrow> (Raised (ServiceError ''RuntimeError'' (''no active billing key for org '' @ cc_org c)),
                   mark_failed_if_not_confirmed (cc_order_id c) (''no active billing key for org '' @ cc_org c) now db)
        | Some k \<Rightarrow> (case Option.bind (bk_encrypted k) (decrypt_key env) of
              None \<Rightarrow> (Raised (ServiceError ''InvalidToken'' []), db)
            | Some plain \<Rightarrow> (Send plain (bk_customer_key k), db))))"

definition answered :: "charge_call \<Rightarrow> timestamp \<Rightarrow> toss_answer \<Rightarrow> bill_db \<Rightarrow> charge_pc \<times> bill_db" where
  "answered c now a db = (case a of
       Body b \<Rightarrow> (case text_field ''paymentKey'' b of
           Some key \<Rightarrow> (Book key, db)
         | None \<Rightarrow> (Raised (ServiceError ''RuntimeError'' ''Toss charge response missing paymentKey''),
                    mark_failed_if_not_confirmed (cc_order_id c) ''Toss charge response missing paymentKey'' now db))
     | _ \<Rightarrow> if a = ApiError DUPLICATED_ORDER_ID then (Lookup, db)
            else (Raised (toss_error a ''charge''),
                  mark_failed_if_not_confirmed (cc_order_id c) (toss_text a ''charge'') now db))"

definition lookup_failure :: "string \<Rightarrow> jdict \<Rightarrow> string" where
  "lookup_failure prefix b = prefix @ '' lookup status='' @ (case text_field ''status'' b of None \<Rightarrow> ''None'' | Some s \<Rightarrow> s)"

definition looked :: "charge_call \<Rightarrow> timestamp \<Rightarrow> toss_answer \<Rightarrow> bill_db \<Rightarrow> charge_pc \<times> bill_db" where
  \<comment> \<open>\<^verbatim>\<open>_reconcile_duplicated_order\<close>: an exception of the request is not caught\<close>
  "looked c now a db = (case a of
       Body b \<Rightarrow>
         (if text_field ''status'' b \<noteq> Some ''DONE''
          then (Refetch, mark_failed_if_not_confirmed (cc_order_id c) (lookup_failure ''duplicated order'' b) now db)
          else (case text_field ''paymentKey'' b of
              None \<Rightarrow> (Refetch, mark_failed_if_not_confirmed (cc_order_id c) ''duplicated order lookup missing paymentKey'' now db)
            | Some key \<Rightarrow> (Book key, db)))
     | _ \<Rightarrow> (Raised (toss_error a ''payment lookup''), db))"

definition stale_looked :: "charge_call \<Rightarrow> timestamp \<Rightarrow> toss_answer \<Rightarrow> bill_db \<Rightarrow> charge_pc \<times> bill_db" where
  "stale_looked c now a db = (case a of
       Body b \<Rightarrow> (case text_field ''paymentKey'' b of
           Some key \<Rightarrow> if text_field ''status'' b = Some ''DONE'' then (Book key, db)
             else (Refetch, mark_failed_if_not_confirmed (cc_order_id c) (lookup_failure ''stale pending --'' b) now db)
         | None \<Rightarrow> (Refetch, mark_failed_if_not_confirmed (cc_order_id c) (lookup_failure ''stale pending --'' b) now db))
     | _ \<Rightarrow> (Raised (toss_error a ''payment lookup''), db))"

fun charge_step :: "toss \<Rightarrow> charge_call \<Rightarrow> timestamp \<Rightarrow> charge_pc \<Rightarrow> bill_db \<Rightarrow> charge_pc \<times> bill_db" where
  "charge_step env c now Claim db =
     (if cc_amount c \<le> 0 then (Raised (ValueError ''amount_minor must be positive''), db)
      else (case claim_order c now db of
          (Inl e, db1) \<Rightarrow> (Raised e, db1)
        | (Inr owns, db1) \<Rightarrow> (if owns then Key_check else Contested, db1)))"
| "charge_step env c now Contested db =
     (case get_order (cc_order_id c) db of
        None \<Rightarrow> (Raised (ServiceError ''NoResultFound'' []), db)
      | Some x \<Rightarrow> (if bo_status x = OrderConfirmed \<or> bo_status x = OrderPending then Returned x else Reclaim, db))"
| "charge_step env c now Reclaim db =
     (case reclaim_order (cc_order_id c) now db of
        (owns, db1) \<Rightarrow> (if owns then Key_check else Refetch, db1))"
| "charge_step env c now Key_check db = key_check env c now db"
| "charge_step env c now (Send plain customer) db =
     (Answered (toss_charge env plain customer (cc_order_id c) (cc_amount c)), db)"
| "charge_step env c now (Answered a) db = answered c now a db"
| "charge_step env c now Lookup db = (Looked (toss_lookup env (cc_order_id c)), db)"
| "charge_step env c now (Looked a) db = looked c now a db"
| "charge_step env c now (Book key) db =
     (case record_ledger_entry (charge_entry c key now) db of
        (Inl e, db1) \<Rightarrow> (Raised e, db1)
      | (Inr entry, db1) \<Rightarrow> (Confirm key, db1))"
| "charge_step env c now (Confirm key) db = (Refetch, confirm_order (cc_order_id c) key now db)"
| "charge_step env c now Refetch db = (refetch c db, db)"
| "charge_step env c now Stale db = (Stale_looked (toss_lookup env (cc_order_id c)), db)"
| "charge_step env c now (Stale_looked a) db = stale_looked c now a db"
| "charge_step env c now (Returned x) db = (Returned x, db)"
| "charge_step env c now (Raised e) db = (Raised e, db)"

text \<open>Every step comes closer to the end, so the program ends.\<close>

fun steps_left :: "charge_pc \<Rightarrow> nat" where
  "steps_left Claim = 11"
| "steps_left Contested = 10"
| "steps_left Reclaim = 9"
| "steps_left Key_check = 8"
| "steps_left (Send _ _) = 7"
| "steps_left (Answered _) = 6"
| "steps_left Lookup = 5"
| "steps_left (Looked _) = 4"
| "steps_left Stale = 5"
| "steps_left (Stale_looked _) = 4"
| "steps_left (Book _) = 3"
| "steps_left (Confirm _) = 2"
| "steps_left Refetch = 1"
| "steps_left (Returned _) = 0"
| "steps_left (Raised _) = 0"

lemma charge_step_descends:
  "0 < steps_left pc \<Longrightarrow> steps_left (fst (charge_step env c now pc db)) < steps_left pc"
  by (cases pc)
    (auto simp: key_check_def answered_def looked_def stale_looked_def refetch_def
      split: option.splits prod.splits sum.splits toss_answer.splits if_splits)

function run_charge :: "toss \<Rightarrow> charge_call \<Rightarrow> timestamp \<Rightarrow> charge_pc \<Rightarrow> bill_db \<Rightarrow> charge_pc \<times> bill_db" where
  "run_charge env c now pc db =
     (if steps_left pc = 0 then (pc, db)
      else run_charge env c now (fst (charge_step env c now pc db)) (snd (charge_step env c now pc db)))"
  by pat_completeness auto
termination
  by (relation "measure (\<lambda>(env, c, now, pc, db). steps_left pc)") (auto simp: charge_step_descends case_prod_unfold)

declare run_charge.simps [simp del]

definition outcome_of :: "charge_pc \<Rightarrow> error + billing_order" where
  "outcome_of pc = (case pc of Returned x \<Rightarrow> Inr x | Raised e \<Rightarrow> Inl e
     | _ \<Rightarrow> Inl (ServiceError ''unfinished'' []))"

definition charge_org :: "toss \<Rightarrow> charge_call \<Rightarrow> timestamp \<Rightarrow> bill_db \<Rightarrow> billing_order billed" where
  "charge_org env c now db = (case run_charge env c now Claim db of (pc, db1) \<Rightarrow> (outcome_of pc, db1))"

lemma run_charge_ended: "steps_left pc = 0 \<Longrightarrow> run_charge env c now pc db = (pc, db)"
  by (simp add: run_charge.simps)

lemma run_charge_step:
  "0 < steps_left pc \<Longrightarrow> charge_step env c now pc db = (pc', db') \<Longrightarrow>
   run_charge env c now pc db = run_charge env c now pc' db'"
  by (subst run_charge.simps) simp

lemma run_charge_ends: "steps_left (fst (run_charge env c now pc db)) = 0"
proof (induction env c now pc db rule: run_charge.induct)
  case (1 env c now pc db)
  then show ?case by (cases "steps_left pc = 0") (simp_all add: run_charge.simps [of env c now pc db])
qed

lemma ended_cases: "steps_left pc = 0 \<Longrightarrow> (\<exists>x. pc = Returned x) \<or> (\<exists>e. pc = Raised e)"
  by (cases pc) simp_all

text \<open>What every step keeps, every charge keeps.\<close>

lemma run_charge_keeps:
  assumes "P pc db" and "\<And>pc db. P pc db \<Longrightarrow> 0 < steps_left pc \<Longrightarrow>
      P (fst (charge_step env c now pc db)) (snd (charge_step env c now pc db))"
  shows "P (fst (run_charge env c now pc db)) (snd (run_charge env c now pc db))"
  using assms(1)
proof (induction "steps_left pc" arbitrary: pc db rule: less_induct)
  case less
  show ?case
  proof (cases "steps_left pc = 0")
    case True
    then show ?thesis using less.prems by (simp add: run_charge_ended)
  next
    case False
    then show ?thesis
      using less.hyps [OF charge_step_descends assms(2)] less.prems
      by (simp add: run_charge.simps [of env c now pc db])
  qed
qed

end
