(* ===== verification/Billing_Accounts.thy ===== *)
theory Billing_Accounts
  imports Billing
begin

text \<open>
  What a charge is computed from and what it needs: the amount of a period
  (services/billing_charge_amount.py), the billing key of an organisation
  (services/org_billing_key.py and the BILLING_DELETED webhook of routers/toss_webhooks.py) and the
  refund of a payment (services/billing_refund.py).
\<close>

section \<open>Amounts\<close>

definition charge_amount_error :: error where
  "charge_amount_error = ServiceError ''ChargeAmountError'' []"

definition count_human_seats :: "uuid \<Rightarrow> bill_db \<Rightarrow> int" where
  "count_human_seats org db = int (length (seats_of org db))"

definition compute_pack_charge_minor :: "uuid \<Rightarrow> uuid \<Rightarrow> timestamp option \<Rightarrow> timestamp option \<Rightarrow> bill_db \<Rightarrow> int" where
  "compute_pack_charge_minor org sub period_start period_end db =
     (case (period_start, period_end) of
        (Some a, Some b) \<Rightarrow> sum_list (map le_amount (filter (\<lambda>e. le_org e = org \<and> le_subscription e = Some sub
            \<and> le_entry_type e = ''pack_purchase'' \<and> a \<le> le_ts e \<and> le_ts e < b) (b_ledger db)))
      | _ \<Rightarrow> 0)"

definition seat_amount :: "int \<Rightarrow> offering \<Rightarrow> int option" where
  "seat_amount seats ov =
     (if seats \<le> ov_seats ov then Some 0
      else map_option (\<lambda>price. (seats - ov_seats ov) * price) (ov_extra_seat ov))"

definition compute_amount_for_offering :: "uuid \<Rightarrow> org_subscription \<Rightarrow> offering \<Rightarrow> bill_db \<Rightarrow> error + int \<times> string" where
  "compute_amount_for_offering org sub ov db =
     (if su_cycle sub \<noteq> Some ''monthly'' \<and> su_cycle sub \<noteq> Some ''annual'' then Inl charge_amount_error
      else (case seat_amount (count_human_seats org db) ov of
          None \<Rightarrow> Inl charge_amount_error
        | Some seat \<Rightarrow>
            if Some (ov_currency ov) \<noteq> su_currency sub then Inl charge_amount_error
            else Inr ((if su_cycle sub = Some ''annual'' then ov_annual ov else ov_monthly ov) + seat
                        + compute_pack_charge_minor org (su_id sub) (su_period_start sub) (su_period_end sub) db,
                      ov_currency ov)))"

text \<open>\<^verbatim>\<open>compute_charge_amount\<close> after \<^verbatim>\<open>_load_sub\<close> has read the row, and with the row as it is now.\<close>

definition charge_amount_of_sub :: "org_subscription \<Rightarrow> bill_db \<Rightarrow> error + int \<times> string" where
  "charge_amount_of_sub sub db =
     (case Option.bind (su_offering sub) (\<lambda>i. get_offering i db) of
        None \<Rightarrow> Inl charge_amount_error
      | Some ov \<Rightarrow> compute_amount_for_offering (su_org sub) sub ov db)"

definition compute_charge_amount :: "uuid \<Rightarrow> bill_db \<Rightarrow> error + int \<times> string" where
  "compute_charge_amount org db = (case get_sub org db of
     None \<Rightarrow> Inl charge_amount_error | Some sub \<Rightarrow> charge_amount_of_sub sub db)"

definition compute_full_charge_for_new_offering :: "uuid \<Rightarrow> offering \<Rightarrow> bill_db \<Rightarrow> error + int \<times> string" where
  "compute_full_charge_for_new_offering org ov db = (case get_sub org db of
     None \<Rightarrow> Inl charge_amount_error | Some sub \<Rightarrow> compute_amount_for_offering org sub ov db)"

definition prorate_minor :: "int \<Rightarrow> timestamp \<Rightarrow> timestamp \<Rightarrow> timestamp \<Rightarrow> error + int" where
  "prorate_minor price now period_start period_end =
     (let total = period_end - period_start; remaining = period_end - now in
      if total \<le> 0 \<or> remaining \<le> 0 then Inl charge_amount_error
      else Inr (price * min remaining total div total))"

section \<open>The billing key of an organisation\<close>

definition awaiting_key :: "uuid \<Rightarrow> uuid \<Rightarrow> string \<Rightarrow> timestamp \<Rightarrow> billing_key" where
  "awaiting_key i org customer now = \<lparr>bk_id = i, bk_org = org, bk_customer_key = customer,
     bk_encrypted = None, bk_card = \<lparr>card_issuer_code = None, card_acquirer_code = None,
       card_number_masked = None, card_type = None, card_owner_type = None\<rparr>,
     bk_status = ''awaiting_auth'', bk_issued_at = None, bk_updated_at = now\<rparr>"

definition ensure_customer_key :: "uuid \<Rightarrow> string \<Rightarrow> uuid \<Rightarrow> timestamp \<Rightarrow> bill_db \<Rightarrow> string \<times> bill_db" where
  \<comment> \<open>the random parts of the new row are parameters\<close>
  "ensure_customer_key i customer org now db =
     (case get_key org db of
        Some k \<Rightarrow> (bk_customer_key k, db)
      | None \<Rightarrow> (customer, db\<lparr>b_keys := b_keys db @ [awaiting_key i org customer now]\<rparr>))"

definition card_of :: "jdict \<Rightarrow> billing_card" where
  "card_of b = (let c = (case map_of b ''card'' of Some (JObj d) \<Rightarrow> d | _ \<Rightarrow> []);
       f = (\<lambda>k. case map_of c k of Some (JStr s) \<Rightarrow> Some s | _ \<Rightarrow> None)
     in \<lparr>card_issuer_code = f ''issuerCode'', card_acquirer_code = f ''acquirerCode'',
         card_number_masked = f ''number'', card_type = f ''cardType'', card_owner_type = f ''ownerType''\<rparr>)"

definition no_card :: billing_card where
  "no_card = \<lparr>card_issuer_code = None, card_acquirer_code = None, card_number_masked = None,
     card_type = None, card_owner_type = None\<rparr>"

definition upd_key :: "uuid \<Rightarrow> (billing_key \<Rightarrow> billing_key) \<Rightarrow> bill_db \<Rightarrow> bill_db" where
  "upd_key org f db = db\<lparr>b_keys := upd_row bk_org org f (b_keys db)\<rparr>"

text \<open>
  The old key is deleted at the provider after the new one is stored; whatever that request answers,
  the function goes on, so it leaves no trace in the result.
\<close>

definition issue_billing_key :: "toss \<Rightarrow> uuid \<Rightarrow> string \<Rightarrow> uuid \<Rightarrow> string \<Rightarrow> timestamp \<Rightarrow> bill_db \<Rightarrow> unit billed" where
  "issue_billing_key env i customer org auth_key now db =
     (if \<not> key_configured env then (Inl (ServiceError ''BillingKeyEncryptionNotConfigured'' []), db)
      else (case ensure_customer_key i customer org now db of (customer_key, db1) \<Rightarrow>
        (case toss_issue_key env auth_key customer_key of
           Body b \<Rightarrow> (case map_of b ''billingKey'' of
               Some (JStr plain) \<Rightarrow>
                 (Inr (), upd_key org (\<lambda>k. k\<lparr>bk_encrypted := Some (encrypt_key env plain), bk_card := card_of b,
                     bk_status := ''active'',
                     bk_issued_at := Some (case map_of b ''authenticatedAt'' of Some (JInt t) \<Rightarrow> t | _ \<Rightarrow> now),
                     bk_updated_at := now\<rparr>) db1)
             | _ \<Rightarrow> (Inl (ServiceError ''KeyError'' ''billingKey''), db1))
         | a \<Rightarrow> (Inl (toss_error a ''billing key issuance''), db1))))"

definition PAID_TIERS :: "string list" where
  "PAID_TIERS = [''starter'', ''team'', ''business'']"

definition active_paid :: "org_subscription \<Rightarrow> bool" where
  "active_paid s \<longleftrightarrow> su_status s = ''active'' \<and> su_tier s \<in> set PAID_TIERS"

datatype revoke_result = No_active_key | Revoked bool "string option"

definition revoke_activity :: "billing_key \<Rightarrow> bool \<Rightarrow> bool \<Rightarrow> uuid option \<Rightarrow> string \<Rightarrow> activity" where
  "revoke_activity k revoked force actor actor_type = \<lparr>ac_org = bk_org k, ac_action = ''billing_key_revoked'',
     ac_actor_id = actor, ac_actor_type = actor_type, ac_entity_type = ''org_billing_key'',
     ac_entity_id = bk_id k,
     ac_context = [(''toss_revoked'', JBool revoked),
                   (''card_number_masked'', jopt_str (card_number_masked (bk_card k))), (''force'', JBool force)]\<rparr>"

text \<open>The provider first, the row only when the provider has dropped the key; a wrong kind of actor
raises before the commit, so the row stays.\<close>

definition revoke_billing_key :: "toss \<Rightarrow> uuid \<Rightarrow> uuid option \<Rightarrow> string \<Rightarrow> bool \<Rightarrow> timestamp \<Rightarrow> bill_db \<Rightarrow> revoke_result billed" where
  "revoke_billing_key env org actor actor_type force now db =
     (case get_key org db of
        None \<Rightarrow> (Inr No_active_key, db)
      | Some k \<Rightarrow>
          if bk_status k = ''deleted'' then (Inr No_active_key, db)
          else if \<not> force \<and> (case get_sub org db of None \<Rightarrow> False | Some s \<Rightarrow> active_paid s)
          then (Inl (ServiceError ''ActiveSubscriptionBlocksRevoke'' org), db)
          else
            (let failure = (case bk_encrypted k of
                    None \<Rightarrow> None
                  | Some [] \<Rightarrow> None
                  | Some t \<Rightarrow> (case decrypt_key env t of
                        None \<Rightarrow> Some (ServiceError ''InvalidToken'' [])
                      | Some plain \<Rightarrow> (case toss_delete_key env plain of
                            Body b \<Rightarrow> None
                          | a \<Rightarrow> Some (toss_error a ''billing key deletion''))));
                 revoked = (bk_encrypted k \<noteq> None \<and> bk_encrypted k \<noteq> Some [])
             in case failure of
                  Some e \<Rightarrow> (Inl e, db)
                | None \<Rightarrow>
                    if actor_type \<notin> {''agent'', ''human'', ''platform''} then (Inl (ValueError ''actor_type''), db)
                    else (Inr (Revoked revoked (card_number_masked (bk_card k))),
                          (upd_key org (\<lambda>k. k\<lparr>bk_status := ''deleted'', bk_encrypted := None, bk_card := no_card,
                                          bk_updated_at := now\<rparr>) db)
                            \<lparr>b_activities := b_activities db @ [revoke_activity k revoked force actor actor_type]\<rparr>)))"

definition mark_billing_key_deleted :: "string \<Rightarrow> timestamp \<Rightarrow> bill_db \<Rightarrow> bill_db" where
  "mark_billing_key_deleted customer now db =
     db\<lparr>b_keys := map (\<lambda>k. if bk_customer_key k = customer
                           then k\<lparr>bk_status := ''deleted'', bk_updated_at := now\<rparr> else k) (b_keys db)\<rparr>"

text \<open>The webhook: a wrong signature is refused, and so is a body that is no JSON (\<^verbatim>\<open>None\<close>); only
\<^verbatim>\<open>BILLING_DELETED\<close> with a customer key changes a row.  A payload or data without \<^verbatim>\<open>get\<close> raises.\<close>

definition toss_webhook :: "bool \<Rightarrow> json option \<Rightarrow> timestamp \<Rightarrow> bill_db \<Rightarrow> unit billed" where
  "toss_webhook signed payload now db =
     (if \<not> signed then (Inl (HTTPError 401 ''Invalid webhook signature'' None), db)
      else (case payload of
          None \<Rightarrow> (Inl (HTTPError 400 ''Invalid JSON payload'' None), db)
        | Some (JObj p) \<Rightarrow>
            if map_of p ''eventType'' \<noteq> Some (JStr ''BILLING_DELETED'') then (Inr (), db)
            else (case map_of p ''data'' of
                Some (JObj d) \<Rightarrow> (case text_field ''customerKey'' d of
                    None \<Rightarrow> (Inr (), db)
                  | Some customer \<Rightarrow> (Inr (), mark_billing_key_deleted customer now db))
              | None \<Rightarrow> (Inr (), db)
              | Some v \<Rightarrow> if truthy v then (Inl (ServiceError ''AttributeError'' ''get''), db) else (Inr (), db))
        | Some _ \<Rightarrow> (Inl (ServiceError ''AttributeError'' ''get''), db)))"

section \<open>Refunds\<close>

definition refund_entry :: "billing_order \<Rightarrow> string \<Rightarrow> int \<Rightarrow> string \<Rightarrow> timestamp \<Rightarrow> ledger_entry" where
  "refund_entry x key amount reason now = \<lparr>le_id = ''ledger-'' @ key, le_org = bo_org x, le_ts = now,
     le_entry_type = ''refund'', le_amount = amount, le_currency = bo_currency x, le_direction = ''debit'',
     le_provider = Some ''toss'', le_provider_ref = Some key, le_subscription = None,
     le_metadata = Some [(''order_id'', JStr (bo_order_id x)), (''cancel_reason'', JStr reason)]\<rparr>"

definition refund_error :: error where
  "refund_error = ServiceError ''RefundError'' []"

definition last_cancel :: "jdict \<Rightarrow> (string \<times> int) option" where
  \<comment> \<open>transaction key and amount of the last of \<^verbatim>\<open>cancels\<close>\<close>
  "last_cancel b = (case json_list (map_of b ''cancels'') of
       [] \<Rightarrow> None
     | cs \<Rightarrow> (case last cs of
           JObj d \<Rightarrow> (case (text_field ''transactionKey'' d, map_of d ''cancelAmount'') of
               (Some key, Some (JInt amount)) \<Rightarrow> Some (key, amount) | _ \<Rightarrow> None)
         | _ \<Rightarrow> None))"

definition refund_org :: "toss \<Rightarrow> uuid \<Rightarrow> string \<Rightarrow> string \<Rightarrow> int option \<Rightarrow> timestamp \<Rightarrow> bill_db \<Rightarrow> ledger_entry billed" where
  "refund_org env org order_id reason amount now db =
     (case get_order order_id db of
        None \<Rightarrow> (Inl refund_error, db)
      | Some x \<Rightarrow>
          if bo_org x \<noteq> org then (Inl refund_error, db)
          else if bo_status x \<noteq> OrderConfirmed \<or> bo_payment_key x = None \<or> bo_payment_key x = Some []
          then (Inl refund_error, db)
          else if (case amount of None \<Rightarrow> False | Some a \<Rightarrow> bo_amount x < a) then (Inl refund_error, db)
          else (case toss_refund env (the (bo_payment_key x)) amount (''refund:'' @ order_id) of
              Body b \<Rightarrow> (case last_cancel b of
                  None \<Rightarrow> (Inl refund_error, db)
                | Some (key, refunded) \<Rightarrow> record_ledger_entry (refund_entry x key refunded reason now) db)
            | a \<Rightarrow> (Inl (toss_error a ''refund''), db)))"

section \<open>Amounts are within their bounds\<close>

lemma prorate_minor_ok:
  assumes "prorate_minor price now a b = Inr r" "0 \<le> price"
  shows "0 \<le> r" "r \<le> price"
proof -
  have t: "0 < b - a" "0 < b - now" and r: "r = price * min (b - now) (b - a) div (b - a)"
    using assms(1) by (auto simp: prorate_minor_def Let_def split: if_splits)
  show "0 \<le> r" using t assms(2) unfolding r by (intro pos_imp_zdiv_nonneg_iff [THEN iffD2] mult_nonneg_nonneg) auto
  have "price * min (b - now) (b - a) \<le> price * (b - a)" by (rule mult_left_mono) (use assms(2) in auto)
  then have "price * min (b - now) (b - a) div (b - a) \<le> price * (b - a) div (b - a)"
    by (rule zdiv_mono1 [OF _ t(1)])
  then show "r \<le> price" using t unfolding r by simp
qed

lemma prorate_minor_antimono:
  assumes "prorate_minor price now a b = Inr r" "prorate_minor price now' a b = Inr r'" "now \<le> now'" "0 \<le> price"
  shows "r' \<le> r"
proof -
  have t: "0 < b - a" and r: "r = price * min (b - now) (b - a) div (b - a)"
    and r': "r' = price * min (b - now') (b - a) div (b - a)"
    using assms(1,2) by (auto simp: prorate_minor_def Let_def split: if_splits)
  have "price * min (b - now') (b - a) \<le> price * min (b - now) (b - a)"
    by (rule mult_left_mono) (use assms(3,4) in auto)
  then show ?thesis unfolding r r' by (rule zdiv_mono1 [OF _ t])
qed

text \<open>At the start of the period all of the price is returned.\<close>

lemma prorate_minor_whole:
  "a < b \<Longrightarrow> prorate_minor price a a b = Inr price"
  by (simp add: prorate_minor_def Let_def)

end
