(* ===== verification/Billing_Plans.thy ===== *)
theory Billing_Plans
  imports Billing_Accounts
begin

text \<open>
  What an organisation and an administrator do with a subscription: the checkout
  (services/org_subscription_checkout.py), the upgrade (org_subscription_tier_change.py), the reserved
  downgrade and the cancellation (org_subscription_downgrade.py), the purchase of packs
  (billing_pack.py) and the actions of services/admin_billing.py.
\<close>

section \<open>The claim on a subscription\<close>

definition STALE_CLAIM_WINDOW :: int where "STALE_CLAIM_WINDOW = 180000000"

definition claim_free :: "timestamp \<Rightarrow> org_subscription \<Rightarrow> bool" where
  "claim_free now s \<longleftrightarrow> (case su_claimed_at s of None \<Rightarrow> True | Some t \<Rightarrow> t < now - STALE_CLAIM_WINDOW)"

definition release_claim :: "uuid \<Rightarrow> timestamp \<Rightarrow> bill_db \<Rightarrow> bill_db" where
  "release_claim org now db =
     upd_sub org (\<lambda>s. if su_claimed_at s = Some now then s\<lparr>su_claimed_at := None\<rparr> else s) db"

definition active_offering :: "string \<Rightarrow> string option \<Rightarrow> bill_db \<Rightarrow> error + offering option" where
  "active_offering tier currency db = scalar_one_or_none
     (filter (\<lambda>x. ov_tier x = tier \<and> Some (ov_currency x) = currency \<and> ov_to x = None) (b_offerings db))"

definition tier_rank :: "string \<Rightarrow> int" where
  "tier_rank t = (if t = ''starter'' then 1 else if t = ''team'' then 2 else if t = ''business'' then 3 else 0)"

section \<open>Checkout\<close>

definition checkout_order_id :: "uuid \<Rightarrow> uuid \<Rightarrow> timestamp \<Rightarrow> string" where
  "checkout_order_id org ov now = ''checkout:'' @ org @ '':'' @ ov @ '':'' @ date_text (date_of now)"

record checkout_args =
  ca_org :: uuid
  ca_auth_key :: string
  ca_tier :: string
  ca_cycle :: string
  ca_sub_id :: uuid
  ca_key_id :: uuid
  ca_customer :: string
  ca_order_row :: uuid

definition claimed_sub :: "checkout_args \<Rightarrow> offering \<Rightarrow> timestamp \<Rightarrow> timestamp \<Rightarrow> org_subscription \<Rightarrow> org_subscription" where
  \<comment> \<open>the \<^verbatim>\<open>SET\<close> of the upsert\<close>
  "claimed_sub a ov now period_end s = s\<lparr>su_tier := ca_tier a, su_cycle := Some (ca_cycle a), su_status := ''pending'',
     su_provider := Some ''toss'', su_currency := Some ''krw'', su_offering := Some (ov_id ov),
     su_period_start := Some now, su_period_end := Some period_end, su_claimed_at := Some now\<rparr>"

definition empty_sub :: "uuid \<Rightarrow> uuid \<Rightarrow> org_subscription" where
  "empty_sub i org = \<lparr>su_id = i, su_org = org, su_tier = ''free'', su_cycle = None, su_status = ''active'',
     su_currency = None, su_provider = None, su_period_start = None, su_period_end = None, su_claimed_at = None,
     su_offering = None, su_pending_tier = None, su_pending_offering = None, su_pending_apply_at = None\<rparr>"

definition checkout_claim :: "checkout_args \<Rightarrow> offering \<Rightarrow> timestamp \<Rightarrow> timestamp \<Rightarrow> bill_db \<Rightarrow> bool \<times> bill_db" where
  "checkout_claim a ov now period_end db =
     (case get_sub (ca_org a) db of
        None \<Rightarrow> (True, db\<lparr>b_subs := b_subs db @ [claimed_sub a ov now period_end (empty_sub (ca_sub_id a) (ca_org a))]\<rparr>)
      | Some s \<Rightarrow> if claim_free now s then (True, upd_sub (ca_org a) (claimed_sub a ov now period_end) db) else (False, db))"

definition checkout_call :: "checkout_args \<Rightarrow> offering \<Rightarrow> timestamp \<Rightarrow> int \<Rightarrow> string \<Rightarrow> charge_call" where
  "checkout_call a ov now amount currency = \<lparr>cc_new_id = ca_order_row a, cc_org = ca_org a,
     cc_order_id = checkout_order_id (ca_org a) (ov_id ov) now, cc_amount = amount, cc_currency = currency,
     cc_entry_type = ''charge'', cc_metadata = None\<rparr>"

definition declined_as :: "string \<Rightarrow> error \<Rightarrow> error" where
  \<comment> \<open>\<^verbatim>\<open>except TossApiError as exc: raise ...Declined(str(exc), ...) from exc\<close>\<close>
  "declined_as cls e = (case e of ServiceError c code \<Rightarrow> if c = ''TossApiError'' then ServiceError cls code else e | _ \<Rightarrow> e)"

definition activate_claimed :: "uuid \<Rightarrow> timestamp \<Rightarrow> bill_db \<Rightarrow> bill_db" where
  "activate_claimed org now db =
     upd_sub org (\<lambda>s. if su_claimed_at s = Some now then s\<lparr>su_status := ''active''\<rparr> else s) db"

definition sub_result :: "uuid \<Rightarrow> bill_db \<Rightarrow> org_subscription billed" where
  \<comment> \<open>\<^verbatim>\<open>_refetch_subscription\<close>\<close>
  "sub_result org db = (case get_sub org db of
     None \<Rightarrow> (Inl (ServiceError ''NoResultFound'' []), db) | Some s \<Rightarrow> (Inr s, db))"

text \<open>
  The body of the \<^verbatim>\<open>try\<close>.  compute_charge_amount reads the subscription through the session: when the
  guard at the start of the function has loaded the row, the session returns that object with the
  values it had then, since the upsert is no ORM update, a commit expires nothing
  (\<^verbatim>\<open>expire_on_commit=False\<close>) and only _refetch_subscription asks for \<^verbatim>\<open>populate_existing\<close>.  The
  amount is therefore computed from \<^verbatim>\<open>existing\<close>, the row before the claim, where there was one.
\<close>

definition checkout_body :: "toss \<Rightarrow> checkout_args \<Rightarrow> offering \<Rightarrow> org_subscription option \<Rightarrow> timestamp \<Rightarrow> bill_db
    \<Rightarrow> org_subscription billed" where
  "checkout_body env a ov existing now db =
     (case issue_billing_key env (ca_key_id a) (ca_customer a) (ca_org a) (ca_auth_key a) now db of
        (Inl e, db1) \<Rightarrow> (Inl e, db1)
      | (Inr _, db1) \<Rightarrow>
          (case (case existing of None \<Rightarrow> compute_charge_amount (ca_org a) db1
                                | Some s \<Rightarrow> charge_amount_of_sub s db1) of
             Inl e \<Rightarrow> (Inl e, db1)
           | Inr (amount, currency) \<Rightarrow>
               (case charge_org env (checkout_call a ov now amount currency) now db1 of
                  (Inl e, db2) \<Rightarrow> (Inl (declined_as ''CheckoutDeclined'' e), db2)
                | (Inr x, db2) \<Rightarrow>
                    sub_result (ca_org a)
                      (if bo_status x = OrderConfirmed then activate_claimed (ca_org a) now db2 else db2))))"

definition checkout_error :: error where
  "checkout_error = ServiceError ''CheckoutError'' []"

definition checkout_guard :: "checkout_args \<Rightarrow> bill_db \<Rightarrow> error option" where
  "checkout_guard a db =
     (if ca_tier a \<notin> set PAID_TIERS then Some checkout_error
      else if ca_cycle a \<noteq> ''monthly'' \<and> ca_cycle a \<noteq> ''annual'' then Some checkout_error
      else (case get_sub (ca_org a) db of
          None \<Rightarrow> None
        | Some s \<Rightarrow> if active_paid s \<and> (su_tier s \<noteq> ca_tier a \<or> su_cycle s \<noteq> Some (ca_cycle a))
            then Some (ServiceError ''ActivePaidSubscriptionExists'' (ca_org a)) else None))"

definition checkout_subscription :: "toss \<Rightarrow> checkout_args \<Rightarrow> timestamp \<Rightarrow> bill_db \<Rightarrow> org_subscription billed" where
  "checkout_subscription env a now db =
     (case checkout_guard a db of
        Some e \<Rightarrow> (Inl e, db)
      | None \<Rightarrow>
     (case active_offering (ca_tier a) (Some ''krw'') db of
        Inl e \<Rightarrow> (Inl e, db)
      | Inr None \<Rightarrow> (Inl checkout_error, db)
      | Inr (Some ov) \<Rightarrow>
     (case new_subscription_period now (ca_cycle a) of
        Inl e \<Rightarrow> (Inl e, db)
      | Inr (period_start, period_end) \<Rightarrow>
          if ca_org a \<notin> set (b_orgs db) then (Inl checkout_error, db)
          else (case checkout_claim a ov now period_end db of
              (False, db1) \<Rightarrow> (Inl (ServiceError ''CheckoutInProgress'' (ca_org a)), db1)
            | (True, db1) \<Rightarrow>
                (case checkout_body env a ov (get_sub (ca_org a) db) now db1 of
                   (r, db2) \<Rightarrow> (r, release_claim (ca_org a) now db2))))))"

section \<open>Upgrade of a paid subscription\<close>

definition tier_change_error :: error where
  "tier_change_error = ServiceError ''TierChangeError'' []"

definition latest_confirmed_subscription_order :: "uuid \<Rightarrow> bill_db \<Rightarrow> billing_order option" where
  "latest_confirmed_subscription_order org db = max_row bo_created_at
     (filter (\<lambda>x. bo_org x = org \<and> bo_status x = OrderConfirmed \<and> bo_purpose x = ''charge'') (b_orders db))"

definition attempt_partial_refund :: "toss \<Rightarrow> uuid \<Rightarrow> billing_order \<Rightarrow> int \<Rightarrow> timestamp \<Rightarrow> bill_db \<Rightarrow> bill_db" where
  "attempt_partial_refund env org x amount now db =
     (case refund_org env org (bo_order_id x) ''tier change, prorated remainder'' (Some amount) now db of
        (r, db1) \<Rightarrow> upd_order (bo_order_id x)
          (\<lambda>y. y\<lparr>bo_refund_status := Some (case r of Inr _ \<Rightarrow> ''confirmed'' | Inl _ \<Rightarrow> ''failed''), bo_updated_at := now\<rparr>) db1)"

text \<open>The guards before the claim; the value is the subscription, its offering and the new one.\<close>

definition tier_change_guard :: "uuid \<Rightarrow> string \<Rightarrow> bill_db \<Rightarrow> error + org_subscription \<times> offering \<times> offering" where
  "tier_change_guard org new_tier db =
     (if new_tier \<notin> set PAID_TIERS then Inl tier_change_error
      else (case get_sub org db of
        None \<Rightarrow> Inl tier_change_error
      | Some s \<Rightarrow>
          if \<not> active_paid s \<or> su_cycle s \<noteq> Some ''monthly'' \<or> su_period_start s = None \<or> su_period_end s = None
             \<or> tier_rank new_tier \<le> tier_rank (su_tier s) then Inl tier_change_error
          else (case Option.bind (su_offering s) (\<lambda>i. get_offering i db) of
              None \<Rightarrow> Inl tier_change_error
            | Some old \<Rightarrow> (case active_offering new_tier (Some ''krw'') db of
                  Inl e \<Rightarrow> Inl e
                | Inr None \<Rightarrow> Inl tier_change_error
                | Inr (Some new) \<Rightarrow> if ov_monthly new \<le> ov_monthly old then Inl tier_change_error
                    else Inr (s, old, new)))))"

definition tier_change_claim :: "uuid \<Rightarrow> timestamp \<Rightarrow> bill_db \<Rightarrow> bool \<times> bill_db" where
  "tier_change_claim org now db = (case get_sub org db of
     Some s \<Rightarrow> if claim_free now s then (True, upd_sub org (\<lambda>s. s\<lparr>su_claimed_at := Some now\<rparr>) db) else (False, db)
   | None \<Rightarrow> (False, db))"

definition tier_change_call :: "uuid \<Rightarrow> string \<Rightarrow> string \<Rightarrow> offering \<Rightarrow> string \<Rightarrow> uuid \<Rightarrow> int \<Rightarrow> string \<Rightarrow> charge_call" where
  "tier_change_call org from_tier to_tier new hex row amount currency = \<lparr>cc_new_id = row, cc_org = org,
     cc_order_id = ''tierchange-'' @ org @ ''-'' @ ov_id new @ ''-'' @ hex, cc_amount = amount,
     cc_currency = currency, cc_entry_type = ''charge'',
     cc_metadata = Some [(''kind'', JStr ''tier_change''), (''from_tier'', JStr from_tier), (''to_tier'', JStr to_tier)]\<rparr>"

definition upgraded_sub :: "string \<Rightarrow> offering \<Rightarrow> timestamp \<Rightarrow> timestamp \<Rightarrow> org_subscription \<Rightarrow> org_subscription" where
  "upgraded_sub new_tier new now period_end s =
     (if su_claimed_at s = Some now
      then s\<lparr>su_tier := new_tier, su_offering := Some (ov_id new), su_period_start := Some now, su_period_end := Some period_end\<rparr>
      else s)"

definition settle_upgrade :: "toss \<Rightarrow> uuid \<Rightarrow> string \<Rightarrow> org_subscription \<Rightarrow> offering \<Rightarrow> offering \<Rightarrow> billing_order option
    \<Rightarrow> timestamp \<Rightarrow> bill_db \<Rightarrow> org_subscription billed" where
  \<comment> \<open>after the confirmed charge: the new tier and period, then the refund of the rest\<close>
  "settle_upgrade env org new_tier s old new old_order now db =
     (let db1 = upd_sub org (upgraded_sub new_tier new now (add_months now 1)) db in
      case old_order of
        None \<Rightarrow> sub_result org db1
      | Some x \<Rightarrow>
          (case prorate_minor (ov_monthly old) now (the (su_period_start s)) (the (su_period_end s)) of
             Inl e \<Rightarrow> (Inl e, db1)
           | Inr amount \<Rightarrow> sub_result org (if 0 < amount then attempt_partial_refund env org x amount now db1 else db1)))"

definition tier_change_body :: "toss \<Rightarrow> uuid \<Rightarrow> string \<Rightarrow> string \<Rightarrow> uuid \<Rightarrow> org_subscription \<Rightarrow> offering \<Rightarrow> offering
    \<Rightarrow> timestamp \<Rightarrow> bill_db \<Rightarrow> org_subscription billed" where
  "tier_change_body env org new_tier hex row s old new now db =
     (let old_order = latest_confirmed_subscription_order org db in
      case compute_full_charge_for_new_offering org new db of
        Inl e \<Rightarrow> (Inl tier_change_error, db)
      | Inr (amount, currency) \<Rightarrow>
          (case charge_org env (tier_change_call org (su_tier s) new_tier new hex row amount currency) now db of
             (Inl e, db1) \<Rightarrow> (Inl (declined_as ''TierChangeDeclined'' e), db1)
           | (Inr x, db1) \<Rightarrow>
               if bo_status x \<noteq> OrderConfirmed then sub_result org db1
               else settle_upgrade env org new_tier s old new old_order now db1))"

definition change_tier :: "toss \<Rightarrow> uuid \<Rightarrow> string \<Rightarrow> string \<Rightarrow> uuid \<Rightarrow> timestamp \<Rightarrow> bill_db \<Rightarrow> org_subscription billed" where
  "change_tier env org new_tier hex row now db =
     (case tier_change_guard org new_tier db of
        Inl e \<Rightarrow> (Inl e, db)
      | Inr (s, old, new) \<Rightarrow>
          (case tier_change_claim org now db of
             (False, db1) \<Rightarrow> (Inl (ServiceError ''TierChangeInProgress'' org), db1)
           | (True, db1) \<Rightarrow>
               (case tier_change_body env org new_tier hex row s old new now db1 of
                  (r, db2) \<Rightarrow> (r, release_claim org now db2))))"

section \<open>Reserved downgrade and cancellation\<close>

definition downgrade_error :: error where
  "downgrade_error = ServiceError ''DowngradeError'' []"

definition active_paid_sub_or_raise :: "uuid \<Rightarrow> bill_db \<Rightarrow> error + org_subscription" where
  "active_paid_sub_or_raise org db = (case get_sub org db of
     None \<Rightarrow> Inl downgrade_error
   | Some s \<Rightarrow> if \<not> active_paid s \<or> su_period_end s = None then Inl downgrade_error else Inr s)"

definition offering_or_raise :: "string \<Rightarrow> string option \<Rightarrow> bill_db \<Rightarrow> error + offering" where
  "offering_or_raise tier currency db = (case active_offering tier currency db of
     Inl e \<Rightarrow> Inl e | Inr None \<Rightarrow> Inl downgrade_error | Inr (Some ov) \<Rightarrow> Inr ov)"

definition reserve_pending_change :: "org_subscription \<Rightarrow> string \<Rightarrow> uuid \<Rightarrow> bill_db \<Rightarrow> org_subscription billed" where
  "reserve_pending_change s new_tier ov db = sub_result (su_org s)
     (upd_sub (su_org s) (\<lambda>r. r\<lparr>su_pending_tier := Some new_tier, su_pending_offering := Some ov,
                               su_pending_apply_at := su_period_end s\<rparr>) db)"

definition reserve_downgrade :: "uuid \<Rightarrow> string \<Rightarrow> bill_db \<Rightarrow> org_subscription billed" where
  "reserve_downgrade org new_tier db =
     (if new_tier \<notin> set PAID_TIERS then (Inl downgrade_error, db)
      else (case active_paid_sub_or_raise org db of
          Inl e \<Rightarrow> (Inl e, db)
        | Inr s \<Rightarrow> if tier_rank (su_tier s) \<le> tier_rank new_tier then (Inl downgrade_error, db)
            else (case offering_or_raise new_tier (su_currency s) db of
                Inl e \<Rightarrow> (Inl e, db) | Inr ov \<Rightarrow> reserve_pending_change s new_tier (ov_id ov) db)))"

definition cancel_subscription :: "uuid \<Rightarrow> bill_db \<Rightarrow> org_subscription billed" where
  "cancel_subscription org db =
     (case active_paid_sub_or_raise org db of
        Inl e \<Rightarrow> (Inl e, db)
      | Inr s \<Rightarrow> (case offering_or_raise ''free'' (su_currency s) db of
            Inl e \<Rightarrow> (Inl e, db) | Inr ov \<Rightarrow> reserve_pending_change s ''free'' (ov_id ov) db))"

definition clear_pending :: "org_subscription \<Rightarrow> org_subscription" where
  "clear_pending s = s\<lparr>su_pending_tier := None, su_pending_offering := None, su_pending_apply_at := None\<rparr>"

definition cancel_pending_downgrade :: "uuid \<Rightarrow> bill_db \<Rightarrow> org_subscription billed" where
  "cancel_pending_downgrade org db =
     (case get_sub org db of
        None \<Rightarrow> (Inl downgrade_error, db)
      | Some s \<Rightarrow> if su_pending_apply_at s = None then (Inl downgrade_error, db)
          else sub_result org (upd_sub org clear_pending db))"

definition applied_downgrade :: "timestamp \<Rightarrow> timestamp \<Rightarrow> org_subscription \<Rightarrow> org_subscription" where
  "applied_downgrade now period_end s =
     (if su_pending_tier s = Some ''free''
      then clear_pending (s\<lparr>su_tier := ''free'', su_offering := su_pending_offering s, su_cycle := None,
                            su_period_start := None, su_period_end := None\<rparr>)
      else clear_pending (s\<lparr>su_tier := the (su_pending_tier s), su_offering := su_pending_offering s,
                            su_period_start := Some now, su_period_end := Some period_end\<rparr>))"

datatype downgrade_outcome = Applied | Cancelled_seats | Skipped

definition apply_pending_downgrade :: "timestamp \<Rightarrow> org_subscription \<Rightarrow> bill_db \<Rightarrow> downgrade_outcome billed" where
  \<comment> \<open>one round of the loop\<close>
  "apply_pending_downgrade now s db =
     (case (su_pending_tier s, Option.bind (su_pending_offering s) (\<lambda>i. get_offering i db)) of
        (Some tier, Some ov) \<Rightarrow>
          (let seats = count_human_seats (su_org s) db in
           if tier \<noteq> ''free'' \<and> ov_seats ov < seats
           then (Inr Cancelled_seats, (upd_sub (su_org s) clear_pending db)
                  \<lparr>b_mails := b_mails db @ [\<lparr>ml_org = su_org s, ml_to = admins_of (su_org s) db,
                     ml_kind = ''downgrade_cancelled'', ml_tier = tier, ml_numbers = [seats, ov_seats ov]\<rparr>]\<rparr>)
           else if tier = ''free''
           then (Inr Applied, upd_sub (su_org s) (\<lambda>r. applied_downgrade now now r) db)
           else (case compute_period_end now (if su_cycle s = None \<or> su_cycle s = Some [] then Some ''monthly'' else su_cycle s) of
               Inl e \<Rightarrow> (Inl e, db)
             | Inr period_end \<Rightarrow> (Inr Applied, upd_sub (su_org s) (\<lambda>r. applied_downgrade now period_end r) db)))
      | _ \<Rightarrow> (Inr Skipped, db))"

fun sweep_loop :: "('x \<Rightarrow> bill_db \<Rightarrow> 'o billed) \<Rightarrow> 'x list \<Rightarrow> bill_db \<Rightarrow> 'o list billed" where
  \<comment> \<open>a loop over the rows a sweep has read; the first exception ends it, what was committed stays\<close>
  "sweep_loop f [] db = (Inr [], db)"
| "sweep_loop f (x # xs) db =
     (case f x db of
        (Inl e, db1) \<Rightarrow> (Inl e, db1)
      | (Inr r, db1) \<Rightarrow> (case sweep_loop f xs db1 of
            (Inl e, db2) \<Rightarrow> (Inl e, db2) | (Inr rs, db2) \<Rightarrow> (Inr (r # rs), db2)))"

definition due_downgrades :: "timestamp \<Rightarrow> bill_db \<Rightarrow> org_subscription list" where
  "due_downgrades now db = filter (\<lambda>s. case su_pending_apply_at s of None \<Rightarrow> False | Some t \<Rightarrow> t \<le> now) (b_subs db)"

definition sweep_pending_tier_downgrades :: "timestamp \<Rightarrow> bill_db \<Rightarrow> downgrade_outcome list billed" where
  "sweep_pending_tier_downgrades now db = sweep_loop (apply_pending_downgrade now) (due_downgrades now db) db"

section \<open>Packs\<close>

fun sql_like :: "string \<Rightarrow> string \<Rightarrow> bool" where
  \<comment> \<open>\<^verbatim>\<open>text LIKE pattern\<close>, the pattern first\<close>
  "sql_like [] s = (s = [])"
| "sql_like (p # ps) [] = (p = CHR ''%'' \<and> sql_like ps [])"
| "sql_like (p # ps) (c # s) =
     (if p = CHR ''%'' then sql_like ps (c # s) \<or> sql_like (p # ps) s
      else if p = CHR ''_'' then sql_like ps s
      else p = c \<and> sql_like ps s)"

definition pack_order_id :: "uuid \<Rightarrow> string \<Rightarrow> string \<Rightarrow> string" where
  "pack_order_id org resource key = ''pack:'' @ org @ '':'' @ resource @ '':'' @ key"

definition reserves_pack :: "uuid \<Rightarrow> string \<Rightarrow> timestamp \<Rightarrow> timestamp \<Rightarrow> billing_order \<Rightarrow> bool" where
  "reserves_pack org resource period_start period_end x \<longleftrightarrow>
     sql_like (pack_order_id org resource ''%'') (bo_order_id x)
     \<and> (bo_status x = OrderPending \<or> bo_status x = OrderConfirmed)
     \<and> period_start \<le> bo_created_at x \<and> bo_created_at x < period_end"

definition packs_reserved_this_period :: "uuid \<Rightarrow> string \<Rightarrow> int \<Rightarrow> timestamp \<Rightarrow> timestamp \<Rightarrow> bill_db \<Rightarrow> int" where
  "packs_reserved_this_period org resource price period_start period_end db =
     (if price = 0 then 0
      else sum_list (map bo_amount (filter (reserves_pack org resource period_start period_end) (b_orders db))) div price)"

definition pack_error :: error where
  "pack_error = ServiceError ''PackPurchaseError'' []"

definition pack_guard :: "uuid \<Rightarrow> string \<Rightarrow> int \<Rightarrow> string \<Rightarrow> bill_db \<Rightarrow> error + offering \<times> pack_offer" where
  "pack_guard org resource quantity key db =
     (if quantity < 1 \<or> key = [] then Inl pack_error
      else (case get_sub org db of
        None \<Rightarrow> Inl pack_error
      | Some s \<Rightarrow>
          if su_status s \<noteq> ''active'' then Inl pack_error
          else (case Option.bind (su_offering s) (\<lambda>i. get_offering i db) of
              None \<Rightarrow> Inl pack_error
            | Some ov \<Rightarrow>
                (case Option.bind (ov_packs ov) (\<lambda>ps. map_of ps resource) of
                   None \<Rightarrow> Inl pack_error
                 | Some pack \<Rightarrow>
                     (case pack_max pack of
                        None \<Rightarrow> Inr (ov, pack)
                      | Some most \<Rightarrow>
                          (case (su_period_start s, su_period_end s) of
                             (Some a, Some b) \<Rightarrow>
                               if most < packs_reserved_this_period org resource (pack_price pack) a b db + quantity
                               then Inl pack_error else Inr (ov, pack)
                           | _ \<Rightarrow> Inl pack_error))))))"

definition pack_call :: "uuid \<Rightarrow> string \<Rightarrow> int \<Rightarrow> string \<Rightarrow> uuid \<Rightarrow> offering \<Rightarrow> pack_offer \<Rightarrow> charge_call" where
  "pack_call org resource quantity key row ov pack = \<lparr>cc_new_id = row, cc_org = org,
     cc_order_id = pack_order_id org resource key, cc_amount = pack_price pack * quantity,
     cc_currency = ov_currency ov, cc_entry_type = ''pack_purchase'',
     cc_metadata = Some [(''resource'', JStr resource), (''quantity'', JInt quantity), (''unit'', JStr (pack_unit pack))]\<rparr>"

text \<open>The advisory lock on organisation and resource is held up to the claim of the order, so the
count and the claim are one step for other purchases of the resource.\<close>

definition purchase_packs :: "toss \<Rightarrow> uuid \<Rightarrow> string \<Rightarrow> int \<Rightarrow> string \<Rightarrow> uuid \<Rightarrow> timestamp \<Rightarrow> bill_db \<Rightarrow> billing_order billed" where
  "purchase_packs env org resource quantity key row now db =
     (case pack_guard org resource quantity key db of
        Inl e \<Rightarrow> (Inl e, db)
      | Inr (ov, pack) \<Rightarrow>
          (case charge_org env (pack_call org resource quantity key row ov pack) now db of
             (Inl e, db1) \<Rightarrow> (Inl (declined_as ''PackPurchaseDeclined'' e), db1)
           | (Inr x, db1) \<Rightarrow> (Inr x, db1)))"

section \<open>Administration\<close>

definition retry_call :: "billing_order \<Rightarrow> charge_call" where
  \<comment> \<open>a charge of the same order again, with the default entry type\<close>
  "retry_call x = \<lparr>cc_new_id = bo_id x, cc_org = bo_org x, cc_order_id = bo_order_id x, cc_amount = bo_amount x,
     cc_currency = bo_currency x, cc_entry_type = ''charge'', cc_metadata = None\<rparr>"

definition retry_billing_order :: "toss \<Rightarrow> uuid \<Rightarrow> string \<Rightarrow> timestamp \<Rightarrow> bill_db \<Rightarrow> billing_order billed" where
  "retry_billing_order env org order_id now db =
     (case get_order order_id db of
        None \<Rightarrow> (Inl (HTTPError 404 ''ORDER_NOT_FOUND'' None), db)
      | Some x \<Rightarrow>
          if bo_org x \<noteq> org then (Inl (HTTPError 404 ''ORDER_NOT_FOUND'' None), db)
          else if bo_status x \<noteq> OrderFailed then (Inl (HTTPError 409 ''ALREADY_HANDLED'' None), db)
          else (case charge_org env (retry_call x) now db of
              (Inl e, db1) \<Rightarrow> (Inl e, db1)
            | (Inr _, db1) \<Rightarrow> (case get_order order_id db1 of
                  None \<Rightarrow> (Inl (ServiceError ''NoResultFound'' []), db1) | Some y \<Rightarrow> (Inr y, db1))))"

definition reset_billing_key :: "toss \<Rightarrow> uuid \<Rightarrow> timestamp \<Rightarrow> bill_db \<Rightarrow> revoke_result billed" where
  "reset_billing_key env org now db =
     (case revoke_billing_key env org None ''agent'' True now db of
        (Inl (ServiceError ''ActiveSubscriptionBlocksRevoke'' _), db1) \<Rightarrow>
          (Inl (HTTPError 409 ''ACTIVE_SUBSCRIPTION_BLOCKS_REVOKE'' None), db1)
      | r \<Rightarrow> r)"

record grant_args =
  ga_org :: uuid
  ga_tier :: string
  ga_months :: int
  ga_reason :: string
  ga_currency :: string
  ga_key :: string
  ga_actor :: string
  ga_sub_id :: uuid
  ga_entry_id :: uuid

definition grant_ref :: "string \<Rightarrow> string" where
  "grant_ref key = ''admin-grant:'' @ key"

definition derive_grant_amount_minor :: "string \<Rightarrow> string \<Rightarrow> int \<Rightarrow> bill_db \<Rightarrow> error + int" where
  "derive_grant_amount_minor tier currency months db =
     (case active_offering tier (Some currency) db of
        Inl e \<Rightarrow> Inl e
      | Inr None \<Rightarrow> Inl (HTTPError 422 ''PRICING_SOURCE_UNAVAILABLE'' None)
      | Inr (Some ov) \<Rightarrow> Inr (ov_monthly ov * months))"

definition grant_entry :: "grant_args \<Rightarrow> string \<Rightarrow> int \<Rightarrow> timestamp \<Rightarrow> timestamp \<Rightarrow> ledger_entry" where
  "grant_entry a prev_tier amount period_end now = \<lparr>le_id = ga_entry_id a, le_org = ga_org a, le_ts = now,
     le_entry_type = ''credit_grant'', le_amount = amount, le_currency = ga_currency a, le_direction = ''credit'',
     le_provider = None, le_provider_ref = Some (grant_ref (ga_key a)), le_subscription = None,
     le_metadata = Some [(''kind'', JStr ''tier_grant''), (''target_tier'', JStr (ga_tier a)),
       (''prev_tier'', JStr prev_tier), (''grant_expires_at'', JInt period_end), (''months'', JInt (ga_months a)),
       (''granted_by'', JStr (ga_actor a)), (''reason'', JStr (ga_reason a))]\<rparr>"

definition granted_sub :: "string \<Rightarrow> timestamp \<Rightarrow> timestamp \<Rightarrow> org_subscription \<Rightarrow> org_subscription" where
  "granted_sub tier now period_end s = s\<lparr>su_tier := tier, su_status := ''active'',
     su_period_start := Some now, su_period_end := Some period_end\<rparr>"

text \<open>The subscription is flushed and the commit of record_ledger_entry covers both writes; when it
raises, neither is kept.\<close>

definition grant_credit :: "grant_args \<Rightarrow> timestamp \<Rightarrow> bill_db \<Rightarrow> ledger_entry billed" where
  "grant_credit a now db =
     (case List.find (\<lambda>e. le_provider_ref e = Some (grant_ref (ga_key a)) \<and> le_entry_type e = ''credit_grant'') (b_ledger db) of
        Some old \<Rightarrow> if le_org old \<noteq> ga_org a then (Inl (HTTPError 409 ''IDEMPOTENCY_KEY_ORG_MISMATCH'' None), db) else (Inr old, db)
      | None \<Rightarrow>
          (let current = (case get_sub (ga_org a) db of None \<Rightarrow> ''free'' | Some s \<Rightarrow> su_tier s) in
           if tier_rank (ga_tier a) < tier_rank current then (Inl (HTTPError 422 ''GRANT_WOULD_DOWNGRADE'' None), db)
           else (case derive_grant_amount_minor (ga_tier a) (ga_currency a) (ga_months a) db of
               Inl e \<Rightarrow> (Inl e, db)
             | Inr amount \<Rightarrow>
                 (let period_end = add_months now (ga_months a);
                      db1 = (case get_sub (ga_org a) db of
                          None \<Rightarrow> db\<lparr>b_subs := b_subs db @ [granted_sub (ga_tier a) now period_end
                                    ((empty_sub (ga_sub_id a) (ga_org a))\<lparr>su_currency := Some (ga_currency a)\<rparr>)]\<rparr>
                        | Some _ \<Rightarrow> upd_sub (ga_org a) (granted_sub (ga_tier a) now period_end) db)
                  in case record_ledger_entry (grant_entry a current amount period_end now) db1 of
                       (Inl e, _) \<Rightarrow> (Inl e, db) | (Inr e, db2) \<Rightarrow> (Inr e, db2)))))"

definition create_offering_version :: "offering \<Rightarrow> timestamp \<Rightarrow> bill_db \<Rightarrow> offering billed" where
  \<comment> \<open>the argument carries the fields of the request and the new identifier\<close>
  "create_offering_version request now db =
     (case active_offering (ov_tier request) (Some (ov_currency request)) db of
        Inl e \<Rightarrow> (Inl e, db)
      | Inr prev \<Rightarrow>
          (let v = request\<lparr>ov_from := now, ov_to := None\<rparr> in
           (Inr v, db\<lparr>b_offerings := map (\<lambda>x. if ov_tier x = ov_tier request \<and> ov_currency x = ov_currency request \<and> ov_to x = None
               then x\<lparr>ov_to := Some now\<rparr> else x) (b_offerings db) @ [v]\<rparr>)))"

definition create_grandfather_policy :: "grandfather \<Rightarrow> timestamp \<Rightarrow> bill_db \<Rightarrow> grandfather billed" where
  "create_grandfather_policy request now db =
     (if get_offering (gf_offering request) db = None then (Inl (HTTPError 404 ''OFFERING_VERSION_NOT_FOUND'' None), db)
      else (case scalar_one_or_none (filter (\<lambda>p. gf_org p = gf_org request \<and> gf_to p = None) (b_policies db)) of
          Inl e \<Rightarrow> (Inl e, db)
        | Inr prev \<Rightarrow>
            (let p = request\<lparr>gf_from := now, gf_to := None\<rparr> in
             (Inr p, db\<lparr>b_policies := map (\<lambda>x. if gf_org x = gf_org request \<and> gf_to x = None
                 then x\<lparr>gf_to := Some now\<rparr> else x) (b_policies db) @ [p]\<rparr>))))"

end
