(* ===== verification/Billing_Scheduler.thy ===== *)
theory Billing_Scheduler
  imports Billing_Plans
begin

text \<open>
  The cron of billing: services/billing_scheduler.py (renewals, dunning, orders that stay pending,
  expired grants), services/billing_reconciliation.py, and the order in which toss_billing_maintenance
  of routers/cron.py runs the sweeps.  A sweep reads its rows, then treats one after another; every
  treatment commits for itself.
\<close>

section \<open>Dunning\<close>

definition PENDING_STALE_AFTER :: int where "PENDING_STALE_AFTER = 300000000"

datatype dunning_action = Dunning_wait | Dunning_retry | Dunning_downgrade

definition order_age :: "timestamp \<Rightarrow> billing_order \<Rightarrow> int" where
  "order_age now x = date_of now - date_of (bo_created_at x)"

definition next_dunning_action :: "timestamp \<Rightarrow> int \<Rightarrow> billing_order \<Rightarrow> dunning_action" where
  "next_dunning_action now grace x =
     (if bo_status x \<noteq> OrderFailed then Dunning_wait
      else if grace + 1 \<le> order_age now x then Dunning_downgrade
      else if 1 \<le> order_age now x \<and> order_age now x \<le> grace \<and> \<not> date_of now \<le> date_of (bo_updated_at x)
      then Dunning_retry else Dunning_wait)"

definition RENEWAL_ORDER_PREFIX :: string where
  "RENEWAL_ORDER_PREFIX = ''renewal:''"

definition renewal_order_id :: "uuid \<Rightarrow> uuid \<Rightarrow> timestamp \<Rightarrow> string" where
  "renewal_order_id org ov period_end = RENEWAL_ORDER_PREFIX @ org @ '':'' @ ov @ '':'' @ date_text (date_of period_end)"

definition notify_dunning_failure :: "uuid \<Rightarrow> string \<Rightarrow> int \<Rightarrow> bill_db \<Rightarrow> bill_db" where
  "notify_dunning_failure org tier grace_day db = db\<lparr>b_mails := b_mails db @
     [\<lparr>ml_org = org, ml_to = admins_of org db, ml_kind = ''dunning_failure'', ml_tier = tier, ml_numbers = [grace_day]\<rparr>]\<rparr>"

subsection \<open>The forced downgrade\<close>

definition has_newer_confirmed_order :: "billing_order \<Rightarrow> uuid \<Rightarrow> bill_db \<Rightarrow> bool" where
  "has_newer_confirmed_order x org db \<longleftrightarrow>
     (\<exists>y \<in> set (b_orders db). bo_org y = org \<and> bo_status y = OrderConfirmed \<and> bo_created_at x < bo_created_at y)"

definition has_newly_issued_billing_key :: "billing_order \<Rightarrow> uuid \<Rightarrow> bill_db \<Rightarrow> bool" where
  "has_newly_issued_billing_key x org db \<longleftrightarrow>
     (\<exists>k \<in> set (b_keys db). bk_org k = org \<and> bk_status k = ''active''
        \<and> (case bk_issued_at k of None \<Rightarrow> False | Some t \<Rightarrow> bo_created_at x < t))"

definition has_active_checkout_claim :: "timestamp \<Rightarrow> uuid \<Rightarrow> bill_db \<Rightarrow> bool" where
  "has_active_checkout_claim now org db \<longleftrightarrow> (\<exists>s \<in> set (b_subs db). su_org s = org \<and> \<not> claim_free now s)"

definition freed_sub :: "offering option \<Rightarrow> org_subscription \<Rightarrow> org_subscription" where
  "freed_sub free s = s\<lparr>su_tier := ''free'', su_status := ''active'', su_offering := map_option ov_id free\<rparr>"

definition upsert_free :: "uuid \<Rightarrow> timestamp \<Rightarrow> uuid \<Rightarrow> offering option \<Rightarrow> bill_db \<Rightarrow> bill_db" where
  "upsert_free i now org free db =
     (case get_sub org db of
        None \<Rightarrow> db\<lparr>b_subs := b_subs db @
          [(freed_sub free (empty_sub i org))\<lparr>su_provider := Some ''toss'', su_currency := Some ''krw''\<rparr>]\<rparr>
      | Some _ \<Rightarrow> upd_sub org (\<lambda>s. if claim_free now s then freed_sub free s else s) db)"

definition close_order :: "string \<Rightarrow> timestamp \<Rightarrow> bill_db \<Rightarrow> bill_db" where
  "close_order order_id now db = upd_order order_id
     (\<lambda>x. if bo_status x = OrderConfirmed then x else x\<lparr>bo_status := OrderDowngraded, bo_updated_at := now\<rparr>) db"

definition downgrade_to_free :: "(string \<Rightarrow> uuid) \<Rightarrow> uuid \<Rightarrow> string \<Rightarrow> timestamp \<Rightarrow> bill_db \<Rightarrow> unit billed" where
  "downgrade_to_free ids org order_id now db =
     (case get_order order_id db of
        None \<Rightarrow> (Inr (), db)
      | Some x \<Rightarrow>
          if has_newer_confirmed_order x org db \<or> has_newly_issued_billing_key x org db \<or> has_active_checkout_claim now org db
          then (Inr (), close_order order_id now db)
          else (case active_offering ''free'' (Some ''krw'') db of
              Inl e \<Rightarrow> (Inl e, db)
            | Inr free \<Rightarrow> (Inr (), close_order order_id now (upsert_free (ids order_id) now org free db))))"

subsection \<open>The sweep\<close>

definition rolled_sub :: "timestamp \<Rightarrow> timestamp \<Rightarrow> org_subscription \<Rightarrow> org_subscription" where
  "rolled_sub due period_end s = s\<lparr>su_period_start := Some due, su_period_end := Some period_end\<rparr>"

definition sync_renewal_retry_outcome :: "uuid \<Rightarrow> string \<Rightarrow> bill_db \<Rightarrow> unit billed" where
  "sync_renewal_retry_outcome org order_id db =
     (case get_order order_id db of
        None \<Rightarrow> (Inl (ServiceError ''NoResultFound'' []), db)
      | Some x \<Rightarrow>
     (case get_sub org db of
        None \<Rightarrow> (Inr (), db)
      | Some s \<Rightarrow>
          if bo_status x = OrderConfirmed
          then (case su_period_end s of
              None \<Rightarrow> (Inl TypeError, db)
            | Some due \<Rightarrow> (case compute_period_end due (su_cycle s) of
                  Inl e \<Rightarrow> (Inl e, db)
                | Inr period_end \<Rightarrow>
                    (Inr (), upd_sub org (\<lambda>r. (rolled_sub due period_end r)\<lparr>su_status := ''active''\<rparr>) db)))
          else (Inr (), notify_dunning_failure org (su_tier s) (date_of (bo_created_at x) + b_grace_days db)
                  (upd_sub org (\<lambda>r. r\<lparr>su_status := ''past_due''\<rparr>) db))))"

definition dun_order :: "toss \<Rightarrow> (string \<Rightarrow> uuid) \<Rightarrow> timestamp \<Rightarrow> billing_order \<Rightarrow> bill_db \<Rightarrow> dunning_action billed" where
  \<comment> \<open>one round of the loop; an exception of the charge is logged only\<close>
  "dun_order env ids now x db =
     (case next_dunning_action now (b_grace_days db) x of
        Dunning_retry \<Rightarrow>
          (let db1 = snd (charge_org env (retry_call x) now db) in
           if starts_with RENEWAL_ORDER_PREFIX (bo_order_id x)
           then (case sync_renewal_retry_outcome (bo_org x) (bo_order_id x) db1 of
               (Inl e, db2) \<Rightarrow> (Inl e, db2) | (Inr _, db2) \<Rightarrow> (Inr Dunning_retry, db2))
           else (Inr Dunning_retry, db1))
      | Dunning_downgrade \<Rightarrow> (case downgrade_to_free ids (bo_org x) (bo_order_id x) now db of
            (Inl e, db1) \<Rightarrow> (Inl e, db1) | (Inr _, db1) \<Rightarrow> (Inr Dunning_downgrade, db1))
      | Dunning_wait \<Rightarrow> (Inr Dunning_wait, db))"

definition sweep_dunning_retries :: "toss \<Rightarrow> (string \<Rightarrow> uuid) \<Rightarrow> timestamp \<Rightarrow> bill_db \<Rightarrow> dunning_action list billed" where
  "sweep_dunning_retries env ids now db =
     sweep_loop (dun_order env ids now) (filter (\<lambda>x. bo_status x = OrderFailed) (b_orders db)) db"

section \<open>Orders that stay pending\<close>

datatype stale_outcome = Stale_confirmed | Stale_failed | Stale_not_found | Stale_skipped

definition reconcile_stale :: "toss \<Rightarrow> timestamp \<Rightarrow> billing_order \<Rightarrow> bill_db \<Rightarrow> stale_outcome billed" where
  "reconcile_stale env now x db =
     (case toss_lookup env (bo_order_id x) of
        ApiError code \<Rightarrow> (Inr (if code = ''NOT_FOUND_PAYMENT'' then Stale_not_found else Stale_skipped), db)
      | Unreachable \<Rightarrow> (Inr Stale_skipped, db)
      | Body b \<Rightarrow>
          (case run_charge env (retry_call x) now (Stale_looked (Body b)) db of
             (Raised e, db1) \<Rightarrow> (Inl e, db1)
           | (_, db1) \<Rightarrow> (Inr (if text_field ''status'' b = Some ''DONE'' \<and> text_field ''paymentKey'' b \<noteq> None
                              then Stale_confirmed else Stale_failed), db1)))"

definition stale_orders :: "timestamp \<Rightarrow> bill_db \<Rightarrow> billing_order list" where
  "stale_orders now db =
     filter (\<lambda>x. bo_status x = OrderPending \<and> bo_created_at x < now - PENDING_STALE_AFTER) (b_orders db)"

definition sweep_stale_pending_orders :: "toss \<Rightarrow> timestamp \<Rightarrow> bill_db \<Rightarrow> stale_outcome list billed" where
  "sweep_stale_pending_orders env now db = sweep_loop (reconcile_stale env now) (stale_orders now db) db"

section \<open>Expired grants\<close>

definition meta_text :: "string \<Rightarrow> ledger_entry \<Rightarrow> string option" where
  "meta_text k e = (case Option.bind (le_metadata e) (\<lambda>m. map_of m k) of Some (JStr s) \<Rightarrow> Some s | _ \<Rightarrow> None)"

definition meta_time :: "string \<Rightarrow> ledger_entry \<Rightarrow> timestamp option" where
  "meta_time k e = (case Option.bind (le_metadata e) (\<lambda>m. map_of m k) of Some (JInt t) \<Rightarrow> Some t | _ \<Rightarrow> None)"

definition is_tier_grant :: "ledger_entry \<Rightarrow> bool" where
  "is_tier_grant e \<longleftrightarrow> le_entry_type e = ''credit_grant'' \<and> meta_text ''kind'' e = Some ''tier_grant''"

definition reverts_entry :: "uuid \<Rightarrow> ledger_entry \<Rightarrow> bool" where
  "reverts_entry i r \<longleftrightarrow> le_entry_type r = ''adjustment'' \<and> meta_text ''kind'' r = Some ''tier_grant_revert''
     \<and> meta_text ''reverted_entry_id'' r = Some i"

definition latest_grant :: "uuid \<Rightarrow> bill_db \<Rightarrow> ledger_entry option" where
  "latest_grant org db = max_row le_ts (filter (\<lambda>e. is_tier_grant e \<and> le_org e = org) (b_ledger db))"

definition is_reverted :: "uuid \<Rightarrow> bill_db \<Rightarrow> bool" where
  "is_reverted i db \<longleftrightarrow> (\<exists>r \<in> set (b_ledger db). reverts_entry i r)"

definition latest_grants :: "bill_db \<Rightarrow> ledger_entry list" where
  "latest_grants db = filter (\<lambda>e. \<not> is_reverted (le_id e) db)
     (List.map_filter (\<lambda>org. latest_grant org db) (sort (remdups (map le_org (filter is_tier_grant (b_ledger db))))))"

definition revert_ref :: "uuid \<Rightarrow> string" where
  "revert_ref i = ''grant-revert:'' @ i"

definition revert_entry :: "ledger_entry \<Rightarrow> string \<Rightarrow> string \<Rightarrow> timestamp \<Rightarrow> ledger_entry" where
  "revert_entry e target prev now = \<lparr>le_id = ''ledger-grant-revert:'' @ le_id e, le_org = le_org e, le_ts = now,
     le_entry_type = ''adjustment'', le_amount = le_amount e, le_currency = le_currency e, le_direction = ''debit'',
     le_provider = None, le_provider_ref = Some (revert_ref (le_id e)), le_subscription = None,
     le_metadata = Some [(''kind'', JStr ''tier_grant_revert''), (''reverted_entry_id'', JStr (le_id e)),
       (''reverted_target_tier'', JStr target), (''reverted_to_tier'', JStr prev)]\<rparr>"

definition reverted_sub :: "string \<Rightarrow> org_subscription \<Rightarrow> org_subscription" where
  "reverted_sub prev s = s\<lparr>su_tier := prev, su_status := ''active'', su_period_start := None, su_period_end := None\<rparr>"

datatype grant_outcome = Reverted | Tier_changed | Not_expired

definition revert_grant :: "timestamp \<Rightarrow> ledger_entry \<Rightarrow> bill_db \<Rightarrow> grant_outcome billed" where
  "revert_grant now e db =
     (case (meta_time ''grant_expires_at'' e, meta_text ''target_tier'' e, meta_text ''prev_tier'' e) of
        (Some expires_at, Some target, Some prev) \<Rightarrow>
          if now \<le> expires_at then (Inr Not_expired, db)
          else if map_option su_tier (get_sub (le_org e) db) \<noteq> Some target then (Inr Tier_changed, db)
          else (case record_ledger_entry (revert_entry e target prev now) (upd_sub (le_org e) (reverted_sub prev) db) of
              (Inl err, _) \<Rightarrow> (Inl err, db) | (Inr _, db1) \<Rightarrow> (Inr Reverted, db1))
      | _ \<Rightarrow> (Inl (ServiceError ''KeyError'' ''entry_metadata''), db))"

definition sweep_expired_grants :: "timestamp \<Rightarrow> bill_db \<Rightarrow> grant_outcome list billed" where
  "sweep_expired_grants now db = sweep_loop (revert_grant now) (latest_grants db) db"

section \<open>Renewals\<close>

definition due_subs :: "timestamp \<Rightarrow> bill_db \<Rightarrow> org_subscription list" where
  "due_subs now db = filter (\<lambda>s. su_status s = ''active'' \<and> su_tier s \<noteq> ''free''
     \<and> (case su_period_end s of None \<Rightarrow> False | Some t \<Rightarrow> t \<le> now)) (b_subs db)"

definition renewal_call :: "(string \<Rightarrow> uuid) \<Rightarrow> uuid \<Rightarrow> string \<Rightarrow> int \<Rightarrow> string \<Rightarrow> charge_call" where
  "renewal_call ids org order_id amount currency = \<lparr>cc_new_id = ids order_id, cc_org = org, cc_order_id = order_id,
     cc_amount = amount, cc_currency = currency, cc_entry_type = ''charge'', cc_metadata = None\<rparr>"

datatype renewal_outcome = Renewed | Renewal_failed | Catalog_error

definition renewal_missed :: "timestamp \<Rightarrow> org_subscription \<Rightarrow> billing_order option \<Rightarrow> bill_db \<Rightarrow> bill_db" where
  "renewal_missed now s x db =
     notify_dunning_failure (su_org s) (su_tier s)
       ((case x of None \<Rightarrow> date_of now | Some y \<Rightarrow> date_of (bo_created_at y)) + b_grace_days db)
       (upd_sub (su_org s) (\<lambda>r. r\<lparr>su_status := ''past_due''\<rparr>) db)"

definition renew :: "toss \<Rightarrow> (string \<Rightarrow> uuid) \<Rightarrow> timestamp \<Rightarrow> org_subscription \<Rightarrow> bill_db \<Rightarrow> renewal_outcome billed" where
  "renew env ids now s db =
     (case (su_offering s, su_period_end s) of
        (Some ov, Some due) \<Rightarrow>
          (let order_id = renewal_order_id (su_org s) ov due in
           case compute_charge_amount (su_org s) db of
             Inl e \<Rightarrow> (Inr Catalog_error, db)
           | Inr (amount, currency) \<Rightarrow>
               (case charge_org env (renewal_call ids (su_org s) order_id amount currency) now db of
                  (r, db1) \<Rightarrow>
                    (let x = (case r of Inr y \<Rightarrow> Some y | Inl e \<Rightarrow> get_order order_id db1) in
                     if map_option bo_status x = Some OrderConfirmed
                     then (case compute_period_end due (su_cycle s) of
                         Inl e \<Rightarrow> (Inl e, db1)
                       | Inr period_end \<Rightarrow> (Inr Renewed, upd_sub (su_org s) (rolled_sub due period_end) db1))
                     else (Inr Renewal_failed, renewal_missed now s x db1))))
      | _ \<Rightarrow> (Inr Catalog_error, db))"

definition trigger_due_charges :: "toss \<Rightarrow> (string \<Rightarrow> uuid) \<Rightarrow> timestamp \<Rightarrow> bill_db \<Rightarrow> renewal_outcome list billed" where
  "trigger_due_charges env ids now db = sweep_loop (renew env ids now) (due_subs now db) db"

section \<open>Daily reconciliation\<close>

definition RECONCILIATION_LOOKBACK :: int where "RECONCILIATION_LOOKBACK = 604800000000"

datatype reconcile_outcome = Matched | Mismatched | Lookup_failed

definition paid_amount :: "jdict \<Rightarrow> int option" where
  "paid_amount b = (if text_field ''status'' b = Some ''DONE''
     then (case map_of b ''totalAmount'' of Some (JInt a) \<Rightarrow> Some a | _ \<Rightarrow> None) else None)"

definition adjustment_entry :: "billing_order \<Rightarrow> int option \<Rightarrow> string option \<Rightarrow> timestamp \<Rightarrow> ledger_entry" where
  "adjustment_entry x paid status now = (let diff = (case paid of None \<Rightarrow> 0 | Some a \<Rightarrow> a) - bo_amount x in
     \<lparr>le_id = ''ledger-reconciliation-adjustment:'' @ bo_order_id x, le_org = bo_org x, le_ts = now,
      le_entry_type = ''adjustment'', le_amount = \<bar>diff\<bar>, le_currency = bo_currency x,
      le_direction = (if 0 < diff then ''credit'' else ''debit''), le_provider = Some ''toss'',
      le_provider_ref = Some (''reconciliation-adjustment:'' @ bo_order_id x), le_subscription = None,
      le_metadata = Some [(''reason'', JStr ''daily_reconciliation_mismatch''), (''order_id'', JStr (bo_order_id x)),
        (''internal_amount_minor'', JInt (bo_amount x)),
        (''toss_amount_minor'', (case paid of None \<Rightarrow> JNull | Some a \<Rightarrow> JInt a)), (''toss_status'', jopt_str status)]\<rparr>)"

definition reconcile_order :: "toss \<Rightarrow> timestamp \<Rightarrow> billing_order \<Rightarrow> bill_db \<Rightarrow> reconcile_outcome billed" where
  "reconcile_order env now x db =
     (case toss_lookup env (bo_order_id x) of
        Body b \<Rightarrow>
          if paid_amount b = Some (bo_amount x) then (Inr Matched, db)
          else (case record_ledger_entry (adjustment_entry x (paid_amount b) (text_field ''status'' b) now) db of
              (Inl e, db1) \<Rightarrow> (Inl e, db1) | (Inr _, db1) \<Rightarrow> (Inr Mismatched, db1))
      | _ \<Rightarrow> (Inr Lookup_failed, db))"

definition daily_reconcile_confirmed_orders :: "toss \<Rightarrow> timestamp \<Rightarrow> bill_db \<Rightarrow> reconcile_outcome list billed" where
  "daily_reconcile_confirmed_orders env now db = sweep_loop (reconcile_order env now)
     (filter (\<lambda>x. bo_status x = OrderConfirmed \<and> now - RECONCILIATION_LOOKBACK \<le> bo_created_at x) (b_orders db)) db"

section \<open>The cron\<close>

record maintenance_result =
  mr_renewal :: "renewal_outcome list"
  mr_dunning :: "dunning_action list"
  mr_stale :: "stale_outcome list"
  mr_grants :: "grant_outcome list"
  mr_downgrades :: "downgrade_outcome list"

definition then_do :: "'a billed \<Rightarrow> ('a \<Rightarrow> bill_db \<Rightarrow> 'b billed) \<Rightarrow> 'b billed" where
  "then_do r f = (case r of (Inl e, db) \<Rightarrow> (Inl e, db) | (Inr a, db) \<Rightarrow> f a db)"

definition toss_billing_maintenance :: "toss \<Rightarrow> (string \<Rightarrow> uuid) \<Rightarrow> timestamp \<Rightarrow> bill_db \<Rightarrow> maintenance_result billed" where
  "toss_billing_maintenance env ids now db =
     then_do (trigger_due_charges env ids now db) (\<lambda>a db1.
     then_do (sweep_dunning_retries env ids now db1) (\<lambda>b db2.
     then_do (sweep_stale_pending_orders env now db2) (\<lambda>c db3.
     then_do (sweep_expired_grants now db3) (\<lambda>d db4.
     then_do (sweep_pending_tier_downgrades now db4) (\<lambda>e db5.
       (Inr \<lparr>mr_renewal = a, mr_dunning = b, mr_stale = c, mr_grants = d, mr_downgrades = e\<rparr>, db5))))))"

end
