(* ===== verification/Billing_Effects.thy ===== *)
theory Billing_Effects
  imports Billing_Scheduler
begin

text \<open>
  What the operations of billing do to orders and ledger.  The ledger is a journal: the interface
  \<^verbatim>\<open>journal\<close> says how an entry with a reference is put, its lemmas what follows for any sequence of
  entries, and the ledger of the model is an instance.  An order only evolves: its identity and price
  stay, and once confirmed it stays confirmed with its payment.
\<close>

section \<open>The contract of the ledger\<close>

locale journal =
  fixes entries :: "'s \<Rightarrow> 'e list" and ref :: "'e \<Rightarrow> 'k option" and put :: "'e \<Rightarrow> 's \<Rightarrow> 's"
  assumes put: "entries (put e s)
      = (if ref e \<noteq> None \<and> ref e \<in> ref ` set (entries s) then entries s else entries s @ [e])"
begin

lemma put_prefix: "\<exists>es. entries (put e s) = entries s @ es"
  by (simp add: put)

lemma put_subset: "set (entries s) \<subseteq> set (entries (put e s))"
  by (auto simp: put)

lemma put_known: "ref e \<noteq> None \<Longrightarrow> ref e \<in> ref ` set (entries (put e s))"
  by (simp add: put)

lemma put_same_ref: "ref e' = ref e \<Longrightarrow> ref e \<noteq> None \<Longrightarrow> entries (put e' (put e s)) = entries (put e s)"
  by (simp add: put)

lemma put_distinct:
  "distinct (filter (\<lambda>r. r \<noteq> None) (map ref (entries s))) \<Longrightarrow>
   distinct (filter (\<lambda>r. r \<noteq> None) (map ref (entries (put e s))))"
  by (auto simp: put)

lemma put_new: "x \<in> set (entries (put e s)) \<Longrightarrow> x \<in> set (entries s) \<or> x = e"
  by (auto simp: put split: if_splits)

lemma puts_prefix: "\<exists>new. entries (fold put es s) = entries s @ new"
proof (induction es arbitrary: s)
  case (Cons e es)
  then show ?case using put_prefix [of e s] by (metis append.assoc fold_simps(2))
qed simp

end

lemma find_entry_None: "find_entry r db = None \<longleftrightarrow> r = None \<or> r \<notin> le_provider_ref ` set (b_ledger db)"
  by (cases r) (auto simp: find_entry_def find_None_iff image_iff)

interpretation ledger: journal b_ledger le_provider_ref book
  by unfold_locales (simp add: book_def find_entry_None)

lemma record_ledger_entry_booked:
  "record_ledger_entry e db = (Inr r, db') \<Longrightarrow> db' = book e db \<and> (r = e \<or> r \<in> set (b_ledger db))"
  by (auto simp: record_ledger_entry_def book_def find_entry_def dest!: find_SomeD
      split: if_splits option.splits)

lemma record_ledger_entry_failed: "record_ledger_entry e db = (Inl x, db') \<Longrightarrow> db' = db"
  by (auto simp: record_ledger_entry_def split: if_splits option.splits)

lemma book_frame [simp]:
  "b_orders (book e db) = b_orders db" "b_subs (book e db) = b_subs db" "b_keys (book e db) = b_keys db"
  "b_offerings (book e db) = b_offerings db" "b_members (book e db) = b_members db"
  by (simp_all add: book_def)

section \<open>Orders evolve\<close>

definition evolves :: "billing_order \<Rightarrow> billing_order \<Rightarrow> bool" where
  "evolves x y \<longleftrightarrow> bo_order_id y = bo_order_id x \<and> bo_org y = bo_org x \<and> bo_amount y = bo_amount x
     \<and> bo_currency y = bo_currency x \<and> bo_purpose y = bo_purpose x \<and> bo_created_at y = bo_created_at x
     \<and> (bo_status x = OrderConfirmed \<longrightarrow> bo_status y = OrderConfirmed \<and> bo_payment_key y = bo_payment_key x)"

lemma evolves_refl [simp]: "evolves x x"
  by (simp add: evolves_def)

lemma evolves_trans: "evolves x y \<Longrightarrow> evolves y z \<Longrightarrow> evolves x z"
  by (simp add: evolves_def)

definition orders_evolve :: "bill_db \<Rightarrow> bill_db \<Rightarrow> bool" where
  "orders_evolve db db' \<longleftrightarrow> (\<forall>x \<in> set (b_orders db). \<exists>y \<in> set (b_orders db'). evolves x y)"

lemma orders_evolve_same: "b_orders db' = b_orders db \<Longrightarrow> orders_evolve db db'"
  unfolding orders_evolve_def by (metis evolves_refl)

lemma orders_evolve_refl [simp]: "orders_evolve db db"
  by (rule orders_evolve_same) simp

lemma orders_evolve_trans: "orders_evolve a b \<Longrightarrow> orders_evolve b c \<Longrightarrow> orders_evolve a c"
  unfolding orders_evolve_def by (meson evolves_trans)

lemma orders_evolve_append: "b_orders db' = b_orders db @ xs \<Longrightarrow> orders_evolve db db'"
  unfolding orders_evolve_def by (metis Un_iff evolves_refl set_append)

lemma upd_row_in: "x \<in> set rs \<Longrightarrow> (if key x = i then f x else x) \<in> set (upd_row key i f rs)"
  by (auto simp: upd_row_def)

lemma upd_order_evolve:
  assumes "\<And>x. x \<in> set (b_orders db) \<Longrightarrow> bo_order_id x = i \<Longrightarrow> evolves x (f x)"
  shows "orders_evolve db (upd_order i f db)"
  unfolding orders_evolve_def
proof
  fix x assume x: "x \<in> set (b_orders db)"
  then have "evolves x (if bo_order_id x = i then f x else x)" using assms by simp
  then show "\<exists>y \<in> set (b_orders (upd_order i f db)). evolves x y"
    using upd_row_in [OF x, of bo_order_id i f] by (auto simp: upd_order_def)
qed

lemma upd_order_frame [simp]:
  "b_ledger (upd_order i f db) = b_ledger db" "b_subs (upd_order i f db) = b_subs db"
  "b_keys (upd_order i f db) = b_keys db" "b_offerings (upd_order i f db) = b_offerings db"
  "b_members (upd_order i f db) = b_members db" "b_grace_days (upd_order i f db) = b_grace_days db"
  by (simp_all add: upd_order_def)

lemma upd_sub_frame [simp]:
  "b_orders (upd_sub i f db) = b_orders db" "b_ledger (upd_sub i f db) = b_ledger db"
  "b_keys (upd_sub i f db) = b_keys db" "b_offerings (upd_sub i f db) = b_offerings db"
  "b_members (upd_sub i f db) = b_members db" "b_grace_days (upd_sub i f db) = b_grace_days db"
  "b_orgs (upd_sub i f db) = b_orgs db"
  by (simp_all add: upd_sub_def)

text \<open>Rows of orders and subscriptions are read back as they were written.\<close>

interpretation order_rows: row_table bo_order_id "find_row bo_order_id" "upd_row bo_order_id"
  by (rule row_table_rows)

interpretation sub_rows: row_table su_org "find_row su_org" "upd_row su_org"
  by (rule row_table_rows)

lemma get_order_upd:
  "(\<And>x. bo_order_id (f x) = bo_order_id x) \<Longrightarrow>
   get_order j (upd_order i f db) = (if j = i then map_option f (get_order j db) else get_order j db)"
  by (simp add: get_order_def upd_order_def order_rows.get_upd)

lemma get_sub_upd:
  "(\<And>x. su_org (f x) = su_org x) \<Longrightarrow>
   get_sub j (upd_sub i f db) = (if j = i then map_option f (get_sub j db) else get_sub j db)"
  by (simp add: get_sub_def upd_sub_def sub_rows.get_upd)

lemma get_sub_frame: "b_subs db' = b_subs db \<Longrightarrow> get_sub i db' = get_sub i db"
  by (simp add: get_sub_def)

lemma get_order_frame: "b_orders db' = b_orders db \<Longrightarrow> get_order i db' = get_order i db"
  by (simp add: get_order_def)

lemma get_orderD: "get_order i db = Some x \<Longrightarrow> x \<in> set (b_orders db) \<and> bo_order_id x = i"
  unfolding get_order_def by (rule find_row_Some)

lemma get_subD: "get_sub i db = Some x \<Longrightarrow> x \<in> set (b_subs db) \<and> su_org x = i"
  unfolding get_sub_def by (rule find_row_Some)

text \<open>The single transactions.\<close>

lemma mark_failed_evolve: "orders_evolve db (mark_failed_if_not_confirmed i r now db)"
  unfolding mark_failed_if_not_confirmed_def by (rule upd_order_evolve) (simp add: evolves_def)

lemma confirm_order_evolve: "orders_evolve db (confirm_order i k now db)"
  unfolding confirm_order_def by (rule upd_order_evolve) (simp add: evolves_def)

lemma close_order_evolve: "orders_evolve db (close_order i now db)"
  unfolding close_order_def by (rule upd_order_evolve) (simp add: evolves_def)

lemma mark_failed_frame [simp]:
  "b_ledger (mark_failed_if_not_confirmed i r now db) = b_ledger db"
  "b_subs (mark_failed_if_not_confirmed i r now db) = b_subs db"
  by (simp_all add: mark_failed_if_not_confirmed_def)

lemma confirm_order_frame [simp]:
  "b_ledger (confirm_order i k now db) = b_ledger db" "b_subs (confirm_order i k now db) = b_subs db"
  by (simp_all add: confirm_order_def)

lemma claim_order_cases:
  assumes "claim_order c now db = (r, db')"
  obtains "db' = db" | "r = Inr True" "get_order (cc_order_id c) db = None"
      "db' = db\<lparr>b_orders := b_orders db @ [new_order c now]\<rparr>" "cc_currency c \<in> set CURRENCIES"
proof (cases "db' = db")
  case True
  then show thesis by (rule that(1))
next
  case False
  then show thesis
    by (intro that(2)) (use assms in \<open>simp_all add: claim_order_def split: if_splits\<close>)
qed

lemma reclaim_order_cases:
  assumes "reclaim_order i now db = (r, db')"
  obtains "db' = db" "\<not> r" | x where "r" "get_order i db = Some x" "bo_status x = OrderFailed"
      "db' = upd_order i (\<lambda>x. x\<lparr>bo_status := OrderPending, bo_updated_at := now\<rparr>) db"
  using assms by (auto simp: reclaim_order_def split: if_splits option.splits)

text \<open>An order that is not failed is not touched by the reclaim of another one.\<close>

lemma reclaim_order_evolve:
  assumes "distinct (map bo_order_id (b_orders db))" "reclaim_order i now db = (r, db')"
  shows "orders_evolve db db'"
  using assms(2)
proof (cases rule: reclaim_order_cases)
  case (2 x)
  have "z = x" if "z \<in> set (b_orders db)" "bo_order_id z = i" for z
    using find_row_member [OF assms(1) that(1)] that(2) 2(2) by (simp add: get_order_def)
  then show ?thesis unfolding 2(4) by (intro upd_order_evolve) (use 2(3) in \<open>auto simp: evolves_def\<close>)
qed simp

section \<open>What one step of a charge does\<close>

text \<open>A step changes nothing but orders and ledger; it claims, reclaims, fails or confirms its own
order, or books its payment.\<close>

inductive charge_effect :: "charge_call \<Rightarrow> timestamp \<Rightarrow> charge_pc \<Rightarrow> charge_pc \<Rightarrow> bill_db \<Rightarrow> bill_db \<Rightarrow> bool"
  for c :: charge_call and now :: timestamp where
  nothing: "charge_effect c now pc pc' db db"
| claims: "get_order (cc_order_id c) db = None \<Longrightarrow> 0 < cc_amount c \<Longrightarrow> cc_currency c \<in> set CURRENCIES \<Longrightarrow>
    charge_effect c now Claim Key_check db (db\<lparr>b_orders := b_orders db @ [new_order c now]\<rparr>)"
| reclaims: "reclaim_order (cc_order_id c) now db = (True, db') \<Longrightarrow> charge_effect c now Reclaim Key_check db db'"
| fails: "charge_effect c now pc pc' db (mark_failed_if_not_confirmed (cc_order_id c) reason now db)"
| books: "charge_effect c now (Book key) (Confirm key) db (book (charge_entry c key now) db)"
| confirms: "charge_effect c now (Confirm key) Refetch db (confirm_order (cc_order_id c) key now db)"

lemma charge_step_effect:
  assumes "charge_step env c now pc db = (pc', db')"
  shows "charge_effect c now pc pc' db db'"
proof (cases pc)
  case Claim
  show ?thesis
  proof (cases "cc_amount c \<le> 0")
    case True
    then show ?thesis using assms Claim by (auto intro: charge_effect.nothing)
  next
    case False
    obtain r d where cl: "claim_order c now db = (r, d)" by fastforce
    then show ?thesis
    proof (cases rule: claim_order_cases)
      case 1
      then show ?thesis using assms Claim False cl by (auto intro: charge_effect.nothing split: sum.splits)
    next
      case 2
      then show ?thesis using assms Claim False cl by (auto intro: charge_effect.claims)
    qed
  qed
next
  case Reclaim
  obtain r d where rc: "reclaim_order (cc_order_id c) now db = (r, d)" by fastforce
  have "d = db" if "\<not> r" using rc that by (auto elim: reclaim_order_cases)
  then show ?thesis
    using assms Reclaim rc by (cases r) (auto intro: charge_effect.reclaims charge_effect.nothing)
next
  case (Book key)
  obtain r d where b: "record_ledger_entry (charge_entry c key now) db = (r, d)" by fastforce
  show ?thesis
  proof (cases r)
    case (Inl e)
    then have "d = db" using b record_ledger_entry_failed by blast
    then show ?thesis using assms Book b Inl by (auto intro: charge_effect.nothing)
  next
    case (Inr e)
    then have "d = book (charge_entry c key now) db" using b record_ledger_entry_booked by blast
    then show ?thesis using assms Book b Inr by (auto intro: charge_effect.books)
  qed
next
  case Contested
  then show ?thesis using assms by (auto intro: charge_effect.intros split: option.splits)
next
  case Key_check
  then show ?thesis using assms by (auto simp: key_check_def intro: charge_effect.intros split: if_splits option.splits)
next
  case (Answered a)
  then show ?thesis
    using assms by (auto simp: answered_def intro: charge_effect.intros split: toss_answer.splits if_splits option.splits)
next
  case (Looked a)
  then show ?thesis
    using assms by (auto simp: looked_def intro: charge_effect.intros split: toss_answer.splits if_splits option.splits)
next
  case (Stale_looked a)
  then show ?thesis
    using assms by (auto simp: stale_looked_def intro: charge_effect.intros split: toss_answer.splits if_splits option.splits)
next
  case (Confirm key)
  then show ?thesis using assms by (auto intro: charge_effect.confirms)
qed (use assms in \<open>auto intro: charge_effect.nothing\<close>)

lemma charge_effect_subs: "charge_effect c now pc pc' db db' \<Longrightarrow> b_subs db' = b_subs db"
  by (cases rule: charge_effect.cases) (auto elim: reclaim_order_cases)

lemma charge_effect_ids:
  assumes "charge_effect c now pc pc' db db'" "distinct (map bo_order_id (b_orders db))"
  shows "distinct (map bo_order_id (b_orders db')) \<and> orders_evolve db db'"
  using assms
proof (cases rule: charge_effect.cases)
  case claims
  then show ?thesis
    using assms(2) by (auto simp: get_order_def find_row_None new_order_def intro: orders_evolve_append)
next
  case reclaims
  then show ?thesis
    using assms(2) reclaim_order_evolve
    by (auto elim!: reclaim_order_cases simp: upd_order_def upd_row_map_key)
next
  case (fails reason)
  then show ?thesis
    using assms(2) mark_failed_evolve by (auto simp: mark_failed_if_not_confirmed_def upd_order_def upd_row_map_key)
next
  case (confirms key)
  then show ?thesis
    using assms(2) confirm_order_evolve by (auto simp: confirm_order_def upd_order_def upd_row_map_key)
qed (use assms(2) in \<open>simp_all add: orders_evolve_same\<close>)

lemma charge_effect_ledger:
  "charge_effect c now pc pc' db db' \<Longrightarrow> set (b_ledger db) \<subseteq> set (b_ledger db')"
  by (cases rule: charge_effect.cases) (use ledger.put_subset in \<open>auto elim: reclaim_order_cases\<close>)

section \<open>What a whole charge does\<close>

lemma run_charge_frame:
  assumes "distinct (map bo_order_id (b_orders db))"
  shows "b_subs (snd (run_charge env c now pc db)) = b_subs db
    \<and> distinct (map bo_order_id (b_orders (snd (run_charge env c now pc db))))
    \<and> orders_evolve db (snd (run_charge env c now pc db))
    \<and> set (b_ledger db) \<subseteq> set (b_ledger (snd (run_charge env c now pc db)))"
proof -
  let ?P = "\<lambda>pc d. b_subs d = b_subs db \<and> distinct (map bo_order_id (b_orders d)) \<and> orders_evolve db d
    \<and> set (b_ledger db) \<subseteq> set (b_ledger d)"
  have "?P (fst (run_charge env c now pc db)) (snd (run_charge env c now pc db))"
  proof (rule run_charge_keeps [where P = ?P])
    show "?P pc db" using assms by simp
    fix pc d
    assume p: "?P pc d"
    have "charge_effect c now pc (fst (charge_step env c now pc d)) d (snd (charge_step env c now pc d))"
      by (rule charge_step_effect) simp
    then show "?P (fst (charge_step env c now pc d)) (snd (charge_step env c now pc d))"
      using p charge_effect_subs charge_effect_ids charge_effect_ledger orders_evolve_trans by (metis subset_trans)
  qed
  then show ?thesis by simp
qed

lemma charge_org_run: "charge_org env c now db = (outcome_of (fst (run_charge env c now Claim db)), snd (run_charge env c now Claim db))"
  by (simp add: charge_org_def split_beta)

lemma charge_org_subs: 
  "distinct (map bo_order_id (b_orders db)) \<Longrightarrow> b_subs (snd (charge_org env c now db)) = b_subs db"
  using run_charge_frame [of db env c now Claim] by (simp add: charge_org_run)

end
