(* ===== verification/Billing_Machine.thy ===== *)
theory Billing_Machine
  imports Billing_Effects Publication_Machine
begin

text \<open>
  Billing as a system: any number of charges and reconciliations under way, each performing the
  transactions of charge_step in turn, in any interleaving; a process may die between any two of them;
  the provider takes the money of an order at most once and may not be heard when it has; other
  services write the rest of the database and their own entries of the ledger.  The specification is a
  cash book: what was paid, and which payments are booked.
\<close>

section \<open>The provider\<close>

text \<open>
  What the provider documents (services/billing_charge.py, toss_adapter.py): an order that was paid is
  not charged again, a charge is approved with a new payment key, refused or not answered, and an
  answer that is lost may have been an approval.  A lookup names the key of the order's payment.
\<close>

type_synonym payments = "(string \<times> string) list"

inductive provider_charge :: "payments \<Rightarrow> string set \<Rightarrow> string \<Rightarrow> toss_answer \<Rightarrow> payments \<Rightarrow> bool" where
  refused: "provider_charge paid used i (ApiError code) paid"
| unheard: "provider_charge paid used i Unreachable paid"
| approved: "i \<notin> fst ` set paid \<Longrightarrow> key \<notin> snd ` set paid \<Longrightarrow> key \<notin> used \<Longrightarrow>
    a = Unreachable \<or> (\<exists>b. a = Body b \<and> text_field ''paymentKey'' b \<in> {None, Some key}) \<Longrightarrow>
    provider_charge paid used i a (paid @ [(i, key)])"

definition provider_lookup :: "payments \<Rightarrow> string \<Rightarrow> toss_answer \<Rightarrow> bool" where
  "provider_lookup paid i a \<longleftrightarrow> (case a of
     Body b \<Rightarrow> text_field ''status'' b = Some ''DONE'' \<longrightarrow>
        (case text_field ''paymentKey'' b of None \<Rightarrow> True | Some key \<Rightarrow> (i, key) \<in> set paid)
   | _ \<Rightarrow> True)"

section \<open>The system\<close>

record bill_sys =
  bs_db :: bill_db
  bs_paid :: payments
  bs_workers :: "(charge_call \<times> charge_pc) list"

datatype bill_label = Pays string string | Books string string | Works

definition refs :: "bill_db \<Rightarrow> string set" where
  "refs db = {r. \<exists>e \<in> set (b_ledger db). le_provider_ref e = Some r}"

definition asks_provider :: "charge_pc \<Rightarrow> bool" where
  "asks_provider pc \<longleftrightarrow> (\<exists>plain customer. pc = Send plain customer) \<or> pc = Lookup \<or> pc = Stale"

definition agreed :: "(string \<Rightarrow> uuid \<Rightarrow> int \<Rightarrow> string \<Rightarrow> bool) \<Rightarrow> charge_call \<Rightarrow> bool" where
  \<comment> \<open>the terms on which an order is charged: organisation, amount and currency\<close>
  "agreed terms c \<longleftrightarrow> terms (cc_order_id c) (cc_org c) (cc_amount c) (cc_currency c)"

definition label_of :: "charge_call \<Rightarrow> charge_pc \<Rightarrow> bill_label" where
  \<comment> \<open>a worker has booked a payment when the confirmation is next\<close>
  "label_of c pc' = (case pc' of Confirm key \<Rightarrow> Books (cc_order_id c) key | _ \<Rightarrow> Works)"

inductive bill_step :: "(string \<Rightarrow> uuid \<Rightarrow> int \<Rightarrow> string \<Rightarrow> bool) \<Rightarrow> bill_label \<Rightarrow> bill_sys \<Rightarrow> bill_sys \<Rightarrow> bool"
  for terms :: "string \<Rightarrow> uuid \<Rightarrow> int \<Rightarrow> string \<Rightarrow> bool" where
  begins: "agreed terms c \<Longrightarrow>
    bill_step terms Works s (s\<lparr>bs_workers := bs_workers s @ [(c, Claim)]\<rparr>)"
| retries: "x \<in> set (b_orders (bs_db s)) \<Longrightarrow> pc \<in> {Claim, Stale} \<Longrightarrow>
    bill_step terms Works s (s\<lparr>bs_workers := bs_workers s @ [(retry_call x, pc)]\<rparr>)"
| works: "j < length (bs_workers s) \<Longrightarrow> bs_workers s ! j = (c, pc) \<Longrightarrow> \<not> asks_provider pc \<Longrightarrow>
    0 < steps_left pc \<Longrightarrow> charge_step env c now pc (bs_db s) = (pc', db') \<Longrightarrow>
    bill_step terms (label_of c pc') s (s\<lparr>bs_db := db', bs_workers := (bs_workers s)[j := (c, pc')]\<rparr>)"
| sends: "j < length (bs_workers s) \<Longrightarrow> bs_workers s ! j = (c, Send plain customer) \<Longrightarrow>
    provider_charge (bs_paid s) (refs (bs_db s)) (cc_order_id c) a paid' \<Longrightarrow>
    l = (if paid' = bs_paid s then Works else Pays (cc_order_id c) (snd (last paid'))) \<Longrightarrow>
    bill_step terms l s (s\<lparr>bs_paid := paid', bs_workers := (bs_workers s)[j := (c, Answered a)]\<rparr>)"
| looks: "j < length (bs_workers s) \<Longrightarrow> bs_workers s ! j = (c, pc) \<Longrightarrow> (pc, pc') \<in> {(Lookup, Looked a), (Stale, Stale_looked a)} \<Longrightarrow>
    provider_lookup (bs_paid s) (cc_order_id c) a \<Longrightarrow>
    bill_step terms Works s (s\<lparr>bs_workers := (bs_workers s)[j := (c, pc')]\<rparr>)"
| dies: "bill_step terms Works s (s\<lparr>bs_workers := take j (bs_workers s) @ drop (Suc j) (bs_workers s)\<rparr>)"
| closes: "bill_step terms Works s (s\<lparr>bs_db := close_order i now (bs_db s)\<rparr>)"
| marks_refund: "bill_step terms Works s (s\<lparr>bs_db := upd_order i
      (\<lambda>x. x\<lparr>bo_refund_status := Some outcome, bo_updated_at := now\<rparr>) (bs_db s)\<rparr>)"
| other_entry: "(\<And>r. le_provider_ref e = Some r \<Longrightarrow> r \<notin> snd ` set (bs_paid s)) \<Longrightarrow>
    record_ledger_entry e (bs_db s) = (r', db') \<Longrightarrow>
    bill_step terms Works s (s\<lparr>bs_db := db'\<rparr>)"
| elsewhere: "b_orders db' = b_orders (bs_db s) \<Longrightarrow> b_ledger db' = b_ledger (bs_db s) \<Longrightarrow>
    bill_step terms Works s (s\<lparr>bs_db := db'\<rparr>)"

definition bill_init :: "bill_sys \<Rightarrow> bool" where
  "bill_init s \<longleftrightarrow> b_orders (bs_db s) = [] \<and> b_ledger (bs_db s) = [] \<and> bs_paid s = [] \<and> bs_workers s = []"

section \<open>The invariant\<close>

definition named_key :: "toss_answer \<Rightarrow> string option" where
  "named_key a = (case a of Body b \<Rightarrow> text_field ''paymentKey'' b | _ \<Rightarrow> None)"

definition done_key :: "toss_answer \<Rightarrow> string option" where
  "done_key a = (case a of Body b \<Rightarrow> if text_field ''status'' b = Some ''DONE'' then text_field ''paymentKey'' b else None | _ \<Rightarrow> None)"

definition believes :: "charge_pc \<Rightarrow> string option" where
  \<comment> \<open>the payment a worker has learned of\<close>
  "believes pc = (case pc of Answered a \<Rightarrow> named_key a | Looked a \<Rightarrow> done_key a | Stale_looked a \<Rightarrow> done_key a
     | Book key \<Rightarrow> Some key | Confirm key \<Rightarrow> Some key | _ \<Rightarrow> None)"

definition biller_ok :: "(string \<Rightarrow> uuid \<Rightarrow> int \<Rightarrow> string \<Rightarrow> bool) \<Rightarrow> payments \<Rightarrow> bill_db \<Rightarrow> charge_call \<times> charge_pc \<Rightarrow> bool" where
  "biller_ok terms paid db w \<longleftrightarrow> agreed terms (fst w)
     \<and> (\<forall>key. believes (snd w) = Some key \<longrightarrow> (cc_order_id (fst w), key) \<in> set paid)
     \<and> (\<forall>key. snd w = Confirm key \<longrightarrow> key \<in> refs db)"

definition order_ok :: "(string \<Rightarrow> uuid \<Rightarrow> int \<Rightarrow> string \<Rightarrow> bool) \<Rightarrow> payments \<Rightarrow> bill_db \<Rightarrow> billing_order \<Rightarrow> bool" where
  "order_ok terms paid db x \<longleftrightarrow> terms (bo_order_id x) (bo_org x) (bo_amount x) (bo_currency x)
     \<and> (bo_status x = OrderConfirmed \<longrightarrow>
          (\<exists>key. bo_payment_key x = Some key \<and> (bo_order_id x, key) \<in> set paid \<and> key \<in> refs db))"

definition entry_ok :: "(string \<Rightarrow> uuid \<Rightarrow> int \<Rightarrow> string \<Rightarrow> bool) \<Rightarrow> payments \<Rightarrow> ledger_entry \<Rightarrow> bool" where
  "entry_ok terms paid e \<longleftrightarrow> (\<forall>i key. le_provider_ref e = Some key \<longrightarrow> (i, key) \<in> set paid \<longrightarrow>
     le_direction e = ''credit'' \<and> terms i (le_org e) (le_amount e) (le_currency e))"

definition distinct_refs :: "bill_db \<Rightarrow> bool" where
  "distinct_refs db \<longleftrightarrow> distinct (filter (\<lambda>r. r \<noteq> None) (map le_provider_ref (b_ledger db)))"

definition bill_inv :: "(string \<Rightarrow> uuid \<Rightarrow> int \<Rightarrow> string \<Rightarrow> bool) \<Rightarrow> bill_sys \<Rightarrow> bool" where
  "bill_inv terms s \<longleftrightarrow>
     distinct (map fst (bs_paid s)) \<and> distinct (map snd (bs_paid s))
     \<and> distinct (map bo_order_id (b_orders (bs_db s))) \<and> distinct_refs (bs_db s)
     \<and> (\<forall>w \<in> set (bs_workers s). biller_ok terms (bs_paid s) (bs_db s) w)
     \<and> (\<forall>x \<in> set (b_orders (bs_db s)). order_ok terms (bs_paid s) (bs_db s) x)
     \<and> (\<forall>e \<in> set (b_ledger (bs_db s)). entry_ok terms (bs_paid s) e)"

lemma bill_init_inv: "bill_init s \<Longrightarrow> bill_inv terms s"
  by (simp add: bill_init_def bill_inv_def distinct_refs_def)

lemma ledger_single:
  assumes "distinct_refs db" "e \<in> set (b_ledger db)" "le_provider_ref e = Some key"
  shows "filter (\<lambda>e. le_provider_ref e = Some key) (b_ledger db) = [e]"
proof -
  have "distinct (filter (\<lambda>r. r \<noteq> None) (map le_provider_ref es)) \<Longrightarrow> e \<in> set es \<Longrightarrow>
    filter (\<lambda>e. le_provider_ref e = Some key) es = [e]" for es
  proof (induction es)
    case (Cons y es)
    show ?case
    proof (cases "le_provider_ref y = Some key")
      case True
      then have "Some key \<notin> le_provider_ref ` set es" using Cons.prems(1) by auto
      then have "filter (\<lambda>e. le_provider_ref e = Some key) es = []" "y = e"
        using Cons.prems(2) assms(3) by (auto simp: filter_empty_conv image_iff)
      then show ?thesis using True by simp
    next
      case False
      then show ?thesis using Cons assms(3) by (auto split: if_splits)
    qed
  qed simp
  then show ?thesis using assms(1,2) by (simp add: distinct_refs_def)
qed

subsection \<open>More payments, more entries\<close>

lemma biller_ok_mono:
  "biller_ok terms paid db w \<Longrightarrow> set paid \<subseteq> set paid' \<Longrightarrow> refs db \<subseteq> refs db' \<Longrightarrow> biller_ok terms paid' db' w"
  by (auto simp: biller_ok_def)

lemma order_ok_mono:
  "order_ok terms paid db x \<Longrightarrow> set paid \<subseteq> set paid' \<Longrightarrow> refs db \<subseteq> refs db' \<Longrightarrow> order_ok terms paid' db' x"
  unfolding order_ok_def by blast

lemma entry_ok_new_payment:
  "entry_ok terms paid e \<Longrightarrow> e \<in> set (b_ledger db) \<Longrightarrow> key \<notin> refs db \<Longrightarrow> entry_ok terms (paid @ [(i, key)]) e"
  by (auto simp: entry_ok_def refs_def)

lemma refs_same: "b_ledger db' = b_ledger db \<Longrightarrow> refs db' = refs db"
  by (simp add: refs_def)

lemma refs_upd_order [simp]: "refs (upd_order i f db) = refs db"
  by (simp add: refs_def)

lemma refs_book: "refs (book e db) = refs db \<union> set_option (le_provider_ref e)"
  by (auto simp: refs_def ledger.put image_iff)

lemma distinct_refs_book: "distinct_refs db \<Longrightarrow> distinct_refs (book e db)"
  unfolding distinct_refs_def by (rule ledger.put_distinct)

lemma in_replaced: "w \<in> set (ws[j := v]) \<Longrightarrow> w \<in> set ws \<or> w = v"
  using set_update_subset_insert by fastforce

lemma in_dropped: "w \<in> set (take j ws @ drop (Suc j) ws) \<Longrightarrow> w \<in> set ws"
  by (auto dest: in_set_takeD in_set_dropD)

text \<open>An update of orders that evolves them and confirms only what is paid and booked.\<close>

lemma orders_ok_upd:
  assumes "\<forall>x \<in> set (b_orders db). order_ok terms paid db x"
    and "\<And>x. x \<in> set (b_orders db) \<Longrightarrow> bo_order_id x = i \<Longrightarrow> order_ok terms paid db x \<Longrightarrow> order_ok terms paid db (f x)"
    and "refs db \<subseteq> refs (upd_order i f db)"
  shows "\<forall>x \<in> set (b_orders (upd_order i f db)). order_ok terms paid (upd_order i f db) x"
proof
  fix y assume "y \<in> set (b_orders (upd_order i f db))"
  then obtain x where x: "x \<in> set (b_orders db)" "y = (if bo_order_id x = i then f x else x)"
    by (auto simp: upd_order_def upd_row_def)
  then have "order_ok terms paid db y" using assms(1,2) by auto
  then show "order_ok terms paid (upd_order i f db) y" using assms(3) order_ok_mono by blast
qed

lemma ids_upd_order:
  "(\<And>x. bo_order_id (f x) = bo_order_id x) \<Longrightarrow> map bo_order_id (b_orders (upd_order i f db)) = map bo_order_id (b_orders db)"
  by (simp add: upd_order_def upd_row_map_key)

subsection \<open>A step of a worker\<close>

lemma charge_step_believes:
  assumes "charge_step env c now pc db = (pc', db')" "\<not> asks_provider pc" "believes pc' = Some key"
  shows "believes pc = Some key"
  using assms
  by (cases pc)
    (auto simp: asks_provider_def believes_def named_key_def done_key_def key_check_def answered_def looked_def
      stale_looked_def refetch_def
      split: option.splits prod.splits sum.splits toss_answer.splits if_splits)

lemma charge_step_confirm:
  assumes "charge_step env c now pc db = (Confirm key, db')"
  shows "db' = book (charge_entry c key now) db"
  using assms record_ledger_entry_booked [of "charge_entry c key now" db]
  by (cases pc)
    (auto simp: key_check_def answered_def looked_def stale_looked_def refetch_def
      split: option.splits prod.splits sum.splits toss_answer.splits if_splits)

definition db_inv :: "(string \<Rightarrow> uuid \<Rightarrow> int \<Rightarrow> string \<Rightarrow> bool) \<Rightarrow> payments \<Rightarrow> bill_db \<Rightarrow> bool" where
  "db_inv terms paid db \<longleftrightarrow> distinct (map bo_order_id (b_orders db)) \<and> distinct_refs db
     \<and> (\<forall>x \<in> set (b_orders db). order_ok terms paid db x)
     \<and> (\<forall>e \<in> set (b_ledger db). entry_ok terms paid e)"

lemma bill_inv_db: "bill_inv terms s \<longleftrightarrow>
     distinct (map fst (bs_paid s)) \<and> distinct (map snd (bs_paid s)) \<and> db_inv terms (bs_paid s) (bs_db s)
     \<and> (\<forall>w \<in> set (bs_workers s). biller_ok terms (bs_paid s) (bs_db s) w)"
  by (auto simp: bill_inv_def db_inv_def)

lemma db_inv_upd_order:
  assumes "db_inv terms paid db" "\<And>x. bo_order_id (f x) = bo_order_id x"
    and "\<And>x. x \<in> set (b_orders db) \<Longrightarrow> bo_order_id x = i \<Longrightarrow> order_ok terms paid db x \<Longrightarrow> order_ok terms paid db (f x)"
  shows "db_inv terms paid (upd_order i f db)"
proof -
  have "\<forall>x \<in> set (b_orders (upd_order i f db)). order_ok terms paid (upd_order i f db) x"
    using assms(1) by (intro orders_ok_upd assms(3)) (simp_all add: db_inv_def)
  moreover have "distinct (map bo_order_id (b_orders (upd_order i f db)))"
    using ids_upd_order [OF assms(2)] assms(1) by (simp add: db_inv_def)
  moreover have "distinct_refs (upd_order i f db)" "\<forall>e \<in> set (b_ledger (upd_order i f db)). entry_ok terms paid e"
    using assms(1) by (simp_all add: db_inv_def distinct_refs_def)
  ultimately show ?thesis by (simp add: db_inv_def)
qed

lemma db_inv_book:
  assumes "db_inv terms paid db" "entry_ok terms paid e"
  shows "db_inv terms paid (book e db)"
proof -
  have "\<forall>x \<in> set (b_orders (book e db)). order_ok terms paid (book e db) x"
    using assms(1) order_ok_mono [of terms paid db _ paid "book e db"] by (simp add: db_inv_def refs_book)
  moreover have "\<forall>x \<in> set (b_ledger (book e db)). entry_ok terms paid x"
    using assms ledger.put_new [of _ e db] by (auto simp: db_inv_def)
  ultimately show ?thesis using assms(1) distinct_refs_book by (simp add: db_inv_def)
qed

lemma payment_owner: "distinct (map snd paid) \<Longrightarrow> (i, key) \<in> set paid \<Longrightarrow> (j, key) \<in> set paid \<Longrightarrow> i = j"
  by (auto simp: distinct_map dest: inj_onD [of snd "set paid" "(i, key)" "(j, key)"])

lemma charge_effect_inv:
  assumes inv: "db_inv terms paid db" and keys: "distinct (map snd paid)"
    and w: "biller_ok terms paid db (c, pc)" and e: "charge_effect c now pc pc' db db'"
  shows "db_inv terms paid db' \<and> refs db \<subseteq> refs db'"
  using e
proof (cases rule: charge_effect.cases)
  case nothing
  then show ?thesis using inv by simp
next
  case claims
  have "order_ok terms paid db' (new_order c now)"
    using w by (simp add: biller_ok_def agreed_def order_ok_def new_order_def)
  moreover have "refs db' = refs db" using claims by (simp add: refs_def)
  ultimately have "\<forall>x \<in> set (b_orders db'). order_ok terms paid db' x"
    using inv order_ok_mono [of terms paid db _ paid db'] claims(3) by (simp add: db_inv_def)
  moreover have "distinct (map bo_order_id (b_orders db'))"
    using inv claims(3,4) by (auto simp: db_inv_def get_order_def find_row_None new_order_def)
  moreover have "b_ledger db' = b_ledger db" using claims(3) by simp
  ultimately show ?thesis using inv refs_same [of db' db] by (simp add: db_inv_def distinct_refs_def)
next
  case reclaims
  from reclaims(3) show ?thesis
  proof (cases rule: reclaim_order_cases)
    case (2 x)
    have "db_inv terms paid db'" unfolding 2(4)
    proof (rule db_inv_upd_order [OF inv])
      fix y assume "order_ok terms paid db y"
      then show "order_ok terms paid db (y\<lparr>bo_status := OrderPending, bo_updated_at := now\<rparr>)"
        by (simp add: order_ok_def)
    qed simp
    then show ?thesis using 2(4) by simp
  qed simp
next
  case (fails reason)
  have "db_inv terms paid db'" unfolding fails mark_failed_if_not_confirmed_def
    by (rule db_inv_upd_order [OF inv]) (simp_all add: order_ok_def)
  then show ?thesis using fails by (simp add: mark_failed_if_not_confirmed_def)
next
  case (books key)
  have p: "(cc_order_id c, key) \<in> set paid" using w books(1) by (simp add: biller_ok_def believes_def)
  have "entry_ok terms paid (charge_entry c key now)"
    using w payment_owner [OF keys p] by (auto simp: entry_ok_def charge_entry_def biller_ok_def agreed_def)
  then have "db_inv terms paid db'" using db_inv_book [OF inv] books by simp
  then show ?thesis using books by (simp add: refs_book)
next
  case (confirms key)
  have p: "(cc_order_id c, key) \<in> set paid" "key \<in> refs db" using w confirms(1) by (simp_all add: biller_ok_def believes_def)
  have "db_inv terms paid db'" unfolding confirms confirm_order_def
    by (rule db_inv_upd_order [OF inv]) (use p in \<open>auto simp: order_ok_def\<close>)
  then show ?thesis using confirms by (simp add: confirm_order_def)
qed

lemma charge_step_biller_ok:
  assumes "biller_ok terms paid db (c, pc)" "charge_step env c now pc db = (pc', db')" "\<not> asks_provider pc"
    and "refs db \<subseteq> refs db'"
  shows "biller_ok terms paid db' (c, pc')"
proof -
  have "believes pc = Some key" if "believes pc' = Some key" for key
    using charge_step_believes [OF assms(2,3)] that by blast
  moreover have "key \<in> refs db'" if "pc' = Confirm key" for key
    using charge_step_confirm [of env c now pc db key db'] assms(2) that by (simp add: refs_book charge_entry_def)
  ultimately show ?thesis using assms(1) by (simp add: biller_ok_def)
qed

text \<open>The workers of a state whose rows and payments only grew, one of them replaced.\<close>

lemma billers_replaced:
  assumes "\<forall>w \<in> set ws. biller_ok terms paid db w" "set paid \<subseteq> set paid'" "refs db \<subseteq> refs db'"
    and "biller_ok terms paid' db' v"
  shows "\<forall>w \<in> set (ws[j := v]). biller_ok terms paid' db' w"
  using assms in_replaced [of _ ws j v] biller_ok_mono by blast

subsection \<open>Every step keeps it\<close>

lemma provider_charge_cases:
  assumes "provider_charge paid used i a paid'"
  obtains "paid' = paid" "named_key a = None"
  | key where "paid' = paid @ [(i, key)]" "i \<notin> fst ` set paid" "key \<notin> snd ` set paid" "key \<notin> used"
      "named_key a \<in> {None, Some key}"
  using assms
proof (cases rule: provider_charge.cases)
  case (approved key)
  then show thesis by (intro that(2)) (auto simp: named_key_def)
qed (auto simp: named_key_def intro: that(1))

lemma bill_step_inv:
  assumes inv: "bill_inv terms s" and step: "bill_step terms l s s'"
  shows "bill_inv terms s'"
proof -
  note i = inv [unfolded bill_inv_db]
  show ?thesis using step
  proof (cases rule: bill_step.cases)
    case (begins c)
    then show ?thesis using i by (auto simp: bill_inv_db biller_ok_def believes_def)
  next
    case (retries x pc)
    then have "order_ok terms (bs_paid s) (bs_db s) x" using i by (simp add: db_inv_def)
    then show ?thesis using retries i by (auto simp: bill_inv_db biller_ok_def believes_def agreed_def retry_call_def order_ok_def)
  next
    case (works j c pc env now pc' db')
    then have w: "biller_ok terms (bs_paid s) (bs_db s) (c, pc)" using i by (metis nth_mem)
    have e: "db_inv terms (bs_paid s) db' \<and> refs (bs_db s) \<subseteq> refs db'"
      using charge_effect_inv [OF _ _ w charge_step_effect] works i by blast
    then have "biller_ok terms (bs_paid s) db' (c, pc')" using charge_step_biller_ok [OF w] works by blast
    then show ?thesis
      using i e billers_replaced [of "bs_workers s" terms "bs_paid s" "bs_db s" "bs_paid s" db' "(c, pc')" j] works
      by (simp add: bill_inv_db)
  next
    case (sends j c plain customer a paid')
    then have w: "biller_ok terms (bs_paid s) (bs_db s) (c, Send plain customer)" using i by (metis nth_mem)
    from sends(4) show ?thesis
    proof (cases rule: provider_charge_cases)
      case 1
      then have "biller_ok terms (bs_paid s) (bs_db s) (c, Answered a)"
        using w by (simp add: biller_ok_def believes_def)
      then show ?thesis
        using i billers_replaced [of "bs_workers s" terms "bs_paid s" "bs_db s" "bs_paid s" "bs_db s" "(c, Answered a)" j] sends 1
        by (simp add: bill_inv_db)
    next
      case (2 key)
      then have v: "biller_ok terms paid' (bs_db s) (c, Answered a)"
        using w by (auto simp: biller_ok_def believes_def)
      have "\<forall>x \<in> set (b_orders (bs_db s)). order_ok terms paid' (bs_db s) x"
        using i 2(1) order_ok_mono [of terms "bs_paid s" "bs_db s" _ paid' "bs_db s"] by (auto simp: db_inv_def)
      moreover have "\<forall>e \<in> set (b_ledger (bs_db s)). entry_ok terms paid' e"
        using i 2 entry_ok_new_payment [of terms "bs_paid s" _ "bs_db s"] by (auto simp: db_inv_def)
      moreover have "distinct (map fst paid')" "distinct (map snd paid')" using i 2 by auto
      moreover have "\<forall>w \<in> set ((bs_workers s)[j := (c, Answered a)]). biller_ok terms paid' (bs_db s) w"
        using i 2(1) by (intro billers_replaced [OF _ _ _ v]) auto
      ultimately show ?thesis using i sends by (simp add: bill_inv_db db_inv_def)
    qed
  next
    case (looks j c pc pc' a)
    then have w: "biller_ok terms (bs_paid s) (bs_db s) (c, pc)" using i by (metis nth_mem)
    have "biller_ok terms (bs_paid s) (bs_db s) (c, pc')"
      using w looks(5,6) by (auto simp: biller_ok_def believes_def provider_lookup_def done_key_def
          split: toss_answer.splits option.splits if_splits)
    then show ?thesis
      using i billers_replaced [of "bs_workers s" terms "bs_paid s" "bs_db s" "bs_paid s" "bs_db s" "(c, pc')" j] looks
      by (simp add: bill_inv_db)
  next
    case (dies j)
    have "set (bs_workers s') \<subseteq> set (bs_workers s)" unfolding dies by (auto dest: in_set_takeD in_set_dropD)
    then show ?thesis using i dies by (auto simp: bill_inv_db)
  next
    case (closes k now)
    have "db_inv terms (bs_paid s) (close_order k now (bs_db s))" unfolding close_order_def
      by (rule db_inv_upd_order) (use i in \<open>simp_all add: order_ok_def\<close>)
    moreover have "refs (close_order k now (bs_db s)) = refs (bs_db s)" by (simp add: close_order_def)
    ultimately show ?thesis using i closes biller_ok_mono by (auto simp: bill_inv_db)
  next
    case (marks_refund k now outcome)
    let ?f = "\<lambda>x. x\<lparr>bo_refund_status := Some outcome, bo_updated_at := now\<rparr>"
    have "db_inv terms (bs_paid s) (upd_order k ?f (bs_db s))"
      by (rule db_inv_upd_order) (use i in \<open>simp_all add: order_ok_def\<close>)
    moreover have "refs (upd_order k ?f (bs_db s)) = refs (bs_db s)" by simp
    ultimately show ?thesis using i marks_refund biller_ok_mono by (auto simp: bill_inv_db)
  next
    case (other_entry e r db')
    have d: "db' = bs_db s \<or> db' = book e (bs_db s)"
      using other_entry(4) record_ledger_entry_booked record_ledger_entry_failed by (cases r) blast+
    have "entry_ok terms (bs_paid s) e" using other_entry(3) by (force simp: entry_ok_def)
    then have "db_inv terms (bs_paid s) db'" "refs (bs_db s) \<subseteq> refs db'"
      using d i db_inv_book by (auto simp: refs_book)
    then show ?thesis using i other_entry biller_ok_mono by (auto simp: bill_inv_db)
  next
    case (elsewhere db')
    then have "refs db' = refs (bs_db s)" by (intro refs_same) simp
    then show ?thesis
      using i elsewhere biller_ok_mono order_ok_mono
      by (auto simp: bill_inv_db db_inv_def distinct_refs_def)
  qed
qed

section \<open>Orders and ledger along a run\<close>

lemma bill_step_grows:
  assumes inv: "bill_inv terms s" and step: "bill_step terms l s s'"
  shows "orders_evolve (bs_db s) (bs_db s') \<and> set (b_ledger (bs_db s)) \<subseteq> set (b_ledger (bs_db s'))"
  using step
proof (cases rule: bill_step.cases)
  case (works j c pc env now pc' db')
  then show ?thesis
    using charge_effect_ids [OF charge_step_effect] charge_effect_ledger [OF charge_step_effect] inv
    by (auto simp: bill_inv_def)
next
  case (marks_refund k now outcome)
  have "orders_evolve (bs_db s) (bs_db s')" unfolding marks_refund by (auto intro: upd_order_evolve simp: evolves_def)
  then show ?thesis using marks_refund by simp
next
  case (closes k now)
  then show ?thesis using close_order_evolve [of "bs_db s" k now] by (simp add: close_order_def)
next
  case (other_entry e r db')
  have d: "db' = bs_db s \<or> db' = book e (bs_db s)"
    using other_entry(4) record_ledger_entry_booked record_ledger_entry_failed by (cases r) blast+
  moreover have "orders_evolve (bs_db s) (book e (bs_db s))" by (rule orders_evolve_same) simp
  ultimately show ?thesis using other_entry(2) ledger.put_subset [of "bs_db s" e] by auto
qed (simp_all add: orders_evolve_same)

lemma bill_run_inv: "lab_run (bill_step terms) s ls s' \<Longrightarrow> bill_inv terms s \<Longrightarrow> bill_inv terms s'"
  by (induction rule: lab_run.induct) (auto intro: bill_step_inv)

lemma bill_run_grows:
  "lab_run (bill_step terms) s ls s' \<Longrightarrow> bill_inv terms s \<Longrightarrow>
   orders_evolve (bs_db s) (bs_db s') \<and> set (b_ledger (bs_db s)) \<subseteq> set (b_ledger (bs_db s'))"
proof (induction rule: lab_run.induct)
  case (lab_run_Cons l s s' ls s'')
  then show ?case using bill_step_grows bill_step_inv orders_evolve_trans by (meson subset_trans)
qed simp

section \<open>The cash book\<close>

text \<open>The specification: the payments the provider has taken, with their keys, and the keys that are
booked.  An order is paid once, with a key of its own, and only a payment is booked.\<close>

type_synonym cash_book = "(string \<times> string) set \<times> string set"

fun cash_step :: "bill_label \<Rightarrow> cash_book \<Rightarrow> cash_book \<Rightarrow> bool" where
  "cash_step (Pays i key) (paid, booked) y \<longleftrightarrow>
     i \<notin> fst ` paid \<and> key \<notin> snd ` paid \<and> y = (insert (i, key) paid, booked)"
| "cash_step (Books i key) (paid, booked) y \<longleftrightarrow> (i, key) \<in> paid \<and> y = (paid, insert key booked)"
| "cash_step Works x y \<longleftrightarrow> y = x"

definition cash_of :: "bill_sys \<Rightarrow> cash_book" where
  "cash_of s = (set (bs_paid s), refs (bs_db s) \<inter> snd ` set (bs_paid s))"

lemma charge_effect_refs:
  "charge_effect c now pc pc' db db' \<Longrightarrow> b_ledger db' = b_ledger db \<or> (\<exists>key. pc' = Confirm key \<and> pc = Book key)"
  by (cases rule: charge_effect.cases) (auto elim: reclaim_order_cases)

lemma label_of_cases:
  "(label_of c pc = Works \<and> (\<forall>key. pc \<noteq> Confirm key)) \<or> (\<exists>key. pc = Confirm key \<and> label_of c pc = Books (cc_order_id c) key)"
  by (cases pc) (simp_all add: label_of_def)

lemma bill_step_cash:
  assumes inv: "bill_inv terms s" and step: "bill_step terms l s s'"
  shows "cash_step l (cash_of s) (cash_of s')"
  using step
proof (cases rule: bill_step.cases)
  case (works j c pc env now pc' db')
  have w: "biller_ok terms (bs_paid s) (bs_db s) (c, pc)" using inv works by (metis bill_inv_def nth_mem)
  show ?thesis
  proof (cases "\<exists>key. pc' = Confirm key")
    case True
    then obtain key where k: "pc' = Confirm key" by blast
    have "believes pc = Some key"
      using charge_step_believes [of env c now pc "bs_db s" pc' db' key] works k by (simp add: believes_def)
    then have p: "(cc_order_id c, key) \<in> set (bs_paid s)" using w by (simp add: biller_ok_def)
    have "db' = book (charge_entry c key now) (bs_db s)"
      using charge_step_confirm [of env c now pc "bs_db s" key db'] works k by simp
    then have "refs db' = insert key (refs (bs_db s))" by (simp add: refs_book charge_entry_def)
    moreover have "key \<in> snd ` set (bs_paid s)" using p by force
    ultimately show ?thesis using p k works by (auto simp: label_of_def cash_of_def)
  next
    case False
    then have "b_ledger db' = b_ledger (bs_db s)" using charge_effect_refs [OF charge_step_effect] works by blast
    moreover have "l = Works" using label_of_cases [of c pc'] False works by auto
    ultimately show ?thesis using works by (simp add: cash_of_def refs_def)
  qed
next
  case (sends j c plain customer a paid')
  from sends(4) show ?thesis
  proof (cases rule: provider_charge_cases)
    case 1
    then show ?thesis using sends by (simp add: cash_of_def)
  next
    case (2 key)
    then have "l = Pays (cc_order_id c) key" using sends by simp
    then show ?thesis using 2 sends by (auto simp: cash_of_def)
  qed
next
  case (other_entry e r db')
  have d: "db' = bs_db s \<or> db' = book e (bs_db s)"
    using other_entry(4) record_ledger_entry_booked record_ledger_entry_failed by (cases r) blast+
  have "refs (book e (bs_db s)) \<inter> snd ` set (bs_paid s) = refs (bs_db s) \<inter> snd ` set (bs_paid s)"
    using other_entry(3) by (cases "le_provider_ref e") (auto simp: refs_book)
  then show ?thesis using d other_entry by (auto simp: cash_of_def)
qed (simp_all add: cash_of_def refs_def close_order_def)

interpretation cash_book: simulation "bill_step terms" "bill_inv terms" cash_of cash_step
  for terms :: "string \<Rightarrow> uuid \<Rightarrow> int \<Rightarrow> string \<Rightarrow> bool"
  by unfold_locales (fact bill_step_inv, fact bill_step_cash)

lemma cash_paid_first:
  "lab_run cash_step x ls y \<Longrightarrow> ls = xs @ Books i key # ys \<Longrightarrow> (i, key) \<in> fst x \<or> Pays i key \<in> set xs"
proof (induction arbitrary: xs rule: lab_run.induct)
  case (lab_run_Cons l s s' ls s'')
  show ?case
  proof (cases xs)
    case Nil
    then show ?thesis using lab_run_Cons by (cases s) auto
  next
    case (Cons l' xs')
    then have "(i, key) \<in> fst s' \<or> Pays i key \<in> set xs'" using lab_run_Cons by simp
    moreover have "(i, key) \<in> fst s \<or> l = Pays i key" if "(i, key) \<in> fst s'"
      using lab_run_Cons(1) that by (cases l; cases s) auto
    ultimately show ?thesis using lab_run_Cons.prems Cons by auto
  qed
qed simp

lemma cash_paid_once:
  "lab_run cash_step x ls y \<Longrightarrow> ls = xs @ Pays i key # ys \<Longrightarrow> i \<notin> fst ` fst x \<and> (\<forall>k. Pays i k \<notin> set xs)"
proof (induction arbitrary: xs rule: lab_run.induct)
  case (lab_run_Cons l s s' ls s'')
  show ?case
  proof (cases xs)
    case Nil
    then show ?thesis using lab_run_Cons by (cases s) auto
  next
    case (Cons l' xs')
    then have "i \<notin> fst ` fst s' \<and> (\<forall>k. Pays i k \<notin> set xs')" using lab_run_Cons by simp
    moreover have "fst ` fst s \<subseteq> fst ` fst s' \<and> (\<forall>k. l = Pays i k \<longrightarrow> i \<in> fst ` fst s')"
      using lab_run_Cons(1) by (cases l; cases s) auto
    ultimately show ?thesis using lab_run_Cons.prems Cons by auto
  qed
qed simp

lemma cash_booked_once_paid:
  "lab_run cash_step x ls y \<Longrightarrow> snd x \<subseteq> snd ` fst x \<Longrightarrow> snd y \<subseteq> snd ` fst y"
proof (induction rule: lab_run.induct)
  case (lab_run_Cons l s s' ls s'')
  have "snd s' \<subseteq> snd ` fst s'" using lab_run_Cons(1,4) by (cases l; cases s) (auto intro: rev_image_eqI)
  then show ?case using lab_run_Cons by blast
qed

end
