(* ===== verification/Billing_Laws.thy ===== *)
theory Billing_Laws
  imports Billing_Effects
begin

text \<open>
  The operations of billing taken one at a time: how a charge ends, what a checkout, an upgrade, a
  purchase of packs, a renewal and the sweeps leave behind.  These are the lemmas the properties of
  Billing_Properties rest on.
\<close>

section \<open>A charge from its last transactions\<close>

definition payable :: "charge_call \<Rightarrow> bool" where
  "payable c \<longleftrightarrow> 0 < cc_amount c \<and> cc_currency c \<in> set CURRENCIES \<and> cc_entry_type c \<in> {''charge'', ''pack_purchase''}"

definition confirmed_row :: "string \<Rightarrow> timestamp \<Rightarrow> billing_order \<Rightarrow> billing_order" where
  "confirmed_row key now x = (if bo_status x = OrderConfirmed then x
     else x\<lparr>bo_status := OrderConfirmed, bo_payment_key := Some key, bo_updated_at := now\<rparr>)"

lemma bo_order_id_confirmed_row [simp]: "bo_order_id (confirmed_row key now x) = bo_order_id x"
  by (simp add: confirmed_row_def)

lemma confirm_order_row: "confirm_order i key now db = upd_order i (confirmed_row key now) db"
  by (simp add: confirm_order_def confirmed_row_def [abs_def])

lemma record_payable:
  "payable c \<Longrightarrow> \<exists>r. record_ledger_entry (charge_entry c key now) db = (Inr r, book (charge_entry c key now) db)"
  by (auto simp: payable_def record_ledger_entry_def charge_entry_def ENTRY_TYPES_def DIRECTIONS_def book_def
      split: option.splits)

lemma run_charge_book:
  assumes c: "payable c" and x: "get_order (cc_order_id c) db = Some x"
  shows "run_charge env c now (Book key) db
    = (Returned (confirmed_row key now x), confirm_order (cc_order_id c) key now (book (charge_entry c key now) db))"
proof -
  let ?b = "book (charge_entry c key now) db"
  let ?d = "confirm_order (cc_order_id c) key now ?b"
  obtain r where "record_ledger_entry (charge_entry c key now) db = (Inr r, ?b)" using record_payable [OF c] by blast
  then have "run_charge env c now (Book key) db = run_charge env c now (Confirm key) ?b"
    by (intro run_charge_step) simp_all
  also have "\<dots> = run_charge env c now Refetch ?d" by (rule run_charge_step) simp_all
  also have "\<dots> = run_charge env c now (refetch c ?d) ?d" by (rule run_charge_step) simp_all
  also have "get_order (cc_order_id c) ?d = Some (confirmed_row key now x)"
    using x by (simp add: confirm_order_row get_order_upd get_order_frame [of ?b db])
  then have "run_charge env c now (refetch c ?d) ?d = (Returned (confirmed_row key now x), ?d)"
    by (simp add: refetch_def run_charge_ended)
  finally show ?thesis .
qed

definition can_charge :: "toss \<Rightarrow> uuid \<Rightarrow> bill_db \<Rightarrow> bool" where
  \<comment> \<open>the keys are configured and the organisation has an active billing key that decrypts\<close>
  "can_charge env org db \<longleftrightarrow> key_configured env \<and>
     (case active_key org db of None \<Rightarrow> False | Some k \<Rightarrow> Option.bind (bk_encrypted k) (decrypt_key env) \<noteq> None)"

definition sent_answer :: "toss \<Rightarrow> charge_call \<Rightarrow> bill_db \<Rightarrow> toss_answer" where
  \<comment> \<open>what the provider answers when the charge is sent\<close>
  "sent_answer env c db = (case active_key (cc_org c) db of None \<Rightarrow> Unreachable
     | Some k \<Rightarrow> toss_charge env (the (Option.bind (bk_encrypted k) (decrypt_key env))) (bk_customer_key k)
                   (cc_order_id c) (cc_amount c))"

lemma run_charge_key_check:
  assumes "can_charge env (cc_org c) db"
  shows "run_charge env c now Key_check db = run_charge env c now (Answered (sent_answer env c db)) db"
proof -
  obtain k plain where k: "active_key (cc_org c) db = Some k" "Option.bind (bk_encrypted k) (decrypt_key env) = Some plain"
    and "key_configured env"
    using assms by (auto simp: can_charge_def split: option.splits)
  then have "run_charge env c now Key_check db = run_charge env c now (Send plain (bk_customer_key k)) db"
    by (intro run_charge_step) (simp_all add: key_check_def)
  also have "\<dots> = run_charge env c now (Answered (sent_answer env c db)) db"
    by (rule run_charge_step) (simp_all add: sent_answer_def k)
  finally show ?thesis .
qed

lemma run_charge_approved:
  "text_field ''paymentKey'' b = Some key \<Longrightarrow>
   run_charge env c now (Answered (Body b)) db = run_charge env c now (Book key) db"
  by (rule run_charge_step) (simp_all add: answered_def)

lemma run_charge_duplicated:
  assumes "toss_lookup env (cc_order_id c) = Body b" "text_field ''status'' b = Some ''DONE''"
    and "text_field ''paymentKey'' b = Some key"
  shows "run_charge env c now (Answered (ApiError DUPLICATED_ORDER_ID)) db = run_charge env c now (Book key) db"
proof -
  have "run_charge env c now (Answered (ApiError DUPLICATED_ORDER_ID)) db = run_charge env c now Lookup db"
    by (rule run_charge_step) (simp_all add: answered_def)
  also have "\<dots> = run_charge env c now (Looked (Body b)) db" by (rule run_charge_step) (simp_all add: assms)
  also have "\<dots> = run_charge env c now (Book key) db" by (rule run_charge_step) (simp_all add: looked_def assms)
  finally show ?thesis .
qed

lemma run_charge_fresh:
  assumes "payable c" "get_order (cc_order_id c) db = None"
  shows "run_charge env c now Claim db = run_charge env c now Key_check (db\<lparr>b_orders := b_orders db @ [new_order c now]\<rparr>)"
  by (rule run_charge_step) (use assms in \<open>simp_all add: payable_def claim_order_def\<close>)

lemma run_charge_known:
  assumes "payable c" "get_order (cc_order_id c) db = Some x"
  shows "run_charge env c now Claim db = run_charge env c now Contested db"
  by (rule run_charge_step) (use assms in \<open>simp_all add: payable_def claim_order_def\<close>)

lemma run_charge_settled:
  assumes "payable c" "get_order (cc_order_id c) db = Some x" "bo_status x = OrderConfirmed \<or> bo_status x = OrderPending"
  shows "run_charge env c now Claim db = (Returned x, db)"
proof -
  have "run_charge env c now Contested db = run_charge env c now (Returned x) db"
    by (rule run_charge_step) (use assms in simp_all)
  then show ?thesis using run_charge_known [OF assms(1,2)] by (simp add: run_charge_ended)
qed

definition reopened :: "timestamp \<Rightarrow> billing_order \<Rightarrow> billing_order" where
  "reopened now x = x\<lparr>bo_status := OrderPending, bo_updated_at := now\<rparr>"

lemma run_charge_failed_before:
  assumes "payable c" "get_order (cc_order_id c) db = Some x" "bo_status x = OrderFailed"
  shows "run_charge env c now Claim db = run_charge env c now Key_check (upd_order (cc_order_id c) (reopened now) db)"
proof -
  have "run_charge env c now Contested db = run_charge env c now Reclaim db"
    by (rule run_charge_step) (use assms in simp_all)
  also have "\<dots> = run_charge env c now Key_check (upd_order (cc_order_id c) (reopened now) db)"
    by (rule run_charge_step) (use assms in \<open>simp_all add: reclaim_order_def reopened_def [abs_def]\<close>)
  finally show ?thesis using run_charge_known [OF assms(1,2)] by simp
qed

text \<open>A failed order that the provider has been paid for is confirmed by a retry, and booked.\<close>

lemma retry_finds_payment:
  assumes c: "payable c" and x: "get_order (cc_order_id c) db = Some x" "bo_status x = OrderFailed"
    and key: "can_charge env (cc_org c) db" "sent_answer env c db = ApiError DUPLICATED_ORDER_ID"
    and b: "toss_lookup env (cc_order_id c) = Body b" "text_field ''status'' b = Some ''DONE''"
      "text_field ''paymentKey'' b = Some key"
  shows "charge_org env c now db = (Inr (confirmed_row key now (reopened now x)),
      confirm_order (cc_order_id c) key now (book (charge_entry c key now) (upd_order (cc_order_id c) (reopened now) db)))"
proof -
  let ?d = "upd_order (cc_order_id c) (reopened now) db"
  have k: "can_charge env (cc_org c) ?d" "sent_answer env c ?d = sent_answer env c db"
    using key(1) by (simp_all add: can_charge_def sent_answer_def active_key_def)
  have "get_order (cc_order_id c) ?d = Some (reopened now x)" using x by (simp add: get_order_upd reopened_def)
  then have "run_charge env c now Claim db = (Returned (confirmed_row key now (reopened now x)),
      confirm_order (cc_order_id c) key now (book (charge_entry c key now) ?d))"
    using run_charge_failed_before [OF c x] run_charge_key_check [OF k(1)] k(2) key(2)
      run_charge_duplicated [OF b] run_charge_book [OF c] by simp
  then show ?thesis by (simp add: charge_org_run outcome_of_def)
qed

section \<open>What every charge keeps\<close>

definition booked_orders :: "bill_db \<Rightarrow> bool" where
  \<comment> \<open>order ids are unique, and a confirmed order's payment is in the ledger\<close>
  "booked_orders db \<longleftrightarrow> distinct (map bo_order_id (b_orders db))
     \<and> (\<forall>x \<in> set (b_orders db). bo_status x = OrderConfirmed \<longrightarrow>
          (\<exists>key. bo_payment_key x = Some key \<and> Some key \<in> le_provider_ref ` set (b_ledger db)))"

lemma booked_orders_same:
  "booked_orders db \<Longrightarrow> b_orders db' = b_orders db \<Longrightarrow> le_provider_ref ` set (b_ledger db) \<subseteq> le_provider_ref ` set (b_ledger db')
   \<Longrightarrow> booked_orders db'"
  by (simp add: booked_orders_def) blast

lemma booked_orders_upd:
  assumes "booked_orders db" "\<And>x. bo_order_id (f x) = bo_order_id x"
    and "\<And>x. x \<in> set (b_orders db) \<Longrightarrow> bo_order_id x = i \<Longrightarrow> bo_status (f x) = OrderConfirmed \<Longrightarrow>
        (bo_status x = OrderConfirmed \<and> bo_payment_key (f x) = bo_payment_key x)
        \<or> (\<exists>key. bo_payment_key (f x) = Some key \<and> Some key \<in> le_provider_ref ` set (b_ledger db))"
  shows "booked_orders (upd_order i f db)"
  unfolding booked_orders_def
proof (intro conjI ballI impI)
  show "distinct (map bo_order_id (b_orders (upd_order i f db)))"
    using assms(1,2) by (simp add: booked_orders_def upd_order_def upd_row_map_key)
  fix y assume "y \<in> set (b_orders (upd_order i f db))" and st: "bo_status y = OrderConfirmed"
  then obtain x where "x \<in> set (b_orders db)" "y = (if bo_order_id x = i then f x else x)"
    by (auto simp: upd_order_def upd_row_def)
  then show "\<exists>key. bo_payment_key y = Some key \<and> Some key \<in> le_provider_ref ` set (b_ledger (upd_order i f db))"
    using assms(1,3) st by (cases "bo_order_id x = i") (force simp: booked_orders_def)+
qed

definition charge_inv :: "charge_call \<Rightarrow> charge_pc \<Rightarrow> bill_db \<Rightarrow> bool" where
  "charge_inv c pc db \<longleftrightarrow> booked_orders db
     \<and> (\<forall>key. pc = Confirm key \<longrightarrow> Some key \<in> le_provider_ref ` set (b_ledger db))
     \<and> (\<forall>x. pc = Returned x \<longrightarrow> get_order (cc_order_id c) db = Some x)"

lemma charge_step_returns:
  assumes "charge_step env c now pc db = (Returned x, db')" "0 < steps_left pc"
  shows "get_order (cc_order_id c) db' = Some x"
  using assms
  by (cases pc)
    (auto simp: key_check_def answered_def looked_def stale_looked_def refetch_def
      split: option.splits prod.splits sum.splits toss_answer.splits if_splits)

lemma charge_step_books:
  assumes "charge_step env c now pc db = (Confirm key, db')"
  shows "Some key \<in> le_provider_ref ` set (b_ledger db')"
proof -
  have "db' = book (charge_entry c key now) db"
    using assms record_ledger_entry_booked [of "charge_entry c key now" db]
    by (cases pc)
      (auto simp: key_check_def answered_def looked_def stale_looked_def refetch_def
        split: option.splits prod.splits sum.splits toss_answer.splits if_splits)
  then show ?thesis using ledger.put_known [of "charge_entry c key now" db] by (simp add: charge_entry_def)
qed

lemma charge_effect_booked:
  assumes "booked_orders db" "charge_effect c now pc pc' db db'"
    and "\<And>key. pc = Confirm key \<Longrightarrow> Some key \<in> le_provider_ref ` set (b_ledger db)"
  shows "booked_orders db'"
  using assms(2)
proof (cases rule: charge_effect.cases)
  case nothing
  then show ?thesis using assms(1) by simp
next
  case claims
  then show ?thesis using assms(1)
    by (auto simp: booked_orders_def get_order_def find_row_None new_order_def)
next
  case reclaims
  from reclaims(3) show ?thesis
  proof (cases rule: reclaim_order_cases)
    case (2 x)
    show ?thesis unfolding 2(4) by (rule booked_orders_upd [OF assms(1)]) simp_all
  qed simp
next
  case (fails reason)
  show ?thesis unfolding fails mark_failed_if_not_confirmed_def
    by (rule booked_orders_upd [OF assms(1)]) (simp_all split: if_splits)
next
  case (books key)
  show ?thesis unfolding books
    by (rule booked_orders_same [OF assms(1)]) (use ledger.put_subset in \<open>simp_all add: image_mono\<close>)
next
  case (confirms key)
  show ?thesis unfolding confirms confirm_order_def
    by (rule booked_orders_upd [OF assms(1)]) (use assms(3) confirms in auto)
qed

lemma run_charge_inv:
  assumes "charge_inv c pc db"
  shows "charge_inv c (fst (run_charge env c now pc db)) (snd (run_charge env c now pc db))"
proof (rule run_charge_keeps [where P = "charge_inv c", OF assms])
  fix pc d assume i: "charge_inv c pc d" and st: "0 < steps_left pc"
  obtain pc' d' where s: "charge_step env c now pc d = (pc', d')" by fastforce
  have "booked_orders d'"
    by (rule charge_effect_booked [OF _ charge_step_effect [OF s]]) (use i in \<open>simp_all add: charge_inv_def\<close>)
  moreover have "Some key \<in> le_provider_ref ` set (b_ledger d')" if "pc' = Confirm key" for key
    using charge_step_books [of env c now pc d key d'] s that by simp
  moreover have "get_order (cc_order_id c) d' = Some x" if "pc' = Returned x" for x
    using charge_step_returns [of env c now pc d x d'] s st that by simp
  ultimately show "charge_inv c (fst (charge_step env c now pc d)) (snd (charge_step env c now pc d))"
    by (simp add: s charge_inv_def)
qed

lemma charge_org_booked:
  assumes "booked_orders db" "charge_org env c now db = (r, db')"
  shows "booked_orders db'" "b_subs db' = b_subs db" "orders_evolve db db'"
    and "r = Inr x \<Longrightarrow> get_order (cc_order_id c) db' = Some x"
proof -
  have "charge_inv c Claim db" using assms(1) by (simp add: charge_inv_def)
  then have i: "charge_inv c (fst (run_charge env c now Claim db)) db'"
    using run_charge_inv [of c Claim db env now] assms(2) by (simp add: charge_org_run)
  then show "booked_orders db'" by (simp add: charge_inv_def)
  show "b_subs db' = b_subs db" "orders_evolve db db'"
    using run_charge_frame [of db env c now Claim] assms by (auto simp: booked_orders_def charge_org_run)
  show "get_order (cc_order_id c) db' = Some x" if "r = Inr x"
    using i assms(2) that by (auto simp: charge_org_run outcome_of_def charge_inv_def split: charge_pc.splits)
qed

text \<open>A confirmed order of such a database is paid and booked.\<close>

definition paid_order :: "string \<Rightarrow> bill_db \<Rightarrow> bool" where
  "paid_order i db \<longleftrightarrow> (case get_order i db of None \<Rightarrow> False | Some x \<Rightarrow> bo_status x = OrderConfirmed
     \<and> (case bo_payment_key x of None \<Rightarrow> False | Some key \<Rightarrow> find_entry (Some key) db \<noteq> None))"

lemma paid_orderI:
  assumes "booked_orders db" "get_order i db = Some x" "bo_status x = OrderConfirmed"
  shows "paid_order i db"
  using assms get_orderD [of i db x]
  by (force simp: booked_orders_def paid_order_def find_entry_None split: option.splits)

lemma paid_order_same: "b_orders db' = b_orders db \<Longrightarrow> b_ledger db' = b_ledger db \<Longrightarrow> paid_order i db' = paid_order i db"
  by (simp add: paid_order_def get_order_def find_entry_None cong: option.case_cong)

section \<open>Checkout\<close>

lemma issue_billing_key_frame:
  assumes "issue_billing_key env i customer org auth now db = (r, db')"
  shows "b_orders db' = b_orders db" "b_ledger db' = b_ledger db" "b_subs db' = b_subs db"
  using assms
  by (auto simp: issue_billing_key_def ensure_customer_key_def upd_key_def
      split: if_splits option.splits toss_answer.splits json.splits)

lemma activate_frame [simp]:
  "b_orders (activate_claimed org now db) = b_orders db" "b_ledger (activate_claimed org now db) = b_ledger db"
  by (simp_all add: activate_claimed_def)

lemma release_frame [simp]:
  "b_orders (release_claim org now db) = b_orders db" "b_ledger (release_claim org now db) = b_ledger db"
  by (simp_all add: release_claim_def)

lemma sub_result_db [simp]: "snd (sub_result org db) = db"
  by (simp add: sub_result_def split: option.splits)

lemma checkout_body_result:
  assumes "booked_orders db" "checkout_body env a ov ex now db = (r, db')"
  shows "booked_orders db' \<and> (b_subs db' = b_subs db \<or>
    (paid_order (checkout_order_id (ca_org a) (ov_id ov) now) db' \<and> b_subs db' = b_subs (activate_claimed (ca_org a) now db)))"
proof -
  obtain r1 db1 where k: "issue_billing_key env (ca_key_id a) (ca_customer a) (ca_org a) (ca_auth_key a) now db = (r1, db1)"
    by fastforce
  note f = issue_billing_key_frame [OF k]
  have b1: "booked_orders db1" using booked_orders_same [OF assms(1) f(1)] f(2) by simp
  let ?m = "case ex of None \<Rightarrow> compute_charge_amount (ca_org a) db1 | Some s \<Rightarrow> charge_amount_of_sub s db1"
  show ?thesis
  proof (cases "\<exists>amount currency. r1 = Inr () \<and> ?m = Inr (amount, currency)")
    case False
    then have "db' = db1" using assms(2) k by (auto simp: checkout_body_def split: sum.splits)
    then show ?thesis using b1 f by simp
  next
    case True
    then obtain amount currency where m: "r1 = Inr ()" "?m = Inr (amount, currency)" by blast
    obtain r2 db2 where ch: "charge_org env (checkout_call a ov now amount currency) now db1 = (r2, db2)" by fastforce
    note g = charge_org_booked [OF b1 ch]
    show ?thesis
    proof (cases r2)
      case (Inl e)
      then have "db' = db2" using assms(2) k m ch by (simp add: checkout_body_def)
      then show ?thesis using g f by simp
    next
      case (Inr x)
      have e: "sub_result (ca_org a) (if bo_status x = OrderConfirmed then activate_claimed (ca_org a) now db2 else db2) = (r, db')"
        using assms(2) k m ch Inr by (simp add: checkout_body_def)
      then have d: "db' = (if bo_status x = OrderConfirmed then activate_claimed (ca_org a) now db2 else db2)"
        by (metis snd_conv sub_result_db)
      show ?thesis
      proof (cases "bo_status x = OrderConfirmed")
        case True
        have "get_order (checkout_order_id (ca_org a) (ov_id ov) now) db2 = Some x"
          using g(4) [OF Inr] by (simp add: checkout_call_def)
        then have "paid_order (checkout_order_id (ca_org a) (ov_id ov) now) db2" using paid_orderI [OF g(1)] True by blast
        then have "paid_order (checkout_order_id (ca_org a) (ov_id ov) now) db'"
          using d True paid_order_same [of db' db2] by simp
        moreover have "booked_orders db'" using booked_orders_same [OF g(1), of db'] d True by simp
        moreover have "b_subs db' = b_subs (activate_claimed (ca_org a) now db)"
          using d True g(2) f(3) by (simp add: activate_claimed_def upd_sub_def)
        ultimately show ?thesis by simp
      next
        case False
        then show ?thesis using d g f by simp
      qed
    qed
  qed
qed

lemma get_sub_upd_sub: "(\<And>x. su_org (f x) = su_org x) \<Longrightarrow> get_sub i (upd_sub i f db) = map_option f (get_sub i db)"
  by (simp add: get_sub_upd)

lemma get_sub_release: "get_sub org (release_claim org now db)
    = map_option (\<lambda>s. if su_claimed_at s = Some now then s\<lparr>su_claimed_at := None\<rparr> else s) (get_sub org db)"
  unfolding release_claim_def by (rule get_sub_upd_sub) simp

lemma get_sub_activate: "get_sub org (activate_claimed org now db)
    = map_option (\<lambda>s. if su_claimed_at s = Some now then s\<lparr>su_status := ''active''\<rparr> else s) (get_sub org db)"
  unfolding activate_claimed_def by (rule get_sub_upd_sub) simp

lemma checkout_claim_sub:
  assumes "checkout_claim a ov now e db = (True, db1)"
  shows "\<exists>s. get_sub (ca_org a) db1 = Some s \<and> su_claimed_at s = Some now \<and> su_status s = ''pending''"
    and "b_orders db1 = b_orders db" "b_ledger db1 = b_ledger db"
proof -
  show "b_orders db1 = b_orders db" "b_ledger db1 = b_ledger db"
    using assms by (auto simp: checkout_claim_def split: option.splits if_splits)
  show "\<exists>s. get_sub (ca_org a) db1 = Some s \<and> su_claimed_at s = Some now \<and> su_status s = ''pending''"
  proof (cases "get_sub (ca_org a) db")
    case None
    then have "db1 = db\<lparr>b_subs := b_subs db @ [claimed_sub a ov now e (empty_sub (ca_sub_id a) (ca_org a))]\<rparr>"
      using assms by (simp add: checkout_claim_def)
    then show ?thesis
      using None by (simp add: get_sub_def find_row_def find_append claimed_sub_def empty_sub_def)
  next
    case (Some s)
    then have "db1 = upd_sub (ca_org a) (claimed_sub a ov now e) db"
      using assms by (simp add: checkout_claim_def split: if_splits)
    then show ?thesis using Some by (simp add: get_sub_upd_sub claimed_sub_def)
  qed
qed

text \<open>A checkout is refused without a change, or its claim runs the body.\<close>

lemma checkout_cases:
  assumes "checkout_subscription env a now db = (r, db')"
  obtains (refused) "\<exists>e. r = Inl e" "db' = db"
  | (runs) ov e db1 db2 where "checkout_claim a ov now e db = (True, db1)"
      "active_offering (ca_tier a) (Some ''krw'') db = Inr (Some ov)" "checkout_guard a db = None"
      "checkout_body env a ov (get_sub (ca_org a) db) now db1 = (r, db2)" "db' = release_claim (ca_org a) now db2"
proof (cases "checkout_guard a db")
  case (Some e)
  then show thesis using assms by (intro refused) (auto simp: checkout_subscription_def)
next
  case g: None
  show thesis
  proof (cases "active_offering (ca_tier a) (Some ''krw'') db")
    case (Inl e)
    then show thesis using assms g by (intro refused) (auto simp: checkout_subscription_def)
  next
    case o: (Inr oo)
    show thesis
    proof (cases oo)
      case None
      then show thesis using assms g o by (intro refused) (auto simp: checkout_subscription_def)
    next
      case (Some ov)
      show thesis
      proof (cases "new_subscription_period now (ca_cycle a)")
        case (Inl e)
        then show thesis using assms g o Some by (intro refused) (auto simp: checkout_subscription_def)
      next
        case (Inr p)
        obtain ps pe where p: "p = (ps, pe)" by fastforce
        show thesis
        proof (cases "ca_org a \<in> set (b_orgs db)")
          case False
          then show thesis using assms g o Some Inr p by (intro refused) (auto simp: checkout_subscription_def)
        next
          case True
          obtain ok db1 where c: "checkout_claim a ov now pe db = (ok, db1)" by fastforce
          show thesis
          proof (cases ok)
            case False
            then have "db1 = db" using c by (auto simp: checkout_claim_def split: option.splits if_splits)
            then show thesis using assms g o Some Inr p True c False
              by (intro refused) (auto simp: checkout_subscription_def)
          next
            case ok: True
            obtain r2 db2 where b: "checkout_body env a ov (get_sub (ca_org a) db) now db1 = (r2, db2)" by fastforce
            show thesis
              by (rule runs [of ov pe db1 db2])
                (use assms g o Some Inr p True c ok b in \<open>simp_all add: checkout_subscription_def\<close>)
          qed
        qed
      qed
    qed
  qed
qed

lemma checkout_active_paid:
  assumes b: "booked_orders db" and co: "checkout_subscription env a now db = (r, db')"
    and s: "get_sub (ca_org a) db' = Some s" "su_status s = ''active''"
    and new: "get_sub (ca_org a) db \<noteq> Some s"
  shows "\<exists>ov. active_offering (ca_tier a) (Some ''krw'') db = Inr (Some ov)
    \<and> paid_order (checkout_order_id (ca_org a) (ov_id ov) now) db'"
  using co
proof (cases rule: checkout_cases)
  case refused
  then show ?thesis using s new by simp
next
  case (runs ov e db1 db2)
  obtain t where t: "get_sub (ca_org a) db1 = Some t" "su_status t = ''pending''" using checkout_claim_sub(1) [OF runs(1)] by blast
  have "booked_orders db1" using booked_orders_same [OF b checkout_claim_sub(2) [OF runs(1)]] checkout_claim_sub(3) [OF runs(1)] by simp
  then have r: "b_subs db2 = b_subs db1 \<or> paid_order (checkout_order_id (ca_org a) (ov_id ov) now) db2"
    using checkout_body_result [OF _ runs(4)] by blast
  have "b_subs db2 \<noteq> b_subs db1"
  proof
    assume "b_subs db2 = b_subs db1"
    then have "get_sub (ca_org a) db2 = Some t" using t get_sub_frame by metis
    then show False using s t runs(5) by (auto simp: get_sub_release split: if_splits)
  qed
  then show ?thesis using r runs(2,5) paid_order_same [of db' db2] by simp
qed

lemma release_leaves_no_claim:
  "get_sub org (release_claim org now db) = Some s \<Longrightarrow> su_claimed_at s \<noteq> Some now"
  unfolding get_sub_release by (cases "get_sub org db") (auto simp del: not_None_eq split: if_split_asm dest: arg_cong [of _ s su_claimed_at])

section \<open>Upgrade\<close>

lemma record_booked:
  assumes "booked_orders db" "record_ledger_entry e db = (r, db')"
  shows "booked_orders db'" "b_orders db' = b_orders db" "b_subs db' = b_subs db" "set (b_ledger db) \<subseteq> set (b_ledger db')"
proof -
  have d: "db' = db \<or> db' = book e db"
    using assms(2) record_ledger_entry_booked record_ledger_entry_failed by (cases r) blast+
  then show "b_orders db' = b_orders db" "b_subs db' = b_subs db" "set (b_ledger db) \<subseteq> set (b_ledger db')"
    using ledger.put_subset [of db e] by auto
  then show "booked_orders db'" by (intro booked_orders_same [OF assms(1)] image_mono)
qed

lemma refund_booked:
  assumes "booked_orders db" "refund_org env org i reason amount now db = (r, db')"
  shows "booked_orders db' \<and> b_orders db' = b_orders db \<and> b_subs db' = b_subs db \<and> set (b_ledger db) \<subseteq> set (b_ledger db')"
proof (cases "db' = db")
  case False
  then obtain e where "record_ledger_entry e db = (r, db')"
    using assms(2) by (auto simp: refund_org_def split: option.splits if_splits toss_answer.splits prod.splits)
  then show ?thesis using record_booked [OF assms(1)] by blast
qed (use assms in simp)

lemma paid_order_mono:
  assumes "paid_order i db" "\<And>x. get_order i db = Some x \<Longrightarrow> \<exists>y. get_order i db' = Some y \<and> evolves x y"
    and "set (b_ledger db) \<subseteq> set (b_ledger db')"
  shows "paid_order i db'"
proof -
  obtain x key where x: "get_order i db = Some x" "bo_status x = OrderConfirmed" "bo_payment_key x = Some key"
    and k: "Some key \<in> le_provider_ref ` set (b_ledger db)"
    using assms(1) by (auto simp: paid_order_def find_entry_None split: option.splits)
  obtain y where "get_order i db' = Some y" "evolves x y" using assms(2) x by blast
  moreover have "Some key \<in> le_provider_ref ` set (b_ledger db')" using k assms(3) by blast
  ultimately show ?thesis using x by (simp add: paid_order_def find_entry_None evolves_def)
qed

lemma partial_refund_keeps:
  assumes "booked_orders db"
  shows "b_subs (attempt_partial_refund env org x amount now db) = b_subs db"
    and "paid_order i db \<Longrightarrow> paid_order i (attempt_partial_refund env org x amount now db)"
proof -
  obtain r db1 where r: "refund_org env org (bo_order_id x) ''tier change, prorated remainder'' (Some amount) now db = (r, db1)"
    by fastforce
  let ?f = "\<lambda>y. y\<lparr>bo_refund_status := Some (case r of Inr _ \<Rightarrow> ''confirmed'' | Inl _ \<Rightarrow> ''failed''), bo_updated_at := now\<rparr>"
  have d: "attempt_partial_refund env org x amount now db = upd_order (bo_order_id x) ?f db1"
    by (simp add: attempt_partial_refund_def r)
  note f = refund_booked [OF assms r]
  show "b_subs (attempt_partial_refund env org x amount now db) = b_subs db" using f by (simp add: d)
  show "paid_order i (attempt_partial_refund env org x amount now db)" if "paid_order i db"
    using that
  proof (rule paid_order_mono)
    show "set (b_ledger db) \<subseteq> set (b_ledger (attempt_partial_refund env org x amount now db))" using f by (simp add: d)
  next
    fix y assume "get_order i db = Some y"
    then have "get_order i db1 = Some y" using f get_order_frame by metis
    then show "\<exists>z. get_order i (attempt_partial_refund env org x amount now db) = Some z \<and> evolves y z"
      by (cases "i = bo_order_id x") (auto simp: d get_order_upd evolves_def)
  qed
qed

lemma settle_upgrade_keeps:
  assumes "booked_orders db" "settle_upgrade env org tier s old new x now db = (r, db')"
  shows "b_subs db' = b_subs (upd_sub org (upgraded_sub tier new now (add_months now 1)) db)"
    and "paid_order i db \<Longrightarrow> paid_order i db'"
proof -
  let ?d = "upd_sub org (upgraded_sub tier new now (add_months now 1)) db"
  have b: "booked_orders ?d" by (rule booked_orders_same [OF assms(1)]) simp_all
  have p: "paid_order i ?d = paid_order i db" by (rule paid_order_same) simp_all
  have c: "db' = ?d \<or> (\<exists>y amount. db' = attempt_partial_refund env org y amount now ?d)"
    using assms(2) sub_result_db
    by (auto simp: settle_upgrade_def Let_def split: option.splits sum.splits if_splits) (metis snd_conv sub_result_db)+
  then show "b_subs db' = b_subs ?d" using partial_refund_keeps(1) [OF b] by auto
  show "paid_order i db'" if "paid_order i db" using c partial_refund_keeps(2) [OF b] p that by auto
qed

lemma tier_change_body_result:
  assumes "booked_orders db" "tier_change_body env org tier hex row s old new now db = (r, db')"
  shows "b_subs db' = b_subs db \<or>
    (paid_order (''tierchange-'' @ org @ ''-'' @ ov_id new @ ''-'' @ hex) db'
      \<and> b_subs db' = b_subs (upd_sub org (upgraded_sub tier new now (add_months now 1)) db))"
proof (cases "compute_full_charge_for_new_offering org new db")
  case (Inl e)
  then show ?thesis using assms(2) by (simp add: tier_change_body_def)
next
  case (Inr p)
  obtain amount currency where p: "p = (amount, currency)" by fastforce
  let ?c = "tier_change_call org (su_tier s) tier new hex row amount currency"
  obtain r1 db1 where ch: "charge_org env ?c now db = (r1, db1)" by fastforce
  note g = charge_org_booked [OF assms(1) ch]
  show ?thesis
  proof (cases r1)
    case (Inl e)
    then show ?thesis using assms(2) \<open>compute_full_charge_for_new_offering org new db = Inr p\<close> p ch g by (simp add: tier_change_body_def)
  next
    case r1: (Inr x)
    have b: "(if bo_status x \<noteq> OrderConfirmed then sub_result org db1
        else settle_upgrade env org tier s old new (latest_confirmed_subscription_order org db) now db1) = (r, db')"
      using assms(2) Inr p ch r1 by (simp add: tier_change_body_def)
    show ?thesis
    proof (cases "bo_status x = OrderConfirmed")
      case False
      then have "db' = db1" using b by (metis snd_conv sub_result_db)
      then show ?thesis using g by simp
    next
      case True
      then have st: "settle_upgrade env org tier s old new (latest_confirmed_subscription_order org db) now db1 = (r, db')" using b by simp
      have "paid_order (''tierchange-'' @ org @ ''-'' @ ov_id new @ ''-'' @ hex) db1"
        using paid_orderI [OF g(1) g(4) [OF r1] True] by (simp add: tier_change_call_def)
      then show ?thesis using settle_upgrade_keeps [OF g(1) st] g(2) by (simp add: upd_sub_def)
    qed
  qed
qed

lemma change_tier_cases:
  assumes "change_tier env org tier hex row now db = (r, db')"
  obtains (refused) "\<exists>e. r = Inl e" "db' = db"
  | (runs) s old new db2 where "tier_change_guard org tier db = Inr (s, old, new)" "claim_free now s"
      "get_sub org db = Some s"
      "tier_change_body env org tier hex row s old new now (upd_sub org (\<lambda>s. s\<lparr>su_claimed_at := Some now\<rparr>) db) = (r, db2)"
      "db' = release_claim org now db2"
proof (cases "tier_change_guard org tier db")
  case (Inl e)
  then show thesis using assms by (intro refused) (auto simp: change_tier_def)
next
  case (Inr p)
  obtain s old new where p: "p = (s, old, new)" by (metis prod_cases3)
  have s: "get_sub org db = Some s"
    using Inr p by (auto simp: tier_change_guard_def split: if_splits option.splits sum.splits)
  show thesis
  proof (cases "claim_free now s")
    case False
    then have "tier_change_claim org now db = (False, db)" using s by (simp add: tier_change_claim_def)
    then show thesis using assms Inr p by (intro refused) (auto simp: change_tier_def)
  next
    case True
    then have c: "tier_change_claim org now db = (True, upd_sub org (\<lambda>s. s\<lparr>su_claimed_at := Some now\<rparr>) db)"
      using s by (simp add: tier_change_claim_def)
    obtain r2 db2 where b: "tier_change_body env org tier hex row s old new now
        (upd_sub org (\<lambda>s. s\<lparr>su_claimed_at := Some now\<rparr>) db) = (r2, db2)" by fastforce
    show thesis by (rule runs [of s old new db2]) (use assms Inr p True s c b in \<open>simp_all add: change_tier_def\<close>)
  qed
qed

lemma change_tier_paid:
  assumes b: "booked_orders db" and ct: "change_tier env org tier hex row now db = (r, db')"
    and s: "get_sub org db = Some s" "get_sub org db' = Some s'" "su_tier s' \<noteq> su_tier s"
  shows "su_tier s' = tier \<and> tier_rank (su_tier s) < tier_rank tier \<and> su_period_start s' = Some now
    \<and> su_period_end s' = Some (add_months now 1)
    \<and> (\<exists>ov. active_offering tier (Some ''krw'') db = Inr (Some ov) \<and> su_offering s' = Some (ov_id ov)
         \<and> paid_order (''tierchange-'' @ org @ ''-'' @ ov_id ov @ ''-'' @ hex) db')"
  using ct
proof (cases rule: change_tier_cases)
  case refused
  then show ?thesis using s by simp
next
  case (runs t old new db2)
  let ?d = "upd_sub org (\<lambda>s. s\<lparr>su_claimed_at := Some now\<rparr>) db"
  have d: "booked_orders ?d" by (rule booked_orders_same [OF b]) simp_all
  have g: "get_sub org ?d = Some (s\<lparr>su_claimed_at := Some now\<rparr>)" using s by (simp add: get_sub_upd_sub)
  have t: "t = s" using runs(3) s by simp
  have w: "tier_rank (su_tier s) < tier_rank tier" "active_offering tier (Some ''krw'') db = Inr (Some new)"
    using runs(1) t by (auto simp: tier_change_guard_def split: if_splits option.splits sum.splits)
  from tier_change_body_result [OF d runs(4)]
  show ?thesis
  proof
    assume "b_subs db2 = b_subs ?d"
    then have "get_sub org db2 = Some (s\<lparr>su_claimed_at := Some now\<rparr>)" using g get_sub_frame by metis
    then show ?thesis using s runs(5) by (auto simp: get_sub_release)
  next
    assume a: "paid_order (''tierchange-'' @ org @ ''-'' @ ov_id new @ ''-'' @ hex) db2
      \<and> b_subs db2 = b_subs (upd_sub org (upgraded_sub tier new now (add_months now 1)) ?d)"
    then have "get_sub org db2 = get_sub org (upd_sub org (upgraded_sub tier new now (add_months now 1)) ?d)"
      by (intro get_sub_frame) simp
    then have "get_sub org db2 = Some (upgraded_sub tier new now (add_months now 1) (s\<lparr>su_claimed_at := Some now\<rparr>))"
      using g by (simp add: get_sub_upd_sub upgraded_sub_def)
    then have "s' = (upgraded_sub tier new now (add_months now 1) (s\<lparr>su_claimed_at := Some now\<rparr>))\<lparr>su_claimed_at := None\<rparr>"
      using s runs(5) by (simp add: get_sub_release upgraded_sub_def)
    then show ?thesis using a w runs(5) paid_order_same [of db' db2] by (simp add: upgraded_sub_def)
  qed
qed

text \<open>A checkout or an upgrade that finds a claim of the last three minutes is refused, whatever the
provider would answer, and changes nothing.\<close>

lemma claimed_refused:
  assumes "get_sub org db = Some s" "\<not> claim_free now s"
  shows "\<exists>e. change_tier env org tier hex row now db = (Inl e, db)"
    and "ca_org a = org \<Longrightarrow> \<exists>e. checkout_subscription env a now db = (Inl e, db)"
proof -
  obtain r db' where c: "change_tier env org tier hex row now db = (r, db')" by fastforce
  then show "\<exists>e. change_tier env org tier hex row now db = (Inl e, db)"
    by (cases rule: change_tier_cases) (use assms c in auto)
  obtain r2 db2 where k: "checkout_subscription env a now db = (r2, db2)" by fastforce
  show "\<exists>e. checkout_subscription env a now db = (Inl e, db)" if "ca_org a = org"
    using k
    by (cases rule: checkout_cases) (use assms k that in \<open>auto simp: checkout_claim_def\<close>)
qed

section \<open>Packs\<close>

lemma upd_row_fresh:
  "i \<notin> key ` set xs \<Longrightarrow> key y = i \<Longrightarrow> upd_row key i f (xs @ [y]) = xs @ [f y]"
  by (induction xs) (auto simp: upd_row_def)

text \<open>A charge of a new order adds one row with its price, or none.\<close>

definition adds_order :: "charge_call \<Rightarrow> bill_db \<Rightarrow> charge_pc \<Rightarrow> bill_db \<Rightarrow> bool" where
  "adds_order c db pc d \<longleftrightarrow> (b_orders d = b_orders db \<and> (pc = Claim \<or> steps_left pc = 0))
     \<or> (pc \<noteq> Claim \<and> (\<exists>y. b_orders d = b_orders db @ [y] \<and> bo_order_id y = cc_order_id c \<and> bo_amount y = cc_amount c))"

lemma charge_effect_adds:
  assumes new: "cc_order_id c \<notin> bo_order_id ` set (b_orders db)" and a: "adds_order c db pc d"
    and st: "0 < steps_left pc" and s: "charge_step env c now pc d = (pc', d')"
  shows "adds_order c db pc' d'"
proof (cases "pc = Claim")
  case True
  then have o: "b_orders d = b_orders db" using a by (simp add: adds_order_def)
  then have "get_order (cc_order_id c) d = None" using new by (force simp: get_order_def find_row_None)
  then show ?thesis
    using s True o by (auto simp: adds_order_def claim_order_def new_order_def split: if_splits)
next
  case False
  then obtain y where y: "b_orders d = b_orders db @ [y]" "bo_order_id y = cc_order_id c" "bo_amount y = cc_amount c"
    using a st by (auto simp: adds_order_def)
  have u: "b_orders (upd_order (cc_order_id c) f d) = b_orders db @ [f y]" for f
    using upd_row_fresh [of "cc_order_id c" bo_order_id "b_orders db" y f] new y by (simp add: upd_order_def)
  have "\<exists>z. b_orders d' = b_orders db @ [z] \<and> bo_order_id z = cc_order_id c \<and> bo_amount z = cc_amount c"
    using charge_step_effect [OF s]
  proof (cases rule: charge_effect.cases)
    case claims
    then show ?thesis using False by simp
  next
    case reclaims
    then show ?thesis using y u by (auto elim!: reclaim_order_cases)
  next
    case (fails reason)
    then show ?thesis using y u by (simp add: mark_failed_if_not_confirmed_def)
  next
    case (confirms key)
    then show ?thesis using y u by (simp add: confirm_order_def)
  qed (use y in simp_all)
  moreover have "pc' \<noteq> Claim"
    using s False by (cases pc)
      (auto simp: key_check_def answered_def looked_def stale_looked_def refetch_def
        split: option.splits prod.splits sum.splits toss_answer.splits if_splits)
  ultimately show ?thesis by (simp add: adds_order_def)
qed

lemma charge_org_adds:
  assumes "get_order (cc_order_id c) db = None" "charge_org env c now db = (r, db')"
  shows "b_orders db' = b_orders db
    \<or> (\<exists>y. b_orders db' = b_orders db @ [y] \<and> bo_order_id y = cc_order_id c \<and> bo_amount y = cc_amount c)"
proof -
  have new: "cc_order_id c \<notin> bo_order_id ` set (b_orders db)" using assms(1) by (auto simp: get_order_def find_row_None)
  have "adds_order c db (fst (run_charge env c now Claim db)) (snd (run_charge env c now Claim db))"
  proof (rule run_charge_keeps [where P = "adds_order c db"])
    show "adds_order c db Claim db" by (simp add: adds_order_def)
    fix pc d assume a: "adds_order c db pc d" and st: "0 < steps_left pc"
    obtain pc' d' where s: "charge_step env c now pc d = (pc', d')" by fastforce
    show "adds_order c db (fst (charge_step env c now pc d)) (snd (charge_step env c now pc d))"
      using charge_effect_adds [OF new a st s] by (simp add: s)
  qed
  then show ?thesis using assms(2) by (auto simp: adds_order_def charge_org_run)
qed

lemma packs_after_charge:
  assumes "get_order i db = None" "charge_org env c now db = (r, db')" "cc_order_id c = i" "cc_amount c = price * q"
    and "0 < price" "0 \<le> q"
  shows "packs_reserved_this_period org resource price a b db' \<le> packs_reserved_this_period org resource price a b db + q"
proof -
  let ?sum = "\<lambda>d. sum_list (map bo_amount (filter (reserves_pack org resource a b) (b_orders d)))"
  have "b_orders db' = b_orders db
    \<or> (\<exists>y. b_orders db' = b_orders db @ [y] \<and> bo_order_id y = i \<and> bo_amount y = price * q)"
    using charge_org_adds [of c db env now r db'] assms(1-4) by simp
  then have "?sum db' = ?sum db \<or> ?sum db' = ?sum db + price * q" by auto
  then have "?sum db' \<le> ?sum db + price * q" using assms(5,6) by auto
  then have "?sum db' div price \<le> (?sum db + price * q) div price" using assms(5) by (rule zdiv_mono1)
  then show ?thesis using assms(5) by (simp add: packs_reserved_this_period_def)
qed

lemma purchase_within_cap:
  assumes p: "purchase_packs env org resource q key row now db = (r, db')"
    and s: "get_sub org db = Some s" "su_period_start s = Some a" "su_period_end s = Some b"
    and ov: "su_offering s = Some i" "get_offering i db = Some ov" "ov_packs ov = Some ps" "map_of ps resource = Some pack"
    and cap: "pack_max pack = Some most" "0 < pack_price pack"
    and new: "get_order (pack_order_id org resource key) db = None"
    and le: "packs_reserved_this_period org resource (pack_price pack) a b db \<le> most"
  shows "packs_reserved_this_period org resource (pack_price pack) a b db' \<le> most"
proof (cases "pack_guard org resource q key db")
  case (Inl e)
  then show ?thesis using p le by (simp add: purchase_packs_def)
next
  case (Inr g)
  then have g: "g = (ov, pack)" "1 \<le> q"
      "packs_reserved_this_period org resource (pack_price pack) a b db + q \<le> most"
    using s ov cap by (auto simp: pack_guard_def split: if_splits)
  let ?c = "pack_call org resource q key row ov pack"
  obtain r1 db1 where ch: "charge_org env ?c now db = (r1, db1)" by fastforce
  then have "db' = db1" using p Inr g by (auto simp: purchase_packs_def split: sum.splits)
  then show ?thesis
    using packs_after_charge [OF new ch, of "pack_price pack" q org resource a b] g cap by (simp add: pack_call_def)
qed

section \<open>Reservations, seats, catalogue\<close>

lemma upd_sub_twice:
  "(\<And>s. su_org (g s) = su_org s) \<Longrightarrow> upd_sub i f (upd_sub i g db) = upd_sub i (f \<circ> g) db"
  by (simp add: upd_sub_def upd_row_def comp_def cong: if_cong)

lemma upd_sub_same:
  assumes "\<And>s. s \<in> set (b_subs db) \<Longrightarrow> su_org s = i \<Longrightarrow> f s = s"
  shows "upd_sub i f db = db"
proof -
  have "upd_row su_org i f (b_subs db) = b_subs db"
    unfolding upd_row_def by (rule map_idI) (use assms in auto)
  then show ?thesis by (simp add: upd_sub_def)
qed

lemma reserve_then_withdraw:
  assumes subs: "distinct (map su_org (b_subs db))" and s: "get_sub org db = Some s"
    and free: "su_pending_tier s = None" "su_pending_offering s = None" "su_pending_apply_at s = None"
    and res: "reserve_downgrade org tier db = (Inr s1, db1) \<or> cancel_subscription org db = (Inr s1, db1)"
  shows "cancel_pending_downgrade org db1 = (Inr s, db)"
proof -
  obtain t ov where r: "reserve_pending_change s t ov db = (Inr s1, db1)" and pe: "su_period_end s \<noteq> None"
    using res s by (auto simp: reserve_downgrade_def cancel_subscription_def active_paid_sub_or_raise_def
        split: if_splits sum.splits option.splits)
  have o: "su_org s = org" using get_subD [OF s] by simp
  let ?g = "\<lambda>r. r\<lparr>su_pending_tier := Some t, su_pending_offering := Some ov, su_pending_apply_at := su_period_end s\<rparr>"
  have d: "db1 = upd_sub org ?g db"
    using r o by (metis reserve_pending_change_def snd_conv sub_result_db)
  have g1: "get_sub org db1 = Some (?g s)" unfolding d using s by (simp add: get_sub_upd_sub)
  have only: "r = s" if "r \<in> set (b_subs db)" "su_org r = org" for r
    using find_row_member [OF subs that(1)] that(2) s by (simp add: get_sub_def)
  have "upd_sub org clear_pending db1 = upd_sub org (clear_pending \<circ> ?g) db"
    unfolding d by (rule upd_sub_twice) simp
  also have "\<dots> = db"
    by (rule upd_sub_same) (use only free in \<open>auto simp: clear_pending_def\<close>)
  finally show ?thesis using g1 pe s by (simp add: cancel_pending_downgrade_def sub_result_def)
qed

lemma apply_downgrade_seats:
  assumes "apply_pending_downgrade now s db = (Inr Applied, db')" "su_pending_tier s = Some tier" "tier \<noteq> ''free''"
  shows "\<exists>i ov. su_pending_offering s = Some i \<and> get_offering i db = Some ov \<and> count_human_seats (su_org s) db \<le> ov_seats ov"
  using assms by (auto simp: apply_pending_downgrade_def Let_def bind_eq_Some_conv split: option.splits if_splits sum.splits)

lemma cancellation_applies:
  assumes "su_pending_tier s = Some ''free''" "su_pending_offering s = Some i" "get_offering i db = Some ov"
    and "get_sub (su_org s) db = Some s"
  shows "\<exists>db' s'. apply_pending_downgrade now s db = (Inr Applied, db') \<and> get_sub (su_org s) db' = Some s'
    \<and> su_tier s' = ''free'' \<and> su_offering s' = Some i \<and> su_period_end s' = None \<and> su_pending_tier s' = None"
  using assms by (simp add: apply_pending_downgrade_def get_sub_upd_sub applied_downgrade_def clear_pending_def)

definition one_active_offering :: "bill_db \<Rightarrow> bool" where
  "one_active_offering db \<longleftrightarrow> (\<forall>tier currency. \<exists>x. active_offering tier currency db = Inr x)"

lemma active_after_create:
  assumes "create_offering_version request now db = (Inr v, db')"
  shows "active_offering (ov_tier request) (Some (ov_currency request)) db' = Inr (Some v)"
    and "(tier, currency) \<noteq> (ov_tier request, Some (ov_currency request)) \<Longrightarrow>
      active_offering tier currency db' = active_offering tier currency db"
    and "map ov_id (b_offerings db') = map ov_id (b_offerings db) @ [ov_id v]"
proof -
  let ?P = "\<lambda>x. ov_tier x = ov_tier request \<and> ov_currency x = ov_currency request \<and> ov_to x = None"
  have v: "v = request\<lparr>ov_from := now, ov_to := None\<rparr>"
    and d: "b_offerings db' = map (\<lambda>x. if ?P x then x\<lparr>ov_to := Some now\<rparr> else x) (b_offerings db) @ [v]"
    using assms by (auto simp: create_offering_version_def Let_def split: sum.splits)
  have "filter (\<lambda>x. ov_tier x = ov_tier request \<and> Some (ov_currency x) = Some (ov_currency request) \<and> ov_to x = None)
      (b_offerings db') = [v]"
    unfolding d by (auto simp: v filter_empty_conv)
  then show "active_offering (ov_tier request) (Some (ov_currency request)) db' = Inr (Some v)"
    by (simp add: active_offering_def)
  show "map ov_id (b_offerings db') = map ov_id (b_offerings db) @ [ov_id v]"
    unfolding d by (induction "b_offerings db") (auto simp: comp_def)
  assume ne: "(tier, currency) \<noteq> (ov_tier request, Some (ov_currency request))"
  have same: "filter (\<lambda>x. ov_tier x = tier \<and> Some (ov_currency x) = currency \<and> ov_to x = None)
      (map (\<lambda>x. if ?P x then x\<lparr>ov_to := Some now\<rparr> else x) xs)
    = filter (\<lambda>x. ov_tier x = tier \<and> Some (ov_currency x) = currency \<and> ov_to x = None) xs" for xs
    using ne by (induction xs) auto
  have "filter (\<lambda>x. ov_tier x = tier \<and> Some (ov_currency x) = currency \<and> ov_to x = None) [v] = []"
    using ne by (auto simp: v)
  then show "active_offering tier currency db' = active_offering tier currency db"
    unfolding active_offering_def d filter_append same by simp
qed

section \<open>Dunning\<close>

definition order_touched :: "string \<Rightarrow> timestamp \<Rightarrow> bill_db \<Rightarrow> bill_db \<Rightarrow> bool" where
  \<comment> \<open>of the orders only \<^verbatim>\<open>i\<close> has changed, and that now\<close>
  "order_touched i now db d \<longleftrightarrow> map bo_order_id (b_orders d) = map bo_order_id (b_orders db)
     \<and> b_grace_days d = b_grace_days db
     \<and> (\<forall>j. j \<noteq> i \<longrightarrow> get_order j d = get_order j db)
     \<and> (\<exists>x y. get_order i db = Some x \<and> get_order i d = Some y \<and> bo_created_at y = bo_created_at x \<and> bo_updated_at y = now)"

lemma order_touched_upd:
  assumes "order_touched i now db d" "\<And>x. bo_order_id (f x) = bo_order_id x"
    and "\<And>x. bo_created_at (f x) = bo_created_at x" "\<And>x. bo_updated_at x = now \<Longrightarrow> bo_updated_at (f x) = now"
  shows "order_touched i now db (upd_order i f d)"
proof -
  have "get_order j (upd_order i f d) = (if j = i then map_option f (get_order j d) else get_order j d)" for j
    by (rule get_order_upd) (rule assms(2))
  moreover have "map bo_order_id (b_orders (upd_order i f d)) = map bo_order_id (b_orders d)"
    by (simp add: upd_order_def upd_row_map_key assms(2))
  ultimately show ?thesis using assms(1,3,4) unfolding order_touched_def by auto
qed

lemma order_touched_same:
  "order_touched i now db d \<Longrightarrow> b_orders d' = b_orders d \<Longrightarrow> b_grace_days d' = b_grace_days d \<Longrightarrow> order_touched i now db d'"
  by (simp add: order_touched_def get_order_def)

lemma book_grace [simp]: "b_grace_days (book e db) = b_grace_days db"
  by (simp add: book_def)

lemma charge_effect_touched:
  assumes t: "order_touched (cc_order_id c) now db d" and e: "charge_effect c now pc pc' d d'"
  shows "order_touched (cc_order_id c) now db d'"
  using e
proof (cases rule: charge_effect.cases)
  case nothing
  then show ?thesis using t by simp
next
  case claims
  then show ?thesis using t by (auto simp: order_touched_def)
next
  case reclaims
  from reclaims(3) show ?thesis
  proof (cases rule: reclaim_order_cases)
    case (2 x)
    show ?thesis unfolding 2(4) by (rule order_touched_upd [OF t]) simp_all
  qed simp
next
  case (fails reason)
  show ?thesis unfolding fails mark_failed_if_not_confirmed_def by (rule order_touched_upd [OF t]) simp_all
next
  case (books key)
  show ?thesis unfolding books by (rule order_touched_same [OF t]) simp_all
next
  case (confirms key)
  show ?thesis unfolding confirms confirm_order_def by (rule order_touched_upd [OF t]) simp_all
qed

lemma retry_touches:
  assumes c: "payable c" and x: "get_order (cc_order_id c) db = Some x" "bo_status x = OrderFailed"
  shows "order_touched (cc_order_id c) now db (snd (charge_org env c now db))"
proof -
  let ?d = "upd_order (cc_order_id c) (reopened now) db"
  have g: "get_order j ?d = (if j = cc_order_id c then map_option (reopened now) (get_order j db) else get_order j db)" for j
    by (rule get_order_upd) (simp add: reopened_def)
  have "map bo_order_id (b_orders ?d) = map bo_order_id (b_orders db)"
    by (simp add: upd_order_def upd_row_map_key reopened_def)
  then have d: "order_touched (cc_order_id c) now db ?d" using x g by (simp add: order_touched_def reopened_def)
  let ?P = "\<lambda>pc. order_touched (cc_order_id c) now db"
  have "?P (fst (run_charge env c now Key_check ?d)) (snd (run_charge env c now Key_check ?d))"
  proof (rule run_charge_keeps [where P = ?P])
    fix pc e assume "order_touched (cc_order_id c) now db e"
    then show "order_touched (cc_order_id c) now db (snd (charge_step env c now pc e))"
      by (rule charge_effect_touched [where pc' = "fst (charge_step env c now pc e)" and pc = pc])
        (rule charge_step_effect [where env = env], simp)
  qed (rule d)
  then show ?thesis by (simp add: charge_org_run run_charge_failed_before [OF c x])
qed

lemma dunning_mail_frame [simp]:
  "b_orders (notify_dunning_failure org t g db) = b_orders db" "b_subs (notify_dunning_failure org t g db) = b_subs db"
  "b_ledger (notify_dunning_failure org t g db) = b_ledger db"
  "b_grace_days (notify_dunning_failure org t g db) = b_grace_days db"
  by (simp_all add: notify_dunning_failure_def)

lemma sync_frame:
  assumes "sync_renewal_retry_outcome org i db = (r, db')"
  shows "b_orders db' = b_orders db" "b_grace_days db' = b_grace_days db" "b_ledger db' = b_ledger db"
  using assms by (auto simp: sync_renewal_retry_outcome_def split: option.splits if_splits sum.splits)

lemma upsert_free_frame [simp]:
  "b_orders (upsert_free i now org free db) = b_orders db" "b_ledger (upsert_free i now org free db) = b_ledger db"
  "b_grace_days (upsert_free i now org free db) = b_grace_days db"
  by (auto simp: upsert_free_def split: option.splits)

lemma downgrade_closes:
  assumes "downgrade_to_free ids org i now db = (Inr (), db')" "get_order i db = Some x"
  shows "\<exists>d. db' = close_order i now d \<and> b_orders d = b_orders db \<and> b_ledger d = b_ledger db \<and> b_grace_days d = b_grace_days db"
  using assms by (auto simp: downgrade_to_free_def split: if_splits sum.splits)

definition quiet_order :: "timestamp \<Rightarrow> int \<Rightarrow> billing_order \<Rightarrow> bool" where
  \<comment> \<open>nothing is due for the order on that day\<close>
  "quiet_order now grace y \<longleftrightarrow> (\<forall>t. date_of t = date_of now \<longrightarrow> next_dunning_action t grace y = Dunning_wait)"

lemma same_day_action: "date_of t = date_of now \<Longrightarrow> next_dunning_action t g x = next_dunning_action now g x"
  by (simp add: next_dunning_action_def order_age_def)

lemma dun_order_quiet:
  assumes c: "payable (retry_call x)" and x: "get_order (bo_order_id x) db = Some x" "bo_status x = OrderFailed"
    and d: "dun_order env ids now x db = (Inr a, db')"
  shows "map bo_order_id (b_orders db') = map bo_order_id (b_orders db) \<and> b_grace_days db' = b_grace_days db
    \<and> (\<forall>j. j \<noteq> bo_order_id x \<longrightarrow> get_order j db' = get_order j db)
    \<and> (\<exists>y. get_order (bo_order_id x) db' = Some y \<and> quiet_order now (b_grace_days db) y)"
proof (cases "next_dunning_action now (b_grace_days db) x")
  case Dunning_wait
  then have "db' = db" using d by (simp add: dun_order_def)
  moreover have "quiet_order now (b_grace_days db) x"
    unfolding quiet_order_def using Dunning_wait same_day_action by metis
  ultimately show ?thesis using x by simp
next
  case Dunning_retry
  let ?d = "snd (charge_org env (retry_call x) now db)"
  have t: "order_touched (bo_order_id x) now db ?d"
    using retry_touches [OF c, of db x now env] x by (simp add: retry_call_def)
  have same: "b_orders db' = b_orders ?d \<and> b_grace_days db' = b_grace_days ?d"
  proof (cases "starts_with RENEWAL_ORDER_PREFIX (bo_order_id x)")
    case True
    obtain r d2 where "sync_renewal_retry_outcome (bo_org x) (bo_order_id x) ?d = (r, d2)" by fastforce
    then show ?thesis using d Dunning_retry True sync_frame by (cases r) (simp_all add: dun_order_def Let_def)
  next
    case False
    then show ?thesis using d Dunning_retry by (simp add: dun_order_def Let_def)
  qed
  then have t': "order_touched (bo_order_id x) now db db'" using order_touched_same [OF t] by blast
  then obtain y where y: "get_order (bo_order_id x) db' = Some y" "bo_created_at y = bo_created_at x" "bo_updated_at y = now"
    using x by (auto simp: order_touched_def)
  have "quiet_order now (b_grace_days db) y"
    using Dunning_retry y by (auto simp: quiet_order_def next_dunning_action_def order_age_def split: if_splits)
  then show ?thesis using t' y by (simp add: order_touched_def)
next
  case Dunning_downgrade
  then have "downgrade_to_free ids (bo_org x) (bo_order_id x) now db = (Inr (), db')"
    using d by (auto simp: dun_order_def split: prod.splits sum.splits)
  then obtain e where e: "db' = close_order (bo_order_id x) now e" "b_orders e = b_orders db" "b_grace_days e = b_grace_days db"
    using downgrade_closes x by blast
  let ?f = "\<lambda>x. if bo_status x = OrderConfirmed then x else x\<lparr>bo_status := OrderDowngraded, bo_updated_at := now\<rparr>"
  have g: "get_order j db' = (if j = bo_order_id x then map_option ?f (get_order j db) else get_order j db)" for j
    using get_order_frame [OF e(2)] by (simp add: e(1) close_order_def get_order_upd)
  have "map bo_order_id (b_orders db') = map bo_order_id (b_orders db)"
    by (simp add: e close_order_def upd_order_def upd_row_map_key)
  moreover have "b_grace_days db' = b_grace_days db" by (simp add: e close_order_def)
  ultimately show ?thesis using g x by (simp add: quiet_order_def next_dunning_action_def)
qed

lemma dunning_loop_quiet:
  assumes "sweep_loop (dun_order env ids now) xs db = (Inr as, db')" "distinct (map bo_order_id xs)"
    and "\<forall>x \<in> set xs. get_order (bo_order_id x) db = Some x \<and> bo_status x = OrderFailed \<and> payable (retry_call x)"
  shows "map bo_order_id (b_orders db') = map bo_order_id (b_orders db) \<and> b_grace_days db' = b_grace_days db
    \<and> (\<forall>j. j \<notin> bo_order_id ` set xs \<longrightarrow> get_order j db' = get_order j db)
    \<and> (\<forall>x \<in> set xs. \<exists>y. get_order (bo_order_id x) db' = Some y \<and> quiet_order now (b_grace_days db) y)"
  using assms
proof (induction xs arbitrary: db as)
  case (Cons x xs)
  obtain r db1 where d: "dun_order env ids now x db = (Inr r, db1)"
    using Cons.prems(1) by (auto split: prod.splits sum.splits)
  obtain rs where l: "sweep_loop (dun_order env ids now) xs db1 = (Inr rs, db')"
    using Cons.prems(1) d by (auto split: prod.splits sum.splits)
  have q: "map bo_order_id (b_orders db1) = map bo_order_id (b_orders db) \<and> b_grace_days db1 = b_grace_days db
    \<and> (\<forall>j. j \<noteq> bo_order_id x \<longrightarrow> get_order j db1 = get_order j db)
    \<and> (\<exists>y. get_order (bo_order_id x) db1 = Some y \<and> quiet_order now (b_grace_days db) y)"
    using dun_order_quiet [OF _ _ _ d] Cons.prems(3) by simp
  have ne: "bo_order_id z \<noteq> bo_order_id x" if "z \<in> set xs" for z using Cons.prems(2) that by (force dest: sym)
  have "\<forall>z \<in> set xs. get_order (bo_order_id z) db1 = Some z \<and> bo_status z = OrderFailed \<and> payable (retry_call z)"
    using q ne Cons.prems(3) by simp
  note ih = Cons.IH [OF l _ this]
  have "bo_order_id x \<notin> bo_order_id ` set xs" using Cons.prems(2) by simp
  then show ?case using ih Cons.prems(2) q by auto
qed simp

lemma dunning_sweep_quiet:
  assumes ids: "distinct (map bo_order_id (b_orders db))" and ok: "\<forall>x \<in> set (b_orders db). payable (retry_call x)"
    and sw: "sweep_dunning_retries env ids' now db = (Inr as, db')" and y: "y \<in> set (b_orders db')"
  shows "quiet_order now (b_grace_days db') y"
proof -
  let ?xs = "filter (\<lambda>x. bo_status x = OrderFailed) (b_orders db)"
  have g: "get_order (bo_order_id x) db = Some x" if "x \<in> set (b_orders db)" for x
    unfolding get_order_def by (rule find_row_member [OF ids that])
  have l: "map bo_order_id (b_orders db') = map bo_order_id (b_orders db) \<and> b_grace_days db' = b_grace_days db
    \<and> (\<forall>j. j \<notin> bo_order_id ` set ?xs \<longrightarrow> get_order j db' = get_order j db)
    \<and> (\<forall>x \<in> set ?xs. \<exists>y. get_order (bo_order_id x) db' = Some y \<and> quiet_order now (b_grace_days db) y)"
    by (rule dunning_loop_quiet [OF sw [unfolded sweep_dunning_retries_def]])
      (use ids ok g in \<open>auto simp: distinct_map_filter\<close>)
  then have gy: "get_order (bo_order_id y) db' = Some y"
    unfolding get_order_def using find_row_member [of bo_order_id "b_orders db'" y] ids y by metis
  show ?thesis
  proof (cases "bo_order_id y \<in> bo_order_id ` set ?xs")
    case True
    then obtain x where "x \<in> set ?xs" "bo_order_id x = bo_order_id y" by auto
    then show ?thesis using l gy by auto
  next
    case False
    then have gd: "get_order (bo_order_id y) db = Some y" using l gy by simp
    then have "y \<in> set (b_orders db)" using get_orderD by blast
    then have "bo_status y \<noteq> OrderFailed" using False by auto
    then show ?thesis by (simp add: quiet_order_def next_dunning_action_def)
  qed
qed

text \<open>The days on which an order can be retried are counted.\<close>

fun retried_at :: "int \<Rightarrow> billing_order \<Rightarrow> timestamp list \<Rightarrow> bool" where
  \<comment> \<open>sweeps at these times all retry the order, and every retry fails\<close>
  "retried_at grace x [] = True"
| "retried_at grace x (t # ts) \<longleftrightarrow> next_dunning_action t grace x = Dunning_retry \<and> retried_at grace (x\<lparr>bo_updated_at := t\<rparr>) ts"

lemma retried_at_bound:
  assumes "retried_at grace x ts" "date_of (bo_created_at x) \<le> date_of (bo_updated_at x)" "0 \<le> grace"
    and "date_of (bo_updated_at x) \<le> date_of (bo_created_at x) + grace"
  shows "int (length ts) \<le> date_of (bo_created_at x) + grace - date_of (bo_updated_at x)"
  using assms
proof (induction ts arbitrary: x)
  case (Cons t ts)
  have a: "next_dunning_action t grace x = Dunning_retry" using Cons.prems by simp
  then have "date_of (bo_updated_at x) < date_of t" "date_of t \<le> date_of (bo_created_at x) + grace" "date_of (bo_created_at x) < date_of t"
    by (auto simp: next_dunning_action_def order_age_def split: if_splits)
  then show ?case using Cons.IH [of "x\<lparr>bo_updated_at := t\<rparr>"] Cons.prems by simp
qed simp

end
