(* ===== verification/Billing_Renewals.thy ===== *)
theory Billing_Renewals
  imports Billing_Laws
begin

text \<open>
  Lemmas on what the cron does to subscriptions: renewals, the forced downgrade, expired grants; and on
  what it leaves alone.
\<close>

section \<open>Renewals\<close>

lemma renew_result:
  assumes b: "booked_orders db" and s: "get_sub (su_org s) db = Some s"
    and ov: "su_offering s = Some ov" "su_period_end s = Some due" and r: "renew env ids now s db = (Inr res, db')"
  shows "(res = Renewed \<longrightarrow> paid_order (renewal_order_id (su_org s) ov due) db'
            \<and> (\<exists>e. compute_period_end due (su_cycle s) = Inr e \<and> get_sub (su_org s) db' = Some (rolled_sub due e s)))
    \<and> (res = Renewal_failed \<longrightarrow> get_sub (su_org s) db' = Some (s\<lparr>su_status := ''past_due''\<rparr>)
            \<and> map_option bo_status (get_order (renewal_order_id (su_org s) ov due) db') \<noteq> Some OrderConfirmed)
    \<and> (res = Catalog_error \<longrightarrow> db' = db)"
proof (cases "compute_charge_amount (su_org s) db")
  case (Inl e)
  then show ?thesis using r ov by (auto simp: renew_def Let_def)
next
  case (Inr p)
  obtain amount currency where p: "p = (amount, currency)" by fastforce
  let ?i = "renewal_order_id (su_org s) ov due"
  let ?c = "renewal_call ids (su_org s) ?i amount currency"
  obtain r1 db1 where ch: "charge_org env ?c now db = (r1, db1)" by fastforce
  note g = charge_org_booked [OF b ch]
  let ?x = "case r1 of Inr y \<Rightarrow> Some y | Inl e \<Rightarrow> get_order ?i db1"
  have x: "?x = get_order ?i db1"
    using g(4) by (cases r1) (simp_all add: renewal_call_def)
  have s1: "get_sub (su_org s) db1 = Some s" using s g(2) get_sub_frame by metis
  have "renew env ids now s db = (if map_option bo_status ?x = Some OrderConfirmed
      then (case compute_period_end due (su_cycle s) of Inl e \<Rightarrow> (Inl e, db1)
          | Inr e \<Rightarrow> (Inr Renewed, upd_sub (su_org s) (rolled_sub due e) db1))
      else (Inr Renewal_failed, renewal_missed now s ?x db1))"
    by (simp add: renew_def Let_def ov Inr p ch)
  note eq = this [unfolded x]
  show ?thesis
  proof (cases "map_option bo_status (get_order ?i db1) = Some OrderConfirmed")
    case True
    then obtain y where y: "get_order ?i db1 = Some y" "bo_status y = OrderConfirmed" by blast
    have pd: "paid_order ?i db1" by (rule paid_orderI [OF g(1) y])
    obtain e where e: "compute_period_end due (su_cycle s) = Inr e" "res = Renewed"
        "db' = upd_sub (su_org s) (rolled_sub due e) db1"
      using r [unfolded eq if_P [OF True]] by (auto split: sum.splits)
    then have "get_sub (su_org s) db' = Some (rolled_sub due e s)" using s1 by (simp add: get_sub_upd_sub rolled_sub_def)
    moreover have "paid_order ?i db'" using pd e(3) paid_order_same [of db' db1] by simp
    ultimately show ?thesis using e by simp
  next
    case False
    then have e: "res = Renewal_failed" "db' = renewal_missed now s (get_order ?i db1) db1"
      using r [unfolded eq if_not_P [OF False]] by auto
    have "get_sub (su_org s) db' = get_sub (su_org s) (upd_sub (su_org s) (\<lambda>r. r\<lparr>su_status := ''past_due''\<rparr>) db1)"
      by (rule get_sub_frame) (simp add: e renewal_missed_def)
    then have "get_sub (su_org s) db' = Some (s\<lparr>su_status := ''past_due''\<rparr>)" using s1 by (simp add: get_sub_upd_sub)
    moreover have "get_order ?i db' = get_order ?i db1" by (rule get_order_frame) (simp add: e renewal_missed_def)
    ultimately show ?thesis using e False by simp
  qed
qed

section \<open>The forced downgrade\<close>

lemma close_order_row:
  "get_order i (close_order i now db) = map_option (\<lambda>x. if bo_status x = OrderConfirmed then x
     else x\<lparr>bo_status := OrderDowngraded, bo_updated_at := now\<rparr>) (get_order i db)"
  unfolding close_order_def by (subst get_order_upd) simp_all

lemma downgrade_spares_recovered:
  assumes d: "downgrade_to_free ids org i now db = (Inr (), db')" and x: "get_order i db = Some x"
    and rec: "has_newer_confirmed_order x org db \<or> has_newly_issued_billing_key x org db \<or> has_active_checkout_claim now org db"
  shows "b_subs db' = b_subs db" "\<exists>y. get_order i db' = Some y \<and> bo_status y \<noteq> OrderFailed \<and> bo_status y \<noteq> OrderPending"
proof -
  have e: "db' = close_order i now db" using d x rec by (simp add: downgrade_to_free_def)
  then show "b_subs db' = b_subs db" by (simp add: close_order_def)
  show "\<exists>y. get_order i db' = Some y \<and> bo_status y \<noteq> OrderFailed \<and> bo_status y \<noteq> OrderPending"
    using x unfolding e close_order_row by auto
qed

lemma downgrade_frees:
  assumes d: "downgrade_to_free ids org i now db = (Inr (), db')" and x: "get_order i db = Some x"
    and s: "get_sub org db = Some s" "b_subs db' \<noteq> b_subs db"
  shows "\<exists>s'. get_sub org db' = Some s' \<and> su_tier s' = ''free'' \<and> su_status s' = ''active''
    \<and> \<not> has_newer_confirmed_order x org db \<and> \<not> has_newly_issued_billing_key x org db \<and> \<not> has_active_checkout_claim now org db"
proof -
  have n: "\<not> (has_newer_confirmed_order x org db \<or> has_newly_issued_billing_key x org db \<or> has_active_checkout_claim now org db)"
    using downgrade_spares_recovered(1) [OF d x] s(2) by blast
  then obtain free where e: "db' = close_order i now (upsert_free (ids i) now org free db)"
    using d x by (auto simp: downgrade_to_free_def split: sum.splits)
  have "claim_free now s" using n get_subD [OF s(1)] by (auto simp: has_active_checkout_claim_def)
  moreover have "get_sub org db' = get_sub org (upsert_free (ids i) now org free db)"
    by (rule get_sub_frame) (simp add: e close_order_def)
  moreover have "get_sub org (upsert_free (ids i) now org free db)
      = map_option (\<lambda>s. if claim_free now s then freed_sub free s else s) (get_sub org db)"
    using s by (simp add: upsert_free_def get_sub_upd_sub freed_sub_def)
  ultimately show ?thesis using s n by (simp add: freed_sub_def)
qed

section \<open>Expired grants\<close>

definition grant_due :: "timestamp \<Rightarrow> ledger_entry \<Rightarrow> bill_db \<Rightarrow> bool" where
  \<comment> \<open>the grant has expired and the tier it gave is still in place\<close>
  "grant_due now e db \<longleftrightarrow> (case meta_time ''grant_expires_at'' e of None \<Rightarrow> False | Some t \<Rightarrow> t < now)
     \<and> map_option su_tier (get_sub (le_org e) db) = meta_text ''target_tier'' e \<and> meta_text ''target_tier'' e \<noteq> None"

lemma revert_entry_reverts: "reverts_entry (le_id e) (revert_entry e target prev now)" "\<not> is_tier_grant (revert_entry e target prev now)"
  by (simp_all add: reverts_entry_def revert_entry_def meta_text_def is_tier_grant_def)

lemma revert_grant_effect:
  assumes r: "revert_grant now e db = (Inr res, db')"
    and new: "Some (revert_ref (le_id e)) \<notin> le_provider_ref ` set (b_ledger db)"
  shows "(db' = db \<and> \<not> grant_due now e db) \<or>
    (\<exists>entry prev. b_ledger db' = b_ledger db @ [entry] \<and> reverts_entry (le_id e) entry \<and> \<not> is_tier_grant entry
       \<and> le_provider_ref entry = Some (revert_ref (le_id e))
       \<and> (\<forall>org. org \<noteq> le_org e \<longrightarrow> get_sub org db' = get_sub org db)
       \<and> get_sub (le_org e) db' = map_option (reverted_sub prev) (get_sub (le_org e) db))"
proof -
  obtain t target prev where m: "meta_time ''grant_expires_at'' e = Some t" "meta_text ''target_tier'' e = Some target"
      "meta_text ''prev_tier'' e = Some prev"
    using r by (auto simp: revert_grant_def split: option.splits)
  show ?thesis
  proof (cases "now \<le> t \<or> map_option su_tier (get_sub (le_org e) db) \<noteq> Some target")
    case True
    have "db' = db"
    proof (cases "now \<le> t")
      case True
      then show ?thesis using r m by (simp add: revert_grant_def)
    next
      case False
      then have "map_option su_tier (get_sub (le_org e) db) \<noteq> Some target" using True by blast
      then show ?thesis using r m False by (simp add: revert_grant_def del: map_option_eq_Some)
    qed
    then show ?thesis using True m by (auto simp: grant_due_def)
  next
    case False
    let ?d = "upd_sub (le_org e) (reverted_sub prev) db"
    let ?e = "revert_entry e target prev now"
    obtain q where "record_ledger_entry ?e ?d = (Inr q, db')"
      using r m False by (auto simp: revert_grant_def split: prod.splits sum.splits)
    then have d: "db' = book ?e ?d" using record_ledger_entry_booked by blast
    have ref: "le_provider_ref ?e = Some (revert_ref (le_id e))" by (simp add: revert_entry_def)
    have "b_ledger db' = b_ledger db @ [?e]" using new by (simp add: d ledger.put ref)
    moreover have "get_sub org db' = get_sub org ?d" for org by (rule get_sub_frame) (simp add: d)
    moreover have "get_sub org ?d = (if org = le_org e then map_option (reverted_sub prev) (get_sub org db) else get_sub org db)" for org
      by (rule get_sub_upd) (simp add: reverted_sub_def)
    ultimately show ?thesis using revert_entry_reverts ref by auto
  qed
qed

lemma latest_grant_append:
  "b_ledger db' = b_ledger db @ new \<Longrightarrow> \<forall>r \<in> set new. \<not> is_tier_grant r \<Longrightarrow> latest_grant org db' = latest_grant org db"
  by (simp add: latest_grant_def filter_empty_conv)

lemma latest_grantD: "latest_grant org db = Some e \<Longrightarrow> e \<in> set (b_ledger db) \<and> is_tier_grant e \<and> le_org e = org"
  using max_row_in [of le_ts _ e] by (force simp: latest_grant_def)

lemma in_latest_grants: "e \<in> set (latest_grants db) \<longleftrightarrow> latest_grant (le_org e) db = Some e \<and> \<not> is_reverted (le_id e) db"
proof -
  have "e \<in> set (List.map_filter (\<lambda>org. latest_grant org db) (sort (remdups (map le_org (filter is_tier_grant (b_ledger db))))))
    \<longleftrightarrow> latest_grant (le_org e) db = Some e" (is "?l \<longleftrightarrow> ?r")
  proof
    assume ?l
    then obtain org where "latest_grant org db = Some e" by (auto simp: map_filter_def)
    then show ?r using latest_grantD by metis
  next
    assume ?r
    then have "e \<in> set (b_ledger db) \<and> is_tier_grant e" using latest_grantD by blast
    then show ?l using \<open>?r\<close> by (force simp: map_filter_def image_iff)
  qed
  then show ?thesis by (auto simp: latest_grants_def)
qed

lemma is_reverted_mono: "is_reverted i db \<Longrightarrow> set (b_ledger db) \<subseteq> set (b_ledger db') \<Longrightarrow> is_reverted i db'"
  by (auto simp: is_reverted_def)

lemma grant_due_sub: "get_sub (le_org e) db' = get_sub (le_org e) db \<Longrightarrow> grant_due now e db' = grant_due now e db"
  by (simp add: grant_due_def)

definition grants_settled :: "timestamp \<Rightarrow> ledger_entry list \<Rightarrow> bill_db \<Rightarrow> bill_db \<Rightarrow> bool" where
  "grants_settled now xs db db' \<longleftrightarrow> (\<exists>new. b_ledger db' = b_ledger db @ new \<and> (\<forall>r \<in> set new. \<not> is_tier_grant r))
     \<and> (\<forall>org. org \<notin> le_org ` set xs \<longrightarrow> get_sub org db' = get_sub org db)
     \<and> (\<forall>x \<in> set xs. is_reverted (le_id x) db' \<or> \<not> grant_due now x db')"

lemma grants_loop:
  assumes "sweep_loop (revert_grant now) xs db = (Inr rs, db')" "distinct (map le_org xs)" "distinct (map le_id xs)"
    and "\<forall>x \<in> set xs. Some (revert_ref (le_id x)) \<notin> le_provider_ref ` set (b_ledger db)"
  shows "grants_settled now xs db db'"
  using assms
proof (induction xs arbitrary: db rs)
  case (Cons x xs)
  obtain r db1 where s: "revert_grant now x db = (Inr r, db1)" using Cons.prems(1) by (auto split: prod.splits sum.splits)
  obtain rs' where l: "sweep_loop (revert_grant now) xs db1 = (Inr rs', db')"
    using Cons.prems(1) s by (auto split: prod.splits sum.splits)
  have e: "(db1 = db \<and> \<not> grant_due now x db) \<or>
    (\<exists>entry prev. b_ledger db1 = b_ledger db @ [entry] \<and> reverts_entry (le_id x) entry \<and> \<not> is_tier_grant entry
       \<and> le_provider_ref entry = Some (revert_ref (le_id x))
       \<and> (\<forall>org. org \<noteq> le_org x \<longrightarrow> get_sub org db1 = get_sub org db)
       \<and> get_sub (le_org x) db1 = map_option (reverted_sub prev) (get_sub (le_org x) db))"
    using revert_grant_effect [OF s] Cons.prems(4) by simp
  then have new: "\<exists>new. b_ledger db1 = b_ledger db @ new \<and> (\<forall>r \<in> set new. \<not> is_tier_grant r
      \<and> le_provider_ref r = Some (revert_ref (le_id x)))"
    and sub: "\<forall>org. org \<noteq> le_org x \<longrightarrow> get_sub org db1 = get_sub org db"
    and own: "is_reverted (le_id x) db1 \<or> \<not> grant_due now x db1"
    by (auto simp: is_reverted_def)
  have "\<forall>z \<in> set xs. Some (revert_ref (le_id z)) \<notin> le_provider_ref ` set (b_ledger db1)"
  proof
    fix z assume z: "z \<in> set xs"
    have "le_id z \<noteq> le_id x" using Cons.prems(3) z by (auto simp: image_iff)
    then have "revert_ref (le_id z) \<noteq> revert_ref (le_id x)" by (simp add: revert_ref_def)
    then show "Some (revert_ref (le_id z)) \<notin> le_provider_ref ` set (b_ledger db1)"
      using new Cons.prems(4) z by force
  qed
  then have ih: "grants_settled now xs db1 db'" using Cons.IH [OF l] Cons.prems(2,3) by simp
  have x: "le_org x \<notin> le_org ` set xs" using Cons.prems(2) by simp
  have "get_sub (le_org x) db' = get_sub (le_org x) db1" using ih x by (simp add: grants_settled_def)
  moreover have "set (b_ledger db1) \<subseteq> set (b_ledger db')" using ih by (auto simp: grants_settled_def)
  ultimately have "is_reverted (le_id x) db' \<or> \<not> grant_due now x db'"
    using own grant_due_sub is_reverted_mono by blast
  moreover have "\<exists>new. b_ledger db' = b_ledger db @ new \<and> (\<forall>r \<in> set new. \<not> is_tier_grant r)"
  proof -
    obtain n1 where n1: "b_ledger db1 = b_ledger db @ n1" "\<forall>r \<in> set n1. \<not> is_tier_grant r" using new by blast
    obtain n2 where n2: "b_ledger db' = b_ledger db1 @ n2" "\<forall>r \<in> set n2. \<not> is_tier_grant r"
      using ih by (auto simp: grants_settled_def)
    show ?thesis by (rule exI [of _ "n1 @ n2"]) (use n1 n2 in auto)
  qed
  ultimately show ?case using ih sub unfolding grants_settled_def by auto
qed (simp add: grants_settled_def)

lemma latest_grants_distinct: "distinct (map le_org (latest_grants db))"
proof -
  have "distinct orgs \<Longrightarrow> distinct (map le_org (filter P (List.map_filter (\<lambda>org. latest_grant org db) orgs)))
      \<and> le_org ` set (List.map_filter (\<lambda>org. latest_grant org db) orgs) \<subseteq> set orgs" for P orgs
  proof (induction orgs)
    case (Cons org orgs)
    then show ?case by (cases "latest_grant org db") (auto simp: map_filter_simps dest!: latest_grantD)
  qed (simp add: map_filter_simps)
  then show ?thesis by (simp add: latest_grants_def)
qed

lemma latest_grants_swept:
  assumes ids: "distinct (map le_id (b_ledger db))"
    and new: "\<forall>e \<in> set (b_ledger db). is_tier_grant e \<and> \<not> is_reverted (le_id e) db \<longrightarrow> find_entry (Some (revert_ref (le_id e))) db = None"
    and sw: "sweep_expired_grants now db = (Inr rs, db')"
  shows "grants_settled now (latest_grants db) db db'"
proof (rule grants_loop [OF sw [unfolded sweep_expired_grants_def] latest_grants_distinct])
  have mem: "e \<in> set (b_ledger db) \<and> is_tier_grant e \<and> \<not> is_reverted (le_id e) db" if "e \<in> set (latest_grants db)" for e
    using that in_latest_grants latest_grantD by blast
  have "inj_on le_id (set (latest_grants db))"
    using ids mem by (auto simp: distinct_map intro: inj_on_subset)
  then show "distinct (map le_id (latest_grants db))"
    using latest_grants_distinct by (simp add: distinct_map)
  show "\<forall>x \<in> set (latest_grants db). Some (revert_ref (le_id x)) \<notin> le_provider_ref ` set (b_ledger db)"
  proof
    fix x assume "x \<in> set (latest_grants db)"
    then have "find_entry (Some (revert_ref (le_id x))) db = None" using new mem by blast
    then show "Some (revert_ref (le_id x)) \<notin> le_provider_ref ` set (b_ledger db)"
      by (auto simp: find_entry_None)
  qed
qed

section \<open>What the cron leaves alone\<close>

lemma reconcile_stale_subs:
  assumes "booked_orders db" "reconcile_stale env now x db = (r, db')"
  shows "b_subs db' = b_subs db"
proof -
  have "db' = db \<or> (\<exists>b. db' = snd (run_charge env (retry_call x) now (Stale_looked (Body b)) db))"
  proof (cases "toss_lookup env (bo_order_id x)")
    case (Body b)
    obtain pc d where "run_charge env (retry_call x) now (Stale_looked (Body b)) db = (pc, d)" by fastforce
    then show ?thesis using assms(2) Body by (intro disjI2 exI [of _ b]) (cases pc, simp_all add: reconcile_stale_def)
  qed (use assms(2) in \<open>auto simp: reconcile_stale_def\<close>)
  then show ?thesis using run_charge_frame assms(1) by (auto simp: booked_orders_def)
qed

lemma dun_other_order_subs:
  assumes "booked_orders db" "dun_order env ids now x db = (Inr Dunning_retry, db')"
    and "\<not> starts_with RENEWAL_ORDER_PREFIX (bo_order_id x)"
  shows "b_subs db' = b_subs db"
proof -
  have "next_dunning_action now (b_grace_days db) x = Dunning_retry"
    using assms(2) by (auto simp: dun_order_def split: dunning_action.splits prod.splits sum.splits)
  then have "db' = snd (charge_org env (retry_call x) now db)" using assms(2,3) by (simp add: dun_order_def Let_def)
  then show ?thesis using charge_org_subs assms(1) by (simp add: booked_orders_def)
qed

lemma pack_charges_are_zero:
  "\<forall>e \<in> set (b_ledger db). le_subscription e = None \<Longrightarrow> compute_pack_charge_minor org sub a b db = 0"
  by (auto simp: compute_pack_charge_minor_def filter_empty_conv split: option.splits intro!: sum_list_0)

lemma reverted_grant_never_due: "s \<in> set (b_subs db) \<Longrightarrow> su_period_end s = None \<Longrightarrow> s \<notin> set (due_subs now db)"
  by (simp add: due_subs_def)

end
