(* ===== verification/Billing_Cases.thy ===== *)
theory Billing_Cases
  imports Billing_Renewals
begin

text \<open>
  A small organisation with its catalogue, and what billing does on it where a reader of the code would
  expect something else.
\<close>

section \<open>An organisation and its provider\<close>

definition jan1 :: timestamp where
  \<comment> \<open>2026-01-01\<close>
  "jan1 = 1767225600000000"

definition shop_offering :: "uuid \<Rightarrow> string \<Rightarrow> int \<Rightarrow> offering" where
  "shop_offering i tier price = \<lparr>ov_id = i, ov_tier = tier, ov_currency = ''krw'', ov_label = tier,
     ov_monthly = price, ov_annual = 10 * price, ov_seats = 1, ov_extra_seat = Some 2000,
     ov_packs = Some [(''runs'', \<lparr>pack_unit = ''100'', pack_price = 5000, pack_max = Some 2\<rparr>)],
     ov_from = 0, ov_to = None, ov_created_by = ''a''\<rparr>"

definition shop_member :: "uuid \<Rightarrow> org_member" where
  "shop_member i = \<lparr>om_id = i, om_org = ''o'', om_role = ''owner'', om_deleted_at = None, om_created_at = 0\<rparr>"

definition shop_sub :: org_subscription where
  "shop_sub = \<lparr>su_id = ''s'', su_org = ''o'', su_tier = ''starter'', su_cycle = Some ''monthly'', su_status = ''active'',
     su_currency = Some ''krw'', su_provider = Some ''toss'', su_period_start = Some jan1,
     su_period_end = Some (jan1 + 31 * day_us), su_claimed_at = None, su_offering = Some ''ov-s'',
     su_pending_tier = None, su_pending_offering = None, su_pending_apply_at = None\<rparr>"

definition shop_key :: billing_key where
  "shop_key = \<lparr>bk_id = ''k'', bk_org = ''o'', bk_customer_key = ''cust'', bk_encrypted = Some ''plain'', bk_card = no_card,
     bk_status = ''active'', bk_issued_at = Some 0, bk_updated_at = 0\<rparr>"

definition shop :: bill_db where
  "shop = \<lparr>b_orders = [], b_ledger = [], b_keys = [shop_key], b_subs = [shop_sub],
     b_offerings = [shop_offering ''ov-f'' ''free'' 0, shop_offering ''ov-s'' ''starter'' 10000, shop_offering ''ov-b'' ''business'' 50000],
     b_policies = [], b_members = [shop_member ''m1''], b_orgs = [''o''], b_activities = [], b_mails = [], b_grace_days = 3\<rparr>"

definition paid_body :: "string \<Rightarrow> jdict" where
  "paid_body i = [(''status'', JStr ''DONE''), (''paymentKey'', JStr (''pay-'' @ i)), (''totalAmount'', JInt 10000)]"

definition provider :: "(string \<Rightarrow> toss_answer) \<Rightarrow> (string \<Rightarrow> toss_answer) \<Rightarrow> toss" where
  \<comment> \<open>a provider by its answers to a charge and to a lookup of an order\<close>
  "provider charge lookup = \<lparr>key_configured = True, decrypt_key = Some, encrypt_key = (\<lambda>k. k),
     toss_charge = (\<lambda>plain customer i amount. charge i), toss_lookup = lookup,
     toss_refund = (\<lambda>key amount i. Body [(''cancels'', JList [JObj [(''transactionKey'', JStr (''cancel-'' @ key)),
        (''cancelAmount'', JInt (case amount of None \<Rightarrow> 10000 | Some a \<Rightarrow> a))]])]),
     toss_issue_key = (\<lambda>auth customer. Body [(''billingKey'', JStr auth)]), toss_delete_key = (\<lambda>plain. Body [])\<rparr>"

definition approving :: toss where
  "approving = provider (\<lambda>i. Body (paid_body i)) (\<lambda>i. Body (paid_body i))"

definition refusing :: toss where
  "refusing = provider (\<lambda>i. ApiError ''REJECT_CARD_COMPANY'') (\<lambda>i. ApiError ''NOT_FOUND_PAYMENT'')"

definition repeating :: toss where
  \<comment> \<open>the order was paid before, but the answer was lost\<close>
  "repeating = provider (\<lambda>i. ApiError DUPLICATED_ORDER_ID) (\<lambda>i. Body (paid_body i))"

definition shop_order :: "string \<Rightarrow> order_status \<Rightarrow> string \<Rightarrow> billing_order" where
  "shop_order i status purpose = \<lparr>bo_id = ''b'', bo_org = ''o'', bo_order_id = i, bo_amount = 10000, bo_currency = ''krw'',
     bo_status = status, bo_purpose = purpose, bo_payment_key = None, bo_failure_reason = None, bo_refund_status = None,
     bo_created_at = jan1, bo_updated_at = jan1\<rparr>"

definition shop_checkout :: "string \<Rightarrow> checkout_args" where
  "shop_checkout tier = \<lparr>ca_org = ''o'', ca_auth_key = ''plain2'', ca_tier = tier, ca_cycle = ''monthly'', ca_sub_id = ''s2'',
     ca_key_id = ''k2'', ca_customer = ''cust2'', ca_order_row = ''r''\<rparr>"

definition lapsed :: bill_db where
  \<comment> \<open>the subscription has been cancelled\<close>
  "lapsed = shop\<lparr>b_subs := [shop_sub\<lparr>su_status := ''canceled''\<rparr>]\<rparr>"

section \<open>Amounts\<close>

text \<open>A returning organisation that checks out a dearer plan gets the plan and pays the price of the one
it had: the amount is computed from the row as the session loaded it before the claim.\<close>

lemma returning_checkout_pays_old_price:
  "case checkout_subscription approving (shop_checkout ''business'') jan1 lapsed of (r, db) \<Rightarrow>
     map su_tier (b_subs db) = [''business''] \<and> map su_status (b_subs db) = [''active'']
     \<and> map su_offering (b_subs db) = [Some ''ov-b''] \<and> map le_amount (b_ledger db) = [10000]"
  by code_simp

text \<open>A new organisation pays the price of the plan.\<close>

lemma first_checkout_pays_price:
  "case checkout_subscription approving (shop_checkout ''business'') jan1 (shop\<lparr>b_subs := []\<rparr>) of (r, db) \<Rightarrow>
     map su_tier (b_subs db) = [''business''] \<and> map le_amount (b_ledger db) = [50000]"
  by code_simp

text \<open>A second attempt at a failed order with another amount leaves the order at the first amount and
books the second.\<close>

lemma retried_order_keeps_first_amount:
  "case charge_org approving ((retry_call (shop_order ''x'' OrderFailed ''charge''))\<lparr>cc_amount := 30000\<rparr>) (jan1 + 1)
       (shop\<lparr>b_orders := [shop_order ''x'' OrderFailed ''charge'']\<rparr>) of (r, db) \<Rightarrow>
     map bo_amount (b_orders db) = [10000] \<and> map bo_status (b_orders db) = [OrderConfirmed]
     \<and> map le_amount (b_ledger db) = [30000]"
  by code_simp

text \<open>The administrator's retry of a purchase of packs books a plain charge without the resource and the
quantity.\<close>

lemma retried_pack_booked_as_charge:
  "case retry_billing_order approving ''o'' ''pack:o:runs:1'' (jan1 + 1)
       (shop\<lparr>b_orders := [shop_order ''pack:o:runs:1'' OrderFailed ''pack_purchase'']\<rparr>) of (r, db) \<Rightarrow>
     map bo_purpose (b_orders db) = [''pack_purchase''] \<and> map le_entry_type (b_ledger db) = [''charge'']
     \<and> map le_metadata (b_ledger db) = [None]"
  by code_simp

section \<open>Payments without their effect\<close>

text \<open>The order of a renewal whose answer was lost is found paid by the sweep of pending orders: the order
is confirmed and booked, and the subscription keeps its period and stays past due.\<close>

definition lost_renewal :: bill_db where
  "lost_renewal = shop\<lparr>b_orders := [shop_order ''renewal:o:ov-s:2026-02-01'' OrderPending ''charge''],
     b_subs := [shop_sub\<lparr>su_status := ''past_due''\<rparr>]\<rparr>"

lemma stale_sweep_leaves_subscription:
  "case sweep_stale_pending_orders approving (jan1 + day_us) lost_renewal of (r, db) \<Rightarrow>
     map bo_status (b_orders db) = [OrderConfirmed] \<and> map le_amount (b_ledger db) = [10000]
     \<and> b_subs db = b_subs lost_renewal"
  by code_simp

text \<open>A pending order the provider does not know stays pending, however often the sweep finds it.\<close>

lemma unknown_order_stays_pending:
  "sweep_stale_pending_orders refusing now lost_renewal = (Inr rs, db) \<Longrightarrow> db = lost_renewal"
  by (auto simp: sweep_stale_pending_orders_def stale_orders_def lost_renewal_def shop_def reconcile_stale_def
      refusing_def provider_def split: if_splits prod.splits sum.splits)

text \<open>The dunning sweep collects the money of a failed checkout, and the subscription stays pending.\<close>

definition failed_checkout :: bill_db where
  "failed_checkout = shop\<lparr>b_orders := [shop_order ''checkout:o:ov-s:2026-01-01'' OrderFailed ''charge''],
     b_subs := [shop_sub\<lparr>su_status := ''pending''\<rparr>]\<rparr>"

lemma dunned_checkout_stays_pending:
  "case sweep_dunning_retries approving (\<lambda>i. i) (jan1 + day_us) failed_checkout of (r, db) \<Rightarrow>
     map bo_status (b_orders db) = [OrderConfirmed] \<and> map le_amount (b_ledger db) = [10000]
     \<and> map su_status (b_subs db) = [''pending'']"
  by code_simp

text \<open>An upgrade after the end of the period charges the new price and then fails on the refund of the
old one; the tier is the new one by then.\<close>

lemma late_upgrade_raises_after_charge:
  "case change_tier approving ''o'' ''business'' ''h'' ''r'' (jan1 + 32 * day_us)
       (shop\<lparr>b_orders := [(shop_order ''x'' OrderConfirmed ''charge'')\<lparr>bo_payment_key := Some ''pay-x''\<rparr>]\<rparr>) of (r, db) \<Rightarrow>
     r = Inl charge_amount_error \<and> map le_amount (b_ledger db) = [50000] \<and> map su_tier (b_subs db) = [''business'']"
  by code_simp

section \<open>Plans overtaken by earlier decisions\<close>

text \<open>An upgrade keeps the reservation of a downgrade, which then takes the upgraded plan away.\<close>

lemma reserved_downgrade_survives_upgrade:
  "case cancel_subscription ''o'' shop of (r1, db1) \<Rightarrow>
     case change_tier approving ''o'' ''business'' ''h'' ''r'' (jan1 + day_us) db1 of (r2, db2) \<Rightarrow>
       case sweep_pending_tier_downgrades (jan1 + 31 * day_us) db2 of (r3, db3) \<Rightarrow>
         map su_tier (b_subs db2) = [''business''] \<and> map su_period_end (b_subs db2) = [Some (jan1 + 32 * day_us)]
         \<and> r3 = Inr [Applied] \<and> map su_tier (b_subs db3) = [''free'']"
  by code_simp

text \<open>A grant to a paying organisation replaces its period, its revert removes the period, and from then on
no renewal is ever due: the paid plan continues without charges.\<close>

definition shop_grant :: grant_args where
  "shop_grant = \<lparr>ga_org = ''o'', ga_tier = ''business'', ga_months = 1, ga_reason = ''r'', ga_currency = ''krw'', ga_key = ''g'',
     ga_actor = ''a'', ga_sub_id = ''s2'', ga_entry_id = ''e''\<rparr>"

lemma expired_grant_ends_renewals:
  "case grant_credit shop_grant (jan1 + day_us) shop of (r1, db1) \<Rightarrow>
     case sweep_expired_grants (jan1 + 40 * day_us) db1 of (r2, db2) \<Rightarrow>
       r2 = Inr [Reverted] \<and> map su_tier (b_subs db2) = [''starter''] \<and> map su_status (b_subs db2) = [''active'']
       \<and> map su_period_end (b_subs db2) = [None]"
  by code_simp

text \<open>A month end moves to the 28th and stays there.\<close>

lemma month_end_drifts:
  "compute_period_end (jan1 + 30 * day_us) (Some ''monthly'') = Inr (jan1 + 58 * day_us)
   \<and> compute_period_end (jan1 + 58 * day_us) (Some ''monthly'') = Inr (jan1 + 86 * day_us)"
  by code_simp

text \<open>A payment that was refunded in part is booked as lost in full by the daily reconciliation, beside
the refund that is booked already.\<close>

lemma partial_refund_booked_as_loss:
  "case daily_reconcile_confirmed_orders
        (provider (\<lambda>i. Unreachable) (\<lambda>i. Body [(''status'', JStr ''PARTIAL_CANCELED''), (''totalAmount'', JInt 10000)]))
        (jan1 + day_us)
        (shop\<lparr>b_orders := [(shop_order ''x'' OrderConfirmed ''charge'')\<lparr>bo_payment_key := Some ''pay-x''\<rparr>]\<rparr>) of (r, db) \<Rightarrow>
     r = Inr [Mismatched] \<and> map le_direction (b_ledger db) = [''debit''] \<and> map le_amount (b_ledger db) = [10000]"
  by code_simp

end
