(* ===== verification/Billing_Properties.thy ===== *)
theory Billing_Properties
  imports Billing_Machine Billing_Cases
begin

text \<open>The properties of billing: orders and ledger under any interleaving, purchases, the cron.\<close>

section \<open>An example run\<close>

definition shop_call :: charge_call where
  "shop_call = retry_call (shop_order ''x'' OrderPending ''charge'')"

definition shop_quote :: "string \<Rightarrow> uuid \<times> int \<times> string" where
  "shop_quote i = (''o'', 10000, ''krw'')"

definition solo :: "bill_db \<Rightarrow> payments \<Rightarrow> charge_pc \<Rightarrow> bill_sys" where
  "solo db paid pc = \<lparr>bs_db = db, bs_paid = paid, bs_workers = [(shop_call, pc)]\<rparr>"

definition shop_start :: bill_sys where
  "shop_start = \<lparr>bs_db = shop, bs_paid = [], bs_workers = []\<rparr>"

definition shop1 :: bill_db where
  "shop1 = shop\<lparr>b_orders := [new_order shop_call jan1]\<rparr>"

definition shop2 :: bill_db where
  "shop2 = book (charge_entry shop_call ''pay-x'' jan1) shop1"

definition shop3 :: bill_db where
  "shop3 = confirm_order ''x'' ''pay-x'' jan1 shop2"

definition shop_end :: bill_sys where
  "shop_end = solo shop3 [(''x'', ''pay-x'')] Refetch"

definition shop_labels :: "bill_label list" where
  "shop_labels = [Works, Works, Works, Pays ''x'' ''pay-x'', Works, Books ''x'' ''pay-x'', Works]"

abbreviation quoted :: "(string \<Rightarrow> uuid \<times> int \<times> string) \<Rightarrow> string \<Rightarrow> uuid \<Rightarrow> int \<Rightarrow> string \<Rightarrow> bool" where
  \<comment> \<open>every order id has one organisation, amount and currency\<close>
  "quoted quote i org amount currency \<equiv> quote i = (org, amount, currency)"

lemma solo_works:
  assumes "charge_step approving shop_call jan1 pc db = (pc', db')" "\<not> asks_provider pc" "0 < steps_left pc"
  shows "bill_step terms (label_of shop_call pc') (solo db paid pc) (solo db' paid pc')"
  using bill_step.works [of 0 "solo db paid pc" shop_call pc approving jan1 pc' db' terms] assms
  by (simp add: solo_def)

lemma shop_run_works:
  assumes "charge_step approving shop_call jan1 pc db = (pc', db')" "\<not> asks_provider pc" "0 < steps_left pc"
    and "label_of shop_call pc' = l" "lab_run (bill_step terms) (solo db' paid pc') ls s'"
  shows "lab_run (bill_step terms) (solo db paid pc) (l # ls) s'"
  using lab_run_Cons [where step = "bill_step terms", OF solo_works [OF assms(1-3)]] assms(4,5) by simp

lemma shop_begins: "bill_step (quoted shop_quote) Works shop_start (solo shop [] Claim)"
proof -
  have "agreed (quoted shop_quote) shop_call"
    by (simp add: agreed_def shop_quote_def shop_call_def retry_call_def shop_order_def)
  from bill_step.begins [OF this, of shop_start] show ?thesis by (simp add: shop_start_def solo_def)
qed

lemma shop_sends:
  "bill_step (quoted shop_quote) (Pays ''x'' ''pay-x'') (solo shop1 [] (Send ''plain'' ''cust''))
     (solo shop1 [(''x'', ''pay-x'')] (Answered (Body (paid_body ''x''))))"
proof -
  have "text_field ''paymentKey'' (paid_body ''x'') = Some ''pay-x''" by code_simp
  then have "provider_charge [] {} ''x'' (Body (paid_body ''x'')) ([] @ [(''x'', ''pay-x'')])"
    by (intro provider_charge.approved) simp_all
  moreover have "refs shop1 = {}" by (simp add: refs_def shop1_def shop_def)
  moreover have "cc_order_id shop_call = ''x''" by code_simp
  ultimately show ?thesis
    using bill_step.sends [of 0 "solo shop1 [] (Send ''plain'' ''cust'')" shop_call "''plain''" "''cust''"
        "Body (paid_body ''x'')" "[(''x'', ''pay-x'')]"]
    by (simp add: solo_def)
qed

lemma shop_run: "lab_run (bill_step (quoted shop_quote)) shop_start shop_labels shop_end"
  unfolding shop_labels_def
proof (rule lab_run_Cons [where step = "bill_step (quoted shop_quote)", OF shop_begins])
  note [simp] = asks_provider_def label_of_def
  show "lab_run (bill_step (quoted shop_quote)) (solo shop [] Claim)
     [Works, Works, Pays ''x'' ''pay-x'', Works, Books ''x'' ''pay-x'', Works] shop_end"
  proof (rule shop_run_works)
    show "charge_step approving shop_call jan1 Claim shop = (Key_check, shop1)" by code_simp
    show "lab_run (bill_step (quoted shop_quote)) (solo shop1 [] Key_check)
       [Works, Pays ''x'' ''pay-x'', Works, Books ''x'' ''pay-x'', Works] shop_end"
    proof (rule shop_run_works)
      show "charge_step approving shop_call jan1 Key_check shop1 = (Send ''plain'' ''cust'', shop1)" by code_simp
      show "lab_run (bill_step (quoted shop_quote)) (solo shop1 [] (Send ''plain'' ''cust''))
         [Pays ''x'' ''pay-x'', Works, Books ''x'' ''pay-x'', Works] shop_end"
      proof (rule lab_run_Cons [where step = "bill_step (quoted shop_quote)", OF shop_sends], rule shop_run_works)
        show "charge_step approving shop_call jan1 (Answered (Body (paid_body ''x''))) shop1 = (Book ''pay-x'', shop1)"
          by code_simp
        show "lab_run (bill_step (quoted shop_quote)) (solo shop1 [(''x'', ''pay-x'')] (Book ''pay-x''))
           [Books ''x'' ''pay-x'', Works] shop_end"
        proof (rule shop_run_works)
          show "charge_step approving shop_call jan1 (Book ''pay-x'') shop1 = (Confirm ''pay-x'', shop2)" by code_simp
          show "label_of shop_call (Confirm ''pay-x'') = Books ''x'' ''pay-x''" by code_simp
          show "lab_run (bill_step (quoted shop_quote)) (solo shop2 [(''x'', ''pay-x'')] (Confirm ''pay-x'')) [Works] shop_end"
          proof (rule shop_run_works)
            show "charge_step approving shop_call jan1 (Confirm ''pay-x'') shop2 = (Refetch, shop3)" by code_simp
            show "lab_run (bill_step (quoted shop_quote)) (solo shop3 [(''x'', ''pay-x'')] Refetch) [] shop_end"
              unfolding shop_end_def by (rule lab_run_Nil)
          qed simp_all
        qed simp_all
      qed simp_all
    qed simp_all
  qed simp_all
qed

lemma shop_init: "bill_init shop_start"
  by (simp add: bill_init_def shop_start_def shop_def)

section \<open>Orders and ledger\<close>



text \<open>
  C11: What is confirmed stays confirmed: along every further run the order keeps its identity, amount,
  currency, status and payment key, and no entry of the ledger is changed or taken away.\<close>

theorem confirmed_order_is_final:
  assumes "bill_init s" "lab_run (bill_step terms) s ls s'" "lab_run (bill_step terms) s' ls' s''"
    and "x \<in> set (b_orders (bs_db s'))" "bo_status x = OrderConfirmed"
  shows "(\<exists>y \<in> set (b_orders (bs_db s'')). bo_order_id y = bo_order_id x \<and> bo_org y = bo_org x
      \<and> bo_amount y = bo_amount x \<and> bo_currency y = bo_currency x \<and> bo_status y = OrderConfirmed
      \<and> bo_payment_key y = bo_payment_key x)
    \<and> set (b_ledger (bs_db s')) \<subseteq> set (b_ledger (bs_db s''))"
proof -
  have "bill_inv terms s'" using bill_run_inv [OF assms(2) bill_init_inv [OF assms(1)]] .
  from bill_run_grows [OF assms(3) this]
  show ?thesis using assms(4,5) by (fastforce simp: orders_evolve_def evolves_def)
qed

lemma confirmed_order_is_final_witness:
  "\<exists>y \<in> set (b_orders (bs_db shop_end)). bo_order_id y = ''x'' \<and> bo_amount y = 10000 \<and> bo_status y = OrderConfirmed"
proof -
  let ?x = "(new_order shop_call jan1)\<lparr>bo_status := OrderConfirmed, bo_payment_key := Some ''pay-x''\<rparr>"
  have o: "?x \<in> set (b_orders (bs_db shop_end))" by code_simp
  have v: "bo_amount (new_order shop_call jan1) = 10000" "bo_order_id (new_order shop_call jan1) = ''x''" by code_simp+
  show ?thesis
    using confirmed_order_is_final [OF shop_init shop_run lab_run_Nil o] by (auto simp: v)
qed

text \<open>
  C12: Billing refines a cash book: in every run, the payments taken and booked are steps of a book in which
  an order is paid at most once, with a payment key of its own, only a payment is booked, and nothing else
  any process does changes it.\<close>

theorem billing_refines_cash_book:
  assumes "bill_init s" "lab_run (bill_step terms) s ls s'"
  shows "lab_run cash_step ({}, {}) ls (cash_of s')"
proof -
  have "cash_of s = ({}, {})" using assms(1) by (simp add: bill_init_def cash_of_def)
  then show ?thesis using cash_book.run_simulates [OF assms(2) bill_init_inv [OF assms(1)]] by simp
qed

lemma billing_refines_cash_book_witness: "lab_run cash_step ({}, {}) shop_labels (cash_of shop_end)"
  by (rule billing_refines_cash_book [OF shop_init shop_run])

text \<open>No payment is booked before it is taken, and no order is paid twice.\<close>

lemma booked_after_paid:
  assumes "bill_init s" "lab_run (bill_step terms) s ls s'"
  shows "ls = xs @ Books i key # ys \<Longrightarrow> Pays i key \<in> set xs"
    and "ls = xs @ Pays i key # ys \<Longrightarrow> Pays i k \<notin> set xs"
proof -
  have r: "lab_run cash_step ({}, {}) ls (cash_of s')"
    using cash_book.run_simulates [OF assms(2) bill_init_inv [OF assms(1)]] assms(1)
    by (simp add: bill_init_def cash_of_def)
  show "ls = xs @ Books i key # ys \<Longrightarrow> Pays i key \<in> set xs" using cash_paid_first [OF r] by simp
  show "ls = xs @ Pays i key # ys \<Longrightarrow> Pays i k \<notin> set xs" using cash_paid_once [OF r] by simp
qed

section \<open>Charging again\<close>

text \<open>
  C28: A payment whose answer was lost is found again: when an administrator retries the failed order and the
  provider reports the order id as a duplicate of a finished payment, the order is confirmed with that
  payment and the ledger holds it, without a second charge.\<close>

theorem lost_payment_recovered:
  assumes x: "get_order i db = Some x" "bo_status x = OrderFailed" "bo_org x = org" "payable (retry_call x)"
    and key: "can_charge env org db" "sent_answer env (retry_call x) db = ApiError DUPLICATED_ORDER_ID"
    and b: "toss_lookup env i = Body b" "text_field ''status'' b = Some ''DONE''" "text_field ''paymentKey'' b = Some key"
  shows "case retry_billing_order env org i now db of (r, db') \<Rightarrow>
    r = Inr (x\<lparr>bo_status := OrderConfirmed, bo_payment_key := Some key, bo_updated_at := now\<rparr>)
    \<and> find_entry (Some key) db' \<noteq> None"
proof -
  let ?c = "retry_call x" and ?y = "x\<lparr>bo_status := OrderConfirmed, bo_payment_key := Some key, bo_updated_at := now\<rparr>"
  have i: "bo_order_id x = i" using get_orderD [OF x(1)] by simp
  have c: "cc_order_id ?c = i" "cc_org ?c = org" using i x(3) by (simp_all add: retry_call_def)
  let ?d = "confirm_order i key now (book (charge_entry ?c key now) (upd_order i (reopened now) db))"
  have y: "confirmed_row key now (reopened now x) = ?y" by (simp add: confirmed_row_def reopened_def)
  have "charge_org env ?c now db = (Inr ?y, ?d)"
    using retry_finds_payment [OF x(4)] x(1,2) key b c y by simp
  moreover have "get_order i ?d = Some ?y"
    using x(1) i by (simp add: confirm_order_row get_order_upd get_order_frame [of "book _ _"] y [symmetric] reopened_def)
  ultimately have r: "retry_billing_order env org i now db = (Inr ?y, ?d)"
    using x(1,2,3) by (simp add: retry_billing_order_def)
  have "key \<in> refs ?d" by (simp add: confirm_order_def refs_book charge_entry_def)
  then show ?thesis using r by (force simp: refs_def find_entry_None)
qed

lemma lost_payment_recovered_witness:
  "case retry_billing_order repeating ''o'' ''x'' (jan1 + 1) (shop\<lparr>b_orders := [shop_order ''x'' OrderFailed ''charge'']\<rparr>) of (r, db') \<Rightarrow>
     r = Inr ((shop_order ''x'' OrderFailed ''charge'')\<lparr>bo_status := OrderConfirmed, bo_payment_key := Some ''pay-x'', bo_updated_at := jan1 + 1\<rparr>)
     \<and> find_entry (Some ''pay-x'') db' \<noteq> None"
  by (rule lost_payment_recovered [where b = "paid_body ''x''"]) code_simp+

section \<open>Purchases\<close>

text \<open>
  C27: A checkout makes a subscription active only when its own order is confirmed and its payment is in the
  ledger; whatever the provider answers and wherever it fails, no plan is given away.\<close>

theorem checkout_grants_only_paid:
  assumes "booked_orders db" "checkout_subscription env a now db = (r, db')"
    and "get_sub (ca_org a) db' = Some s" "su_status s = ''active''" "get_sub (ca_org a) db \<noteq> Some s"
  shows "\<exists>ov. active_offering (ca_tier a) (Some ''krw'') db = Inr (Some ov)
    \<and> paid_order (checkout_order_id (ca_org a) (ov_id ov) now) db'"
  by (rule checkout_active_paid [OF assms])

lemma checkout_grants_only_paid_witness:
  "\<exists>ov. active_offering ''business'' (Some ''krw'') (shop\<lparr>b_subs := []\<rparr>) = Inr (Some ov)
    \<and> paid_order (checkout_order_id ''o'' (ov_id ov) jan1)
         (snd (checkout_subscription approving (shop_checkout ''business'') jan1 (shop\<lparr>b_subs := []\<rparr>)))"
proof -
  let ?r = "checkout_subscription approving (shop_checkout ''business'') jan1 (shop\<lparr>b_subs := []\<rparr>)"
  have b: "booked_orders (shop\<lparr>b_subs := []\<rparr>)" by (simp add: booked_orders_def shop_def)
  have s: "get_sub (ca_org (shop_checkout ''business'')) (snd ?r) = Some (the (get_sub ''o'' (snd ?r)))"
      "su_status (the (get_sub ''o'' (snd ?r))) = ''active''"
      "get_sub (ca_org (shop_checkout ''business'')) (shop\<lparr>b_subs := []\<rparr>) \<noteq> Some (the (get_sub ''o'' (snd ?r)))" by code_simp+
  have a: "ca_org (shop_checkout ''business'') = ''o''" "ca_tier (shop_checkout ''business'') = ''business''" by code_simp+
  show ?thesis using checkout_grants_only_paid [OF b prod.collapse [symmetric] s] by (simp only: a)
qed

text \<open>
  An upgrade changes the tier only to the requested dearer one, from now for a month, and only when the
  order of the upgrade is confirmed and booked.\<close>

lemma upgrade_only_when_paid:
  assumes "booked_orders db" "change_tier env org tier hex row now db = (r, db')"
    and "get_sub org db = Some s" "get_sub org db' = Some s'" "su_tier s' \<noteq> su_tier s"
  shows "su_tier s' = tier \<and> tier_rank (su_tier s) < tier_rank tier \<and> su_period_start s' = Some now
    \<and> su_period_end s' = Some (add_months now 1)
    \<and> (\<exists>ov. active_offering tier (Some ''krw'') db = Inr (Some ov) \<and> su_offering s' = Some (ov_id ov)
         \<and> paid_order (''tierchange-'' @ org @ ''-'' @ ov_id ov @ ''-'' @ hex) db')"
  by (rule change_tier_paid [OF assms])

lemma upgrade_only_when_paid_witness:
  "\<exists>ov. active_offering ''business'' (Some ''krw'') shop = Inr (Some ov)
    \<and> paid_order (''tierchange-o-'' @ ov_id ov @ ''-h'')
         (snd (change_tier approving ''o'' ''business'' ''h'' ''r'' (jan1 + day_us) shop))"
proof -
  let ?r = "change_tier approving ''o'' ''business'' ''h'' ''r'' (jan1 + day_us) shop"
  have b: "booked_orders shop" by (simp add: booked_orders_def shop_def)
  have s: "get_sub ''o'' shop = Some shop_sub" "get_sub ''o'' (snd ?r) = Some (the (get_sub ''o'' (snd ?r)))"
      "su_tier (the (get_sub ''o'' (snd ?r))) \<noteq> su_tier shop_sub" by code_simp+
  show ?thesis using upgrade_only_when_paid [OF b prod.collapse [symmetric] s] by auto
qed

text \<open>
  C30: While an organisation's subscription is claimed by a purchase of the last three minutes, every other
  checkout and upgrade ends in an error and changes nothing, so nothing is charged.\<close>

theorem one_purchase_at_a_time:
  assumes "get_sub org db = Some s" "su_claimed_at s = Some t" "now \<le> t + STALE_CLAIM_WINDOW" "ca_org a = org"
  shows "(\<exists>e. change_tier env org tier hex row now db = (Inl e, db)) \<and> (\<exists>e. checkout_subscription env a now db = (Inl e, db))"
proof -
  have "\<not> claim_free now s" using assms(2,3) by (simp add: claim_free_def)
  then show ?thesis using claimed_refused [OF assms(1)] assms(4) by blast
qed

lemma one_purchase_at_a_time_witness:
  "(\<exists>e. change_tier approving ''o'' ''business'' ''h'' ''r'' (jan1 + 60) (shop\<lparr>b_subs := [shop_sub\<lparr>su_claimed_at := Some jan1\<rparr>]\<rparr>)
        = (Inl e, shop\<lparr>b_subs := [shop_sub\<lparr>su_claimed_at := Some jan1\<rparr>]\<rparr>))
   \<and> (\<exists>e. checkout_subscription approving (shop_checkout ''starter'') (jan1 + 60) (shop\<lparr>b_subs := [shop_sub\<lparr>su_claimed_at := Some jan1\<rparr>]\<rparr>)
        = (Inl e, shop\<lparr>b_subs := [shop_sub\<lparr>su_claimed_at := Some jan1\<rparr>]\<rparr>))"
  by (rule one_purchase_at_a_time [where s = "shop_sub\<lparr>su_claimed_at := Some jan1\<rparr>" and t = jan1]) code_simp+

text \<open>
  Buying packs never reserves more of a resource in a billing period than the catalogue allows: whatever
  the charge ends with, the packs of pending and confirmed orders stay within the limit.\<close>

lemma packs_within_cap:
  assumes "purchase_packs env org resource q key row now db = (r, db')"
    and "get_sub org db = Some s" "su_period_start s = Some a" "su_period_end s = Some b"
    and "su_offering s = Some i" "get_offering i db = Some ov" "ov_packs ov = Some ps" "map_of ps resource = Some pack"
    and "pack_max pack = Some most" "0 < pack_price pack"
    and "get_order (pack_order_id org resource key) db = None"
    and "packs_reserved_this_period org resource (pack_price pack) a b db \<le> most"
  shows "packs_reserved_this_period org resource (pack_price pack) a b db' \<le> most"
  by (rule purchase_within_cap [OF assms])

lemma packs_within_cap_witness:
  "packs_reserved_this_period ''o'' ''runs'' 5000 jan1 (jan1 + 31 * day_us)
     (snd (purchase_packs approving ''o'' ''runs'' 2 ''1'' ''r'' (jan1 + 1) shop)) \<le> 2"
proof -
  let ?pack = "\<lparr>pack_unit = ''100'', pack_price = 5000, pack_max = Some 2\<rparr>"
  have "get_sub ''o'' shop = Some shop_sub" "su_period_start shop_sub = Some jan1" "su_period_end shop_sub = Some (jan1 + 31 * day_us)"
    "su_offering shop_sub = Some ''ov-s''" "get_offering ''ov-s'' shop = Some (shop_offering ''ov-s'' ''starter'' 10000)"
    "ov_packs (shop_offering ''ov-s'' ''starter'' 10000) = Some [(''runs'', ?pack)]" "map_of [(''runs'', ?pack)] ''runs'' = Some ?pack"
    "pack_max ?pack = Some 2" "0 < pack_price ?pack" "get_order (pack_order_id ''o'' ''runs'' ''1'') shop = None"
    "packs_reserved_this_period ''o'' ''runs'' (pack_price ?pack) jan1 (jan1 + 31 * day_us) shop \<le> 2"
    by code_simp+
  from packs_within_cap [OF prod.collapse [symmetric] this, of approving 2 "''r''" "jan1 + 1"] show ?thesis by simp
qed

section \<open>The cron\<close>

text \<open>
  A renewal extends a subscription exactly by its paid period: when it reports a renewal, the order of
  the period that ended is confirmed and booked and the next period begins where the last one ended; when it
  reports a failure, the order is not confirmed and only the status changes, to past due.\<close>

lemma renewal_rolls_paid_period:
  assumes "booked_orders db" "get_sub (su_org s) db = Some s"
    and "su_offering s = Some ov" "su_period_end s = Some due" "renew env ids now s db = (Inr res, db')"
  shows "(res = Renewed \<longrightarrow> paid_order (renewal_order_id (su_org s) ov due) db'
            \<and> (\<exists>e. compute_period_end due (su_cycle s) = Inr e \<and> get_sub (su_org s) db' = Some (rolled_sub due e s)))
    \<and> (res = Renewal_failed \<longrightarrow> get_sub (su_org s) db' = Some (s\<lparr>su_status := ''past_due''\<rparr>)
            \<and> map_option bo_status (get_order (renewal_order_id (su_org s) ov due) db') \<noteq> Some OrderConfirmed)
    \<and> (res = Catalog_error \<longrightarrow> db' = db)"
  by (rule renew_result [OF assms])

lemma renewal_rolls_paid_period_witness:
  "paid_order (renewal_order_id ''o'' ''ov-s'' (jan1 + 31 * day_us)) (snd (renew approving (\<lambda>i. i) (jan1 + 31 * day_us) shop_sub shop))"
proof -
  let ?r = "renew approving (\<lambda>i. i) (jan1 + 31 * day_us) shop_sub shop"
  have b: "booked_orders shop" by (simp add: booked_orders_def shop_def)
  have s: "get_sub (su_org shop_sub) shop = Some shop_sub" "su_offering shop_sub = Some ''ov-s''"
      "su_period_end shop_sub = Some (jan1 + 31 * day_us)" by code_simp+
  have "fst ?r = Inr Renewed" by code_simp
  then have r: "?r = (Inr Renewed, snd ?r)" by (metis prod.collapse)
  have o: "su_org shop_sub = ''o''" by code_simp
  show ?thesis using renewal_rolls_paid_period [OF b s r] by (simp add: o)
qed

text \<open>
  C29: The dunning sweep settles its day: after it, no order calls for another retry or downgrade at any time
  of the same day, however often the cron runs and whatever the provider answered.\<close>

theorem dunning_settles_day:
  assumes "distinct (map bo_order_id (b_orders db))" "\<forall>x \<in> set (b_orders db). payable (retry_call x)"
    and "sweep_dunning_retries env ids now db = (Inr as, db')" "y \<in> set (b_orders db')" "date_of t = date_of now"
  shows "next_dunning_action t (b_grace_days db') y = Dunning_wait"
  using dunning_sweep_quiet [OF assms(1-4)] assms(5) by (simp add: quiet_order_def)

lemma dunning_settles_day_witness:
  "map (next_dunning_action (jan1 + day_us + 7) 3)
      (b_orders (snd (sweep_dunning_retries refusing (\<lambda>i. i) (jan1 + day_us) (shop\<lparr>b_orders := [shop_order ''x'' OrderFailed ''charge'']\<rparr>))))
    = [Dunning_wait]
   \<and> next_dunning_action (jan1 + day_us) 3 (shop_order ''x'' OrderFailed ''charge'') = Dunning_retry"
proof -
  let ?db = "shop\<lparr>b_orders := [shop_order ''x'' OrderFailed ''charge'']\<rparr>"
  let ?r = "sweep_dunning_retries refusing (\<lambda>i. i) (jan1 + day_us) ?db"
  have d: "distinct (map bo_order_id (b_orders ?db))" "\<forall>x \<in> set (b_orders ?db). payable (retry_call x)" by code_simp+
  have "fst ?r = Inr [Dunning_retry]" by code_simp
  then have r: "?r = (Inr [Dunning_retry], snd ?r)" by (metis prod.collapse)
  have t: "date_of (jan1 + day_us + 7) = date_of (jan1 + day_us)" "b_grace_days (snd ?r) = 3" by code_simp+
  have l: "length (b_orders (snd ?r)) = 1" by code_simp
  then obtain y where y: "b_orders (snd ?r) = [y]" by (auto simp: length_Suc_conv)
  have "next_dunning_action (jan1 + day_us + 7) 3 y = Dunning_wait"
    using dunning_settles_day [OF d r, of y "jan1 + day_us + 7"] y t by simp
  moreover have "next_dunning_action (jan1 + day_us) 3 (shop_order ''x'' OrderFailed ''charge'') = Dunning_retry" by code_simp
  ultimately show ?thesis using y by simp
qed

text \<open>
  After the sweep of expired grants the newest grant of every organisation is reverted, not expired, or
  has lost its effect because the tier was changed since; the sweep adds only reverts to the ledger.\<close>

lemma expired_grants_settled:
  assumes "distinct (map le_id (b_ledger db))"
    and "\<forall>e \<in> set (b_ledger db). is_tier_grant e \<and> \<not> is_reverted (le_id e) db \<longrightarrow> find_entry (Some (revert_ref (le_id e))) db = None"
    and "sweep_expired_grants now db = (Inr rs, db')"
  shows "(\<forall>org e. latest_grant org db' = Some e \<longrightarrow> is_reverted (le_id e) db' \<or> \<not> grant_due now e db')
    \<and> (\<exists>new. b_ledger db' = b_ledger db @ new \<and> (\<forall>r \<in> set new. \<not> is_tier_grant r))"
proof -
  have g: "grants_settled now (latest_grants db) db db'"
    by (rule latest_grants_swept [OF assms])
  then obtain new where new: "b_ledger db' = b_ledger db @ new" "\<forall>r \<in> set new. \<not> is_tier_grant r"
    by (auto simp: grants_settled_def)
  have "is_reverted (le_id e) db' \<or> \<not> grant_due now e db'" if "latest_grant org db' = Some e" for org e
  proof -
    have l: "latest_grant org db = Some e" "le_org e = org"
      using that latest_grant_append [OF new] latest_grantD by auto
    show ?thesis
    proof (cases "is_reverted (le_id e) db")
      case True
      then show ?thesis using is_reverted_mono new by simp
    next
      case False
      then have "e \<in> set (latest_grants db)" using l in_latest_grants by simp
      then show ?thesis using g by (simp add: grants_settled_def)
    qed
  qed
  then show ?thesis using new by blast
qed

lemma expired_grants_settled_witness:
  "\<exists>new. b_ledger (snd (sweep_expired_grants (jan1 + 40 * day_us) (snd (grant_credit shop_grant (jan1 + day_us) shop))))
      = b_ledger (snd (grant_credit shop_grant (jan1 + day_us) shop)) @ new
    \<and> fst (sweep_expired_grants (jan1 + 40 * day_us) (snd (grant_credit shop_grant (jan1 + day_us) shop))) = Inr [Reverted]"
proof -
  let ?db = "snd (grant_credit shop_grant (jan1 + day_us) shop)"
  let ?r = "sweep_expired_grants (jan1 + 40 * day_us) ?db"
  have d: "distinct (map le_id (b_ledger ?db))"
    "\<forall>e \<in> set (b_ledger ?db). is_tier_grant e \<and> \<not> is_reverted (le_id e) ?db \<longrightarrow> find_entry (Some (revert_ref (le_id e))) ?db = None"
    by code_simp+
  have f: "fst ?r = Inr [Reverted]" by code_simp
  then have r: "?r = (Inr [Reverted], snd ?r)" by (metis prod.collapse)
  show ?thesis using expired_grants_settled [OF d r] f by blast
qed

text \<open>An organisation that has paid, stored a card or started a checkout since is not downgraded.\<close>

lemma recovered_org_keeps_plan:
  assumes "downgrade_to_free ids org i now db = (Inr (), db')" "get_order i db = Some x"
    and "has_newer_confirmed_order x org db \<or> has_newly_issued_billing_key x org db \<or> has_active_checkout_claim now org db"
  shows "b_subs db' = b_subs db"
  by (rule downgrade_spares_recovered(1) [OF assms])

end
