(* ===== verification/Recipe_Approval.thy ===== *)
theory Recipe_Approval
  imports Gate_Actions
begin

text \<open>
  The approval of a recipe round (services/gate_service.py, with the two selections of
  services/channel_posts.py and services/site_posts.py that it asks): which draft the approval screen
  shows, the seal of that draft and version at the moment of approval, and the scoped gate the approval
  or rejection is passed on to. The rows of the drafts, their versions and what has been published are
  the record \<^verbatim>\<open>recipe_view\<close>, which these functions only read.
\<close>

section \<open>The drafts of a work item\<close>

record channel_draft_row =
  hd_id :: uuid
  hd_org :: uuid
  hd_work_item :: uuid
  hd_connection :: uuid
  hd_status :: string
  hd_created_at :: timestamp

record site_draft_row =
  xd_id :: uuid
  xd_org :: uuid
  xd_work_item :: uuid
  xd_connection :: "uuid option"
  xd_deleted_at :: "timestamp option"
  xd_created_at :: timestamp

record draft_version_row =
  dw_id :: uuid
  dw_draft :: uuid
  dw_version :: int

record recipe_view =
  rw_channel_drafts :: "channel_draft_row list"
  rw_channel_versions :: "draft_version_row list"
  rw_publications :: "(uuid \<times> uuid \<times> string) list"
  \<comment> \<open>gate, version and status of a channel publication\<close>
  rw_site_drafts :: "site_draft_row list"
  rw_site_versions :: "draft_version_row list"
  rw_site_posts :: "site_post_row list"
  rw_commands :: "(uuid \<times> uuid \<times> string) list"
  \<comment> \<open>gate, approved version and status of a publication command\<close>

definition EXTERNAL_PUBLISH :: string where "EXTERNAL_PUBLISH = ''external_publish''"

definition HOSTED_SITE_SCOPE_KEY :: string where "HOSTED_SITE_SCOPE_KEY = ''hosted_site''"

definition site_post_gate_scope_key :: "uuid option \<Rightarrow> string" where
  "site_post_gate_scope_key c = (case c of None \<Rightarrow> HOSTED_SITE_SCOPE_KEY | Some i \<Rightarrow> if i = [] then HOSTED_SITE_SCOPE_KEY else i)"

definition latest_version :: "draft_version_row list \<Rightarrow> uuid \<Rightarrow> draft_version_row option" where
  \<comment> \<open>the last of the list that \<^verbatim>\<open>list_*_draft_versions\<close> orders by version\<close>
  "latest_version vs draft = max_row dw_version (filter (\<lambda>v. dw_draft v = draft) vs)"

type_synonym work_item = "uuid \<times> uuid \<times> string"
  \<comment> \<open>organisation, id and type\<close>

definition is_scoped_gate :: "work_item \<Rightarrow> gate \<Rightarrow> bool" where
  "is_scoped_gate w g \<longleftrightarrow> (g_org_id g, g_work_item_id g, g_work_item_type g) = w
     \<and> g_gate_type g = EXTERNAL_PUBLISH \<and> g_scope_key g \<noteq> []"

definition find_sole_pending_scoped_gate :: "work_item \<Rightarrow> gate_db \<Rightarrow> gate option" where
  \<comment> \<open>\<^verbatim>\<open>find_sole_pending_scoped_external_publish_gate\<close>\<close>
  "find_sole_pending_scoped_gate w db =
     (case filter (\<lambda>g. is_scoped_gate w g \<and> g_status g = Pending) (t_gates db) of [g] \<Rightarrow> Some g | _ \<Rightarrow> None)"

definition external_slot :: "work_item \<Rightarrow> string \<Rightarrow> slot" where
  "external_slot w scope = \<lparr>sl_org = fst w, sl_work_item_id = fst (snd w), sl_work_item_type = snd (snd w),
     sl_gate_type = EXTERNAL_PUBLISH, sl_scope_key = scope\<rparr>"

definition scoped_gate_of :: "work_item \<Rightarrow> string \<Rightarrow> gate_db \<Rightarrow> error + gate option" where
  "scoped_gate_of w scope db = map_sum id fst (find_gate_slot_with_pr_fallback (external_slot w scope) None None db)"

type_synonym 'd ready_list = "('d \<times> gate \<times> draft_version_row) list \<times> bool"

text \<open>The loop that the two selections share: what counts as published is its parameter.\<close>

fun ready_drafts :: "('d \<Rightarrow> error + gate option) \<Rightarrow> ('d \<Rightarrow> draft_version_row option) \<Rightarrow> (gate \<Rightarrow> draft_version_row \<Rightarrow> bool)
    \<Rightarrow> gate option \<Rightarrow> 'd list \<Rightarrow> 'd ready_list \<Rightarrow> error + 'd ready_list" where
  "ready_drafts gate_of latest published sole [] acc = Inr acc"
| "ready_drafts gate_of latest published sole (d # ds) acc =
     (let skip = ready_drafts gate_of latest published sole ds in
      case gate_of d of
        Inl e \<Rightarrow> Inl e
      | Inr None \<Rightarrow> skip acc
      | Inr (Some g) \<Rightarrow>
          if g_status g = Pending
          then if map_option g_id sole = Some (g_id g)
               then (case latest d of None \<Rightarrow> skip acc | Some v \<Rightarrow> skip (fst acc @ [(d, g, v)], snd acc))
               else skip (fst acc, True)
          else if g_status g \<noteq> Approved then skip acc
          else (case latest d of
                  None \<Rightarrow> skip acc
                | Some v \<Rightarrow> if published g v then skip acc else skip (fst acc @ [(d, g, v)], snd acc)))"

definition find_ready_recipe_channel_drafts :: "recipe_view \<Rightarrow> work_item \<Rightarrow> gate_db \<Rightarrow> error + channel_draft_row ready_list" where
  "find_ready_recipe_channel_drafts rw w db =
     (let drafts = rev (sort_key (\<lambda>d. (hd_created_at d, hd_id d))
            (filter (\<lambda>d. hd_org d = fst w \<and> hd_work_item d = fst (snd w) \<and> hd_status d \<noteq> ''withdrawn'') (rw_channel_drafts rw)))
      in ready_drafts (\<lambda>d. scoped_gate_of w (hd_connection d) db) (\<lambda>d. latest_version (rw_channel_versions rw) (hd_id d))
           (\<lambda>g v. (g_id g, dw_id v, ''published'') \<in> set (rw_publications rw))
           (find_sole_pending_scoped_gate w db) drafts ([], False))"

definition own_scoped_gate :: "work_item \<Rightarrow> gate_db \<Rightarrow> site_draft_row \<Rightarrow> error + gate option" where
  \<comment> \<open>a slot that another draft holds is passed over\<close>
  "own_scoped_gate w db d =
     (case scoped_gate_of w (site_post_gate_scope_key (xd_connection d)) db of
        Inr (Some g) \<Rightarrow> Inr (if map_of (facts_of g) ''draft_id'' = Some (JStr (xd_id d)) then Some g else None)
      | r \<Rightarrow> r)"

definition find_ready_recipe_site_drafts :: "recipe_view \<Rightarrow> work_item \<Rightarrow> gate_db \<Rightarrow> error + site_draft_row ready_list" where
  "find_ready_recipe_site_drafts rw w db =
     (let drafts = rev (sort_key (\<lambda>d. (xd_created_at d, xd_id d))
            (filter (\<lambda>d. xd_org d = fst w \<and> xd_work_item d = fst (snd w) \<and> xd_deleted_at d = None) (rw_site_drafts rw)))
      in ready_drafts (own_scoped_gate w db) (\<lambda>d. latest_version (rw_site_versions rw) (xd_id d))
           (\<lambda>g v. list_ex (\<lambda>p. wp_gate p = g_id g \<and> wp_unpublished_at p = None) (rw_site_posts rw)
              \<or> (g_id g, dw_id v, ''completed'') \<in> set (rw_commands rw))
           (find_sole_pending_scoped_gate w db) drafts ([], False))"

section \<open>What the approval screen shows\<close>

record shown_draft =
  sd_kind :: string
  sd_draft :: uuid
  sd_gate :: gate
  sd_latest :: draft_version_row

definition find_recipe_shown_draft :: "recipe_view \<Rightarrow> work_item \<Rightarrow> gate_db \<Rightarrow> error + shown_draft option" where
  \<comment> \<open>the first component; the two flags of what is still pending go to the screen\<close>
  "find_recipe_shown_draft rw w db =
     (case find_ready_recipe_channel_drafts rw w db of
        Inl e \<Rightarrow> Inl e
      | Inr (channel, _) \<Rightarrow>
          (case find_ready_recipe_site_drafts rw w db of
             Inl e \<Rightarrow> Inl e
           | Inr (site, _) \<Rightarrow>
               Inr (case channel of
                      (d, g, v) # _ \<Rightarrow> Some \<lparr>sd_kind = ''channel_post'', sd_draft = hd_id d, sd_gate = g, sd_latest = v\<rparr>
                    | [] \<Rightarrow> (case site of
                              (d, g, v) # _ \<Rightarrow> Some \<lparr>sd_kind = ''site_post'', sd_draft = xd_id d, sd_gate = g, sd_latest = v\<rparr>
                            | [] \<Rightarrow> None))))"

definition work_item_of :: "gate \<Rightarrow> work_item" where
  "work_item_of g = (g_org_id g, g_work_item_id g, g_work_item_type g)"

fun truthy_fact :: "json option \<Rightarrow> bool" where
  "truthy_fact None = False"
| "truthy_fact (Some j) = truthy j"

definition is_recipe_external_publish_gate :: "gate \<Rightarrow> bool" where
  "is_recipe_external_publish_gate g \<longleftrightarrow> g_gate_type g = EXTERNAL_PUBLISH \<and> g_scope_key g = []
     \<and> truthy_fact (map_of (facts_of g) ''triggered_by_event'') \<and> truthy_fact (map_of (facts_of g) ''stage'')"

section \<open>The seal\<close>

definition RECIPE_APPROVED_DRAFT_FACT :: string where "RECIPE_APPROVED_DRAFT_FACT = ''approved_draft''"

definition sealed_fact :: "shown_draft \<Rightarrow> draft_version_row \<Rightarrow> json" where
  "sealed_fact s v = JObj [(''kind'', JStr (sd_kind s)), (''draft_id'', JStr (sd_draft s)), (''version'', JInt (dw_version v)),
     (''version_id'', JStr (dw_id v))]"

definition versions_of_kind :: "recipe_view \<Rightarrow> string \<Rightarrow> draft_version_row list" where
  "versions_of_kind rw kind = (if kind = ''channel_post'' then rw_channel_versions rw else rw_site_versions rw)"

definition add_fact :: "string \<Rightarrow> json \<Rightarrow> gate \<Rightarrow> gate" where
  "add_fact k v g = g\<lparr>g_neutral_facts := Some (AList.update k v (facts_of g))\<rparr>"

definition seal_recipe_approved_draft :: "recipe_view \<Rightarrow> gate \<Rightarrow> (uuid \<times> int) option \<Rightarrow> gate_db
    \<Rightarrow> error + ((uuid \<times> int) option \<times> gate_db)" where
  "seal_recipe_approved_draft rw g reviewed db =
     (if \<not> is_recipe_external_publish_gate g then Inr (None, db)
      else (case find_recipe_shown_draft rw (work_item_of g) db of
              Inl e \<Rightarrow> Inl e
            | Inr None \<Rightarrow> Inr (None, db)
            | Inr (Some s) \<Rightarrow>
                (case latest_version (versions_of_kind rw (sd_kind s)) (sd_draft s) of
                   None \<Rightarrow> Inr (None, db)
                 | Some v \<Rightarrow>
                     if reviewed \<noteq> Some (sd_draft s, dw_version v)
                     then Inl (ReviewedDraftChanged (sd_draft s) (dw_version v))
                     else Inr (Some (sd_draft s, dw_version v),
                               upd_gate (g_id g) (add_fact RECIPE_APPROVED_DRAFT_FACT (sealed_fact s v)) db))))"

definition fact_field :: "string \<Rightarrow> json option \<Rightarrow> json option" where
  "fact_field k j = (case j of Some (JObj d) \<Rightarrow> map_of d k | _ \<Rightarrow> None)"

definition recipe_approval_covers :: "gate \<Rightarrow> uuid option \<Rightarrow> int option \<Rightarrow> bool" where
  "recipe_approval_covers recipe draft version \<longleftrightarrow>
     (let sealed = map_of (facts_of recipe) RECIPE_APPROVED_DRAFT_FACT in
      draft \<noteq> None \<and> version \<noteq> None \<and> fact_field ''draft_id'' sealed = map_option JStr draft
      \<and> fact_field ''version'' sealed = map_option JInt version)"

definition live_destination :: "work_item \<Rightarrow> string \<Rightarrow> gate \<Rightarrow> bool" where
  "live_destination w scope g \<longleftrightarrow> is_scoped_gate w g \<and> g_scope_key g \<noteq> scope \<and> g_status g \<in> {Pending, Approved}"

definition has_other_live_destination :: "gate \<Rightarrow> gate_db \<Rightarrow> bool" where
  "has_other_live_destination g db = list_ex (live_destination (work_item_of g) (g_scope_key g)) (t_gates db)"

section \<open>Passing the decision on\<close>

definition draft_of :: "gate \<Rightarrow> uuid option" where
  "draft_of g = (case map_of (facts_of g) ''draft_id'' of Some (JStr d) \<Rightarrow> Some d | _ \<Rightarrow> None)"

definition is_cascade_target :: "gate \<Rightarrow> uuid \<times> int \<Rightarrow> gate_db \<Rightarrow> bool" where
  "is_cascade_target g sealed db \<longleftrightarrow> draft_of g = Some (fst sealed) \<and> sealed_content_version (g_seals g) = Some (snd sealed)
     \<and> \<not> has_other_live_destination g db"

definition recipe_approval_cascade_target :: "recipe_view \<Rightarrow> work_item \<Rightarrow> (uuid \<times> int) option \<Rightarrow> gate_db \<Rightarrow> error + gate option" where
  "recipe_approval_cascade_target rw w sealed db =
     (case find_sole_pending_scoped_gate w db of
        None \<Rightarrow> Inr None
      | Some sole \<Rightarrow>
          (case sealed of
             Some x \<Rightarrow> Inr (if g_status sole = Pending \<and> is_cascade_target sole x db then Some sole else None)
           | None \<Rightarrow>
               (case find_recipe_shown_draft rw w db of
                  Inl e \<Rightarrow> Inl e
                | Inr None \<Rightarrow> Inr None
                | Inr (Some s) \<Rightarrow>
                    Inr (if g_id (sd_gate s) = g_id sole \<and> is_cascade_target sole (sd_draft s, dw_version (sd_latest s)) db
                         then Some sole else None))))"

definition RECIPE_AUTO_SATISFIED_NOTE :: string where
  "RECIPE_AUTO_SATISFIED_NOTE = ''auto_satisfied_by_recipe_external_publish_gate: single destination (story #4069)''"

definition RECIPE_AUTO_REJECTED_NOTE :: string where
  "RECIPE_AUTO_REJECTED_NOTE = ''auto_rejected_by_recipe_external_publish_gate: single destination (story #4139)''"

definition succeed :: "gate_status \<Rightarrow> string \<Rightarrow> timestamp \<Rightarrow> gate \<Rightarrow> gate \<Rightarrow> gate" where
  \<comment> \<open>a scoped gate takes over the decision of the recipe's gate\<close>
  "succeed s note now recipe g = (set_gate_status s now g)\<lparr>g_requires_human := False, g_resolver_id := g_resolver_id recipe,
     g_resolved_at := g_resolved_at recipe, g_resolution_note := Some note\<rparr>"

definition is_unscoped_external :: "gate \<Rightarrow> bool" where
  "is_unscoped_external g \<longleftrightarrow> g_gate_type g = EXTERNAL_PUBLISH \<and> g_scope_key g = []"

definition cascade_approval :: "recipe_view \<Rightarrow> uuid \<Rightarrow> (uuid \<times> int) option \<Rightarrow> timestamp \<Rightarrow> gate_db
    \<Rightarrow> error + (gate option \<times> gate_db)" where
  \<comment> \<open>the branch of \<^verbatim>\<open>transition_gate\<close> for an approved gate; the gate row is already approved\<close>
  "cascade_approval rw i reviewed now db =
     (case get_gate i db of
        None \<Rightarrow> Inr (None, db)
      | Some g \<Rightarrow>
          if \<not> is_unscoped_external g then Inr (None, db)
          else (case seal_recipe_approved_draft rw g reviewed db of
                  Inl e \<Rightarrow> Inl e
                | Inr (None, db1) \<Rightarrow> Inr (None, db1)
                | Inr (Some sealed, db1) \<Rightarrow>
                    (case recipe_approval_cascade_target rw (work_item_of g) (Some sealed) db1 of
                       Inl e \<Rightarrow> Inl e
                     | Inr None \<Rightarrow> Inr (None, db1)
                     | Inr (Some t) \<Rightarrow>
                         (case get_gate i db1 of
                            None \<Rightarrow> Inr (None, db1)
                          | Some r \<Rightarrow>
                              if \<not> recipe_approval_covers r (draft_of t) (sealed_content_version (g_seals t)) then Inr (None, db1)
                              else Inr (Some t, upd_gate (g_id t) (succeed Approved RECIPE_AUTO_SATISFIED_NOTE now r) db1)))))"

definition cascade_rejection :: "uuid \<Rightarrow> timestamp \<Rightarrow> gate_db \<Rightarrow> gate_db" where
  "cascade_rejection i now db =
     (case get_gate i db of
        None \<Rightarrow> db
      | Some g \<Rightarrow>
          if \<not> is_unscoped_external g then db
          else (case find_sole_pending_scoped_gate (work_item_of g) db of
                  None \<Rightarrow> db
                | Some t \<Rightarrow> upd_gate (g_id t) (succeed Rejected RECIPE_AUTO_REJECTED_NOTE now g) db))"

definition find_recipe_approval_for_single_destination :: "work_item \<Rightarrow> string \<Rightarrow> uuid \<Rightarrow> int \<Rightarrow> gate_db \<Rightarrow> error + gate option" where
  "find_recipe_approval_for_single_destination w scope draft version db =
     (case scoped_gate_of w [] db of
        Inl e \<Rightarrow> Inl e
      | Inr None \<Rightarrow> Inr None
      | Inr (Some r) \<Rightarrow>
          Inr (if g_status r = Approved \<and> recipe_approval_covers r (Some draft) (Some version)
                  \<and> \<not> list_ex (live_destination w scope) (t_gates db)
               then Some r else None))"

definition find_pending_recipe_external_publish_gate :: "work_item \<Rightarrow> gate_db \<Rightarrow> error + gate option" where
  "find_pending_recipe_external_publish_gate w db =
     (case scalar_one_or_none (filter (\<lambda>g. work_item_of g = w \<and> is_unscoped_external g \<and> g_status g = Pending) (t_gates db)) of
        Inl e \<Rightarrow> Inl e
      | Inr None \<Rightarrow> Inr None
      | Inr (Some g) \<Rightarrow> Inr (if is_recipe_external_publish_gate g then Some g else None))"

section \<open>An approval covers what its approver saw\<close>

lemma sole_pendingD:
  assumes "find_sole_pending_scoped_gate w db = Some g"
  shows "g \<in> set (t_gates db)" and "is_scoped_gate w g" and "g_status g = Pending"
proof -
  have "filter (\<lambda>g. is_scoped_gate w g \<and> g_status g = Pending) (t_gates db) = [g]"
    using assms by (simp add: find_sole_pending_scoped_gate_def split: list.splits)
  then have "g \<in> set (filter (\<lambda>g. is_scoped_gate w g \<and> g_status g = Pending) (t_gates db))" by simp
  then show "g \<in> set (t_gates db)" and "is_scoped_gate w g" and "g_status g = Pending" by auto
qed

lemma add_fact_fields [simp]:
  "g_id (add_fact k v g) = g_id g" "g_status (add_fact k v g) = g_status g" "g_scope_key (add_fact k v g) = g_scope_key g"
  "g_gate_type (add_fact k v g) = g_gate_type g" "work_item_of (add_fact k v g) = work_item_of g"
  "g_seals (add_fact k v g) = g_seals g" "facts_of (add_fact k v g) = AList.update k v (facts_of g)"
  by (simp_all add: add_fact_def work_item_of_def facts_of_def)

lemma live_add_fact [simp]: "live_destination w s (add_fact k v g) = live_destination w s g"
  by (simp add: live_destination_def is_scoped_gate_def add_fact_def)

lemma live_upd_fact: "list_ex (live_destination w s) (upd_row g_id i (add_fact k v) gs) = list_ex (live_destination w s) gs"
  by (induction gs) (simp_all add: upd_row_def)

lemma other_live_add_fact [simp]:
  "has_other_live_destination t (upd_gate i (add_fact k v) db) = has_other_live_destination t db"
  by (simp add: has_other_live_destination_def upd_gate_def live_upd_fact)

lemma work_item_of_scoped: "is_scoped_gate w g \<Longrightarrow> work_item_of g = w"
  by (simp add: is_scoped_gate_def work_item_of_def)

lemma seal_SomeD:
  assumes "seal_recipe_approved_draft rw g reviewed db = Inr (Some x, db')"
  shows "\<exists>s v. find_recipe_shown_draft rw (work_item_of g) db = Inr (Some s) \<and> x = (sd_draft s, dw_version v) \<and> reviewed = Some x
    \<and> db' = upd_gate (g_id g) (add_fact RECIPE_APPROVED_DRAFT_FACT (sealed_fact s v)) db"
  using assms by (auto simp: seal_recipe_approved_draft_def split: if_splits sum.splits option.splits)

text \<open>A recipe approval that does not name the draft and version on the screen is refused.\<close>

lemma unseen_approval_refused:
  assumes "is_recipe_external_publish_gate g" "find_recipe_shown_draft rw (work_item_of g) db = Inr (Some s)"
    "latest_version (versions_of_kind rw (sd_kind s)) (sd_draft s) = Some v" "reviewed \<noteq> Some (sd_draft s, dw_version v)"
  shows "seal_recipe_approved_draft rw g reviewed db = Inl (ReviewedDraftChanged (sd_draft s) (dw_version v))"
  using assms by (auto simp: seal_recipe_approved_draft_def)

lemma sealed_covers:
  assumes "get_gate i db = Some g" "g_id g = i"
  shows "map_option (\<lambda>r. recipe_approval_covers r (Some (sd_draft s)) (Some (dw_version v)))
    (get_gate i (upd_gate i (add_fact RECIPE_APPROVED_DRAFT_FACT (sealed_fact s v)) db)) = Some True"
  using assms by (simp add: row_simps recipe_approval_covers_def fact_field_def sealed_fact_def)

lemma cascade_approvalD:
  assumes "cascade_approval rw i reviewed now db = Inr (Some t, db')"
  shows "\<exists>g r x db1. get_gate i db = Some g \<and> is_unscoped_external g
    \<and> seal_recipe_approved_draft rw g reviewed db = Inr (Some x, db1) \<and> get_gate i db1 = Some r
    \<and> find_sole_pending_scoped_gate (work_item_of g) db1 = Some t \<and> is_cascade_target t x db1
    \<and> db' = upd_gate (g_id t) (succeed Approved RECIPE_AUTO_SATISFIED_NOTE now r) db1"
  using assms by (auto simp: cascade_approval_def recipe_approval_cascade_target_def Let_def
      split: if_splits sum.splits option.splits prod.splits)

text \<open>
  C7: When the approval of a recipe's gate is passed on to a scoped gate, the approver named the draft and
  version that the screen showed; the scoped gate was pending for that very draft and had sealed that very
  version, and no other destination of the work item was pending or approved. The recipe's gate keeps the
  sealed draft and version on record.
\<close>

theorem recipe_approval_covers_what_was_seen:
  assumes u: "unique_slots db" and c: "cascade_approval rw i reviewed now db = Inr (Some t, db')"
  shows "\<exists>g s version. get_gate i db = Some g \<and> find_recipe_shown_draft rw (work_item_of g) db = Inr (Some s)
    \<and> reviewed = Some (sd_draft s, version)
    \<and> get_gate (g_id t) db = Some t \<and> g_status t = Pending \<and> is_scoped_gate (work_item_of g) t
    \<and> draft_of t = Some (sd_draft s) \<and> sealed_content_version (g_seals t) = Some version
    \<and> \<not> has_other_live_destination t db
    \<and> map_option (\<lambda>r. recipe_approval_covers r (Some (sd_draft s)) (Some version)) (get_gate i db') = Some True"
proof -
  obtain g r x db1 where g: "get_gate i db = Some g" and ext: "is_unscoped_external g"
    and seal: "seal_recipe_approved_draft rw g reviewed db = Inr (Some x, db1)" and r: "get_gate i db1 = Some r"
    and sole: "find_sole_pending_scoped_gate (work_item_of g) db1 = Some t" and target: "is_cascade_target t x db1"
    and db': "db' = upd_gate (g_id t) (succeed Approved RECIPE_AUTO_SATISFIED_NOTE now r) db1"
    using cascade_approvalD [OF c] by blast
  obtain s v where s: "find_recipe_shown_draft rw (work_item_of g) db = Inr (Some s)" and x: "x = (sd_draft s, dw_version v)"
    and rev: "reviewed = Some x" and db1: "db1 = upd_gate (g_id g) (add_fact RECIPE_APPROVED_DRAFT_FACT (sealed_fact s v)) db"
    using seal_SomeD [OF seal] by blast
  note t = sole_pendingD [OF sole]
  have i: "g_id g = i" using get_gate_id [OF g] by simp
  obtain t0 where t0: "t0 \<in> set (t_gates db)" and "t = (if g_id t0 = i then add_fact RECIPE_APPROVED_DRAFT_FACT (sealed_fact s v) t0 else t0)"
    using t(1) by (auto simp: db1 i upd_gate_def upd_row_def)
  moreover have "g_id t0 \<noteq> i"
  proof
    assume "g_id t0 = i"
    then have "t0 = g" using t0 get_gate_id [OF g] u by (auto simp: unique_slots_def distinct_map inj_on_def)
    then show False using t(2) ext calculation by (auto simp: is_scoped_gate_def is_unscoped_external_def split: if_splits)
  qed
  ultimately have tt: "t = t0" and ti: "g_id t \<noteq> i" by auto
  have "get_gate (g_id t) db = Some t"
    using u t0 tt by (auto simp: get_gate_def unique_slots_def intro: find_row_member)
  moreover have "map_option (\<lambda>r. recipe_approval_covers r (Some (sd_draft s)) (Some (dw_version v))) (get_gate i db') = Some True"
    using sealed_covers [OF g i, of s v] ti by (simp add: db' db1 i row_simps succeed_def)
  ultimately show ?thesis
    using g s rev x t(2,3) target db1 by (auto simp: is_cascade_target_def)
qed

definition recipe_args :: "string \<Rightarrow> jdict \<Rightarrow> create_args" where
  "recipe_args scope facts = sample_args\<lparr>ca_slot := sample_slot\<lparr>sl_gate_type := EXTERNAL_PUBLISH, sl_scope_key := scope\<rparr>,
     ca_facts := Some facts, ca_pr_number := None, ca_repo := None\<rparr>"

definition recipe_gate :: gate where
  "recipe_gate = (new_gate (recipe_args [] [(''triggered_by_event'', JStr ''recipe''), (''stage'', JStr ''approval'')]) ''gr'' Approved 100)
     \<lparr>g_resolver_id := Some ''m1'', g_resolved_at := Some 150\<rparr>"

definition scoped_gate :: gate where
  "scoped_gate = (new_gate (recipe_args ''c1'' [(''draft_id'', JStr ''d1'')]) ''gs'' Pending 110)
     \<lparr>g_seals := no_seals\<lparr>sealed_content_version := Some 2\<rparr>\<rparr>"

definition recipe_db :: gate_db where "recipe_db = empty_db\<lparr>t_gates := [recipe_gate, scoped_gate]\<rparr>"

definition recipe_rows :: recipe_view where
  "recipe_rows = \<lparr>rw_channel_drafts = [\<lparr>hd_id = ''d1'', hd_org = ''o1'', hd_work_item = ''s1'', hd_connection = ''c1'',
       hd_status = ''submitted'', hd_created_at = 105\<rparr>],
     rw_channel_versions = [\<lparr>dw_id = ''v1'', dw_draft = ''d1'', dw_version = 1\<rparr>, \<lparr>dw_id = ''v2'', dw_draft = ''d1'', dw_version = 2\<rparr>],
     rw_publications = [], rw_site_drafts = [], rw_site_versions = [], rw_site_posts = [], rw_commands = []\<rparr>"

theorem recipe_approval_covers_what_was_seen_witness:
  "\<exists>g s version. get_gate ''gr'' recipe_db = Some g
    \<and> find_recipe_shown_draft recipe_rows (work_item_of g) recipe_db = Inr (Some s)
    \<and> Some (''d1'', 2) = Some (sd_draft s, version)
    \<and> get_gate (g_id scoped_gate) recipe_db = Some scoped_gate \<and> g_status scoped_gate = Pending
    \<and> is_scoped_gate (work_item_of g) scoped_gate
    \<and> draft_of scoped_gate = Some (sd_draft s) \<and> sealed_content_version (g_seals scoped_gate) = Some version
    \<and> \<not> has_other_live_destination scoped_gate recipe_db
    \<and> map_option (\<lambda>r. recipe_approval_covers r (Some (sd_draft s)) (Some version))
        (get_gate ''gr'' (snd (projr (cascade_approval recipe_rows ''gr'' (Some (''d1'', 2)) 160 recipe_db)))) = Some True"
proof -
  have u: "unique_slots recipe_db" by code_simp
  have "map_sum id fst (cascade_approval recipe_rows ''gr'' (Some (''d1'', 2)) 160 recipe_db) = Inr (Some scoped_gate)"
    by code_simp
  then have c: "cascade_approval recipe_rows ''gr'' (Some (''d1'', 2)) 160 recipe_db
      = Inr (Some scoped_gate, snd (projr (cascade_approval recipe_rows ''gr'' (Some (''d1'', 2)) 160 recipe_db)))"
    by (cases "cascade_approval recipe_rows ''gr'' (Some (''d1'', 2)) 160 recipe_db") auto
  show ?thesis by (rule recipe_approval_covers_what_was_seen [OF u c])
qed

end
