(* ===== verification/Doc_Approval.thy ===== *)
theory Doc_Approval
  imports Lifecycle
begin

text \<open>
  Documents and their decisions: the transitions of a document with the gate its submission opens and
  the approval of a work item on the ground of a document (services/doc.py, models/doc.py), and the
  project of a work item (\<^verbatim>\<open>resolve_work_item_project_id\<close> of services/gate_service.py). The two texts
  that a submission puts on the card, the excerpt of the content and the operations that difflib finds
  between two contents, are the functions of \<^verbatim>\<open>doc_texts\<close>.
\<close>

section \<open>The project of a work item\<close>

record task_row =
  tw_id :: uuid
  tw_org :: uuid
  tw_story :: uuid

definition row_project :: "('r \<Rightarrow> uuid) \<Rightarrow> ('r \<Rightarrow> uuid) \<Rightarrow> ('r \<Rightarrow> uuid) \<Rightarrow> uuid \<Rightarrow> uuid \<Rightarrow> 'r list \<Rightarrow> uuid option" where
  "row_project key org_of project_of org i rows =
     map_option project_of (List.find (\<lambda>r. key r = i \<and> org_of r = org) rows)"

definition resolve_work_item_project_id :: "task_row list \<Rightarrow> uuid \<Rightarrow> string \<Rightarrow> uuid \<Rightarrow> gate_db \<Rightarrow> uuid option" where
  "resolve_work_item_project_id tasks org wit i db =
     (if wit = ''story'' then row_project st_id st_org st_project org i (t_stories db)
      else if wit = ''task''
      then Option.bind (List.find (\<lambda>t. tw_id t = i \<and> tw_org t = org) tasks)
             (\<lambda>t. map_option st_project (List.find (\<lambda>s. st_id s = tw_story t) (t_stories db)))
      else if wit = ''doc'' then row_project d_id d_org d_project org i (t_docs db)
      else if wit = ''visual_artifact'' then row_project va_id va_org va_project org i (t_visual_artifacts db)
      else if wit = ''loop'' then row_project lo_id lo_org lo_project org i (t_loops db)
      else if wit = ''hypothesis'' then row_project hy_id hy_org hy_project org i (t_hypotheses db)
      else if wit = ''epic'' then row_project gl_id gl_org gl_project org i (t_goals db)
      else if wit = ''sprint'' then row_project sp_id sp_org sp_project org i (t_sprints db)
      else None)"

section \<open>Transitions of a document\<close>

definition valid_doc_transition :: "string \<Rightarrow> string \<Rightarrow> bool" where
  "valid_doc_transition f t \<longleftrightarrow>
     (f, t) \<in> {(''draft'', ''pending''), (''pending'', ''confirmed''), (''pending'', ''denied''), (''pending'', ''draft''),
                (''draft'', ''confirmed''), (''draft'', ''denied''), (''denied'', ''draft''), (''confirmed'', ''superseded''),
                (''confirmed'', ''deprecated'')}"

definition find_doc :: "uuid \<Rightarrow> uuid \<Rightarrow> gate_db \<Rightarrow> doc option" where
  "find_doc org i db = List.find (\<lambda>d. d_id d = i \<and> d_org d = org \<and> d_deleted_at d = None) (t_docs db)"

abbreviation doc_error :: "string \<Rightarrow> error" where
  "doc_error code \<equiv> ServiceError ''DocTransitionError'' code"

datatype edit_tag = Tag_replace | Tag_delete | Tag_insert | Tag_equal

record doc_texts =
  dt_excerpt :: "string \<Rightarrow> string"
  dt_opcodes :: "string \<Rightarrow> string \<Rightarrow> (edit_tag \<times> int \<times> int \<times> int \<times> int) list"

definition line_diff_counts :: "(edit_tag \<times> int \<times> int \<times> int \<times> int) list \<Rightarrow> jdict" where
  "line_diff_counts ops =
     [(''add'', JInt (sum_list (map (\<lambda>(t, i1, i2, j1, j2). if t \<in> {Tag_replace, Tag_insert} then j2 - j1 else 0) ops))),
      (''del'', JInt (sum_list (map (\<lambda>(t, i1, i2, j1, j2). if t \<in> {Tag_replace, Tag_delete} then i2 - i1 else 0) ops)))]"

definition latest_revision :: "uuid \<Rightarrow> uuid \<Rightarrow> gate_db \<Rightarrow> string option" where
  \<comment> \<open>the content of the newest row; rows are appended as they are made\<close>
  "latest_revision org i db =
     (case rev (filter (\<lambda>v. dv_doc v = i \<and> dv_org v = org) (t_doc_revisions db)) of [] \<Rightarrow> None | v # _ \<Rightarrow> dv_content v)"

definition approver_eligible :: "uuid \<Rightarrow> uuid \<Rightarrow> gate_db \<Rightarrow> bool" where
  "approver_eligible org m db \<longleftrightarrow>
     list_ex (\<lambda>x. om_org x = org \<and> om_id x = m \<and> om_role x \<in> {''owner'', ''admin''} \<and> om_deleted_at x = None) (t_org_members db)"

definition doc_gate_args :: "uuid \<Rightarrow> uuid \<Rightarrow> doc \<Rightarrow> uuid \<Rightarrow> uuid \<Rightarrow> create_args" where
  "doc_gate_args org member d role approver =
     \<lparr>ca_slot = \<lparr>sl_org = org, sl_work_item_id = d_id d, sl_work_item_type = ''doc'', sl_gate_type = ''doc_approval'', sl_scope_key = []\<rparr>,
      ca_member = member, ca_role = role,
      ca_facts = Some [(''requested_by_member_id'', JStr member), (''doc_title'', JStr (d_title d))],
      ca_project = Some (d_project d), ca_notify = False, ca_gate_id = None, ca_pr_number = None, ca_repo = None,
      ca_designated = Some approver\<rparr>"

definition set_default :: "string \<Rightarrow> 'v \<Rightarrow> (string \<times> 'v) list \<Rightarrow> (string \<times> 'v) list" where
  "set_default k v d = (if map_of d k = None then AList.update k v d else d)"

definition doc_card :: "doc_texts \<Rightarrow> doc \<Rightarrow> string option \<Rightarrow> jdict \<Rightarrow> jdict" where
  "doc_card dt d revision facts =
     (let f = AList.update ''doc_summary'' (JStr (case d_content d of None \<Rightarrow> [] | Some c \<Rightarrow> dt_excerpt dt c)) facts
      in case (revision, d_content d) of
           (Some old, Some new) \<Rightarrow> AList.update ''doc_diff'' (JObj (line_diff_counts (dt_opcodes dt old new))) f
         | _ \<Rightarrow> AList.delete ''doc_diff'' f)"

definition prior_decision :: "gate \<Rightarrow> json" where
  "prior_decision g = JObj [(''status'', JStr (status_text (g_status g))), (''resolver_id'', jopt_str (g_resolver_id g)),
     (''resolved_at'', jopt_time (g_resolved_at g)), (''resolution_note'', jopt_str (g_resolution_note g))]"

definition submitted_gate :: "doc_texts \<Rightarrow> doc \<Rightarrow> uuid \<Rightarrow> string option \<Rightarrow> timestamp \<Rightarrow> gate \<Rightarrow> gate" where
  \<comment> \<open>the requester is stamped by the server, whatever facts the slot already had\<close>
  "submitted_gate dt d member revision now g =
     (let facts = doc_card dt d revision (set_default ''doc_title'' (JStr (d_title d))
            (AList.update ''requested_by_member_id'' (JStr member) (facts_of g)))
      in if g_status g \<in> {Approved, Rejected, Auto_passed, Voided}
         then (set_gate_status Pending now g)\<lparr>g_resolver_id := None, g_resolved_at := None, g_resolution_note := None,
                g_neutral_facts := Some (AList.update ''decision_history''
                  (JList (json_list (map_of facts ''decision_history'') @ [prior_decision g])) facts)\<rparr>
         else g\<lparr>g_neutral_facts := Some facts\<rparr>)"

definition notify_doc_approval_requested :: "uuid \<Rightarrow> doc \<Rightarrow> uuid \<Rightarrow> uuid \<Rightarrow> gate_db \<Rightarrow> gate_db" where
  "notify_doc_approval_requested org d gate_id requester db =
     (let targets = filter (\<lambda>m. m \<noteq> requester) (gate_notification_targets db org)
      in if targets = [] then db
         else db\<lparr>t_notifications := t_notifications db @ [\<lparr>n_org = org, n_event_type = ''doc_approval_requested'',
                n_targets = targets, n_reference_id = gate_id, n_payload = [], n_source_project_id = Some (d_project d)\<rparr>]\<rparr>)"

definition set_doc_status :: "string \<Rightarrow> uuid \<Rightarrow> gate_db \<Rightarrow> gate_db" where
  "set_doc_status s i = upd_doc i (\<lambda>x. x\<lparr>d_status := s\<rparr>)"

definition submit_doc :: "doc_texts \<Rightarrow> uuid \<Rightarrow> caller \<Rightarrow> doc \<Rightarrow> uuid option \<Rightarrow> uuid \<Rightarrow> timestamp \<Rightarrow> gate_db \<Rightarrow> error + gate_db" where
  \<comment> \<open>the branch of a submission, from draft to pending\<close>
  "submit_doc dt org c d approver fresh now db =
     (case approver of
        None \<Rightarrow> Inl (doc_error ''APPROVER_REQUIRED'')
      | Some a \<Rightarrow>
          if a = cl_id c then Inl (doc_error ''APPROVER_SELF_NOT_ALLOWED'')
          else if \<not> approver_eligible org a db then Inl (doc_error ''APPROVER_INELIGIBLE'')
          else
            let role = (case default_role_id org db of None \<Rightarrow> d_id d | Some r \<Rightarrow> r)
            in res_bind (create_gate (doc_gate_args org (cl_id c) d role a) fresh now db) (\<lambda>(g, db1).
                 Inr (notify_doc_approval_requested org d (g_id g) (cl_id c)
                   (set_doc_status ''pending'' (d_id d)
                     (upd_gate (g_id g) (submitted_gate dt d (cl_id c) (latest_revision org (d_id d) db1) now) db1)))))"

definition keep_revision :: "uuid \<Rightarrow> doc \<Rightarrow> uuid \<Rightarrow> gate_db \<Rightarrow> gate_db" where
  "keep_revision org d member db = db\<lparr>t_doc_revisions := t_doc_revisions db @
     [\<lparr>dv_doc = d_id d, dv_project = d_project d, dv_org = org, dv_content = d_content d, dv_created_by = member\<rparr>]\<rparr>"

definition move_doc :: "uuid \<Rightarrow> caller \<Rightarrow> doc \<Rightarrow> string \<Rightarrow> timestamp \<Rightarrow> gate_db \<Rightarrow> error + gate_db" where
  \<comment> \<open>from the check for a person on\<close>
  "move_doc org c d to_status now db =
     (if to_status = ''confirmed'' \<and> cl_type c \<noteq> ''human'' then Inl (doc_error ''HUMAN_CONFIRM_REQUIRED'')
      else
        let db1 = (if to_status = ''draft'' \<and> d_status d = ''denied'' then keep_revision org d (cl_id c) db else db)
        in res_bind (if d_status d = ''pending'' \<and> to_status = ''draft'' then void_pending_doc_gate org (d_id d) (cl_id c) now db1
                     else Inr (False, db1))
             (\<lambda>(_, db2). Inr (set_doc_status to_status (d_id d) db2)))"

definition transition_doc :: "doc_texts \<Rightarrow> line_env \<Rightarrow> uuid \<Rightarrow> caller \<Rightarrow> uuid \<Rightarrow> string \<Rightarrow> bool \<Rightarrow> uuid option \<Rightarrow> uuid \<Rightarrow> string
    \<Rightarrow> line_ids \<Rightarrow> timestamp \<Rightarrow> gate_db \<Rightarrow> error + gate_db" where
  "transition_doc dt env org c i to_status via_gate approver fresh tid lids now db =
     (case find_doc org i db of
        None \<Rightarrow> Inl (doc_error ''DOC_NOT_FOUND'')
      | Some d \<Rightarrow>
          if to_status \<notin> set DOC_STATUSES then Inl (doc_error ''INVALID_STATUS'')
          else if \<not> valid_doc_transition (d_status d) to_status then Inl (doc_error ''INVALID_DOC_TRANSITION'')
          else if to_status = ''pending'' \<and> d_status d = ''draft'' then submit_doc dt org c d approver fresh now db
          else if d_status d = ''pending'' \<and> to_status \<in> {''confirmed'', ''denied''} \<and> \<not> via_gate
          then Inl (doc_error ''GATE_REQUIRED'')
          else
            let (held, db1) = (if to_status = ''confirmed'' \<and> d_status d = ''draft'' \<and> \<not> via_gate
                  then line_holds env (overlay_args org (d_project d) ''doc'' (d_id d) ''draft'' ''confirmed'' c tid) lids now db
                  else (False, db))
            in if held then Inr db1 else move_doc org c d to_status now db1)"

section \<open>Approval of a work item on the ground of a document\<close>

definition CONCEPT_APPROVAL_GATE_TYPE :: string where "CONCEPT_APPROVAL_GATE_TYPE = ''concept_approval''"

definition compute_doc_body_sha256 :: "string option \<Rightarrow> string" where
  "compute_doc_body_sha256 content = sha256_hex (case content of None \<Rightarrow> [] | Some c \<Rightarrow> c)"

abbreviation concept_error :: "string \<Rightarrow> error" where
  "concept_error code \<equiv> ServiceError ''ConceptApprovalError'' code"

definition concept_args :: "uuid \<Rightarrow> uuid \<Rightarrow> doc \<Rightarrow> uuid \<Rightarrow> string \<Rightarrow> uuid \<Rightarrow> uuid \<Rightarrow> uuid option \<Rightarrow> create_args" where
  "concept_args org member d wi wit project role approver =
     \<lparr>ca_slot = \<lparr>sl_org = org, sl_work_item_id = wi, sl_work_item_type = wit, sl_gate_type = CONCEPT_APPROVAL_GATE_TYPE, sl_scope_key = []\<rparr>,
      ca_member = member, ca_role = role,
      ca_facts = Some [(''requested_by_member_id'', JStr member), (''doc_title'', JStr (d_title d))],
      ca_project = Some project, ca_notify = True, ca_gate_id = None, ca_pr_number = None, ca_repo = None,
      ca_designated = approver\<rparr>"

definition grounded_gate :: "doc \<Rightarrow> uuid \<Rightarrow> gate \<Rightarrow> gate" where
  "grounded_gate d member g = g\<lparr>g_neutral_facts := Some (set_default ''doc_title'' (JStr (d_title d))
       (AList.update ''requested_by_member_id'' (JStr member) (facts_of g))),
     g_seals := (g_seals g)\<lparr>sealed_doc_id := Some (d_id d), sealed_doc_body_sha256 := Some (compute_doc_body_sha256 (d_content d))\<rparr>\<rparr>"

definition submit_concept_approval :: "task_row list \<Rightarrow> uuid \<Rightarrow> caller \<Rightarrow> uuid \<Rightarrow> uuid \<Rightarrow> string \<Rightarrow> uuid option \<Rightarrow> uuid \<Rightarrow> timestamp
    \<Rightarrow> gate_db \<Rightarrow> error + (gate \<times> gate_db)" where
  "submit_concept_approval tasks org c doc_id wi wit approver fresh now db =
     (if wit \<notin> {''story'', ''task''} then Inl (concept_error ''INVALID_WORK_ITEM_TYPE'')
      else (case find_doc org doc_id db of
              None \<Rightarrow> Inl (concept_error ''DOC_NOT_FOUND'')
            | Some d \<Rightarrow>
                if resolve_work_item_project_id tasks org wit wi db \<noteq> Some (d_project d)
                then Inl (concept_error ''CONCEPT_APPROVAL_DOC_SCOPE_MISMATCH'')
                else
                  let role = (case default_role_id org db of None \<Rightarrow> d_id d | Some r \<Rightarrow> r)
                  in res_bind (create_gate (concept_args org (cl_id c) d wi wit (d_project d) role approver) fresh now db)
                       (\<lambda>(g, db1). Inr (grounded_gate d (cl_id c) g, upd_gate (g_id g) (grounded_gate d (cl_id c)) db1))))"

definition resealed_gate :: "string \<Rightarrow> timestamp \<Rightarrow> gate \<Rightarrow> gate" where
  "resealed_gate sha now g =
     (if sealed_doc_body_sha256 (g_seals g) = Some sha then g
      else if g_status g = Approved
      then (set_gate_status Pending now g)\<lparr>g_requires_human := True, g_resolver_id := None, g_resolution_note := None,
             g_resolved_at := None, g_reapproval_required := True\<rparr>
      else g\<lparr>g_seals := (g_seals g)\<lparr>sealed_doc_body_sha256 := Some sha\<rparr>\<rparr>)"

definition grounded_on :: "uuid \<Rightarrow> uuid \<Rightarrow> gate \<Rightarrow> bool" where
  "grounded_on org doc_id g \<longleftrightarrow> g_org_id g = org \<and> sealed_doc_id (g_seals g) = Some doc_id
     \<and> g_gate_type g = CONCEPT_APPROVAL_GATE_TYPE \<and> g_status g \<in> {Pending, Approved}"

definition reseal_concept_approval_gate_on_doc_update :: "uuid \<Rightarrow> uuid \<Rightarrow> string \<Rightarrow> timestamp \<Rightarrow> gate_db \<Rightarrow> gate_db" where
  "reseal_concept_approval_gate_on_doc_update org doc_id sha now db =
     db\<lparr>t_gates := map (\<lambda>g. if grounded_on org doc_id g then resealed_gate sha now g else g) (t_gates db)\<rparr>"

end
