(* ===== verification/Gate_Transition.thy ===== *)
theory Gate_Transition
  imports Recipe_Approval Doc_Approval Outcome_Loop
begin

text \<open>
  The decision on a gate: \<^verbatim>\<open>transition_gate\<close> and \<^verbatim>\<open>override_gate\<close> of services/gate_service.py with what they
  set off, the resolution of a workflow line (services/workflow_line_resolution.py), the seed of a cold
  start (services/cold_start_seed.py) and the evidence of an approval (services/evidence_service.py).
  The publication of an approved draft (\<^verbatim>\<open>_maybe_create_scheduled_publication_command\<close> and
  \<^verbatim>\<open>publish_recipe_approved_draft\<close>), which both return at once unless the gate's type is
  \<^verbatim>\<open>external_publish\<close>, are the functions \<^verbatim>\<open>te_command\<close> and \<^verbatim>\<open>te_publish\<close>. The delivery of cards and
  events, which never fails the decision, is left out; notifications are rows of the outbox.
\<close>

section \<open>Members and the owner of a project\<close>

definition resolve_member_identity :: "uuid \<Rightarrow> uuid \<Rightarrow> gate_db \<Rightarrow> (string \<times> string) option" where
  \<comment> \<open>type and role\<close>
  "resolve_member_identity m org db =
     (case List.find (\<lambda>t. tm_id t = m \<and> tm_org t = org) (t_team_members db) of
        Some t \<Rightarrow> Some (tm_type t, tm_role t)
      | None \<Rightarrow> map_option (\<lambda>x. (''human'', om_role x))
                 (List.find (\<lambda>x. om_id x = m \<and> om_org x = org \<and> om_deleted_at x = None) (t_org_members db)))"

definition access_member :: "project_access \<Rightarrow> uuid option" where
  "access_member a = (case xa_member a of None \<Rightarrow> xa_org_member a | m \<Rightarrow> m)"

definition relay_candidates :: "uuid \<Rightarrow> uuid \<Rightarrow> gate_db \<Rightarrow> (nat \<times> timestamp \<times> uuid) list" where
  "relay_candidates project org db =
     (if \<not> list_ex (\<lambda>p. pj_id p = project \<and> pj_org p = org) (t_projects db) then []
      else List.map_filter (\<lambda>a. map_option (\<lambda>m. (1, xa_created_at a, m)) (access_member a))
             (filter (\<lambda>a. xa_project a = project \<and> xa_permission a = ''granted'' \<and> xa_role a = ''owner'') (t_accesses db))
           @ map (\<lambda>m. (2, om_created_at m, om_id m))
               (filter (\<lambda>m. om_org m = org \<and> om_role m = ''owner'' \<and> om_deleted_at m = None) (t_org_members db))
           @ map (\<lambda>m. (3, om_created_at m, om_id m))
               (filter (\<lambda>m. om_org m = org \<and> om_role m = ''admin'' \<and> om_deleted_at m = None) (t_org_members db)))"

definition resolve_project_relay_owner :: "uuid \<Rightarrow> uuid \<Rightarrow> gate_db \<Rightarrow> uuid option" where
  "resolve_project_relay_owner project org db =
     map_option (\<lambda>(_, _, m). m) (List.find (\<lambda>(_, _, m). resolve_member_identity m org db \<noteq> None)
       (sort_key id (relay_candidates project org db)))"

section \<open>Resolving a workflow line\<close>

record transition_env =
  te_line :: line_env
  te_num :: "string \<Rightarrow> real option"
  te_docs :: doc_texts
  te_recipe :: recipe_view
  te_command :: "uuid \<Rightarrow> uuid option \<Rightarrow> gate_db \<Rightarrow> error + gate_db"
  te_publish :: "uuid \<Rightarrow> uuid option \<Rightarrow> gate_db \<Rightarrow> error + gate_db"
  te_tasks :: "task_row list"

record transition_ids =
  ti_gate :: uuid
  ti_verdict :: uuid
  ti_seed :: uuid
  ti_tid :: string
  ti_line :: line_ids
  ti_outcome :: outcome_ids

definition get_step_run :: "uuid \<Rightarrow> gate_db \<Rightarrow> step_run option" where
  "get_step_run i db = find_row sr_id i (t_step_runs db)"

definition step_config :: "step_run \<Rightarrow> gate_db \<Rightarrow> error + json" where
  "step_config sr db =
     (case sr_line_definition_id sr of
        None \<Rightarrow> Inr (JObj [])
      | Some d \<Rightarrow> map_sum id (\<lambda>s. case s of None \<Rightarrow> JObj [] | Some x \<Rightarrow> x)
                   (match_step (published_config d db) (sr_from_status sr) (sr_to_status sr)))"

definition end_run :: "string \<Rightarrow> timestamp \<Rightarrow> uuid \<Rightarrow> gate_db \<Rightarrow> gate_db" where
  "end_run s now i = upd_step_run i (\<lambda>x. x\<lparr>sr_status := s, sr_resolved_at := Some now\<rparr>)"

definition gate_approver :: "uuid \<Rightarrow> caller" where
  "gate_approver m = \<lparr>cl_id = m, cl_type = ''human''\<rparr>"

definition apply_hypothesis_active :: "transition_env \<Rightarrow> transition_ids \<Rightarrow> step_run \<Rightarrow> uuid option \<Rightarrow> timestamp \<Rightarrow> gate_db
    \<Rightarrow> error + gate_db" where
  "apply_hypothesis_active te ids sr resolver now db =
     (case List.find (\<lambda>h. hy_id h = sr_entity_id sr) (t_hypotheses db) of
        None \<Rightarrow> Inr (end_run ''approved'' now (sr_id sr) db)
      | Some h \<Rightarrow>
          if hy_status h = ''active'' then Inr (end_run ''applied'' now (sr_id sr) db)
          else if hy_status h \<noteq> ''proposed'' then Inr (end_run ''skipped'' now (sr_id sr) db)
          else (case resolver of
                  None \<Rightarrow> Inr (end_run ''skipped'' now (sr_id sr) db)
                | Some m \<Rightarrow>
                    if m = hy_owner h then Inr (end_run ''skipped'' now (sr_id sr) db)
                    else res_bind (transition_hypothesis (te_line te) (sr_org sr) (gate_approver m) (hy_id h) ''active'' None None
                           True (ti_tid ids) (ti_line ids) (ti_outcome ids) now db)
                           (\<lambda>db1. Inr (end_run ''applied'' now (sr_id sr) db1))))"

definition apply_doc_confirmed :: "transition_env \<Rightarrow> transition_ids \<Rightarrow> step_run \<Rightarrow> uuid option \<Rightarrow> timestamp \<Rightarrow> gate_db
    \<Rightarrow> error + gate_db" where
  "apply_doc_confirmed te ids sr resolver now db =
     (case List.find (\<lambda>d. d_id d = sr_entity_id sr) (t_docs db) of
        None \<Rightarrow> Inr (end_run ''approved'' now (sr_id sr) db)
      | Some d \<Rightarrow>
          if d_status d = ''confirmed'' then Inr (end_run ''applied'' now (sr_id sr) db)
          else if d_status d \<noteq> ''draft'' then Inr (end_run ''skipped'' now (sr_id sr) db)
          else (case (resolver, d_created_by d) of
                  (Some m, Some author) \<Rightarrow>
                    if m = author then Inr (end_run ''skipped'' now (sr_id sr) db)
                    else res_bind (transition_doc (te_docs te) (te_line te) (sr_org sr) (gate_approver m) (d_id d) ''confirmed'' True
                           None (ti_gate ids) (ti_tid ids) (ti_line ids) now db)
                           (\<lambda>db1. Inr (end_run ''applied'' now (sr_id sr) db1))
                | _ \<Rightarrow> Inr (end_run ''skipped'' now (sr_id sr) db)))"

definition caller_of :: "uuid option \<Rightarrow> caller" where
  \<comment> \<open>a missing resolver is written as Python's text of None\<close>
  "caller_of resolver = gate_approver (case resolver of None \<Rightarrow> ''None'' | Some m \<Rightarrow> m)"

definition apply_epic_transition :: "transition_env \<Rightarrow> transition_ids \<Rightarrow> step_run \<Rightarrow> uuid option \<Rightarrow> timestamp \<Rightarrow> gate_db
    \<Rightarrow> error + gate_db" where
  "apply_epic_transition te ids sr resolver now db =
     (case List.find (\<lambda>g. gl_id g = sr_entity_id sr) (t_goals db) of
        None \<Rightarrow> Inr (end_run ''approved'' now (sr_id sr) db)
      | Some g \<Rightarrow>
          if gl_status g = sr_to_status sr then Inr (end_run ''applied'' now (sr_id sr) db)
          else if sr_from_status sr \<noteq> None \<and> sr_from_status sr \<noteq> Some (gl_status g)
          then Inr (end_run ''skipped'' now (sr_id sr) db)
          else
            let owner = resolve_project_relay_owner (gl_project g) (sr_org sr) db
            in if sr_to_status sr = ''active'' \<and> (resolver = None \<or> owner = None \<or> resolver = owner)
               then Inr (end_run ''skipped'' now (sr_id sr) db)
               else res_bind (transition_goal (te_line te) (sr_org sr) (caller_of resolver) (gl_id g) (sr_to_status sr) True None None
                      (ti_tid ids) (ti_line ids) now db)
                      (\<lambda>db1. Inr (end_run ''applied'' now (sr_id sr) db1)))"

definition sprint_refusal :: "error \<Rightarrow> bool" where
  \<comment> \<open>the exceptions that \<^verbatim>\<open>_apply_sprint_transition\<close> catches\<close>
  "sprint_refusal e = (case e of ValueError _ \<Rightarrow> True | ServiceError c _ \<Rightarrow> c = ''SprintTransitionError'' | _ \<Rightarrow> False)"

definition apply_sprint_transition :: "transition_env \<Rightarrow> transition_ids \<Rightarrow> step_run \<Rightarrow> uuid option \<Rightarrow> timestamp \<Rightarrow> gate_db
    \<Rightarrow> error + gate_db" where
  "apply_sprint_transition te ids sr resolver now db =
     (case List.find (\<lambda>s. sp_id s = sr_entity_id sr) (t_sprints db) of
        None \<Rightarrow> Inr (end_run ''approved'' now (sr_id sr) db)
      | Some s \<Rightarrow>
          if sp_status s = sr_to_status sr then Inr (end_run ''applied'' now (sr_id sr) db)
          else if sr_from_status sr \<noteq> None \<and> sr_from_status sr \<noteq> Some (sp_status s)
          then Inr (end_run ''skipped'' now (sr_id sr) db)
          else (case transition_sprint (te_line te) (te_num te) (sr_org sr) (caller_of resolver) (sp_id s) (sr_to_status sr) True
                       (ti_tid ids) (ti_line ids) now db of
                  Inl e \<Rightarrow> if sprint_refusal e then Inr (end_run ''skipped'' now (sr_id sr) db) else Inl e
                | Inr db1 \<Rightarrow> Inr (end_run ''applied'' now (sr_id sr) db1)))"

definition upd_story :: "uuid \<Rightarrow> (story \<Rightarrow> story) \<Rightarrow> gate_db \<Rightarrow> gate_db" where
  "upd_story i f db = db\<lparr>t_stories := upd_row st_id i f (t_stories db)\<rparr>"

definition apply_story_transition :: "step_run \<Rightarrow> timestamp \<Rightarrow> gate_db \<Rightarrow> gate_db" where
  \<comment> \<open>the part of \<^verbatim>\<open>apply_workflow_line_resolution\<close> for stories\<close>
  "apply_story_transition sr now db =
     (case List.find (\<lambda>s. st_id s = sr_entity_id sr) (t_stories db) of
        None \<Rightarrow> end_run ''approved'' now (sr_id sr) db
      | Some s \<Rightarrow>
          if st_status s = sr_to_status sr then end_run ''applied'' now (sr_id sr) db
          else if sr_from_status sr \<noteq> None \<and> sr_from_status sr \<noteq> Some (st_status s)
          then end_run ''skipped'' now (sr_id sr) db
          else end_run ''applied'' now (sr_id sr) (upd_story (st_id s) (\<lambda>x. x\<lparr>st_status := sr_to_status sr\<rparr>) db))"

definition applies_transition :: "json \<Rightarrow> bool" where
  "applies_transition step = truthy (jget ''apply_transition'' (dict_or_empty (jget ''on_approve'' step)))"

definition apply_workflow_line_resolution :: "transition_env \<Rightarrow> transition_ids \<Rightarrow> uuid \<Rightarrow> gate_status \<Rightarrow> uuid option \<Rightarrow> timestamp
    \<Rightarrow> gate_db \<Rightarrow> error + gate_db" where
  "apply_workflow_line_resolution te ids run_id new_status resolver now db =
     (case get_step_run run_id db of
        None \<Rightarrow> Inr db
      | Some sr \<Rightarrow>
          (case get_readiness (sr_entity_type sr) of
             None \<Rightarrow> Inr db
           | Some d \<Rightarrow>
               if \<not> er_gating_eligible d then Inr db
               else res_bind (step_config sr db) (\<lambda>step.
                 if new_status = Rejected then Inr (end_run ''rejected'' now run_id db)
                 else if new_status \<noteq> Approved then Inr db
                 else if \<not> applies_transition step then Inr (end_run ''approved'' now run_id db)
                 else if sr_entity_type sr = ''hypothesis'' then apply_hypothesis_active te ids sr resolver now db
                 else if sr_entity_type sr = ''doc'' then apply_doc_confirmed te ids sr resolver now db
                 else if sr_entity_type sr = ''epic'' then apply_epic_transition te ids sr resolver now db
                 else if sr_entity_type sr = ''sprint'' then apply_sprint_transition te ids sr resolver now db
                 else Inr (apply_story_transition sr now db))))"

section \<open>The other effects of a decision\<close>

fun py_int :: "(string \<Rightarrow> int option) \<Rightarrow> json \<Rightarrow> error + int" where
  \<comment> \<open>\<^verbatim>\<open>int(x)\<close>; \<^verbatim>\<open>num\<close> reads a text\<close>
  "py_int num (JInt n) = Inr n"
| "py_int num (JBool b) = Inr (if b then 1 else 0)"
| "py_int num (JReal r) = Inr (if 0 \<le> r then \<lfloor>r\<rfloor> else \<lceil>r\<rceil>)"
| "py_int num (JStr t) = (case num t of None \<Rightarrow> Inl (ValueError ''invalid literal for int()'') | Some n \<Rightarrow> Inr n)"
| "py_int num _ = Inl TypeError"

definition uuid_fact :: "(json \<Rightarrow> string) \<Rightarrow> json \<Rightarrow> error + uuid option" where
  \<comment> \<open>\<^verbatim>\<open>uuid.UUID(str(x))\<close> of a fact that may be missing\<close>
  "uuid_fact rp j =
     (if \<not> truthy j then Inr None
      else (case py_uuid (py_str rp j) of None \<Rightarrow> Inl (ValueError ''badly formed hexadecimal UUID string'') | Some u \<Rightarrow> Inr (Some u)))"

definition upd_artifact :: "uuid \<Rightarrow> (visual_artifact \<Rightarrow> visual_artifact) \<Rightarrow> gate_db \<Rightarrow> gate_db" where
  "upd_artifact i f db = db\<lparr>t_visual_artifacts := upd_row va_id i f (t_visual_artifacts db)\<rparr>"

definition announce_canonical :: "gate \<Rightarrow> visual_artifact \<Rightarrow> uuid option \<Rightarrow> json \<Rightarrow> gate_db \<Rightarrow> gate_db" where
  "announce_canonical g a requester version db =
     (let targets = filter (\<lambda>m. g_resolver_id g \<noteq> Some m)
            (remdups (List.map_filter id [va_created_by a, requester]))
      in if targets = [] then db
         else db\<lparr>t_notifications := t_notifications db @ [\<lparr>n_org = g_org_id g, n_event_type = ''artifact.canonicalized'',
                n_targets = targets, n_reference_id = va_id a, n_payload = [(''version_number'', version)],
                n_source_project_id = Some (va_project a)\<rparr>]\<rparr>)"

definition resolve_artifact_canonicalize_gate :: "(string \<Rightarrow> int option) \<Rightarrow> (json \<Rightarrow> string) \<Rightarrow> gate \<Rightarrow> gate_status \<Rightarrow> gate_db
    \<Rightarrow> error + gate_db" where
  "resolve_artifact_canonicalize_gate num rp g new_status db =
     (if g_work_item_type g \<noteq> ''visual_artifact'' \<or> g_gate_type g \<noteq> ''artifact_canonicalize'' then Inr db
      else if new_status \<notin> {Approved, Rejected} then Inr db
      else (case List.find (\<lambda>a. va_id a = g_work_item_id g \<and> va_org a = g_org_id g \<and> va_deleted_at a = None) (t_visual_artifacts db) of
              None \<Rightarrow> Inr db
            | Some a \<Rightarrow>
                let version = dget ''version_number'' (facts_of g); requested = dget ''requested_by_member_id'' (facts_of g)
                in if new_status = Approved
                   then res_bind (if version = JNull then Inr db
                          else map_sum id (\<lambda>n. upd_artifact (va_id a) (\<lambda>x. x\<lparr>va_anchor_version := Some n\<rparr>) db) (py_int num version))
                          (\<lambda>db1. res_bind (uuid_fact rp requested) (\<lambda>m. Inr (announce_canonical g a m version db1)))
                   else (case g_resolution_note g of
                           None \<Rightarrow> Inr db
                         | Some note \<Rightarrow>
                             if note = [] \<or> \<not> truthy requested then Inr db
                             else (case (case g_resolver_id g of None \<Rightarrow> va_created_by a | m \<Rightarrow> m) of
                                     None \<Rightarrow> Inl IntegrityError
                                   | Some author \<Rightarrow> Inr (db\<lparr>t_artifact_comments := t_artifact_comments db @
                                       [\<lparr>vc_artifact = va_id a, vc_org = g_org_id g, vc_project = va_project a, vc_content = note,
                                         vc_created_by = author\<rparr>]\<rparr>)))))"

definition resume_a2a_task_on_gate_resolve :: "gate \<Rightarrow> gate_status \<Rightarrow> gate_db \<Rightarrow> error + gate_db" where
  "resume_a2a_task_on_gate_resolve g new_status db =
     (if new_status \<notin> {Approved, Rejected} then Inr db
      else map_sum id
        (\<lambda>t. case t of None \<Rightarrow> db
             | Some x \<Rightarrow> db\<lparr>t_tasks := upd_row tk_id (tk_id x)
                 (\<lambda>y. y\<lparr>tk_state := (if new_status = Approved then ''TASK_STATE_WORKING'' else ''TASK_STATE_REJECTED'')\<rparr>) (t_tasks db)\<rparr>)
        (scalar_one_or_none (filter (\<lambda>t. tk_linked_gate t = Some (g_id g)
           \<and> tk_state t \<in> {''TASK_STATE_INPUT_REQUIRED'', ''TASK_STATE_AUTH_REQUIRED''}) (t_tasks db))))"

definition gate_type_to_verdict_source :: "string \<Rightarrow> string option" where
  "gate_type_to_verdict_source t =
     (if t = ''qa'' then Some ''qa'' else if t = ''deploy'' then Some ''design'' else if t = ''merge'' then Some ''merge''
      else if t = ''pr_review'' then Some ''pr'' else None)"

definition RUBBER_STAMP_SECONDS :: int where "RUBBER_STAMP_SECONDS = 30"

definition is_rubber_stamp :: "gate_status \<Rightarrow> gate \<Rightarrow> bool" where
  "is_rubber_stamp new_status g \<longleftrightarrow> new_status = Approved
     \<and> (case g_resolved_at g of None \<Rightarrow> False | Some t \<Rightarrow> t - g_created_at g \<le> RUBBER_STAMP_SECONDS * 1000000)"

definition result_of :: "gate_status \<Rightarrow> string" where
  "result_of s = (if s = Approved then ''pass'' else ''fail'')"

definition record_gate_review_verdict :: "uuid \<Rightarrow> uuid \<Rightarrow> gate \<Rightarrow> gate_status \<Rightarrow> uuid option \<Rightarrow> timestamp \<Rightarrow> gate_db
    \<Rightarrow> error + gate_db" where
  "record_gate_review_verdict fresh org g new_status resolver now db =
     (if new_status \<notin> {Approved, Rejected} \<or> resolver = None then Inr db
      else (case gate_type_to_verdict_source (g_gate_type g) of
              None \<Rightarrow> Inr db
            | Some source \<Rightarrow>
                if g_work_item_type g \<noteq> ''story'' then Inr db
                else (case resolve_implementation_participation db org (g_work_item_id g) of
                        None \<Rightarrow> Inr db
                      | Some p \<Rightarrow>
                          res_bind (record_verdict org (pa_id p) source (Some (result_of new_status)) None fresh now db)
                            (\<lambda>db1. Inr (if is_rubber_stamp new_status g
                               then upd_gate (g_id g) (add_fact ''rubber_stamp_candidate'' (JBool True)) db1 else db1)))))"

definition SEED_SOURCE :: string where "SEED_SOURCE = ''human_seed''"

definition is_cold_start :: "(string \<Rightarrow> int option) \<Rightarrow> gate \<Rightarrow> bool" where
  "is_cold_start num g \<longleftrightarrow>
     (let resolved = dget ''outcome_resolved'' (facts_of g); sample = dget ''min_outcome_sample'' (facts_of g)
      in if resolved = JNull \<or> sample = JNull then False
         else (case (py_int num resolved, py_int num sample) of (Inr r, Inr m) \<Rightarrow> r < m | _ \<Rightarrow> False))"

definition record_cold_start_seed :: "(string \<Rightarrow> int option) \<Rightarrow> uuid \<Rightarrow> uuid \<Rightarrow> gate \<Rightarrow> gate_status \<Rightarrow> uuid option \<Rightarrow> timestamp
    \<Rightarrow> gate_db \<Rightarrow> error + gate_db" where
  "record_cold_start_seed num fresh org g new_status resolver now db =
     (if g_gate_type g \<noteq> ''merge'' \<or> g_work_item_type g \<noteq> ''story'' then Inr db
      else if new_status \<notin> {Approved, Rejected} \<or> resolver = None then Inr db
      else if \<not> is_cold_start num g then Inr db
      else (case resolve_implementation_participation db org (g_work_item_id g) of
              None \<Rightarrow> Inr db
            | Some p \<Rightarrow>
                res_bind (record_verdict org (pa_id p) SEED_SOURCE (Some (result_of new_status)) None fresh now db)
                  (\<lambda>db1. Inr (upd_gate (g_id g) (\<lambda>x. add_fact ''seed_prediction'' (JStr (if new_status = Approved then ''keep'' else ''kill''))
                     (add_fact ''cold_start_seed'' (JBool True) x)) db1))))"

definition reply_row :: "gate \<Rightarrow> uuid \<Rightarrow> gate_status \<Rightarrow> string \<Rightarrow> uuid \<Rightarrow> uuid \<Rightarrow> notification" where
  "reply_row g resolver new_status event requester project =
     \<lparr>n_org = g_org_id g, n_event_type = event, n_targets = [requester], n_reference_id = g_id g,
      n_payload = [(''decision'', JStr (status_text new_status)), (''resolver_id'', JStr resolver),
        (''resolution_note'', jopt_str (g_resolution_note g))], n_source_project_id = Some project\<rparr>"

definition reply_project :: "transition_env \<Rightarrow> gate \<Rightarrow> gate_db \<Rightarrow> (string \<times> uuid) option" where
  \<comment> \<open>event type and project, by the type of the gate\<close>
  "reply_project te g db =
     (if is_doc_gate g
      then map_option (\<lambda>d. (''doc_approval_resolved'', d_project d))
             (List.find (\<lambda>d. d_id d = g_work_item_id g \<and> d_org d = g_org_id g) (t_docs db))
      else if g_gate_type g = ''agent_decision_request''
      then (if \<not> truthy (dget ''question'' (facts_of g)) then None
            else (case uuid_fact (le_str (te_line te)) (dget ''project_id'' (facts_of g)) of
                    Inr (Some p) \<Rightarrow> Some (''agent_decision_resolved'', p) | _ \<Rightarrow> None))
      else if g_gate_type g = MERGE_GATE_TYPE
      then map_option (\<lambda>p. (''merge_gate_resolved'', p))
             (resolve_work_item_project_id (te_tasks te) (g_org_id g) ''story'' (g_work_item_id g) db)
      else None)"

definition notify_doc_gate_requester :: "transition_env \<Rightarrow> gate \<Rightarrow> gate_status \<Rightarrow> gate_db \<Rightarrow> gate_db" where
  \<comment> \<open>the reply to the person who asked, in \<^verbatim>\<open>dispatch_approval_result_reply\<close>; nothing it raises leaves it\<close>
  "notify_doc_gate_requester te g new_status db =
     (case (g_resolver_id g, uuid_fact (le_str (te_line te)) (dget ''requested_by_member_id'' (facts_of g)), reply_project te g db) of
        (Some resolver, Inr (Some requester), Some (event, project)) \<Rightarrow>
          if new_status \<in> {Approved, Rejected} \<and> resolver \<noteq> requester
          then db\<lparr>t_notifications := t_notifications db @ [reply_row g resolver new_status event requester project]\<rparr> else db
      | _ \<Rightarrow> db)"

definition create_gate_approval_evidence_if_applicable :: "gate \<Rightarrow> gate_status \<Rightarrow> uuid option \<Rightarrow> gate_db \<Rightarrow> gate_db" where
  "create_gate_approval_evidence_if_applicable g new_status resolver db =
     (case resolver of
        None \<Rightarrow> db
      | Some m \<Rightarrow>
          if new_status \<noteq> Approved \<or> g_work_item_type g \<notin> {''story'', ''task''}
             \<or> map_option fst (resolve_member_identity m (g_org_id g) db) \<noteq> Some ''human''
          then db
          else db\<lparr>t_evidence := t_evidence db @ [\<lparr>ei_org = g_org_id g, ei_work_item_id = g_work_item_id g,
                 ei_work_item_type = g_work_item_type g, ei_type = ''gate_approval'', ei_ref = g_id g, ei_source = ''gate'',
                 ei_note = g_resolution_note g, ei_created_by = m\<rparr>]\<rparr>)"

section \<open>The decision\<close>

definition with_gate :: "uuid \<Rightarrow> (gate \<Rightarrow> gate_db \<Rightarrow> error + gate_db) \<Rightarrow> gate_db \<Rightarrow> error + gate_db" where
  "with_gate i f db = (case get_gate i db of None \<Rightarrow> Inr db | Some g \<Rightarrow> f g db)"

definition decided_gate :: "gate_status \<Rightarrow> uuid option \<Rightarrow> string option \<Rightarrow> timestamp \<Rightarrow> gate \<Rightarrow> gate" where
  "decided_gate s resolver note now g =
     (set_gate_status s now g)\<lparr>g_resolver_id := resolver, g_resolved_at := Some now,
       g_resolution_note := (case note of None \<Rightarrow> g_resolution_note g | Some n \<Rightarrow> if n = [] then g_resolution_note g else Some n)\<rparr>"

definition scheduled_command :: "transition_env \<Rightarrow> uuid option \<Rightarrow> gate \<Rightarrow> gate_db \<Rightarrow> error + gate_db" where
  "scheduled_command te resolver g db = (if g_gate_type g \<noteq> EXTERNAL_PUBLISH then Inr db else te_command te (g_id g) resolver db)"

definition publish_recipe_approved_draft :: "transition_env \<Rightarrow> uuid option \<Rightarrow> gate \<Rightarrow> gate_db \<Rightarrow> error + gate_db" where
  "publish_recipe_approved_draft te resolver g db =
     (if \<not> is_recipe_external_publish_gate g then Inr db else te_publish te (g_id g) resolver db)"

definition publication_effects :: "transition_env \<Rightarrow> uuid \<Rightarrow> gate_status \<Rightarrow> uuid option \<Rightarrow> (uuid \<times> int) option \<Rightarrow> timestamp \<Rightarrow> gate_db
    \<Rightarrow> error + gate_db" where
  "publication_effects te i new_status resolver reviewed now db =
     (if new_status = Approved
      then res_bind (with_gate i (scheduled_command te resolver) db) (\<lambda>db1.
             res_bind (cascade_approval (te_recipe te) i reviewed now db1) (\<lambda>(t, db2).
             res_bind (case t of None \<Rightarrow> Inr db2 | Some x \<Rightarrow> with_gate (g_id x) (scheduled_command te resolver) db2)
               (with_gate i (publish_recipe_approved_draft te resolver))))
      else if new_status = Rejected then Inr (cascade_rejection i now db)
      else Inr db)"

definition decision_context :: "gate \<Rightarrow> string option \<Rightarrow> jdict" where
  "decision_context g note = gate_context g @ [(''note'', jopt_str note), (''head_sha'', jopt_str (g_github_check_run_sha g)),
     (''sealed_content_sha256'', jopt_str (sealed_content_sha256 (g_seals g))),
     (''sealed_content_version'', jopt_int (sealed_content_version (g_seals g)))]"

definition te_int :: "transition_env \<Rightarrow> string \<Rightarrow> int option" where
  \<comment> \<open>a text that reads as a whole number\<close>
  "te_int te t = (case te_num te t of None \<Rightarrow> None | Some r \<Rightarrow> if of_int \<lfloor>r\<rfloor> = r then Some \<lfloor>r\<rfloor> else None)"

definition lineless_effects :: "transition_env \<Rightarrow> transition_ids \<Rightarrow> gate_status \<Rightarrow> uuid option \<Rightarrow> timestamp \<Rightarrow> gate \<Rightarrow> gate_db
    \<Rightarrow> error + gate_db" where
  "lineless_effects te ids new_status resolver now g db =
     res_bind (resolve_artifact_canonicalize_gate (te_int te) (le_str (te_line te)) g new_status (resolve_doc_gate g new_status db)) (\<lambda>db1.
     res_bind (resume_a2a_task_on_gate_resolve g new_status db1) (\<lambda>db2.
     resolve_hypothesis_outcome_confirm_gate (te_line te) g new_status resolver (ti_tid ids) (ti_line ids) (ti_outcome ids) now db2))"

definition line_effects :: "transition_env \<Rightarrow> transition_ids \<Rightarrow> uuid \<Rightarrow> gate_status \<Rightarrow> uuid option \<Rightarrow> timestamp \<Rightarrow> gate \<Rightarrow> gate_db
    \<Rightarrow> error + gate_db" where
  "line_effects te ids org new_status resolver now g db =
     (case find_active_step_run_for_gate db org (g_id g) of
        Some run_id \<Rightarrow> apply_workflow_line_resolution te ids run_id new_status resolver now db
      | None \<Rightarrow> lineless_effects te ids new_status resolver now g db)"

definition decision_effects :: "transition_env \<Rightarrow> transition_ids \<Rightarrow> uuid \<Rightarrow> uuid \<Rightarrow> gate_status \<Rightarrow> uuid option \<Rightarrow> string option
    \<Rightarrow> (uuid \<times> int) option \<Rightarrow> timestamp \<Rightarrow> gate_db \<Rightarrow> error + gate_db" where
  \<comment> \<open>what follows once the row is written, each step on the row as it is then\<close>
  "decision_effects te ids org i new_status resolver note reviewed now db =
     res_bind (publication_effects te i new_status resolver reviewed now db) (\<lambda>db1.
     res_bind (with_gate i (\<lambda>g. record_activity org (''gate_'' @ status_text new_status) resolver ''human'' i (decision_context g note)) db1) (\<lambda>db2.
     res_bind (with_gate i (\<lambda>g. record_gate_review_verdict (ti_verdict ids) org g new_status resolver now) db2) (\<lambda>db3.
     res_bind (with_gate i (\<lambda>g. record_cold_start_seed (te_int te) (ti_seed ids) org g new_status resolver now) db3) (\<lambda>db4.
     res_bind (with_gate i (\<lambda>g d. Inr (notify_doc_gate_requester te g new_status d)) db4) (\<lambda>db5.
     res_bind (with_gate i (line_effects te ids org new_status resolver now) db5) (\<lambda>db6.
     with_gate i (\<lambda>g d. Inr (create_gate_approval_evidence_if_applicable g new_status resolver d)) db6))))))"

definition transition_gate :: "transition_env \<Rightarrow> transition_ids \<Rightarrow> uuid \<Rightarrow> uuid \<Rightarrow> gate_status \<Rightarrow> uuid option \<Rightarrow> string option
    \<Rightarrow> (uuid \<times> int) option \<Rightarrow> timestamp \<Rightarrow> gate_db \<Rightarrow> error + gate_db" where
  "transition_gate te ids org i new_status resolver note reviewed now db =
     (case find_org_gate org i db of
        None \<Rightarrow> Inl gate_not_found
      | Some g \<Rightarrow>
          if \<not> is_valid_transition (g_status g) new_status then Inl illegal_transition
          else if new_status = Rejected \<and> is_blank note then Inl (ValueError ''note is required for a rejection'')
          else decision_effects te ids org i new_status resolver note reviewed now
                 (upd_gate i (decided_gate new_status resolver note now) db))"

section \<open>The owner's override\<close>

definition pending_approvals :: "uuid \<Rightarrow> uuid \<Rightarrow> step_approval \<Rightarrow> bool" where
  "pending_approvals org i a \<longleftrightarrow> ap_gate a = Some i \<and> ap_org a = org \<and> ap_status a = ''pending''"

definition close_approvals :: "(step_approval \<Rightarrow> bool) \<Rightarrow> string \<Rightarrow> timestamp \<Rightarrow> gate_db \<Rightarrow> gate_db" where
  "close_approvals P status now db = db\<lparr>t_approvals :=
     map (\<lambda>a. if P a then a\<lparr>ap_status := status, ap_resolved_at := Some now\<rparr> else a) (t_approvals db)\<rparr>"

definition add_run_event :: "run_event \<Rightarrow> gate_db \<Rightarrow> gate_db" where
  "add_run_event e db = db\<lparr>t_run_events := t_run_events db @ [e]\<rparr>"

definition override_facts :: "string \<Rightarrow> string \<Rightarrow> uuid \<Rightarrow> gate \<Rightarrow> gate" where
  "override_facts decision reason owner g = g\<lparr>g_neutral_facts := Some (dict_update (facts_of g)
     [(''overridden'', JBool True), (''override_decision'', JStr decision), (''override_reason'', JStr reason),
      (''overridden_by_member_id'', JStr owner)])\<rparr>"

definition override_details :: "string \<Rightarrow> string \<Rightarrow> uuid list \<Rightarrow> jdict" where
  "override_details decision reason bypassed = [(''decision'', JStr decision), (''reason'', JStr reason), (''bypassed_sod'', JBool True),
     (''bypassed_approver_ids'', JList (map JStr bypassed))]"

definition notify_overridden :: "transition_env \<Rightarrow> uuid \<Rightarrow> gate \<Rightarrow> uuid list \<Rightarrow> step_run option \<Rightarrow> gate_db \<Rightarrow> gate_db" where
  "notify_overridden te org g targets sr db =
     (if targets = [] then db
      else db\<lparr>t_notifications := t_notifications db @ [\<lparr>n_org = org, n_event_type = ''gate_overridden'', n_targets = targets,
             n_reference_id = g_id g, n_payload = [],
             n_source_project_id = (case sr of Some r \<Rightarrow> Some (sr_project_id r)
               | None \<Rightarrow> resolve_work_item_project_id (te_tasks te) org (g_work_item_type g) (g_work_item_id g) db)\<rparr>]\<rparr>)"

definition override_marks :: "uuid \<Rightarrow> uuid \<Rightarrow> uuid \<Rightarrow> string \<Rightarrow> string \<Rightarrow> step_approval list \<Rightarrow> step_run option \<Rightarrow> timestamp \<Rightarrow> gate_db \<Rightarrow> gate_db" where
  \<comment> \<open>the approvals, the gate's facts and the event of the run\<close>
  "override_marks org i owner decision reason rows sr now db =
     (let db1 = upd_gate i (override_facts decision reason owner) (close_approvals (\<lambda>a. ap_id a \<in> ap_id ` set rows) ''overridden'' now db)
      in case sr of None \<Rightarrow> db1
         | Some r \<Rightarrow> add_run_event \<lparr>re_org = org, re_step_run = sr_id r, re_event_type = ''gate_overridden'', re_actor = Some owner,
             re_target = None, re_payload = override_details decision reason (map ap_approver rows)\<rparr> db1)"

definition override_targets :: "step_approval list \<Rightarrow> uuid list" where
  "override_targets rows = remdups ((case rows of [] \<Rightarrow> [] | a # _ \<Rightarrow> (case ap_requested_by a of None \<Rightarrow> [] | Some m \<Rightarrow> [m]))
     @ map ap_approver rows)"

definition mark_overridden :: "transition_env \<Rightarrow> uuid \<Rightarrow> uuid \<Rightarrow> uuid \<Rightarrow> string \<Rightarrow> string \<Rightarrow> step_approval list \<Rightarrow> step_run option
    \<Rightarrow> timestamp \<Rightarrow> gate_db \<Rightarrow> error + gate_db" where
  \<comment> \<open>after the forced transition\<close>
  "mark_overridden te org i owner decision reason rows sr now db =
     with_gate i (\<lambda>g d. map_sum id (notify_overridden te org g (override_targets rows) sr)
         (record_activity org ''gate_overridden'' (Some owner) ''human'' i
            (override_details decision reason (map ap_approver rows) @ [(''head_sha'', jopt_str (g_github_check_run_sha g))]) d))
       (override_marks org i owner decision reason rows sr now db)"

definition override_gate :: "transition_env \<Rightarrow> transition_ids \<Rightarrow> uuid \<Rightarrow> uuid \<Rightarrow> uuid \<Rightarrow> string \<Rightarrow> string \<Rightarrow> timestamp \<Rightarrow> gate_db
    \<Rightarrow> error + gate_db" where
  "override_gate te ids org i owner decision reason now db =
     (if decision \<notin> {''approved'', ''rejected''} then Inl (ValueError ''decision must be approved or rejected'')
      else if is_blank (Some reason) then Inl (ValueError ''override reason is required'')
      else (case find_org_gate org i db of
              None \<Rightarrow> Inl gate_not_found
            | Some g \<Rightarrow>
                if g_status g \<noteq> Pending then Inl (ValueError ''only a pending gate is overridden'')
                else
                  let rows = filter (pending_approvals org i) (t_approvals db);
                      sr = Option.bind (find_active_step_run_for_gate db org i) (\<lambda>r. get_step_run r db)
                  in res_bind (transition_gate te ids org i (if decision = ''approved'' then Approved else Rejected) (Some owner)
                         (Some reason) None now db)
                       (mark_overridden te org i owner decision reason rows sr now)))"

end
