(* ===== verification/Transition_Laws.thy ===== *)
theory Transition_Laws
  imports Gate_Transition Outcome_Machine
begin

text \<open>
  What the effects of a decision leave alone: after the row of the gate is written, only facts are added
  to gate rows, and the activity log, the evidence and the members stay as they are until the approval's
  own evidence is added.
\<close>

section \<open>Tables that the effects do not touch\<close>

definition same_core :: "gate_db \<Rightarrow> gate_db \<Rightarrow> bool" where
  "same_core db db' \<longleftrightarrow> t_gates db' = t_gates db \<and> t_activities db' = t_activities db \<and> t_evidence db' = t_evidence db
     \<and> t_team_members db' = t_team_members db \<and> t_org_members db' = t_org_members db \<and> t_approvals db' = t_approvals db
     \<and> t_run_events db' = t_run_events db"

lemma same_core_refl [simp]: "same_core db db"
  by (simp add: same_core_def)

lemma same_core_trans [trans]: "same_core a b \<Longrightarrow> same_core b c \<Longrightarrow> same_core a c"
  by (simp add: same_core_def)

lemma same_core_tables [simp]:
  "same_core db (db\<lparr>t_verdicts := a\<rparr>)" "same_core db (db\<lparr>t_participations := b\<rparr>)" "same_core db (db\<lparr>t_notifications := c\<rparr>)"
  "same_core db (db\<lparr>t_loops := d\<rparr>)" "same_core db (db\<lparr>t_hypotheses := e\<rparr>)" "same_core db (db\<lparr>t_sprints := f\<rparr>)"
  "same_core db (db\<lparr>t_goals := g\<rparr>)" "same_core db (db\<lparr>t_stories := h\<rparr>)" "same_core db (db\<lparr>t_docs := i\<rparr>)"
  "same_core db (db\<lparr>t_step_runs := j\<rparr>)" "same_core db (db\<lparr>t_visual_artifacts := k\<rparr>)" "same_core db (db\<lparr>t_artifact_comments := l\<rparr>)"
  "same_core db (db\<lparr>t_tasks := m\<rparr>)" "same_core db (db\<lparr>t_doc_revisions := n\<rparr>)"
  by (simp_all add: same_core_def)

lemma same_core_rows [simp]:
  "same_core db (end_run s now i db)" "same_core db (upd_hypothesis i fh db)" "same_core db (upd_sprint i fs db)"
  "same_core db (upd_goal i fg db)" "same_core db (upd_story i ft db)" "same_core db (upd_doc i fd db)"
  "same_core db (upd_artifact i fa db)" "same_core db (upd_step_run i fr db)" "same_core db (set_doc_status t i db)"
  by (simp_all add: end_run_def upd_step_run_def upd_hypothesis_def upd_sprint_def upd_goal_def upd_story_def upd_doc_def
      upd_artifact_def set_doc_status_def)

lemma same_core_record_verdict: "record_verdict org p src r n fresh now db = Inr db' \<Longrightarrow> same_core db db'"
  by (auto simp: record_verdict_def split: sum.splits option.splits)

lemma same_core_ensure: "ensure_review_participation org s m k fresh now db = Inr (p, db') \<Longrightarrow> same_core db db'"
  by (auto simp: ensure_review_participation_def Let_def split: sum.splits option.splits)

lemma same_core_fold:
  assumes "\<And>x s s'. f x s = Inr s' \<Longrightarrow> same_core s s'"
  shows "fold_res f xs s = Inr s' \<Longrightarrow> same_core s s'"
proof (induction xs arbitrary: s)
  case (Cons x xs)
  from Cons.prems obtain s1 where "f x s = Inr s1" "fold_res f xs s1 = Inr s'"
    by (auto simp: res_bind_Inr)
  with Cons.IH assms show ?case by (blast intro: same_core_trans)
qed simp

lemma same_core_bet: "record_bet h r ids now s m db = Inr db' \<Longrightarrow> same_core db db'"
  by (auto simp: record_bet_def res_bind_Inr split: option.splits
           dest!: same_core_ensure same_core_record_verdict intro: same_core_trans)

lemma same_core_execution: "record_execution h r ids now s db = Inr db' \<Longrightarrow> same_core db db'"
  by (auto simp: record_execution_def split: option.splits dest!: same_core_record_verdict)

lemma same_core_outcome:
  assumes "record_outcome_verdicts h ids now db = Inr db'"
  shows "same_core db db'"
proof (cases "hy_status h \<in> {''verified'', ''falsified''}")
  case True
  let ?f = "\<lambda>s d. res_bind (record_execution h (if hy_status h = ''verified'' then Some ''pass'' else None) ids now s d)
     (fold_res (record_bet h (if hy_status h = ''verified'' then ''pass'' else ''fail'') ids now s) (bet_members h))"
  have "same_core d d'" if "?f s d = Inr d'" for s d d'
    using that by (auto simp: res_bind_Inr dest!: same_core_execution same_core_fold [OF same_core_bet, rotated] intro: same_core_trans)
  from same_core_fold [of ?f, OF this] show ?thesis
    using assms True by (simp add: record_outcome_verdicts_def Let_def split: if_splits)
qed (use assms in \<open>simp add: record_outcome_verdicts_def\<close>)

lemma same_core_attribute [simp]: "same_core db (attribute_loop_outcome h now db)"
  by (simp add: attribute_loop_outcome_def)

lemma same_core_settle:
  assumes "settle_hypothesis c t r n ids now h db = Inr db'"
  shows "same_core db db'"
proof -
  let ?db1 = "upd_hypothesis (hy_id h) (resolution c t r n now) db"
  consider "db' = ?db1" | d where "record_outcome_verdicts (resolution c t r n now h) ids now ?db1 = Inr d"
      "db' = attribute_loop_outcome (resolution c t r n now h) now d"
    using assms by (auto simp: settle_hypothesis_def Let_def res_bind_Inr split: if_splits)
  then show ?thesis
    by cases (auto dest!: same_core_outcome intro: same_core_trans [OF same_core_rows(2)] same_core_trans [OF _ same_core_attribute])
qed

lemma same_core_hypothesis:
  "transition_hypothesis env org c i t r n True tid lids ids now db = Inr db' \<Longrightarrow> same_core db db'"
  by (auto simp: transition_hypothesis_def split: option.splits if_splits dest!: same_core_settle)

lemma same_core_sprint:
  "transition_sprint env num org c i t True tid lids now db = Inr db' \<Longrightarrow> same_core db db'"
  by (auto simp: transition_sprint_def apply_sprint_def activate_sprint_def close_sprint_def Let_def res_bind_Inr
      split: option.splits if_splits)

lemma same_core_goal:
  "transition_goal env org c i t True oc r tid lids now db = Inr db' \<Longrightarrow> same_core db db'"
  by (auto simp: transition_goal_def Let_def res_bind_Inr split: option.splits if_splits)

lemma same_core_doc:
  "transition_doc dt env org c i ''confirmed'' True a fresh tid lids now db = Inr db' \<Longrightarrow> same_core db db'"
  by (auto simp: transition_doc_def move_doc_def Let_def res_bind_Inr split: option.splits if_splits)

lemma same_core_line:
  "apply_workflow_line_resolution te ids i s r now db = Inr db' \<Longrightarrow> same_core db db'"
  by (auto simp: apply_workflow_line_resolution_def apply_hypothesis_active_def apply_doc_confirmed_def apply_epic_transition_def
      apply_sprint_transition_def apply_story_transition_def Let_def res_bind_Inr
      split: option.splits if_splits sum.splits
      dest!: same_core_hypothesis same_core_doc same_core_goal same_core_sprint
      intro: same_core_trans [OF _ same_core_rows(1)])


section \<open>The rows of the gates keep their decision\<close>

definition decision_of :: "gate \<Rightarrow> gate" where
  "decision_of g = g\<lparr>g_neutral_facts := None\<rparr>"

definition steady :: "gate_db \<Rightarrow> gate_db \<Rightarrow> bool" where
  \<comment> \<open>gate rows change in their facts only\<close>
  "steady db db' \<longleftrightarrow> (\<forall>j. map_option decision_of (get_gate j db') = map_option decision_of (get_gate j db))
     \<and> t_activities db' = t_activities db \<and> t_evidence db' = t_evidence db
     \<and> t_team_members db' = t_team_members db \<and> t_org_members db' = t_org_members db
     \<and> t_approvals db' = t_approvals db \<and> t_run_events db' = t_run_events db"

lemma steady_refl [simp]: "steady db db"
  by (simp add: steady_def)

lemma steady_trans [trans]: "steady a b \<Longrightarrow> steady b c \<Longrightarrow> steady a c"
  by (simp add: steady_def)

lemma steady_core: "same_core db db' \<Longrightarrow> steady db db'"
  by (simp add: steady_def same_core_def get_gate_def)

lemma steadyD:
  assumes "steady db db'"
  shows "map_option decision_of (get_gate j db') = map_option decision_of (get_gate j db)" "t_activities db' = t_activities db"
    "t_evidence db' = t_evidence db" "t_approvals db' = t_approvals db" "t_run_events db' = t_run_events db"
  using assms by (simp_all add: steady_def)

lemma steady_member: "steady db db' \<Longrightarrow> resolve_member_identity m org db' = resolve_member_identity m org db"
  unfolding resolve_member_identity_def steady_def by metis

lemma decision_add_fact [simp]: "decision_of (add_fact k v g) = decision_of g"
  by (simp add: decision_of_def add_fact_def)

lemma steady_upd_gate:
  assumes "\<And>g. decision_of (f g) = decision_of g" "\<And>g. g_id (f g) = g_id g"
  shows "steady db (upd_gate i f db)"
proof -
  have "map_option decision_of (get_gate j (upd_gate i f db)) = map_option decision_of (get_gate j db)" for j
    using assms by (simp add: get_upd_gate option.map_comp comp_def)
  then show ?thesis by (simp add: steady_def upd_gate_def)
qed

lemma steady_review:
  "record_gate_review_verdict fresh org g s r now db = Inr db' \<Longrightarrow> steady db db'"
  by (auto simp: record_gate_review_verdict_def res_bind_Inr split: if_splits option.splits
      dest!: same_core_record_verdict intro: steady_core steady_trans [OF steady_core steady_upd_gate])

lemma steady_seed:
  "record_cold_start_seed num fresh org g s r now db = Inr db' \<Longrightarrow> steady db db'"
  by (auto simp: record_cold_start_seed_def res_bind_Inr split: if_splits option.splits
      dest!: same_core_record_verdict intro: steady_core steady_trans [OF steady_core steady_upd_gate])

lemma same_core_reply [simp]: "same_core db (notify_doc_gate_requester te g s db)"
  by (simp add: notify_doc_gate_requester_def split: option.split sum.split prod.split)

lemma same_core_doc_gate [simp]: "same_core db (resolve_doc_gate g s db)"
  by (simp add: resolve_doc_gate_def split: option.split)

lemma same_core_announce [simp]: "same_core db (announce_canonical g a m v db)"
  by (simp add: announce_canonical_def Let_def)

lemma map_sum_InrD: "map_sum id f x = Inr y \<Longrightarrow> \<exists>z. x = Inr z \<and> y = f z"
  by (cases x) auto

lemma same_core_artifact: "resolve_artifact_canonicalize_gate num rp g s db = Inr db' \<Longrightarrow> same_core db db'"
  by (auto simp: resolve_artifact_canonicalize_gate_def Let_def res_bind_Inr
      split: if_splits option.splits dest!: map_sum_InrD intro: same_core_trans [OF same_core_rows(7) same_core_announce])

lemma same_core_task: "resume_a2a_task_on_gate_resolve g s db = Inr db' \<Longrightarrow> same_core db db'"
  unfolding resume_a2a_task_on_gate_resolve_def
  by (auto split: if_splits option.splits dest!: map_sum_InrD)

lemma same_core_confirm:
  "resolve_hypothesis_outcome_confirm_gate env g s r tid lids ids now db = Inr db' \<Longrightarrow> same_core db db'"
  by (auto simp: resolve_hypothesis_outcome_confirm_gate_def Let_def res_bind_Inr
      split: if_splits option.splits dest!: same_core_hypothesis)

lemma same_core_lineless: "lineless_effects te ids s r now g db = Inr db' \<Longrightarrow> same_core db db'"
  by (auto simp: lineless_effects_def res_bind_Inr dest!: same_core_artifact same_core_task same_core_confirm
      intro: same_core_trans [OF same_core_doc_gate] same_core_trans)

lemma same_core_effects: "line_effects te ids org s r now g db = Inr db' \<Longrightarrow> same_core db db'"
  by (auto simp: line_effects_def split: option.splits dest!: same_core_line same_core_lineless)

end
