(* ===== verification/Transition_Properties.thy ===== *)
theory Transition_Properties
  imports Transition_Laws Outcome_Properties
begin

text \<open>
  Properties of decisions: what a transition writes and logs, whose approval counts as evidence, who may
  not approve the activation of a hypothesis, a document or an epic, and what an owner's override leaves
  behind.
\<close>

section \<open>A decision that no publication follows\<close>

lemma not_external:
  assumes "g_gate_type g \<noteq> EXTERNAL_PUBLISH"
  shows "\<not> is_unscoped_external g" "\<not> is_recipe_external_publish_gate g"
  using assms by (simp_all add: is_unscoped_external_def is_recipe_external_publish_gate_def)

lemma publication_none:
  assumes "get_gate i db = Some g" "g_gate_type g \<noteq> EXTERNAL_PUBLISH"
  shows "publication_effects te i s r seen now db = Inr db"
  using assms not_external [OF assms(2)]
  by (simp add: publication_effects_def with_gate_def scheduled_command_def cascade_approval_def cascade_rejection_def
      publish_recipe_approved_draft_def res_bind_def)

lemma decided_fields [simp]:
  "g_id (decided_gate s r note now g) = g_id g" "g_gate_type (decided_gate s r note now g) = g_gate_type g"
  "g_status (decided_gate s r note now g) = s" "g_resolver_id (decided_gate s r note now g) = r"
  "g_resolved_at (decided_gate s r note now g) = Some now" "g_org_id (decided_gate s r note now g) = g_org_id g"
  "g_work_item_type (decided_gate s r note now g) = g_work_item_type g" "g_work_item_id (decided_gate s r note now g) = g_work_item_id g"
  by (simp_all add: decided_gate_def)

lemma with_gateD: "with_gate i f db = Inr db' \<Longrightarrow> get_gate i db = Some g \<Longrightarrow> f g db = Inr db'"
  by (simp add: with_gate_def)

lemma steady_row:
  assumes "steady db db'" "get_gate i db = Some g"
  obtains g' where "get_gate i db' = Some g'" "decision_of g' = decision_of g"
  using steadyD(1) [OF assms(1), of i] assms(2) by auto

definition decision_entry :: "uuid \<Rightarrow> uuid \<Rightarrow> gate_status \<Rightarrow> uuid option \<Rightarrow> string option \<Rightarrow> gate \<Rightarrow> activity" where
  "decision_entry org i s r note g = \<lparr>ac_org = org, ac_action = ''gate_'' @ status_text s, ac_actor_id = r, ac_actor_type = ''human'',
     ac_entity_type = ''gate'', ac_entity_id = i, ac_context = decision_context g note\<rparr>"

lemma decision_step:
  assumes t: "transition_gate te ids org i s r note seen now db = Inr db'" and g: "find_org_gate org i db = Some g"
    and pub: "g_gate_type g \<noteq> EXTERNAL_PUBLISH"
  shows "is_valid_transition (g_status g) s \<and> \<not> (s = Rejected \<and> is_blank note)
    \<and> (\<exists>db1 db2 g2. db1 = log_activity (decision_entry org i s r note (decided_gate s r note now g)) (upd_gate i (decided_gate s r note now) db)
        \<and> steady db1 db2 \<and> get_gate i db2 = Some g2 \<and> decision_of g2 = decision_of (decided_gate s r note now g)
        \<and> db' = create_gate_approval_evidence_if_applicable g2 s r db2)"
proof -
  let ?g = "decided_gate s r note now g" and ?db = "upd_gate i (decided_gate s r note now) db"
  let ?db1 = "log_activity (decision_entry org i s r note ?g) ?db"
  have row: "get_gate i db = Some g" using g by (simp add: find_org_gate_Some)
  then have row1: "get_gate i ?db = Some ?g" by (simp add: row_simps)
  have ok: "is_valid_transition (g_status g) s \<and> \<not> (s = Rejected \<and> is_blank note)"
    and "decision_effects te ids org i s r note seen now ?db = Inr db'"
    using t g by (auto simp: transition_gate_def split: if_splits)
  then obtain d2 d3 d4 d5 d6 where l: "record_activity org (''gate_'' @ status_text s) r ''human'' i (decision_context ?g note) ?db = Inr d2"
    and v: "with_gate i (\<lambda>g. record_gate_review_verdict (ti_verdict ids) org g s r now) d2 = Inr d3"
    and c: "with_gate i (\<lambda>g. record_cold_start_seed (te_int te) (ti_seed ids) org g s r now) d3 = Inr d4"
    and n: "with_gate i (\<lambda>g d. Inr (notify_doc_gate_requester te g s d)) d4 = Inr d5"
    and e: "with_gate i (line_effects te ids org s r now) d5 = Inr d6"
    and f: "with_gate i (\<lambda>g d. Inr (create_gate_approval_evidence_if_applicable g s r d)) d6 = Inr db'"
    using publication_none [OF row1, of te s r seen now] pub row1
    by (auto simp: decision_effects_def res_bind_Inr with_gate_def)
  have d2: "d2 = ?db1" using l by (simp add: record_activity_def decision_entry_def)
  then have r2: "get_gate i d2 = Some ?g" using row1 by (simp add: row_simps)
  have s3: "steady d2 d3" by (rule steady_review [OF with_gateD [OF v r2]])
  obtain g3 where r3: "get_gate i d3 = Some g3" by (rule steady_row [OF s3 r2])
  have s4: "steady d3 d4" by (rule steady_seed [OF with_gateD [OF c r3]])
  obtain g4 where r4: "get_gate i d4 = Some g4" by (rule steady_row [OF s4 r3])
  have s5: "steady d4 d5" using with_gateD [OF n r4] steady_core [OF same_core_reply] by auto
  obtain g5 where r5: "get_gate i d5 = Some g5" by (rule steady_row [OF s5 r4])
  have s6: "steady d5 d6" by (rule steady_core [OF same_core_effects [OF with_gateD [OF e r5]]])
  have st: "steady d2 d6" using s3 s4 s5 s6 by (blast intro: steady_trans)
  obtain g6 where r6: "get_gate i d6 = Some g6" "decision_of g6 = decision_of ?g" by (rule steady_row [OF st r2])
  have "db' = create_gate_approval_evidence_if_applicable g6 s r d6" using with_gateD [OF f r6(1)] by simp
  then show ?thesis using ok st r6 d2 by blast
qed

lemma evidence_frame [simp]:
  "get_gate j (create_gate_approval_evidence_if_applicable g s r db) = get_gate j db"
  "t_activities (create_gate_approval_evidence_if_applicable g s r db) = t_activities db"
  "t_approvals (create_gate_approval_evidence_if_applicable g s r db) = t_approvals db"
  by (simp_all add: create_gate_approval_evidence_if_applicable_def get_gate_def split: option.split)

lemma member_cong: "t_team_members a = t_team_members b \<Longrightarrow> t_org_members a = t_org_members b \<Longrightarrow>
    resolve_member_identity m org a = resolve_member_identity m org b"
  by (simp add: resolve_member_identity_def split: option.split)

lemma decision_of_sel [simp]:
  "g_status (decision_of g) = g_status g"
  "g_resolver_id (decision_of g) = g_resolver_id g"
  "g_resolved_at (decision_of g) = g_resolved_at g"
  "g_resolution_note (decision_of g) = g_resolution_note g"
  "g_org_id (decision_of g) = g_org_id g"
  "g_work_item_type (decision_of g) = g_work_item_type g"
  "g_work_item_id (decision_of g) = g_work_item_id g"
  "g_id (decision_of g) = g_id g"
  "g_gate_type (decision_of g) = g_gate_type g"
  by (simp_all add: decision_of_def)

lemma decision_ofD:
  assumes "decision_of g = decision_of h"
  shows "g_status g = g_status h"
    "g_resolver_id g = g_resolver_id h"
    "g_resolved_at g = g_resolved_at h"
    "g_resolution_note g = g_resolution_note h"
    "g_org_id g = g_org_id h"
    "g_work_item_type g = g_work_item_type h"
    "g_work_item_id g = g_work_item_id h"
    "g_id g = g_id h"
    "g_gate_type g = g_gate_type h"
  using arg_cong [OF assms, of g_status] arg_cong [OF assms, of g_resolver_id] arg_cong [OF assms, of g_resolved_at] arg_cong [OF assms, of g_resolution_note] arg_cong [OF assms, of g_org_id] arg_cong [OF assms, of g_work_item_type] arg_cong [OF assms, of g_work_item_id] arg_cong [OF assms, of g_id] arg_cong [OF assms, of g_gate_type]
  by simp_all



section \<open>Who may not approve\<close>

definition accountable :: "step_run \<Rightarrow> gate_db \<Rightarrow> uuid option" where
  \<comment> \<open>the member whose own work a line would activate: the owner of a hypothesis, the author of a
     document, the owner of the project of an epic\<close>
  "accountable sr db =
     (if sr_entity_type sr = ''hypothesis''
      then map_option hy_owner (List.find (\<lambda>h. hy_id h = sr_entity_id sr) (t_hypotheses db))
      else if sr_entity_type sr = ''doc''
      then Option.bind (List.find (\<lambda>d. d_id d = sr_entity_id sr) (t_docs db)) d_created_by
      else Option.bind (List.find (\<lambda>g. gl_id g = sr_entity_id sr) (t_goals db))
             (\<lambda>g. resolve_project_relay_owner (gl_project g) (sr_org sr) db))"

lemma same_work_end_run [simp]: "same_work db (end_run s now i db)"
  by (simp add: end_run_def upd_step_run_def same_work_def)

text \<open>
  C8: When the approval of a line's gate changes a hypothesis, a document or activates an epic, the
  approver is known, the member accountable for that work is known, and they are two different people.
\<close>

theorem line_approval_separates_duties:
  assumes "apply_workflow_line_resolution te ids run Approved resolver now db = Inr db'" and "get_step_run run db = Some sr"
    and "\<not> same_work db db'"
    and "sr_entity_type sr \<in> {''hypothesis'', ''doc''} \<or> sr_entity_type sr = ''epic'' \<and> sr_to_status sr = ''active''"
  shows "\<exists>m p. resolver = Some m \<and> accountable sr db = Some p \<and> m \<noteq> p"
proof -
  have run: "sr_id sr = run" using assms(2) find_row_Some by (fastforce simp: get_step_run_def)
  consider "apply_hypothesis_active te ids sr resolver now db = Inr db'" "sr_entity_type sr = ''hypothesis''"
    | "apply_doc_confirmed te ids sr resolver now db = Inr db'" "sr_entity_type sr = ''doc''"
    | "apply_epic_transition te ids sr resolver now db = Inr db'" "sr_entity_type sr = ''epic''" "sr_to_status sr = ''active''"
    using assms by (auto simp: apply_workflow_line_resolution_def res_bind_Inr split: option.splits if_splits)
  then show ?thesis
  proof cases
    case 1
    then show ?thesis using assms(3)
      by (auto simp: apply_hypothesis_active_def accountable_def split: option.splits if_splits)
  next
    case 2
    then show ?thesis using assms(3)
      by (auto simp: apply_doc_confirmed_def accountable_def split: option.splits if_splits)
  next
    case 3
    then show ?thesis using assms(3)
      by (auto simp: apply_epic_transition_def accountable_def Let_def split: option.splits if_splits)
  qed
qed

section \<open>The owner's override\<close>

lemma override_fields [simp]:
  "g_id (override_facts d why o1 g) = g_id g" "g_status (override_facts d why o1 g) = g_status g"
  "g_resolver_id (override_facts d why o1 g) = g_resolver_id g"
  by (simp_all add: override_facts_def)

lemma close_none:
  assumes "\<And>a. \<not> P (a\<lparr>ap_status := st, ap_resolved_at := Some now\<rparr>)" "t_approvals db1 = t_approvals db"
  shows "filter P (t_approvals (close_approvals (\<lambda>a. ap_id a \<in> ap_id ` set (filter P (t_approvals db))) st now db1)) = []"
  using assms by (auto simp: close_approvals_def filter_empty_conv)

lemma facts_overridden:
  "map_of (facts_of (override_facts d why o1 g)) ''overridden'' = Some (JBool True)"
  "map_of (facts_of (override_facts d why o1 g)) ''override_reason'' = Some (JStr why)"
  by (simp_all add: override_facts_def facts_of_def dict_update_def)

lemma override_marks_gates:
  "t_gates (override_marks org i owner d why rows sr now db) = upd_row g_id i (override_facts d why owner) (t_gates db)"
  by (simp add: override_marks_def Let_def add_run_event_def upd_gate_def close_approvals_def split: option.split)

lemma override_marks_row:
  "get_gate i db = Some g \<Longrightarrow> get_gate i (override_marks org i owner d why rows sr now db) = Some (override_facts d why owner g)"
  by (simp add: get_gate_def override_marks_gates gate_rows.get_upd)

lemma override_marks_frame:
  "t_activities (override_marks org i owner d why rows sr now db) = t_activities db"
  "t_approvals (override_marks org i owner d why rows sr now db)
     = t_approvals (close_approvals (\<lambda>a. ap_id a \<in> ap_id ` set rows) ''overridden'' now db)"
  by (simp_all add: override_marks_def Let_def add_run_event_def upd_gate_def close_approvals_def split: option.split)

lemma notify_overridden_frame [simp]:
  "get_gate j (notify_overridden te org g ts sr db) = get_gate j db"
  "t_approvals (notify_overridden te org g ts sr db) = t_approvals db"
  "t_activities (notify_overridden te org g ts sr db) = t_activities db"
  by (simp_all add: notify_overridden_def get_gate_def)

lemma mark_overriddenD:
  assumes m: "mark_overridden te org i owner decision reason (filter (pending_approvals org i) (t_approvals db)) sr now db1 = Inr db'"
    and r: "get_gate i db1 = Some g1"
  shows "get_gate i db' = Some (override_facts decision reason owner g1)"
    and "t_approvals db1 = t_approvals db \<Longrightarrow> filter (pending_approvals org i) (t_approvals db') = []"
    and "\<exists>e. t_activities db' = t_activities db1 @ [e] \<and> ac_action e = ''gate_overridden'' \<and> ac_actor_id e = Some owner"
proof -
  let ?rows = "filter (pending_approvals org i) (t_approvals db)"
  let ?d = "override_marks org i owner decision reason ?rows sr now db1"
  let ?g = "override_facts decision reason owner g1"
  have row: "get_gate i ?d = Some ?g" by (rule override_marks_row [OF r])
  define e where "e = \<lparr>ac_org = org, ac_action = ''gate_overridden'', ac_actor_id = Some owner, ac_actor_type = ''human'',
    ac_entity_type = ''gate'', ac_entity_id = i,
    ac_context = override_details decision reason (map ap_approver ?rows) @ [(''head_sha'', jopt_str (g_github_check_run_sha ?g))]\<rparr>"
  have db': "db' = notify_overridden te org ?g (override_targets ?rows) sr (log_activity e ?d)"
    using m row by (simp add: mark_overridden_def with_gate_def record_activity_def e_def)
  show "get_gate i db' = Some ?g" using row by (simp add: db' row_simps)
  show "\<exists>e. t_activities db' = t_activities db1 @ [e] \<and> ac_action e = ''gate_overridden'' \<and> ac_actor_id e = Some owner"
    by (intro exI [of _ e]) (simp add: db' log_activity_def override_marks_frame, simp add: e_def)
  show "filter (pending_approvals org i) (t_approvals db') = []" if "t_approvals db1 = t_approvals db"
    using close_none [where P = "pending_approvals org i" and st = "''overridden''" and now = now, OF _ that]
    by (simp add: db' log_activity_def override_marks_frame pending_approvals_def)
qed



section \<open>Examples\<close>

definition quiet_te :: transition_env where
  "quiet_te = \<lparr>te_line = sample_env, te_num = (\<lambda>_. None), te_docs = \<lparr>dt_excerpt = id, dt_opcodes = (\<lambda>_ _. [])\<rparr>,
     te_recipe = \<lparr>rw_channel_drafts = [], rw_channel_versions = [], rw_publications = [], rw_site_drafts = [], rw_site_versions = [],
       rw_site_posts = [], rw_commands = []\<rparr>,
     te_command = (\<lambda>_ _. Inr), te_publish = (\<lambda>_ _. Inr), te_tasks = []\<rparr>"

definition case_ids :: transition_ids where
  "case_ids = \<lparr>ti_gate = ''g9'', ti_verdict = ''v1'', ti_seed = ''v2'', ti_tid = ''t1'', ti_line = sample_line_ids, ti_outcome = sample_outcome_ids\<rparr>"

definition case_approval :: step_approval where
  "case_approval = \<lparr>ap_id = ''a1'', ap_org = ''o1'', ap_project = ''j1'', ap_step_run = ''r1'', ap_gate = Some ''g1'', ap_group = ''q1'',
     ap_approver = ''m8'', ap_approver_type = ''human'', ap_original_approver = None, ap_requested_by = Some ''m1'', ap_implementation = None,
     ap_role_key = None, ap_kind = ''approver'', ap_blocking = True, ap_status = ''pending'', ap_decision_note = None, ap_resolved_at = None,
     ap_reassigned_from = None, ap_created_at = 100\<rparr>"

definition case_db :: gate_db where
  "case_db = empty_db\<lparr>t_gates := [sample_gate], t_approvals := [case_approval],
     t_team_members := [\<lparr>tm_id = ''m9'', tm_org = ''o1'', tm_role = ''owner'', tm_is_active = True, tm_type = ''human''\<rparr>]\<rparr>"

definition case_approved :: gate_db where
  "case_approved = projr (transition_gate quiet_te case_ids ''o1'' ''g1'' Approved (Some ''m9'') (Some ''fine'') None 200 case_db)"

lemma case_transition: "transition_gate quiet_te case_ids ''o1'' ''g1'' Approved (Some ''m9'') (Some ''fine'') None 200 case_db = Inr case_approved"
proof -
  have "isl (transition_gate quiet_te case_ids ''o1'' ''g1'' Approved (Some ''m9'') (Some ''fine'') None 200 case_db) = False" by code_simp
  then show ?thesis
    by (cases "transition_gate quiet_te case_ids ''o1'' ''g1'' Approved (Some ''m9'') (Some ''fine'') None 200 case_db")
       (simp_all add: case_approved_def)
qed

lemma case_gate: "find_org_gate ''o1'' ''g1'' case_db = Some sample_gate" "g_gate_type sample_gate \<noteq> EXTERNAL_PUBLISH"
  by code_simp+



definition line_case_run :: step_run where
  "line_case_run = (blank_run ''r1'' ''o1'' ''j1'' ''hypothesis'' ''h1'' (Some ''proposed'') ''active'' ''waiting_gate'' ''gate_pending'' ''c1'' ''t1'' 90)
     \<lparr>sr_line_definition_id := Some ''d1''\<rparr>"

definition line_case_db :: gate_db where
  "line_case_db = empty_db\<lparr>t_step_runs := [line_case_run], t_hypotheses := [sample_hypothesis ''proposed'' None],
     t_line_versions := [(sample_draft ''h'')\<lparr>lv_line_definition_id := Some ''d1'', lv_status := V_published,
       lv_config := JObj [(''steps'', JList [JObj [(''from_status'', JStr ''proposed''), (''to_status'', JStr ''active''),
         (''on_approve'', JObj [(''apply_transition'', JBool True)])]])]\<rparr>]\<rparr>"

theorem line_approval_separates_duties_witness:
  "\<exists>m p. Some ''m9'' = Some m \<and> accountable line_case_run line_case_db = Some p \<and> m \<noteq> p"
proof -
  define r where "r = apply_workflow_line_resolution quiet_te case_ids ''r1'' Approved (Some ''m9'') 200 line_case_db"
  have "(case r of Inl _ \<Rightarrow> None | Inr db' \<Rightarrow> Some (map hy_status (t_hypotheses db'))) = Some [''active'']"
    unfolding r_def by code_simp
  then obtain db' where db': "r = Inr db'" and active: "map hy_status (t_hypotheses db') = [''active'']"
    by (cases r) simp_all
  have "map hy_status (t_hypotheses line_case_db) = [''proposed'']" by code_simp
  then have moved: "\<not> same_work line_case_db db'" using active unfolding same_work_def by fastforce
  have run: "get_step_run ''r1'' line_case_db = Some line_case_run" by code_simp
  have "sr_entity_type line_case_run = ''hypothesis''" by code_simp
  then show ?thesis using line_approval_separates_duties [OF db' [unfolded r_def] run moved] by simp
qed


end
