(* ===== verification/Doc_Properties.thy ===== *)
theory Doc_Properties
  imports Gate_Transition
begin

text \<open>
  Properties of documents under decision: what a submission leaves in the inbox, whatever gate was in the
  slot before, and for which content an approval on the ground of a document stands.
\<close>

section \<open>The gate of a submission\<close>

lemma submitted_fields [simp]:
  "g_id (submitted_gate dt d m v now g) = g_id g"
  "gate_key (submitted_gate dt d m v now g) = gate_key g"
  "g_designated_approver_id (submitted_gate dt d m v now g) = g_designated_approver_id g"
  "g_status (submitted_gate dt d m v now g)
     = (if g_status g \<in> {Approved, Rejected, Auto_passed, Voided} then Pending else g_status g)"
  by (simp_all add: submitted_gate_def set_gate_status_def Let_def gate_key_def gate_slot_def)

lemma submitted_status: "g_status (submitted_gate dt d m v now g) \<in> {Pending, Held}"
  by (cases "g_status g") simp_all

lemma map_of_set_default: "map_of (set_default k v xs) j = (if j = k \<and> map_of xs k = None then Some v else map_of xs j)"
  by (simp add: set_default_def update_conv)

lemma map_of_delete_other: "j \<noteq> k \<Longrightarrow> map_of (AList.delete k xs) j = map_of xs j"
  by (simp add: delete_conv)

lemma doc_card_other: "j \<notin> {''doc_summary'', ''doc_diff''} \<Longrightarrow> map_of (doc_card dt d v xs) j = map_of xs j"
  by (simp add: doc_card_def Let_def update_conv map_of_delete_other split: option.split)

lemma submitted_requester:
  "map_of (facts_of (submitted_gate dt d m v now g)) ''requested_by_member_id'' = Some (JStr m)"
  by (simp add: submitted_gate_def Let_def facts_of_def update_conv doc_card_other map_of_set_default)

lemma submission_gates [simp]:
  "t_gates (set_doc_status s i db) = t_gates db" "t_gates (notify_doc_approval_requested org d i m db) = t_gates db"
  by (simp_all add: set_doc_status_def upd_doc_def notify_doc_approval_requested_def Let_def)

abbreviation doc_slot :: "uuid \<Rightarrow> uuid \<Rightarrow> slot" where
  "doc_slot org i \<equiv> \<lparr>sl_org = org, sl_work_item_id = i, sl_work_item_type = ''doc'', sl_gate_type = ''doc_approval'', sl_scope_key = []\<rparr>"

lemma submit_docE:
  assumes "submit_doc dt org c d approver fresh now db = Inr db'"
  obtains a role g db1 where "approver = Some a" "a \<noteq> cl_id c" "approver_eligible org a db"
    "create_gate (doc_gate_args org (cl_id c) d role a) fresh now db = Inr (g, db1)"
    "t_gates db' = t_gates (upd_gate (g_id g) (submitted_gate dt d (cl_id c) (latest_revision org (d_id d) db1) now) db1)"
  using assms by (auto simp: submit_doc_def Let_def res_bind_Inr split: option.splits if_splits)

text \<open>
  C18: Whatever gate was made up for a document before, its submission needs an approver who is another
  person with the right to approve, and leaves the one gate of the document open, with the submitter as the
  requester.
\<close>

theorem submission_opens_gate_of_requester:
  assumes u: "unique_slots db" and s: "submit_doc dt org c d approver fresh now db = Inr db'" and fr: "fresh \<notin> g_id ` set (t_gates db)"
  shows "\<exists>a g. approver = Some a \<and> a \<noteq> cl_id c \<and> approver_eligible org a db
    \<and> unique_slots db' \<and> key_row (target_key (doc_slot org (d_id d)) None None) db' = Some g
    \<and> g_status g \<in> {Pending, Held} \<and> map_of (facts_of g) ''requested_by_member_id'' = Some (JStr (cl_id c))"
proof -
  obtain a role g db1 where ok: "approver = Some a" "a \<noteq> cl_id c" "approver_eligible org a db"
    and c: "create_gate (doc_gate_args org (cl_id c) d role a) fresh now db = Inr (g, db1)"
    and gs: "t_gates db' = t_gates (upd_gate (g_id g) (submitted_gate dt d (cl_id c) (latest_revision org (d_id d) db1) now) db1)"
    by (rule submit_docE [OF s])
  let ?k = "target_key (doc_slot org (d_id d)) None None"
  let ?f = "submitted_gate dt d (cl_id c) (latest_revision org (d_id d) db1) now"
  have "fresh_gate_id (doc_gate_args org (cl_id c) d role a, fresh, now) db" using fr by (simp add: fresh_gate_id_def doc_gate_args_def)
  from create_gate_result [OF u c this] have r: "unique_slots db1" "key_row ?k db1 = Some g" by (simp_all add: doc_gate_args_def)
  then have g: "g \<in> set (t_gates db1)" "gate_key g = ?k" using key_row_Some by blast+
  have "unique_slots (upd_gate (g_id g) ?f db1)" using unique_slots_upd [OF r(1) g(1), of ?f] by simp
  then have u': "unique_slots db'" using unique_slots_cong [OF gs] by simp
  have "?f g \<in> set (t_gates db')" using upd_gate_member [OF r(1) g(1), of ?f] gs by simp
  then have "key_row ?k db' = Some (?f g)" using key_row_iff [OF u'] g(2) by simp
  with ok u' show ?thesis
    by (intro exI [of _ a] exI [of _ "?f g"] conjI) (rule submitted_status submitted_requester | assumption)+
qed

text \<open>
  Of a gate that is in the slot already, the submission changes status and facts but not the approver, so
  that the decision stays with whom an earlier submission designated.
\<close>

lemma resubmission_keeps_old_approver:
  assumes u: "unique_slots db" and s: "submit_doc dt org c d approver fresh now db = Inr db'"
    and g: "find_gate_slot_with_pr_fallback (doc_slot org (d_id d)) None None db = Inr (Some g, db)" "g_status g \<noteq> Rejected"
  shows "\<exists>g' \<in> set (t_gates db'). g_id g' = g_id g \<and> g_designated_approver_id g' = g_designated_approver_id g"
proof -
  obtain a role x db1 where c: "create_gate (doc_gate_args org (cl_id c) d role a) fresh now db = Inr (x, db1)"
    and gs: "t_gates db' = t_gates (upd_gate (g_id x) (submitted_gate dt d (cl_id c) (latest_revision org (d_id d) db1) now) db1)"
    using submit_docE [OF s] by metis
  have x: "x = g" "db1 = db" using c g by (simp_all add: create_gate_def doc_gate_args_def norm_repo_opt_def)
  have "g \<in> set (t_gates db)" using find_gate_slot_result [OF u g(1)] key_row_Some by blast
  from upd_gate_member [OF u this] show ?thesis using gs x by (metis submitted_fields(1,3))
qed

section \<open>Approval on the ground of a document\<close>

lemma resealed_fields [simp]:
  "g_id (resealed_gate sha now g) = g_id g" "g_org_id (resealed_gate sha now g) = g_org_id g"
  "g_gate_type (resealed_gate sha now g) = g_gate_type g"
  "sealed_doc_id (g_seals (resealed_gate sha now g)) = sealed_doc_id (g_seals g)"
  by (simp_all add: resealed_gate_def set_gate_status_def)

lemma resealed_approved:
  "g_status (resealed_gate sha now g) = Approved \<Longrightarrow> sealed_doc_body_sha256 (g_seals (resealed_gate sha now g)) = Some sha"
  by (simp add: resealed_gate_def split: if_splits)

text \<open>
  C33: After a change of a document's content every approval that rests on the document is sealed with the
  hash of the new content; an approval that was sealed with another one is open again and asks for a person.
\<close>

theorem approvals_match_changed_document:
  assumes "g \<in> set (t_gates db)" and "grounded_on org i g"
  shows "\<exists>g' \<in> set (t_gates (reseal_concept_approval_gate_on_doc_update org i sha now db)). g_id g' = g_id g
    \<and> (if g_status g = Approved \<and> sealed_doc_body_sha256 (g_seals g) \<noteq> Some sha
       then g_status g' = Pending \<and> g_requires_human g' \<and> g_reapproval_required g' \<and> g_resolver_id g' = None
       else g_status g' = g_status g \<and> sealed_doc_body_sha256 (g_seals g') = Some sha)"
proof
  show "resealed_gate sha now g \<in> set (t_gates (reseal_concept_approval_gate_on_doc_update org i sha now db))"
    using assms by (force simp: reseal_concept_approval_gate_on_doc_update_def)
qed (auto simp: resealed_gate_def)

text \<open>
  The gate that is open again keeps the old seal, and no decision renews it. Once it is approved for the
  changed content, a save that changes nothing takes the approval back, while going back to the first
  content keeps an approval that was given for the second.
\<close>

lemma reapproval_keeps_old_seal:
  assumes "g_status g = Approved" "sealed_doc_body_sha256 (g_seals g) = Some a" "a \<noteq> b"
    and "g' = decided_gate Approved r note t2 (resealed_gate b t1 g)"
  shows "g_status (resealed_gate b t3 g') = Pending" "resealed_gate a t3 g' = g'" "g_status g' = Approved"
  using assms by (simp_all add: resealed_gate_def decided_gate_def set_gate_status_def)

text \<open>An approved gate that is asked for again stays approved and gets the seal of the new document.\<close>

lemma resubmission_moves_approval:
  assumes "submit_concept_approval tasks org c i wi wit approver fresh now db = Inr (g', db')"
    and "find_gate_slot_with_pr_fallback \<lparr>sl_org = org, sl_work_item_id = wi, sl_work_item_type = wit,
           sl_gate_type = CONCEPT_APPROVAL_GATE_TYPE, sl_scope_key = []\<rparr> None None db = Inr (Some g, db1)"
    and "g_status g = Approved"
  shows "g_status g' = Approved \<and> g_resolver_id g' = g_resolver_id g
    \<and> (\<exists>d. find_doc org i db = Some d \<and> sealed_doc_id (g_seals g') = Some (d_id d)
         \<and> sealed_doc_body_sha256 (g_seals g') = Some (compute_doc_body_sha256 (d_content d)))"
  using assms
  by (auto simp: submit_concept_approval_def res_bind_Inr create_gate_def concept_args_def norm_repo_opt_def grounded_gate_def
      split: if_splits option.splits)

section \<open>Examples\<close>

definition case_doc :: doc where
  "case_doc = \<lparr>d_id = ''d1'', d_org = ''o1'', d_status = ''draft'', d_deleted_at = None, d_created_by = Some ''m1'', d_title = ''Plan'',
     d_project = ''j1'', d_content = Some ''text''\<rparr>"

definition forged_gate :: gate where
  "forged_gate = sample_gate\<lparr>g_org_id := ''o1'', g_work_item_id := ''d1'', g_work_item_type := ''doc'', g_gate_type := ''doc_approval'',
     g_scope_key := [], g_status := Voided, g_neutral_facts := Some [(''requested_by_member_id'', JStr ''m9'')],
     g_seals := (g_seals sample_gate)\<lparr>sealed_doc_id := Some ''d1'', sealed_doc_body_sha256 := Some ''h1''\<rparr>\<rparr>"

definition doc_db :: gate_db where
  "doc_db = empty_db\<lparr>t_gates := [forged_gate], t_docs := [case_doc],
     t_org_members := [\<lparr>om_id = ''m9'', om_org = ''o1'', om_role = ''owner'', om_deleted_at = None, om_created_at = 1\<rparr>]\<rparr>"

definition plain_texts :: doc_texts where "plain_texts = \<lparr>dt_excerpt = id, dt_opcodes = (\<lambda>_ _. [])\<rparr>"

theorem submission_opens_gate_of_requester_witness:
  "\<exists>db' g. submit_doc plain_texts ''o1'' \<lparr>cl_id = ''m1'', cl_type = ''agent''\<rparr> case_doc (Some ''m9'') ''g9'' 200 doc_db = Inr db'
    \<and> key_row (target_key (doc_slot ''o1'' ''d1'') None None) db' = Some g
    \<and> g_status g \<in> {Pending, Held} \<and> map_of (facts_of g) ''requested_by_member_id'' = Some (JStr ''m1'')"
proof -
  have "isl (submit_doc plain_texts ''o1'' \<lparr>cl_id = ''m1'', cl_type = ''agent''\<rparr> case_doc (Some ''m9'') ''g9'' 200 doc_db) = False"
    by code_simp
  then obtain db' where s: "submit_doc plain_texts ''o1'' \<lparr>cl_id = ''m1'', cl_type = ''agent''\<rparr> case_doc (Some ''m9'') ''g9'' 200 doc_db = Inr db'"
    by (auto simp: isl_def) (metis sum.exhaust)
  have "unique_slots doc_db" "''g9'' \<notin> g_id ` set (t_gates doc_db)" by code_simp+
  from submission_opens_gate_of_requester [OF this(1) s this(2)] show ?thesis using s by (auto simp: case_doc_def)
qed

theorem approvals_match_changed_document_witness:
  "\<exists>g' \<in> set (t_gates (reseal_concept_approval_gate_on_doc_update ''o1'' ''d1'' ''h2'' 300
       (doc_db\<lparr>t_gates := [forged_gate\<lparr>g_gate_type := CONCEPT_APPROVAL_GATE_TYPE, g_status := Approved\<rparr>]\<rparr>))).
     g_id g' = ''g1'' \<and> g_status g' = Pending \<and> g_requires_human g'"
proof -
  let ?g = "forged_gate\<lparr>g_gate_type := CONCEPT_APPROVAL_GATE_TYPE, g_status := Approved\<rparr>"
  let ?db = "doc_db\<lparr>t_gates := [?g]\<rparr>"
  have m: "?g \<in> set (t_gates ?db)" by simp
  have o: "grounded_on ''o1'' ''d1'' ?g" "g_id ?g = ''g1''" "sealed_doc_body_sha256 (g_seals ?g) \<noteq> Some ''h2''" by code_simp+
  show ?thesis using approvals_match_changed_document [OF m o(1), of "''h2''" 300] o(2,3) by auto
qed

end
