(* ===== verification/Spec2Isabelle.thy ===== *)
theory Spec2Isabelle
  imports Hitl_Levels Gate_Properties Merge_Properties Publication_Properties Background_Properties Line_Properties Outcome_Properties Billing_Properties Transition_Properties Doc_Properties
begin

text \<open>
  Sprintable is a project tracker in which people and agents work side by side.  Its core, in
  src/backend/app, decides when an agent's work may go on without a person: a \<^emph>\<open>gate\<close> is a row that
  stands for one such question, a \<^emph>\<open>participation\<close> says who did what on a work item, a \<^emph>\<open>verdict\<close>
  records how that went (CI, review, outcome), the \<^emph>\<open>trust score\<close> of a member summarises outcome
  verdicts, and the \<^emph>\<open>merge gate\<close> combines CI, pull request and trust into one of three answers:
  merge, ask a person, block.  Beside it stands the older HITL configuration, which gives every
  transition of a story a level (auto, notify, ask, hard) and parks what must be asked.  What an
  approval sets free, a post, a reply, a newsletter, becomes a \<^emph>\<open>publication command\<close>, a ledger row
  that a worker claims and executes against a provider outside.  A \<^emph>\<open>workflow line\<close> is a published configuration that
  decides, before the board moves a work item, whether the move is free, only observed, or stopped by a
  gate.  A \<^emph>\<open>hypothesis\<close> says what a piece of work should change and how that is measured; sprints, goals and
  loops hang on it, and its outcome flows back into the trust of the people who bet on it.  An organisation
  pays for all this: its \<^emph>\<open>subscription\<close> is bought, upgraded and renewed by \<^emph>\<open>orders\<close> that are charged at a
  payment provider and booked in an append-only \<^emph>\<open>ledger\<close>.  This development models these parts and proves
  what makes them correct.

  \<^bold>\<open>Theories.\<close>  Every definition keeps the name of the Python function, column or constant it models.
  \<^item> Prelude: results with Python's exceptions as values, JSON values, case folding and stripping of
    strings, lookup and in-place update in tables kept as lists of rows, and the two generic
    interfaces: \<^verbatim>\<open>find_or_add\<close> (a row is looked up by a key and inserted when missing) and
    \<^verbatim>\<open>transition_system\<close> (an invariant kept by every step holds in every reached state).
  \<^item> Hitl_Levels: services/gate_config.py, services/gate_enforce.py, models/hitl.py.
    resolve_gate_level and set_gate_level are the level table with its project override;
    enforce_gate and enforce_ask are the guard called before a transition.
  \<^item> Gate_Schema: models/gate.py, models/hitl_config.py, services/gate_resolver.py and the policy
    helpers of services/gate_service.py.  It holds the database of the gate services, one list of
    rows per table, as the record gate_db.
  \<^item> Gate_Service: the lookup find_gate_slot_with_pr_fallback, create_gate, _reopen_rejected_gate and
    the smaller queries of services/gate_service.py.
  \<^item> Gate_Actions: hold, resume, void, undo, discuss, the system resolutions of
    services/gate_service.py, services/gate_self_reclamation.py and reopen_gate_if_new_sha of
    services/gate_github_check.py.
  \<^item> Gate_Machine: the step relation gate_step, one rule per service of the two theories above, its
    invariant, and the frame facts of every step.
  \<^item> Gate_Properties: the properties of the gate services.
  \<^item> Verdicts: services/verdict_recorder.py, services/verdict_capture.py and the CI vocabulary of
    routers/verdict_capture.py, with the answers of GitHub as parameters.
  \<^item> Trust: services/trust_score.py.
  \<^item> Merge_Gate: services/merge_verdict_gate.py, from the Wilson bound to evaluate_merge_gate, the
    reconciliation after a CI webhook and the late participation.
  \<^item> Wilson: the closed form of the code is the root of Wilson's score equation.
  \<^item> Merge_Properties: the properties of the merge gate.
  \<^item> Connections: services/graph_api_errors.py and the failure of a connection in
    services/channel_connection.py, the classification of provider errors and the status they leave.
  \<^item> Sha256: the hash of the standard library with which texts are sealed, on 32-bit words.
  \<^item> Publications: models/publication_command.py, the failure code tables and the operations on one
    command of services/publication_command.py, the cancellations of services/channel_posts.py and the
    pause of services/external_publish_pause.py, over the record pub_db.
  \<^item> Publication_Worker: the execution of one command for every content kind
    (_process_one_command and its branches, services/newsletter_send_execution.py).
  \<^item> Publication_Tick: process_due_publication_commands with its sweep, recovery, claim loop and stop
    notices (services/recipe_publish_failure.py).
  \<^item> Publication_Effects: what an execution does to the ledger, branch by branch.
  \<^item> Publication_Machine: the outbox, an abstract message that is open, being sent or closed; the
    system of workers, crashes, recovery, people and other services as a labelled step relation; the
    interface \<^verbatim>\<open>simulation\<close> and its interpretation on the system, which refines the outbox.
  \<^item> Publication_Properties: the properties of the publication side.
  \<^item> Background_Jobs: models/background_job.py and services/background_jobs.py, the second queue of the
    same worker: enqueue with its deduplication key, the claim within the remaining budget, the outcome
    of a handler and the loop of a tick.
  \<^item> Background_Machine: requests, ticks, handlers and dying workers as a labelled step relation with its
    invariant, and the interpretation of \<^verbatim>\<open>simulation\<close> that refines the stages of a job.
  \<^item> Background_Properties: the properties of that queue.
  \<^item> Line_Config: services/workflow_line_config.py and services/workflow_line_seed.py, the lint, the hash,
    the versions and their publication through a gate.
  \<^item> Line_Engine: services/workflow_line_engine.py with the runtime mode and its circuit breaker, the
    grandfathering of work in flight, the routing context and the records of the evaluations.
  \<^item> Line_Machine: drafts, edits, requests, approvals, closings and seeds as a step relation with its
    invariant.
  \<^item> Line_Properties: the properties of the workflow lines.
  \<^item> Lifecycle: the status changes of hypotheses, sprints and goals (services/hypothesis.py, sprint.py,
    goal.py, repositories/sprint.py), the scorer, and what a resolved hypothesis sets off
    (services/hypothesis_outcome_verdict.py, loop_outcome_attribution.py).
  \<^item> Outcome_Loop: creating, changing, linking and archiving hypotheses, the scoring cron
    (services/hypothesis_scorer.py), loops (services/loop.py) and drafts of an outcome
    (services/hypothesis_outcome_confirm.py).
  \<^item> Outcome_Machine: all of these as a step relation, the invariant of its states and the changes a row
    may go through.
  \<^item> Outcome_Properties: the properties of the outcome loop.
  \<^item> Recipe_Approval: the approval of a recipe round in services/gate_service.py, with the selection of the
    drafts in services/channel_posts.py and services/site_posts.py and the property of that approval.
  \<^item> Doc_Approval: services/doc.py with models/doc.py, the transitions of a document, its submission and the
    approval of a work item on the ground of a document.
  \<^item> Gate_Transition: transition_gate and override_gate of services/gate_service.py with everything they
    set off, services/workflow_line_resolution.py, cold_start_seed.py and evidence_service.py.
  \<^item> Transition_Laws: what each of these effects leaves unchanged.
  \<^item> Transition_Properties, Doc_Properties: the properties of decisions and of documents.
  \<^item> Billing_Calendar: services/billing_period.py on Python's calendar, with the length of a period.
  \<^item> Billing: the tables of billing, services/billing_ledger.py, the answers of the payment provider
    (services/payment/toss_adapter.py) and charge_org (services/billing_charge.py) as a program of
    transactions.
  \<^item> Billing_Accounts: services/billing_charge_amount.py, org_billing_key.py, billing_refund.py and the
    webhook of routers/toss_webhooks.py.
  \<^item> Billing_Plans: services/org_subscription_checkout.py, org_subscription_tier_change.py,
    org_subscription_downgrade.py, billing_pack.py and admin_billing.py.
  \<^item> Billing_Scheduler: services/billing_scheduler.py, billing_reconciliation.py and the billing jobs of
    routers/cron.py.
  \<^item> Billing_Effects: what a transaction of a charge does to orders and ledger; the interface \<^verbatim>\<open>journal\<close>
    of an append-only log with unique references, interpreted on the ledger.
  \<^item> Billing_Machine: charges, retries, sweeps, crashes and a provider that may not be heard, as a labelled
    step relation with its invariant, and the interpretation of \<^verbatim>\<open>simulation\<close> that refines a cash book.
  \<^item> Billing_Laws, Billing_Renewals: lemmas on whole charges, purchases, packs, dunning, renewals and grants.
  \<^item> Billing_Cases: a small organisation, and what billing does on it where one would not expect it.
  \<^item> Billing_Properties: the properties of billing.

  \<^bold>\<open>How the parts meet.\<close>  A CI webhook is captured as a verdict (capture_pr_ci_verdict), then
  reconcile_merge_gate_with_real_evidence evaluates the gate of the work item and of every open gate
  on the same commit.  evaluate_merge_gate reads the trust of the member, takes or creates the gate
  (create_gate, through the lookup with its promotion of rows whose pull request was not known),
  re-opens a rejected one, decides, and writes decision, evidence and anchor back to the row.
  A delivery with a new commit goes to reopen_gate_if_new_sha, which takes an approval back.  A person
  acts on the same row through hold, resume, void, undo and discussion.

  An approved publication asks for a command (create_or_get_publication_command).  A tick of the worker
  repairs first (sweep, paused commands of organisations that resumed, commands whose worker died),
  then claims due commands one at a time, oldest first, while their worst case fits its budget.  The
  execution checks the pause, commits the mark that the provider call starts, calls the publishing
  function, and writes an attempt and the outcome.  The class of the failure code decides what follows:
  a retry with backoff, a block until the connection is restored, or a dead letter for a person.
  What the commands leave of the tick's budget goes to process_due_background_jobs, the queue of work that
  is too long for a request but sends nothing outside: there a retry is always safe.

  A line is drafted, linted, and published by a request that opens a gate (request_publish, complete_publish);
  the active definition points to the published version.  evaluate_line_for_transition asks the runtime
  mode of the organisation, reads that version, lets a grandfathered story pass once, and then records a run
  and lets the move pass, stops it, or asks the merge gate.  An exception on the way becomes the answer
  that the move passes, recorded as an engine failure; five of these open the circuit breaker.

  transition_hypothesis, transition_sprint and transition_goal ask that evaluation before they write, unless a
  gate's approval applies the change.  A hypothesis becomes verified or falsified by a person
  with a measured value, by the approval of a drafted outcome, or by the cron score_hypotheses; each
  records verdicts for the members who bet on it (record_outcome_verdicts, read by the trust score) and
  closes the loops that wait for it (attribute_loop_outcome).

  A person's decision is transition_gate: it writes the row, lets the publication hooks run for the type
  external_publish (seal_recipe_approved_draft, recipe_approval_cascade_target), logs the decision, records a
  verdict and, where outcomes are few, a seed (record_cold_start_seed), answers the requester, and then either
  resolves the line that stopped the move (apply_workflow_line_resolution, which calls the transitions of
  hypotheses, documents, epics and sprints as a gate's approval) or the document, artifact, task or outcome
  the gate stands for.  An approval by a person leaves evidence.  override_gate is the same decision forced by
  the owner.  transition_doc opens the gate of a document through create_gate.

  A checkout or upgrade claims the subscription (checkout_claim, tier_change_claim), computes an amount and
  calls charge_org, which claims the order, asks the provider, books the payment and only then confirms the
  order; the plan is granted when the order is confirmed.  The cron renews what is due (trigger_due_charges),
  retries failed orders day by day until the grace days are over and then downgrades (sweep_dunning_retries),
  asks the provider about orders that stayed pending (sweep_stale_pending_orders), takes expired grants back
  (sweep_expired_grants) and applies reserved downgrades (sweep_pending_tier_downgrades).

  \<^bold>\<open>What the theorems show.\<close>
  \<^item> Merge decisions: an automatic merge needs passing CI, a passing pull request, an approving policy
    and a trust bound above the threshold; a person's approval survives every evaluation; the row
    agrees with the decision; an evaluation always decides; when exactly it blocks.
  \<^item> Gate table: the lookup is never ambiguous, creation is idempotent per slot, every reached state
    satisfies the row invariant, rows keep their identity, a new commit revokes an approval whatever
    the order of deliveries, a late delivery changes nothing.
  \<^item> Actions: which actions a held gate refuses, when a resolution can be undone, that deciding a
    document and undoing it is a round trip, what the reclamation voids, the inbox order.
  \<^item> Verdicts and trust: one verdict per participation and source, idempotent participations, complete
    file lists, the meaning of a trust score, one snapshot a day, the Wilson bound.
  \<^item> HITL levels: a merge passes only on another person's approval, unknown actors get the stricter
    level, asking parks once, overrides are a round trip.

  \<^item> Publication: the worker refines the outbox under every interleaving, so that nothing that may have
    gone out is sent again without a person; a command has one worker and the recovery takes none from
    a living one; every execution settles its command and records one attempt; a tick drains what is
    due; retries are bounded and only known codes are retried; commands are created once; a pause
    loses nothing; failed connections stay failed until they are connected again.
  \<^item> Background jobs: one open job per request, one ending per job whatever workers die, a tick that ends
    and leaves nothing due behind, and the lease that brings a job back from a dead worker.

  \<^item> Workflow lines: a move is stopped only by an enforcing line with a step for it, failures free the board,
    a preview says what the evaluation says, work in flight is not frozen, what is published lints clean
    and never makes the engine fail, nobody approves a publication they asked for.

  \<^item> Outcome loop: resolved hypotheses are measured and stay as they were resolved, a closed loop is the
    frozen record of its hypothesis and one that comes late never closes, a project has one active
    sprint, and a sprint is judged by the points it finished.

  \<^item> Decisions: what a decision writes and logs and what it leaves alone; only a person's approval counts
    as evidence; nobody approves the activation of their own hypothesis, document or epic; a recipe's
    approval is passed on only to what the approver has seen; an override leaves its trace.
  \<^item> Documents: a submission opens the document's gate in the submitter's name; an approval that rests on a
    document is taken back by an edit.

  \<^item> Billing: under every interleaving a confirmed order is paid and booked exactly once and stays so, and
    billing refines a cash book; a checkout or upgrade grants a plan only when its order is paid; one
    purchase runs at a time; packs stay within their limit; a renewal extends by the paid period; a dunning
    sweep settles its day; a lost payment is found again; expired grants are taken back.

  \<^bold>\<open>Abstractions.\<close>
  \<^item> A table is the list of its rows in storage order; a query without an ORDER BY clause reads that
    order.  SQLAlchemy's session is explicit state passing: a service returns the new database, and an
    exception returns none, since the caller rolls the session back.
  \<^item> The clock is read once per call and is the parameter \<^verbatim>\<open>now\<close>, in microseconds.  New identifiers are
    parameters.  Timestamps inside JSON columns are numbers instead of ISO strings.
  \<^item> Strings are lists of characters with code points below 256; lower-casing and stripping are those of
    ASCII.  Error texts and reasons leave out interpolated numbers.
  \<^item> Floats are real numbers.  The square root has a code equation on squares of rational numbers, so
    that the witnesses compute.
  \<^item> Notifications, activities and cards are rows of an outbox; their delivery is not modelled.  A call
    that the code wraps in a catch-all handler is modelled by its normal outcome.
  \<^item> GitHub is a record of answers given as a parameter, a failed request included.
  \<^item> What a publishing function, a provider client or the boost handler answers is the record answer, a
    parameter: the outcome or exception, whether a write request left for the provider, the publication
    rows it leaves.  The theorems on executions leave out the boost commands, whose handler is a
    function of that record.  Texts that the code composes for people are placeholders.
  \<^item> The steps of the publication system are the code's transactions; a row lock is the atomicity of a
    step.  A live worker holds a command for at most REQUEST_LIMIT, 3600 seconds: the code's comment on
    STUCK_IN_PROGRESS_THRESHOLD names this platform limit as what its 90 minutes rest on.
  \<^item> What a job's handler does is its answer, a parameter of the round with the clock and the remaining
    budget: a result, a refusal with the body error_body gives it, or another exception.  A live handler
    ends within LEASE_SECONDS of its claim, which is what the lease rests on.  The insert of a job is one
    atomic step, so the second try of enqueue_background_job never happens.
  \<^item> The text of an exception that the line engine catches is the model's own; what evaluate_merge_gate wrote
    before it raised is dropped.  Python's text of a float in the hashed configuration, and of a float or
    container used as a mode or step type, are parameters.
  \<^item> The two hooks of a decision that publish, _maybe_create_scheduled_publication_command and
    publish_recipe_approved_draft, are the parameters te_command and te_publish, called behind the guards of the
    code; the theorems on decisions leave out the gate type external_publish, the only one they run for.  The
    excerpt of a document and the operations of difflib are the functions of doc_texts.
  \<^item> Python's reading of a number in a text and what Google Analytics answers are parameters of the scorer.
    The decision over a loop's artifacts appears in the step relation only as the row it writes.
  \<^item> The billing services commit on their way, so a result is the exception or value and the database as it
    is left, also when a later statement raises.  What the provider answers is the record toss, a parameter;
    in the step relation it takes the money of an order at most once, with a payment key of its own, which
    is what it documents of order ids.  There every charge of an order id agrees on organisation, amount and
    currency; Billing_Cases shows what a second amount does.  The session is taken to read rows as they
    are, but for the row a checkout has loaded before its claim, which it reads again from its cache.  The
    float product of a proration is its exact floor, a LIKE pattern has no escapes, dates go on after 9999,
    mails are rows, and the administrator's audit log lines are left out.
  \<^item> Functions terminate by structural recursion, but for the claim loop of a tick (its measure is the
    rest of the batch, then the commands not yet skipped), the loops of the job queue (the jobs not yet
    skipped; the attempts the open jobs have left), the steps left of a charge, the search for year and month of a
    date, and the blocks of the hash.  The pages of
    fetch_pages are bounded by the code's own constant.

  \<^bold>\<open>Not modelled.\<close>  The delivery of cards, verdict notices, wake-ups and trust stage events after a decision;
  the publishing functions and provider clients behind a command, the
  drafts and their versions, the boost handler, the events and metric schedules after a publication,
  the operator alert on a budget overrun; the epic links, embeddings and drafted statements of hypotheses,
  the briefing and the artifacts of loops; the
  bodies of the job handlers and the renderings of their results; the approvals and deadlines of the
  workflow lines; the permission checks before the billing services, the encryption of billing keys, the
  text of mails and the metering of usage; the MCP server; the routers,
  schemas, repositories and migrations, which carry requests and rows; the frontend.
\<close>

end
